(* ===== verification/Prelude.thy ===== *)
theory Prelude
  imports Complex_Main "HOL-Library.Word"
begin

text \<open>
  Shared by every component: the collections of hints, the result type in which Python's
  exceptions are values, monadic traversal of lists (the comprehensions of the source, which
  stop at the first exception), the stable sort of \<^verbatim>\<open>sorted(xs, key=...)\<close>, and insertion-ordered
  dictionaries as association lists.
\<close>

named_theorems model_defs \<open>unfolding equations of the small model definitions\<close>
named_theorems exc_rules \<open>inversion rules of the exception monad\<close>

section \<open>Results: an exception or a value\<close>

text \<open>
  A computation that may raise is \<^typ>\<open>'e + 'a\<close>: \<open>Inl e\<close> is the raised exception and \<open>Inr x\<close>
  the returned value, as \<^verbatim>\<open>try\<close> distinguishes them.
\<close>

definition ebind :: "'e + 'a \<Rightarrow> ('a \<Rightarrow> 'e + 'b) \<Rightarrow> 'e + 'b" where
  "ebind m f = (case m of Inl e \<Rightarrow> Inl e | Inr x \<Rightarrow> f x)"

definition emap :: "('a \<Rightarrow> 'b) \<Rightarrow> 'e + 'a \<Rightarrow> 'e + 'b" where
  "emap f m = ebind m (\<lambda>x. Inr (f x))"

lemma ebind_simps [simp]:
  "ebind (Inl e) f = Inl e"
  "ebind (Inr x) f = f x"
  by (simp_all add: ebind_def)

lemma emap_simps [simp]:
  "emap f (Inl e) = Inl e"
  "emap f (Inr x) = Inr (f x)"
  by (simp_all add: emap_def)

lemma ebind_eq_Inr [exc_rules]: "ebind m f = Inr y \<longleftrightarrow> (\<exists>x. m = Inr x \<and> f x = Inr y)"
  by (cases m) auto

lemma ebind_eq_Inl [exc_rules]:
  "ebind m f = Inl e \<longleftrightarrow> m = Inl e \<or> (\<exists>x. m = Inr x \<and> f x = Inl e)"
  by (cases m) auto

lemma emap_eq_Inr [exc_rules]: "emap f m = Inr y \<longleftrightarrow> (\<exists>x. m = Inr x \<and> y = f x)"
  by (cases m) auto

lemma ebind_cong [fundef_cong]:
  "m = m' \<Longrightarrow> (\<And>x. m' = Inr x \<Longrightarrow> f x = g x) \<Longrightarrow> ebind m f = ebind m' g"
  by (cases m') auto

text \<open>\<^verbatim>\<open>[f(x) for x in xs]\<close>: every element is computed, in order, up to the first exception.\<close>

fun etraverse :: "('a \<Rightarrow> 'e + 'b) \<Rightarrow> 'a list \<Rightarrow> 'e + 'b list" where
  "etraverse f [] = Inr []"
| "etraverse f (x # xs) =
     ebind (f x) (\<lambda>y. ebind (etraverse f xs) (\<lambda>ys. Inr (y # ys)))"

lemma etraverse_cong [fundef_cong]:
  "xs = ys \<Longrightarrow> (\<And>x. x \<in> set ys \<Longrightarrow> f x = g x) \<Longrightarrow> etraverse f xs = etraverse g ys"
  by (induction ys arbitrary: xs) (auto simp: ebind_def)

lemma etraverse_Inr_iff:
  "etraverse f xs = Inr ys \<longleftrightarrow> list_all2 (\<lambda>x y. f x = Inr y) xs ys"
  by (induction xs arbitrary: ys) (auto simp: exc_rules list_all2_Cons1)

lemma etraverse_raises_iff:
  "(\<exists>e. etraverse f xs = Inl e) \<longleftrightarrow> (\<exists>x\<in>set xs. \<exists>e. f x = Inl e)"
proof (induction xs)
  case Nil
  then show ?case by simp
next
  case (Cons x xs)
  show ?case
    by (cases "f x"; cases "etraverse f xs") (use Cons.IH in auto)
qed

lemma etraverse_Inl: "etraverse f xs = Inl e \<Longrightarrow> \<exists>x\<in>set xs. f x = Inl e"
  by (induction xs) (auto simp: exc_rules)

lemma etraverse_returns_iff:
  "(\<exists>ys. etraverse f xs = Inr ys) \<longleftrightarrow> (\<forall>x\<in>set xs. \<exists>y. f x = Inr y)"
proof (induction xs)
  case Nil
  then show ?case by simp
next
  case (Cons x xs)
  show ?case
    by (cases "f x"; cases "etraverse f xs") (use Cons.IH in auto)
qed

lemma etraverse_elem:
  "etraverse f xs = Inr ys \<Longrightarrow> x \<in> set xs \<Longrightarrow> \<exists>y\<in>set ys. f x = Inr y"
  by (induction xs arbitrary: ys) (auto simp: exc_rules)

lemma etraverse_total:
  "(\<And>x. x \<in> set xs \<Longrightarrow> f x = Inr (g x)) \<Longrightarrow> etraverse f xs = Inr (map g xs)"
  by (induction xs) auto

lemma list_all2_left: "list_all2 P xs ys \<Longrightarrow> x \<in> set xs \<Longrightarrow> \<exists>y\<in>set ys. P x y"
  by (induction rule: list_all2_induct) auto

lemma list_all2_right: "list_all2 P xs ys \<Longrightarrow> y \<in> set ys \<Longrightarrow> \<exists>x\<in>set xs. P x y"
  by (induction rule: list_all2_induct) auto

text \<open>\<^verbatim>\<open>try: m  except es: h\<close>, and \<^verbatim>\<open>except Exception\<close>.\<close>

definition rescue :: "'e list \<Rightarrow> 'e + 'a \<Rightarrow> 'e + 'a \<Rightarrow> 'e + 'a" where
  "rescue es h m = (case m of Inl e \<Rightarrow> if e \<in> set es then h else Inl e | Inr x \<Rightarrow> Inr x)"

definition rescue_all :: "'a \<Rightarrow> 'e + 'a \<Rightarrow> 'a" where
  "rescue_all h m = (case m of Inl e \<Rightarrow> h | Inr x \<Rightarrow> x)"

lemma rescue_simps [simp]:
  "rescue es h (Inr x) = Inr x"
  "rescue es h (Inl e) = (if e \<in> set es then h else Inl e)"
  by (simp_all add: rescue_def)

lemma rescue_all_simps [simp]:
  "rescue_all h (Inr x) = x"
  "rescue_all h (Inl e) = h"
  by (simp_all add: rescue_all_def)

lemma rescue_eq_Inl [exc_rules]:
  "rescue es h m = Inl e \<longleftrightarrow> (\<exists>e'. m = Inl e' \<and> (if e' \<in> set es then h = Inl e else e' = e))"
  by (cases m) auto

text \<open>\<^verbatim>\<open>any(f(x) for x in xs)\<close>: stops at the first true element or exception.\<close>

fun eany :: "('a \<Rightarrow> 'e + bool) \<Rightarrow> 'a list \<Rightarrow> 'e + bool" where
  "eany f [] = Inr False"
| "eany f (x # xs) = ebind (f x) (\<lambda>b. if b then Inr True else eany f xs)"

lemma eany_total:
  "(\<And>x. x \<in> set xs \<Longrightarrow> f x = Inr (g x)) \<Longrightarrow> eany f xs = Inr (\<exists>x\<in>set xs. g x)"
  by (induction xs) auto

lemma eany_Inl: "eany f xs = Inl e \<Longrightarrow> \<exists>x\<in>set xs. f x = Inl e"
  by (induction xs) (auto simp: exc_rules split: if_splits)

section \<open>Stable sort by a key\<close>

text \<open>\<^verbatim>\<open>sorted(xs, key=k)\<close> is stable, as \<^const>\<open>sort_key\<close> is.\<close>

lemma find_SomeE:
  "List.find P xs = Some x \<Longrightarrow> \<exists>as bs. xs = as @ x # bs \<and> P x \<and> (\<forall>a\<in>set as. \<not> P a)"
proof (induction xs)
  case Nil
  then show ?case by simp
next
  case (Cons y ys)
  show ?case
  proof (cases "P y")
    case True
    with Cons.prems have "y # ys = [] @ x # ys \<and> P x \<and> (\<forall>a\<in>set []. \<not> P a)" by simp
    then show ?thesis by blast
  next
    case False
    with Cons.prems obtain as bs where "ys = as @ x # bs" "P x" "\<forall>a\<in>set as. \<not> P a"
      using Cons.IH by auto
    with False have "y # ys = (y # as) @ x # bs \<and> P x \<and> (\<forall>a\<in>set (y # as). \<not> P a)" by simp
    then show ?thesis by blast
  qed
qed

lemma find_sort_key_min:
  assumes "List.find P (sort_key k xs) = Some x"
  shows "x \<in> set xs \<and> P x \<and> (\<forall>y\<in>set xs. P y \<longrightarrow> k x \<le> k y)"
proof -
  obtain as bs where s: "sort_key k xs = as @ x # bs" "P x" "\<forall>a\<in>set as. \<not> P a"
    using find_SomeE [OF assms] by auto
  have st: "sorted (map k (as @ x # bs))"
    using sorted_sort_key [of k xs] s(1) by simp
  have elems: "set xs = set (as @ x # bs)"
    using s(1) set_sort [of k xs] by simp
  have "\<forall>b\<in>set bs. k x \<le> k b"
    using st by (simp add: sorted_append)
  then show ?thesis
    using s(2,3) elems by auto
qed

text \<open>Among the elements of the least key, the sort keeps the stored order.\<close>

lemma filter_eq_append_ConsE:
  "filter Q xs = as @ x # bs \<Longrightarrow> \<exists>us zs. xs = us @ x # zs \<and> filter Q us = as"
proof (induction xs arbitrary: as)
  case Nil
  then show ?case by simp
next
  case (Cons y ys)
  consider "\<not> Q y" | "Q y" "as = []" | a' where "Q y" "as = y # a'"
    using Cons.prems by (cases "Q y"; cases as) auto
  then show ?case
  proof cases
    case 1
    with Cons.prems obtain us zs where "ys = us @ x # zs" "filter Q us = as"
      using Cons.IH by auto
    with 1 have "y # ys = (y # us) @ x # zs \<and> filter Q (y # us) = as" by simp
    then show ?thesis by blast
  next
    case 2
    with Cons.prems have "y # ys = [] @ x # ys \<and> filter Q [] = as" by simp
    then show ?thesis by blast
  next
    case (3 a')
    with Cons.prems obtain us zs where "ys = us @ x # zs" "filter Q us = a'"
      using Cons.IH [of a'] by auto
    with 3 have "y # ys = (y # us) @ x # zs \<and> filter Q (y # us) = as" by simp
    then show ?thesis by blast
  qed
qed

lemma find_sort_key_first:
  assumes "List.find P (sort_key k xs) = Some x"
  shows "\<exists>as bs. xs = as @ x # bs \<and> (\<forall>a\<in>set as. P a \<longrightarrow> k a \<noteq> k x)"
proof -
  obtain as bs where s: "sort_key k xs = as @ x # bs" "P x" "\<forall>a\<in>set as. \<not> P a"
    using find_SomeE [OF assms] by auto
  let ?same = "\<lambda>y. k y = k x"
  have "filter ?same xs = filter ?same (sort_key k xs)"
    by (rule sort_key_stable [symmetric])
  also have "\<dots> = filter ?same as @ x # filter ?same bs"
    unfolding s(1) by simp
  finally have "filter ?same xs = filter ?same as @ x # filter ?same bs" .
  from filter_eq_append_ConsE [OF this]
  obtain us zs where u: "xs = us @ x # zs" "filter ?same us = filter ?same as"
    by (elim exE conjE)
  have "\<forall>a\<in>set us. P a \<longrightarrow> k a \<noteq> k x"
  proof (intro ballI impI notI)
    fix a assume a: "a \<in> set us" "P a" "k a = k x"
    then have "a \<in> set (filter ?same us)" by simp
    then have "a \<in> set as" unfolding u(2) by simp
    with a(2) s(3) show False by auto
  qed
  then show ?thesis
    using u(1) by blast
qed

section \<open>Dictionaries in insertion order\<close>

text \<open>
  A Python dictionary is an association list in insertion order with distinct keys. \<open>map_of\<close> is
  the lookup; \<open>setdefault\<close> appends at the end when the key is absent; an assignment keeps the
  place of a key that is present.
\<close>

definition setdefault :: "'k \<Rightarrow> 'v \<Rightarrow> ('k \<times> 'v) list \<Rightarrow> ('k \<times> 'v) list" where
  "setdefault k v d = (case map_of d k of None \<Rightarrow> d @ [(k, v)] | Some _ \<Rightarrow> d)"

fun dict_set :: "'k \<Rightarrow> 'v \<Rightarrow> ('k \<times> 'v) list \<Rightarrow> ('k \<times> 'v) list" where
  "dict_set k v [] = [(k, v)]"
| "dict_set k v ((k', v') # d) = (if k' = k then (k, v) # d else (k', v') # dict_set k v d)"

definition dict_pop :: "'k \<Rightarrow> ('k \<times> 'v) list \<Rightarrow> ('k \<times> 'v) list" where
  "dict_pop k d = filter (\<lambda>(k', _). k' \<noteq> k) d"

lemma map_of_setdefault [simp]:
  "map_of (setdefault k v d) = (map_of d)(k \<mapsto> case map_of d k of None \<Rightarrow> v | Some w \<Rightarrow> w)"
  by (auto simp: setdefault_def map_add_def fun_eq_iff split: option.splits)

lemma setdefault_keeps: "map_of d k = Some v \<Longrightarrow> map_of (setdefault k' w d) k = Some v"
  by auto

lemma foldl_keeps:
  "P out \<Longrightarrow> (\<And>d x. P d \<Longrightarrow> P (f d x)) \<Longrightarrow> P (foldl f out xs)"
  by (induction xs arbitrary: out) auto

lemma map_of_dict_set [simp]: "map_of (dict_set k v d) = (map_of d)(k \<mapsto> v)"
  by (induction k v d rule: dict_set.induct) auto

lemma map_of_dict_pop [simp]: "map_of (dict_pop k d) = (map_of d)(k := None)"
  by (induction d) (auto simp: dict_pop_def fun_eq_iff)

lemma fst_set_setdefault: "fst ` set (setdefault k v d) = insert k (fst ` set d)"
  by (force simp: setdefault_def dest: map_of_SomeD split: option.splits)

end
