(* ===== verification/PyFloat.thy ===== *)
theory PyFloat
  imports Prelude
begin

text \<open>
  Python's \<^verbatim>\<open>float\<close>: IEEE 754 binary64 with exact rational values for the finite numbers (both
  zeros are one value), the two infinities and NaN; rounding to nearest, ties to even; and the
  comparisons the source makes. Integer/float comparisons in Python are exact, which the
  rational values give.
\<close>

datatype pyfloat = Fin rat | PInf | NInf | NaN

section \<open>Rounding to binary64\<close>

fun ilog2 :: "nat \<Rightarrow> nat" where
  "ilog2 n = (if n < 2 then 0 else Suc (ilog2 (n div 2)))"

declare ilog2.simps [simp del]

definition pow2 :: "int \<Rightarrow> rat" where
  "pow2 e = (if 0 \<le> e then 2 ^ nat e else 1 / 2 ^ nat (- e))"

definition flog2 :: "rat \<Rightarrow> int" where
  "flog2 q = (case quotient_of q of (n, d) \<Rightarrow>
     let e = int (ilog2 (nat n)) - int (ilog2 (nat d)) in if pow2 e \<le> q then e else e - 1)"

definition round_even :: "rat \<Rightarrow> int" where
  "round_even x = (let f = \<lfloor>x\<rfloor>; r = x - of_int f in
     if r < 1 / 2 then f else if 1 / 2 < r then f + 1 else if even f then f else f + 1)"

definition fl :: "rat \<Rightarrow> pyfloat" where
  "fl q = (if q = 0 then Fin 0 else
     let e = max (flog2 \<bar>q\<bar> - 52) (- 1074);
         v = of_int (round_even (q / pow2 e)) * pow2 e
     in if 2 ^ 1024 \<le> \<bar>v\<bar> then (if 0 < q then PInf else NInf) else Fin v)"

text \<open>\<^verbatim>\<open>float(n)\<close> for an integer: \<^verbatim>\<open>OverflowError\<close> (\<open>None\<close>) when it rounds to no finite float.\<close>

definition float_of_int :: "int \<Rightarrow> pyfloat option" where
  "float_of_int n = (case fl (of_int n) of Fin q \<Rightarrow> Some (Fin q) | _ \<Rightarrow> None)"

lemma ilog2_bounds: "0 < n \<Longrightarrow> 2 ^ ilog2 n \<le> n \<and> n < 2 ^ Suc (ilog2 n)"
proof (induction n rule: ilog2.induct)
  case (1 n)
  show ?case
  proof (cases "n < 2")
    case True
    then show ?thesis using "1.prems" by (simp add: ilog2.simps [of n])
  next
    case False
    then have "2 ^ ilog2 (n div 2) \<le> n div 2 \<and> n div 2 < 2 ^ Suc (ilog2 (n div 2))"
      using "1.IH" by simp
    then show ?thesis using False by (simp add: ilog2.simps [of n]) linarith
  qed
qed

lemma pow2_powi: "pow2 e = 2 powi e"
  by (cases "0 \<le> e") (simp_all add: pow2_def power_int_def inverse_eq_divide power_one_over)

lemma flog2_lower:
  assumes "0 < q" shows "pow2 (flog2 q) \<le> q"
proof -
  obtain n d where nd: "quotient_of q = (n, d)" by fastforce
  then have d: "0 < d" and q: "q = of_int n / of_int d"
    using quotient_of_denom_pos quotient_of_div by auto
  with assms have n: "0 < n" by (simp add: zero_less_divide_iff)
  define a where "a = ilog2 (nat n)"
  define b where "b = ilog2 (nat d)"
  have "2 ^ a \<le> nat n" "nat d < 2 ^ Suc b"
    using n d ilog2_bounds [of "nat n"] ilog2_bounds [of "nat d"] by (simp_all add: a_def b_def)
  then have bounds: "(2::int) ^ a \<le> n" "d < (2::int) ^ Suc b"
    using n d by (simp_all add: le_nat_iff nat_less_iff)
  have "(2::rat) powi (int a - int b - 1) = of_int (2 ^ a) / of_int (2 ^ Suc b)"
    by (simp add: power_int_diff)
  also have "\<dots> \<le> of_int n / of_int d"
    using bounds d n by (intro frac_le) (simp_all only: of_int_le_iff of_int_0_less_iff of_int_0_le_iff)
  finally have "pow2 (int a - int b - 1) \<le> q"
    by (simp add: q pow2_powi)
  then show ?thesis
    by (auto simp: flog2_def nd Let_def a_def b_def)
qed

lemma flog2_less:
  assumes "0 < q" "q < 2 powi k" shows "flog2 q < k"
proof (rule ccontr)
  assume "\<not> flog2 q < k"
  then have "(2::rat) powi k \<le> 2 powi flog2 q"
    by (intro power_int_increasing) auto
  with flog2_lower [OF assms(1)] assms(2) show False
    by (simp add: pow2_powi)
qed

lemma round_even_of_int [simp]: "round_even (of_int n) = n"
  by (simp add: round_even_def Let_def)

text \<open>
  Rounding leaves a dyadic rational with a 53-bit numerator as it is; integers below
  \<open>2 ^ 53\<close> and the quotients of the bucketing hashes are such numbers.
\<close>

lemma fl_dyadic_exact:
  assumes "\<bar>m\<bar> < 2 ^ 53" "k \<le> 1074" and q: "q = of_int m * 2 powi (- int k)"
  shows "fl q = Fin q"
proof (cases "m = 0")
  case True
  then show ?thesis by (simp add: fl_def q)
next
  case False
  define e where "e = max (flog2 \<bar>q\<bar> - 52) (- 1074)"
  have absq: "\<bar>q\<bar> = of_int \<bar>m\<bar> * 2 powi (- int k)"
    by (simp add: q abs_mult)
  have lt: "\<bar>q\<bar> < 2 powi (53 - int k)"
  proof -
    have "(of_int \<bar>m\<bar> :: rat) < of_int (2 ^ 53)"
      using assms(1) by (simp only: of_int_less_iff)
    then have "(of_int \<bar>m\<bar> :: rat) * 2 powi (- int k) < 2 ^ 53 * 2 powi (- int k)"
      by (intro mult_strict_right_mono) simp_all
    also have "\<dots> = 2 powi (53 - int k)"
      by (simp add: power_int_diff power_int_minus divide_inverse)
    finally show ?thesis by (simp only: absq)
  qed
  have pos: "0 < \<bar>q\<bar>" using False by (simp add: q)
  have "e \<le> - int k"
    using flog2_less [OF pos lt] assms(2) by (simp add: e_def)
  then obtain j where e: "e = - int k - int j"
    by (metis nonneg_int_cases diff_ge_0_iff_ge diff_diff_eq2 add_diff_cancel_left' add.commute)
  have scaled: "q / pow2 e = of_int (m * 2 ^ j)"
    by (simp add: q e pow2_powi power_int_diff)
  have unscale: "of_int (m * 2 ^ j) * pow2 e = q"
    by (simp add: q e pow2_powi power_int_diff)
  have small: "\<not> 2 ^ 1024 \<le> \<bar>q\<bar>"
  proof -
    have "(2::rat) powi (53 - int k) \<le> 2 powi 1024"
      by (intro power_int_increasing) auto
    then show ?thesis using lt by simp
  qed
  have "fl q = (let v = of_int (round_even (q / pow2 e)) * pow2 e
      in if 2 ^ 1024 \<le> \<bar>v\<bar> then (if 0 < q then PInf else NInf) else Fin v)"
    using pos by (simp add: fl_def e_def Let_def)
  also have "\<dots> = Fin q"
    unfolding scaled round_even_of_int Let_def unscale using small by simp
  finally show ?thesis .
qed

lemma fl_of_int_exact: "\<bar>n\<bar> < 2 ^ 53 \<Longrightarrow> fl (of_int n) = Fin (of_int n)"
  by (rule fl_dyadic_exact [of n 0]) simp_all

lemma float_of_int_exact: "\<bar>n\<bar> < 2 ^ 53 \<Longrightarrow> float_of_int n = Some (Fin (of_int n))"
  by (simp add: float_of_int_def fl_of_int_exact)

section \<open>Arithmetic\<close>

text \<open>
  Sum, product and quotient of two floats, correctly rounded. Division by zero raises
  \<^verbatim>\<open>ZeroDivisionError\<close> in Python: \<open>None\<close>. The sign of a zero is observed by none of the source.
\<close>

fun fadd :: "pyfloat \<Rightarrow> pyfloat \<Rightarrow> pyfloat" where
  "fadd (Fin a) (Fin b) = fl (a + b)"
| "fadd NaN _ = NaN"
| "fadd _ NaN = NaN"
| "fadd PInf NInf = NaN"
| "fadd NInf PInf = NaN"
| "fadd PInf _ = PInf"
| "fadd _ PInf = PInf"
| "fadd NInf _ = NInf"
| "fadd _ NInf = NInf"

fun fsign :: "pyfloat \<Rightarrow> rat" where
  "fsign (Fin a) = sgn a"
| "fsign PInf = 1"
| "fsign NInf = - 1"
| "fsign NaN = 0"

definition inf_of_sign :: "rat \<Rightarrow> pyfloat" where
  "inf_of_sign s = (if s = 0 then NaN else if 0 < s then PInf else NInf)"

fun fmul :: "pyfloat \<Rightarrow> pyfloat \<Rightarrow> pyfloat" where
  "fmul (Fin a) (Fin b) = fl (a * b)"
| "fmul a b = inf_of_sign (fsign a * fsign b)"

fun fdiv :: "pyfloat \<Rightarrow> pyfloat \<Rightarrow> pyfloat option" where
  "fdiv NaN (Fin b) = (if b = 0 then None else Some NaN)"
| "fdiv (Fin a) (Fin b) = (if b = 0 then None else Some (fl (a / b)))"
| "fdiv (Fin a) PInf = Some (Fin 0)"
| "fdiv (Fin a) NInf = Some (Fin 0)"
| "fdiv a (Fin b) = (if b = 0 then None else Some (inf_of_sign (fsign a * sgn b)))"
| "fdiv _ _ = Some NaN"

fun fneg :: "pyfloat \<Rightarrow> pyfloat" where
  "fneg (Fin a) = Fin (- a)"
| "fneg PInf = NInf"
| "fneg NInf = PInf"
| "fneg NaN = NaN"

fun fabs :: "pyfloat \<Rightarrow> pyfloat" where
  "fabs (Fin a) = Fin \<bar>a\<bar>"
| "fabs PInf = PInf"
| "fabs NInf = PInf"
| "fabs NaN = NaN"

definition fsub :: "pyfloat \<Rightarrow> pyfloat \<Rightarrow> pyfloat" where
  "fsub a b = fadd a (fneg b)"

section \<open>Comparisons\<close>

fun flt :: "pyfloat \<Rightarrow> pyfloat \<Rightarrow> bool" where
  "flt (Fin a) (Fin b) = (a < b)"
| "flt (Fin _) PInf = True"
| "flt NInf (Fin _) = True"
| "flt NInf PInf = True"
| "flt _ _ = False"

fun feq :: "pyfloat \<Rightarrow> pyfloat \<Rightarrow> bool" where
  "feq (Fin a) (Fin b) = (a = b)"
| "feq PInf PInf = True"
| "feq NInf NInf = True"
| "feq _ _ = False"

definition fle :: "pyfloat \<Rightarrow> pyfloat \<Rightarrow> bool" where
  "fle a b = (flt a b \<or> feq a b)"

lemma fle_Fin [simp]: "fle (Fin a) (Fin b) = (a \<le> b)"
  by (auto simp: fle_def)

lemma fle_Fin_bounds: "fle (Fin a) x \<Longrightarrow> fle x (Fin b) \<Longrightarrow> \<exists>q. x = Fin q \<and> a \<le> q \<and> q \<le> b"
  by (cases x) (auto simp: fle_def)

lemma feq_sym: "feq a b = feq b a"
  by (cases a; cases b) auto

end
