(* ===== verification/PyValue.thy ===== *)
theory PyValue
  imports PyFloat
begin

text \<open>
  Python's data as the program handles it: text as a list of code points, the values that JSON
  carries (\<^verbatim>\<open>None\<close>, \<^verbatim>\<open>bool\<close>, \<^verbatim>\<open>int\<close>, \<^verbatim>\<open>float\<close>, \<^verbatim>\<open>str\<close>, \<^verbatim>\<open>list\<close>, \<^verbatim>\<open>dict\<close>) and the two values the engine
  adds to a context (\<^verbatim>\<open>frozenset\<close> of segment ids, \<^verbatim>\<open>datetime\<close>), with Python's equality, truth value
  and text operations; the exceptions the source raises or catches.
\<close>

section \<open>Text\<close>

text \<open>A Python \<^verbatim>\<open>str\<close> is a sequence of code points, lone surrogates included.\<close>

type_synonym pstr = "nat list"

definition str :: "string \<Rightarrow> pstr" where
  "str s = map of_char s"

lemma str_eq_iff [simp]: "str s = str t \<longleftrightarrow> s = t"
  by (simp add: str_def inj_map_eq_map [OF inj_of_char])

lemma length_str [simp]: "length (str s) = length s"
  by (simp add: str_def)

definition is_surrogate :: "nat \<Rightarrow> bool" where
  "is_surrogate c = (0xD800 \<le> c \<and> c \<le> 0xDFFF)"

text \<open>The characters \<^verbatim>\<open>str.isspace\<close> accepts, which \<^verbatim>\<open>str.strip\<close> removes.\<close>

definition py_isspace :: "nat \<Rightarrow> bool" where
  "py_isspace c = (9 \<le> c \<and> c \<le> 13 \<or> 28 \<le> c \<and> c \<le> 32 \<or> c = 0x85 \<or> c = 0xA0 \<or> c = 0x1680 \<or>
     0x2000 \<le> c \<and> c \<le> 0x200A \<or> c = 0x2028 \<or> c = 0x2029 \<or> c = 0x202F \<or> c = 0x205F \<or> c = 0x3000)"

definition strip :: "pstr \<Rightarrow> pstr" where
  "strip s = rev (dropWhile py_isspace (rev (dropWhile py_isspace s)))"

lemma strip_eq_Nil_iff: "strip s = [] \<longleftrightarrow> list_all py_isspace s"
proof -
  have "strip s = [] \<longleftrightarrow> (\<forall>c\<in>set (dropWhile py_isspace s). py_isspace c)"
    by (simp add: strip_def)
  also have "\<dots> \<longleftrightarrow> list_all py_isspace s"
    unfolding list_all_iff
    by (metis dropWhile_eq_Nil_conv hd_dropWhile hd_in_set empty_iff empty_set)
  finally show ?thesis .
qed

text \<open>
  \<^verbatim>\<open>str.lower\<close>, as far as the source can tell: it is only compared with ASCII words, and the code
  points whose lower case is ASCII are the capital letters and the Kelvin sign.
\<close>

definition lower_char :: "nat \<Rightarrow> nat" where
  "lower_char c = (if 65 \<le> c \<and> c \<le> 90 then c + 32 else if c = 0x212A then 107 else c)"

definition lower :: "pstr \<Rightarrow> pstr" where
  "lower s = map lower_char s"

text \<open>
  \<^verbatim>\<open>str.upper\<close>, likewise: the code points whose upper case is one ASCII letter are the small letters,
  the dotless i and the long s.
\<close>

definition upper_char :: "nat \<Rightarrow> nat" where
  "upper_char c = (if 97 \<le> c \<and> c \<le> 122 then c - 32 else if c = 0x131 then 73
     else if c = 0x17F then 83 else c)"

definition upper :: "pstr \<Rightarrow> pstr" where
  "upper s = map upper_char s"

fun is_prefix :: "pstr \<Rightarrow> pstr \<Rightarrow> bool" where
  "is_prefix [] s = True"
| "is_prefix (c # p) [] = False"
| "is_prefix (c # p) (d # s) = (c = d \<and> is_prefix p s)"

definition is_suffix :: "pstr \<Rightarrow> pstr \<Rightarrow> bool" where
  "is_suffix p s = is_prefix (rev p) (rev s)"

text \<open>\<^verbatim>\<open>p in s\<close> for two strings.\<close>

fun is_substring :: "pstr \<Rightarrow> pstr \<Rightarrow> bool" where
  "is_substring p [] = (p = [])"
| "is_substring p (c # s) = (is_prefix p (c # s) \<or> is_substring p s)"

lemma is_prefix_iff: "is_prefix p s \<longleftrightarrow> (\<exists>t. s = p @ t)"
  by (induction p s rule: is_prefix.induct) auto

lemma is_suffix_iff: "is_suffix p s \<longleftrightarrow> (\<exists>t. s = t @ p)"
  unfolding is_suffix_def is_prefix_iff
  by (metis rev_append rev_rev_ident)

lemma is_substring_iff: "is_substring p s \<longleftrightarrow> (\<exists>a b. s = a @ p @ b)"
proof (induction s)
  case Nil
  then show ?case by auto
next
  case (Cons c s)
  have "(\<exists>a b. c # s = a @ p @ b) \<longleftrightarrow> (\<exists>b. c # s = p @ b) \<or> (\<exists>a b. s = a @ p @ b)"
    by (metis append_Cons append_Nil list.inject neq_Nil_conv)
  then show ?case using Cons.IH by (simp add: is_prefix_iff)
qed

text \<open>\<^verbatim>\<open>s.partition(c)\<close>: the text before the first \<open>c\<close>, whether there is one, and the rest.\<close>

fun partition_at :: "nat \<Rightarrow> pstr \<Rightarrow> pstr \<times> bool \<times> pstr" where
  "partition_at c [] = ([], False, [])"
| "partition_at c (d # s) =
     (if d = c then ([], True, s)
      else case partition_at c s of (h, sep, t) \<Rightarrow> (d # h, sep, t))"

text \<open>\<^verbatim>\<open>s.split(c)\<close> for a one-character separator: never empty.\<close>

fun split_at :: "nat \<Rightarrow> pstr \<Rightarrow> pstr list" where
  "split_at c [] = [[]]"
| "split_at c (d # s) =
     (if d = c then [] # split_at c s
      else case split_at c s of [] \<Rightarrow> [[d]] | p # ps \<Rightarrow> (d # p) # ps)"

fun join_with :: "pstr \<Rightarrow> pstr list \<Rightarrow> pstr" where
  "join_with sep [] = []"
| "join_with sep [p] = p"
| "join_with sep (p # q # ps) = p @ sep @ join_with sep (q # ps)"

lemma split_at_nonempty [simp]: "split_at c s \<noteq> []"
  by (induction s) (auto split: list.splits)

lemma join_split_at: "join_with [c] (split_at c s) = s"
proof (induction s)
  case Nil
  then show ?case by simp
next
  case (Cons d s)
  obtain p ps where s: "split_at c s = p # ps"
    by (cases "split_at c s") auto
  with Cons.IH show ?case
    by (cases ps) auto
qed

lemma partition_at_eq:
  "partition_at c s = (h, sep, t) \<Longrightarrow>
     c \<notin> set h \<and> (if sep then s = h @ c # t else s = h \<and> t = [])"
  by (induction s arbitrary: h) (auto split: if_splits prod.splits)

text \<open>Decimal text of an integer.\<close>

fun dec_digits :: "nat \<Rightarrow> pstr" where
  "dec_digits n = (if n < 10 then [48 + n] else dec_digits (n div 10) @ [48 + n mod 10])"

declare dec_digits.simps [simp del]

definition dec_of_int :: "int \<Rightarrow> pstr" where
  "dec_of_int n = (if n < 0 then 45 # dec_digits (nat (- n)) else dec_digits (nat n))"

section \<open>Exceptions\<close>

datatype unevaluable_reason =
  Refused | InputLength | InputEncoding | NotAString | PatternError | OutOfRange

datatype exc =
    PatternUnevaluable unevaluable_reason
  | TimeWindowUnreadable
  | SegmentMembershipUnavailable "pstr list"
  | TargetingRuleShapeError
  | TargetingRulesError pstr pstr
  | ValidationError
  | PyTypeError
  | PyValueError
  | JSONDecodeError
  | PyOverflowError
  | PyZeroDivisionError
  | PyOSError
  | PyUnicodeError
  | PyRecursionError
  | PyAttributeError
  | PyKeyError
  | ArchivedFlagError
  | FlagStatusReadOnly
  | IntegrityError

type_synonym 'a res = "exc + 'a"

section \<open>Values\<close>

text \<open>
  A \<^verbatim>\<open>datetime\<close> is a wall clock in microseconds since 0001-01-01, with the UTC offset in
  microseconds when it is aware.
\<close>

datatype pydatetime = Naive int | Aware int int

datatype pyval =
    PNone
  | PBool bool
  | PInt int
  | PFloat pyfloat
  | PStr pstr
  | PList "pyval list"
  | PDict "(pstr \<times> pyval) list"
  | PFrozenset "pstr list"
  | PDatetime pydatetime

text \<open>The parts of a list and of an object are smaller than the whole.\<close>

lemma item_size: "(k, v) \<in> set d \<Longrightarrow> size v < size_list (size_prod (\<lambda>_. 0) size) d"
  by (induction d) auto

lemma elem_size: "x \<in> set xs \<Longrightarrow> size x < size (PList xs)"
  by (induction xs) auto

fun is_str :: "pyval \<Rightarrow> bool" where "is_str (PStr _) = True" | "is_str _ = False"
fun is_bool :: "pyval \<Rightarrow> bool" where "is_bool (PBool _) = True" | "is_bool _ = False"
fun is_list :: "pyval \<Rightarrow> bool" where "is_list (PList _) = True" | "is_list _ = False"
fun is_dict :: "pyval \<Rightarrow> bool" where "is_dict (PDict _) = True" | "is_dict _ = False"

text \<open>The number of a \<^verbatim>\<open>bool\<close>, \<^verbatim>\<open>int\<close> or \<^verbatim>\<open>float\<close>, exactly.\<close>

fun num_value :: "pyval \<Rightarrow> pyfloat option" where
  "num_value (PBool b) = Some (Fin (if b then 1 else 0))"
| "num_value (PInt n) = Some (Fin (of_int n))"
| "num_value (PFloat x) = Some x"
| "num_value _ = None"

text \<open>\<^verbatim>\<open>isinstance(v, (bool, int, float))\<close>\<close>

definition is_scalar :: "pyval \<Rightarrow> bool" where
  "is_scalar v = (num_value v \<noteq> None)"

text \<open>Comparison of two instants; mixing a naive and an aware one raises \<^verbatim>\<open>TypeError\<close>.\<close>

fun instant_pair :: "pydatetime \<Rightarrow> pydatetime \<Rightarrow> (int \<times> int) res" where
  "instant_pair (Naive a) (Naive b) = Inr (a, b)"
| "instant_pair (Aware a oa) (Aware b ob) = Inr (a - oa, b - ob)"
| "instant_pair _ _ = Inl PyTypeError"

text \<open>Python's \<^verbatim>\<open>==\<close>.\<close>

definition num_eq :: "pyval \<Rightarrow> pyval \<Rightarrow> bool" where
  "num_eq a b =
     (case num_value a of None \<Rightarrow> False
      | Some x \<Rightarrow> (case num_value b of None \<Rightarrow> False | Some y \<Rightarrow> feq x y))"

definition datetime_eq :: "pydatetime \<Rightarrow> pydatetime \<Rightarrow> bool" where
  "datetime_eq a b = (case instant_pair a b of Inr (x, y) \<Rightarrow> x = y | Inl _ \<Rightarrow> False)"

function py_eq :: "pyval \<Rightarrow> pyval \<Rightarrow> bool"
  and py_eq_list :: "pyval list \<Rightarrow> pyval list \<Rightarrow> bool"
  and py_eq_items :: "(pstr \<times> pyval) list \<Rightarrow> (pstr \<times> pyval) list \<Rightarrow> bool" where
  "py_eq PNone v = (v = PNone)"
| "py_eq (PBool b) v = num_eq (PBool b) v"
| "py_eq (PInt n) v = num_eq (PInt n) v"
| "py_eq (PFloat x) v = num_eq (PFloat x) v"
| "py_eq (PStr s) v = (v = PStr s)"
| "py_eq (PList xs) v = (case v of PList ys \<Rightarrow> py_eq_list xs ys | _ \<Rightarrow> False)"
| "py_eq (PDict d) v =
     (case v of PDict e \<Rightarrow> length d = length e \<and> py_eq_items d e | _ \<Rightarrow> False)"
| "py_eq (PFrozenset xs) v = (case v of PFrozenset ys \<Rightarrow> set xs = set ys | _ \<Rightarrow> False)"
| "py_eq (PDatetime a) v = (case v of PDatetime b \<Rightarrow> datetime_eq a b | _ \<Rightarrow> False)"
| "py_eq_list [] ys = (ys = [])"
| "py_eq_list (x # xs) ys = (case ys of [] \<Rightarrow> False | y # ys' \<Rightarrow> py_eq x y \<and> py_eq_list xs ys')"
| "py_eq_items [] d = True"
| "py_eq_items ((k, v) # kvs) d =
     ((case map_of d k of None \<Rightarrow> False | Some w \<Rightarrow> py_eq v w) \<and> py_eq_items kvs d)"
  by pat_completeness auto
termination
  by (relation "measure (\<lambda>x. case x of Inl (v, _) \<Rightarrow> size v
        | Inr (Inl (vs, _)) \<Rightarrow> size_list size vs
        | Inr (Inr (kvs, _)) \<Rightarrow> size_list (size_prod (\<lambda>_. 0) size) kvs)") auto

text \<open>\<^verbatim>\<open>bool(v)\<close>\<close>

fun truthy :: "pyval \<Rightarrow> bool" where
  "truthy PNone = False"
| "truthy (PBool b) = b"
| "truthy (PInt n) = (n \<noteq> 0)"
| "truthy (PFloat x) = (x \<noteq> Fin 0)"
| "truthy (PStr s) = (s \<noteq> [])"
| "truthy (PList xs) = (xs \<noteq> [])"
| "truthy (PDict kvs) = (kvs \<noteq> [])"
| "truthy (PFrozenset xs) = (xs \<noteq> [])"
| "truthy (PDatetime _) = True"

text \<open>\<^verbatim>\<open>d.get(k)\<close> on a dictionary, and on any value (\<^verbatim>\<open>AttributeError\<close> when it has no \<^verbatim>\<open>get\<close>).\<close>

definition dget :: "(pstr \<times> pyval) list \<Rightarrow> string \<Rightarrow> pyval" where
  "dget d k = (case map_of d (str k) of None \<Rightarrow> PNone | Some v \<Rightarrow> v)"

definition has_key :: "(pstr \<times> pyval) list \<Rightarrow> string \<Rightarrow> bool" where
  "has_key d k = (map_of d (str k) \<noteq> None)"

section \<open>The interpreter's text and number conversions\<close>

text \<open>
  CPython's text-to-number parsers, the \<^verbatim>\<open>repr\<close> of floats and containers, and its Unicode tables
  are not modelled; the functions that use them take them from this record.
  \<^item> \<open>float_text s\<close> is \<^verbatim>\<open>float(s)\<close>, \<open>None\<close> for \<^verbatim>\<open>ValueError\<close>;
  \<^item> \<open>int_text s\<close> is \<^verbatim>\<open>int(s)\<close>, likewise;
  \<^item> \<open>repr_text v\<close> is \<^verbatim>\<open>str(v)\<close> of a float, a list, a dictionary, a set or a datetime;
  \<^item> \<open>digit_char\<close>, \<open>alnum_char\<close> and \<open>decimal_char\<close> are the tables of \<^verbatim>\<open>str.isdigit\<close>,
    \<^verbatim>\<open>str.isalnum\<close> and of the regular expression class \<^verbatim>\<open>\d\<close>.
\<close>

record pyenv =
  float_text :: "pstr \<Rightarrow> pyfloat option"
  int_text :: "pstr \<Rightarrow> int option"
  repr_text :: "pyval \<Rightarrow> pstr"
  digit_char :: "nat \<Rightarrow> bool"
  alnum_char :: "nat \<Rightarrow> bool"
  decimal_char :: "nat \<Rightarrow> bool"

text \<open>\<^verbatim>\<open>str(v)\<close>\<close>

fun py_str :: "'z pyenv_scheme \<Rightarrow> pyval \<Rightarrow> pstr" where
  "py_str E PNone = str ''None''"
| "py_str E (PBool b) = (if b then str ''True'' else str ''False'')"
| "py_str E (PInt n) = dec_of_int n"
| "py_str E (PStr s) = s"
| "py_str E v = repr_text E v"

text \<open>\<^verbatim>\<open>float(v)\<close>\<close>

fun py_float :: "'z pyenv_scheme \<Rightarrow> pyval \<Rightarrow> pyfloat res" where
  "py_float E (PBool b) = Inr (Fin (if b then 1 else 0))"
| "py_float E (PInt n) = (case float_of_int n of None \<Rightarrow> Inl PyOverflowError | Some x \<Rightarrow> Inr x)"
| "py_float E (PFloat x) = Inr x"
| "py_float E (PStr s) = (case float_text E s of None \<Rightarrow> Inl PyValueError | Some x \<Rightarrow> Inr x)"
| "py_float E _ = Inl PyTypeError"

text \<open>\<^verbatim>\<open>int(v)\<close>: a float is truncated towards zero.\<close>

definition trunc_rat :: "rat \<Rightarrow> int" where
  "trunc_rat q = (if 0 \<le> q then \<lfloor>q\<rfloor> else \<lceil>q\<rceil>)"

fun py_int_of_float :: "pyfloat \<Rightarrow> int res" where
  "py_int_of_float (Fin q) = Inr (trunc_rat q)"
| "py_int_of_float NaN = Inl PyValueError"
| "py_int_of_float _ = Inl PyOverflowError"

fun py_int :: "'z pyenv_scheme \<Rightarrow> pyval \<Rightarrow> int res" where
  "py_int E (PBool b) = Inr (if b then 1 else 0)"
| "py_int E (PInt n) = Inr n"
| "py_int E (PFloat x) = py_int_of_float x"
| "py_int E (PStr s) = (case int_text E s of None \<Rightarrow> Inl PyValueError | Some n \<Rightarrow> Inr n)"
| "py_int E _ = Inl PyTypeError"

text \<open>\<^verbatim>\<open>str.isdigit\<close> and \<^verbatim>\<open>str.isalnum\<close>: not empty, and every character in the table.\<close>

definition py_isdigit :: "'z pyenv_scheme \<Rightarrow> pstr \<Rightarrow> bool" where
  "py_isdigit E s = (s \<noteq> [] \<and> list_all (digit_char E) s)"

definition py_isalnum :: "'z pyenv_scheme \<Rightarrow> pstr \<Rightarrow> bool" where
  "py_isalnum E s = (s \<noteq> [] \<and> list_all (alnum_char E) s)"

text \<open>A concrete interpreter for evaluation: ASCII tables, and text that holds a small integer.\<close>

fun ascii_nat :: "pstr \<Rightarrow> nat \<Rightarrow> nat option" where
  "ascii_nat [] n = Some n"
| "ascii_nat (c # s) n = (if 48 \<le> c \<and> c \<le> 57 then ascii_nat s (10 * n + (c - 48)) else None)"

definition ascii_int :: "pstr \<Rightarrow> int option" where
  "ascii_int s = (if s = [] then None else map_option int (ascii_nat s 0))"

definition ascii_env :: pyenv where
  "ascii_env = \<lparr>float_text = (\<lambda>s. map_option (\<lambda>n. fl (of_int n)) (ascii_int s)),
     int_text = ascii_int, repr_text = (\<lambda>_. []),
     digit_char = (\<lambda>c. 48 \<le> c \<and> c \<le> 57),
     alnum_char = (\<lambda>c. 48 \<le> c \<and> c \<le> 57 \<or> 65 \<le> c \<and> c \<le> 90 \<or> 97 \<le> c \<and> c \<le> 122),
     decimal_char = (\<lambda>c. 48 \<le> c \<and> c \<le> 57)\<rparr>"

end
