(* ===== verification/Targeting_Schema.thy ===== *)
theory Targeting_Schema
  imports PyValue
begin

text \<open>
  The targeting rule models of \<^verbatim>\<open>backend/app/schemas/targeting_rule.py\<close>: operators, conditions,
  nested groups and rules, and the validators a condition passes when it is constructed. The two
  fields of a condition that no evaluator reads (\<^verbatim>\<open>attribute_type\<close>, \<^verbatim>\<open>validation_schema\<close>) and the
  descriptive fields of a rule are left out; \<^verbatim>\<open>groups: None\<close> is the empty list, as every reader
  treats it.
\<close>

section \<open>Operators\<close>

datatype logical_operator = AND | OR | NOT

datatype operator_type =
    EQUALS | NOT_EQUALS | CONTAINS | NOT_CONTAINS | STARTS_WITH | ENDS_WITH
  | GREATER_THAN | GREATER_THAN_OR_EQUAL | LESS_THAN | LESS_THAN_OR_EQUAL
  | IN | NOT_IN | BEFORE | AFTER | BETWEEN | CONTAINS_ALL | CONTAINS_ANY | MATCH_REGEX
  | IS_NULL | IS_NOT_NULL | SEMANTIC_VERSION | GEO_DISTANCE | TIME_WINDOW
  | PERCENTAGE_BUCKET | JSON_PATH | ARRAY_LENGTH | IN_SEGMENT | NOT_IN_SEGMENT

fun logical_name :: "logical_operator \<Rightarrow> pstr" where
  "logical_name AND = str ''and''"
| "logical_name OR = str ''or''"
| "logical_name NOT = str ''not''"

fun operator_name :: "operator_type \<Rightarrow> pstr" where
  "operator_name EQUALS = str ''eq''"
| "operator_name NOT_EQUALS = str ''neq''"
| "operator_name CONTAINS = str ''contains''"
| "operator_name NOT_CONTAINS = str ''not_contains''"
| "operator_name STARTS_WITH = str ''starts_with''"
| "operator_name ENDS_WITH = str ''ends_with''"
| "operator_name GREATER_THAN = str ''gt''"
| "operator_name GREATER_THAN_OR_EQUAL = str ''gte''"
| "operator_name LESS_THAN = str ''lt''"
| "operator_name LESS_THAN_OR_EQUAL = str ''lte''"
| "operator_name IN = str ''in''"
| "operator_name NOT_IN = str ''not_in''"
| "operator_name BEFORE = str ''before''"
| "operator_name AFTER = str ''after''"
| "operator_name BETWEEN = str ''between''"
| "operator_name CONTAINS_ALL = str ''contains_all''"
| "operator_name CONTAINS_ANY = str ''contains_any''"
| "operator_name MATCH_REGEX = str ''match_regex''"
| "operator_name IS_NULL = str ''is_null''"
| "operator_name IS_NOT_NULL = str ''is_not_null''"
| "operator_name SEMANTIC_VERSION = str ''semantic_version''"
| "operator_name GEO_DISTANCE = str ''geo_distance''"
| "operator_name TIME_WINDOW = str ''time_window''"
| "operator_name PERCENTAGE_BUCKET = str ''percentage_bucket''"
| "operator_name JSON_PATH = str ''json_path''"
| "operator_name ARRAY_LENGTH = str ''array_length''"
| "operator_name IN_SEGMENT = str ''in_segment''"
| "operator_name NOT_IN_SEGMENT = str ''not_in_segment''"

section \<open>Conditions, groups, rules\<close>

record condition =
  attribute :: pstr
  operator :: operator_type
  cvalue :: pyval
  additional_value :: pyval

datatype rule_group =
  RuleGroup (group_operator: logical_operator) (group_conditions: "condition list")
    (group_groups: "rule_group list")

record targeting_rule =
  rule_id :: pstr
  rule :: rule_group
  rollout_percentage :: int
  priority :: int

record targeting_rules =
  rules :: "targeting_rule list"
  default_rule :: "targeting_rule option"

text \<open>Every condition of a group, nested groups included, in evaluation order.\<close>

fun all_conditions :: "rule_group \<Rightarrow> condition list" where
  "all_conditions (RuleGroup op cs gs) = cs @ concat (map all_conditions gs)"

section \<open>The semantic version pattern\<close>

text \<open>
  \<^verbatim>\<open>re.match(_SEMVER_PATTERN, s)\<close>: three numbers without leading zeros, an optional pre-release
  and an optional build part. \<^verbatim>\<open>$\<close> also matches before a final line feed.
\<close>

definition ascii_letter_or_dash :: "nat \<Rightarrow> bool" where
  "ascii_letter_or_dash c = (65 \<le> c \<and> c \<le> 90 \<or> 97 \<le> c \<and> c \<le> 122 \<or> c = 45)"

definition ascii_ident_char :: "nat \<Rightarrow> bool" where
  "ascii_ident_char c = (ascii_letter_or_dash c \<or> 48 \<le> c \<and> c \<le> 57)"

definition semver_number :: "'z pyenv_scheme \<Rightarrow> pstr \<Rightarrow> bool" where
  "semver_number E s = (case s of [] \<Rightarrow> False
     | c # r \<Rightarrow> (c = 48 \<and> r = []) \<or> (49 \<le> c \<and> c \<le> 57 \<and> list_all (decimal_char E) r))"

definition semver_alnum_ident :: "'z pyenv_scheme \<Rightarrow> pstr \<Rightarrow> bool" where
  "semver_alnum_ident E s =
     list_ex (\<lambda>i. list_all (decimal_char E) (take i s) \<and>
         (case drop i s of [] \<Rightarrow> False | c # r \<Rightarrow> ascii_letter_or_dash c \<and> list_all ascii_ident_char r))
       [0..<length s]"

definition semver_prerelease_ident :: "'z pyenv_scheme \<Rightarrow> pstr \<Rightarrow> bool" where
  "semver_prerelease_ident E s = (semver_number E s \<or> semver_alnum_ident E s)"

definition semver_build_ident :: "pstr \<Rightarrow> bool" where
  "semver_build_ident s = (s \<noteq> [] \<and> list_all ascii_ident_char s)"

definition semver_full :: "'z pyenv_scheme \<Rightarrow> pstr \<Rightarrow> bool" where
  "semver_full E s =
     (case partition_at 43 s of (left, has_build, build) \<Rightarrow>
      case partition_at 45 left of (core, has_pre, pre) \<Rightarrow>
        length (split_at 46 core) = 3 \<and> list_all (semver_number E) (split_at 46 core) \<and>
        (has_pre \<longrightarrow> list_all (semver_prerelease_ident E) (split_at 46 pre)) \<and>
        (has_build \<longrightarrow> list_all semver_build_ident (split_at 46 build)))"

definition semver_matches :: "'z pyenv_scheme \<Rightarrow> pstr \<Rightarrow> bool" where
  "semver_matches E s = (semver_full E s \<or> (s \<noteq> [] \<and> last s = 10 \<and> semver_full E (butlast s)))"

section \<open>Validation of a condition\<close>

text \<open>\<^verbatim>\<open>Condition.validate_attribute_name\<close>\<close>

definition valid_attribute_name :: "'z pyenv_scheme \<Rightarrow> pstr \<Rightarrow> bool" where
  "valid_attribute_name E v =
     (v \<noteq> [] \<and> py_isalnum E (filter (\<lambda>c. c \<noteq> 46) (filter (\<lambda>c. c \<noteq> 95) v)) \<and> length v \<le> 100)"

text \<open>
  The coordinates check of \<^verbatim>\<open>validate_operator_value_compatibility\<close>: an integer that no float
  holds raises \<^verbatim>\<open>OverflowError\<close>, which pydantic does not turn into a validation error.
\<close>

definition validate_geo_value :: "'z pyenv_scheme \<Rightarrow> pyval \<Rightarrow> unit res" where
  "validate_geo_value E value =
     (case value of
        PList [a, b] \<Rightarrow>
          rescue [PyValueError, PyTypeError] (Inl ValidationError)
            (ebind (py_float E a) (\<lambda>lat. ebind (py_float E b) (\<lambda>lon.
               if \<not> (fle (Fin (- 90)) lat \<and> fle lat (Fin 90)) then Inl PyValueError
               else if \<not> (fle (Fin (- 180)) lon \<and> fle lon (Fin 180)) then Inl PyValueError
               else Inr ())))
      | _ \<Rightarrow> Inl ValidationError)"

definition validate_operator_value ::
  "'z pyenv_scheme \<Rightarrow> operator_type \<Rightarrow> pyval \<Rightarrow> pyval \<Rightarrow> unit res" where
  "validate_operator_value E op value additional =
     (if op \<in> {IN, NOT_IN, CONTAINS_ALL, CONTAINS_ANY} \<and> \<not> is_list value then Inl ValidationError
      else if op \<in> {BETWEEN, GEO_DISTANCE} \<and> additional = PNone then Inl ValidationError
      else if op = GEO_DISTANCE then validate_geo_value E value
      else if op = SEMANTIC_VERSION \<and>
        \<not> (case value of PStr s \<Rightarrow> semver_matches E s | _ \<Rightarrow> False) then Inl ValidationError
      else if op = JSON_PATH \<and>
        \<not> (case value of PStr s \<Rightarrow> is_prefix (str ''$.'') s | _ \<Rightarrow> False) then Inl ValidationError
      else if op = TIME_WINDOW \<and>
        \<not> (case value of PDict d \<Rightarrow> has_key d ''start'' \<and> has_key d ''end'' | _ \<Rightarrow> False)
        then Inl ValidationError
      else Inr ())"

text \<open>\<^verbatim>\<open>Condition(attribute=..., operator=..., value=..., additional_value=...)\<close>\<close>

definition make_condition ::
  "'z pyenv_scheme \<Rightarrow> pstr \<Rightarrow> operator_type \<Rightarrow> pyval \<Rightarrow> pyval \<Rightarrow> condition res" where
  "make_condition E attr op value additional =
     (if \<not> valid_attribute_name E attr then Inl ValidationError
      else ebind (validate_operator_value E op value additional)
        (\<lambda>_. Inr \<lparr>attribute = attr, operator = op, cvalue = value, additional_value = additional\<rparr>))"

text \<open>What every condition that was constructed satisfies.\<close>

definition valid_condition :: "'z pyenv_scheme \<Rightarrow> condition \<Rightarrow> bool" where
  "valid_condition E c =
     (make_condition E (attribute c) (operator c) (cvalue c) (additional_value c) = Inr c)"

definition valid_group :: "'z pyenv_scheme \<Rightarrow> rule_group \<Rightarrow> bool" where
  "valid_group E g = list_all (valid_condition E) (all_conditions g)"

text \<open>\<^verbatim>\<open>rollout_percentage: int = Field(100, ge=0, le=100)\<close>\<close>

definition valid_rule :: "'z pyenv_scheme \<Rightarrow> targeting_rule \<Rightarrow> bool" where
  "valid_rule E r = (valid_group E (rule r) \<and> 0 \<le> rollout_percentage r \<and> rollout_percentage r \<le> 100)"

definition valid_rules :: "'z pyenv_scheme \<Rightarrow> targeting_rules \<Rightarrow> bool" where
  "valid_rules E rs =
     (list_all (valid_rule E) (rules rs) \<and>
      (case default_rule rs of None \<Rightarrow> True | Some r \<Rightarrow> valid_rule E r))"

lemma make_condition_valid: "make_condition E a op v w = Inr c \<Longrightarrow> valid_condition E c"
  by (auto simp: make_condition_def valid_condition_def exc_rules split: if_splits)

lemma valid_condition_attribute: "valid_condition E c \<Longrightarrow> valid_attribute_name E (attribute c)"
  by (auto simp: valid_condition_def make_condition_def split: if_splits)

end
