(* ===== verification/Md5.thy ===== *)
theory Md5
  imports PyValue
begin

text \<open>
  UTF-8 and MD5 (RFC 1321), which every bucketing function of the program is built on
  (\<^verbatim>\<open>hashlib.md5(text.encode())\<close>), executable on concrete text: the golden vectors of the SDK
  contract are evaluated from these definitions. A byte is a \<^typ>\<open>nat\<close> below 256.
\<close>

section \<open>UTF-8\<close>

definition utf8_char :: "nat \<Rightarrow> nat list" where
  "utf8_char c =
     (if c < 0x80 then [c]
      else if c < 0x800 then [0xC0 + c div 64, 0x80 + c mod 64]
      else if c < 0x10000 then [0xE0 + c div 4096, 0x80 + c div 64 mod 64, 0x80 + c mod 64]
      else [0xF0 + c div 262144, 0x80 + c div 4096 mod 64, 0x80 + c div 64 mod 64, 0x80 + c mod 64])"

text \<open>\<^verbatim>\<open>s.encode()\<close>: a lone surrogate raises \<^verbatim>\<open>UnicodeEncodeError\<close>.\<close>

definition utf8_encode :: "pstr \<Rightarrow> nat list res" where
  "utf8_encode s =
     (if list_ex is_surrogate s then Inl PyUnicodeError else Inr (concat (map utf8_char s)))"

section \<open>MD5\<close>

type_synonym md5_state = "32 word \<times> 32 word \<times> 32 word \<times> 32 word"

text \<open>One row per step: the message word it reads, the rotation and the sine constant.\<close>

definition md5_table1 :: "(nat \<times> nat \<times> 32 word) list" where
  "md5_table1 =
    [(0, 7, 0xd76aa478), (1, 12, 0xe8c7b756), (2, 17, 0x242070db), (3, 22, 0xc1bdceee),
     (4, 7, 0xf57c0faf), (5, 12, 0x4787c62a), (6, 17, 0xa8304613), (7, 22, 0xfd469501),
     (8, 7, 0x698098d8), (9, 12, 0x8b44f7af), (10, 17, 0xffff5bb1), (11, 22, 0x895cd7be),
     (12, 7, 0x6b901122), (13, 12, 0xfd987193), (14, 17, 0xa679438e), (15, 22, 0x49b40821)]"

definition md5_table2 :: "(nat \<times> nat \<times> 32 word) list" where
  "md5_table2 =
    [(1, 5, 0xf61e2562), (6, 9, 0xc040b340), (11, 14, 0x265e5a51), (0, 20, 0xe9b6c7aa),
     (5, 5, 0xd62f105d), (10, 9, 0x02441453), (15, 14, 0xd8a1e681), (4, 20, 0xe7d3fbc8),
     (9, 5, 0x21e1cde6), (14, 9, 0xc33707d6), (3, 14, 0xf4d50d87), (8, 20, 0x455a14ed),
     (13, 5, 0xa9e3e905), (2, 9, 0xfcefa3f8), (7, 14, 0x676f02d9), (12, 20, 0x8d2a4c8a)]"

definition md5_table3 :: "(nat \<times> nat \<times> 32 word) list" where
  "md5_table3 =
    [(5, 4, 0xfffa3942), (8, 11, 0x8771f681), (11, 16, 0x6d9d6122), (14, 23, 0xfde5380c),
     (1, 4, 0xa4beea44), (4, 11, 0x4bdecfa9), (7, 16, 0xf6bb4b60), (10, 23, 0xbebfbc70),
     (13, 4, 0x289b7ec6), (0, 11, 0xeaa127fa), (3, 16, 0xd4ef3085), (6, 23, 0x04881d05),
     (9, 4, 0xd9d4d039), (12, 11, 0xe6db99e5), (15, 16, 0x1fa27cf8), (2, 23, 0xc4ac5665)]"

definition md5_table4 :: "(nat \<times> nat \<times> 32 word) list" where
  "md5_table4 =
    [(0, 6, 0xf4292244), (7, 10, 0x432aff97), (14, 15, 0xab9423a7), (5, 21, 0xfc93a039),
     (12, 6, 0x655b59c3), (3, 10, 0x8f0ccc92), (10, 15, 0xffeff47d), (1, 21, 0x85845dd1),
     (8, 6, 0x6fa87e4f), (15, 10, 0xfe2ce6e0), (6, 15, 0xa3014314), (13, 21, 0x4e0811a1),
     (4, 6, 0xf7537e82), (11, 10, 0xbd3af235), (2, 15, 0x2ad7d2bb), (9, 21, 0xeb86d391)]"

text \<open>The bitwise operations, by name: the infix symbols are the rule groups' operators.\<close>

abbreviation wand :: "32 word \<Rightarrow> 32 word \<Rightarrow> 32 word" where
  "wand \<equiv> semiring_bit_operations_class.and"

abbreviation wor :: "32 word \<Rightarrow> 32 word \<Rightarrow> 32 word" where
  "wor \<equiv> semiring_bit_operations_class.or"

abbreviation wxor :: "32 word \<Rightarrow> 32 word \<Rightarrow> 32 word" where
  "wxor \<equiv> semiring_bit_operations_class.xor"

definition md5_F :: "32 word \<Rightarrow> 32 word \<Rightarrow> 32 word \<Rightarrow> 32 word" where
  "md5_F b c d = wxor d (wand b (wxor c d))"

definition md5_G :: "32 word \<Rightarrow> 32 word \<Rightarrow> 32 word \<Rightarrow> 32 word" where
  "md5_G b c d = wxor c (wand d (wxor b c))"

definition md5_H :: "32 word \<Rightarrow> 32 word \<Rightarrow> 32 word \<Rightarrow> 32 word" where
  "md5_H b c d = wxor b (wxor c d)"

definition md5_I :: "32 word \<Rightarrow> 32 word \<Rightarrow> 32 word \<Rightarrow> 32 word" where
  "md5_I b c d = wxor c (wor b (wxor d 0xffffffff))"

definition rotate_left :: "nat \<Rightarrow> 32 word \<Rightarrow> 32 word" where
  "rotate_left n w = wor (push_bit n w) (drop_bit (32 - n) w)"

fun md5_steps ::
  "(32 word \<Rightarrow> 32 word \<Rightarrow> 32 word \<Rightarrow> 32 word) \<Rightarrow> 32 word list \<Rightarrow>
     (nat \<times> nat \<times> 32 word) list \<Rightarrow> md5_state \<Rightarrow> md5_state" where
  "md5_steps f m [] q = q"
| "md5_steps f m ((g, s, k) # rows) (a, b, c, d) =
     md5_steps f m rows (d, b + rotate_left s (a + f b c d + k + m ! g), b, c)"

fun md5_add :: "md5_state \<Rightarrow> md5_state \<Rightarrow> md5_state" where
  "md5_add (a, b, c, d) (a', b', c', d') = (a + a', b + b', c + c', d + d')"

definition md5_block :: "32 word list \<Rightarrow> md5_state \<Rightarrow> md5_state" where
  "md5_block m q =
     md5_add q (md5_steps md5_I m md5_table4 (md5_steps md5_H m md5_table3
       (md5_steps md5_G m md5_table2 (md5_steps md5_F m md5_table1 q))))"

fun le_words :: "nat list \<Rightarrow> 32 word list" where
  "le_words (a # b # c # d # r) = of_nat (a + 256 * b + 65536 * c + 16777216 * d) # le_words r"
| "le_words _ = []"

fun md5_blocks :: "nat \<Rightarrow> 32 word list \<Rightarrow> md5_state \<Rightarrow> md5_state" where
  "md5_blocks 0 ws q = q"
| "md5_blocks (Suc n) ws q = md5_blocks n (drop 16 ws) (md5_block (take 16 ws) q)"

definition md5_pad :: "nat list \<Rightarrow> nat list" where
  "md5_pad bs =
     bs @ 128 # replicate ((119 - length bs mod 64) mod 64) 0 @
       map (\<lambda>w. 8 * length bs div w mod 256)
         [1, 256, 65536, 16777216, 4294967296, 1099511627776, 281474976710656, 72057594037927936]"

definition le_bytes :: "32 word \<Rightarrow> nat list" where
  "le_bytes w = map (\<lambda>k. unat w div k mod 256) [1, 256, 65536, 16777216]"

fun md5_output :: "md5_state \<Rightarrow> nat list" where
  "md5_output (a, b, c, d) = le_bytes a @ le_bytes b @ le_bytes c @ le_bytes d"

definition md5_words :: "32 word list \<Rightarrow> nat list" where
  "md5_words ws = md5_output
     (md5_blocks (length ws div 16) ws (0x67452301, 0xefcdab89, 0x98badcfe, 0x10325476))"

definition md5 :: "nat list \<Rightarrow> nat list" where
  "md5 bs = md5_words (le_words (md5_pad bs))"

text \<open>\<^verbatim>\<open>hashlib.md5(text.encode()).digest()\<close>\<close>

definition md5_text :: "pstr \<Rightarrow> nat list res" where
  "md5_text s = emap md5 (utf8_encode s)"

lemma length_le_bytes [simp]: "length (le_bytes w) = 4"
  by (simp add: le_bytes_def)

lemma le_bytes_less: "b \<in> set (le_bytes w) \<Longrightarrow> b < 256"
  by (auto simp: le_bytes_def)

lemma length_md5_output [simp]: "length (md5_output q) = 16"
  by (cases q) simp

lemma length_md5 [simp]: "length (md5 bs) = 16"
  by (simp add: md5_def md5_words_def)

lemma md5_output_less: "b \<in> set (md5_output q) \<Longrightarrow> b < 256"
  by (cases q) (auto dest: le_bytes_less)

lemma md5_bytes: "b \<in> set (md5 bs) \<Longrightarrow> b < 256"
  by (simp add: md5_def md5_words_def md5_output_less)

section \<open>Reading a digest\<close>

text \<open>\<^verbatim>\<open>int(digest.hex(), 16)\<close>, and \<^verbatim>\<open>struct.unpack("<I", digest[:4])\<close>.\<close>

definition be_int :: "nat list \<Rightarrow> nat" where
  "be_int bs = foldl (\<lambda>n b. 256 * n + b) 0 bs"

fun le_int :: "nat list \<Rightarrow> nat" where
  "le_int [] = 0"
| "le_int (b # bs) = b + 256 * le_int bs"

lemma le_int_less: "(\<And>b. b \<in> set bs \<Longrightarrow> b < 256) \<Longrightarrow> le_int bs < 256 ^ length bs"
proof (induction bs)
  case Nil
  then show ?case by simp
next
  case (Cons b bs)
  then have "b < 256" "le_int bs < 256 ^ length bs" by auto
  then have "b + 256 * le_int bs < 256 * 256 ^ length bs" by linarith
  then show ?case by simp
qed

definition md5_uint32 :: "pstr \<Rightarrow> nat res" where
  "md5_uint32 s = emap (\<lambda>d. le_int (take 4 d)) (md5_text s)"

definition md5_int :: "pstr \<Rightarrow> nat res" where
  "md5_int s = emap be_int (md5_text s)"

lemma md5_uint32_less: "md5_uint32 s = Inr n \<Longrightarrow> n < 2 ^ 32"
proof -
  assume "md5_uint32 s = Inr n"
  then obtain bs where n: "n = le_int (take 4 (md5 bs))"
    by (auto simp: md5_uint32_def md5_text_def exc_rules)
  have "le_int (take 4 (md5 bs)) < 256 ^ length (take 4 (md5 bs))"
    by (rule le_int_less) (auto dest: in_set_takeD md5_bytes)
  then show "n < 2 ^ 32" by (simp add: n)
qed

lemma utf8_encode_raises_iff: "utf8_encode s = Inl e \<longleftrightarrow> e = PyUnicodeError \<and> list_ex is_surrogate s"
  by (auto simp: utf8_encode_def)

end
