(* ===== verification/Hashing.thy ===== *)
theory Hashing
  imports Md5
begin

text \<open>
  The bucketing functions: the cross-SDK contract hash
  (\<^verbatim>\<open>backend/app/core/consistent_hash.py\<close> and the SDK's \<^verbatim>\<open>hashing.py\<close>), the flag rollout hash
  (\<^verbatim>\<open>feature_flag_service\<close> and the SDK's \<^verbatim>\<open>evaluator.py\<close>), the holdout, mutual exclusion, bandit,
  LLM and Lambda hashes, and the cumulative walk with which all of them pick a variant.
\<close>

section \<open>The contract hash\<close>

text \<open>\<^verbatim>\<open>f"{user_id}:{key}"\<close>\<close>

definition seed_text :: "pstr \<Rightarrow> pstr \<Rightarrow> pstr" where
  "seed_text user_id key = user_id @ 58 # key"

definition HASH_DIVISOR :: int where "HASH_DIVISOR = 4294967296"
definition BUCKET_COUNT :: int where "BUCKET_COUNT = 100"

text \<open>\<^verbatim>\<open>a / b\<close> of two integers is the float nearest to the quotient.\<close>

definition int_truediv :: "int \<Rightarrow> int \<Rightarrow> pyfloat" where
  "int_truediv a b = fl (of_int a / of_int b)"

definition hash_user :: "pstr \<Rightarrow> pstr \<Rightarrow> pyfloat res" where
  "hash_user user_id key =
     emap (\<lambda>uint32. int_truediv (int uint32) HASH_DIVISOR) (md5_uint32 (seed_text user_id key))"

definition bucket_of :: "pstr \<Rightarrow> pstr \<Rightarrow> int res" where
  "bucket_of user_id key =
     ebind (hash_user user_id key)
       (\<lambda>h. py_int_of_float (fmul h (Fin (of_int BUCKET_COUNT))))"

text \<open>The Python SDK's copy of the contract hash (\<^verbatim>\<open>hashing.py\<close>).\<close>

definition sdk_digest :: "pstr \<Rightarrow> pstr \<Rightarrow> nat list res" where
  "sdk_digest user_id flag_key = md5_text (user_id @ str '':'' @ flag_key)"

definition consistent_hash :: "pstr \<Rightarrow> pstr \<Rightarrow> pyfloat res" where
  "consistent_hash user_id flag_key =
     emap (\<lambda>d. int_truediv (int (le_int (take 4 d))) 4294967296) (sdk_digest user_id flag_key)"

lemma surrogate_free_seed [simp]:
  "list_ex is_surrogate (seed_text u k) \<longleftrightarrow> list_ex is_surrogate u \<or> list_ex is_surrogate k"
  by (simp add: seed_text_def is_surrogate_def)

lemma md5_text_cases:
  "md5_text s = (if list_ex is_surrogate s then Inl PyUnicodeError
     else Inr (md5 (concat (map utf8_char s))))"
  by (simp add: md5_text_def utf8_encode_def)

lemma md5_uint32_total: "\<not> list_ex is_surrogate s \<Longrightarrow> \<exists>n < 2 ^ 32. md5_uint32 s = Inr n"
proof -
  assume "\<not> list_ex is_surrogate s"
  then obtain n where "md5_uint32 s = Inr n"
    by (auto simp: md5_uint32_def md5_text_cases)
  with md5_uint32_less show ?thesis by blast
qed

lemma powi_32: "(2::rat) powi (- int 32) = 1 / 4294967296"
  by (simp add: power_int_def inverse_eq_divide power_one_over)

lemma fl_over_uint32: "\<bar>m\<bar> < 2 ^ 53 \<Longrightarrow> fl (of_int m / 4294967296) = Fin (of_int m / 4294967296)"
proof -
  assume "\<bar>m\<bar> < 2 ^ 53"
  moreover have "of_int m / 4294967296 = of_int m * (2::rat) powi (- int 32)"
    unfolding powi_32 by simp
  ultimately show ?thesis
    by (intro fl_dyadic_exact [of m 32]) simp_all
qed

lemma int_truediv_uint32:
  assumes "n < 2 ^ 32"
  shows "int_truediv (int n) HASH_DIVISOR = Fin (of_nat n / 4294967296)"
proof -
  have "\<bar>int n\<bar> < 2 ^ 53" using assms by simp
  then show ?thesis
    using fl_over_uint32 [of "int n"] by (simp add: int_truediv_def HASH_DIVISOR_def)
qed

lemma hash_user_eq:
  "md5_uint32 (seed_text u k) = Inr n \<Longrightarrow> hash_user u k = Inr (Fin (of_nat n / 4294967296))"
  using md5_uint32_less int_truediv_uint32 by (auto simp: hash_user_def)

lemma floor_scaled: "\<lfloor>(of_nat n / 4294967296) * (100::rat)\<rfloor> = int (n * 100 div 4294967296)"
proof -
  have "(of_nat n / 4294967296) * (100::rat) = of_int (int (n * 100)) / of_int 4294967296"
    by simp
  then show ?thesis
    by (simp only: floor_divide_of_int_eq zdiv_int of_nat_numeral)
qed

text \<open>The float computation of the bucket is exact: it is the integer \<open>n * 100 div 2 ^ 32\<close>.\<close>

lemma bucket_of_eq:
  assumes "md5_uint32 (seed_text u k) = Inr n"
  shows "bucket_of u k = Inr (int (n * 100 div 4294967296))"
proof -
  have "\<bar>int n * 100\<bar> < 2 ^ 53"
    using md5_uint32_less [OF assms] by simp
  then have "fl (of_nat n / 4294967296 * 100) = Fin (of_nat n / 4294967296 * 100)"
    using fl_over_uint32 [of "int n * 100"] by simp
  then show ?thesis
    using floor_scaled [of n]
    by (simp add: bucket_of_def hash_user_eq [OF assms] BUCKET_COUNT_def trunc_rat_def)
qed

lemma bucket_of_range: "bucket_of u k = Inr b \<Longrightarrow> 0 \<le> b \<and> b < 100"
proof -
  assume b: "bucket_of u k = Inr b"
  then obtain n where n: "md5_uint32 (seed_text u k) = Inr n"
    by (auto simp: bucket_of_def hash_user_def exc_rules)
  then have "n < 2 ^ 32" by (rule md5_uint32_less)
  then have "n * 100 div 4294967296 < 100"
    by (simp add: less_mult_imp_div_less)
  with b bucket_of_eq [OF n] show ?thesis by auto
qed

lemma bucket_of_raises_iff:
  "bucket_of u k = Inl e \<longleftrightarrow>
     e = PyUnicodeError \<and> (list_ex is_surrogate u \<or> list_ex is_surrogate k)"
proof (cases "list_ex is_surrogate (seed_text u k)")
  case True
  then show ?thesis
    by (auto simp: bucket_of_def hash_user_def md5_uint32_def md5_text_cases)
next
  case False
  then obtain n where "md5_uint32 (seed_text u k) = Inr n"
    using md5_uint32_total by blast
  with False bucket_of_eq show ?thesis by simp
qed

section \<open>The flag rollout hash\<close>

text \<open>\<^verbatim>\<open>int(md5(f"{user_id}:{key}").hexdigest(), 16) % 100\<close>\<close>

definition flag_bucket :: "pstr \<Rightarrow> pstr \<Rightarrow> int res" where
  "flag_bucket user_id flag_key =
     emap (\<lambda>n. int n mod 100) (md5_int (seed_text user_id flag_key))"

definition in_rollout :: "int \<Rightarrow> pstr \<Rightarrow> pstr \<Rightarrow> bool res" where
  "in_rollout percentage user_id flag_key =
     (if percentage \<le> 0 then Inr False
      else if percentage \<ge> 100 then Inr True
      else emap (\<lambda>b. b < percentage) (flag_bucket user_id flag_key))"

lemma flag_bucket_cases:
  "(\<exists>b. 0 \<le> b \<and> b < 100 \<and> flag_bucket u k = Inr b) \<or>
   flag_bucket u k = Inl PyUnicodeError \<and> (list_ex is_surrogate u \<or> list_ex is_surrogate k)"
  by (simp add: flag_bucket_def md5_int_def md5_text_cases)

text \<open>
  The interface every percentage rollout has: a bucket from 0 to 99, and a gate that lets a user
  in when the bucket is below the percentage.
\<close>

locale percentage_gate =
  fixes bucket :: "'u \<Rightarrow> int res"
    and gate :: "int \<Rightarrow> 'u \<Rightarrow> bool res"
  assumes bucket_range: "bucket u = Inr b \<Longrightarrow> 0 \<le> b \<and> b < 100"
    and gate_eq: "gate p u = (if p \<le> 0 then Inr False else if p \<ge> 100 then Inr True
      else emap (\<lambda>b. b < p) (bucket u))"
begin

lemma gate_bucket: "bucket u = Inr b \<Longrightarrow> gate p u = Inr (b < p)"
  using bucket_range [of u b] by (simp add: gate_eq)

lemma gate_mono: "gate p u = Inr True \<Longrightarrow> p \<le> q \<Longrightarrow> gate q u = Inr True"
  by (cases "bucket u") (auto simp: gate_eq split: if_splits)

lemma gate_total: "bucket u = Inr b \<Longrightarrow> \<exists>x. gate p u = Inr x"
  by (auto simp: gate_bucket)

end

interpretation flag_gate:
  percentage_gate "\<lambda>(u, k). flag_bucket u k" "\<lambda>p (u, k). in_rollout p u k"
proof unfold_locales
  show "0 \<le> b \<and> b < 100" if "(case u of (u, k) \<Rightarrow> flag_bucket u k) = Inr b" for u b
    using that flag_bucket_cases [of "fst u" "snd u"] by (auto split: prod.splits)
qed (auto simp: in_rollout_def split: prod.splits)

lemma in_rollout_total:
  "\<not> list_ex is_surrogate u \<Longrightarrow> \<not> list_ex is_surrogate k \<Longrightarrow> \<exists>b. in_rollout p u k = Inr b"
  using flag_bucket_cases [of u k] flag_gate.gate_total [of "(u, k)"] by auto

lemma in_rollout_mono:
  "in_rollout p u k = Inr True \<Longrightarrow> p \<le> q \<Longrightarrow> in_rollout q u k = Inr True"
  using flag_gate.gate_mono [of p "(u, k)" q] by simp

section \<open>The other hashes\<close>

text \<open>\<^verbatim>\<open>global_holdout_service.holdout_bucket\<close>\<close>

definition holdout_bucket :: "pstr \<Rightarrow> pstr \<Rightarrow> int res" where
  "holdout_bucket user_id salt = emap (\<lambda>n. int n mod 100) (md5_uint32 (seed_text user_id salt))"

text \<open>\<^verbatim>\<open>MutualExclusionService._normalized_hash\<close>; \<open>MAX_HASH_VALUE + 1 = 2 ^ 32\<close>.\<close>

definition normalized_hash :: "pstr \<Rightarrow> pstr \<Rightarrow> pyfloat res" where
  "normalized_hash user_id salt =
     emap (\<lambda>n. int_truediv (int n) (0xFFFFFFFF + 1)) (md5_uint32 (seed_text user_id salt))"

text \<open>\<^verbatim>\<open>LLMExperimentService._hash_bucket\<close>\<close>

definition llm_hash_bucket :: "pstr \<Rightarrow> pstr \<Rightarrow> pyfloat res" where
  "llm_hash_bucket experiment_id user_id =
     ebind (md5_int (seed_text experiment_id user_id))
       (\<lambda>n. Inr (int_truediv (int n mod 10000) 10000))"

text \<open>The bucket of \<^verbatim>\<open>bandit_routing.pick_variant\<close>\<close>

definition bandit_bucket :: "pstr \<Rightarrow> pstr \<Rightarrow> pyfloat res" where
  "bandit_bucket experiment_id user_id =
     ebind (md5_int (user_id @ 58 # experiment_id @ str '':bandit''))
       (\<lambda>n. Inr (int_truediv (int n mod 10000) 10000))"

text \<open>\<^verbatim>\<open>ConsistentHasher._hash\<close> and \<^verbatim>\<open>get_bucket\<close> of the Lambda functions\<close>

definition lambda_hash :: "pstr \<Rightarrow> pstr \<Rightarrow> nat res" where
  "lambda_hash user_id salt = md5_uint32 (seed_text user_id salt)"

definition lambda_get_bucket :: "pstr \<Rightarrow> pstr \<Rightarrow> int \<Rightarrow> int res" where
  "lambda_get_bucket user_id experiment_key num_buckets =
     ebind (lambda_hash user_id experiment_key) (\<lambda>h.
       if num_buckets = 0 then Inl PyZeroDivisionError else Inr (int h mod num_buckets))"

lemma holdout_bucket_cases:
  "(\<exists>b. 0 \<le> b \<and> b < 100 \<and> holdout_bucket u s = Inr b) \<or>
   holdout_bucket u s = Inl PyUnicodeError \<and> (list_ex is_surrogate u \<or> list_ex is_surrogate s)"
  by (simp add: holdout_bucket_def md5_uint32_def md5_text_cases)

lemma normalized_hash_eq:
  "md5_uint32 (seed_text u s) = Inr n \<Longrightarrow> normalized_hash u s = Inr (Fin (of_nat n / 4294967296))"
  using md5_uint32_less int_truediv_uint32 [of n] by (auto simp: normalized_hash_def HASH_DIVISOR_def)

section \<open>The cumulative walk\<close>

text \<open>
  Every variant picker adds the weights in order and takes the first item whose running total
  exceeds the bucket; the last item takes what is left. The walk is stated once, over the sum
  and the comparison it uses (integers, or floats with rounding).
\<close>

fun cumulative_walk ::
  "('w \<Rightarrow> 'w \<Rightarrow> 'w) \<Rightarrow> ('b \<Rightarrow> 'w \<Rightarrow> bool) \<Rightarrow> 'b \<Rightarrow> 'w \<Rightarrow> ('i \<times> 'w) list \<Rightarrow> 'i option" where
  "cumulative_walk add below bucket c [] = None"
| "cumulative_walk add below bucket c ((i, w) # rest) =
     (if below bucket (add c w) then Some i
      else cumulative_walk add below bucket (add c w) rest)"

definition walk_or_last ::
  "('w \<Rightarrow> 'w \<Rightarrow> 'w) \<Rightarrow> ('b \<Rightarrow> 'w \<Rightarrow> bool) \<Rightarrow> 'b \<Rightarrow> 'w \<Rightarrow> ('i \<times> 'w) list \<Rightarrow> 'i" where
  "walk_or_last add below bucket c items =
     (case cumulative_walk add below bucket c items of Some i \<Rightarrow> i | None \<Rightarrow> fst (last items))"

lemma cumulative_walk_in: "cumulative_walk add below b c items = Some i \<Longrightarrow> i \<in> fst ` set items"
  by (induction add below b c items rule: cumulative_walk.induct) (auto split: if_splits)

lemma walk_or_last_in: "items \<noteq> [] \<Longrightarrow> walk_or_last add below b c items \<in> fst ` set items"
  by (auto simp: walk_or_last_def dest: cumulative_walk_in split: option.splits)

text \<open>Items after the chosen one do not matter: appending or changing them moves nobody.\<close>

lemma cumulative_walk_append:
  "cumulative_walk add below b c xs = Some i \<Longrightarrow> cumulative_walk add below b c (xs @ ys) = Some i"
  by (induction add below b c xs rule: cumulative_walk.induct) (auto split: if_splits)

text \<open>
  The interface of the walk's arithmetic: a running total that never decreases on the weights
  in use, and a comparison that is monotone in it.
\<close>

locale bucket_walk =
  fixes add :: "'w \<Rightarrow> 'w \<Rightarrow> 'w"
    and le :: "'w \<Rightarrow> 'w \<Rightarrow> bool"
    and below :: "'b \<Rightarrow> 'w \<Rightarrow> bool"
    and weight_ok :: "'w \<Rightarrow> bool"
    and total_ok :: "'w \<Rightarrow> bool"
  assumes le_refl: "le c c"
    and le_trans: "le c c' \<Longrightarrow> le c' c'' \<Longrightarrow> le c c''"
    and add_le: "total_ok c \<Longrightarrow> weight_ok w \<Longrightarrow> le c (add c w)"
    and add_ok: "total_ok c \<Longrightarrow> weight_ok w \<Longrightarrow> total_ok (add c w)"
    and below_mono: "below b c \<Longrightarrow> le c c' \<Longrightarrow> below b c'"

begin

lemma total_le:
  "total_ok c \<Longrightarrow> \<forall>w\<in>set ws. weight_ok w \<Longrightarrow> le c (foldl add c ws)"
proof (induction ws arbitrary: c)
  case Nil
  then show ?case by (simp add: le_refl)
next
  case (Cons w ws)
  then show ?case
    using add_le add_ok le_trans by (metis foldl_Cons list.set_intros(1,2))
qed

text \<open>The walk falls off the end exactly when the bucket is not below the whole total.\<close>

lemma walk_None_iff:
  "total_ok c \<Longrightarrow> \<forall>w\<in>snd ` set items. weight_ok w \<Longrightarrow> items \<noteq> [] \<Longrightarrow>
     cumulative_walk add below b c items = None \<longleftrightarrow> \<not> below b (foldl add c (map snd items))"
proof (induction items arbitrary: c)
  case Nil
  then show ?case by simp
next
  case (Cons x items)
  obtain i w where x: "x = (i, w)" by fastforce
  have ok: "total_ok (add c w)" using Cons.prems by (simp add: x add_ok)
  have le: "le (add c w) (foldl add (add c w) (map snd items))"
    using Cons.prems by (intro total_le ok) auto
  show ?case
  proof (cases "items = []")
    case True
    then show ?thesis by (simp add: x)
  next
    case False
    then show ?thesis
      using Cons.IH [OF ok] Cons.prems le below_mono by (auto simp: x)
  qed
qed

text \<open>An item is chosen when the bucket lies between the totals before and after it.\<close>

lemma walk_Some_iff:
  "total_ok c \<Longrightarrow> \<forall>w\<in>snd ` set items. weight_ok w \<Longrightarrow>
     cumulative_walk add below b c items = Some i \<longleftrightarrow>
     (\<exists>pre w post. items = pre @ (i, w) # post \<and>
        (pre = [] \<or> \<not> below b (foldl add c (map snd pre))) \<and>
        below b (foldl add c (map snd pre @ [w])))"
proof (induction items arbitrary: c)
  case Nil
  then show ?case by simp
next
  case (Cons x items)
  obtain j v where x: "x = (j, v)" by fastforce
  have ok: "total_ok (add c v)" using Cons.prems by (simp add: x add_ok)
  have vs: "\<forall>w\<in>snd ` set items. weight_ok w" using Cons.prems by simp
  note IH = Cons.IH [OF ok vs]
  show ?case
  proof (cases "below b (add c v)")
    case True
    have "i = j" if "(j, v) # items = pre @ (i, w) # post"
      "pre = [] \<or> \<not> below b (foldl add c (map snd pre))" for pre w post
    proof (cases pre)
      case Nil
      with that show ?thesis by simp
    next
      case (Cons y ys)
      then have y: "y = (j, v)" and "\<forall>w\<in>set (map snd ys). weight_ok w"
        using that(1) vs by auto
      then have "le (add c v) (foldl add (add c v) (map snd ys))"
        by (intro total_le ok)
      with True below_mono Cons y that(2) show ?thesis by auto
    qed
    moreover have "\<exists>pre w post. (j, v) # items = pre @ (j, w) # post \<and>
        (pre = [] \<or> \<not> below b (foldl add c (map snd pre))) \<and>
        below b (foldl add c (map snd pre @ [w]))"
      using True by (intro exI [of _ "[]"] exI [of _ v] exI [of _ items]) simp
    ultimately show ?thesis using True by (auto simp: x)
  next
    case False
    have "(\<exists>pre w post. items = pre @ (i, w) # post \<and>
        (pre = [] \<or> \<not> below b (foldl add (add c v) (map snd pre))) \<and>
        below b (foldl add (add c v) (map snd pre @ [w]))) \<longleftrightarrow>
      (\<exists>pre w post. (j, v) # items = pre @ (i, w) # post \<and>
        (pre = [] \<or> \<not> below b (foldl add c (map snd pre))) \<and>
        below b (foldl add c (map snd pre @ [w])))" (is "?L \<longleftrightarrow> ?R")
    proof
      assume ?L
      then obtain pre w post where "items = pre @ (i, w) # post"
        "pre = [] \<or> \<not> below b (foldl add (add c v) (map snd pre))"
        "below b (foldl add (add c v) (map snd pre @ [w]))" by blast
      then show ?R
        using False by (intro exI [of _ "(j, v) # pre"] exI [of _ w] exI [of _ post]) auto
    next
      assume ?R
      then obtain pre w post where p: "(j, v) # items = pre @ (i, w) # post"
        "pre = [] \<or> \<not> below b (foldl add c (map snd pre))"
        "below b (foldl add c (map snd pre @ [w]))" by blast
      then obtain pre' where "pre = (j, v) # pre'"
        using False by (cases pre) auto
      then show ?L using p by auto
    qed
    with IH False show ?thesis by (simp add: x)
  qed
qed

end

text \<open>Integer allocations (experiment variants, 0 to 100).\<close>

interpretation int_walk: bucket_walk "(+) :: int \<Rightarrow> int \<Rightarrow> int" "(\<le>)" "(<)" "\<lambda>w. 0 \<le> w" "\<lambda>_. True"
  by unfold_locales auto

end
