(* ===== verification/Rules_Engine.thy ===== *)
theory Rules_Engine
  imports Targeting_Schema Hashing
begin

text \<open>
  The rules engine, \<^verbatim>\<open>backend/app/core/rules_engine.py\<close> with \<^verbatim>\<open>pattern_match.py\<close>: the evaluation
  of one condition for every operator, of nested groups, and of a prioritised rule list. An
  exception that abandons the whole ruleset is a value of \<^typ>\<open>exc\<close>; the exceptions a handler
  catches itself are branches. Logging is not modelled. Lists stand for lists, tuples and sets.
\<close>

section \<open>The libraries the engine calls\<close>

text \<open>
  RE2 (\<open>re2_search\<close>), \<^verbatim>\<open>semver\<close> and \<^verbatim>\<open>pytz\<close> are third-party; the clock, the local time zone, the
  date parsers and the C library's elementary functions belong to the interpreter's platform.
  A partial function is \<open>None\<close> where the library raises.
  \<^item> \<open>iso_datetime\<close>: \<^verbatim>\<open>datetime.fromisoformat\<close>; \<open>timestamp_datetime\<close>: \<^verbatim>\<open>datetime.fromtimestamp\<close>;
    \<open>ymd_date\<close>: \<^verbatim>\<open>strptime(s, "%Y-%m-%d").date()\<close> as a day number;
  \<^item> \<open>tz_known\<close>, \<open>tz_now\<close>, \<open>tz_localize\<close>, \<open>tz_convert\<close>: \<^verbatim>\<open>pytz.timezone(name)\<close> and its use;
  \<^item> \<open>items_text\<close>: \<^verbatim>\<open>str(sorted(d.items()))\<close>.
\<close>

datatype re2_result = Re2Refused | Re2Found bool | Re2Encoding | Re2Error

record semver =
  major :: nat
  minor :: nat
  patch :: nat
  prerelease :: "pstr option"

record engine_env = pyenv +
  iso_datetime :: "pstr \<Rightarrow> pydatetime option"
  timestamp_datetime :: "pyval \<Rightarrow> pydatetime res"
  ymd_date :: "pstr \<Rightarrow> int option"
  now_naive :: int
  has_pytz :: bool
  tz_known :: "pyval \<Rightarrow> bool"
  tz_now :: "pyval \<Rightarrow> pydatetime option"
  tz_localize :: "pyval \<Rightarrow> int \<Rightarrow> pydatetime option"
  tz_convert :: "pyval \<Rightarrow> pydatetime \<Rightarrow> pydatetime option"
  re2_search :: "pstr \<Rightarrow> pstr \<Rightarrow> re2_result"
  semver_parse :: "pstr \<Rightarrow> semver option"
  semver_compare :: "semver \<Rightarrow> semver \<Rightarrow> int"
  math_radians :: "pyfloat \<Rightarrow> pyfloat"
  math_sin :: "pyfloat \<Rightarrow> pyfloat res"
  math_cos :: "pyfloat \<Rightarrow> pyfloat res"
  math_sqrt :: "pyfloat \<Rightarrow> pyfloat res"
  math_asin :: "pyfloat \<Rightarrow> pyfloat res"
  items_text :: "(pstr \<times> pyval) list \<Rightarrow> pstr"

type_synonym user_context = "(pstr \<times> pyval) list"

section \<open>Segment conditions\<close>

definition SEGMENT_MEMBERSHIP_KEY :: pstr where
  "SEGMENT_MEMBERSHIP_KEY = str ''$segments''"

definition is_segment_operator :: "operator_type \<Rightarrow> bool" where
  "is_segment_operator op = (op = IN_SEGMENT \<or> op = NOT_IN_SEGMENT)"

text \<open>What \<^verbatim>\<open>SegmentMembershipUnavailable\<close> records of an id.\<close>

definition segment_id_label :: "pyval \<Rightarrow> pstr" where
  "segment_id_label v = (case v of
       PStr s \<Rightarrow> if length s \<le> 64 then s else str ''(not a segment id)''
     | _ \<Rightarrow> str ''(not a segment id)'')"

definition segment_condition_holds :: "condition \<Rightarrow> user_context \<Rightarrow> bool option res" where
  "segment_condition_holds c ctx =
     (if \<not> is_segment_operator (operator c) then Inr None
      else case (map_of ctx SEGMENT_MEMBERSHIP_KEY, cvalue c) of
        (Some (PFrozenset members), PStr s) \<Rightarrow>
          Inr (Some (if operator c = IN_SEGMENT then s \<in> set members else s \<notin> set members))
      | _ \<Rightarrow> Inl (SegmentMembershipUnavailable [segment_id_label (cvalue c)]))"

section \<open>Presence and equality\<close>

fun is_empty_value :: "pyval \<Rightarrow> bool" where
  "is_empty_value PNone = True"
| "is_empty_value (PStr s) = (strip s = [])"
| "is_empty_value (PList xs) = (xs = [])"
| "is_empty_value (PDict d) = (d = [])"
| "is_empty_value _ = False"

text \<open>\<^verbatim>\<open>_values_equal\<close>: one side text, the other a number or a truth value.\<close>

definition text_equals_typed :: "'z pyenv_scheme \<Rightarrow> pyval \<Rightarrow> pstr \<Rightarrow> bool res" where
  "text_equals_typed E typed text =
     (case typed of
        PBool b \<Rightarrow>
          (let lowered = lower (strip text) in
           if lowered \<in> {str ''true'', str ''1'', str ''yes''} then Inr b
           else if lowered \<in> {str ''false'', str ''0'', str ''no''} then Inr (\<not> b)
           else Inr False)
      | _ \<Rightarrow>
          rescue [PyTypeError, PyValueError] (Inr False)
            (ebind (py_float E (PStr text)) (\<lambda>x. ebind (py_float E typed) (\<lambda>y. Inr (feq x y)))))"

definition values_equal :: "'z pyenv_scheme \<Rightarrow> pyval \<Rightarrow> pyval \<Rightarrow> bool res" where
  "values_equal E actual expected =
     (if py_eq actual expected then Inr True
      else case (actual, expected) of
        (_, PStr text) \<Rightarrow> if is_scalar actual then text_equals_typed E actual text else Inr False
      | (PStr text, _) \<Rightarrow> if is_scalar expected then text_equals_typed E expected text else Inr False
      | _ \<Rightarrow> Inr False)"

fun substring_of :: "pyval \<Rightarrow> pstr \<Rightarrow> bool" where
  "substring_of (PStr item) text = is_substring item text"
| "substring_of _ text = False"

text \<open>\<^verbatim>\<open>except OverflowError: raise _out_of_range(operator)\<close>\<close>

definition out_of_range :: exc where
  "out_of_range = PatternUnevaluable OutOfRange"

definition op_equals :: "'z pyenv_scheme \<Rightarrow> pyval \<Rightarrow> pyval \<Rightarrow> bool res" where
  "op_equals E a e = rescue [PyOverflowError] (Inl out_of_range) (values_equal E a e)"

definition op_not_equals :: "'z pyenv_scheme \<Rightarrow> pyval \<Rightarrow> pyval \<Rightarrow> bool res" where
  "op_not_equals E a e = rescue [PyOverflowError] (Inl out_of_range) (emap Not (values_equal E a e))"

definition op_in :: "'z pyenv_scheme \<Rightarrow> pyval \<Rightarrow> pyval \<Rightarrow> bool res" where
  "op_in E a e = (case e of
       PList items \<Rightarrow>
         rescue [PyOverflowError] (Inl out_of_range) (eany (\<lambda>item. values_equal E a item) items)
     | _ \<Rightarrow> Inr False)"

definition op_not_in :: "'z pyenv_scheme \<Rightarrow> pyval \<Rightarrow> pyval \<Rightarrow> bool res" where
  "op_not_in E a e = (case e of
       PList items \<Rightarrow>
         rescue [PyOverflowError] (Inl out_of_range)
           (emap Not (eany (\<lambda>item. values_equal E a item) items))
     | _ \<Rightarrow> Inr False)"

section \<open>Text operators\<close>

definition op_contains :: "'z pyenv_scheme \<Rightarrow> pyval \<Rightarrow> pyval \<Rightarrow> bool" where
  "op_contains E a e = is_substring (py_str E e) (py_str E a)"

definition op_starts_with :: "'z pyenv_scheme \<Rightarrow> pyval \<Rightarrow> pyval \<Rightarrow> bool" where
  "op_starts_with E a e = is_prefix (py_str E e) (py_str E a)"

definition op_ends_with :: "'z pyenv_scheme \<Rightarrow> pyval \<Rightarrow> pyval \<Rightarrow> bool" where
  "op_ends_with E a e = is_suffix (py_str E e) (py_str E a)"

text \<open>\<^verbatim>\<open>pattern_match._classify\<close> and \<^verbatim>\<open>search\<close>; at most \<open>MAX_REGEX_INPUT\<close> characters are searched.\<close>

definition MAX_REGEX_INPUT :: nat where "MAX_REGEX_INPUT = 256"

definition pattern_search :: "'z engine_env_scheme \<Rightarrow> pyval \<Rightarrow> pyval \<Rightarrow> bool res" where
  "pattern_search E pattern value =
     (case pattern of
        PStr p \<Rightarrow>
          (let text = py_str E value in
           if length text > MAX_REGEX_INPUT then Inl (PatternUnevaluable InputLength)
           else case re2_search E p text of
             Re2Refused \<Rightarrow> Inl (PatternUnevaluable Refused)
           | Re2Found found \<Rightarrow> Inr found
           | Re2Encoding \<Rightarrow> Inl (PatternUnevaluable InputEncoding)
           | Re2Error \<Rightarrow> Inl (PatternUnevaluable PatternError))
      | _ \<Rightarrow> Inl (PatternUnevaluable NotAString))"

section \<open>Numeric comparison\<close>

definition op_numeric ::
  "'z pyenv_scheme \<Rightarrow> (pyfloat \<Rightarrow> pyfloat \<Rightarrow> bool) \<Rightarrow> pyval \<Rightarrow> pyval \<Rightarrow> bool res" where
  "op_numeric E cmp a e =
     rescue [PyValueError, PyTypeError] (Inr False)
       (rescue [PyOverflowError] (Inl out_of_range)
         (ebind (py_float E a) (\<lambda>x. ebind (py_float E e) (\<lambda>y. Inr (cmp x y)))))"

section \<open>Dates\<close>

definition replace_Z :: "pstr \<Rightarrow> pstr" where
  "replace_Z s = concat (map (\<lambda>c. if c = 90 then str ''+00:00'' else [c]) s)"

text \<open>The conversion of BEFORE, AFTER and BETWEEN; \<open>Inr None\<close> is a value that is not a date.\<close>

definition to_datetime :: "'z engine_env_scheme \<Rightarrow> pyval \<Rightarrow> pydatetime option res" where
  "to_datetime E v =
     (case v of
        PStr s \<Rightarrow> (case iso_datetime E (replace_Z s) of
                     None \<Rightarrow> Inl PyValueError | Some d \<Rightarrow> Inr (Some d))
      | PDatetime d \<Rightarrow> Inr (Some d)
      | _ \<Rightarrow> if is_scalar v then emap Some (timestamp_datetime E v) else Inr None)"

definition datetime_cmp :: "(int \<Rightarrow> int \<Rightarrow> bool) \<Rightarrow> pydatetime \<Rightarrow> pydatetime \<Rightarrow> bool res" where
  "datetime_cmp cmp a b = emap (\<lambda>(x, y). cmp x y) (instant_pair a b)"

definition date_guard :: "bool res \<Rightarrow> bool res" where
  "date_guard m =
     rescue [PyValueError, PyTypeError] (Inr False)
       (rescue [PyOverflowError, PyOSError] (Inl out_of_range) m)"

definition op_before_after ::
  "'z engine_env_scheme \<Rightarrow> (int \<Rightarrow> int \<Rightarrow> bool) \<Rightarrow> pyval \<Rightarrow> pyval \<Rightarrow> bool res" where
  "op_before_after E cmp a e =
     date_guard (ebind (to_datetime E a) (\<lambda>da. case da of
        None \<Rightarrow> Inr False
      | Some x \<Rightarrow> ebind (to_datetime E e) (\<lambda>de. case de of
          None \<Rightarrow> Inr False
        | Some y \<Rightarrow> datetime_cmp cmp x y)))"

text \<open>\<^verbatim>\<open>isinstance(v, (int, float)) or (isinstance(v, str) and v.replace(".", "", 1).isdigit())\<close>\<close>

fun remove_first :: "nat \<Rightarrow> pstr \<Rightarrow> pstr" where
  "remove_first c [] = []"
| "remove_first c (d # s) = (if d = c then s else d # remove_first c s)"

definition looks_numeric :: "'z pyenv_scheme \<Rightarrow> pyval \<Rightarrow> bool" where
  "looks_numeric E v =
     (is_scalar v \<or> (case v of PStr s \<Rightarrow> py_isdigit E (remove_first 46 s) | _ \<Rightarrow> False))"

definition op_between :: "'z engine_env_scheme \<Rightarrow> pyval \<Rightarrow> pyval \<Rightarrow> pyval \<Rightarrow> bool res" where
  "op_between E a e additional =
     (if additional = PNone then Inr False
      else date_guard
        (if looks_numeric E a \<and> looks_numeric E e \<and> looks_numeric E additional then
           ebind (py_float E a) (\<lambda>x. ebind (py_float E e) (\<lambda>lo. ebind (py_float E additional)
             (\<lambda>hi. Inr (fle lo x \<and> fle x hi))))
         else ebind (to_datetime E a) (\<lambda>da. case da of
           None \<Rightarrow> Inr False
         | Some x \<Rightarrow> ebind (to_datetime E e) (\<lambda>dl. case dl of
             None \<Rightarrow> Inr False
           | Some lo \<Rightarrow> ebind (to_datetime E additional) (\<lambda>dh. case dh of
               None \<Rightarrow> Inr False
             | Some hi \<Rightarrow> ebind (datetime_cmp (\<le>) lo x) (\<lambda>b.
                 if b then datetime_cmp (\<le>) x hi else Inr False))))))"

section \<open>Collections\<close>

text \<open>\<^verbatim>\<open>item in xs\<close>\<close>

definition py_in :: "pyval \<Rightarrow> pyval list \<Rightarrow> bool" where
  "py_in item xs = list_ex (\<lambda>x. py_eq x item) xs"

definition op_contains_all :: "pyval \<Rightarrow> pyval \<Rightarrow> bool" where
  "op_contains_all a e = (case (e, a) of
       (PList items, PList xs) \<Rightarrow> list_all (\<lambda>item. py_in item xs) items
     | (PList items, PStr s) \<Rightarrow> list_all (\<lambda>item. substring_of item s) items
     | _ \<Rightarrow> False)"

definition op_contains_any :: "pyval \<Rightarrow> pyval \<Rightarrow> bool" where
  "op_contains_any a e = (case (e, a) of
       (PList items, PList xs) \<Rightarrow> list_ex (\<lambda>item. py_in item xs) items
     | (PList items, PStr s) \<Rightarrow> list_ex (\<lambda>item. substring_of item s) items
     | _ \<Rightarrow> False)"

section \<open>Semantic versions\<close>

text \<open>\<^verbatim>\<open>additional_value if additional_value else "eq"\<close>\<close>

definition comparison_type :: "pyval \<Rightarrow> pyval" where
  "comparison_type additional = (if truthy additional then additional else PStr (str ''eq''))"

definition op_semantic_version :: "'z engine_env_scheme \<Rightarrow> pyval \<Rightarrow> pyval \<Rightarrow> pyval \<Rightarrow> bool" where
  "op_semantic_version E a e additional =
     (case (a, e) of
        (PStr s, PStr t) \<Rightarrow>
          (case semver_parse E (dropWhile (\<lambda>c. c = 118) s) of None \<Rightarrow> False
           | Some v \<Rightarrow> (case semver_parse E (dropWhile (\<lambda>c. c = 118) t) of None \<Rightarrow> False
             | Some w \<Rightarrow>
               (let ct = comparison_type additional in
                if ct = PStr (str ''eq'') then
                  major v = major w \<and> minor v = minor w \<and> patch v = patch w \<and>
                  prerelease v = prerelease w
                else if ct = PStr (str ''gt'') then semver_compare E v w > 0
                else if ct = PStr (str ''gte'') then semver_compare E v w \<ge> 0
                else if ct = PStr (str ''lt'') then semver_compare E v w < 0
                else if ct = PStr (str ''lte'') then semver_compare E v w \<le> 0
                else False)))
      | _ \<Rightarrow> False)"

section \<open>Array length\<close>

fun py_len :: "pyval \<Rightarrow> nat option" where
  "py_len (PStr s) = Some (length s)"
| "py_len (PList xs) = Some (length xs)"
| "py_len (PDict d) = Some (length d)"
| "py_len (PFrozenset xs) = Some (card (set xs))"
| "py_len _ = None"

definition length_cmp :: "'z pyenv_scheme \<Rightarrow> (int \<Rightarrow> int \<Rightarrow> bool) \<Rightarrow> int \<Rightarrow> pyval \<Rightarrow> bool" where
  "length_cmp E cmp n e = rescue_all False (emap (\<lambda>m. cmp n m) (py_int E e))"

definition op_array_length :: "'z pyenv_scheme \<Rightarrow> pyval \<Rightarrow> pyval \<Rightarrow> pyval \<Rightarrow> bool" where
  "op_array_length E a e additional =
     (case py_len a of None \<Rightarrow> False
      | Some k \<Rightarrow>
        (let n = int k; ct = comparison_type additional in
         if ct = PStr (str ''eq'') then length_cmp E (=) n e
         else if ct = PStr (str ''gt'') then length_cmp E (>) n e
         else if ct = PStr (str ''lt'') then length_cmp E (<) n e
         else if ct = PStr (str ''gte'') then length_cmp E (\<ge>) n e
         else if ct = PStr (str ''lte'') then length_cmp E (\<le>) n e
         else if ct = PStr (str ''between'') then
           (case e of
              PDict d \<Rightarrow>
                (case (map_of d (str ''min''), map_of d (str ''max'')) of
                   (Some lo, Some hi) \<Rightarrow>
                     rescue_all False (ebind (py_int E lo) (\<lambda>l. ebind (py_int E hi)
                       (\<lambda>h. Inr (l \<le> n \<and> n \<le> h))))
                 | _ \<Rightarrow> False)
            | _ \<Rightarrow> False)
         else False))"

section \<open>Geographic distance\<close>

text \<open>\<^verbatim>\<open>_extract_coordinates\<close>: \<open>None\<close> where there are none.\<close>

definition coordinate_pair :: "'z pyenv_scheme \<Rightarrow> pyval \<Rightarrow> pyval \<Rightarrow> (pyfloat \<times> pyfloat) option res" where
  "coordinate_pair E lat lon =
     rescue [PyValueError, PyTypeError, PyKeyError] (Inr None)
       (ebind (py_float E lat) (\<lambda>x. ebind (py_float E lon) (\<lambda>y. Inr (Some (x, y)))))"

definition extract_coordinates :: "'z pyenv_scheme \<Rightarrow> pyval \<Rightarrow> (pyfloat \<times> pyfloat) option res" where
  "extract_coordinates E v =
     (case v of
        PDict d \<Rightarrow>
          (if has_key d ''lat'' \<and> has_key d ''lon'' then
             coordinate_pair E (dget d ''lat'') (dget d ''lon'')
           else if has_key d ''latitude'' \<and> has_key d ''longitude'' then
             coordinate_pair E (dget d ''latitude'') (dget d ''longitude'')
           else if has_key d ''lat'' \<and> has_key d ''longitude'' then
             coordinate_pair E (dget d ''lat'') (dget d ''longitude'')
           else if has_key d ''latitude'' \<and> has_key d ''lon'' then
             coordinate_pair E (dget d ''latitude'') (dget d ''lon'')
           else Inr None)
      | PList [a, b] \<Rightarrow> coordinate_pair E a b
      | _ \<Rightarrow> Inr None)"

fun validate_coordinates :: "pyfloat \<times> pyfloat \<Rightarrow> bool" where
  "validate_coordinates (lat, lon) =
     (\<not> (flt lat (Fin (- 90)) \<or> flt (Fin 90) lat) \<and>
      \<not> (flt lon (Fin (- 180)) \<or> flt (Fin 180) lon))"

text \<open>\<^verbatim>\<open>_haversine_distance\<close>: \<open>None\<close> when the computation fails or the unit is unknown.\<close>

definition haversine_km :: "'z engine_env_scheme \<Rightarrow> pyfloat \<times> pyfloat \<Rightarrow> pyfloat \<times> pyfloat \<Rightarrow> pyfloat res" where
  "haversine_km E p q =
     (let lat1 = math_radians E (fst p); lon1 = math_radians E (snd p);
          lat2 = math_radians E (fst q); lon2 = math_radians E (snd q);
          dlat = fsub lat2 lat1; dlon = fsub lon2 lon1;
          half = (\<lambda>x. case fdiv x (Fin 2) of Some h \<Rightarrow> h | None \<Rightarrow> NaN)
      in ebind (math_sin E (half dlat)) (\<lambda>s1.
         ebind (math_cos E lat1) (\<lambda>c1.
         ebind (math_cos E lat2) (\<lambda>c2.
         ebind (math_sin E (half dlon)) (\<lambda>s2.
         ebind (math_sqrt E (fadd (fmul s1 s1) (fmul (fmul c1 c2) (fmul s2 s2)))) (\<lambda>r.
         ebind (math_asin E r) (\<lambda>a.
         Inr (fmul (Fin 6371) (fmul (Fin 2) a)))))))))"

definition haversine_distance ::
  "'z engine_env_scheme \<Rightarrow> pyfloat \<times> pyfloat \<Rightarrow> pyfloat \<times> pyfloat \<Rightarrow> pyval \<Rightarrow> pyfloat option res" where
  "haversine_distance E p q unit =
     rescue [PyValueError, PyTypeError] (Inr None)
       (ebind (haversine_km E p q) (\<lambda>km.
          if unit \<in> PStr ` str ` {''km'', ''kilometers'', ''kilometre'', ''kilometres''} then
            Inr (Some km)
          else if unit \<in> PStr ` str ` {''miles'', ''mi''} then
            Inr (Some (fmul km (fl (621371 / 1000000))))
          else if unit \<in> PStr ` str ` {''meters'', ''metres'', ''m''} then
            Inr (Some (fmul km (Fin 1000)))
          else Inr None))"

text \<open>\<^verbatim>\<open>{**a, **b}\<close>\<close>

definition dict_merge :: "(pstr \<times> pyval) list \<Rightarrow> (pstr \<times> pyval) list \<Rightarrow> (pstr \<times> pyval) list" where
  "dict_merge a b = foldl (\<lambda>d (k, v). dict_set k v d) a b"

text \<open>The schema form \<open>[lat, lon]\<close> plus a radius, folded into one dictionary.\<close>

definition geo_expected :: "'z pyenv_scheme \<Rightarrow> pyval \<Rightarrow> pyval \<Rightarrow> pyval res" where
  "geo_expected E e additional =
     (if is_list e \<and> additional \<noteq> PNone then
        ebind (extract_coordinates E e) (\<lambda>co. case co of
          None \<Rightarrow> Inr e
        | Some (lat, lon) \<Rightarrow>
            (let point = [(str ''lat'', PFloat lat), (str ''lon'', PFloat lon)] in
             case additional of
               PDict d \<Rightarrow> Inr (PDict (dict_merge d point))
             | _ \<Rightarrow> Inr (PDict (point @ [(str ''radius'', additional)]))))
      else Inr e)"

definition geo_compare :: "pyval \<Rightarrow> pyfloat \<Rightarrow> pyfloat \<Rightarrow> bool" where
  "geo_compare comparison distance radius =
     (if comparison = PStr (str ''lte'') \<or> comparison = PNone then fle distance radius
      else if comparison = PStr (str ''lt'') then flt distance radius
      else if comparison = PStr (str ''gt'') then flt radius distance
      else if comparison = PStr (str ''gte'') then fle radius distance
      else if comparison = PStr (str ''eq'') then flt (fabs (fsub distance radius)) (fl (1 / 100))
      else False)"

definition geo_decide ::
  "'z engine_env_scheme \<Rightarrow> pyfloat \<times> pyfloat \<Rightarrow> pyfloat \<times> pyfloat \<Rightarrow> (pstr \<times> pyval) list \<Rightarrow> bool res" where
  "geo_decide E actual expected d =
     (case py_float E (dget d ''radius'') of
        Inl e \<Rightarrow> if e \<in> {PyValueError, PyTypeError} then Inr False else Inl e
      | Inr radius \<Rightarrow>
          if flt radius (Fin 0) then Inr False
          else
            (let u = (if has_key d ''unit'' then dget d ''unit'' else PStr (str ''km''));
                 unit = (case u of PStr t \<Rightarrow> PStr (lower t) | _ \<Rightarrow> u);
                 comparison = (if has_key d ''comparison'' then dget d ''comparison''
                               else PStr (str ''lte''))
             in ebind (haversine_distance E actual expected unit) (\<lambda>dist. case dist of
                  None \<Rightarrow> Inr False
                | Some x \<Rightarrow> Inr (geo_compare comparison x radius))))"

definition op_geo_distance :: "'z engine_env_scheme \<Rightarrow> pyval \<Rightarrow> pyval \<Rightarrow> pyval \<Rightarrow> bool" where
  "op_geo_distance E a e additional =
     rescue_all False
       (ebind (geo_expected E e additional) (\<lambda>expected.
        ebind (extract_coordinates E a) (\<lambda>ca. case ca of
          None \<Rightarrow> Inr False
        | Some actual_coords \<Rightarrow>
            ebind (extract_coordinates E expected) (\<lambda>ce. case ce of
              None \<Rightarrow> Inr False
            | Some expected_coords \<Rightarrow>
                if \<not> validate_coordinates actual_coords then Inr False
                else if \<not> validate_coordinates expected_coords then Inr False
                else (case expected of
                  PDict d \<Rightarrow>
                    if has_key d ''radius'' then geo_decide E actual_coords expected_coords d
                    else Inr False
                | _ \<Rightarrow> Inr False)))))"

section \<open>Time windows\<close>

text \<open>
  A time of day is in microseconds. \<^verbatim>\<open>_parse_time\<close> catches \<^verbatim>\<open>ValueError\<close>, not the \<^verbatim>\<open>OverflowError\<close> the
  \<^verbatim>\<open>time\<close> constructor raises for a number no C \<^verbatim>\<open>int\<close> holds.
\<close>

definition time_of :: "int \<Rightarrow> int \<Rightarrow> int \<Rightarrow> int option res" where
  "time_of h m s =
     (if list_ex (\<lambda>x. x < - 2147483648 \<or> 2147483647 < x) [h, m, s] then Inl PyOverflowError
      else if 0 \<le> h \<and> h < 24 \<and> 0 \<le> m \<and> m < 60 \<and> 0 \<le> s \<and> s < 60
      then Inr (Some (((h * 60 + m) * 60 + s) * 1000000))
      else Inr None)"

definition parse_time :: "'z pyenv_scheme \<Rightarrow> pyval \<Rightarrow> int option res" where
  "parse_time E v =
     (case v of
        PStr text \<Rightarrow>
          (case map (int_text E) (split_at 58 text) of
             [Some h, Some m] \<Rightarrow> time_of h m 0
           | [Some h, Some m, Some s] \<Rightarrow> time_of h m s
           | _ \<Rightarrow> Inr None)
      | _ \<Rightarrow> Inr None)"

definition parse_date :: "'z engine_env_scheme \<Rightarrow> pyval \<Rightarrow> int option" where
  "parse_date E v = (case v of PStr s \<Rightarrow> ymd_date E s | _ \<Rightarrow> None)"

definition parse_datetime :: "'z engine_env_scheme \<Rightarrow> pyval \<Rightarrow> pydatetime option" where
  "parse_datetime E v =
     (case v of
        PDatetime d \<Rightarrow> Some d
      | PStr s \<Rightarrow> iso_datetime E (replace_Z s)
      | _ \<Rightarrow> if is_scalar v then rescue_all None (emap Some (timestamp_datetime E v)) else None)"

definition valid_day :: "pyval \<Rightarrow> bool" where
  "valid_day d = (case d of PInt n \<Rightarrow> 0 \<le> n \<and> n \<le> 6 | PBool _ \<Rightarrow> True | _ \<Rightarrow> False)"

definition check_window_days :: "(pstr \<times> pyval) list \<Rightarrow> unit res" where
  "check_window_days w =
     (if has_key w ''days'' then
        (case dget w ''days'' of
           PList ds \<Rightarrow> if list_all valid_day ds then Inr () else Inl TimeWindowUnreadable
         | _ \<Rightarrow> Inl TimeWindowUnreadable)
      else Inr ())"

definition check_window_times :: "'z pyenv_scheme \<Rightarrow> (pstr \<times> pyval) list \<Rightarrow> unit res" where
  "check_window_times E w =
     (if has_key w ''start_time'' \<or> has_key w ''end_time'' then
        (if \<not> (has_key w ''start_time'' \<and> has_key w ''end_time'') then Inl TimeWindowUnreadable
         else ebind (parse_time E (dget w ''start_time'')) (\<lambda>s.
           if s = None then Inl TimeWindowUnreadable
           else ebind (parse_time E (dget w ''end_time'')) (\<lambda>t.
             if t = None then Inl TimeWindowUnreadable else Inr ())))
      else Inr ())"

definition check_window_dates :: "'z engine_env_scheme \<Rightarrow> (pstr \<times> pyval) list \<Rightarrow> unit res" where
  "check_window_dates E w =
     (if has_key w ''start_date'' \<or> has_key w ''end_date'' then
        (if \<not> (has_key w ''start_date'' \<and> has_key w ''end_date'') then Inl TimeWindowUnreadable
         else (case (parse_date E (dget w ''start_date''), parse_date E (dget w ''end_date'')) of
             (Some a, Some b) \<Rightarrow> if a > b then Inl TimeWindowUnreadable else Inr ()
           | _ \<Rightarrow> Inl TimeWindowUnreadable))
      else Inr ())"

definition TIME_WINDOW_KEYS :: "string list" where
  "TIME_WINDOW_KEYS = [''days'', ''start_time'', ''end_time'', ''start_date'', ''end_date'']"

definition check_time_window :: "'z engine_env_scheme \<Rightarrow> pyval \<Rightarrow> unit res" where
  "check_time_window E window =
     (case window of
        PDict w \<Rightarrow>
          (if \<not> list_ex (has_key w) TIME_WINDOW_KEYS then Inl TimeWindowUnreadable
           else if truthy (dget w ''timezone'') \<and>
             \<not> (has_pytz E \<and> tz_known E (dget w ''timezone'')) then Inl TimeWindowUnreadable
           else ebind (check_window_days w) (\<lambda>_.
                ebind (check_window_times E w) (\<lambda>_. check_window_dates E w)))
      | _ \<Rightarrow> Inl TimeWindowUnreadable)"

text \<open>The moment the window is compared with; \<open>None\<close> where the handler answers \<^verbatim>\<open>False\<close>.\<close>

definition window_instant ::
  "'z engine_env_scheme \<Rightarrow> (pstr \<times> pyval) list \<Rightarrow> pyval \<Rightarrow> pydatetime option" where
  "window_instant E w actual =
     (let dt = parse_datetime E actual; tz = dget w ''timezone'' in
      if actual \<noteq> PNone \<and> dt = None then None
      else if truthy tz then
        (case dt of
           None \<Rightarrow> tz_now E tz
         | Some (Naive t) \<Rightarrow> tz_localize E tz t
         | Some d \<Rightarrow> tz_convert E tz d)
      else (case dt of None \<Rightarrow> Some (Naive (now_naive E)) | Some d \<Rightarrow> Some d))"

definition DAY :: int where "DAY = 86400000000"
definition MINUTE :: int where "MINUTE = 60000000"

fun wall_clock :: "pydatetime \<Rightarrow> int" where
  "wall_clock (Naive t) = t"
| "wall_clock (Aware t _) = t"

text \<open>0001-01-01 was a Monday, which \<^verbatim>\<open>weekday()\<close> counts as 0.\<close>

definition weekday_of :: "int \<Rightarrow> int" where
  "weekday_of t = (t div DAY) mod 7"

definition time_matches_or_before_end :: "int \<Rightarrow> int \<Rightarrow> bool" where
  "time_matches_or_before_end current end_time =
     (current div MINUTE = end_time div MINUTE \<or> current \<le> end_time)"

definition time_in_range :: "int \<Rightarrow> int \<Rightarrow> int \<Rightarrow> bool" where
  "time_in_range start_time end_time current =
     (if start_time > end_time
      then current \<ge> start_time \<or> time_matches_or_before_end current end_time
      else current \<ge> start_time \<and> time_matches_or_before_end current end_time)"

definition window_open :: "'z engine_env_scheme \<Rightarrow> (pstr \<times> pyval) list \<Rightarrow> int \<Rightarrow> bool" where
  "window_open E w t =
     ((case map_of w (str ''days'') of
         Some (PList ds) \<Rightarrow> py_in (PInt (weekday_of t)) ds
       | _ \<Rightarrow> True) \<and>
      (if has_key w ''start_time'' then
         (case (parse_time E (dget w ''start_time''), parse_time E (dget w ''end_time'')) of
            (Inr (Some s), Inr (Some e)) \<Rightarrow> time_in_range s e (t mod DAY)
          | _ \<Rightarrow> False)
       else True) \<and>
      (if has_key w ''start_date'' then
         (case (parse_date E (dget w ''start_date''), parse_date E (dget w ''end_date'')) of
            (Some a, Some b) \<Rightarrow> a \<le> t div DAY \<and> t div DAY \<le> b
          | _ \<Rightarrow> False)
       else True))"

definition op_time_window :: "'z engine_env_scheme \<Rightarrow> pyval \<Rightarrow> pyval \<Rightarrow> bool res" where
  "op_time_window E a e =
     ebind (check_time_window E e) (\<lambda>_. case e of
       PDict w \<Rightarrow> Inr (case window_instant E w a of
                        None \<Rightarrow> False | Some d \<Rightarrow> window_open E w (wall_clock d))
     | _ \<Rightarrow> Inr False)"

section \<open>One condition\<close>

definition apply_operator ::
  "'z engine_env_scheme \<Rightarrow> operator_type \<Rightarrow> pyval \<Rightarrow> pyval \<Rightarrow> pyval \<Rightarrow> bool res" where
  "apply_operator E op a e additional =
     (if is_segment_operator op then Inl (SegmentMembershipUnavailable [segment_id_label e])
      else if op = IS_NULL then Inr (is_empty_value a)
      else if op = IS_NOT_NULL then Inr (\<not> is_empty_value a)
      else if a = PNone \<and> op \<noteq> TIME_WINDOW then
        Inr (if op = EQUALS then e = PNone else if op = NOT_EQUALS then e \<noteq> PNone else False)
      else case op of
        EQUALS \<Rightarrow> op_equals E a e
      | NOT_EQUALS \<Rightarrow> op_not_equals E a e
      | IN \<Rightarrow> op_in E a e
      | NOT_IN \<Rightarrow> op_not_in E a e
      | CONTAINS \<Rightarrow> Inr (op_contains E a e)
      | NOT_CONTAINS \<Rightarrow> Inr (\<not> op_contains E a e)
      | STARTS_WITH \<Rightarrow> Inr (op_starts_with E a e)
      | ENDS_WITH \<Rightarrow> Inr (op_ends_with E a e)
      | MATCH_REGEX \<Rightarrow> pattern_search E e a
      | GREATER_THAN \<Rightarrow> op_numeric E (\<lambda>x y. flt y x) a e
      | GREATER_THAN_OR_EQUAL \<Rightarrow> op_numeric E (\<lambda>x y. fle y x) a e
      | LESS_THAN \<Rightarrow> op_numeric E flt a e
      | LESS_THAN_OR_EQUAL \<Rightarrow> op_numeric E fle a e
      | BEFORE \<Rightarrow> op_before_after E (<) a e
      | AFTER \<Rightarrow> op_before_after E (>) a e
      | BETWEEN \<Rightarrow> op_between E a e additional
      | CONTAINS_ALL \<Rightarrow> Inr (op_contains_all a e)
      | CONTAINS_ANY \<Rightarrow> Inr (op_contains_any a e)
      | SEMANTIC_VERSION \<Rightarrow> Inr (op_semantic_version E a e additional)
      | ARRAY_LENGTH \<Rightarrow> Inr (op_array_length E a e additional)
      | GEO_DISTANCE \<Rightarrow> Inr (op_geo_distance E a e additional)
      | TIME_WINDOW \<Rightarrow> op_time_window E a e
      | _ \<Rightarrow> Inr False)"

definition evaluate_condition :: "'z engine_env_scheme \<Rightarrow> condition \<Rightarrow> user_context \<Rightarrow> bool res" where
  "evaluate_condition E c ctx =
     ebind (segment_condition_holds c ctx) (\<lambda>segment_answer. case segment_answer of
       Some b \<Rightarrow> Inr b
     | None \<Rightarrow>
         ebind (if operator c = TIME_WINDOW then check_time_window E (cvalue c) else Inr ()) (\<lambda>_.
           case map_of ctx (attribute c) of
             None \<Rightarrow> Inr (operator c = IS_NULL)
           | Some actual \<Rightarrow>
               apply_operator E (operator c) actual (cvalue c) (additional_value c)))"

section \<open>Groups and rules\<close>

text \<open>Every condition is evaluated before the results are combined: there is no short circuit.\<close>

definition combine_results :: "logical_operator \<Rightarrow> bool list \<Rightarrow> bool" where
  "combine_results op results =
     (if results = [] then True
      else case op of
        AND \<Rightarrow> list_all (\<lambda>b. b) results
      | OR \<Rightarrow> list_ex (\<lambda>b. b) results
      | NOT \<Rightarrow> if length results = 1 then \<not> hd results else \<not> list_all (\<lambda>b. b) results)"

fun evaluate_rule_group :: "'z engine_env_scheme \<Rightarrow> rule_group \<Rightarrow> user_context \<Rightarrow> bool res" where
  "evaluate_rule_group E (RuleGroup op conditions groups) ctx =
     ebind (etraverse (\<lambda>c. evaluate_condition E c ctx) conditions) (\<lambda>condition_results.
     ebind (etraverse (\<lambda>g. evaluate_rule_group E g ctx) groups) (\<lambda>group_results.
       Inr (combine_results op (condition_results @ group_results))))"

definition evaluate_rule :: "'z engine_env_scheme \<Rightarrow> targeting_rule \<Rightarrow> user_context \<Rightarrow> bool res" where
  "evaluate_rule E r ctx = evaluate_rule_group E (rule r) ctx"

text \<open>The first truthy identifier of the context, else the hex digest of the whole context.\<close>

definition USER_ID_FIELDS :: "string list" where
  "USER_ID_FIELDS = [''user_id'', ''id'', ''email'', ''username'', ''device_id'', ''client_id'', ''session_id'']"

definition hex_digit :: "nat \<Rightarrow> nat" where
  "hex_digit n = (if n < 10 then 48 + n else 87 + n)"

definition hex_text :: "nat list \<Rightarrow> pstr" where
  "hex_text bs = concat (map (\<lambda>b. [hex_digit (b div 16), hex_digit (b mod 16)]) bs)"

definition get_stable_user_id :: "'z engine_env_scheme \<Rightarrow> user_context \<Rightarrow> pstr res" where
  "get_stable_user_id E ctx =
     (case List.find (\<lambda>f. case map_of ctx (str f) of Some v \<Rightarrow> truthy v | None \<Rightarrow> False) USER_ID_FIELDS of
        Some f \<Rightarrow> Inr (py_str E (dget ctx f))
      | None \<Rightarrow> emap hex_text (md5_text (items_text E ctx)))"

definition should_include_in_rollout ::
  "'z engine_env_scheme \<Rightarrow> targeting_rule \<Rightarrow> user_context \<Rightarrow> bool res" where
  "should_include_in_rollout E r ctx =
     (if rollout_percentage r = 0 then Inr False
      else if rollout_percentage r = 100 then Inr True
      else ebind (get_stable_user_id E ctx) (\<lambda>user_id.
        emap (\<lambda>n. int n mod 100 < rollout_percentage r) (md5_int (seed_text user_id (rule_id r)))))"

fun first_included ::
  "'z engine_env_scheme \<Rightarrow> targeting_rule list \<Rightarrow> user_context \<Rightarrow> targeting_rule option res" where
  "first_included E [] ctx = Inr None"
| "first_included E (r # rs) ctx =
     ebind (evaluate_rule E r ctx) (\<lambda>matched.
       if matched then ebind (should_include_in_rollout E r ctx) (\<lambda>included.
         if included then Inr (Some r) else first_included E rs ctx)
       else first_included E rs ctx)"

definition evaluate_targeting_rules ::
  "'z engine_env_scheme \<Rightarrow> targeting_rules \<Rightarrow> user_context \<Rightarrow> targeting_rule option res" where
  "evaluate_targeting_rules E rs ctx =
     (if rules rs = [] then Inr (default_rule rs)
      else ebind (first_included E (sort_key priority (rules rs)) ctx) (\<lambda>found.
        Inr (case found of Some r \<Rightarrow> Some r | None \<Rightarrow> default_rule rs)))"

end
