(* ===== verification/Targeting_Adapter.thy ===== *)
theory Targeting_Adapter
  imports Rules_Engine
begin

text \<open>
  The read path of \<^verbatim>\<open>backend/app/core/targeting_adapter.py\<close>: the conversion of stored rules
  (dashboard shape, native shape) into the engine's rules, the flattening of a request context
  with its aliases, the first matching rule, and the collection of referenced segments; with
  \<^verbatim>\<open>with_memberships\<close> of \<^verbatim>\<open>segment_membership.py\<close>. The native shape is read by pydantic
  (\<open>model_validate\<close>) and pasted JSON by \<^verbatim>\<open>json.loads\<close> (\<open>json_loads\<close>), which raises
  \<^verbatim>\<open>JSONDecodeError\<close> for text that is not JSON, another \<^verbatim>\<open>ValueError\<close> for a number of too many digits and
  \<^verbatim>\<open>RecursionError\<close> for a value nested too deep; the adapter catches the first only.
\<close>

record adapter_env = engine_env +
  model_validate :: "pyval \<Rightarrow> targeting_rules res"
  json_loads :: "pstr \<Rightarrow> pyval res"

section \<open>The request context\<close>

text \<open>\<^verbatim>\<open>_flatten_into\<close>: every nested entry under its dotted key, the first writer winning.\<close>

function flatten_into ::
  "(pstr \<times> pyval) list \<Rightarrow> pstr \<Rightarrow> (pstr \<times> pyval) list \<Rightarrow> (pstr \<times> pyval) list" where
  "flatten_into [] prefix out = out"
| "flatten_into ((key, item) # items) prefix out =
     flatten_into items prefix
       (case item of
          PDict d \<Rightarrow> flatten_into d (prefix @ key @ [46]) (setdefault (prefix @ key) item out)
        | _ \<Rightarrow> setdefault (prefix @ key) item out)"
  by pat_completeness auto
termination
  by (relation "measure (\<lambda>(items, _, _). size_list (size_prod (\<lambda>_. 0) size) items)") auto

definition CONTEXT_ALIAS_PREFIXES :: "pstr list" where
  "CONTEXT_ALIAS_PREFIXES = [str ''user'', str ''device'', str ''app'']"

definition dotted :: "pstr \<Rightarrow> pstr \<Rightarrow> pstr" where
  "dotted prefix key = prefix @ 46 # key"

text \<open>A top-level entry is also visible under each alias prefix.\<close>

definition forward_alias :: "(pstr \<times> pyval) list \<Rightarrow> pstr \<times> pyval \<Rightarrow> (pstr \<times> pyval) list" where
  "forward_alias flat kv =
     (case kv of (key, value) \<Rightarrow>
        if 46 \<in> set key \<or> is_dict value then flat
        else foldl (\<lambda>f prefix. setdefault (dotted prefix key) value f) flat CONTEXT_ALIAS_PREFIXES)"

text \<open>An entry one level below an alias prefix is also visible under its bare name.\<close>

definition reverse_alias :: "(pstr \<times> pyval) list \<Rightarrow> pstr \<times> pyval \<Rightarrow> (pstr \<times> pyval) list" where
  "reverse_alias flat kv =
     (case kv of (key, value) \<Rightarrow>
        case partition_at 46 key of (head, sep, tail) \<Rightarrow>
          if sep \<and> head \<in> set CONTEXT_ALIAS_PREFIXES \<and> tail \<noteq> [] \<and> 46 \<notin> set tail
          then setdefault tail value flat else flat)"

definition expand_items :: "(pstr \<times> pyval) list \<Rightarrow> user_context" where
  "expand_items items =
     (let flat = flatten_into items [] [];
          forwarded = foldl forward_alias flat flat
      in foldl reverse_alias forwarded forwarded)"

definition expand_context :: "pyval \<Rightarrow> user_context" where
  "expand_context v = (case v of PDict items \<Rightarrow> expand_items items | _ \<Rightarrow> [])"

text \<open>\<^verbatim>\<open>with_memberships\<close>: the request's own membership key never survives.\<close>

definition with_memberships :: "user_context \<Rightarrow> pstr list option \<Rightarrow> user_context" where
  "with_memberships ctx memberships =
     (let cleared = dict_pop SEGMENT_MEMBERSHIP_KEY ctx in
      case memberships of
        None \<Rightarrow> cleared
      | Some ids \<Rightarrow> dict_set SEGMENT_MEMBERSHIP_KEY (PFrozenset ids) cleared)"

section \<open>The first matching rule\<close>

fun first_match :: "'z engine_env_scheme \<Rightarrow> targeting_rule list \<Rightarrow> user_context \<Rightarrow> targeting_rule option res" where
  "first_match E [] ctx = Inr None"
| "first_match E (r # rs) ctx =
     ebind (evaluate_rule E r ctx) (\<lambda>matched.
       if matched then Inr (Some r) else first_match E rs ctx)"

definition match_targeting_rule ::
  "'z engine_env_scheme \<Rightarrow> targeting_rules \<Rightarrow> user_context \<Rightarrow> targeting_rule option res" where
  "match_targeting_rule E rs ctx =
     ebind (first_match E (sort_key priority (rules rs)) ctx) (\<lambda>found.
       Inr (case found of Some r \<Rightarrow> Some r | None \<Rightarrow> default_rule rs))"

section \<open>Referenced segments\<close>

text \<open>Every segment condition of the rules, \<^verbatim>\<open>default_rule\<close> last.\<close>

definition rule_roots :: "targeting_rules \<Rightarrow> rule_group list" where
  "rule_roots rs = map rule (rules rs) @ (case default_rule rs of None \<Rightarrow> [] | Some r \<Rightarrow> [rule r])"

definition segment_conditions :: "targeting_rules \<Rightarrow> condition list" where
  "segment_conditions rs =
     filter (\<lambda>c. is_segment_operator (operator c)) (concat (map all_conditions (rule_roots rs)))"

definition segment_ids_in :: "targeting_rules \<Rightarrow> pstr list" where
  "segment_ids_in rs =
     remdups (concat (map (\<lambda>c. case cvalue c of PStr s \<Rightarrow> [s] | _ \<Rightarrow> []) (segment_conditions rs)))"

text \<open>
  \<^verbatim>\<open>is_segment_id\<close>: \<^verbatim>\<open>str(uuid.UUID(v)) == v\<close> holds for the canonical text of a UUID, thirty-two
  lower-case hexadecimal digits in groups of 8, 4, 4, 4 and 12.
\<close>

definition lower_hex_char :: "nat \<Rightarrow> bool" where
  "lower_hex_char c = (48 \<le> c \<and> c \<le> 57 \<or> 97 \<le> c \<and> c \<le> 102)"

definition is_segment_id :: "pyval \<Rightarrow> bool" where
  "is_segment_id v = (case v of
       PStr s \<Rightarrow> length s = 36 \<and> map length (split_at 45 s) = [8, 4, 4, 4, 12] \<and>
         list_all (list_all lower_hex_char) (split_at 45 s)
     | _ \<Rightarrow> False)"

section \<open>Values of dashboard conditions\<close>

definition shape_error :: exc where "shape_error = TargetingRuleShapeError"

text \<open>\<^verbatim>\<open>v or d\<close>\<close>

definition or_default :: "pyval \<Rightarrow> pyval \<Rightarrow> pyval" where
  "or_default v d = (if truthy v then v else d)"

definition logical_operator_of :: "'z pyenv_scheme \<Rightarrow> pyval \<Rightarrow> logical_operator" where
  "logical_operator_of E v =
     (let text = lower (strip (py_str E (or_default v (PStr (str ''AND''))))) in
      if text = str ''or'' then OR else if text = str ''not'' then NOT else AND)"

definition rollout_percentage_of :: "'z pyenv_scheme \<Rightarrow> pyval \<Rightarrow> int res" where
  "rollout_percentage_of E v =
     (if v = PNone \<or> v = PStr [] then Inr 100
      else rescue [PyTypeError, PyValueError] (Inr 100)
        (ebind (py_float E v) (\<lambda>x. ebind (py_int_of_float x) (\<lambda>n. Inr (max 0 (min 100 n))))))"

text \<open>\<^verbatim>\<open>_NUMBER_RE\<close> on text without surrounding white space.\<close>

definition exponent_text :: "'z pyenv_scheme \<Rightarrow> pstr \<Rightarrow> bool" where
  "exponent_text E s = (case s of
       [] \<Rightarrow> True
     | c # r \<Rightarrow> (c = 101 \<or> c = 69) \<and>
         (let digits = (case r of d # t \<Rightarrow> if d = 43 \<or> d = 45 then t else r | [] \<Rightarrow> [])
          in digits \<noteq> [] \<and> list_all (decimal_char E) digits))"

definition number_text :: "'z pyenv_scheme \<Rightarrow> pstr \<Rightarrow> bool" where
  "number_text E s =
     (let t = (case s of c # r \<Rightarrow> if c = 43 \<or> c = 45 then r else s | [] \<Rightarrow> []);
          whole = takeWhile (decimal_char E) t;
          rest = dropWhile (decimal_char E) t
      in case rest of
           c # r \<Rightarrow>
             if c = 46 then
               (let frac = takeWhile (decimal_char E) r
                in (whole \<noteq> [] \<or> frac \<noteq> []) \<and> exponent_text E (dropWhile (decimal_char E) r))
             else whole \<noteq> [] \<and> exponent_text E rest
         | [] \<Rightarrow> whole \<noteq> [])"

definition is_integer_float :: "pyfloat \<Rightarrow> bool" where
  "is_integer_float x = (case x of Fin q \<Rightarrow> q = of_int \<lfloor>q\<rfloor> | _ \<Rightarrow> False)"

definition coerce_number :: "'z pyenv_scheme \<Rightarrow> pyval \<Rightarrow> pyval" where
  "coerce_number E v = (case v of
       PStr s \<Rightarrow>
         (let text = strip s in
          if number_text E text then
            (case float_text E text of
               None \<Rightarrow> v
             | Some x \<Rightarrow>
                 if is_integer_float x \<and> 46 \<notin> set text \<and> 101 \<notin> set (lower text)
                 then (case x of Fin q \<Rightarrow> PInt \<lfloor>q\<rfloor> | _ \<Rightarrow> v)
                 else PFloat x)
          else v)
     | _ \<Rightarrow> v)"

definition numeric_value :: "'z pyenv_scheme \<Rightarrow> pyval \<Rightarrow> pyval res" where
  "numeric_value E v = (case coerce_number E v of
       PInt n \<Rightarrow> Inr (PInt n) | PFloat x \<Rightarrow> Inr (PFloat x) | _ \<Rightarrow> Inl shape_error)"

definition strip_item :: "pyval \<Rightarrow> pyval" where
  "strip_item v = (case v of PStr s \<Rightarrow> PStr (strip s) | _ \<Rightarrow> v)"

text \<open>A JSON array pasted into the editor is read; text that is not JSON stays text.\<close>

definition pasted_list :: "'z adapter_env_scheme \<Rightarrow> pyval \<Rightarrow> pyval res" where
  "pasted_list E v = (case v of
       PStr s \<Rightarrow> if is_prefix [91] (strip s) then rescue [JSONDecodeError] (Inr v) (json_loads E s) else Inr v
     | _ \<Rightarrow> Inr v)"

definition list_items :: "pyval \<Rightarrow> pyval list" where
  "list_items v = filter (\<lambda>item. item \<noteq> PStr [])
     (case v of
        PList xs \<Rightarrow> map strip_item xs
      | PStr s \<Rightarrow> map (\<lambda>part. PStr (strip part)) (split_at 44 s)
      | _ \<Rightarrow> [v])"

definition list_value :: "'z adapter_env_scheme \<Rightarrow> pyval \<Rightarrow> pyval res" where
  "list_value E v =
     (if v = PNone then Inl shape_error
      else ebind (pasted_list E v) (\<lambda>value.
        let items = list_items value in
        if items = [] then Inl shape_error else Inr (PList items)))"

text \<open>\<^verbatim>\<open>_split_semver_suffix\<close>\<close>

fun split_semver_suffix :: "pstr \<Rightarrow> pstr \<times> pstr \<times> pstr" where
  "split_semver_suffix [] = ([], [], [])"
| "split_semver_suffix (c # s) =
     (if c = 45 \<or> c = 43 then ([], [c], s)
      else case split_semver_suffix s of (core, sep, rest) \<Rightarrow> (c # core, sep, rest))"

definition semver_parts :: "'z pyenv_scheme \<Rightarrow> pstr list \<Rightarrow> pstr list res" where
  "semver_parts E parts =
     etraverse (\<lambda>p. case int_text E p of None \<Rightarrow> Inl PyValueError | Some n \<Rightarrow> Inr (dec_of_int n)) parts"

definition semver_value :: "'z pyenv_scheme \<Rightarrow> pyval \<Rightarrow> pyval res" where
  "semver_value E v =
     (let v' = (case v of PInt _ \<Rightarrow> PStr (py_str E v) | PFloat _ \<Rightarrow> PStr (py_str E v) | _ \<Rightarrow> v) in
      case v' of
        PStr s \<Rightarrow>
          (if strip s = [] then Inl shape_error
           else
             (let text = strip s;
                  text' = (if is_prefix [118] text \<or> is_prefix [86] text then tl text else text)
              in case split_semver_suffix text' of (core, sep, rest) \<Rightarrow>
                (let parts = split_at 46 core in
                 if \<not> list_all (py_isdigit E) parts \<or> length parts > 3 then Inl shape_error
                 else ebind (semver_parts E (parts @ replicate (3 - length parts) (str ''0'')))
                   (\<lambda>ps. Inr (PStr (join_with [46] ps @ sep @ rest))))))
      | _ \<Rightarrow> Inl shape_error)"

definition geo_parts :: "pyval \<Rightarrow> (pyval \<times> pyval \<times> pyval \<times> pyval) res" where
  "geo_parts v = (case v of
       PStr s \<Rightarrow>
         (case map (\<lambda>p. PStr (strip p)) (split_at 44 s) of
            lat # lon # radius # tail_parts \<Rightarrow>
              Inr (lat, lon, radius, (case tail_parts of u # _ \<Rightarrow> or_default u PNone | [] \<Rightarrow> PNone))
          | _ \<Rightarrow> Inl shape_error)
     | PDict d \<Rightarrow>
         Inr (if has_key d ''lat'' then dget d ''lat'' else dget d ''latitude'',
              if has_key d ''lon'' then dget d ''lon''
              else if has_key d ''lng'' then dget d ''lng'' else dget d ''longitude'',
              dget d ''radius'', dget d ''unit'')
     | PList (lat # lon # radius # tail_parts) \<Rightarrow>
         Inr (lat, lon, radius, (case tail_parts of u # _ \<Rightarrow> u | [] \<Rightarrow> PNone))
     | _ \<Rightarrow> Inl shape_error)"

definition geo_value :: "'z pyenv_scheme \<Rightarrow> pyval \<Rightarrow> (pyval \<times> pyval) res" where
  "geo_value E v =
     ebind (geo_parts v) (\<lambda>(lat, lon, radius, unit).
       rescue [PyTypeError, PyValueError] (Inl shape_error)
         (ebind (py_float E lat) (\<lambda>x. ebind (py_float E lon) (\<lambda>y. ebind (py_float E radius) (\<lambda>r.
            Inr (PList [PFloat x, PFloat y],
                 PDict ((str ''radius'', PFloat r) #
                   (if truthy unit then [(str ''unit'', PStr (py_str E unit))] else []))))))))"

text \<open>Both spellings of the window's bounds are kept.\<close>

definition copy_key :: "string \<Rightarrow> string \<Rightarrow> (pstr \<times> pyval) list \<Rightarrow> (pstr \<times> pyval) list" where
  "copy_key to_key from_key w =
     (if \<not> has_key w to_key \<and> has_key w from_key then dict_set (str to_key) (dget w from_key) w else w)"

definition time_window_value :: "'z adapter_env_scheme \<Rightarrow> pyval \<Rightarrow> pyval res" where
  "time_window_value E v =
     ebind (case v of PStr s \<Rightarrow> rescue [JSONDecodeError] (Inl shape_error) (json_loads E s)
            | _ \<Rightarrow> Inr v)
       (\<lambda>value. case value of
          PDict d \<Rightarrow>
            (let w = copy_key ''end'' ''end_time'' (copy_key ''start'' ''start_time''
                       (copy_key ''end_time'' ''end'' (copy_key ''start_time'' ''start'' d)))
             in if \<not> has_key w ''start'' \<or> \<not> has_key w ''end'' then Inl shape_error
                else Inr (PDict w))
        | _ \<Rightarrow> Inl shape_error)"

section \<open>Dashboard rules\<close>

definition SIMPLE_OPERATOR_MAP :: "(string \<times> operator_type) list" where
  "SIMPLE_OPERATOR_MAP =
    [(''equals'', EQUALS), (''not_equals'', NOT_EQUALS), (''contains'', CONTAINS),
     (''not_contains'', NOT_CONTAINS), (''starts_with'', STARTS_WITH), (''ends_with'', ENDS_WITH),
     (''greater_than'', GREATER_THAN), (''less_than'', LESS_THAN),
     (''greater_than_or_equal'', GREATER_THAN_OR_EQUAL), (''less_than_or_equal'', LESS_THAN_OR_EQUAL),
     (''in'', IN), (''not_in'', NOT_IN), (''regex'', MATCH_REGEX), (''is_null'', IS_NULL),
     (''is_not_null'', IS_NOT_NULL), (''geo_within_radius'', GEO_DISTANCE),
     (''time_window'', TIME_WINDOW), (''array_contains'', CONTAINS_ALL),
     (''array_intersects'', CONTAINS_ANY)]"

definition SEMVER_OPERATOR_MAP :: "(string \<times> string) list" where
  "SEMVER_OPERATOR_MAP =
    [(''semver_eq'', ''eq''), (''semver_gt'', ''gt''), (''semver_lt'', ''lt''),
     (''semver_gte'', ''gte''), (''semver_lte'', ''lte'')]"

definition SEGMENT_OPERATOR_MAP :: "(string \<times> operator_type) list" where
  "SEGMENT_OPERATOR_MAP = [(''in_segment'', IN_SEGMENT), (''not_in_segment'', NOT_IN_SEGMENT)]"

definition table_lookup :: "(string \<times> 'a) list \<Rightarrow> pstr \<Rightarrow> 'a option" where
  "table_lookup t k = map_of (map (\<lambda>(s, v). (str s, v)) t) k"

definition convert_simple ::
  "'z adapter_env_scheme \<Rightarrow> pstr \<Rightarrow> operator_type \<Rightarrow> pyval \<Rightarrow> condition res" where
  "convert_simple E attr op value =
     (if op = IS_NULL \<or> op = IS_NOT_NULL then make_condition E attr op PNone PNone
      else if op \<in> {IN, NOT_IN, CONTAINS_ALL, CONTAINS_ANY} then
        ebind (list_value E value) (\<lambda>v. make_condition E attr op v PNone)
      else if op \<in> {GREATER_THAN, GREATER_THAN_OR_EQUAL, LESS_THAN, LESS_THAN_OR_EQUAL} then
        ebind (numeric_value E value) (\<lambda>v. make_condition E attr op v PNone)
      else if op = GEO_DISTANCE then
        ebind (geo_value E value) (\<lambda>(point, extra). make_condition E attr op point extra)
      else if op = TIME_WINDOW then
        ebind (time_window_value E value) (\<lambda>v. make_condition E attr op v PNone)
      else if op = MATCH_REGEX \<and> \<not> (is_str value \<and> truthy value) then Inl shape_error
      else make_condition E attr op value PNone)"

definition convert_dashboard_condition :: "'z adapter_env_scheme \<Rightarrow> pyval \<Rightarrow> condition res" where
  "convert_dashboard_condition E v = (case v of
       PDict c \<Rightarrow>
         (let attr = strip (py_str E (or_default (dget c ''attribute'') (PStr [])));
              opname = strip (py_str E (or_default (dget c ''operator'') (PStr [])));
              value = dget c ''value''
          in if attr = [] then Inl shape_error
             else case table_lookup SEMVER_OPERATOR_MAP opname of
               Some comparison \<Rightarrow>
                 ebind (semver_value E value) (\<lambda>w.
                   make_condition E attr SEMANTIC_VERSION w (PStr (str comparison)))
             | None \<Rightarrow> (case table_lookup SEGMENT_OPERATOR_MAP opname of
                 Some op \<Rightarrow> make_condition E attr op value PNone
               | None \<Rightarrow> (case table_lookup SIMPLE_OPERATOR_MAP opname of
                   Some op \<Rightarrow> convert_simple E attr op value
                 | None \<Rightarrow> Inl shape_error)))
     | _ \<Rightarrow> Inl shape_error)"

text \<open>\<^verbatim>\<open>for x in (v or [])\<close>\<close>

definition iter_or_empty :: "pyval \<Rightarrow> pyval list res" where
  "iter_or_empty v =
     (if \<not> truthy v then Inr []
      else case v of
        PList xs \<Rightarrow> Inr xs
      | PDict d \<Rightarrow> Inr (map (\<lambda>(k, _). PStr k) d)
      | PStr s \<Rightarrow> Inr (map (\<lambda>c. PStr [c]) s)
      | PFrozenset xs \<Rightarrow> Inr (map PStr xs)
      | _ \<Rightarrow> Inl PyTypeError)"

text \<open>One group; \<open>None\<close> for a group without conditions, which contributes nothing.\<close>

definition convert_group :: "'z adapter_env_scheme \<Rightarrow> pyval \<Rightarrow> rule_group option res" where
  "convert_group E v = (case v of
       PDict g \<Rightarrow>
         ebind (iter_or_empty (dget g ''conditions'')) (\<lambda>raw.
         ebind (etraverse (convert_dashboard_condition E) raw) (\<lambda>cs.
           Inr (if cs = [] then None
                else Some (RuleGroup (logical_operator_of E (dget g ''logical_operator'')) cs []))))
     | _ \<Rightarrow> Inl shape_error)"

definition DASHBOARD_RULE_ID :: pstr where "DASHBOARD_RULE_ID = str ''dashboard''"

definition from_dashboard :: "'z adapter_env_scheme \<Rightarrow> (pstr \<times> pyval) list \<Rightarrow> targeting_rules res" where
  "from_dashboard E raw =
     ebind (iter_or_empty (dget raw ''groups'')) (\<lambda>raw_groups.
     ebind (etraverse (convert_group E) raw_groups) (\<lambda>converted.
       (let groups = List.map_filter (\<lambda>g. g) converted in
        if groups = [] then Inr \<lparr>rules = [], default_rule = None\<rparr>
        else ebind (rollout_percentage_of E (dget raw ''rollout_percentage'')) (\<lambda>pct.
          if \<not> (is_str (dget raw ''name'') \<or> dget raw ''name'' = PNone) then Inl ValidationError
          else Inr \<lparr>rules =
              [\<lparr>rule_id = py_str E (or_default (dget raw ''id'') (PStr DASHBOARD_RULE_ID)),
                rule = RuleGroup (logical_operator_of E (dget raw ''logical_operator'')) [] groups,
                rollout_percentage = pct, priority = 0\<rparr>],
              default_rule = None\<rparr>))))"

definition is_dashboard_rules_shape :: "(pstr \<times> pyval) list \<Rightarrow> bool" where
  "is_dashboard_rules_shape raw =
     (\<not> has_key raw ''rules'' \<and> (has_key raw ''groups'' \<or> has_key raw ''logical_operator''))"

definition normalise_targeting_rules :: "'z adapter_env_scheme \<Rightarrow> pyval \<Rightarrow> targeting_rules option res" where
  "normalise_targeting_rules E raw = (case raw of
       PDict d \<Rightarrow>
         (if d = [] then Inr None
          else if has_key d ''groups'' then
            rescue [TargetingRuleShapeError, ValidationError, PyTypeError] (Inr None)
              (emap Some (from_dashboard E d))
          else if has_key d ''rules'' then
            rescue [ValidationError] (Inr None) (emap Some (model_validate E raw))
          else Inr None)
     | _ \<Rightarrow> Inr None)"

text \<open>\<^verbatim>\<open>buckets_on_rule_id\<close> and \<^verbatim>\<open>stored_rule_id\<close>\<close>

definition buckets_on_rule_id :: "'z pyenv_scheme \<Rightarrow> pyval \<Rightarrow> bool res" where
  "buckets_on_rule_id E raw = (case raw of
       PDict d \<Rightarrow>
         (if is_dashboard_rules_shape d then
            (case map_of d (str ''groups'') of
               Some (PList gs) \<Rightarrow>
                 (if list_ex (\<lambda>g. case g of PDict gd \<Rightarrow> truthy (dget gd ''conditions'') | _ \<Rightarrow> False) gs
                  then emap (\<lambda>p. p < 100) (rollout_percentage_of E (dget d ''rollout_percentage''))
                  else Inr False)
             | _ \<Rightarrow> Inr False)
          else Inr False)
     | _ \<Rightarrow> Inr False)"

definition stored_rule_id :: "'z pyenv_scheme \<Rightarrow> pyval \<Rightarrow> pstr option" where
  "stored_rule_id E raw = (case raw of
       PDict d \<Rightarrow> if is_dashboard_rules_shape d \<and> truthy (dget d ''id'')
                  then Some (py_str E (dget d ''id'')) else None
     | _ \<Rightarrow> None)"

end
