(* ===== verification/Engine_Facts.thy ===== *)
theory Engine_Facts
  imports Targeting_Adapter
begin

text \<open>
  What the rules engine promises its callers: which exceptions abandon a ruleset, that nothing
  is short-circuited, the meaning of a group as a Boolean formula, the precedence of rules, the
  complement pairs of operators, the request context, and the rollout of a rule.
\<close>

section \<open>Exceptions\<close>

text \<open>
  \<^verbatim>\<open>datetime.fromtimestamp\<close> raises only what its documentation lists: \<^verbatim>\<open>OverflowError\<close>, \<^verbatim>\<open>OSError\<close>
  or \<^verbatim>\<open>ValueError\<close>.
\<close>

definition clock_ok :: "'z engine_env_scheme \<Rightarrow> bool" where
  "clock_ok E = (\<forall>v e. timestamp_datetime E v = Inl e \<longrightarrow> e \<in> {PyOverflowError, PyOSError, PyValueError})"

text \<open>The three exceptions of \<^verbatim>\<open>TargetingRulesError\<close>, which the callers handle.\<close>

fun abandons :: "exc \<Rightarrow> bool" where
  "abandons (PatternUnevaluable _) = True"
| "abandons TimeWindowUnreadable = True"
| "abandons (SegmentMembershipUnavailable _) = True"
| "abandons _ = False"

lemma py_float_raises:
  "py_float E v = Inl e \<Longrightarrow> e \<in> {PyTypeError, PyValueError, PyOverflowError}"
  by (cases v) (auto split: option.splits)

lemma float_pair_raises:
  "ebind (py_float E v) (\<lambda>x. ebind (py_float E w) (\<lambda>y. Inr (f x y))) = Inl e \<Longrightarrow>
     e \<in> {PyTypeError, PyValueError, PyOverflowError}"
  unfolding ebind_eq_Inl using py_float_raises by blast

lemma text_equals_typed_raises:
  "text_equals_typed E typed text = Inl x \<Longrightarrow> x = PyOverflowError"
  unfolding text_equals_typed_def Let_def rescue_def
  by (cases typed)
    (auto split: if_splits sum.splits dest!: float_pair_raises simp del: py_float.simps)

lemma values_equal_raises: "values_equal E a e = Inl x \<Longrightarrow> x = PyOverflowError"
  unfolding values_equal_def
  by (cases e; cases a) (auto split: if_splits dest: text_equals_typed_raises simp del: py_eq.simps)

lemma op_equals_raises: "op_equals E a e = Inl x \<Longrightarrow> x = out_of_range"
  by (auto simp: op_equals_def exc_rules split: if_splits dest: values_equal_raises)

lemma emap_eq_Inl [exc_rules]: "emap f m = Inl e \<longleftrightarrow> m = Inl e"
  by (cases m) auto

lemma op_not_equals_raises: "op_not_equals E a e = Inl x \<Longrightarrow> x = out_of_range"
  by (auto simp: op_not_equals_def exc_rules split: if_splits dest: values_equal_raises)

lemma eany_equal_raises: "eany (values_equal E a) xs = Inl x \<Longrightarrow> x = PyOverflowError"
  by (auto dest!: eany_Inl values_equal_raises)

lemma op_in_raises: "op_in E a e = Inl x \<Longrightarrow> x = out_of_range"
  by (auto simp: op_in_def exc_rules split: if_splits pyval.splits dest: eany_equal_raises)

lemma op_not_in_raises: "op_not_in E a e = Inl x \<Longrightarrow> x = out_of_range"
  by (auto simp: op_not_in_def exc_rules split: if_splits pyval.splits dest: eany_equal_raises)

lemma op_numeric_raises: "op_numeric E cmp a e = Inl x \<Longrightarrow> x = out_of_range"
  unfolding op_numeric_def rescue_def out_of_range_def
  by (auto split: if_splits sum.splits dest!: float_pair_raises)

lemma pattern_search_raises: "pattern_search E p v = Inl x \<Longrightarrow> abandons x"
  by (auto simp: pattern_search_def Let_def split: if_splits pyval.splits re2_result.splits)

lemma instant_pair_raises: "instant_pair a b = Inl x \<Longrightarrow> x = PyTypeError"
  by (cases "(a, b)" rule: instant_pair.cases) auto

lemma datetime_cmp_raises: "datetime_cmp cmp a b = Inl x \<Longrightarrow> x = PyTypeError"
  by (auto simp: datetime_cmp_def exc_rules dest: instant_pair_raises)

definition date_errors :: "exc set" where
  "date_errors = {PyOverflowError, PyOSError, PyValueError, PyTypeError}"

lemma to_datetime_raises:
  assumes "clock_ok E" and "to_datetime E v = Inl x"
  shows "x \<in> date_errors"
proof -
  have "x \<in> date_errors" if "timestamp_datetime E v = Inl x" for v
    using assms(1) that by (auto simp: clock_ok_def date_errors_def)
  with assms(2) show ?thesis
    by (auto simp: to_datetime_def exc_rules date_errors_def split: pyval.splits option.splits if_splits)
qed

lemma date_guard_raises: "date_guard m = Inl x \<Longrightarrow> (\<And>y. m = Inl y \<Longrightarrow> y \<in> date_errors) \<Longrightarrow> x = out_of_range"
  by (cases m) (auto simp: date_guard_def date_errors_def out_of_range_def split: if_splits)

lemma ebind_raises:
  "ebind m f = Inl x \<Longrightarrow> (\<And>e. m = Inl e \<Longrightarrow> P e) \<Longrightarrow> (\<And>a e. m = Inr a \<Longrightarrow> f a = Inl e \<Longrightarrow> P e) \<Longrightarrow> P x"
  by (cases m) auto

lemma datetime_cmp_date_errors: "datetime_cmp cmp a b = Inl x \<Longrightarrow> x \<in> date_errors"
  by (auto simp: date_errors_def dest: datetime_cmp_raises)

lemma py_float_date_errors: "py_float E v = Inl x \<Longrightarrow> x \<in> date_errors"
  by (auto simp: date_errors_def dest: py_float_raises)

lemma op_before_after_raises:
  assumes "clock_ok E" and "op_before_after E cmp a e = Inl x"
  shows "x = out_of_range"
  using assms(2) unfolding op_before_after_def
  by (rule date_guard_raises)
    (auto simp: exc_rules split: option.splits
      intro: to_datetime_raises [OF assms(1)] datetime_cmp_date_errors)

lemma op_between_raises:
  assumes "clock_ok E" and "op_between E a e w = Inl x"
  shows "x = out_of_range"
proof (cases "w = PNone")
  case True
  with assms(2) show ?thesis by (simp add: op_between_def)
next
  case False
  with assms(2) show ?thesis
    unfolding op_between_def if_not_P [OF False]
    by (elim date_guard_raises)
      (auto simp: exc_rules split: option.splits if_splits
        intro: to_datetime_raises [OF assms(1)] datetime_cmp_date_errors py_float_date_errors)
qed

lemma time_of_raises: "time_of h m s = Inl x \<Longrightarrow> x = PyOverflowError"
  by (auto simp: time_of_def split: if_splits)

lemma parse_time_raises: "parse_time E v = Inl x \<Longrightarrow> x = PyOverflowError"
  by (auto simp: parse_time_def split: pyval.splits list.splits option.splits dest: time_of_raises)

lemma check_time_window_raises:
  "check_time_window E v = Inl x \<Longrightarrow> x = TimeWindowUnreadable \<or> x = PyOverflowError"
  by (auto simp: check_time_window_def check_window_days_def check_window_times_def
      check_window_dates_def exc_rules split: pyval.splits if_splits option.splits
      dest: parse_time_raises)

lemma op_time_window_raises:
  "op_time_window E a v = Inl x \<Longrightarrow> x = TimeWindowUnreadable \<or> x = PyOverflowError"
  by (auto simp: op_time_window_def exc_rules split: pyval.splits option.splits
      dest: check_time_window_raises)

lemma segment_condition_holds_raises:
  "segment_condition_holds c ctx = Inl x \<Longrightarrow> x = SegmentMembershipUnavailable [segment_id_label (cvalue c)]"
  by (auto simp: segment_condition_holds_def split: if_splits option.splits pyval.splits)

lemma out_of_range_abandons [simp]: "abandons out_of_range"
  by (simp add: out_of_range_def)

lemma apply_operator_raises:
  assumes "clock_ok E" and "apply_operator E op a e w = Inl x"
  shows "abandons x \<or> op = TIME_WINDOW \<and> x = PyOverflowError"
  using assms(2)
  by (cases op)
    (auto simp: apply_operator_def is_segment_operator_def split: if_splits
      dest!: op_equals_raises op_not_equals_raises op_in_raises op_not_in_raises op_numeric_raises
        op_time_window_raises op_before_after_raises [OF assms(1)] op_between_raises [OF assms(1)]
      dest: pattern_search_raises)

text \<open>What one condition may raise.\<close>

lemma evaluate_condition_raises:
  assumes "clock_ok E" and "evaluate_condition E c ctx = Inl x"
  shows "abandons x \<or> operator c = TIME_WINDOW \<and> x = PyOverflowError"
  using assms(2)
  by (auto simp: evaluate_condition_def exc_rules
      split: option.splits if_splits
      dest!: segment_condition_holds_raises check_time_window_raises apply_operator_raises [OF assms(1)])

section \<open>Groups\<close>

lemma evaluate_rule_group_raises:
  "(\<exists>e. evaluate_rule_group E g ctx = Inl e) \<longleftrightarrow>
     (\<exists>c\<in>set (all_conditions g). \<exists>e. evaluate_condition E c ctx = Inl e)"
proof (induction g)
  case (RuleGroup op cs gs)
  have "(\<exists>e. evaluate_rule_group E (RuleGroup op cs gs) ctx = Inl e) \<longleftrightarrow>
    (\<exists>e. etraverse (\<lambda>c. evaluate_condition E c ctx) cs = Inl e) \<or>
    (\<exists>e. etraverse (\<lambda>g. evaluate_rule_group E g ctx) gs = Inl e)"
    by (cases "etraverse (\<lambda>c. evaluate_condition E c ctx) cs";
        cases "etraverse (\<lambda>g. evaluate_rule_group E g ctx) gs") auto
  then show ?case
    unfolding etraverse_raises_iff using RuleGroup by auto
qed

lemma evaluate_rule_group_raises_some:
  "evaluate_rule_group E g ctx = Inl e \<Longrightarrow> \<exists>c\<in>set (all_conditions g). evaluate_condition E c ctx = Inl e"
proof (induction g)
  case (RuleGroup op cs gs)
  from RuleGroup.prems have "etraverse (\<lambda>c. evaluate_condition E c ctx) cs = Inl e \<or>
    etraverse (\<lambda>g. evaluate_rule_group E g ctx) gs = Inl e"
    by (auto simp: exc_rules)
  with RuleGroup.IH show ?case
    by (fastforce dest!: etraverse_Inl)
qed

text \<open>A group as a Boolean formula over its conditions; an empty group holds.\<close>

fun group_holds :: "(condition \<Rightarrow> bool) \<Rightarrow> rule_group \<Rightarrow> bool" where
  "group_holds h (RuleGroup op cs gs) =
     (cs = [] \<and> gs = [] \<or>
      (case op of
         AND \<Rightarrow> (\<forall>c\<in>set cs. h c) \<and> (\<forall>g\<in>set gs. group_holds h g)
       | OR \<Rightarrow> (\<exists>c\<in>set cs. h c) \<or> (\<exists>g\<in>set gs. group_holds h g)
       | NOT \<Rightarrow> (\<exists>c\<in>set cs. \<not> h c) \<or> (\<exists>g\<in>set gs. \<not> group_holds h g)))"

lemma combine_results_spec:
  "combine_results op bs =
     (bs = [] \<or> (case op of AND \<Rightarrow> (\<forall>b\<in>set bs. b) | OR \<Rightarrow> (\<exists>b\<in>set bs. b) | NOT \<Rightarrow> (\<exists>b\<in>set bs. \<not> b)))"
proof (cases bs)
  case Nil
  then show ?thesis by (simp add: combine_results_def)
next
  case (Cons b cs)
  then show ?thesis
    by (cases op; cases cs) (auto simp: combine_results_def list_all_iff list_ex_iff)
qed

text \<open>Where every condition has an answer, the group's result is the formula's value.\<close>

lemma evaluate_rule_group_refines:
  "(\<And>c. c \<in> set (all_conditions g) \<Longrightarrow> evaluate_condition E c ctx = Inr (h c)) \<Longrightarrow>
     evaluate_rule_group E g ctx = Inr (group_holds h g)"
proof (induction g)
  case (RuleGroup op cs gs)
  have cs: "etraverse (\<lambda>c. evaluate_condition E c ctx) cs = Inr (map h cs)"
    using RuleGroup.prems by (intro etraverse_total) simp
  have gs: "etraverse (\<lambda>g. evaluate_rule_group E g ctx) gs = Inr (map (group_holds h) gs)"
    using RuleGroup by (intro etraverse_total) auto
  show ?case
    by (cases op) (auto simp: cs gs combine_results_spec)
qed

section \<open>Precedence of rules\<close>

lemma first_match_eq:
  "first_match E rs ctx = Inr (Some r) \<Longrightarrow>
     \<exists>as bs. rs = as @ r # bs \<and> evaluate_rule E r ctx = Inr True \<and>
       (\<forall>a\<in>set as. evaluate_rule E a ctx = Inr False)"
proof (induction rs)
  case Nil
  then show ?case by simp
next
  case (Cons q qs)
  show ?case
  proof (cases "evaluate_rule E q ctx = Inr True")
    case True
    with Cons.prems have "q # qs = [] @ r # qs \<and> evaluate_rule E r ctx = Inr True" by simp
    then show ?thesis by (intro exI [of _ "[]"] exI [of _ qs]) simp
  next
    case False
    with Cons.prems have q: "evaluate_rule E q ctx = Inr False"
      and "first_match E qs ctx = Inr (Some r)"
      by (auto simp: exc_rules split: if_splits)
    with Cons.IH obtain as bs where "qs = as @ r # bs" "evaluate_rule E r ctx = Inr True"
      "\<forall>a\<in>set as. evaluate_rule E a ctx = Inr False" by auto
    with q have "q # qs = (q # as) @ r # bs \<and> evaluate_rule E r ctx = Inr True \<and>
      (\<forall>a\<in>set (q # as). evaluate_rule E a ctx = Inr False)" by simp
    then show ?thesis by blast
  qed
qed

lemma first_match_find:
  "first_match E rs ctx = Inr m \<Longrightarrow> m = List.find (\<lambda>r. evaluate_rule E r ctx = Inr True) rs"
  by (induction rs) (auto simp: exc_rules split: if_splits)

lemma first_match_None_iff:
  "first_match E rs ctx = Inr None \<longleftrightarrow> (\<forall>r\<in>set rs. evaluate_rule E r ctx = Inr False)"
  by (induction rs) (auto simp: exc_rules split: if_splits)

section \<open>The request context\<close>

lemma flatten_into_keeps:
  "map_of out k = Some v \<Longrightarrow> map_of (flatten_into items prefix out) k = Some v"
proof (induction items prefix out rule: flatten_into.induct)
  case (1 prefix out)
  then show ?case by simp
next
  case (2 key item items prefix out)
  from "2.prems" have "map_of (setdefault (prefix @ key) item out) k = Some v"
    by (simp only: setdefault_keeps)
  with 2 show ?case by (cases item) (simp_all del: map_of_setdefault)
qed

lemma flatten_into_dotted:
  "map_of out k = None \<Longrightarrow> 46 \<notin> set k \<Longrightarrow> 46 \<in> set prefix \<Longrightarrow>
     map_of (flatten_into items prefix out) k = None"
proof (induction items prefix out rule: flatten_into.induct)
  case (1 prefix out)
  then show ?case by simp
next
  case (2 key item items prefix out)
  from "2.prems" have "k \<noteq> prefix @ key" by auto
  with 2 show ?case by (cases item) simp_all
qed

text \<open>A key without a dot is flattened to the request's own value.\<close>

lemma flatten_into_top:
  "46 \<notin> set k \<Longrightarrow> map_of out k = None \<Longrightarrow>
     map_of (flatten_into items [] out) k = map_of items k"
proof (induction items arbitrary: out)
  case Nil
  then show ?case by simp
next
  case (Cons kv items)
  obtain key item where kv: "kv = (key, item)" by fastforce
  define out' where "out' = (case item of
      PDict d \<Rightarrow> flatten_into d (key @ [46]) (setdefault key item out)
    | _ \<Rightarrow> setdefault key item out)"
  have step: "flatten_into (kv # items) [] out = flatten_into items [] out'"
    by (simp add: kv out'_def split: pyval.split)
  show ?case
  proof (cases "key = k")
    case True
    then have "map_of out' k = Some item"
      using Cons.prems by (auto simp: out'_def intro!: flatten_into_keeps split: pyval.splits)
    then show ?thesis
      unfolding step using True by (simp add: kv flatten_into_keeps)
  next
    case False
    then have "map_of out' k = None"
      using Cons.prems by (auto simp: out'_def intro!: flatten_into_dotted split: pyval.splits)
    then show ?thesis
      unfolding step using False Cons.prems Cons.IH by (simp add: kv)
  qed
qed

lemma forward_alias_keeps: "map_of out k = Some v \<Longrightarrow> map_of (forward_alias out kv) k = Some v"
  unfolding forward_alias_def
  by (auto intro!: foldl_keeps [where P = "\<lambda>d. map_of d k = Some v"] setdefault_keeps
      simp del: map_of_setdefault split: prod.splits)

lemma reverse_alias_keeps: "map_of out k = Some v \<Longrightarrow> map_of (reverse_alias out kv) k = Some v"
  unfolding reverse_alias_def by (auto split: prod.splits)

lemma expand_items_keeps:
  "map_of (flatten_into items [] []) k = Some v \<Longrightarrow> map_of (expand_items items) k = Some v"
  unfolding expand_items_def Let_def
  by (intro foldl_keeps [where P = "\<lambda>d. map_of d k = Some v"] forward_alias_keeps reverse_alias_keeps)

section \<open>Segment membership\<close>

lemma with_memberships_lookup:
  "map_of (with_memberships ctx m) k =
     (if k = SEGMENT_MEMBERSHIP_KEY then map_option PFrozenset m else map_of ctx k)"
  by (auto simp: with_memberships_def Let_def split: option.splits)

text \<open>The answer of a segment condition depends on the resolved memberships only.\<close>

lemma segment_condition_with_memberships:
  "segment_condition_holds c (with_memberships ctx m) =
     segment_condition_holds c (with_memberships ctx' m)"
  by (simp add: segment_condition_holds_def with_memberships_lookup)

section \<open>Operators and their complements\<close>

definition complement_pairs :: "(operator_type \<times> operator_type) list" where
  "complement_pairs = [(EQUALS, NOT_EQUALS), (IN, NOT_IN), (CONTAINS, NOT_CONTAINS),
     (IS_NULL, IS_NOT_NULL), (IN_SEGMENT, NOT_IN_SEGMENT)]"

lemma rescue_emap: "rescue es (Inl e) (emap f m) = emap f (rescue es (Inl e) m)"
  by (cases m) auto

lemma apply_operator_complement:
  assumes "(op, op') \<in> set complement_pairs" and "\<not> is_segment_operator op" and "v \<noteq> PNone"
    and "op = IN \<longrightarrow> is_list e"
  shows "apply_operator E op' v e w = emap Not (apply_operator E op v e w)"
proof -
  from assms(1,2) consider "op = EQUALS" "op' = NOT_EQUALS" | "op = IN" "op' = NOT_IN"
    | "op = CONTAINS" "op' = NOT_CONTAINS" | "op = IS_NULL" "op' = IS_NOT_NULL"
    by (auto simp: complement_pairs_def is_segment_operator_def)
  then show ?thesis
  proof cases
    case 2
    then obtain items where "e = PList items"
      using assms(4) by (cases e) simp_all
    with 2 assms(3) show ?thesis
      by (simp add: apply_operator_def is_segment_operator_def op_in_def op_not_in_def rescue_emap)
  qed (use assms(3) in \<open>simp_all add: apply_operator_def is_segment_operator_def op_equals_def
      op_not_equals_def rescue_emap\<close>)
qed

lemma segment_complement:
  "segment_condition_holds (c\<lparr>operator := NOT_IN_SEGMENT\<rparr>) ctx =
     emap (map_option Not) (segment_condition_holds (c\<lparr>operator := IN_SEGMENT\<rparr>) ctx)"
  by (simp add: segment_condition_holds_def is_segment_operator_def split: option.split pyval.split)

lemma complement_condition:
  assumes "(op, op') \<in> set complement_pairs"
    and "map_of ctx (attribute c) = Some v" and "v \<noteq> PNone" and "op = IN \<longrightarrow> is_list (cvalue c)"
  shows "evaluate_condition E (c\<lparr>operator := op'\<rparr>) ctx = emap Not (evaluate_condition E (c\<lparr>operator := op\<rparr>) ctx)"
proof (cases "op = IN_SEGMENT")
  case True
  with assms(1) have "op' = NOT_IN_SEGMENT" by (simp add: complement_pairs_def)
  with True show ?thesis
    by (cases "segment_condition_holds (c\<lparr>operator := IN_SEGMENT\<rparr>) ctx")
      (auto simp: evaluate_condition_def segment_complement segment_condition_holds_def
        is_segment_operator_def split: option.splits pyval.splits)
next
  case False
  with assms(1) have ops: "\<not> is_segment_operator op" "\<not> is_segment_operator op'"
      "op \<noteq> TIME_WINDOW" "op' \<noteq> TIME_WINDOW"
    by (auto simp: complement_pairs_def is_segment_operator_def)
  have "evaluate_condition E (c\<lparr>operator := q\<rparr>) ctx = apply_operator E q v (cvalue c) (additional_value c)"
    if "\<not> is_segment_operator q" "q \<noteq> TIME_WINDOW" for q
    using that assms(2) by (simp add: evaluate_condition_def segment_condition_holds_def)
  with ops show ?thesis
    using apply_operator_complement [OF assms(1) ops(1) assms(3,4)] by simp
qed

section \<open>Time windows\<close>

lemma minute_div: "MINUTE * a \<le> t \<longleftrightarrow> a \<le> t div MINUTE"
  unfolding MINUTE_def by linarith

lemma end_minute: "time_matches_or_before_end t (MINUTE * b) \<longleftrightarrow> t div MINUTE \<le> b"
proof -
  have "t \<le> MINUTE * b \<Longrightarrow> t div MINUTE \<le> b"
    using zdiv_mono1 [of t "MINUTE * b" MINUTE] by (simp add: MINUTE_def)
  moreover have "t div MINUTE < b \<Longrightarrow> t \<le> MINUTE * b"
    using minute_div [of "t div MINUTE + 1" t] by (simp add: MINUTE_def)
  ultimately show ?thesis
    by (auto simp: time_matches_or_before_end_def MINUTE_def)
qed

lemma time_in_range_minutes:
  "time_in_range (MINUTE * a) (MINUTE * b) t \<longleftrightarrow>
     (if b < a then a \<le> t div MINUTE \<or> t div MINUTE \<le> b
      else a \<le> t div MINUTE \<and> t div MINUTE \<le> b)"
  unfolding time_in_range_def end_minute
  using minute_div [of a t] by (auto simp: MINUTE_def)

text \<open>
  Windows of whole minutes: a window and the window from the minute after its end to the minute
  before its start divide the day, whether or not one of them crosses midnight.
\<close>

lemma window_complement:
  assumes "0 \<le> a" "a < 1440" "0 \<le> b" "b < 1440" "(b + 1) mod 1440 \<noteq> a" "0 \<le> t" "t < DAY"
  shows "time_in_range (MINUTE * a) (MINUTE * b) t \<longleftrightarrow>
     \<not> time_in_range (MINUTE * ((b + 1) mod 1440)) (MINUTE * ((a - 1) mod 1440)) t"
proof -
  have "0 \<le> t div MINUTE" "t div MINUTE < 1440"
    using assms(6,7) by (simp_all add: MINUTE_def DAY_def)
  moreover have "(b + 1) mod 1440 = (if b = 1439 then 0 else b + 1)"
    "(a - 1) mod 1440 = (if a = 0 then 1439 else a - 1)"
    using assms(1-4) by auto
  ultimately show ?thesis
    using assms(1-5) unfolding time_in_range_minutes by auto
qed

end
