(* ===== verification/Adapter_Facts.thy ===== *)
theory Adapter_Facts
  imports Engine_Facts
begin

text \<open>
  What the stored-rule adapter promises the evaluators: every rule it returns has passed the
  schema's validators, so no condition reads the server's membership key as an attribute, and a
  match depends on the resolved memberships only through the segments the rules name.
\<close>

section \<open>The environment\<close>

text \<open>
  What the program relies on of the code it does not contain: \<^verbatim>\<open>fromtimestamp\<close> raises only its
  documented exceptions, \<^verbatim>\<open>TargetingRules.model_validate\<close> returns objects that passed the model's
  validators, and \<open>$\<close> is not alphanumeric.
\<close>

definition env_ok :: "'z adapter_env_scheme \<Rightarrow> bool" where
  "env_ok E =
     (clock_ok E \<and> (\<forall>v rs. model_validate E v = Inr rs \<longrightarrow> valid_rules E rs) \<and> \<not> alnum_char E 36)"

section \<open>Converted rules are valid\<close>

lemma convert_simple_valid: "convert_simple E a op v = Inr c \<Longrightarrow> valid_condition E c"
  by (auto simp: convert_simple_def exc_rules split: if_splits prod.splits dest: make_condition_valid)

lemma convert_dashboard_condition_valid:
  "convert_dashboard_condition E v = Inr c \<Longrightarrow> valid_condition E c"
  by (auto simp: convert_dashboard_condition_def Let_def exc_rules
      split: pyval.splits if_splits option.splits dest: make_condition_valid convert_simple_valid)

lemma etraverse_all: "etraverse f xs = Inr ys \<Longrightarrow> (\<And>x y. f x = Inr y \<Longrightarrow> P y) \<Longrightarrow> list_all P ys"
  by (induction xs arbitrary: ys) (auto simp: exc_rules)

lemma convert_group_valid: "convert_group E v = Inr (Some g) \<Longrightarrow> valid_group E g"
  by (auto simp: convert_group_def exc_rules valid_group_def
      split: pyval.splits if_splits
      dest!: etraverse_all [where P = "valid_condition E", OF _ convert_dashboard_condition_valid])

lemma rollout_percentage_of_range: "rollout_percentage_of E v = Inr p \<Longrightarrow> 0 \<le> p \<and> p \<le> 100"
  by (auto simp: rollout_percentage_of_def rescue_def exc_rules split: if_splits sum.splits)

lemma from_dashboard_valid: "from_dashboard E d = Inr rs \<Longrightarrow> valid_rules E rs"
proof -
  assume a: "from_dashboard E d = Inr rs"
  then obtain converted where c: "\<exists>raw_groups. etraverse (convert_group E) raw_groups = Inr converted"
    and rest: "(let groups = List.map_filter (\<lambda>g. g) converted in
        if groups = [] then Inr \<lparr>rules = [], default_rule = None\<rparr>
        else ebind (rollout_percentage_of E (dget d ''rollout_percentage'')) (\<lambda>pct.
          if \<not> (is_str (dget d ''name'') \<or> dget d ''name'' = PNone) then Inl ValidationError
          else Inr \<lparr>rules =
              [\<lparr>rule_id = py_str E (or_default (dget d ''id'') (PStr DASHBOARD_RULE_ID)),
                rule = RuleGroup (logical_operator_of E (dget d ''logical_operator'')) [] groups,
                rollout_percentage = pct, priority = 0\<rparr>],
              default_rule = None\<rparr>)) = Inr rs"
    unfolding from_dashboard_def ebind_eq_Inr by blast
  from c have "list_all (\<lambda>o'. \<forall>g. o' = Some g \<longrightarrow> valid_group E g) converted"
    by (auto intro!: etraverse_all convert_group_valid)
  then have "\<forall>g\<in>set (List.map_filter (\<lambda>g. g) converted). valid_group E g"
    by (auto simp: List.map_filter_def list_all_iff)
  with rest show ?thesis
    by (auto simp: valid_rules_def valid_rule_def valid_group_def list_all_iff exc_rules Let_def
        split: if_splits dest: rollout_percentage_of_range)
qed

lemma normalise_valid:
  assumes "env_ok E" and "normalise_targeting_rules E raw = Inr (Some rs)"
  shows "valid_rules E rs"
  using assms
  by (auto simp: normalise_targeting_rules_def rescue_def exc_rules env_ok_def
      split: pyval.splits if_splits sum.splits dest: from_dashboard_valid)

section \<open>No condition reads the membership key\<close>

definition reads_no_memberships :: "rule_group \<Rightarrow> bool" where
  "reads_no_memberships g = (\<forall>c\<in>set (all_conditions g). attribute c \<noteq> SEGMENT_MEMBERSHIP_KEY)"

lemma segment_key_not_valid:
  "\<not> alnum_char E 36 \<Longrightarrow> \<not> valid_attribute_name E SEGMENT_MEMBERSHIP_KEY"
  by (simp add: valid_attribute_name_def py_isalnum_def SEGMENT_MEMBERSHIP_KEY_def str_def)

lemma valid_group_reads:
  "\<not> alnum_char E 36 \<Longrightarrow> valid_group E g \<Longrightarrow> reads_no_memberships g"
  by (auto simp: valid_group_def reads_no_memberships_def list_all_iff
      dest!: valid_condition_attribute bspec segment_key_not_valid)

lemma normalise_reads:
  assumes "env_ok E" and "normalise_targeting_rules E raw = Inr (Some rs)" and "r \<in> set (rules rs)"
  shows "reads_no_memberships (rule r)"
proof (rule valid_group_reads)
  show "\<not> alnum_char E 36" using assms(1) by (simp add: env_ok_def)
  show "valid_group E (rule r)"
    using normalise_valid [OF assms(1,2)] assms(3)
    by (auto simp: valid_rules_def valid_rule_def list_all_iff)
qed

section \<open>Evaluation depends on the attributes and segments it names\<close>

lemma evaluate_condition_cong:
  assumes "segment_condition_holds c ctx = segment_condition_holds c ctx'"
    and "map_of ctx (attribute c) = map_of ctx' (attribute c)"
  shows "evaluate_condition E c ctx = evaluate_condition E c ctx'"
  unfolding evaluate_condition_def assms ..

lemma evaluate_rule_group_cong:
  "(\<And>c. c \<in> set (all_conditions g) \<Longrightarrow> evaluate_condition E c ctx = evaluate_condition E c ctx') \<Longrightarrow>
     evaluate_rule_group E g ctx = evaluate_rule_group E g ctx'"
proof (induction g)
  case (RuleGroup op cs gs)
  have "etraverse (\<lambda>c. evaluate_condition E c ctx) cs = etraverse (\<lambda>c. evaluate_condition E c ctx') cs"
    using RuleGroup.prems by (intro etraverse_cong) auto
  moreover have "etraverse (\<lambda>g. evaluate_rule_group E g ctx) gs = etraverse (\<lambda>g. evaluate_rule_group E g ctx') gs"
    using RuleGroup by (intro etraverse_cong) auto
  ultimately show ?case by simp
qed

lemma first_match_cong:
  "(\<And>r. r \<in> set rs \<Longrightarrow> evaluate_rule E r ctx = evaluate_rule E r ctx') \<Longrightarrow>
     first_match E rs ctx = first_match E rs ctx'"
  by (induction rs) (auto simp: ebind_def split: sum.split)

lemma match_targeting_rule_cong:
  "(\<And>r. r \<in> set (rules rs) \<Longrightarrow> evaluate_rule E r ctx = evaluate_rule E r ctx') \<Longrightarrow>
     match_targeting_rule E rs ctx = match_targeting_rule E rs ctx'"
  unfolding match_targeting_rule_def by (subst first_match_cong [of _ _ _ ctx']) auto

lemma segment_ids_in_rule:
  assumes "r \<in> set (rules rs)" and "c \<in> set (all_conditions (rule r))"
    and "is_segment_operator (operator c)" and "cvalue c = PStr s"
  shows "s \<in> set (segment_ids_in rs)"
  using assms by (fastforce simp: segment_ids_in_def segment_conditions_def rule_roots_def)

lemma segment_condition_members:
  assumes "\<And>s. is_segment_operator (operator c) \<Longrightarrow> cvalue c = PStr s \<Longrightarrow> s \<in> set m \<longleftrightarrow> s \<in> set m'"
  shows "segment_condition_holds c (with_memberships ctx (Some m)) =
     segment_condition_holds c (with_memberships ctx (Some m'))"
  using assms
  by (auto simp: segment_condition_holds_def with_memberships_lookup is_segment_operator_def
      split: pyval.splits)

text \<open>Two membership answers that agree on the referenced segments give the same match.\<close>

lemma match_members_cong:
  assumes reads: "\<And>r. r \<in> set (rules rs) \<Longrightarrow> reads_no_memberships (rule r)"
    and agree: "\<And>s. s \<in> set (segment_ids_in rs) \<Longrightarrow> s \<in> set m \<longleftrightarrow> s \<in> set m'"
  shows "match_targeting_rule E rs (with_memberships ctx (Some m)) =
     match_targeting_rule E rs (with_memberships ctx (Some m'))"
proof (rule match_targeting_rule_cong)
  fix r assume r: "r \<in> set (rules rs)"
  show "evaluate_rule E r (with_memberships ctx (Some m)) = evaluate_rule E r (with_memberships ctx (Some m'))"
    unfolding evaluate_rule_def
  proof (intro evaluate_rule_group_cong evaluate_condition_cong segment_condition_members)
    fix c assume c: "c \<in> set (all_conditions (rule r))"
    show "map_of (with_memberships ctx (Some m)) (attribute c) = map_of (with_memberships ctx (Some m')) (attribute c)"
      using reads [OF r] c by (simp add: reads_no_memberships_def with_memberships_lookup)
    fix s assume "is_segment_operator (operator c)" "cvalue c = PStr s"
    then show "s \<in> set m \<longleftrightarrow> s \<in> set m'"
      using agree segment_ids_in_rule [OF r c] by blast
  qed
qed

end
