(* ===== verification/Segment_Membership.thy ===== *)
theory Segment_Membership
  imports Adapter_Facts "HOL-Library.List_Lexorder"
begin

text \<open>
  Segment membership, \<^verbatim>\<open>backend/app/services/segment_membership.py\<close>: which of the segments a
  ruleset references a user is a member of, and which of them cannot be decided. The tables are
  lists of rows; \<open>segments_readable\<close> and \<open>members_readable\<close> tell whether the two queries succeed
  or raise \<^verbatim>\<open>SQLAlchemyError\<close>. The write-time validator \<^verbatim>\<open>validate_segment_rules\<close> is an argument.
\<close>

section \<open>State\<close>

datatype segment_status = SegmentActive | SegmentInactive | SegmentArchived

record segment_row =
  segment_id :: pstr
  segment_kind :: pstr
  segment_state :: segment_status
  segment_rules :: pyval

record segment_db =
  segment_rows :: "segment_row list"
  member_rows :: "(pstr \<times> pstr) list"
  segments_readable :: bool
  members_readable :: bool

record segment_memberships =
  members :: "pstr list"
  evaluated :: "pstr list"
  unavailable :: "pstr list"

definition NO_SEGMENTS :: segment_memberships where
  "NO_SEGMENTS = \<lparr>members = [], evaluated = [], unavailable = []\<rparr>"

definition undecided :: "segment_memberships \<Rightarrow> pstr list \<Rightarrow> pstr list" where
  "undecided ms ids = filter (\<lambda>s. s \<notin> set (evaluated ms) \<or> s \<in> set (unavailable ms)) ids"

section \<open>Resolution\<close>

definition MAX_MEMBER_ID_LENGTH :: nat where "MAX_MEMBER_ID_LENGTH = 255"

text \<open>\<^verbatim>\<open>contains_unstorable_text\<close> of a string: NUL or a lone surrogate.\<close>

definition unstorable_text :: "pstr \<Rightarrow> bool" where
  "unstorable_text s = list_ex (\<lambda>c. c = 0 \<or> is_surrogate c) s"

definition storable_member_id :: "pstr \<Rightarrow> bool" where
  "storable_member_id user_id =
     (1 \<le> length user_id \<and> length user_id \<le> MAX_MEMBER_ID_LENGTH \<and> \<not> unstorable_text user_id)"

definition segment_context :: "user_context \<Rightarrow> pstr \<Rightarrow> user_context" where
  "segment_context ctx user_id =
     dict_set (str ''user.user_id'') (PStr user_id)
       (dict_set (str ''user_id'') (PStr user_id) (dict_pop SEGMENT_MEMBERSHIP_KEY ctx))"

definition ID_LIST :: pstr where "ID_LIST = str ''id_list''"

text \<open>What one row contributes: a member, unavailable, or an id list left for the second query.\<close>

datatype row_outcome = Member | NotMember | Unavailable | IdList

definition row_outcome ::
  "'z engine_env_scheme \<Rightarrow> (pyval \<Rightarrow> targeting_rules res) \<Rightarrow> user_context \<Rightarrow> segment_row \<Rightarrow> row_outcome res"
where
  "row_outcome E validate seg_ctx row =
     (if segment_state row \<noteq> SegmentActive then Inr Unavailable
      else if segment_kind row = ID_LIST then Inr IdList
      else case validate (segment_rules row) of
        Inl (TargetingRulesError path code) \<Rightarrow> Inr Unavailable
      | Inl e \<Rightarrow> Inl e
      | Inr rs \<Rightarrow>
          (case match_targeting_rule E rs seg_ctx of
             Inr (Some _) \<Rightarrow> Inr Member
           | Inr None \<Rightarrow> Inr NotMember
           | Inl (PatternUnevaluable _) \<Rightarrow> Inr Unavailable
           | Inl TimeWindowUnreadable \<Rightarrow> Inr Unavailable
           | Inl e \<Rightarrow> Inl e))"

definition ids_with :: "row_outcome \<Rightarrow> (pstr \<times> row_outcome) list \<Rightarrow> pstr list" where
  "ids_with out outcomes = map fst (filter (\<lambda>(_, o'). o' = out) outcomes)"

text \<open>The rows found, in the order of their ids.\<close>

definition found_rows :: "segment_db \<Rightarrow> pstr list \<Rightarrow> segment_row list" where
  "found_rows db wanted = sort_key segment_id (filter (\<lambda>r. segment_id r \<in> set wanted) (segment_rows db))"

definition id_list_hits :: "segment_db \<Rightarrow> pstr list \<Rightarrow> pstr \<Rightarrow> pstr list" where
  "id_list_hits db id_lists user_id =
     map fst (filter (\<lambda>(s, m). s \<in> set id_lists \<and> m = user_id) (member_rows db))"

text \<open>The answer from the outcomes of the rows found.\<close>

definition malformed_ids :: "pstr list \<Rightarrow> pstr list" where
  "malformed_ids ids = filter (\<lambda>s. \<not> is_segment_id (PStr s)) ids"

definition wanted_ids :: "pstr list \<Rightarrow> pstr list" where
  "wanted_ids ids = filter (\<lambda>s. is_segment_id (PStr s)) ids"

definition memberships_from ::
  "segment_db \<Rightarrow> pstr \<Rightarrow> pstr list \<Rightarrow> (pstr \<times> row_outcome) list \<Rightarrow> segment_memberships" where
  "memberships_from db user_id ids outcomes =
     (let id_lists = ids_with IdList outcomes;
          missing = filter (\<lambda>s. s \<notin> fst ` set outcomes) (wanted_ids ids);
          bad = malformed_ids ids @ missing @ ids_with Unavailable outcomes;
          asks = id_lists \<noteq> [] \<and> storable_member_id user_id;
          hits = (if asks then id_list_hits db id_lists user_id else [])
      in if asks \<and> \<not> members_readable db
         then \<lparr>members = [], evaluated = ids, unavailable = ids\<rparr>
         else \<lparr>members = filter (\<lambda>s. s \<notin> set bad) (ids_with Member outcomes @ hits),
               evaluated = ids, unavailable = bad\<rparr>)"

definition resolve_segment_memberships ::
  "'z engine_env_scheme \<Rightarrow> (pyval \<Rightarrow> targeting_rules res) \<Rightarrow> segment_db \<Rightarrow> pstr \<Rightarrow> user_context \<Rightarrow>
     pstr list \<Rightarrow> segment_memberships res" where
  "resolve_segment_memberships E validate db user_id ctx segment_ids =
     (if segment_ids = [] then Inr NO_SEGMENTS
      else if wanted_ids segment_ids = [] then
        Inr \<lparr>members = [], evaluated = segment_ids, unavailable = malformed_ids segment_ids\<rparr>
      else if \<not> segments_readable db then
        Inr \<lparr>members = [], evaluated = segment_ids, unavailable = segment_ids\<rparr>
      else emap (memberships_from db user_id segment_ids)
        (etraverse (\<lambda>r. emap (\<lambda>out. (segment_id r, out))
            (row_outcome E validate (segment_context ctx user_id) r))
          (found_rows db (wanted_ids segment_ids))))"

section \<open>Facts\<close>

lemma segment_context_lookup:
  "map_of (segment_context ctx user_id) k =
     (if k = str ''user.user_id'' \<or> k = str ''user_id'' then Some (PStr user_id)
      else if k = SEGMENT_MEMBERSHIP_KEY then None else map_of ctx k)"
  by (auto simp: segment_context_def)

lemma resolve_evaluated:
  "resolve_segment_memberships E validate db u ctx ids = Inr ms \<Longrightarrow> evaluated ms = ids"
  by (auto simp: resolve_segment_memberships_def memberships_from_def NO_SEGMENTS_def Let_def exc_rules
      split: if_splits)

text \<open>A segment is never both a member segment and unavailable.\<close>

lemma resolve_disjoint:
  "resolve_segment_memberships E validate db u ctx ids = Inr ms \<Longrightarrow>
     set (members ms) \<inter> set (unavailable ms) = {}"
  by (auto simp: resolve_segment_memberships_def memberships_from_def NO_SEGMENTS_def Let_def exc_rules
      split: if_splits)

lemma ids_with_iff: "s \<in> set (ids_with out outcomes) \<longleftrightarrow> (s, out) \<in> set outcomes"
  by (force simp: ids_with_def)

lemma outcomes_iff:
  assumes "etraverse (\<lambda>r. emap (\<lambda>out. (segment_id r, out)) (f r)) rows = Inr outcomes"
  shows "(s, out) \<in> set outcomes \<longleftrightarrow> (\<exists>r\<in>set rows. segment_id r = s \<and> f r = Inr out)"
  using assms
  by (induction rows arbitrary: outcomes) (auto simp: exc_rules)

lemma set_found_rows [simp]:
  "set (found_rows db wanted) = {r \<in> set (segment_rows db). segment_id r \<in> set wanted}"
  by (auto simp: found_rows_def)

text \<open>
  The decided answer: a requested segment is available exactly when its id is well formed, the
  row exists and is active, and its rules can be read and evaluated.
\<close>

definition decidable_segment ::
  "'z engine_env_scheme \<Rightarrow> (pyval \<Rightarrow> targeting_rules res) \<Rightarrow> segment_db \<Rightarrow> pstr \<Rightarrow> user_context \<Rightarrow> pstr \<Rightarrow> bool"
where
  "decidable_segment E validate db user_id ctx s =
     (is_segment_id (PStr s) \<and>
      (\<exists>r\<in>set (segment_rows db). segment_id r = s) \<and>
      (\<forall>r\<in>set (segment_rows db). segment_id r = s \<longrightarrow>
         row_outcome E validate (segment_context ctx user_id) r \<noteq> Inr Unavailable))"

text \<open>The abstract meaning of membership.\<close>

definition member_of ::
  "'z engine_env_scheme \<Rightarrow> (pyval \<Rightarrow> targeting_rules res) \<Rightarrow> segment_db \<Rightarrow> pstr \<Rightarrow> user_context \<Rightarrow> pstr \<Rightarrow> bool"
where
  "member_of E validate db user_id ctx s =
     (\<exists>r\<in>set (segment_rows db). segment_id r = s \<and>
        (row_outcome E validate (segment_context ctx user_id) r = Inr Member \<or>
         row_outcome E validate (segment_context ctx user_id) r = Inr IdList \<and>
           storable_member_id user_id \<and> (s, user_id) \<in> set (member_rows db)))"

lemma id_list_hits_iff:
  "s \<in> set (id_list_hits db ids u) \<longleftrightarrow> s \<in> set ids \<and> (s, u) \<in> set (member_rows db)"
  by (force simp: id_list_hits_def)

text \<open>What the outcomes of a resolution are.\<close>

definition outcomes_of ::
  "'z engine_env_scheme \<Rightarrow> (pyval \<Rightarrow> targeting_rules res) \<Rightarrow> segment_db \<Rightarrow> pstr \<Rightarrow> user_context \<Rightarrow>
     pstr list \<Rightarrow> (pstr \<times> row_outcome) list \<Rightarrow> bool" where
  "outcomes_of E validate db u ctx ids outcomes =
     (\<forall>s out. (s, out) \<in> set outcomes \<longleftrightarrow> s \<in> set (wanted_ids ids) \<and>
        (\<exists>r\<in>set (segment_rows db). segment_id r = s \<and>
           row_outcome E validate (segment_context ctx u) r = Inr out))"

lemma outcome_known:
  "etraverse (\<lambda>r. emap (\<lambda>out. (segment_id r, out)) (f r)) rows = Inr outcomes \<Longrightarrow>
     fst ` set outcomes = segment_id ` set rows"
proof -
  assume "etraverse (\<lambda>r. emap (\<lambda>out. (segment_id r, out)) (f r)) rows = Inr outcomes"
  then have "map fst outcomes = map segment_id rows"
    by (induction rows arbitrary: outcomes) (auto simp: exc_rules)
  then show ?thesis by (metis list.set_map)
qed

lemma resolve_cases:
  assumes "resolve_segment_memberships E validate db u ctx ids = Inr ms" and "segments_readable db"
  obtains outcomes where "ms = memberships_from db u ids outcomes"
    and "outcomes_of E validate db u ctx ids outcomes"
    and "fst ` set outcomes = segment_id ` set (found_rows db (wanted_ids ids))"
proof (cases "wanted_ids ids = []")
  case True
  then have "ms = memberships_from db u ids []"
    using assms
    by (auto simp: resolve_segment_memberships_def memberships_from_def NO_SEGMENTS_def Let_def
        ids_with_def malformed_ids_def split: if_splits)
  then show ?thesis
    using that [of "[]"] True by (simp add: outcomes_of_def)
next
  case False
  then have "ids \<noteq> []" by (auto simp: wanted_ids_def)
  with False assms obtain outcomes where o:
    "etraverse (\<lambda>r. emap (\<lambda>out. (segment_id r, out))
       (row_outcome E validate (segment_context ctx u) r)) (found_rows db (wanted_ids ids)) = Inr outcomes"
    "ms = memberships_from db u ids outcomes"
    by (auto simp: resolve_segment_memberships_def exc_rules)
  show ?thesis
    using that [OF o(2) _ outcome_known [OF o(1)]]
    by (auto simp: outcomes_of_def outcomes_iff [OF o(1)])
qed

lemma memberships_from_readable:
  assumes "members_readable db"
  shows "unavailable (memberships_from db u ids outcomes) =
      malformed_ids ids @ filter (\<lambda>s. s \<notin> fst ` set outcomes) (wanted_ids ids) @
      ids_with Unavailable outcomes"
    and "s \<in> set (members (memberships_from db u ids outcomes)) \<longleftrightarrow>
      s \<notin> set (unavailable (memberships_from db u ids outcomes)) \<and>
      ((s, Member) \<in> set outcomes \<or>
       (s, IdList) \<in> set outcomes \<and> storable_member_id u \<and> (s, u) \<in> set (member_rows db))"
  using assms
  by (auto simp: memberships_from_def Let_def ids_with_iff id_list_hits_iff filter_empty_conv)
    (auto simp: ids_with_def filter_empty_conv)

lemma resolve_unavailable_iff:
  assumes "resolve_segment_memberships E validate db u ctx ids = Inr ms"
    and "segments_readable db" and "members_readable db" and "s \<in> set ids"
  shows "s \<in> set (unavailable ms) \<longleftrightarrow> \<not> decidable_segment E validate db u ctx s"
  using assms(1,2)
proof (rule resolve_cases)
  fix outcomes
  assume o: "ms = memberships_from db u ids outcomes"
    "outcomes_of E validate db u ctx ids outcomes"
    "fst ` set outcomes = segment_id ` set (found_rows db (wanted_ids ids))"
  show ?thesis
    using assms(3,4) o(2)
    by (auto simp: o(1,3) memberships_from_readable ids_with_iff outcomes_of_def
        decidable_segment_def malformed_ids_def wanted_ids_def)
qed

lemma resolve_members_iff:
  assumes "resolve_segment_memberships E validate db u ctx ids = Inr ms"
    and "segments_readable db" and "members_readable db" and "s \<in> set ids"
  shows "s \<in> set (members ms) \<longleftrightarrow>
     decidable_segment E validate db u ctx s \<and> member_of E validate db u ctx s"
  using assms(1,2)
proof (rule resolve_cases)
  fix outcomes
  assume o: "ms = memberships_from db u ids outcomes"
    "outcomes_of E validate db u ctx ids outcomes"
  have "s \<in> set (members ms) \<longleftrightarrow> s \<notin> set (unavailable ms) \<and>
    ((s, Member) \<in> set outcomes \<or>
     (s, IdList) \<in> set outcomes \<and> storable_member_id u \<and> (s, u) \<in> set (member_rows db))"
    unfolding o(1) by (rule memberships_from_readable(2) [OF assms(3)])
  then show ?thesis
    unfolding resolve_unavailable_iff [OF assms]
    using assms(4) o(2)
    by (auto simp: outcomes_of_def member_of_def decidable_segment_def wanted_ids_def)
qed

text \<open>Nothing the request sent under the user's id or the membership key is read.\<close>

lemma segment_context_forged:
  assumes "\<And>k. k \<notin> {str ''user_id'', str ''user.user_id'', SEGMENT_MEMBERSHIP_KEY} \<Longrightarrow>
      map_of ctx k = map_of ctx' k"
  shows "map_of (segment_context ctx u) = map_of (segment_context ctx' u)"
  using assms by (auto simp: segment_context_lookup fun_eq_iff)

text \<open>A resolution returns unless a row it reads raises.\<close>

lemma resolve_returns_iff:
  assumes "segments_readable db"
  shows "(\<exists>ms. resolve_segment_memberships E validate db u ctx ids = Inr ms) \<longleftrightarrow>
     (\<forall>r\<in>set (segment_rows db). segment_id r \<in> set (wanted_ids ids) \<longrightarrow>
        (\<exists>out. row_outcome E validate (segment_context ctx u) r = Inr out))"
proof (cases "wanted_ids ids = []")
  case True
  then show ?thesis by (simp add: resolve_segment_memberships_def)
next
  case False
  let ?f = "\<lambda>r. emap (\<lambda>out. (segment_id r, out)) (row_outcome E validate (segment_context ctx u) r)"
  from False have "ids \<noteq> []" by (auto simp: wanted_ids_def)
  with False assms have "(\<exists>ms. resolve_segment_memberships E validate db u ctx ids = Inr ms) \<longleftrightarrow>
      (\<exists>x. etraverse ?f (found_rows db (wanted_ids ids)) = Inr x)"
    by (auto simp: resolve_segment_memberships_def exc_rules)
  then show ?thesis
    unfolding etraverse_returns_iff by (simp add: exc_rules) blast
qed

lemma resolve_subset:
  assumes "resolve_segment_memberships E validate db u ctx ids = Inr ms" and "segments_readable db"
    and "set ids' \<subseteq> set ids"
  obtains ms' where "resolve_segment_memberships E validate db u ctx ids' = Inr ms'"
proof -
  have "set (wanted_ids ids') \<subseteq> set (wanted_ids ids)"
    using assms(3) by (auto simp: wanted_ids_def)
  moreover have "\<exists>ms. resolve_segment_memberships E validate db u ctx ids = Inr ms"
    using assms(1) by blast
  ultimately have "\<exists>ms'. resolve_segment_memberships E validate db u ctx ids' = Inr ms'"
    unfolding resolve_returns_iff [OF assms(2)] by blast
  with that show ?thesis by blast
qed

text \<open>A resolution made for more segments answers the same for the segments it shares.\<close>

lemma resolve_agree:
  assumes "resolve_segment_memberships E validate db u ctx ids = Inr ms"
    and "resolve_segment_memberships E validate db u ctx ids' = Inr ms'"
    and "segments_readable db" and "members_readable db" and "set ids' \<subseteq> set ids"
  shows "undecided ms ids' = undecided ms' ids'"
    and "s \<in> set ids' \<Longrightarrow> s \<in> set (members ms) \<longleftrightarrow> s \<in> set (members ms')"
proof -
  have in_ids: "s \<in> set ids" if "s \<in> set ids'" for s using assms(5) that by blast
  show "undecided ms ids' = undecided ms' ids'"
    unfolding undecided_def
    using resolve_evaluated [OF assms(1)] resolve_evaluated [OF assms(2)] in_ids
      resolve_unavailable_iff [OF assms(1,3,4)] resolve_unavailable_iff [OF assms(2,3,4)]
    by (intro filter_cong) auto
  show "s \<in> set (members ms) \<longleftrightarrow> s \<in> set (members ms')" if "s \<in> set ids'"
    using resolve_members_iff [OF assms(1,3,4) in_ids [OF that]]
      resolve_members_iff [OF assms(2,3,4) that] by simp
qed

end
