(* ===== verification/Feature_Flags.thy ===== *)
theory Feature_Flags
  imports Segment_Membership
begin

text \<open>
  Feature flags: the status rule (\<^verbatim>\<open>transition\<close> of \<^verbatim>\<open>services/feature_flag_service.py\<close> and the listener
  of \<^verbatim>\<open>models/feature_flag.py\<close>), every operation that changes a flag's status, and the evaluation
  of a flag for a user. Metrics and logging are not modelled, except that an evaluation tells
  whether it writes an error-log row.
\<close>

section \<open>The flag\<close>

datatype flag_status = INACTIVE | ACTIVE | ARCHIVED

fun flag_status_name :: "flag_status \<Rightarrow> pstr" where
  "flag_status_name INACTIVE = str ''INACTIVE''"
| "flag_status_name ACTIVE = str ''ACTIVE''"
| "flag_status_name ARCHIVED = str ''ARCHIVED''"

record feature_flag =
  flag_id :: pstr
  flag_key :: pstr
  flag_name :: pstr
  flag_description :: pyval
  flag_status :: flag_status
  flag_owner :: pstr
  stored_rules :: pyval
  flag_rollout :: int
  flag_default :: bool
  flag_tags :: pyval
  flag_updated_at :: int

section \<open>The status rule\<close>

datatype flag_verb = ON | OFF | ARCHIVE | UNARCHIVE

fun transition :: "flag_status \<Rightarrow> flag_verb \<Rightarrow> flag_status res" where
  "transition current ON = (if current = ARCHIVED then Inl ArchivedFlagError else Inr ACTIVE)"
| "transition current OFF = Inr (if current = ARCHIVED then current else INACTIVE)"
| "transition current ARCHIVE = Inr ARCHIVED"
| "transition current UNARCHIVE = Inr (if current = ARCHIVED then INACTIVE else current)"

text \<open>An assignment to \<^verbatim>\<open>flag.status\<close>, through the listener of the model.\<close>

definition assign_status :: "flag_status \<Rightarrow> feature_flag \<Rightarrow> feature_flag res" where
  "assign_status value flag =
     (if flag_status flag = ARCHIVED \<and> value = ACTIVE then Inl ArchivedFlagError
      else Inr (flag\<lparr>flag_status := value\<rparr>))"

section \<open>Create and update\<close>

text \<open>
  The fields a request sent; \<open>None\<close> is a field left out. An update is modelled on its row; the
  unique index a changed key could violate is not.
\<close>

record flag_create =
  create_key :: pstr
  create_name :: pstr
  create_description :: pyval
  create_is_active :: bool
  create_rollout :: int
  create_rules :: pyval
  create_default :: bool
  create_tags :: pyval
  create_status :: "pyval option"

record flag_update =
  update_key :: "pstr option"
  update_name :: "pstr option"
  update_description :: "pyval option"
  update_is_active :: "bool option"
  update_rollout :: "int option"
  update_rules :: "pyval option"
  update_default :: "bool option"
  update_tags :: "pyval option"
  update_status :: "pyval option"

definition check_sent_status :: "pyval option \<Rightarrow> flag_status \<Rightarrow> unit res" where
  "check_sent_status sent expected =
     (case sent of
        None \<Rightarrow> Inr ()
      | Some (PStr s) \<Rightarrow>
          if upper s = flag_status_name expected then Inr () else Inl FlagStatusReadOnly
      | Some _ \<Rightarrow> Inl FlagStatusReadOnly)"

text \<open>The table: keys are unique, so an insertion of a key in use raises \<^verbatim>\<open>IntegrityError\<close>.\<close>

definition create_feature_flag ::
  "pstr \<Rightarrow> int \<Rightarrow> flag_create \<Rightarrow> pstr \<Rightarrow> feature_flag list \<Rightarrow> (feature_flag \<times> feature_flag list) res" where
  "create_feature_flag new_id now data owner table =
     (let status = (if create_is_active data then ACTIVE else INACTIVE) in
      ebind (check_sent_status (create_status data) status) (\<lambda>_.
        if create_key data \<in> flag_key ` set table then Inl IntegrityError
        else
          (let flag = \<lparr>flag_id = new_id, flag_key = create_key data, flag_name = create_name data,
                 flag_description = create_description data, flag_status = status,
                 flag_owner = owner, stored_rules = create_rules data,
                 flag_rollout = create_rollout data, flag_default = create_default data,
                 flag_tags = create_tags data, flag_updated_at = now\<rparr>
           in Inr (flag, table @ [flag]))))"

definition upd :: "'a option \<Rightarrow> ('a \<Rightarrow> 'f \<Rightarrow> 'f) \<Rightarrow> 'f \<Rightarrow> 'f" where
  "upd v set_field f = (case v of None \<Rightarrow> f | Some x \<Rightarrow> set_field x f)"

definition set_sent_fields :: "flag_update \<Rightarrow> feature_flag \<Rightarrow> feature_flag" where
  "set_sent_fields data flag =
     upd (update_tags data) (\<lambda>x f. f\<lparr>flag_tags := x\<rparr>)
     (upd (update_default data) (\<lambda>x f. f\<lparr>flag_default := x\<rparr>)
     (upd (update_rules data) (\<lambda>x f. f\<lparr>stored_rules := x\<rparr>)
     (upd (update_rollout data) (\<lambda>x f. f\<lparr>flag_rollout := x\<rparr>)
     (upd (update_description data) (\<lambda>x f. f\<lparr>flag_description := x\<rparr>)
     (upd (update_name data) (\<lambda>x f. f\<lparr>flag_name := x\<rparr>)
     (upd (update_key data) (\<lambda>x f. f\<lparr>flag_key := x\<rparr>) flag))))))"

definition update_feature_flag :: "int \<Rightarrow> flag_update \<Rightarrow> feature_flag \<Rightarrow> feature_flag res" where
  "update_feature_flag now data flag =
     ebind (check_sent_status (update_status data) (flag_status flag)) (\<lambda>_.
     ebind (case update_is_active data of
              None \<Rightarrow> Inr None
            | Some on \<Rightarrow> emap Some (transition (flag_status flag) (if on then ON else OFF)))
       (\<lambda>new_status.
          ebind (case new_status of
                   None \<Rightarrow> Inr (set_sent_fields data flag)
                 | Some s \<Rightarrow> assign_status s (set_sent_fields data flag))
            (\<lambda>f. Inr (if f = flag then flag else f\<lparr>flag_updated_at := now\<rparr>))))"

section \<open>The other writers of a status\<close>

definition set_status :: "int \<Rightarrow> flag_status \<Rightarrow> feature_flag \<Rightarrow> feature_flag res" where
  "set_status now s flag = emap (\<lambda>f. f\<lparr>flag_updated_at := now\<rparr>) (assign_status s flag)"

definition activate_feature_flag :: "int \<Rightarrow> feature_flag \<Rightarrow> feature_flag res" where
  "activate_feature_flag now flag =
     ebind (transition (flag_status flag) ON) (\<lambda>s. set_status now s flag)"

definition deactivate_feature_flag :: "int \<Rightarrow> feature_flag \<Rightarrow> feature_flag res" where
  "deactivate_feature_flag now flag =
     ebind (transition (flag_status flag) OFF) (\<lambda>s.
       if flag_status flag = s then Inr flag else set_status now s flag)"

definition unarchive_feature_flag :: "int \<Rightarrow> feature_flag \<Rightarrow> feature_flag res" where
  "unarchive_feature_flag now flag =
     ebind (transition (flag_status flag) UNARCHIVE) (\<lambda>s.
       if s = flag_status flag then Inr flag else set_status now s flag)"

text \<open>The routes \<^verbatim>\<open>/enable\<close> and \<^verbatim>\<open>/disable\<close>\<close>

definition enable_feature_flag :: "int \<Rightarrow> feature_flag \<Rightarrow> feature_flag res" where
  "enable_feature_flag now flag =
     ebind (transition (flag_status flag) ON) (\<lambda>s. set_status now s flag)"

definition disable_feature_flag :: "int \<Rightarrow> feature_flag \<Rightarrow> feature_flag res" where
  "disable_feature_flag now flag =
     ebind (transition (flag_status flag) OFF) (\<lambda>s.
       if flag_status flag = s then Inr flag else set_status now s flag)"

definition toggle_feature_flag :: "int \<Rightarrow> feature_flag \<Rightarrow> feature_flag res" where
  "toggle_feature_flag now flag =
     ebind (transition (flag_status flag) (if flag_status flag = ACTIVE then OFF else ON))
       (\<lambda>s. set_status now s flag)"

text \<open>One flag of \<^verbatim>\<open>POST /feature-flags/bulk-toggle\<close>: its actions are enable, disable and archive.\<close>

datatype bulk_action = BulkEnable | BulkDisable | BulkArchive

fun bulk_verb :: "bulk_action \<Rightarrow> flag_verb" where
  "bulk_verb BulkEnable = ON" | "bulk_verb BulkDisable = OFF" | "bulk_verb BulkArchive = ARCHIVE"

definition bulk_toggle_flag :: "int \<Rightarrow> bulk_action \<Rightarrow> feature_flag \<Rightarrow> feature_flag res" where
  "bulk_toggle_flag now action flag =
     ebind (transition (flag_status flag) (bulk_verb action)) (\<lambda>s.
       if s \<noteq> flag_status flag then set_status now s flag else Inr flag)"

text \<open>The safety monitor: \<^verbatim>\<open>rollback_change\<close> and what \<^verbatim>\<open>rollback_feature_flag\<close> writes to the flag.\<close>

datatype rollback_kind = Deactivate | Lower

definition rollback_change :: "feature_flag \<Rightarrow> int \<Rightarrow> rollback_kind option" where
  "rollback_change flag target =
     (if flag_status flag \<noteq> ACTIVE then None
      else if target = 0 then Some Deactivate
      else if flag_rollout flag > target then Some Lower
      else None)"

definition rollback_feature_flag :: "int \<Rightarrow> int \<Rightarrow> feature_flag \<Rightarrow> feature_flag res" where
  "rollback_feature_flag now target flag =
     (case rollback_change flag target of
        None \<Rightarrow> Inr flag
      | Some Deactivate \<Rightarrow>
          ebind (transition (flag_status flag) OFF) (\<lambda>s.
          ebind (assign_status s flag) (\<lambda>f. Inr (f\<lparr>flag_rollout := 0, flag_updated_at := now\<rparr>)))
      | Some Lower \<Rightarrow> Inr (flag\<lparr>flag_rollout := target, flag_updated_at := now\<rparr>))"

section \<open>The operations of a flag\<close>

datatype flag_op =
    Activate | DeactivateOp | Enable | Disable | Toggle | Unarchive
  | Bulk bulk_action | Update flag_update | Rollback int

fun apply_op :: "int \<Rightarrow> flag_op \<Rightarrow> feature_flag \<Rightarrow> feature_flag res" where
  "apply_op now Activate f = activate_feature_flag now f"
| "apply_op now DeactivateOp f = deactivate_feature_flag now f"
| "apply_op now Enable f = enable_feature_flag now f"
| "apply_op now Disable f = disable_feature_flag now f"
| "apply_op now Toggle f = toggle_feature_flag now f"
| "apply_op now Unarchive f = unarchive_feature_flag now f"
| "apply_op now (Bulk a) f = bulk_toggle_flag now a f"
| "apply_op now (Update u) f = update_feature_flag now u f"
| "apply_op now (Rollback t) f = rollback_feature_flag now t f"

text \<open>An operation that raises leaves the row as it was (its transaction is rolled back).\<close>

definition attempt_op :: "int \<Rightarrow> flag_op \<Rightarrow> feature_flag \<Rightarrow> feature_flag" where
  "attempt_op now op f = rescue_all f (apply_op now op f)"

inductive flag_run :: "feature_flag \<Rightarrow> flag_op list \<Rightarrow> feature_flag \<Rightarrow> bool" where
  flag_run_start: "flag_run f [] f"
| flag_run_step: "flag_run f ops g \<Longrightarrow> flag_run f (ops @ [op]) (attempt_op now op g)"

inductive_cases flag_run_NilE: "flag_run f [] g"
inductive_cases flag_run_snocE: "flag_run f (ops @ [op]) g"

lemma set_sent_fields_status [simp]: "flag_status (set_sent_fields u f) = flag_status f"
  by (simp add: set_sent_fields_def upd_def split: option.split)

lemmas flag_op_defs =
  activate_feature_flag_def deactivate_feature_flag_def enable_feature_flag_def disable_feature_flag_def
  toggle_feature_flag_def
  unarchive_feature_flag_def bulk_toggle_flag_def update_feature_flag_def
  rollback_feature_flag_def rollback_change_def set_status_def assign_status_def

lemma transition_archived:
  "transition ARCHIVED v = Inr s \<Longrightarrow> v \<noteq> UNARCHIVE \<Longrightarrow> s = ARCHIVED"
  by (cases v) simp_all

lemma bulk_verb_not_unarchive [simp]: "bulk_verb a \<noteq> UNARCHIVE"
  by (cases a) simp_all

text \<open>The only operation that takes an archived flag out of \<open>ARCHIVED\<close>.\<close>

lemma archived_op:
  assumes "flag_status f = ARCHIVED" and "op \<noteq> Unarchive"
  shows "flag_status (attempt_op now op f) = ARCHIVED"
  using assms
  by (cases op)
    (auto simp: attempt_op_def flag_op_defs check_sent_status_def rescue_all_def ebind_def emap_def
      split: sum.splits option.splits bool.splits pyval.splits if_splits
      dest!: transition_archived)

lemma unarchive_inactive:
  "flag_status f = ARCHIVED \<Longrightarrow> flag_status (attempt_op now Unarchive f) = INACTIVE"
  by (simp add: attempt_op_def flag_op_defs)

lemma archived_run:
  assumes "flag_run f ops g" and "flag_status f = ARCHIVED" and "Unarchive \<notin> set ops"
  shows "flag_status g = ARCHIVED"
  using assms
  by (induction rule: flag_run.induct) (auto intro: archived_op)

end
