(* ===== verification/Flag_Evaluation.thy ===== *)
theory Flag_Evaluation
  imports Feature_Flags
begin

text \<open>
  The evaluation of a flag for a user, \<^verbatim>\<open>FeatureFlagService.evaluate_flag_detailed\<close> with the legacy
  list shape, and \<^verbatim>\<open>get_user_flags\<close>.
\<close>

section \<open>The legacy list shape\<close>

text \<open>\<^verbatim>\<open>d.get(k, default)\<close>\<close>

definition dget_or :: "(pstr \<times> pyval) list \<Rightarrow> string \<Rightarrow> pyval \<Rightarrow> pyval" where
  "dget_or d k v = (case map_of d (str k) of None \<Rightarrow> v | Some w \<Rightarrow> w)"

definition LEGACY_OPERATORS :: "string list" where
  "LEGACY_OPERATORS = [''eq'', ''ne'', ''gt'', ''lt'', ''contains'', ''in'']"

text \<open>\<^verbatim>\<open>user_id in target_ids\<close>\<close>

definition text_in :: "pstr \<Rightarrow> pyval \<Rightarrow> bool res" where
  "text_in s container = (case container of
       PList xs \<Rightarrow> Inr (py_in (PStr s) xs)
     | PStr t \<Rightarrow> Inr (is_substring s t)
     | PDict d \<Rightarrow> Inr (s \<in> fst ` set d)
     | PFrozenset xs \<Rightarrow> Inr (s \<in> set xs)
     | _ \<Rightarrow> Inl PyTypeError)"

text \<open>\<^verbatim>\<open>attribute in context\<close> and \<^verbatim>\<open>context[attribute]\<close>: a list or a dictionary is not hashable.\<close>

definition context_entry :: "(pstr \<times> pyval) list \<Rightarrow> pyval \<Rightarrow> pyval option res" where
  "context_entry ctx attr = (case attr of
       PStr s \<Rightarrow> Inr (map_of ctx s)
     | PList _ \<Rightarrow> Inl PyTypeError
     | PDict _ \<Rightarrow> Inl PyTypeError
     | _ \<Rightarrow> Inr None)"

definition numbers_cmp :: "(pyfloat \<Rightarrow> pyfloat \<Rightarrow> bool) \<Rightarrow> pyval \<Rightarrow> pyval \<Rightarrow> bool" where
  "numbers_cmp cmp a b = (case (num_value a, num_value b) of
       (Some x, Some y) \<Rightarrow> cmp x y | _ \<Rightarrow> False)"

definition legacy_operator_holds :: "pyval \<Rightarrow> pyval \<Rightarrow> pyval \<Rightarrow> bool" where
  "legacy_operator_holds op context_value value =
     (if op = PStr (str ''eq'') then py_eq context_value value
      else if op = PStr (str ''ne'') then \<not> py_eq context_value value
      else if op = PStr (str ''gt'') then numbers_cmp (\<lambda>x y. flt y x) context_value value
      else if op = PStr (str ''lt'') then numbers_cmp flt context_value value
      else if op = PStr (str ''contains'') then
        (case (context_value, value) of (PStr t, PStr s) \<Rightarrow> is_substring s t | _ \<Rightarrow> False)
      else if op = PStr (str ''in'') then
        (case value of PList xs \<Rightarrow> py_in context_value xs | _ \<Rightarrow> False)
      else False)"

definition legacy_condition :: "(pstr \<times> pyval) list \<Rightarrow> pyval \<Rightarrow> bool res" where
  "legacy_condition ctx condition = (case condition of
       PDict c \<Rightarrow>
         ebind (context_entry ctx (dget_or c ''attribute'' (PStr []))) (\<lambda>entry. Inr (case entry of
           None \<Rightarrow> False
         | Some v \<Rightarrow> legacy_operator_holds (dget_or c ''operator'' (PStr [])) v (dget c ''value'')))
     | _ \<Rightarrow> Inl PyAttributeError)"

text \<open>The loop over the conditions stops at the first one that does not hold.\<close>

fun all_hold :: "('a \<Rightarrow> bool res) \<Rightarrow> 'a list \<Rightarrow> bool res" where
  "all_hold f [] = Inr True"
| "all_hold f (x # xs) = ebind (f x) (\<lambda>b. if b then all_hold f xs else Inr False)"

definition evaluate_legacy_rule ::
  "(pstr \<times> pyval) list \<Rightarrow> pstr \<Rightarrow> (pstr \<times> pyval) list \<Rightarrow> bool res" where
  "evaluate_legacy_rule r user_id ctx =
     (let rule_type = dget_or r ''type'' (PStr []);
          conditions = dget_or r ''conditions'' (PList []) in
      if rule_type = PStr (str ''user_id'') then text_in user_id (dget_or r ''user_ids'' (PList []))
      else if rule_type = PStr (str ''context'') then
        (if \<not> truthy conditions then Inr False
         else ebind (iter_or_empty conditions) (all_hold (legacy_condition ctx)))
      else Inr False)"

fun match_legacy ::
  "'z pyenv_scheme \<Rightarrow> nat \<Rightarrow> pyval list \<Rightarrow> pstr \<Rightarrow> (pstr \<times> pyval) list \<Rightarrow> (pstr \<times> int) option res" where
  "match_legacy E i [] user_id ctx = Inr None"
| "match_legacy E i (PDict r # rs) user_id ctx =
     ebind (evaluate_legacy_rule r user_id ctx) (\<lambda>matched.
       if matched then
         (let rid = py_str E (dget_or r ''id'' (PStr (str ''rule_'' @ dec_of_int (int i))));
              percentage = dget_or r ''percentage'' (PInt 100)
          in ebind (if percentage = PNone then Inr 100 else py_int E percentage)
               (\<lambda>p. Inr (Some (rid, p))))
       else match_legacy E (Suc i) rs user_id ctx)"
| "match_legacy E i (_ # rs) user_id ctx = match_legacy E (Suc i) rs user_id ctx"

section \<open>The matching rule\<close>

text \<open>
  The resolution of segments is passed as a function of the referenced ids, so that
  \<^verbatim>\<open>get_user_flags\<close> can pass one that was made for several flags.
\<close>

type_synonym resolver = "pstr list \<Rightarrow> segment_memberships res"

definition match_native ::
  "'z adapter_env_scheme \<Rightarrow> resolver \<Rightarrow> targeting_rules \<Rightarrow> user_context \<Rightarrow> targeting_rule option res" where
  "match_native E resolve rs expanded =
     (let ids = segment_ids_in rs in
      ebind (if ids = [] then Inr None
             else ebind (resolve ids) (\<lambda>ms.
               if undecided ms ids \<noteq> [] then Inl (SegmentMembershipUnavailable (undecided ms ids))
               else Inr (Some (members ms))))
        (\<lambda>m. match_targeting_rule E rs (with_memberships expanded m)))"

definition match_flag_rule ::
  "'z adapter_env_scheme \<Rightarrow> resolver \<Rightarrow> feature_flag \<Rightarrow> pstr \<Rightarrow> (pstr \<times> pyval) list \<Rightarrow>
     (pstr \<times> int) option res" where
  "match_flag_rule E resolve flag user_id ctx =
     (if \<not> truthy (stored_rules flag) then Inr None
      else case stored_rules flag of
        PList rs \<Rightarrow> match_legacy E 0 rs user_id ctx
      | raw \<Rightarrow>
          ebind (normalise_targeting_rules E raw) (\<lambda>native. case native of
            None \<Rightarrow> Inr None
          | Some rs \<Rightarrow>
              emap (map_option (\<lambda>r. (rule_id r, rollout_percentage r)))
                (match_native E resolve rs (expand_items ctx))))"

definition evaluate_percentage_rollout :: "feature_flag \<Rightarrow> pstr \<Rightarrow> int option \<Rightarrow> bool res" where
  "evaluate_percentage_rollout flag user_id percentage =
     (let p = (case percentage of None \<Rightarrow> flag_rollout flag | Some p \<Rightarrow> p) in
      if p \<le> 0 then Inr False
      else if p \<ge> 100 then Inr True
      else ebind (md5_int (seed_text user_id (flag_key flag))) (\<lambda>hash_value.
        Inr (int hash_value mod 100 < p)))"

section \<open>The answer\<close>

datatype flag_reason = REASON_TARGETING_RULE | REASON_ROLLOUT | REASON_INACTIVE | REASON_ERROR

record flag_answer =
  enabled :: bool
  reason :: flag_reason
  answer_rule :: "pstr option"
  logged_error :: "exc option"

text \<open>An exception after the match (the rollout hash) leaves the matched rule's id in the answer.\<close>

definition failed_answer :: "pstr option \<Rightarrow> exc \<Rightarrow> flag_answer" where
  "failed_answer matched e =
     (if abandons e then
        \<lparr>enabled = False, reason = REASON_ERROR, answer_rule = None, logged_error = None\<rparr>
      else \<lparr>enabled = False, reason = REASON_ERROR, answer_rule = matched, logged_error = Some e\<rparr>)"

definition rollout_answer :: "flag_reason \<Rightarrow> pstr option \<Rightarrow> bool res \<Rightarrow> flag_answer" where
  "rollout_answer r matched outcome =
     (case outcome of
        Inl e \<Rightarrow> failed_answer matched e
      | Inr b \<Rightarrow> \<lparr>enabled = b, reason = r, answer_rule = matched, logged_error = None\<rparr>)"

definition evaluate_flag_with ::
  "'z adapter_env_scheme \<Rightarrow> resolver \<Rightarrow> feature_flag \<Rightarrow> pstr \<Rightarrow> (pstr \<times> pyval) list \<Rightarrow> flag_answer" where
  "evaluate_flag_with E resolve flag user_id ctx =
     (if flag_status flag \<noteq> ACTIVE then
        \<lparr>enabled = False, reason = REASON_INACTIVE, answer_rule = None, logged_error = None\<rparr>
      else case match_flag_rule E resolve flag user_id ctx of
        Inl e \<Rightarrow> failed_answer None e
      | Inr (Some (rid, p)) \<Rightarrow>
          rollout_answer REASON_TARGETING_RULE (Some rid)
            (evaluate_percentage_rollout flag user_id (Some p))
      | Inr None \<Rightarrow>
          rollout_answer REASON_ROLLOUT None (evaluate_percentage_rollout flag user_id None))"

text \<open>\<^verbatim>\<open>evaluate_flag_detailed(flag, user_id, context)\<close>, membership resolved for this flag alone.\<close>

definition evaluate_flag_detailed ::
  "'z adapter_env_scheme \<Rightarrow> (pyval \<Rightarrow> targeting_rules res) \<Rightarrow> segment_db \<Rightarrow> feature_flag \<Rightarrow> pstr \<Rightarrow>
     (pstr \<times> pyval) list \<Rightarrow> flag_answer" where
  "evaluate_flag_detailed E validate db flag user_id ctx =
     evaluate_flag_with E (resolve_segment_memberships E validate db user_id (expand_items ctx))
       flag user_id ctx"

section \<open>Every active flag of a user\<close>

definition referenced_segments :: "'z adapter_env_scheme \<Rightarrow> feature_flag list \<Rightarrow> pstr list res" where
  "referenced_segments E flags =
     emap (\<lambda>idss. remdups (concat idss))
       (etraverse (\<lambda>f. if truthy (stored_rules f) \<and> \<not> is_list (stored_rules f)
                       then emap (\<lambda>native. case native of None \<Rightarrow> [] | Some rs \<Rightarrow> segment_ids_in rs)
                              (normalise_targeting_rules E (stored_rules f))
                       else Inr []) flags)"

definition get_user_flags ::
  "'z adapter_env_scheme \<Rightarrow> (pyval \<Rightarrow> targeting_rules res) \<Rightarrow> segment_db \<Rightarrow> feature_flag list \<Rightarrow> pstr \<Rightarrow>
     (pstr \<times> pyval) list \<Rightarrow> (pstr \<times> bool) list res" where
  "get_user_flags E validate db table user_id ctx =
     (let flags = filter (\<lambda>f. flag_status f = ACTIVE) table;
          alone = resolve_segment_memberships E validate db user_id (expand_items ctx)
      in ebind (referenced_segments E flags) (\<lambda>referenced.
         ebind (if referenced = [] then Inr None else emap Some (alone referenced)) (\<lambda>shared.
           let resolve = (case shared of None \<Rightarrow> alone | Some ms \<Rightarrow> (\<lambda>_. Inr ms)) in
           Inr (foldl (\<lambda>d f. dict_set (flag_key f)
                  (enabled (evaluate_flag_with E resolve f user_id ctx)) d) [] flags))))"

section \<open>Facts\<close>

lemma evaluate_percentage_rollout_eq:
  "evaluate_percentage_rollout flag u p =
     in_rollout (case p of None \<Rightarrow> flag_rollout flag | Some q \<Rightarrow> q) u (flag_key flag)"
  by (auto simp: evaluate_percentage_rollout_def in_rollout_def flag_bucket_def Let_def emap_def
      ebind_def split: sum.splits)

lemma rollout_answer_simps [simp]:
  "enabled (rollout_answer r m out) \<longleftrightarrow> out = Inr True"
  "reason (rollout_answer r m out) = (case out of Inl _ \<Rightarrow> REASON_ERROR | Inr _ \<Rightarrow> r)"
  by (auto simp: rollout_answer_def failed_answer_def split: sum.splits)

lemma failed_answer_simps [simp]:
  "enabled (failed_answer m e) = False" "reason (failed_answer m e) = REASON_ERROR"
  by (auto simp: failed_answer_def)

text \<open>A served flag was active, and the rollout of a matching rule or of the flag let the user in.\<close>

lemma evaluate_flag_with_enabled:
  "enabled (evaluate_flag_with E resolve flag u ctx) \<longleftrightarrow>
     flag_status flag = ACTIVE \<and>
     (\<exists>m. match_flag_rule E resolve flag u ctx = Inr m \<and>
        in_rollout (case m of None \<Rightarrow> flag_rollout flag | Some (_, p) \<Rightarrow> p) u (flag_key flag) = Inr True)"
  by (auto simp: evaluate_flag_with_def evaluate_percentage_rollout_eq
      split: sum.splits option.splits prod.splits)

lemma evaluate_flag_with_error_off:
  "reason (evaluate_flag_with E resolve flag u ctx) = REASON_ERROR \<Longrightarrow>
     \<not> enabled (evaluate_flag_with E resolve flag u ctx)"
  by (auto simp: evaluate_flag_with_def split: sum.splits option.splits prod.splits if_splits)

section \<open>One flag or all of them\<close>

lemma match_native_agree:
  assumes "resolve ids = Inr ms" and "resolve' ids = Inr ms'" and "ids = segment_ids_in rs"
    and "undecided ms ids = undecided ms' ids"
    and "\<And>s. s \<in> set ids \<Longrightarrow> s \<in> set (members ms) \<longleftrightarrow> s \<in> set (members ms')"
    and "\<And>r. r \<in> set (rules rs) \<Longrightarrow> reads_no_memberships (rule r)"
  shows "match_native E resolve rs ctx = match_native E resolve' rs ctx"
proof -
  have "match_targeting_rule E rs (with_memberships ctx (Some (members ms))) =
    match_targeting_rule E rs (with_memberships ctx (Some (members ms')))"
    using assms(5,6) by (intro match_members_cong) (simp_all add: assms(3))
  with assms(1,2,4) show ?thesis
    by (simp add: match_native_def Let_def assms(3) [symmetric])
qed

lemma referenced_segments_includes:
  assumes "referenced_segments E flags = Inr ids" and "f \<in> set flags"
    and "truthy (stored_rules f)" and "\<not> is_list (stored_rules f)"
    and "normalise_targeting_rules E (stored_rules f) = Inr (Some rs)"
  shows "set (segment_ids_in rs) \<subseteq> set ids"
proof -
  from assms(1) obtain idss where "ids = remdups (concat idss)"
    and "etraverse (\<lambda>f. if truthy (stored_rules f) \<and> \<not> is_list (stored_rules f)
           then emap (\<lambda>native. case native of None \<Rightarrow> [] | Some rs \<Rightarrow> segment_ids_in rs)
             (normalise_targeting_rules E (stored_rules f)) else Inr []) flags = Inr idss"
    unfolding referenced_segments_def emap_eq_Inr by blast
  moreover from etraverse_elem [OF this(2) assms(2)] have "segment_ids_in rs \<in> set idss"
    using assms(3-5) by simp
  ultimately show ?thesis by auto
qed

lemma evaluate_flag_with_cong:
  "match_flag_rule E resolve f u ctx = match_flag_rule E resolve' f u ctx \<Longrightarrow>
     evaluate_flag_with E resolve f u ctx = evaluate_flag_with E resolve' f u ctx"
  by (simp add: evaluate_flag_with_def)

text \<open>
  The interface between the flag service and segment membership: a resolution made for more
  segments returns and agrees on fewer. The service's lemmas rest on it alone.
\<close>

locale membership_provider =
  fixes resolve :: resolver
  assumes resolve_fewer: "resolve ids = Inr ms \<Longrightarrow> set ids' \<subseteq> set ids \<Longrightarrow>
    \<exists>ms'. resolve ids' = Inr ms' \<and> undecided ms ids' = undecided ms' ids' \<and>
      (\<forall>s\<in>set ids'. s \<in> set (members ms) \<longleftrightarrow> s \<in> set (members ms'))"
begin

lemma native_shared:
  assumes "resolve ids = Inr ms" and "set (segment_ids_in rs) \<subseteq> set ids"
    and "\<And>r. r \<in> set (rules rs) \<Longrightarrow> reads_no_memberships (rule r)"
  shows "match_native E (\<lambda>_. Inr ms) rs ctx = match_native E resolve rs ctx"
proof -
  obtain ms' where "resolve (segment_ids_in rs) = Inr ms'"
    "undecided ms (segment_ids_in rs) = undecided ms' (segment_ids_in rs)"
    "\<forall>s\<in>set (segment_ids_in rs). s \<in> set (members ms) \<longleftrightarrow> s \<in> set (members ms')"
    using resolve_fewer [OF assms(1,2)] by blast
  then show ?thesis
    using assms(3) by (intro match_native_agree [of _ "segment_ids_in rs" ms _ ms']) auto
qed

text \<open>Membership resolved for all flags at once gives each flag the answer of its own request.\<close>

lemma answer_shared:
  assumes "env_ok E" and "resolve ids = Inr ms"
    and "referenced_segments E flags = Inr ids" and "f \<in> set flags"
  shows "evaluate_flag_with E (\<lambda>_. Inr ms) f u ctx = evaluate_flag_with E resolve f u ctx"
proof (rule evaluate_flag_with_cong)
  have "match_native E (\<lambda>_. Inr ms) rs (expand_items ctx) = match_native E resolve rs (expand_items ctx)"
    if n: "normalise_targeting_rules E (stored_rules f) = Inr (Some rs)"
      and t: "truthy (stored_rules f)" "\<not> is_list (stored_rules f)" for rs
    using referenced_segments_includes [OF assms(3,4) t n] normalise_reads [OF assms(1) n]
    by (intro native_shared [OF assms(2)])
  then show "match_flag_rule E (\<lambda>_. Inr ms) f u ctx = match_flag_rule E resolve f u ctx"
    by (cases "stored_rules f") (auto simp: match_flag_rule_def ebind_def split: sum.split option.split)
qed

end

text \<open>The database is such a provider while its two queries succeed.\<close>

definition readable_db :: "segment_db \<Rightarrow> segment_db" where
  "readable_db db = db\<lparr>segments_readable := True, members_readable := True\<rparr>"

interpretation db_provider:
  membership_provider "resolve_segment_memberships E validate (readable_db db) u ctx"
proof unfold_locales
  fix ids ms ids'
  assume r: "resolve_segment_memberships E validate (readable_db db) u ctx ids = Inr ms"
    and sub: "set ids' \<subseteq> set ids"
  have ok: "segments_readable (readable_db db)" "members_readable (readable_db db)"
    by (simp_all add: readable_db_def)
  obtain ms' where "resolve_segment_memberships E validate (readable_db db) u ctx ids' = Inr ms'"
    using resolve_subset [OF r ok(1) sub] .
  with resolve_agree [OF r this ok sub] show "\<exists>ms'.
      resolve_segment_memberships E validate (readable_db db) u ctx ids' = Inr ms' \<and>
      undecided ms ids' = undecided ms' ids' \<and>
      (\<forall>s\<in>set ids'. s \<in> set (members ms) \<longleftrightarrow> s \<in> set (members ms'))"
    by blast
qed

lemma map_of_foldl_dict_set:
  "distinct (map k fs) \<Longrightarrow>
     map_of (foldl (\<lambda>d f. dict_set (k f) (v f) d) d0 fs) x =
       (case List.find (\<lambda>f. k f = x) fs of Some f \<Rightarrow> Some (v f) | None \<Rightarrow> map_of d0 x)"
proof (induction fs arbitrary: d0)
  case Nil
  then show ?case by simp
next
  case (Cons f fs)
  have "List.find (\<lambda>g. k g = x) fs = None" if "k f = x"
    using Cons.prems that by (auto simp: find_None_iff image_iff)
  then show ?case using Cons by (auto split: option.split)
qed

lemma find_key_eq:
  assumes "distinct (map k fs)" and "f \<in> set fs"
  shows "List.find (\<lambda>g. k g = k f) fs = Some f"
  using assms by (induction fs) force+

lemma get_user_flags_answers:
  assumes "env_ok E" and "segments_readable db" and "members_readable db"
    and "get_user_flags E validate db table u ctx = Inr answers"
    and "distinct (map flag_key table)" and "f \<in> set table" and "flag_status f = ACTIVE"
  shows "map_of answers (flag_key f) = Some (enabled (evaluate_flag_detailed E validate db f u ctx))"
proof -
  let ?flags = "filter (\<lambda>f. flag_status f = ACTIVE) table"
  let ?alone = "resolve_segment_memberships E validate db u (expand_items ctx)"
  have f: "f \<in> set ?flags" using assms(6,7) by simp
  have db: "readable_db db = db" using assms(2,3) by (simp add: readable_db_def)
  have dist: "distinct (map flag_key ?flags)" using assms(5) by (rule distinct_map_filter)
  from assms(4) obtain ids shared where i: "referenced_segments E ?flags = Inr ids"
    "(if ids = [] then Inr None else emap Some (?alone ids)) = Inr shared"
    "answers = foldl (\<lambda>d f. dict_set (flag_key f)
       (enabled (evaluate_flag_with E (case shared of None \<Rightarrow> ?alone | Some ms \<Rightarrow> (\<lambda>_. Inr ms)) f u ctx)) d) [] ?flags"
    unfolding get_user_flags_def Let_def ebind_eq_Inr by auto
  have "evaluate_flag_with E (\<lambda>_. Inr ms) f u ctx = evaluate_flag_with E ?alone f u ctx"
    if "?alone ids = Inr ms" for ms
  proof -
    have "resolve_segment_memberships E validate (readable_db db) u (expand_items ctx) ids = Inr ms"
      using that db by simp
    from db_provider.answer_shared [OF assms(1) this i(1) f] show ?thesis by (simp add: db)
  qed
  then have "evaluate_flag_with E (case shared of None \<Rightarrow> ?alone | Some ms \<Rightarrow> (\<lambda>_. Inr ms)) f u ctx =
    evaluate_flag_with E ?alone f u ctx"
    using i(2) by (auto simp: exc_rules split: if_splits)
  then show ?thesis
    by (simp add: i(3) map_of_foldl_dict_set [OF dist] find_key_eq [OF dist f]
        evaluate_flag_detailed_def)
qed

section \<open>Raising a rollout\<close>

lemma match_flag_rule_rollout [simp]:
  "match_flag_rule E resolve (flag\<lparr>flag_rollout := p\<rparr>) u ctx = match_flag_rule E resolve flag u ctx"
  by (simp add: match_flag_rule_def)

lemma rollout_raise:
  assumes "enabled (evaluate_flag_with E resolve flag u ctx)" and "flag_rollout flag \<le> p"
  shows "enabled (evaluate_flag_with E resolve (flag\<lparr>flag_rollout := p\<rparr>) u ctx)"
  using assms in_rollout_mono
  by (auto simp: evaluate_flag_with_enabled split: option.splits)

lemma match_undecided:
  assumes "truthy (stored_rules flag)" and "\<not> is_list (stored_rules flag)"
    and "normalise_targeting_rules E (stored_rules flag) = Inr (Some rs)"
    and "resolve (segment_ids_in rs) = Inr ms" and "s \<in> set (segment_ids_in rs)"
    and "s \<in> set (undecided ms (segment_ids_in rs))"
  shows "match_flag_rule E resolve flag u ctx =
     Inl (SegmentMembershipUnavailable (undecided ms (segment_ids_in rs)))"
proof -
  have "segment_ids_in rs \<noteq> []" "undecided ms (segment_ids_in rs) \<noteq> []"
    using assms(5,6) by auto
  then show ?thesis
    using assms(1-4) by (cases "stored_rules flag") (simp_all add: match_flag_rule_def match_native_def)
qed

end
