(* ===== verification/Sdk_Ruleset.thy ===== *)
theory Sdk_Ruleset
  imports Flag_Evaluation
begin

text \<open>
  The ruleset document the server builds for SDKs that evaluate locally,
  \<^verbatim>\<open>backend/app/services/sdk_ruleset.py\<close>. A document is a JSON value. The \<open>version\<close> (the SHA-256 of
  the canonical JSON text) is a function argument: no evaluation reads it.
\<close>

definition MAX_SAFE_INTEGER :: int where "MAX_SAFE_INTEGER = 9007199254740991"
definition RULESET_SCHEMA :: int where "RULESET_SCHEMA = 1"
definition BUCKETING :: pstr where "BUCKETING = str ''md5-mod100-v1''"

section \<open>Value domains\<close>

definition is_portable_number :: "pyval \<Rightarrow> bool" where
  "is_portable_number v = (case v of
       PInt n \<Rightarrow> - MAX_SAFE_INTEGER \<le> n \<and> n \<le> MAX_SAFE_INTEGER
     | PFloat (Fin q) \<Rightarrow> \<bar>q\<bar> \<le> of_int MAX_SAFE_INTEGER
     | _ \<Rightarrow> False)"

definition STRING_OPERATORS :: "operator_type list" where
  "STRING_OPERATORS = [CONTAINS, NOT_CONTAINS, STARTS_WITH, ENDS_WITH]"
definition EQUALITY_OPERATORS :: "operator_type list" where "EQUALITY_OPERATORS = [EQUALS, NOT_EQUALS]"
definition LIST_OPERATORS :: "operator_type list" where "LIST_OPERATORS = [IN, NOT_IN]"
definition NUMERIC_OPERATORS :: "operator_type list" where
  "NUMERIC_OPERATORS = [GREATER_THAN, GREATER_THAN_OR_EQUAL, LESS_THAN, LESS_THAN_OR_EQUAL]"
definition PRESENCE_OPERATORS :: "operator_type list" where "PRESENCE_OPERATORS = [IS_NULL, IS_NOT_NULL]"

definition condition_is_local :: "condition \<Rightarrow> bool" where
  "condition_is_local c =
     (let op = operator c; value = cvalue c in
      if op \<in> set PRESENCE_OPERATORS then True
      else if op \<in> set STRING_OPERATORS then is_str value
      else if op \<in> set EQUALITY_OPERATORS then is_str value \<or> is_portable_number value
      else if op \<in> set NUMERIC_OPERATORS then is_portable_number value
      else if op \<in> set LIST_OPERATORS then
        (case value of
           PList xs \<Rightarrow> xs \<noteq> [] \<and> (list_all is_str xs \<or> list_all is_portable_number xs)
         | _ \<Rightarrow> False)
      else False)"

section \<open>Flag entries\<close>

definition condition_entry :: "condition \<Rightarrow> (pstr \<times> pyval) list" where
  "condition_entry c =
     [(str ''attribute'', PStr (attribute c)),
      (str ''operator'', PStr (operator_name (operator c))),
      (str ''value'', if operator c \<in> set PRESENCE_OPERATORS then PNone else cvalue c)]"

fun group_entry :: "rule_group \<Rightarrow> (pstr \<times> pyval) list option" where
  "group_entry (RuleGroup op cs gs) =
     (if \<not> list_all condition_is_local cs then None
      else case those (map group_entry gs) of
        None \<Rightarrow> None
      | Some entries \<Rightarrow>
          Some [(str ''op'', PStr (logical_name op)),
                (str ''conditions'', PList (map (\<lambda>c. PDict (condition_entry c)) cs)),
                (str ''groups'', PList (map PDict entries))])"

definition rule_entry :: "targeting_rule \<Rightarrow> pyval option" where
  "rule_entry r = map_option (\<lambda>match.
       PDict [(str ''id'', PStr (rule_id r)), (str ''rollout_percentage'', PInt (rollout_percentage r)),
              (str ''match'', PDict match)])
     (group_entry (rule r))"

definition default_rule_entry :: "targeting_rule \<Rightarrow> pyval" where
  "default_rule_entry r =
     PDict [(str ''id'', PStr (rule_id r)), (str ''rollout_percentage'', PInt (rollout_percentage r))]"

definition inactive_entry :: "feature_flag \<Rightarrow> (pstr \<times> pyval) list" where
  "inactive_entry flag = [(str ''key'', PStr (flag_key flag)), (str ''active'', PBool False)]"

definition remote_entry :: "feature_flag \<Rightarrow> (pstr \<times> pyval) list" where
  "remote_entry flag =
     [(str ''key'', PStr (flag_key flag)), (str ''active'', PBool True),
      (str ''evaluation'', PStr (str ''remote''))]"

definition local_entry :: "feature_flag \<Rightarrow> pyval list \<Rightarrow> pyval \<Rightarrow> (pstr \<times> pyval) list" where
  "local_entry flag rule_entries default_entry =
     [(str ''key'', PStr (flag_key flag)), (str ''active'', PBool True),
      (str ''evaluation'', PStr (str ''local'')),
      (str ''rollout_percentage'', PInt (flag_rollout flag)),
      (str ''rules'', PList rule_entries), (str ''default_rule'', default_entry)]"

definition native_entry :: "feature_flag \<Rightarrow> targeting_rules \<Rightarrow> (pstr \<times> pyval) list" where
  "native_entry flag rs =
     (case those (map rule_entry (sort_key priority (rules rs))) of
        None \<Rightarrow> remote_entry flag
      | Some entries \<Rightarrow>
          local_entry flag entries
            (case default_rule rs of None \<Rightarrow> PNone | Some r \<Rightarrow> default_rule_entry r))"

definition build_flag_entry :: "'z adapter_env_scheme \<Rightarrow> feature_flag \<Rightarrow> (pstr \<times> pyval) list res" where
  "build_flag_entry E flag =
     (if flag_status flag \<noteq> ACTIVE then Inr (inactive_entry flag)
      else if is_list (stored_rules flag) \<and> truthy (stored_rules flag) then Inr (remote_entry flag)
      else
        ebind (if truthy (stored_rules flag) then normalise_targeting_rules E (stored_rules flag)
               else Inr None)
          (\<lambda>native. Inr (case native of
             None \<Rightarrow> local_entry flag [] PNone
           | Some rs \<Rightarrow> native_entry flag rs)))"

section \<open>The document\<close>

definition ruleset_content :: "(pstr \<times> pyval) list list \<Rightarrow> (pstr \<times> pyval) list" where
  "ruleset_content entries =
     [(str ''schema'', PInt RULESET_SCHEMA), (str ''bucketing'', PStr BUCKETING),
      (str ''flags'', PList (map PDict entries))]"

definition build_ruleset ::
  "'z adapter_env_scheme \<Rightarrow> ((pstr \<times> pyval) list \<Rightarrow> pstr) \<Rightarrow> feature_flag list \<Rightarrow> pyval res" where
  "build_ruleset E version flags =
     ebind (etraverse (\<lambda>f. emap (\<lambda>entry. (flag_key f, entry)) (build_flag_entry E f)) flags)
       (\<lambda>keyed.
          let content = ruleset_content (map snd (sort_key fst keyed)) in
          Inr (PDict (content @ [(str ''version'', PStr (version content))])))"

end
