(* ===== verification/Sdk_Evaluator.thy ===== *)
theory Sdk_Evaluator
  imports Sdk_Ruleset
begin

text \<open>
  The Python SDK's local evaluator, \<^verbatim>\<open>sdk/python/experimentation/evaluator.py\<close>: the validation of a
  ruleset document, the flattening of a context and the evaluation of a flag. \<open>None\<close> is \<^verbatim>\<open>DEFER\<close>,
  "ask the server".
\<close>

section \<open>The document\<close>

definition MAX_DEPTH :: nat where "MAX_DEPTH = 64"

record indexed_ruleset =
  ruleset_schema :: pyval
  ruleset_bucketing :: pyval
  ruleset_version :: pyval
  ruleset_flags :: "(pstr \<times> (pstr \<times> pyval) list) list"

definition is_percentage :: "pyval \<Rightarrow> bool" where
  "is_percentage v = (case v of PInt _ \<Rightarrow> True | _ \<Rightarrow> False)"

definition valid_condition_entry :: "pyval \<Rightarrow> bool" where
  "valid_condition_entry v = (case v of
       PDict c \<Rightarrow> is_str (dget c ''attribute'') \<and> is_str (dget c ''operator'') | _ \<Rightarrow> False)"

definition list_at :: "(pstr \<times> pyval) list \<Rightarrow> string \<Rightarrow> pyval list" where
  "list_at d k = (case dget d k of PList xs \<Rightarrow> xs | _ \<Rightarrow> [])"

definition dict_of :: "pyval \<Rightarrow> (pstr \<times> pyval) list" where
  "dict_of v = (case v of PDict d \<Rightarrow> d | _ \<Rightarrow> [])"

lemma list_at_size: "x \<in> set (list_at d k) \<Longrightarrow> size x < size (PDict d)"
proof -
  assume x: "x \<in> set (list_at d k)"
  then obtain xs where xs: "dget d k = PList xs" and "x \<in> set xs"
    by (cases "dget d k") (auto simp: list_at_def)
  then have "size x < size (PList xs)" by (intro elem_size)
  moreover have "(str k, PList xs) \<in> set d"
    using xs by (cases "map_of d (str k)") (auto simp: dget_def dest: map_of_SomeD)
  then have "size (PList xs) < size_list (size_prod (\<lambda>_. 0) size) d" by (rule item_size)
  ultimately show ?thesis by simp
qed

function valid_group_entry :: "nat \<Rightarrow> pyval \<Rightarrow> bool" where
  "valid_group_entry depth v =
     (depth \<le> MAX_DEPTH \<and>
      (case v of
         PDict g \<Rightarrow>
           is_str (dget g ''op'') \<and> is_list (dget g ''conditions'') \<and> is_list (dget g ''groups'') \<and>
           list_all valid_condition_entry (list_at g ''conditions'') \<and>
           list_all (valid_group_entry (Suc depth)) (list_at g ''groups'')
       | _ \<Rightarrow> False))"
  by pat_completeness auto
termination
  by (relation "measure (\<lambda>(d, v). size v)") (auto dest: list_at_size)

declare valid_group_entry.simps [simp del]

definition valid_rule_entry :: "pyval \<Rightarrow> bool" where
  "valid_rule_entry v = (case v of
       PDict r \<Rightarrow> is_str (dget r ''id'') \<and> is_percentage (dget r ''rollout_percentage'') \<and>
         valid_group_entry 0 (dget r ''match'')
     | _ \<Rightarrow> False)"

definition valid_flag_entry :: "pyval \<Rightarrow> bool" where
  "valid_flag_entry v = (case v of
       PDict f \<Rightarrow>
         (if \<not> is_str (dget f ''key'') then False
          else if \<not> is_bool (dget f ''active'') then False
          else if dget f ''active'' = PBool False \<or> dget f ''evaluation'' = PStr (str ''remote'') then True
          else if dget f ''evaluation'' \<noteq> PStr (str ''local'') then False
          else if \<not> is_percentage (dget f ''rollout_percentage'') \<or> \<not> is_list (dget f ''rules'') then False
          else list_all valid_rule_entry (list_at f ''rules'') \<and>
            (case dget f ''default_rule'' of
               PNone \<Rightarrow> True
             | PDict r \<Rightarrow> is_percentage (dget r ''rollout_percentage'')
             | _ \<Rightarrow> False))
     | _ \<Rightarrow> False)"

definition is_supported_format :: "pyval \<Rightarrow> bool" where
  "is_supported_format body = (case body of
       PDict d \<Rightarrow> py_eq (dget d ''schema'') (PInt RULESET_SCHEMA) \<and> \<not> is_bool (dget d ''schema'') \<and>
         py_eq (dget d ''bucketing'') (PStr BUCKETING)
     | _ \<Rightarrow> False)"

definition text_of :: "pyval \<Rightarrow> pstr" where
  "text_of v = (case v of PStr s \<Rightarrow> s | _ \<Rightarrow> [])"

definition index_ruleset :: "pyval \<Rightarrow> indexed_ruleset option" where
  "index_ruleset body =
     (if \<not> is_supported_format body then None
      else
        (let d = dict_of body in
         if \<not> is_str (dget d ''version'') \<or> \<not> is_list (dget d ''flags'') then None
         else if \<not> list_all valid_flag_entry (list_at d ''flags'') then None
         else Some \<lparr>ruleset_schema = dget d ''schema'', ruleset_bucketing = dget d ''bucketing'',
                ruleset_version = dget d ''version'',
                ruleset_flags = foldl (\<lambda>flags f. dict_set (text_of (dget f ''key'')) f flags) []
                  (map dict_of (list_at d ''flags''))\<rparr>))"

section \<open>Values\<close>

definition sdk_portable_number :: "pyval \<Rightarrow> bool" where
  "sdk_portable_number v = (case v of
       PInt n \<Rightarrow> - MAX_SAFE_INTEGER \<le> n \<and> n \<le> MAX_SAFE_INTEGER
     | PFloat x \<Rightarrow> fle (Fin (of_int (- MAX_SAFE_INTEGER))) x \<and> fle x (Fin (of_int MAX_SAFE_INTEGER))
     | _ \<Rightarrow> False)"

definition well_formed_str :: "pstr \<Rightarrow> bool" where
  "well_formed_str s = (\<not> list_ex is_surrogate s)"

function is_well_formed :: "nat \<Rightarrow> pyval \<Rightarrow> bool" where
  "is_well_formed depth v =
     (if depth > 256 then False
      else case v of
        PStr s \<Rightarrow> well_formed_str s
      | PList xs \<Rightarrow> list_all (is_well_formed (Suc depth)) xs
      | PDict d \<Rightarrow> list_all (\<lambda>kv. well_formed_str (fst kv) \<and> is_well_formed (Suc depth) (snd kv)) d
      | _ \<Rightarrow> True)"
  by pat_completeness auto
termination
proof (relation "measure (\<lambda>(d, v). 257 - d)")
qed auto

declare is_well_formed.simps [simp del]

text \<open>The fixed list of characters either language treats as white space.\<close>

definition sdk_whitespace :: "nat \<Rightarrow> bool" where
  "sdk_whitespace c = (c \<in> {0x0009, 0x000A, 0x000B, 0x000C, 0x000D,
     0x001C, 0x001D, 0x001E, 0x001F, 0x0020, 0x0085, 0x00A0, 0x1680,
     0x2000, 0x2001, 0x2002, 0x2003, 0x2004, 0x2005, 0x2006, 0x2007, 0x2008, 0x2009, 0x200A,
     0x2028, 0x2029, 0x202F, 0x205F, 0x3000, 0xFEFF})"

section \<open>The context\<close>

function sdk_walk ::
  "(pstr \<times> pyval) list \<Rightarrow> pstr \<Rightarrow> nat \<Rightarrow> (pstr \<times> pyval) list \<Rightarrow> (pstr \<times> pyval) list" where
  "sdk_walk [] prefix depth flat = flat"
| "sdk_walk ((key, value) # items) prefix depth flat =
     sdk_walk items prefix depth
       (case value of
          PDict d \<Rightarrow>
            if depth < 256
            then sdk_walk d ((prefix @ key) @ [46]) (Suc depth) (setdefault (prefix @ key) value flat)
            else setdefault (prefix @ key) value flat
        | _ \<Rightarrow> setdefault (prefix @ key) value flat)"
  by pat_completeness auto
termination
  by (relation "measure (\<lambda>(items, _, _, _). size_list (size_prod (\<lambda>_. 0) size) items)") auto

definition ALIAS_PREFIXES :: "pstr list" where
  "ALIAS_PREFIXES = [str ''user'', str ''device'', str ''app'']"

definition sdk_forward :: "(pstr \<times> pyval) list \<Rightarrow> pstr \<times> pyval \<Rightarrow> (pstr \<times> pyval) list" where
  "sdk_forward flat kv =
     (case kv of (key, value) \<Rightarrow>
        if 46 \<in> set key \<or> is_dict value then flat
        else foldl (\<lambda>f prefix. setdefault (prefix @ str ''.'' @ key) value f) flat ALIAS_PREFIXES)"

definition sdk_reverse :: "(pstr \<times> pyval) list \<Rightarrow> pstr \<times> pyval \<Rightarrow> (pstr \<times> pyval) list" where
  "sdk_reverse flat kv =
     (case kv of (key, value) \<Rightarrow>
        case partition_at 46 key of (head, dot, tail) \<Rightarrow>
          if dot \<and> head \<in> set ALIAS_PREFIXES \<and> tail \<noteq> [] \<and> 46 \<notin> set tail
          then setdefault tail value flat else flat)"

definition flatten_context :: "(pstr \<times> pyval) list option \<Rightarrow> (pstr \<times> pyval) list" where
  "flatten_context ctx = (case ctx of
       None \<Rightarrow> []
     | Some items \<Rightarrow>
         if items = [] then []
         else
           (let flat = sdk_walk items [] 0 [];
                forwarded = foldl sdk_forward flat flat
            in foldl sdk_reverse forwarded forwarded))"

section \<open>Conditions\<close>

definition sdk_presence :: "pyval \<Rightarrow> bool option" where
  "sdk_presence value = (case value of
       PNone \<Rightarrow> Some True
     | PStr s \<Rightarrow> if list_ex sdk_whitespace s then None else Some (s = [])
     | PList xs \<Rightarrow> Some (xs = [])
     | PDict d \<Rightarrow> Some (d = [])
     | _ \<Rightarrow> Some False)"

definition sdk_string :: "pstr \<Rightarrow> pyval \<Rightarrow> pyval \<Rightarrow> bool option" where
  "sdk_string op value rule_value = (case (value, rule_value) of
       (PStr v, PStr r) \<Rightarrow>
         if \<not> well_formed_str r then None
         else if op = str ''contains'' then Some (is_substring r v)
         else if op = str ''not_contains'' then Some (\<not> is_substring r v)
         else if op = str ''starts_with'' then Some (is_prefix r v)
         else Some (is_suffix r v)
     | _ \<Rightarrow> None)"

text \<open>The two loops over the rule's items: a malformed item defers even after a hit.\<close>

definition sdk_text_hit :: "pstr \<Rightarrow> pyval list \<Rightarrow> bool option" where
  "sdk_text_hit v items =
     (if list_all (\<lambda>item. case item of PStr s \<Rightarrow> well_formed_str s | _ \<Rightarrow> False) items
      then Some (list_ex (\<lambda>item. item = PStr v) items) else None)"

definition sdk_number_hit :: "pyval \<Rightarrow> pyval list \<Rightarrow> bool option" where
  "sdk_number_hit v items =
     (if list_all sdk_portable_number items then Some (list_ex (\<lambda>item. py_eq item v) items) else None)"

definition sdk_match :: "pstr \<Rightarrow> pyval \<Rightarrow> pyval \<Rightarrow> bool option" where
  "sdk_match op value rule_value =
     (let items = (if op = str ''in'' \<or> op = str ''not_in''
                   then (case rule_value of PList xs \<Rightarrow> xs | _ \<Rightarrow> []) else [rule_value])
      in if items = [] then None
         else map_option (\<lambda>hit. if op = str ''eq'' \<or> op = str ''in'' then hit else \<not> hit)
           (if is_str (hd items) then (case value of PStr v \<Rightarrow> sdk_text_hit v items | _ \<Rightarrow> None)
            else if \<not> sdk_portable_number value then None
            else sdk_number_hit value items))"

text \<open>Two numbers are compared exactly.\<close>

definition sdk_numeric :: "pstr \<Rightarrow> pyval \<Rightarrow> pyval \<Rightarrow> bool option" where
  "sdk_numeric op value rule_value =
     (if \<not> sdk_portable_number value \<or> \<not> sdk_portable_number rule_value then None
      else Some
        (if op = str ''gt'' then numbers_cmp (\<lambda>x y. flt y x) value rule_value
         else if op = str ''gte'' then numbers_cmp (\<lambda>x y. fle y x) value rule_value
         else if op = str ''lt'' then numbers_cmp flt value rule_value
         else numbers_cmp fle value rule_value))"

definition SDK_STRING_OPERATORS :: "string list" where
  "SDK_STRING_OPERATORS = [''contains'', ''not_contains'', ''starts_with'', ''ends_with'']"
definition SDK_MATCH_OPERATORS :: "string list" where
  "SDK_MATCH_OPERATORS = [''eq'', ''neq'', ''in'', ''not_in'']"
definition SDK_NUMERIC_OPERATORS :: "string list" where
  "SDK_NUMERIC_OPERATORS = [''gt'', ''gte'', ''lt'', ''lte'']"
definition SDK_PRESENCE_OPERATORS :: "string list" where
  "SDK_PRESENCE_OPERATORS = [''is_null'', ''is_not_null'']"

definition LOCAL_OPERATORS :: "string list" where
  "LOCAL_OPERATORS = SDK_STRING_OPERATORS @ SDK_MATCH_OPERATORS @ SDK_NUMERIC_OPERATORS @ SDK_PRESENCE_OPERATORS"

definition sdk_evaluate_condition ::
  "(pstr \<times> pyval) list \<Rightarrow> (pstr \<times> pyval) list \<Rightarrow> bool option" where
  "sdk_evaluate_condition condition flat =
     (let op = text_of (dget condition ''operator''); rule_value = dget condition ''value'' in
      if op \<notin> str ` set LOCAL_OPERATORS then None
      else case map_of flat (text_of (dget condition ''attribute'')) of
        None \<Rightarrow> Some (op = str ''is_null'')
      | Some value \<Rightarrow>
          if op \<in> str ` set SDK_PRESENCE_OPERATORS then
            map_option (\<lambda>empty. if op = str ''is_null'' then empty else \<not> empty) (sdk_presence value)
          else if value = PNone then Some (op = str ''neq'')
          else if op \<in> str ` set SDK_STRING_OPERATORS then sdk_string op value rule_value
          else if op \<in> str ` set SDK_MATCH_OPERATORS then sdk_match op value rule_value
          else if op \<in> str ` set SDK_NUMERIC_OPERATORS then sdk_numeric op value rule_value
          else None)"

section \<open>Groups\<close>

definition sdk_combine :: "pyval \<Rightarrow> bool list \<Rightarrow> bool option" where
  "sdk_combine op results =
     (if results = [] then Some True
      else if op = PStr (str ''and'') then Some (list_all (\<lambda>b. b) results)
      else if op = PStr (str ''or'') then Some (list_ex (\<lambda>b. b) results)
      else if op = PStr (str ''not'') then Some (\<not> list_all (\<lambda>b. b) results)
      else None)"

function sdk_evaluate_group :: "nat \<Rightarrow> pyval \<Rightarrow> (pstr \<times> pyval) list \<Rightarrow> bool option" where
  "sdk_evaluate_group depth v flat =
     (if depth > MAX_DEPTH then None
      else case v of
        PDict g \<Rightarrow>
          (case those (map (\<lambda>c. sdk_evaluate_condition (dict_of c) flat) (list_at g ''conditions'') @
                       map (\<lambda>h. sdk_evaluate_group (Suc depth) h flat) (list_at g ''groups'')) of
             None \<Rightarrow> None
           | Some results \<Rightarrow> sdk_combine (dget g ''op'') results)
      | _ \<Rightarrow> None)"
  by pat_completeness auto
termination
  by (relation "measure (\<lambda>(d, v, _). size v)") (auto dest: list_at_size)

declare sdk_evaluate_group.simps [simp del]

section \<open>Flags\<close>

definition sdk_flag_bucket :: "pstr \<Rightarrow> pstr \<Rightarrow> int res" where
  "sdk_flag_bucket user_id key = emap (\<lambda>n. int n mod 100) (md5_int (user_id @ str '':'' @ key))"

definition sdk_in_rollout :: "int \<Rightarrow> pstr \<Rightarrow> pstr \<Rightarrow> bool res" where
  "sdk_in_rollout percentage user_id key =
     (if percentage \<le> 0 then Inr False
      else if percentage \<ge> 100 then Inr True
      else emap (\<lambda>b. b < percentage) (sdk_flag_bucket user_id key))"

text \<open>
  The entries evaluated are those of an index, which passed \<^verbatim>\<open>_valid_flag\<close>: the lookups by
  subscript below are on keys that are present and of their type, and are read as total.
\<close>

record local_answer =
  local_enabled :: bool
  local_reason :: flag_reason

definition percentage_at :: "(pstr \<times> pyval) list \<Rightarrow> int" where
  "percentage_at d = (case dget d ''rollout_percentage'' of PInt n \<Rightarrow> n | _ \<Rightarrow> 0)"

definition answer_in_rollout ::
  "flag_reason \<Rightarrow> int \<Rightarrow> pstr \<Rightarrow> pstr \<Rightarrow> local_answer option res" where
  "answer_in_rollout r p user_id key =
     emap (\<lambda>b. Some \<lparr>local_enabled = b, local_reason = r\<rparr>) (sdk_in_rollout p user_id key)"

text \<open>The loop over the rules: the percentage of the first match, or \<open>None\<close> at a \<^verbatim>\<open>DEFER\<close>.\<close>

fun sdk_first_rule :: "pyval list \<Rightarrow> (pstr \<times> pyval) list \<Rightarrow> int option option" where
  "sdk_first_rule [] flat = Some None"
| "sdk_first_rule (r # rs) flat =
     (case sdk_evaluate_group 0 (dget (dict_of r) ''match'') flat of
        None \<Rightarrow> None
      | Some True \<Rightarrow> Some (Some (percentage_at (dict_of r)))
      | Some False \<Rightarrow> sdk_first_rule rs flat)"

definition evaluate_entry ::
  "(pstr \<times> pyval) list \<Rightarrow> pstr \<Rightarrow> pstr \<Rightarrow> (pstr \<times> pyval) list option \<Rightarrow> local_answer option res" where
  "evaluate_entry flag key user_id ctx =
     (if dget flag ''active'' = PBool False then
        Inr (Some \<lparr>local_enabled = False, local_reason = REASON_INACTIVE\<rparr>)
      else if dget flag ''evaluation'' \<noteq> PStr (str ''local'') then Inr None
      else case sdk_first_rule (list_at flag ''rules'') (flatten_context ctx) of
        None \<Rightarrow> Inr None
      | Some (Some p) \<Rightarrow> answer_in_rollout REASON_TARGETING_RULE p user_id key
      | Some None \<Rightarrow>
          if dget flag ''default_rule'' \<noteq> PNone then
            answer_in_rollout REASON_TARGETING_RULE (percentage_at (dict_of (dget flag ''default_rule'')))
              user_id key
          else answer_in_rollout REASON_ROLLOUT (percentage_at flag) user_id key)"

definition evaluate_locally ::
  "indexed_ruleset \<Rightarrow> pstr \<Rightarrow> pstr \<Rightarrow> (pstr \<times> pyval) list option \<Rightarrow> local_answer option res" where
  "evaluate_locally rs key user_id ctx =
     (if \<not> py_eq (ruleset_schema rs) (PInt RULESET_SCHEMA) \<or>
         \<not> py_eq (ruleset_bucketing rs) (PStr BUCKETING) then Inr None
      else if \<not> well_formed_str user_id \<or> \<not> well_formed_str key \<or>
         \<not> is_well_formed 0 (case ctx of None \<Rightarrow> PNone | Some d \<Rightarrow> PDict d) then Inr None
      else case map_of (ruleset_flags rs) key of
        None \<Rightarrow> Inr None
      | Some flag \<Rightarrow> evaluate_entry flag key user_id ctx)"

end
