(* ===== verification/Sdk_Facts.thy ===== *)
theory Sdk_Facts
  imports Sdk_Evaluator
begin

text \<open>
  The SDK and the server compute the same function: a simulation from the SDK's evaluation of
  the document to the server's evaluation of the stored rules, for conditions, groups, rules and
  flags, and the equality of the two context flatteners.
\<close>

section \<open>The two flatteners\<close>

lemma sdk_walk_eq:
  "list_all (\<lambda>kv. well_formed_str (fst kv) \<and> is_well_formed (Suc depth) (snd kv)) items \<Longrightarrow>
     sdk_walk items prefix depth flat = flatten_into items prefix flat"
proof (induction items prefix depth flat rule: sdk_walk.induct)
  case (1 prefix depth flat)
  then show ?case by simp
next
  case (2 key v items prefix depth flat)
  have rest: "list_all (\<lambda>kv. well_formed_str (fst kv) \<and> is_well_formed (Suc depth) (snd kv)) items"
    and wf: "is_well_formed (Suc depth) v"
    using "2.prems" by simp_all
  show ?case
  proof (cases v)
    case (PDict d)
    have "depth < 256" and "list_all (\<lambda>kv. well_formed_str (fst kv) \<and> is_well_formed (Suc (Suc depth)) (snd kv)) d"
      using wf by (subst (asm) is_well_formed.simps, simp add: PDict split: if_splits)+
    then show ?thesis
      using "2.IH"(1) [OF PDict] "2.IH"(2) [OF rest] PDict by simp
  qed (use "2.IH"(2) [OF rest] in simp_all)
qed

lemma sdk_forward_eq: "sdk_forward = forward_alias"
  by (simp add: fun_eq_iff sdk_forward_def forward_alias_def ALIAS_PREFIXES_def
      CONTEXT_ALIAS_PREFIXES_def dotted_def str_def)

lemma sdk_reverse_eq: "sdk_reverse = reverse_alias"
  by (simp add: fun_eq_iff sdk_reverse_def reverse_alias_def ALIAS_PREFIXES_def
      CONTEXT_ALIAS_PREFIXES_def)

definition request_items :: "(pstr \<times> pyval) list option \<Rightarrow> (pstr \<times> pyval) list" where
  "request_items ctx = (case ctx of None \<Rightarrow> [] | Some items \<Rightarrow> items)"

lemma expand_items_Nil [simp]: "expand_items [] = []"
  by (simp add: expand_items_def)

text \<open>On a context the SDK accepts, it flattens as the server does.\<close>

lemma flatten_context_eq:
  assumes "is_well_formed 0 (case ctx of None \<Rightarrow> PNone | Some d \<Rightarrow> PDict d)"
  shows "flatten_context ctx = expand_items (request_items ctx)"
proof (cases ctx)
  case None
  then show ?thesis by (simp add: flatten_context_def request_items_def)
next
  case (Some items)
  have "list_all (\<lambda>kv. well_formed_str (fst kv) \<and> is_well_formed (Suc 0) (snd kv)) items"
    using assms by (subst (asm) is_well_formed.simps, simp add: Some)
  then show ?thesis
    by (simp add: Some flatten_context_def request_items_def expand_items_def Let_def
        sdk_walk_eq sdk_forward_eq sdk_reverse_eq)
qed

section \<open>Numbers\<close>

lemma portable_number_eq: "sdk_portable_number v = is_portable_number v"
  by (auto simp: sdk_portable_number_def is_portable_number_def fle_def abs_le_iff
      split: pyval.split pyfloat.split)

lemma portable_float:
  "is_portable_number v \<Longrightarrow> \<exists>x. py_float E v = Inr x \<and> num_value v = Some x"
  by (auto simp: is_portable_number_def MAX_SAFE_INTEGER_def float_of_int_exact
      split: pyval.splits pyfloat.splits)

lemma portable_not_str: "is_portable_number v \<Longrightarrow> \<not> is_str v \<and> v \<noteq> PNone"
  by (auto simp: is_portable_number_def split: pyval.splits)

lemma py_eq_number: "is_portable_number v \<Longrightarrow> py_eq v w = num_eq v w"
  by (cases v) (auto simp: is_portable_number_def)

lemma num_eq_sym: "num_eq a b = num_eq b a"
  by (auto simp: num_eq_def feq_sym split: option.splits)

section \<open>Conditions\<close>

lemmas local_operator_defs =
  LOCAL_OPERATORS_def SDK_STRING_OPERATORS_def SDK_MATCH_OPERATORS_def SDK_NUMERIC_OPERATORS_def
  SDK_PRESENCE_OPERATORS_def STRING_OPERATORS_def EQUALITY_OPERATORS_def LIST_OPERATORS_def
  NUMERIC_OPERATORS_def PRESENCE_OPERATORS_def

lemma operator_name_groups:
  "operator_name op \<in> str ` set SDK_STRING_OPERATORS \<longleftrightarrow> op \<in> set STRING_OPERATORS"
  "operator_name op \<in> str ` set SDK_MATCH_OPERATORS \<longleftrightarrow> op \<in> set EQUALITY_OPERATORS \<union> set LIST_OPERATORS"
  "operator_name op \<in> str ` set SDK_NUMERIC_OPERATORS \<longleftrightarrow> op \<in> set NUMERIC_OPERATORS"
  "operator_name op \<in> str ` set SDK_PRESENCE_OPERATORS \<longleftrightarrow> op \<in> set PRESENCE_OPERATORS"
  by (cases op; simp add: local_operator_defs)+

lemma condition_entry_fields [simp]:
  "dget (condition_entry c) ''attribute'' = PStr (attribute c)"
  "dget (condition_entry c) ''operator'' = PStr (operator_name (operator c))"
  "dget (condition_entry c) ''value'' = (if operator c \<in> set PRESENCE_OPERATORS then PNone else cvalue c)"
  by (simp_all add: condition_entry_def dget_def)

lemma text_of_PStr [simp]: "text_of (PStr s) = s"
  by (simp add: text_of_def)

lemma local_operator:
  "condition_is_local c \<Longrightarrow> operator c \<in> set PRESENCE_OPERATORS \<union> set STRING_OPERATORS \<union>
     set EQUALITY_OPERATORS \<union> set NUMERIC_OPERATORS \<union> set LIST_OPERATORS"
  by (auto simp: condition_is_local_def Let_def split: if_splits)

lemma space_whitespace: "py_isspace c \<Longrightarrow> sdk_whitespace c"
  unfolding py_isspace_def sdk_whitespace_def by (simp, presburger)

lemma sdk_presence_empty: "sdk_presence v = Some e \<Longrightarrow> is_empty_value v = e"
proof (cases v)
  case (PStr s)
  assume "sdk_presence v = Some e"
  then have "\<not> list_ex sdk_whitespace s" "e = (s = [])"
    by (auto simp: sdk_presence_def PStr split: if_splits)
  moreover from this(1) have "strip s = [] \<longleftrightarrow> s = []"
    unfolding strip_eq_Nil_iff using space_whitespace by (cases s) auto
  ultimately show ?thesis by (simp add: PStr)
qed (auto simp: sdk_presence_def)

lemma values_equal_text: "values_equal E (PStr v) (PStr s) = Inr (PStr s = PStr v)"
  by (simp add: values_equal_def is_scalar_def)

lemma values_equal_numbers:
  assumes "is_portable_number v" and "is_portable_number w"
  shows "values_equal E v w = Inr (py_eq w v)"
proof -
  have "py_eq v w = py_eq w v"
    using assms by (simp add: py_eq_number num_eq_sym)
  then show ?thesis
    using assms by (cases w; cases v) (auto simp: values_equal_def is_portable_number_def)
qed

lemma sdk_text_hit_eany:
  "sdk_text_hit v items = Some hit \<Longrightarrow> eany (values_equal E (PStr v)) items = Inr hit"
proof -
  assume a: "sdk_text_hit v items = Some hit"
  then have all: "list_all (\<lambda>item. case item of PStr s \<Rightarrow> well_formed_str s | _ \<Rightarrow> False) items"
    and hit: "hit = list_ex (\<lambda>item. item = PStr v) items"
    by (auto simp: sdk_text_hit_def split: if_splits)
  have "is_str item" if "item \<in> set items" for item
    using all that by (cases item) (auto simp: list_all_iff)
  then have "values_equal E (PStr v) item = Inr (item = PStr v)" if "item \<in> set items" for item
    using that values_equal_text is_str.elims(2) by metis
  then have "eany (values_equal E (PStr v)) items = Inr (\<exists>item\<in>set items. item = PStr v)"
    by (rule eany_total)
  then show ?thesis by (simp add: hit list_ex_iff)
qed

lemma sdk_number_hit_eany:
  "sdk_number_hit v items = Some hit \<Longrightarrow> is_portable_number v \<Longrightarrow> eany (values_equal E v) items = Inr hit"
proof -
  assume a: "sdk_number_hit v items = Some hit" and v: "is_portable_number v"
  then have "\<forall>item\<in>set items. is_portable_number item"
    and hit: "hit = list_ex (\<lambda>item. py_eq item v) items"
    by (auto simp: sdk_number_hit_def portable_number_eq list_all_iff split: if_splits)
  then have "eany (values_equal E v) items = Inr (\<exists>item\<in>set items. py_eq item v)"
    using v by (intro eany_total values_equal_numbers) auto
  then show ?thesis by (simp add: hit list_ex_iff)
qed

text \<open>The four membership operators on the items of the rule.\<close>

definition match_items :: "condition \<Rightarrow> pyval list" where
  "match_items c = (if operator c \<in> set LIST_OPERATORS then (case cvalue c of PList xs \<Rightarrow> xs | _ \<Rightarrow> [])
     else [cvalue c])"

lemma sdk_match_hit:
  assumes "operator c \<in> set EQUALITY_OPERATORS \<union> set LIST_OPERATORS"
    and "sdk_match (operator_name (operator c)) v (cvalue c) = Some b"
  shows "\<exists>hit. eany (values_equal E v) (match_items c) = Inr hit \<and>
     b = (if operator c = EQUALS \<or> operator c = IN then hit else \<not> hit)"
proof -
  have names: "operator_name (operator c) = str ''in'' \<or> operator_name (operator c) = str ''not_in''
      \<longleftrightarrow> operator c \<in> set LIST_OPERATORS"
    "operator_name (operator c) = str ''eq'' \<or> operator_name (operator c) = str ''in''
      \<longleftrightarrow> operator c = EQUALS \<or> operator c = IN"
    using assms(1) by (auto simp: EQUALITY_OPERATORS_def LIST_OPERATORS_def)
  from assms(2) obtain hit where b: "b = (if operator c = EQUALS \<or> operator c = IN then hit else \<not> hit)"
    and h: "(if is_str (hd (match_items c)) then (case v of PStr s \<Rightarrow> sdk_text_hit s (match_items c) | _ \<Rightarrow> None)
            else if \<not> sdk_portable_number v then None
            else sdk_number_hit v (match_items c)) = Some hit"
    unfolding sdk_match_def Let_def names match_items_def by (auto split: if_splits)
  have "eany (values_equal E v) (match_items c) = Inr hit"
  proof (cases "is_str (hd (match_items c))")
    case True
    with h show ?thesis by (cases v) (auto intro: sdk_text_hit_eany)
  next
    case False
    with h show ?thesis
      by (auto simp: portable_number_eq intro: sdk_number_hit_eany split: if_splits)
  qed
  with b show ?thesis by blast
qed

lemma sdk_numeric_value:
  assumes "sdk_numeric op v w = Some b"
  shows "\<exists>x y. py_float E v = Inr x \<and> py_float E w = Inr y \<and>
     b = (if op = str ''gt'' then flt y x else if op = str ''gte'' then fle y x
          else if op = str ''lt'' then flt x y else fle x y)"
proof -
  from assms have "is_portable_number v" "is_portable_number w"
    by (auto simp: sdk_numeric_def portable_number_eq split: if_splits)
  then obtain x y where "py_float E v = Inr x" "num_value v = Some x"
    "py_float E w = Inr y" "num_value w = Some y"
    using portable_float by metis
  with assms show ?thesis
    by (auto simp: sdk_numeric_def numbers_cmp_def split: if_splits)
qed
lemma evaluate_condition_local:
  assumes "condition_is_local c"
  shows "evaluate_condition E c ctx = (case map_of ctx (attribute c) of
      None \<Rightarrow> Inr (operator c = IS_NULL)
    | Some v \<Rightarrow> apply_operator E (operator c) v (cvalue c) (additional_value c))"
proof -
  have "\<not> is_segment_operator (operator c)" and "operator c \<noteq> TIME_WINDOW"
    using local_operator [OF assms] by (auto simp: is_segment_operator_def local_operator_defs)
  then show ?thesis
    by (simp add: evaluate_condition_def segment_condition_holds_def)
qed

lemma apply_operator_presence:
  "op \<in> set PRESENCE_OPERATORS \<Longrightarrow>
     apply_operator E op v e w = Inr (if op = IS_NULL then is_empty_value v else \<not> is_empty_value v)"
  by (auto simp: apply_operator_def is_segment_operator_def PRESENCE_OPERATORS_def)

lemma apply_operator_none:
  assumes "condition_is_local c" and "operator c \<notin> set PRESENCE_OPERATORS"
  shows "apply_operator E (operator c) PNone (cvalue c) w = Inr (operator c = NOT_EQUALS)"
proof -
  have "cvalue c \<noteq> PNone" if "operator c \<in> set EQUALITY_OPERATORS"
    using assms that
    by (auto simp: condition_is_local_def local_operator_defs is_portable_number_def)
  then show ?thesis
    using local_operator [OF assms(1)] assms(2)
    by (auto simp: apply_operator_def is_segment_operator_def local_operator_defs)
qed

lemma apply_operator_string:
  assumes "sdk_string (operator_name op) v e = Some b" and "op \<in> set STRING_OPERATORS"
  shows "apply_operator E op v e w = Inr b"
proof -
  from assms(1) obtain s r where "v = PStr s" "e = PStr r"
    by (cases v; cases e) (auto simp: sdk_string_def)
  with assms show ?thesis
    by (auto simp: sdk_string_def STRING_OPERATORS_def apply_operator_def is_segment_operator_def
        op_contains_def op_starts_with_def op_ends_with_def split: if_splits)
qed

lemma apply_operator_match:
  assumes "sdk_match (operator_name (operator c)) v (cvalue c) = Some b" and "v \<noteq> PNone"
    and "operator c \<in> set EQUALITY_OPERATORS \<union> set LIST_OPERATORS" and "condition_is_local c"
  shows "apply_operator E (operator c) v (cvalue c) w = Inr b"
proof -
  from sdk_match_hit [OF assms(3,1)] obtain hit
    where h: "eany (values_equal E v) (match_items c) = Inr hit"
      and b: "b = (if operator c = EQUALS \<or> operator c = IN then hit else \<not> hit)" by blast
  show ?thesis
  proof (cases "operator c \<in> set EQUALITY_OPERATORS")
    case True
    then have "values_equal E v (cvalue c) = Inr hit"
      using h by (auto simp: match_items_def EQUALITY_OPERATORS_def LIST_OPERATORS_def exc_rules
          split: if_splits)
    with True assms(2) b show ?thesis
      by (auto simp: EQUALITY_OPERATORS_def apply_operator_def is_segment_operator_def
          op_equals_def op_not_equals_def)
  next
    case False
    with assms(3) have op: "operator c \<in> set LIST_OPERATORS" by simp
    with assms(4) obtain xs where xs: "cvalue c = PList xs"
      by (cases "cvalue c") (auto simp: condition_is_local_def local_operator_defs)
    with op h have "eany (values_equal E v) xs = Inr hit"
      by (simp add: match_items_def)
    with op assms(2) b xs show ?thesis
      by (auto simp: LIST_OPERATORS_def apply_operator_def is_segment_operator_def
          op_in_def op_not_in_def)
  qed
qed

lemma apply_operator_numeric:
  assumes "sdk_numeric (operator_name op) v e = Some b" and "op \<in> set NUMERIC_OPERATORS" and "v \<noteq> PNone"
  shows "apply_operator E op v e w = Inr b"
  using sdk_numeric_value [OF assms(1), of E] assms(2,3)
  by (auto simp: NUMERIC_OPERATORS_def apply_operator_def is_segment_operator_def op_numeric_def)

text \<open>A condition the SDK answers has the server's answer.\<close>

lemma condition_simulation:
  assumes "condition_is_local c" and "map_of flat (attribute c) = map_of ctx (attribute c)"
    and "sdk_evaluate_condition (condition_entry c) flat = Some b"
  shows "evaluate_condition E c ctx = Inr b"
proof (cases "map_of ctx (attribute c)")
  case None
  with assms show ?thesis
    by (cases "operator c")
      (auto simp: evaluate_condition_local sdk_evaluate_condition_def Let_def split: if_splits)
next
  case (Some v)
  consider "operator c \<in> set PRESENCE_OPERATORS"
    | "operator c \<notin> set PRESENCE_OPERATORS" "v = PNone"
    | "operator c \<notin> set PRESENCE_OPERATORS" "v \<noteq> PNone" "operator c \<in> set STRING_OPERATORS"
    | "operator c \<notin> set PRESENCE_OPERATORS" "v \<noteq> PNone" "operator c \<notin> set STRING_OPERATORS"
        "operator c \<in> set EQUALITY_OPERATORS \<union> set LIST_OPERATORS"
    | "operator c \<notin> set PRESENCE_OPERATORS" "v \<noteq> PNone" "operator c \<notin> set STRING_OPERATORS"
        "operator c \<notin> set EQUALITY_OPERATORS \<union> set LIST_OPERATORS" "operator c \<in> set NUMERIC_OPERATORS"
    using local_operator [OF assms(1)] by blast
  then have "apply_operator E (operator c) v (cvalue c) (additional_value c) = Inr b"
  proof cases
    case 1
    with assms Some show ?thesis
      unfolding apply_operator_presence [OF 1]
      by (auto simp: sdk_evaluate_condition_def Let_def operator_name_groups PRESENCE_OPERATORS_def
          dest: sdk_presence_empty split: if_splits)
  next
    case 2
    then have "operator_name (operator c) = str ''neq'' \<longleftrightarrow> operator c = NOT_EQUALS"
      by (cases "operator c") simp_all
    with 2 assms Some show ?thesis
      by (simp add: apply_operator_none sdk_evaluate_condition_def Let_def operator_name_groups split: if_splits)
  next
    case 3
    with assms Some show ?thesis
      by (intro apply_operator_string)
        (simp_all add: sdk_evaluate_condition_def Let_def operator_name_groups split: if_splits)
  next
    case 4
    with assms Some show ?thesis
      by (intro apply_operator_match)
        (simp_all add: sdk_evaluate_condition_def Let_def operator_name_groups split: if_splits)
  next
    case 5
    with assms Some show ?thesis
      by (intro apply_operator_numeric)
        (simp_all add: sdk_evaluate_condition_def Let_def operator_name_groups split: if_splits)
  qed
  then show ?thesis by (simp add: evaluate_condition_local [OF assms(1)] Some)
qed

section \<open>Groups\<close>

lemma those_map_iff: "those (map f xs) = Some ys \<longleftrightarrow> list_all2 (\<lambda>x y. f x = Some y) xs ys"
  by (induction xs arbitrary: ys) (auto simp: list_all2_Cons1 split: option.splits)

lemma those_append:
  "those (xs @ ys) = (case those xs of None \<Rightarrow> None | Some as \<Rightarrow> map_option (\<lambda>bs. as @ bs) (those ys))"
  by (cases "those ys"; induction xs) (auto split: option.split)

lemma those_appendE:
  assumes "those (xs @ ys) = Some zs"
  obtains us vs where "those xs = Some us" and "those ys = Some vs" and "zs = us @ vs"
proof -
  obtain us where us: "those xs = Some us"
    using assms unfolding those_append by (cases "those xs") simp_all
  moreover obtain vs where "those ys = Some vs"
    using assms unfolding those_append us by (cases "those ys") simp_all
  moreover have "zs = us @ vs"
    using assms calculation unfolding those_append by simp
  ultimately show ?thesis by (rule that)
qed

lemma sdk_combine_eq:
  "sdk_combine (PStr (logical_name op)) results = Some b \<Longrightarrow> combine_results op results = b"
proof (cases "results = []")
  case True
  assume "sdk_combine (PStr (logical_name op)) results = Some b"
  with True show ?thesis by (simp add: sdk_combine_def combine_results_def)
next
  case False
  assume "sdk_combine (PStr (logical_name op)) results = Some b"
  with False have "b = (case op of AND \<Rightarrow> list_all (\<lambda>b. b) results
      | OR \<Rightarrow> list_ex (\<lambda>b. b) results | NOT \<Rightarrow> \<not> list_all (\<lambda>b. b) results)"
    by (cases op) (simp_all add: sdk_combine_def)
  with False show ?thesis
    by (cases op) (simp_all add: combine_results_spec list_all_iff list_ex_iff)
qed

text \<open>The fields of a group's entry.\<close>

lemma group_entry_fields:
  assumes "group_entry (RuleGroup op cs gs) = Some e"
  obtains es where "list_all condition_is_local cs" and "list_all2 (\<lambda>g e. group_entry g = Some e) gs es"
    and "dget e ''op'' = PStr (logical_name op)"
    and "list_at e ''conditions'' = map (\<lambda>c. PDict (condition_entry c)) cs"
    and "list_at e ''groups'' = map PDict es"
    and "is_list (dget e ''conditions'')" and "is_list (dget e ''groups'')"
proof -
  from assms obtain es where local: "list_all condition_is_local cs"
    and es: "those (map group_entry gs) = Some es"
    and e: "e = [(str ''op'', PStr (logical_name op)),
        (str ''conditions'', PList (map (\<lambda>c. PDict (condition_entry c)) cs)),
        (str ''groups'', PList (map PDict es))]"
    by (auto split: if_splits option.splits)
  show ?thesis
    using that [OF local es [unfolded those_map_iff]] by (simp add: e dget_def list_at_def)
qed

lemma dict_of_PDict [simp]: "dict_of (PDict d) = d"
  by (simp add: dict_of_def)

lemma list_all2_imp:
  "list_all2 P xs ys \<Longrightarrow> (\<And>x y. x \<in> set xs \<Longrightarrow> P x y \<Longrightarrow> Q x y) \<Longrightarrow> list_all2 Q xs ys"
  by (metis list.rel_mono_strong)

lemma group_simulation:
  assumes "group_entry g = Some e"
    and "\<And>c. c \<in> set (all_conditions g) \<Longrightarrow> map_of flat (attribute c) = map_of ctx (attribute c)"
    and "sdk_evaluate_group depth (PDict e) flat = Some b"
  shows "evaluate_rule_group E g ctx = Inr b"
  using assms
proof (induction g arbitrary: e depth b)
  case (RuleGroup op cs gs)
  from RuleGroup.prems(1) obtain es where e: "list_all condition_is_local cs"
    "list_all2 (\<lambda>g e. group_entry g = Some e) gs es" "dget e ''op'' = PStr (logical_name op)"
    "list_at e ''conditions'' = map (\<lambda>c. PDict (condition_entry c)) cs"
    "list_at e ''groups'' = map PDict es"
    by (rule group_entry_fields)
  from RuleGroup.prems(3) obtain rs1 rs2
    where r1: "list_all2 (\<lambda>c r. sdk_evaluate_condition (condition_entry c) flat = Some r) cs rs1"
      and r2: "list_all2 (\<lambda>e r. sdk_evaluate_group (Suc depth) (PDict e) flat = Some r) es rs2"
      and b: "sdk_combine (PStr (logical_name op)) (rs1 @ rs2) = Some b"
  proof -
    obtain results where res: "those (map (\<lambda>c. sdk_evaluate_condition (condition_entry c) flat) cs @
        map (\<lambda>e. sdk_evaluate_group (Suc depth) (PDict e) flat) es) = Some results"
      "sdk_combine (PStr (logical_name op)) results = Some b"
      using RuleGroup.prems(3)
      by (subst (asm) sdk_evaluate_group.simps)
        (auto simp: e(3-5) comp_def split: if_splits option.splits)
    from res(1) show thesis
    proof (rule those_appendE)
      fix us vs
      assume "those (map (\<lambda>c. sdk_evaluate_condition (condition_entry c) flat) cs) = Some us"
        "those (map (\<lambda>e. sdk_evaluate_group (Suc depth) (PDict e) flat) es) = Some vs"
        "results = us @ vs"
      with res(2) show thesis unfolding those_map_iff using that by blast
    qed
  qed
  have "list_all2 (\<lambda>c r. evaluate_condition E c ctx = Inr r) cs rs1"
    using r1
  proof (rule list_all2_imp)
    fix c r assume c: "c \<in> set cs" "sdk_evaluate_condition (condition_entry c) flat = Some r"
    then show "evaluate_condition E c ctx = Inr r"
      using e(1) RuleGroup.prems(2) by (intro condition_simulation) (auto simp: list_all_iff)
  qed
  moreover have "list_all2 (\<lambda>g r. evaluate_rule_group E g ctx = Inr r) gs rs2"
  proof -
    have "list_all2 (\<lambda>g r. \<exists>e'. group_entry g = Some e' \<and>
        sdk_evaluate_group (Suc depth) (PDict e') flat = Some r) gs rs2"
      using e(2) r2 by (rule list_all2_trans [rotated]) blast
    then show ?thesis
    proof (rule list_all2_imp)
      fix g r assume "g \<in> set gs" "\<exists>e'. group_entry g = Some e' \<and>
        sdk_evaluate_group (Suc depth) (PDict e') flat = Some r"
      then show "evaluate_rule_group E g ctx = Inr r"
        using RuleGroup.IH RuleGroup.prems(2) by fastforce
    qed
  qed
  ultimately show ?case
    using sdk_combine_eq [OF b] by (simp add: etraverse_Inr_iff [symmetric])
qed

section \<open>Rules\<close>

lemma group_entry_local: "group_entry g = Some e \<Longrightarrow> c \<in> set (all_conditions g) \<Longrightarrow> condition_is_local c"
proof (induction g arbitrary: e)
  case (RuleGroup op cs gs)
  from RuleGroup.prems(1) obtain es where e: "list_all condition_is_local cs"
    "list_all2 (\<lambda>g e. group_entry g = Some e) gs es"
    by (rule group_entry_fields)
  from RuleGroup.prems(2) consider "c \<in> set cs" | g where "g \<in> set gs" "c \<in> set (all_conditions g)"
    by auto
  then show ?case
  proof cases
    case 1
    with e(1) show ?thesis by (simp add: list_all_iff)
  next
    case 2
    then obtain e' where "group_entry g = Some e'"
      using e(2) by (metis (mono_tags, lifting) in_set_conv_nth list_all2_conv_all_nth)
    with 2 RuleGroup.IH show ?thesis by blast
  qed
qed

lemma local_not_segment: "condition_is_local c \<Longrightarrow> \<not> is_segment_operator (operator c)"
  using local_operator [of c] by (auto simp: is_segment_operator_def local_operator_defs)

lemma rule_entry_Some:
  "rule_entry r = Some e \<longleftrightarrow> (\<exists>m. group_entry (rule r) = Some m \<and>
     e = PDict [(str ''id'', PStr (rule_id r)), (str ''rollout_percentage'', PInt (rollout_percentage r)),
       (str ''match'', PDict m)])"
  by (auto simp: rule_entry_def)

lemma first_rule_simulation:
  assumes "list_all2 (\<lambda>r e. rule_entry r = Some e) rs entries"
    and "\<And>r c. r \<in> set rs \<Longrightarrow> c \<in> set (all_conditions (rule r)) \<Longrightarrow>
      map_of flat (attribute c) = map_of ctx (attribute c)"
    and "sdk_first_rule entries flat = Some found"
  shows "\<exists>m. first_match E rs ctx = Inr m \<and> found = map_option rollout_percentage m"
  using assms
proof (induction rs entries rule: list_all2_induct)
  case Nil
  then show ?case by simp
next
  case (Cons r rs e entries)
  from Cons.hyps(1) obtain m where m: "group_entry (rule r) = Some m"
    "dget (dict_of e) ''match'' = PDict m" "percentage_at (dict_of e) = rollout_percentage r"
    by (auto simp: rule_entry_Some percentage_at_def dget_def)
  obtain b where b: "sdk_evaluate_group 0 (PDict m) flat = Some b"
    using Cons.prems(2) m(2) by (auto split: option.splits)
  have "evaluate_rule E r ctx = Inr b"
    unfolding evaluate_rule_def using m(1) _ b
    by (rule group_simulation) (rule Cons.prems(1) [of r], simp_all)
  then show ?case
    using Cons.IH Cons.prems b m(2,3) by (cases b) auto
qed

section \<open>Flags\<close>

text \<open>
  The server returns \<open>default_rule\<close> without evaluating it, but resolves the segments it names;
  the write-time validator refuses segment conditions there.
\<close>

definition default_segment_free :: "targeting_rules \<Rightarrow> bool" where
  "default_segment_free rs = (case default_rule rs of
       None \<Rightarrow> True
     | Some r \<Rightarrow> list_all (\<lambda>c. \<not> is_segment_operator (operator c)) (all_conditions (rule r)))"

definition flag_default_segment_free :: "'z adapter_env_scheme \<Rightarrow> feature_flag \<Rightarrow> bool" where
  "flag_default_segment_free E flag =
     (case normalise_targeting_rules E (stored_rules flag) of
        Inr (Some rs) \<Rightarrow> default_segment_free rs | _ \<Rightarrow> True)"

lemma no_segments:
  assumes "\<And>r c. r \<in> set (rules rs) \<Longrightarrow> c \<in> set (all_conditions (rule r)) \<Longrightarrow> condition_is_local c"
    and "default_segment_free rs"
  shows "segment_ids_in rs = []"
proof -
  have "segment_conditions rs = []"
    using assms local_not_segment
    by (auto simp: segment_conditions_def filter_empty_conv rule_roots_def default_segment_free_def
        list_all_iff split: option.splits)
  then show ?thesis by (simp add: segment_ids_in_def)
qed

lemma sdk_in_rollout_eq: "sdk_in_rollout = in_rollout"
  by (simp add: fun_eq_iff sdk_in_rollout_def in_rollout_def sdk_flag_bucket_def flag_bucket_def
      seed_text_def str_def)

text \<open>What the SDK answers from the entry of a flag with native rules.\<close>

lemma native_simulation:
  assumes "env_ok E" and n: "normalise_targeting_rules E (stored_rules flag) = Inr (Some rs)"
    and "default_segment_free rs"
    and entries: "those (map rule_entry (sort_key priority (rules rs))) = Some entries"
    and found: "sdk_first_rule entries (expand_items items) = Some found"
  shows "\<exists>m. match_native E resolve rs (expand_items items) = Inr m \<and>
     (case found of
        Some p \<Rightarrow> (\<exists>r. m = Some r \<and> rollout_percentage r = p)
      | None \<Rightarrow> m = default_rule rs)"
proof -
  let ?rs = "sort_key priority (rules rs)"
  let ?ctx = "with_memberships (expand_items items) None"
  have all2: "list_all2 (\<lambda>r e. rule_entry r = Some e) ?rs entries"
    using entries unfolding those_map_iff .
  have local: "condition_is_local c" if "r \<in> set (rules rs)" "c \<in> set (all_conditions (rule r))" for r c
  proof -
    from that(1) have "r \<in> set ?rs" by simp
    with all2 obtain e where "rule_entry r = Some e"
      by (metis (mono_tags, lifting) in_set_conv_nth list_all2_conv_all_nth)
    with that(2) show ?thesis by (auto simp: rule_entry_Some intro: group_entry_local)
  qed
  have reads: "map_of (expand_items items) (attribute c) = map_of ?ctx (attribute c)"
    if "r \<in> set ?rs" "c \<in> set (all_conditions (rule r))" for r c
    using normalise_reads [OF assms(1) n, of r] that
    by (auto simp: reads_no_memberships_def with_memberships_lookup)
  obtain m where m: "first_match E ?rs ?ctx = Inr m" "found = map_option rollout_percentage m"
    using first_rule_simulation [OF all2, of "expand_items items" ?ctx found E] reads found by blast
  then have "match_native E resolve rs (expand_items items) =
      Inr (case m of Some r \<Rightarrow> Some r | None \<Rightarrow> default_rule rs)"
    by (simp add: match_native_def no_segments [OF local assms(3)] match_targeting_rule_def)
  then show ?thesis using m(2) by (cases m) auto
qed

lemma answer_in_rollout_eq:
  "answer_in_rollout r p u k = Inr (Some ans) \<longleftrightarrow>
     in_rollout p u k = Inr (local_enabled ans) \<and> local_reason ans = r"
  by (cases ans) (auto simp: answer_in_rollout_def sdk_in_rollout_eq exc_rules)

text \<open>The entry of one flag: a local answer is the server's.\<close>

definition same_answer :: "local_answer \<Rightarrow> flag_answer \<Rightarrow> bool" where
  "same_answer ans served = (enabled served = local_enabled ans \<and> reason served = local_reason ans)"

lemma local_entry_fields:
  "dget (local_entry flag es d) ''active'' = PBool True"
  "dget (local_entry flag es d) ''evaluation'' = PStr (str ''local'')"
  "list_at (local_entry flag es d) ''rules'' = es"
  "dget (local_entry flag es d) ''default_rule'' = d"
  "percentage_at (local_entry flag es d) = flag_rollout flag"
  by (simp_all add: local_entry_def dget_def list_at_def percentage_at_def)

lemma default_rule_entry_fields:
  "default_rule_entry r \<noteq> PNone" "percentage_at (dict_of (default_rule_entry r)) = rollout_percentage r"
  by (simp_all add: default_rule_entry_def percentage_at_def dget_def)

lemma remote_entry_defers: "evaluate_entry (remote_entry flag) k u ctx = Inr None"
  by (simp add: evaluate_entry_def remote_entry_def dget_def)

lemma match_flag_rule_native:
  assumes "truthy (stored_rules flag)" and "\<not> is_list (stored_rules flag)"
    and "normalise_targeting_rules E (stored_rules flag) = Inr native"
  shows "match_flag_rule E resolve flag u items = (case native of
      None \<Rightarrow> Inr None
    | Some rs \<Rightarrow> emap (map_option (\<lambda>r. (rule_id r, rollout_percentage r)))
        (match_native E resolve rs (expand_items items)))"
  using assms by (cases "stored_rules flag") (simp_all add: match_flag_rule_def)

lemma local_entry_cases:
  assumes "build_flag_entry E flag = Inr entry" and "flag_status flag = ACTIVE"
    and "entry \<noteq> remote_entry flag"
  obtains (none) "entry = local_entry flag [] PNone" "match_flag_rule E resolve flag u items = Inr None"
    | (native) rs entries where "normalise_targeting_rules E (stored_rules flag) = Inr (Some rs)"
        "those (map rule_entry (sort_key priority (rules rs))) = Some entries"
        "entry = local_entry flag entries
           (case default_rule rs of None \<Rightarrow> PNone | Some r \<Rightarrow> default_rule_entry r)"
        "truthy (stored_rules flag)" "\<not> is_list (stored_rules flag)"
proof (cases "truthy (stored_rules flag)")
  case False
  with assms none show ?thesis
    by (simp add: build_flag_entry_def match_flag_rule_def)
next
  case True
  with assms have nl: "\<not> is_list (stored_rules flag)"
    by (auto simp: build_flag_entry_def)
  with True assms obtain nat_rules where n: "normalise_targeting_rules E (stored_rules flag) = Inr nat_rules"
    and entry: "entry = (case nat_rules of None \<Rightarrow> local_entry flag [] PNone | Some rs \<Rightarrow> native_entry flag rs)"
    by (auto simp: build_flag_entry_def exc_rules)
  show ?thesis
  proof (cases nat_rules)
    case None
    with entry none match_flag_rule_native [OF True nl n] show ?thesis by simp
  next
    case (Some rs)
    with entry assms(3) obtain entries
      where "those (map rule_entry (sort_key priority (rules rs))) = Some entries"
      by (cases "those (map rule_entry (sort_key priority (rules rs)))") (auto simp: native_entry_def)
    with Some entry n True nl native show ?thesis by (simp add: native_entry_def)
  qed
qed

lemma entry_simulation:
  assumes "env_ok E" and "flag_default_segment_free E flag"
    and "build_flag_entry E flag = Inr entry"
    and "is_well_formed 0 (case ctx of None \<Rightarrow> PNone | Some d \<Rightarrow> PDict d)"
    and "evaluate_entry entry (flag_key flag) u ctx = Inr (Some ans)"
  shows "same_answer ans (evaluate_flag_with E resolve flag u (request_items ctx))"
proof (cases "flag_status flag = ACTIVE")
  case False
  with assms(3,5) show ?thesis
    by (auto simp: build_flag_entry_def evaluate_entry_def inactive_entry_def dget_def same_answer_def
        evaluate_flag_with_def)
next
  case True
  note flat = flatten_context_eq [OF assms(4)]
  have "entry \<noteq> remote_entry flag"
    using assms(5) remote_entry_defers [of flag] by auto
  with assms(3) True show ?thesis
  proof (rule local_entry_cases [of E flag entry resolve u "request_items ctx"])
    assume none: "entry = local_entry flag [] PNone"
      "match_flag_rule E resolve flag u (request_items ctx) = Inr None"
    then show ?thesis
      using assms(5) True
      by (auto simp: evaluate_entry_def local_entry_fields answer_in_rollout_eq same_answer_def
          evaluate_flag_with_def evaluate_percentage_rollout_eq)
  next
    fix rs entries
    assume native: "normalise_targeting_rules E (stored_rules flag) = Inr (Some rs)"
        "those (map rule_entry (sort_key priority (rules rs))) = Some entries"
        "entry = local_entry flag entries
           (case default_rule rs of None \<Rightarrow> PNone | Some r \<Rightarrow> default_rule_entry r)"
        "truthy (stored_rules flag)" "\<not> is_list (stored_rules flag)"
    have free: "default_segment_free rs"
      using assms(2) native(1) by (simp add: flag_default_segment_free_def)
    obtain found where f: "sdk_first_rule entries (expand_items (request_items ctx)) = Some found"
      using assms(5) by (auto simp: native(3) evaluate_entry_def local_entry_fields flat split: option.splits)
    obtain m where m: "match_native E resolve rs (expand_items (request_items ctx)) = Inr m"
      "case found of Some p \<Rightarrow> (\<exists>r. m = Some r \<and> rollout_percentage r = p) | None \<Rightarrow> m = default_rule rs"
      using native_simulation [OF assms(1) native(1) free native(2) f] by blast
    have "match_flag_rule E resolve flag u (request_items ctx) =
        Inr (map_option (\<lambda>r. (rule_id r, rollout_percentage r)) m)"
      using m(1) by (simp add: match_flag_rule_native [OF native(4,5,1)])
    then have served: "evaluate_flag_with E resolve flag u (request_items ctx) =
        (case m of
           Some r \<Rightarrow> rollout_answer REASON_TARGETING_RULE (Some (rule_id r))
             (in_rollout (rollout_percentage r) u (flag_key flag))
         | None \<Rightarrow> rollout_answer REASON_ROLLOUT None (in_rollout (flag_rollout flag) u (flag_key flag)))"
      using True by (cases m) (simp_all add: evaluate_flag_with_def evaluate_percentage_rollout_eq)
    have answered: "(case found of
        Some p \<Rightarrow> answer_in_rollout REASON_TARGETING_RULE p u (flag_key flag)
      | None \<Rightarrow> (case default_rule rs of
          Some r \<Rightarrow> answer_in_rollout REASON_TARGETING_RULE (rollout_percentage r) u (flag_key flag)
        | None \<Rightarrow> answer_in_rollout REASON_ROLLOUT (flag_rollout flag) u (flag_key flag))) = Inr (Some ans)"
      using assms(5)
      by (cases found; cases "default_rule rs")
        (simp_all add: native(3) evaluate_entry_def local_entry_fields flat f default_rule_entry_fields)
    have rolled: "same_answer ans (rollout_answer r i out)"
      if "out = Inr (local_enabled ans)" "local_reason ans = r" for r i out
      using that by (simp add: same_answer_def)
    show ?thesis
      using answered m(2) unfolding served
      by (cases found; cases "default_rule rs") (auto simp: answer_in_rollout_eq intro!: rolled)
  qed
qed

section \<open>The document\<close>

lemma entry_keys [simp]:
  "dget (inactive_entry f) ''key'' = PStr (flag_key f)"
  "dget (remote_entry f) ''key'' = PStr (flag_key f)"
  "dget (local_entry f es d) ''key'' = PStr (flag_key f)"
  by (simp_all add: inactive_entry_def remote_entry_def local_entry_def dget_def)

lemma native_entry_key [simp]: "dget (native_entry f rs) ''key'' = PStr (flag_key f)"
  by (simp add: native_entry_def split: option.split)

lemma built_key: "build_flag_entry E f = Inr e \<Longrightarrow> dget e ''key'' = PStr (flag_key f)"
  by (auto simp: build_flag_entry_def exc_rules split: if_splits option.split)

text \<open>The entries of a document, in the order of their keys.\<close>

lemma build_ruleset_cases:
  assumes "build_ruleset E version flags = Inr body"
  obtains keyed where
    "list_all2 (\<lambda>f ke. fst ke = flag_key f \<and> build_flag_entry E f = Inr (snd ke)) flags keyed"
    "dget (dict_of body) ''schema'' = PInt RULESET_SCHEMA"
    "dget (dict_of body) ''bucketing'' = PStr BUCKETING"
    "is_str (dget (dict_of body) ''version'')"
    "list_at (dict_of body) ''flags'' = map PDict (map snd (sort_key fst keyed))"
    "is_list (dget (dict_of body) ''flags'')" "is_dict body"
proof -
  from assms obtain keyed where k: "etraverse (\<lambda>f. emap (\<lambda>entry. (flag_key f, entry)) (build_flag_entry E f)) flags = Inr keyed"
    and body: "body = PDict (ruleset_content (map snd (sort_key fst keyed)) @
        [(str ''version'', PStr (version (ruleset_content (map snd (sort_key fst keyed)))))])"
    unfolding build_ruleset_def Let_def ebind_eq_Inr by auto
  have "list_all2 (\<lambda>f ke. fst ke = flag_key f \<and> build_flag_entry E f = Inr (snd ke)) flags keyed"
    using k unfolding etraverse_Inr_iff by (rule list_all2_imp) (auto simp: exc_rules)
  then show ?thesis
    by (rule that) (simp_all add: body ruleset_content_def dget_def list_at_def)
qed

lemma keyed_elem:
  assumes "list_all2 (\<lambda>f ke. fst ke = flag_key f \<and> build_flag_entry E f = Inr (snd ke)) flags keyed"
  shows "ke \<in> set keyed \<Longrightarrow> \<exists>f\<in>set flags. fst ke = flag_key f \<and> build_flag_entry E f = Inr (snd ke)"
    and "f \<in> set flags \<Longrightarrow> \<exists>ke\<in>set keyed. fst ke = flag_key f \<and> build_flag_entry E f = Inr (snd ke)"
    and "map fst keyed = map flag_key flags"
proof -
  show "\<exists>f\<in>set flags. fst ke = flag_key f \<and> build_flag_entry E f = Inr (snd ke)" if "ke \<in> set keyed"
    using list_all2_right [OF assms that] .
  show "\<exists>ke\<in>set keyed. fst ke = flag_key f \<and> build_flag_entry E f = Inr (snd ke)" if "f \<in> set flags"
    using list_all2_left [OF assms that] .
  show "map fst keyed = map flag_key flags"
    using assms by (induction rule: list_all2_induct) auto
qed

lemma index_ruleset_flags:
  assumes "index_ruleset body = Some rs"
  shows "ruleset_flags rs = foldl (\<lambda>flags f. dict_set (text_of (dget f ''key'')) f flags) []
      (map dict_of (list_at (dict_of body) ''flags''))"
    and "ruleset_schema rs = dget (dict_of body) ''schema''"
    and "ruleset_bucketing rs = dget (dict_of body) ''bucketing''"
  using assms by (auto simp: index_ruleset_def Let_def split: if_splits)

lemma distinct_sort_key_fst: "distinct (map fst xs) \<Longrightarrow> distinct (map fst (sort_key k xs))"
  by (simp add: distinct_map)

text \<open>In a document built from flags with distinct keys, a key leads to its flag's entry.\<close>

lemma indexed_entry:
  assumes "build_ruleset E version flags = Inr body" and "index_ruleset body = Some rs"
    and "distinct (map flag_key flags)" and "flag \<in> set flags"
  shows "\<exists>entry. build_flag_entry E flag = Inr entry \<and> map_of (ruleset_flags rs) (flag_key flag) = Some entry"
  using assms(1)
proof (rule build_ruleset_cases)
  fix keyed
  assume k: "list_all2 (\<lambda>f ke. fst ke = flag_key f \<and> build_flag_entry E f = Inr (snd ke)) flags keyed"
    "list_at (dict_of body) ''flags'' = map PDict (map snd (sort_key fst keyed))"
  let ?key = "\<lambda>e. text_of (dget e ''key'')"
  let ?entries = "map snd (sort_key fst keyed)"
  have key: "?key (snd ke) = fst ke" if "ke \<in> set keyed" for ke
    using keyed_elem(1) [OF k(1) that] built_key by fastforce
  have "map ?key ?entries = map fst (sort_key fst keyed)"
    unfolding map_map by (rule map_cong [OF refl]) (simp add: key)
  moreover have "distinct (map fst (sort_key fst keyed))"
    using assms(3) by (intro distinct_sort_key_fst) (simp add: keyed_elem(3) [OF k(1)])
  ultimately have dist: "distinct (map ?key ?entries)" by (simp only:)
  obtain ke where ke: "ke \<in> set keyed" "fst ke = flag_key flag" "build_flag_entry E flag = Inr (snd ke)"
    using keyed_elem(2) [OF k(1) assms(4)] by blast
  have "map_of (ruleset_flags rs) (?key (snd ke)) = Some (snd ke)"
    using find_key_eq [OF dist, of "snd ke"] ke(1) map_of_foldl_dict_set [OF dist, of "\<lambda>e. e" "[]"]
    by (simp add: index_ruleset_flags(1) [OF assms(2)] k(2) comp_def)
  then show ?thesis
    using ke key by auto
qed

section \<open>Every ruleset of the server can be read\<close>

fun group_depth :: "rule_group \<Rightarrow> nat" where
  "group_depth (RuleGroup op cs gs) = fold max (map (\<lambda>g. Suc (group_depth g)) gs) 0"

lemma fold_max_ge: "(a::nat) \<le> fold max xs a \<and> (\<forall>x\<in>set xs. x \<le> fold max xs a)"
proof (induction xs arbitrary: a)
  case Nil
  then show ?case by simp
next
  case (Cons y xs)
  have "a \<le> max y a" and "y \<le> max y a" by simp_all
  then show ?case using Cons.IH [of "max y a"] by (auto intro: order_trans simp del: max.bounded_iff)
qed

lemma group_depth_child: "g \<in> set gs \<Longrightarrow> Suc (group_depth g) \<le> group_depth (RuleGroup op cs gs)"
  using fold_max_ge [of 0 "map (\<lambda>g. Suc (group_depth g)) gs"] by simp

lemma group_entry_valid:
  "group_entry g = Some e \<Longrightarrow> depth + group_depth g \<le> MAX_DEPTH \<Longrightarrow> valid_group_entry depth (PDict e)"
proof (induction g arbitrary: e depth)
  case (RuleGroup op cs gs)
  from RuleGroup.prems(1) obtain es where e: "list_all2 (\<lambda>g e. group_entry g = Some e) gs es"
    "dget e ''op'' = PStr (logical_name op)"
    "list_at e ''conditions'' = map (\<lambda>c. PDict (condition_entry c)) cs"
    "list_at e ''groups'' = map PDict es"
    "is_list (dget e ''conditions'')" "is_list (dget e ''groups'')"
    by (rule group_entry_fields)
  have "valid_group_entry (Suc depth) (PDict e')" if "e' \<in> set es" for e'
  proof -
    obtain g where g: "g \<in> set gs" "group_entry g = Some e'"
      using list_all2_right [OF e(1) \<open>e' \<in> set es\<close>] by blast
    then show ?thesis
      using group_depth_child [OF g(1), of op cs] RuleGroup.prems(2) by (intro RuleGroup.IH) auto
  qed
  moreover have "depth \<le> MAX_DEPTH" using RuleGroup.prems(2) by simp
  ultimately show ?case
    by (subst valid_group_entry.simps)
      (simp add: e(2-6) list_all_iff valid_condition_entry_def)
qed

lemma built_entry_valid:
  assumes "build_flag_entry E f = Inr e"
    and "\<And>rs r. normalise_targeting_rules E (stored_rules f) = Inr (Some rs) \<Longrightarrow> r \<in> set (rules rs) \<Longrightarrow>
      group_depth (rule r) \<le> MAX_DEPTH"
  shows "valid_flag_entry (PDict e)"
proof -
  have local: "valid_flag_entry (PDict (local_entry f es d))"
    if "list_all valid_rule_entry es"
      "d = PNone \<or> (\<exists>r. d = default_rule_entry r)" for es d
    using that by (auto simp: valid_flag_entry_def local_entry_def list_at_def dget_def
        is_percentage_def default_rule_entry_def)
  have remote: "valid_flag_entry (PDict (remote_entry f))"
    by (simp add: valid_flag_entry_def remote_entry_def dget_def)
  have "valid_flag_entry (PDict (native_entry f rs))"
    if n: "normalise_targeting_rules E (stored_rules f) = Inr (Some rs)" for rs
  proof (cases "those (map rule_entry (sort_key priority (rules rs)))")
    case None
    then show ?thesis by (simp add: native_entry_def remote)
  next
    case (Some es)
    have l2: "list_all2 (\<lambda>r e. rule_entry r = Some e) (sort_key priority (rules rs)) es"
      using Some unfolding those_map_iff .
    have "valid_rule_entry v" if v: "v \<in> set es" for v
    proof -
      obtain r where r: "r \<in> set (rules rs)" "rule_entry r = Some v"
        using list_all2_right [OF l2 v] by auto
      then have "0 + group_depth (rule r) \<le> MAX_DEPTH"
        using assms(2) [OF n] by simp
      with r(2) group_entry_valid [of "rule r" _ 0] show ?thesis
        by (auto simp: rule_entry_Some valid_rule_entry_def dget_def is_percentage_def)
    qed
    then have "list_all valid_rule_entry es" by (simp add: list_all_iff)
    then show ?thesis
      by (auto simp: native_entry_def Some intro!: local split: option.split)
  qed
  moreover have "valid_flag_entry (PDict (inactive_entry f))"
    by (simp add: valid_flag_entry_def inactive_entry_def dget_def)
  moreover consider "e = inactive_entry f" | "e = remote_entry f" | "e = local_entry f [] PNone"
    | rs where "normalise_targeting_rules E (stored_rules f) = Inr (Some rs)" "e = native_entry f rs"
    using assms(1)
    by (auto simp: build_flag_entry_def exc_rules simp del: ebind_eq_Inl split: if_splits option.splits)
  ultimately show ?thesis
    using local [of "[]" PNone] remote by cases auto
qed

lemma built_ruleset_indexed:
  assumes "build_ruleset E version flags = Inr body"
    and "\<And>f rs r. f \<in> set flags \<Longrightarrow> normalise_targeting_rules E (stored_rules f) = Inr (Some rs) \<Longrightarrow>
      r \<in> set (rules rs) \<Longrightarrow> group_depth (rule r) \<le> MAX_DEPTH"
  shows "\<exists>rs. index_ruleset body = Some rs"
  using assms(1)
proof (rule build_ruleset_cases)
  fix keyed
  assume k: "list_all2 (\<lambda>f ke. fst ke = flag_key f \<and> build_flag_entry E f = Inr (snd ke)) flags keyed"
    "dget (dict_of body) ''schema'' = PInt RULESET_SCHEMA"
    "dget (dict_of body) ''bucketing'' = PStr BUCKETING"
    "is_str (dget (dict_of body) ''version'')"
    "list_at (dict_of body) ''flags'' = map PDict (map snd (sort_key fst keyed))"
    "is_list (dget (dict_of body) ''flags'')" "is_dict body"
  have "list_all valid_flag_entry (list_at (dict_of body) ''flags'')"
    unfolding list_all_iff k(5)
    using keyed_elem(1) [OF k(1)] built_entry_valid assms(2) by fastforce
  moreover have "is_supported_format body"
    using k(2,3,7) by (cases body) (simp_all add: is_supported_format_def num_eq_def)
  ultimately show ?thesis
    using k(4,6) by (auto simp: index_ruleset_def Let_def)
qed

section \<open>Local evaluation\<close>

lemma local_is_server:
  assumes "env_ok E" and "build_ruleset E version flags = Inr body" and "index_ruleset body = Some rs"
    and "distinct (map flag_key flags)" and "flag \<in> set flags" and "flag_default_segment_free E flag"
    and "evaluate_locally rs (flag_key flag) u ctx = Inr (Some ans)"
  shows "same_answer ans (evaluate_flag_with E resolve flag u (request_items ctx))"
proof -
  obtain entry where entry: "build_flag_entry E flag = Inr entry"
    "map_of (ruleset_flags rs) (flag_key flag) = Some entry"
    using indexed_entry [OF assms(2-5)] by blast
  from assms(7) entry(2) have "is_well_formed 0 (case ctx of None \<Rightarrow> PNone | Some d \<Rightarrow> PDict d)"
    and "evaluate_entry entry (flag_key flag) u ctx = Inr (Some ans)"
    by (auto simp: evaluate_locally_def split: if_splits)
  then show ?thesis
    by (rule entry_simulation [OF assms(1,6) entry(1)])
qed

text \<open>Local evaluation never raises: text it would have to hash is well formed.\<close>

lemma in_rollout_well_formed:
  "well_formed_str u \<Longrightarrow> well_formed_str k \<Longrightarrow> \<exists>out. answer_in_rollout r p u k = Inr out"
  using in_rollout_total [of u k p]
  by (auto simp: answer_in_rollout_def sdk_in_rollout_eq well_formed_str_def)

lemma indexed_evaluation_total:
  assumes "index_ruleset body = Some rs"
  shows "\<exists>out. evaluate_locally rs key u ctx = Inr out"
  using in_rollout_well_formed
  by (auto simp: evaluate_locally_def evaluate_entry_def split: option.split)

end
