(* ===== verification/Concrete_Env.thy ===== *)
theory Concrete_Env
  imports Sdk_Facts
begin

text \<open>
  A concrete interpreter and concrete flags, on which the properties are instantiated: ASCII
  tables, a clock at a fixed instant, no time zones, a literal matcher in the place of RE2.
\<close>

definition demo_env :: adapter_env where
  "demo_env = \<lparr>float_text = (\<lambda>s. map_option (\<lambda>n. fl (of_int n)) (ascii_int s)),
     int_text = ascii_int, repr_text = (\<lambda>_. [63]),
     digit_char = (\<lambda>c. 48 \<le> c \<and> c \<le> 57),
     alnum_char = (\<lambda>c. 48 \<le> c \<and> c \<le> 57 \<or> 65 \<le> c \<and> c \<le> 90 \<or> 97 \<le> c \<and> c \<le> 122),
     decimal_char = (\<lambda>c. 48 \<le> c \<and> c \<le> 57),
     iso_datetime = (\<lambda>_. None), timestamp_datetime = (\<lambda>_. Inl PyOSError), ymd_date = (\<lambda>_. None),
     now_naive = 0, has_pytz = False, tz_known = (\<lambda>_. False), tz_now = (\<lambda>_. None),
     tz_localize = (\<lambda>_ _. None), tz_convert = (\<lambda>_ _. None),
     re2_search = (\<lambda>p t. if p = [] then Re2Refused else Re2Found (is_substring p t)),
     semver_parse = (\<lambda>_. None), semver_compare = (\<lambda>_ _. 0),
     math_radians = (\<lambda>x. x), math_sin = Inr, math_cos = Inr, math_sqrt = Inr, math_asin = Inr,
     items_text = (\<lambda>_. []),
     model_validate = (\<lambda>_. Inl ValidationError), json_loads = (\<lambda>_. Inl JSONDecodeError)\<rparr>"

lemma demo_env_ok: "env_ok demo_env"
  by (simp add: env_ok_def clock_ok_def demo_env_def)

lemma demo_clock_ok: "clock_ok demo_env"
  using demo_env_ok by (simp add: env_ok_def)

text \<open>A condition, a group and rules as the engine reads them.\<close>

definition demo_condition :: "operator_type \<Rightarrow> string \<Rightarrow> string \<Rightarrow> condition" where
  "demo_condition op attr v =
     \<lparr>attribute = str attr, operator = op, cvalue = PStr (str v), additional_value = PNone\<rparr>"

definition demo_group :: rule_group where
  "demo_group = RuleGroup NOT [demo_condition EQUALS ''country'' ''US'']
     [RuleGroup OR [demo_condition STARTS_WITH ''plan'' ''p'', demo_condition EQUALS ''plan'' ''free''] []]"

definition demo_ctx :: user_context where
  "demo_ctx = [(str ''country'', PStr (str ''US'')), (str ''plan'', PStr (str ''basic''))]"

text \<open>Dashboard rules: users in one country, at a given percentage.\<close>

definition demo_stored_group :: pyval where
  "demo_stored_group = PDict [(str ''conditions'', PList [PDict
      [(str ''attribute'', PStr (str ''country'')), (str ''operator'', PStr (str ''equals'')),
       (str ''value'', PStr (str ''US''))]])]"

definition demo_stored :: pyval where
  "demo_stored = PDict [(str ''groups'', PList [demo_stored_group])]"

definition demo_rule :: "rule_group \<Rightarrow> int \<Rightarrow> targeting_rule" where
  "demo_rule g p = \<lparr>rule_id = DASHBOARD_RULE_ID, rule = g, rollout_percentage = p, priority = 0\<rparr>"

definition demo_flag :: "string \<Rightarrow> flag_status \<Rightarrow> pyval \<Rightarrow> int \<Rightarrow> feature_flag" where
  "demo_flag key status stored p =
     \<lparr>flag_id = str key, flag_key = str key, flag_name = str key, flag_description = PNone,
      flag_status = status, flag_owner = [], stored_rules = stored, flag_rollout = p,
      flag_default = False, flag_tags = PNone, flag_updated_at = 0\<rparr>"

lemma demo_default_operator: "logical_operator_of demo_env PNone = AND"
  by (simp add: logical_operator_of_def or_default_def str_def lower_def lower_char_def strip_def py_isspace_def)

lemma demo_group_converted:
  "convert_group demo_env demo_stored_group = Inr (Some (RuleGroup AND [demo_condition EQUALS ''country'' ''US''] []))"
proof -
  have strips: "strip (str ''country'') = str ''country''" "strip (str ''equals'') = str ''equals''"
    by (simp_all add: str_def strip_def py_isspace_def)
  have attr: "valid_attribute_name demo_env (str ''country'')"
    by (simp add: valid_attribute_name_def py_isalnum_def demo_env_def str_def)
  have tables: "table_lookup SEMVER_OPERATOR_MAP (str ''equals'') = None"
    "table_lookup SEGMENT_OPERATOR_MAP (str ''equals'') = None"
    "table_lookup SIMPLE_OPERATOR_MAP (str ''equals'') = Some EQUALS"
    by (simp_all add: table_lookup_def SEMVER_OPERATOR_MAP_def SEGMENT_OPERATOR_MAP_def SIMPLE_OPERATOR_MAP_def)
  have nonempty: "str ''country'' \<noteq> []" "str ''equals'' \<noteq> []" by (simp_all add: str_def)
  show ?thesis
    by (simp add: demo_stored_group_def dget_def iter_or_empty_def convert_group_def convert_dashboard_condition_def
        or_default_def strips attr tables nonempty convert_simple_def make_condition_def validate_operator_value_def
        demo_default_operator demo_condition_def)
qed

lemma demo_normalised:
  "normalise_targeting_rules demo_env demo_stored =
     Inr (Some \<lparr>rules = [demo_rule (RuleGroup AND [] [RuleGroup AND [demo_condition EQUALS ''country'' ''US''] []]) 100],
       default_rule = None\<rparr>)"
proof -
  have "DASHBOARD_RULE_ID \<noteq> []" by (simp add: str_def DASHBOARD_RULE_ID_def)
  then show ?thesis
    by (simp add: demo_stored_def normalise_targeting_rules_def from_dashboard_def dget_def has_key_def
        iter_or_empty_def or_default_def demo_group_converted demo_default_operator
        rollout_percentage_of_def demo_rule_def List.map_filter_def)
qed

text \<open>A one-flag ruleset and its evaluation for a user of the country.\<close>

definition demo_request :: "(pstr \<times> pyval) list" where
  "demo_request = [(str ''country'', PStr (str ''US''))]"

definition demo_rule_entry :: pyval where
  "demo_rule_entry = PDict [(str ''id'', PStr DASHBOARD_RULE_ID), (str ''rollout_percentage'', PInt 100),
        (str ''match'', PDict [(str ''op'', PStr (str ''and'')), (str ''conditions'', PList []),
           (str ''groups'', PList [PDict [(str ''op'', PStr (str ''and'')),
              (str ''conditions'', PList [PDict (condition_entry (demo_condition EQUALS ''country'' ''US''))]),
              (str ''groups'', PList [])]])])]"

definition demo_entry :: "(pstr \<times> pyval) list" where
  "demo_entry = local_entry (demo_flag ''my-flag'' ACTIVE demo_stored 0) [demo_rule_entry] PNone"

definition demo_body :: pyval where
  "demo_body = PDict (ruleset_content [demo_entry] @ [(str ''version'', PStr [])])"

lemma demo_built:
  "build_ruleset demo_env (\<lambda>_. []) [demo_flag ''my-flag'' ACTIVE demo_stored 0] = Inr demo_body"
proof -
  have "truthy demo_stored" "\<not> is_list demo_stored"
    by (simp_all add: demo_stored_def)
  moreover have "condition_is_local (demo_condition EQUALS ''country'' ''US'')"
    by (simp add: condition_is_local_def demo_condition_def local_operator_defs)
  ultimately show ?thesis
    by (simp add: build_ruleset_def build_flag_entry_def demo_flag_def demo_normalised native_entry_def
        demo_rule_def rule_entry_def demo_body_def demo_entry_def demo_rule_entry_def)
qed

definition demo_index :: indexed_ruleset where
  "demo_index = \<lparr>ruleset_schema = PInt 1, ruleset_bucketing = PStr BUCKETING,
     ruleset_version = PStr [], ruleset_flags = [(str ''my-flag'', demo_entry)]\<rparr>"

lemma demo_indexed: "index_ruleset demo_body = Some demo_index"
proof -
  have fields: "dget demo_entry ''key'' = PStr (str ''my-flag'')" "dget demo_entry ''active'' = PBool True"
    "dget demo_entry ''evaluation'' = PStr (str ''local'')" "dget demo_entry ''rollout_percentage'' = PInt 0"
    "dget demo_entry ''default_rule'' = PNone"
    "is_list (dget demo_entry ''rules'')"
    by (simp_all add: demo_entry_def local_entry_def dget_def demo_flag_def)
  have "valid_rule_entry demo_rule_entry"
    by (simp add: demo_rule_entry_def valid_rule_entry_def dget_def is_percentage_def
        valid_group_entry.simps MAX_DEPTH_def list_at_def valid_condition_entry_def condition_entry_def)
  then have "list_all valid_rule_entry (list_at demo_entry ''rules'')"
    by (simp add: demo_entry_def local_entry_fields)
  then have "valid_flag_entry (PDict demo_entry)"
    by (simp add: valid_flag_entry_def fields is_percentage_def)
  then show ?thesis
    by (simp add: index_ruleset_def demo_body_def is_supported_format_def dget_def ruleset_content_def
        num_eq_def RULESET_SCHEMA_def list_at_def demo_index_def fields(1) [unfolded dget_def])
qed

lemma demo_context_expanded:
  "map_of (expand_items demo_request) (str ''country'') = Some (PStr (str ''US''))"
  by (intro expand_items_keeps) (simp add: demo_request_def)

lemma demo_local:
  "evaluate_locally demo_index (str ''my-flag'') (str ''user-123'') (Some demo_request) =
     Inr (Some \<lparr>local_enabled = True, local_reason = REASON_TARGETING_RULE\<rparr>)"
proof -
  have wf: "is_well_formed 0 (PDict demo_request)"
    by (simp add: is_well_formed.simps demo_request_def well_formed_str_def str_def is_surrogate_def)
  have flat: "flatten_context (Some demo_request) = expand_items demo_request"
    using flatten_context_eq [of "Some demo_request"] wf by (simp add: request_items_def)
  have cond: "sdk_evaluate_condition (condition_entry (demo_condition EQUALS ''country'' ''US''))
      (expand_items demo_request) = Some True"
    using demo_context_expanded
    by (simp add: sdk_evaluate_condition_def demo_condition_def local_operator_defs sdk_match_def
        sdk_text_hit_def well_formed_str_def str_def is_surrogate_def)
  have "sdk_evaluate_group 0 (dget (dict_of demo_rule_entry) ''match'') (expand_items demo_request) = Some True"
    by (simp add: demo_rule_entry_def sdk_evaluate_group.simps list_at_def dget_def
        cond sdk_combine_def MAX_DEPTH_def)
  moreover have "percentage_at (dict_of demo_rule_entry) = 100"
    by (simp add: demo_rule_entry_def percentage_at_def dget_def)
  ultimately have "sdk_first_rule (list_at demo_entry ''rules'') (expand_items demo_request) = Some (Some 100)"
    by (simp add: demo_entry_def local_entry_fields)
  moreover have "dget demo_entry ''active'' = PBool True" "dget demo_entry ''evaluation'' = PStr (str ''local'')"
    by (simp_all add: demo_entry_def local_entry_fields)
  ultimately have "evaluate_entry demo_entry (str ''my-flag'') (str ''user-123'') (Some demo_request) =
     Inr (Some \<lparr>local_enabled = True, local_reason = REASON_TARGETING_RULE\<rparr>)"
    by (simp add: evaluate_entry_def flat answer_in_rollout_def sdk_in_rollout_def)
  then show ?thesis
    using wf by (simp add: evaluate_locally_def demo_index_def num_eq_def RULESET_SCHEMA_def well_formed_str_def
        str_def is_surrogate_def)
qed

definition demo_db :: segment_db where
  "demo_db = \<lparr>segment_rows = [], member_rows = [], segments_readable = True, members_readable = True\<rparr>"

definition no_rules :: "pyval \<Rightarrow> targeting_rules res" where
  "no_rules v = Inl (TargetingRulesError [] [])"

text \<open>An ID-list segment and its one member.\<close>

definition demo_segment :: pstr where
  "demo_segment = str ''0f8fad5b-d9cb-469f-a165-70867728950e''"

definition demo_list_db :: segment_db where
  "demo_list_db = \<lparr>segment_rows = [\<lparr>segment_id = demo_segment, segment_kind = ID_LIST,
       segment_state = SegmentActive, segment_rules = PNone\<rparr>],
     member_rows = [(demo_segment, str ''user-123'')], segments_readable = True, members_readable = True\<rparr>"

lemma demo_segment_id: "is_segment_id (PStr demo_segment)"
  by (simp add: is_segment_id_def demo_segment_def str_def lower_hex_char_def)

lemma demo_segment_resolved:
  "resolve_segment_memberships demo_env no_rules demo_list_db (str ''user-123'') [] [demo_segment] =
     Inr \<lparr>members = [demo_segment], evaluated = [demo_segment], unavailable = []\<rparr>"
proof -
  have "storable_member_id (str ''user-123'')"
    by (simp add: storable_member_id_def unstorable_text_def MAX_MEMBER_ID_LENGTH_def str_def is_surrogate_def)
  then show ?thesis
    by (simp add: demo_segment_id resolve_segment_memberships_def wanted_ids_def malformed_ids_def
        demo_list_db_def found_rows_def row_outcome_def memberships_from_def ids_with_def
        id_list_hits_def Let_def)
qed

end
