(* ===== verification/Golden_Vectors.thy ===== *)
theory Golden_Vectors
  imports Hashing
begin

text \<open>
  The contract's published vector for \<^verbatim>\<open>user-123:my-flag\<close> (\<^verbatim>\<open>tests/sdk-contract/golden-vectors.json\<close>),
  computed in the kernel through the model of MD5. The theory is separate because the sixty-four
  steps take a while to check.
\<close>

text \<open>
  The contract's golden vector: the digest of \<^verbatim>\<open>user-123:my-flag\<close>. The padded block is computed
  first, so that the sixty-four steps run on numerals.
\<close>

lemma golden_block:
  "le_words (md5_pad (concat (map utf8_char (str ''user-123:my-flag'')))) = [1919251317, 858927405, 762932538, 1734437990, 128, 0, 0, 0,
     0, 0, 0, 0, 0, 0, 128, 0]"
proof -
  have "replicate 39 (0::nat) = [0, 0, 0, 0, 0, 0, 0, 0, 0, 0, 0, 0, 0, 0, 0, 0, 0, 0, 0, 0,
      0, 0, 0, 0, 0, 0, 0, 0, 0, 0, 0, 0, 0, 0, 0, 0, 0, 0, 0]"
    by (simp add: eval_nat_numeral)
  then show ?thesis
    by (simp add: str_def utf8_char_def md5_pad_def)
qed

lemma golden_digest: "md5_text (str ''user-123:my-flag'') = Inr [67, 188, 87, 177, 232, 29, 236, 113, 197, 36, 33, 34, 172, 5, 23, 15]"
proof -
  have "utf8_encode (str ''user-123:my-flag'') = Inr (concat (map utf8_char (str ''user-123:my-flag'')))"
    by (simp add: utf8_encode_def str_def is_surrogate_def)
  then show ?thesis
    by (simp add: md5_text_def md5_def golden_block md5_words_def md5_block_def md5_table1_def
      md5_table2_def md5_table3_def md5_table4_def md5_F_def md5_G_def md5_H_def md5_I_def
      rotate_left_def le_bytes_def)
qed

lemma golden_uint32: "md5_uint32 (str ''user-123:my-flag'') = Inr 2975317059"
  by (simp add: md5_uint32_def golden_digest)

lemma golden_int: "md5_int (str ''user-123:my-flag'') = Inr 90036206191850891503331877129915012879"
  by (simp add: md5_int_def golden_digest be_int_def)

lemma golden_seed: "seed_text (str ''user-123'') (str ''my-flag'') = str ''user-123:my-flag''"
  by (simp add: seed_text_def str_def)

lemma golden_hash_user: "hash_user (str ''user-123'') (str ''my-flag'') = Inr (Fin (2975317059 / 4294967296))"
  using hash_user_eq [of "str ''user-123''" "str ''my-flag''" 2975317059]
  by (simp add: golden_seed golden_uint32)

lemma golden_bucket: "bucket_of (str ''user-123'') (str ''my-flag'') = Inr 69"
  using bucket_of_eq [of "str ''user-123''" "str ''my-flag''" 2975317059]
  by (simp add: golden_seed golden_uint32)

lemma golden_flag_bucket: "flag_bucket (str ''user-123'') (str ''my-flag'') = Inr 79"
  by (simp add: flag_bucket_def golden_seed golden_int)

text \<open>A user held out under a salt: \<^verbatim>\<open>user-0\<close> under \<^verbatim>\<open>holdout:a\<close> falls in bucket 4.\<close>

lemma held_out_block:
  "le_words (md5_pad (concat (map utf8_char (str ''user-0:holdout:a'')))) = [1919251317, 1748643885,
     1868852335, 1631220853, 128, 0, 0, 0, 0, 0, 0, 0, 0, 0, 128, 0]"
proof -
  have "replicate 39 (0::nat) = [0, 0, 0, 0, 0, 0, 0, 0, 0, 0, 0, 0, 0, 0, 0, 0, 0, 0, 0, 0,
      0, 0, 0, 0, 0, 0, 0, 0, 0, 0, 0, 0, 0, 0, 0, 0, 0, 0, 0]"
    by (simp add: eval_nat_numeral)
  then show ?thesis
    by (simp add: str_def utf8_char_def md5_pad_def)
qed

lemma held_out_digest:
  "md5_text (str ''user-0:holdout:a'') =
     Inr [164, 197, 79, 229, 195, 110, 109, 124, 226, 243, 78, 103, 153, 52, 111, 33]"
proof -
  have "utf8_encode (str ''user-0:holdout:a'') = Inr (concat (map utf8_char (str ''user-0:holdout:a'')))"
    by (simp add: utf8_encode_def str_def is_surrogate_def)
  then show ?thesis
    by (simp add: md5_text_def md5_def held_out_block md5_words_def md5_block_def md5_table1_def
      md5_table2_def md5_table3_def md5_table4_def md5_F_def md5_G_def md5_H_def md5_I_def
      rotate_left_def le_bytes_def)
qed

lemma held_out_bucket: "holdout_bucket (str ''user-0'') (str ''holdout:a'') = Inr 4"
proof -
  have "seed_text (str ''user-0'') (str ''holdout:a'') = str ''user-0:holdout:a''"
    by (simp add: seed_text_def str_def)
  then show ?thesis
    by (simp add: holdout_bucket_def md5_uint32_def held_out_digest)
qed

end
