(* ===== verification/Mutual_Exclusion.thy ===== *)
theory Mutual_Exclusion
  imports Hashing "HOL-Library.List_Lexorder"
begin

text \<open>
  Experiments as assignment reads them (\<^verbatim>\<open>models/experiment.py\<close>, \<^verbatim>\<open>models/assignment.py\<close>) and mutual
  exclusion groups, \<^verbatim>\<open>services/mutual_exclusion_service.py\<close>: which one experiment of a group a user
  may enter. The tables are lists in the order their queries return the rows.
\<close>

section \<open>Tables\<close>

datatype experiment_status = ExpDraft | ExpActive | ExpPaused | ExpCompleted | ExpArchived

record variant =
  variant_id :: pstr
  is_control :: bool
  traffic_allocation :: int

record experiment_row =
  experiment_id :: pstr
  experiment_key :: "pstr option"
  experiment_status :: experiment_status
  exclusion_group_id :: "pstr option"
  experiment_rules :: pyval
  variants :: "variant list"

datatype group_status = GroupActive | GroupArchived

record exclusion_group =
  group_id :: pstr
  group_name :: pstr
  group_description :: "pstr option"
  group_status :: group_status
  group_traffic :: pyfloat

record assignment =
  assigned_user :: pstr
  assigned_experiment :: pstr
  assigned_variant :: pstr

definition get_experiment :: "experiment_row list \<Rightarrow> pstr \<Rightarrow> experiment_row option" where
  "get_experiment es eid = find (\<lambda>e. experiment_id e = eid) es"

definition get_group :: "exclusion_group list \<Rightarrow> pstr \<Rightarrow> exclusion_group option" where
  "get_group gs gid = find (\<lambda>g. group_id g = gid) gs"

section \<open>Groups\<close>

text \<open>
  The table's unique names and range check; a violation rolls the transaction back. The column
  \<^verbatim>\<open>owner_id\<close> and the timestamps are left out.
\<close>

datatype group_error = GroupIntegrityError | GroupUnknownStatus

definition traffic_in_range :: "exclusion_group \<Rightarrow> bool" where
  "traffic_in_range g = (fle (Fin 0) (group_traffic g) \<and> fle (group_traffic g) (Fin 1))"

definition check_groups :: "exclusion_group list \<Rightarrow> group_error + exclusion_group list" where
  "check_groups gs =
     (if distinct (map group_id gs) \<and> distinct (map group_name gs) \<and> list_all traffic_in_range gs
      then Inr gs else Inl GroupIntegrityError)"

definition create_group ::
  "pstr \<Rightarrow> pstr \<Rightarrow> pstr option \<Rightarrow> pyfloat \<Rightarrow> exclusion_group list \<Rightarrow>
     group_error + exclusion_group list" where
  "create_group new_id name description traffic gs =
     check_groups (gs @ [\<lparr>group_id = new_id, group_name = name, group_description = description,
       group_status = GroupActive, group_traffic = traffic\<rparr>])"

definition group_status_of :: "pstr \<Rightarrow> group_error + group_status" where
  "group_status_of s =
     (if s = str ''active'' then Inr GroupActive
      else if s = str ''archived'' then Inr GroupArchived else Inl GroupUnknownStatus)"

text \<open>\<^verbatim>\<open>update_group\<close>: \<open>Inr None\<close> is an unknown id.\<close>

definition update_group ::
  "pstr \<Rightarrow> pstr option \<Rightarrow> pstr option \<Rightarrow> pyfloat option \<Rightarrow> pstr option \<Rightarrow>
     exclusion_group list \<Rightarrow> group_error + exclusion_group list option" where
  "update_group gid name description traffic status gs =
     (case get_group gs gid of
        None \<Rightarrow> Inr None
      | Some _ \<Rightarrow>
          ebind (case status of None \<Rightarrow> Inr None | Some s \<Rightarrow> emap Some (group_status_of s)) (\<lambda>st.
          emap Some (check_groups (map (\<lambda>g.
            if group_id g = gid then
              g\<lparr>group_name := (case name of None \<Rightarrow> group_name g | Some n \<Rightarrow> n),
                group_description := (case description of None \<Rightarrow> group_description g | Some d \<Rightarrow> Some d),
                group_traffic := (case traffic of None \<Rightarrow> group_traffic g | Some v \<Rightarrow> v),
                group_status := (case st of None \<Rightarrow> group_status g | Some s \<Rightarrow> s)\<rparr>
            else g) gs))))"

definition archive_group ::
  "pstr \<Rightarrow> exclusion_group list \<Rightarrow> group_error + exclusion_group list option" where
  "archive_group gid gs = update_group gid None None None (Some (str ''archived'')) gs"

section \<open>Groups and their experiments\<close>

definition get_group_experiments :: "experiment_row list \<Rightarrow> pstr \<Rightarrow> experiment_row list" where
  "get_group_experiments es gid = filter (\<lambda>e. exclusion_group_id e = Some gid) es"

definition get_active_group_experiments :: "experiment_row list \<Rightarrow> pstr \<Rightarrow> experiment_row list" where
  "get_active_group_experiments es gid =
     filter (\<lambda>e. exclusion_group_id e = Some gid \<and> experiment_status e = ExpActive) es"

definition set_group_of :: "pstr \<Rightarrow> pstr option \<Rightarrow> experiment_row list \<Rightarrow> experiment_row list" where
  "set_group_of eid g es =
     map (\<lambda>e. if experiment_id e = eid then e\<lparr>exclusion_group_id := g\<rparr> else e) es"

definition add_experiment_to_group ::
  "exclusion_group list \<Rightarrow> pstr \<Rightarrow> pstr \<Rightarrow> experiment_row list \<Rightarrow> experiment_row list res" where
  "add_experiment_to_group gs gid eid es =
     (if get_group gs gid = None then Inl PyValueError
      else case get_experiment es eid of
        None \<Rightarrow> Inl PyValueError
      | Some e \<Rightarrow>
          (case exclusion_group_id e of
             Some g \<Rightarrow> if g = gid then Inr es else Inl PyValueError
           | None \<Rightarrow> Inr (set_group_of eid (Some gid) es)))"

definition remove_experiment_from_group ::
  "pstr \<Rightarrow> pstr \<Rightarrow> experiment_row list \<Rightarrow> experiment_row list res" where
  "remove_experiment_from_group gid eid es =
     (case get_experiment es eid of
        Some e \<Rightarrow>
          if exclusion_group_id e = Some gid then Inr (set_group_of eid None es) else Inl PyValueError
      | None \<Rightarrow> Inl PyValueError)"

section \<open>The selection\<close>

text \<open>
  \<^verbatim>\<open>select_experiment_for_user\<close>, in floats as the code computes: the user's hash, the allocation
  divided into one slot per active experiment in the order of their ids, and a running sum. The
  fallback for a hash that rounding leaves above the sum is the last row of the query, which is not
  sorted.
\<close>

definition slot_size :: "pyfloat \<Rightarrow> nat \<Rightarrow> pyfloat res" where
  "slot_size traffic n =
     (case float_of_int (int n) of
        None \<Rightarrow> Inl PyOverflowError
      | Some m \<Rightarrow> (case fdiv traffic m of None \<Rightarrow> Inl PyValueError | Some s \<Rightarrow> Inr s))"

definition select_slot :: "pyfloat \<Rightarrow> pyfloat \<Rightarrow> experiment_row list \<Rightarrow> pstr" where
  "select_slot hash_value slot active =
     (case cumulative_walk fadd flt hash_value (Fin 0)
         (map (\<lambda>e. (experiment_id e, slot)) (sort_key experiment_id active)) of
        Some eid \<Rightarrow> eid
      | None \<Rightarrow> experiment_id (last active))"

definition select_experiment_for_user ::
  "experiment_row list \<Rightarrow> exclusion_group list \<Rightarrow> pstr \<Rightarrow> pstr \<Rightarrow> pstr option res" where
  "select_experiment_for_user es gs user_id gid =
     (case get_group gs gid of
        None \<Rightarrow> Inr None
      | Some g \<Rightarrow>
          (let active = get_active_group_experiments es gid in
           if group_status g \<noteq> GroupActive \<or> active = [] then Inr None
           else ebind (normalized_hash user_id gid) (\<lambda>hash_value.
             if fle (group_traffic g) hash_value then Inr None
             else emap (\<lambda>slot. Some (select_slot hash_value slot active))
               (slot_size (group_traffic g) (length active)))))"

section \<open>Eligibility\<close>

definition live_status :: "experiment_status \<Rightarrow> bool" where
  "live_status s = (s \<noteq> ExpCompleted \<and> s \<noteq> ExpArchived)"

definition has_sibling_assignment ::
  "experiment_row list \<Rightarrow> assignment list \<Rightarrow> pstr \<Rightarrow> pstr \<Rightarrow> pstr \<Rightarrow> bool" where
  "has_sibling_assignment es asgs user_id gid eid =
     list_ex (\<lambda>a. assigned_user a = user_id \<and>
       list_ex (\<lambda>e. experiment_id e = assigned_experiment a \<and> exclusion_group_id e = Some gid \<and>
         experiment_id e \<noteq> eid \<and> live_status (experiment_status e)) es) asgs"

definition is_user_eligible_for_experiment ::
  "experiment_row list \<Rightarrow> exclusion_group list \<Rightarrow> assignment list \<Rightarrow> pstr \<Rightarrow> pstr \<Rightarrow> bool res" where
  "is_user_eligible_for_experiment es gs asgs user_id eid =
     (case Option.bind (get_experiment es eid) (\<lambda>e. Option.bind (exclusion_group_id e) (get_group gs)) of
        None \<Rightarrow> Inr True
      | Some g \<Rightarrow>
          if group_status g = GroupArchived then Inr True
          else emap (\<lambda>selected. selected = Some eid \<and>
              \<not> has_sibling_assignment es asgs user_id (group_id g) eid)
            (select_experiment_for_user es gs user_id (group_id g)))"

section \<open>Facts\<close>

lemma select_slot_in: "active \<noteq> [] \<Longrightarrow> select_slot h s active \<in> experiment_id ` set active"
  by (auto simp: select_slot_def dest!: cumulative_walk_in split: option.split)

text \<open>A user is selected for an active experiment of the group, and for one only.\<close>

lemma selected_is_active:
  assumes "select_experiment_for_user es gs u gid = Inr (Some eid)"
  shows "\<exists>e\<in>set es. experiment_id e = eid \<and> exclusion_group_id e = Some gid \<and> experiment_status e = ExpActive"
proof -
  obtain h s where "get_active_group_experiments es gid \<noteq> []"
    "eid = select_slot h s (get_active_group_experiments es gid)"
    using assms by (auto simp: select_experiment_for_user_def Let_def exc_rules split: option.splits if_splits)
  with select_slot_in [of "get_active_group_experiments es gid" h s] show ?thesis
    by (auto simp: get_active_group_experiments_def)
qed

lemma get_experimentE:
  assumes "get_experiment es eid = Some e"
  shows "e \<in> set es" and "experiment_id e = eid"
  using assms by (auto simp: get_experiment_def find_Some_iff)

lemma get_groupE:
  assumes "get_group gs gid = Some g"
  shows "g \<in> set gs" and "group_id g = gid"
  using assms by (auto simp: get_group_def find_Some_iff)

lemma eligible_no_sibling:
  assumes "is_user_eligible_for_experiment es gs asgs u eid = Inr True"
    and "get_experiment es eid = Some e" and "exclusion_group_id e = Some gid"
    and "get_group gs gid = Some g" and "group_status g = GroupActive"
  shows "\<not> has_sibling_assignment es asgs u gid eid"
    and "select_experiment_for_user es gs u gid = Inr (Some eid)"
  using assms get_groupE [OF assms(4)]
  by (auto simp: is_user_eligible_for_experiment_def exc_rules)

end
