(* ===== verification/Rules_Evaluation.thy ===== *)
theory Rules_Evaluation
  imports Adapter_Facts
begin

text \<open>
  Experiment targeting, \<^verbatim>\<open>backend/app/services/rules_evaluation_service.py\<close>: a second evaluator of
  the same rules, which experiments use where flags use the rules engine. It has two operators of
  its own (\<^verbatim>\<open>percentage_bucket\<close>, \<^verbatim>\<open>json_path\<close>) and its own loops; the theory ends with the lemmas
  that it agrees with the engine on every other rule. Metrics and the compiled-rule cache, which
  no answer reads, are left out.
\<close>

section \<open>The service's own operators\<close>

definition JSON_PATH_MAX_VALUE_LENGTH :: nat where
  "JSON_PATH_MAX_VALUE_LENGTH = 64 * 1024"

definition evaluate_percentage_bucket :: "'z pyenv_scheme \<Rightarrow> pyval \<Rightarrow> pyval \<Rightarrow> bool res" where
  "evaluate_percentage_bucket E user_id percentage =
     rescue [PyValueError, PyUnicodeError, PyTypeError] (Inr False)
       (ebind (md5_int (py_str E user_id)) (\<lambda>hash_value.
        emap (\<lambda>p. flt (Fin (of_int (int hash_value mod 100))) p) (py_float E percentage)))"

text \<open>The walk along the path; \<open>None\<close> where it leaves the value or raises what is caught.\<close>

definition json_step :: "'z pyenv_scheme \<Rightarrow> pyval \<Rightarrow> pstr \<Rightarrow> pyval option" where
  "json_step E current part = (case current of
       PDict d \<Rightarrow> map_of d part
     | PList xs \<Rightarrow>
         (if py_isdigit E part then
            (case int_text E part of
               None \<Rightarrow> None
             | Some n \<Rightarrow> if nat n < length xs then Some (xs ! nat n) else None)
          else None)
     | _ \<Rightarrow> None)"

fun json_walk :: "'z pyenv_scheme \<Rightarrow> pyval \<Rightarrow> pstr list \<Rightarrow> pyval option" where
  "json_walk E current [] = Some current"
| "json_walk E current (part # parts) =
     (case json_step E current part of None \<Rightarrow> None | Some v \<Rightarrow> json_walk E v parts)"

text \<open>
  The value parsed where it is text; \<^verbatim>\<open>json_path[2:].split\<close> exists for text only (a list has a
  slice but no \<^verbatim>\<open>split\<close>: \<^verbatim>\<open>AttributeError\<close>, which is not caught).
\<close>

definition json_document :: "'z adapter_env_scheme \<Rightarrow> pyval \<Rightarrow> pyval option res" where
  "json_document E json_data = (case json_data of
       PStr s \<Rightarrow>
         if JSON_PATH_MAX_VALUE_LENGTH < length s then Inr None
         else rescue [JSONDecodeError, PyValueError, PyRecursionError] (Inr None) (emap Some (json_loads E s))
     | v \<Rightarrow> Inr (Some v))"

definition evaluate_json_path :: "'z adapter_env_scheme \<Rightarrow> pyval \<Rightarrow> pyval \<Rightarrow> pyval \<Rightarrow> bool res" where
  "evaluate_json_path E json_data json_path expected =
     ebind (json_document E json_data) (\<lambda>document. case document of
        None \<Rightarrow> Inr False
      | Some doc \<Rightarrow>
          if \<not> is_dict doc \<and> \<not> is_list doc then Inr False
          else (case json_path of
              PStr path \<Rightarrow>
                Inr (case json_walk E doc (split_at 46 (drop 2 path)) of
                       None \<Rightarrow> False | Some v \<Rightarrow> py_eq v expected)
            | PList _ \<Rightarrow> Inl PyAttributeError
            | _ \<Rightarrow> Inr False))"

section \<open>Conditions, groups and rules\<close>

definition apply_operator_enhanced ::
  "'z adapter_env_scheme \<Rightarrow> operator_type \<Rightarrow> pyval \<Rightarrow> pyval \<Rightarrow> pyval \<Rightarrow> bool res" where
  "apply_operator_enhanced E op a e additional =
     (if op = PERCENTAGE_BUCKET then evaluate_percentage_bucket E a e
      else if op = JSON_PATH then evaluate_json_path E a e additional
      else apply_operator E op a e additional)"

definition evaluate_condition_enhanced ::
  "'z adapter_env_scheme \<Rightarrow> condition \<Rightarrow> user_context \<Rightarrow> bool res" where
  "evaluate_condition_enhanced E c ctx =
     ebind (segment_condition_holds c ctx) (\<lambda>segment_answer. case segment_answer of
       Some b \<Rightarrow> Inr b
     | None \<Rightarrow>
         ebind (if operator c = TIME_WINDOW then check_time_window E (cvalue c) else Inr ()) (\<lambda>_.
           case map_of ctx (attribute c) of
             None \<Rightarrow> Inr (operator c = IS_NULL)
           | Some actual \<Rightarrow>
               apply_operator_enhanced E (operator c) actual (cvalue c) (additional_value c)))"

definition combine_enhanced :: "logical_operator \<Rightarrow> bool list \<Rightarrow> bool" where
  "combine_enhanced op results =
     (if results = [] then True
      else case op of
        AND \<Rightarrow> list_all (\<lambda>b. b) results
      | OR \<Rightarrow> list_ex (\<lambda>b. b) results
      | NOT \<Rightarrow> if length results = 1 then \<not> hd results else \<not> list_all (\<lambda>b. b) results)"

fun evaluate_rule_group_enhanced :: "'z adapter_env_scheme \<Rightarrow> rule_group \<Rightarrow> user_context \<Rightarrow> bool res" where
  "evaluate_rule_group_enhanced E (RuleGroup op conditions groups) ctx =
     ebind (etraverse (\<lambda>c. evaluate_condition_enhanced E c ctx) conditions) (\<lambda>condition_results.
     ebind (etraverse (\<lambda>g. evaluate_rule_group_enhanced E g ctx) groups) (\<lambda>group_results.
       Inr (combine_enhanced op (condition_results @ group_results))))"

fun first_included_enhanced ::
  "'z adapter_env_scheme \<Rightarrow> targeting_rule list \<Rightarrow> user_context \<Rightarrow> targeting_rule option res" where
  "first_included_enhanced E [] ctx = Inr None"
| "first_included_enhanced E (r # rs) ctx =
     ebind (evaluate_rule_group_enhanced E (rule r) ctx) (\<lambda>matched.
       if matched then ebind (should_include_in_rollout E r ctx) (\<lambda>included.
         if included then Inr (Some r) else first_included_enhanced E rs ctx)
       else first_included_enhanced E rs ctx)"

definition evaluate_targeting_rules_enhanced ::
  "'z adapter_env_scheme \<Rightarrow> targeting_rules \<Rightarrow> user_context \<Rightarrow> targeting_rule option res" where
  "evaluate_targeting_rules_enhanced E rs ctx =
     (if rules rs = [] then Inr (default_rule rs)
      else ebind (first_included_enhanced E (sort_key priority (rules rs)) ctx) (\<lambda>found.
        Inr (case found of Some r \<Rightarrow> Some r | None \<Rightarrow> default_rule rs)))"

text \<open>
  \<^verbatim>\<open>evaluate_rules_with_validation\<close>: only an undecidable segment reaches the caller; any other
  exception is "no rule matched".
\<close>

definition evaluate_rules_with_validation ::
  "'z adapter_env_scheme \<Rightarrow> targeting_rules \<Rightarrow> user_context \<Rightarrow> targeting_rule option res" where
  "evaluate_rules_with_validation E rs ctx =
     (case evaluate_targeting_rules_enhanced E rs ctx of
        Inr m \<Rightarrow> Inr m
      | Inl (SegmentMembershipUnavailable ids) \<Rightarrow> Inl (SegmentMembershipUnavailable ids)
      | Inl _ \<Rightarrow> Inr None)"

section \<open>Agreement with the rules engine\<close>

definition shared_operator :: "operator_type \<Rightarrow> bool" where
  "shared_operator op = (op \<noteq> PERCENTAGE_BUCKET \<and> op \<noteq> JSON_PATH)"

lemma condition_enhanced_eq:
  "shared_operator (operator c) \<Longrightarrow> evaluate_condition_enhanced E c ctx = evaluate_condition E c ctx"
  by (simp add: evaluate_condition_enhanced_def evaluate_condition_def apply_operator_enhanced_def
      shared_operator_def cong: option.case_cong)

lemma combine_enhanced_eq: "combine_enhanced op bs = combine_results op bs"
  by (simp add: combine_enhanced_def combine_results_def)

lemma group_enhanced_eq:
  "list_all (\<lambda>c. shared_operator (operator c)) (all_conditions g) \<Longrightarrow>
     evaluate_rule_group_enhanced E g ctx = evaluate_rule_group E g ctx"
proof (induction g)
  case (RuleGroup op cs gs)
  have "etraverse (\<lambda>c. evaluate_condition_enhanced E c ctx) cs = etraverse (\<lambda>c. evaluate_condition E c ctx) cs"
    using RuleGroup.prems by (intro etraverse_cong [OF refl] condition_enhanced_eq) (auto simp: list_all_iff)
  moreover have "etraverse (\<lambda>g. evaluate_rule_group_enhanced E g ctx) gs =
      etraverse (\<lambda>g. evaluate_rule_group E g ctx) gs"
    using RuleGroup by (intro etraverse_cong [OF refl]) (auto simp: list_all_iff)
  ultimately show ?case by (simp add: combine_enhanced_eq)
qed

lemma first_included_enhanced_eq:
  "list_all (\<lambda>r. list_all (\<lambda>c. shared_operator (operator c)) (all_conditions (rule r))) rs \<Longrightarrow>
     first_included_enhanced E rs ctx = first_included E rs ctx"
  by (induction rs) (simp_all add: evaluate_rule_def group_enhanced_eq cong: if_cong)

lemma targeting_enhanced_eq:
  assumes "\<forall>r\<in>set (rules rs). \<forall>c\<in>set (all_conditions (rule r)). shared_operator (operator c)"
  shows "evaluate_targeting_rules_enhanced E rs ctx = evaluate_targeting_rules E rs ctx"
  unfolding evaluate_targeting_rules_enhanced_def evaluate_targeting_rules_def
  using assms by (subst first_included_enhanced_eq) (auto simp: list_all_iff)

end
