(* ===== verification/Machine.thy ===== *)
theory Machine
  imports Prelude
begin

text \<open>
  State machines: the states a step relation reaches, the invariants its steps keep and the
  relations its steps extend. A component with a life of its own (holdouts, rollout schedules,
  assignments) proves the laws of a locale for its steps once, and its properties are about every
  reachable state.
\<close>

inductive reach :: "('s \<Rightarrow> 's \<Rightarrow> bool) \<Rightarrow> 's \<Rightarrow> 's \<Rightarrow> bool" for step where
  reach_start [simp, intro]: "reach step s s"
| reach_next: "reach step s t \<Longrightarrow> step t u \<Longrightarrow> reach step s u"

lemma reach_step: "step s t \<Longrightarrow> reach step s t"
  by (blast intro: reach_next)

lemma reach_trans: "reach step s t \<Longrightarrow> reach step t u \<Longrightarrow> reach step s u"
  by (rotate_tac, induction rule: reach.induct) (blast intro: reach_next)+

lemma reach_mono:
  assumes "reach step s t" and "\<And>a b. step a b \<Longrightarrow> step' a b"
  shows "reach step' s t"
  using assms(1) by (induction) (blast intro: reach_next assms(2))+

text \<open>An invariant.\<close>

locale invariant_of =
  fixes step :: "'s \<Rightarrow> 's \<Rightarrow> bool" and inv :: "'s \<Rightarrow> bool"
  assumes step_keeps: "inv s \<Longrightarrow> step s t \<Longrightarrow> inv t"
begin

lemma reach_keeps: "reach step s t \<Longrightarrow> inv s \<Longrightarrow> inv t"
  by (induction rule: reach.induct) (blast intro: step_keeps)+

end

text \<open>A relation between an earlier and a later state of a run, such as "this never changes".\<close>

locale history_of = invariant_of +
  fixes rel :: "'a \<Rightarrow> 'a \<Rightarrow> bool"
  assumes rel_refl: "rel s s"
    and rel_trans: "rel s t \<Longrightarrow> rel t u \<Longrightarrow> rel s u"
    and step_extends: "inv s \<Longrightarrow> step s t \<Longrightarrow> rel s t"
begin

lemma reach_extends:
  assumes "reach step s t" and "inv s"
  shows "rel s t"
  using assms
proof (induction rule: reach.induct)
  case (reach_start s)
  then show ?case by (simp add: rel_refl)
next
  case (reach_next s t u)
  then have "inv t" using reach_keeps by blast
  with reach_next show ?case by (blast intro: rel_trans step_extends)
qed

end

end
