(* ===== verification/Holdout.thy ===== *)
theory Holdout
  imports Hashing Machine
begin

text \<open>
  The global holdout, \<^verbatim>\<open>backend/app/services/global_holdout_service.py\<close> over the table of
  \<^verbatim>\<open>models/global_holdout.py\<close>: who is kept out of every experiment, and the life of a holdout from
  its creation to its end. The table's constraints (unique ids and names, the percentage check, the
  one-active partial index) are part of the model, because the service relies on them. Reads and
  writes are separate: a transaction plans its writes on the rows its queries returned (\<open>seen\<close>) and
  the database applies them to the rows of that moment, so a step may act on stale rows. The
  columns \<^verbatim>\<open>owner_id\<close>, \<^verbatim>\<open>created_at\<close>, \<^verbatim>\<open>updated_at\<close> and the list the route audits are left out.
\<close>

section \<open>The table\<close>

record holdout =
  ho_id :: pstr
  ho_name :: pstr
  ho_description :: "pstr option"
  ho_percentage :: int
  ho_active :: bool
  ho_activated_at :: "int option"
  ho_deactivated_at :: "int option"
  ho_salt :: pstr

datatype holdout_error =
    LegacySaltRefused | HoldoutPercentageLocked | HoldoutEnded | HoldoutActivationConflict
  | HoldoutIntegrityError | HoldoutStaleData

definition LEGACY_HOLDOUT_SALT :: pstr where
  "LEGACY_HOLDOUT_SALT = str ''global_holdout_v1''"

text \<open>\<^verbatim>\<open>new_holdout_salt\<close>: the token is random, so it is an argument.\<close>

definition new_holdout_salt :: "pstr \<Rightarrow> pstr" where
  "new_holdout_salt token = str ''holdout:'' @ token"

definition is_measurable :: "holdout \<Rightarrow> bool" where
  "is_measurable h = (ho_salt h \<noteq> LEGACY_HOLDOUT_SALT \<and> ho_activated_at h \<noteq> None)"

text \<open>
  What the database checks after every statement; only a violation of the one-active index is
  turned into \<^verbatim>\<open>HoldoutActivationConflict\<close>.
\<close>

definition check_table :: "holdout list \<Rightarrow> holdout_error + holdout list" where
  "check_table t =
     (if \<not> distinct (map ho_id t) \<or> \<not> distinct (map ho_name t) \<or>
         \<not> list_all (\<lambda>h. 1 \<le> ho_percentage h \<and> ho_percentage h \<le> 20) t
      then Inl HoldoutIntegrityError
      else if 1 < length (filter ho_active t) then Inl HoldoutActivationConflict
      else Inr t)"

text \<open>A statement: the row of an id, and the columns it sets.\<close>

type_synonym holdout_write = "pstr \<times> (holdout \<Rightarrow> holdout)"

definition run_write :: "holdout_write \<Rightarrow> holdout list \<Rightarrow> holdout_error + holdout list" where
  "run_write w t =
     (if fst w \<notin> ho_id ` set t then Inl HoldoutStaleData
      else check_table (map (\<lambda>h. if ho_id h = fst w then snd w h else h) t))"

fun run_writes :: "holdout_write list \<Rightarrow> holdout list \<Rightarrow> holdout_error + holdout list" where
  "run_writes [] t = Inr t"
| "run_writes (w # ws) t = ebind (run_write w t) (run_writes ws)"

section \<open>The service\<close>

definition has_been_active :: "holdout \<Rightarrow> bool" where
  "has_been_active h = (ho_active h \<or> ho_activated_at h \<noteq> None \<or> ho_deactivated_at h \<noteq> None)"

definition get_holdout :: "holdout list \<Rightarrow> pstr \<Rightarrow> holdout option" where
  "get_holdout seen hid = find (\<lambda>h. ho_id h = hid) seen"

definition get_active_holdout :: "holdout list \<Rightarrow> holdout option" where
  "get_active_holdout seen = find ho_active seen"

definition activation_writes :: "int \<Rightarrow> holdout list \<Rightarrow> holdout \<Rightarrow> holdout_write list" where
  "activation_writes now seen h =
     (if ho_active h then []
      else
        map (\<lambda>other. (ho_id other, \<lambda>r. r\<lparr>ho_active := False, ho_deactivated_at := Some now\<rparr>))
          (filter (\<lambda>other. ho_active other \<and> ho_id other \<noteq> ho_id h) seen) @
        [(ho_id h, \<lambda>r.
           (if ho_salt h \<noteq> LEGACY_HOLDOUT_SALT \<and> ho_activated_at h = None
            then r\<lparr>ho_active := True, ho_activated_at := Some now\<rparr>
            else r\<lparr>ho_active := True\<rparr>))])"

definition deactivation_writes :: "int \<Rightarrow> holdout \<Rightarrow> holdout_write list" where
  "deactivation_writes now h =
     (if \<not> ho_active h then []
      else [(ho_id h, \<lambda>r. r\<lparr>ho_active := False, ho_deactivated_at := Some now\<rparr>)])"

text \<open>\<^verbatim>\<open>if sent is not None: row.column = sent\<close>; a value equal to the one read is not written.\<close>

definition sent_column :: "'a option \<Rightarrow> 'a \<Rightarrow> ('a \<Rightarrow> 'r \<Rightarrow> 'r) \<Rightarrow> 'r \<Rightarrow> 'r" where
  "sent_column sent read_value set_column r =
     (case sent of None \<Rightarrow> r | Some v \<Rightarrow> if v = read_value then r else set_column v r)"

record holdout_update =
  new_name :: "pstr option"
  new_description :: "pstr option"
  new_percentage :: "int option"
  new_active :: "bool option"

definition field_write :: "holdout_update \<Rightarrow> holdout \<Rightarrow> holdout_write" where
  "field_write data h = (ho_id h,
     \<lambda>r. sent_column (new_percentage data) (ho_percentage h) (\<lambda>v r. r\<lparr>ho_percentage := v\<rparr>)
       (sent_column (map_option Some (new_description data)) (ho_description h)
          (\<lambda>v r. r\<lparr>ho_description := v\<rparr>)
       (sent_column (new_name data) (ho_name h) (\<lambda>v r. r\<lparr>ho_name := v\<rparr>) r)))"

definition update_writes ::
  "int \<Rightarrow> holdout_update \<Rightarrow> holdout list \<Rightarrow> holdout \<Rightarrow> holdout_error + holdout_write list" where
  "update_writes now data seen h =
     (if (\<exists>p\<in>set_option (new_percentage data). p \<noteq> ho_percentage h) \<and> has_been_active h
      then Inl HoldoutPercentageLocked
      else if new_active data = Some True \<and> \<not> ho_active h \<and> ho_deactivated_at h \<noteq> None
      then Inl HoldoutEnded
      else Inr (field_write data h #
        (case new_active data of
           Some True \<Rightarrow> activation_writes now seen h
         | Some False \<Rightarrow> deactivation_writes now h
         | None \<Rightarrow> [])))"

text \<open>
  \<^verbatim>\<open>update_holdout\<close>: \<open>seen\<close> is the table of the first query, \<open>seen'\<close> of the query for the other
  active holdouts, \<open>t\<close> the table the writes reach. An exception rolls the transaction back.
\<close>

definition update_holdout ::
  "int \<Rightarrow> holdout list \<Rightarrow> holdout list \<Rightarrow> pstr \<Rightarrow> holdout_update \<Rightarrow> holdout list \<Rightarrow>
     holdout_error + holdout list option" where
  "update_holdout now seen seen' hid data t =
     (case get_holdout seen hid of
        None \<Rightarrow> Inr None
      | Some h \<Rightarrow> ebind (update_writes now data seen' h) (\<lambda>ws. emap Some (run_writes ws t)))"

definition no_fields :: "bool \<Rightarrow> holdout_update" where
  "no_fields on = \<lparr>new_name = None, new_description = None, new_percentage = None, new_active = Some on\<rparr>"

definition activate_holdout where
  "activate_holdout now seen seen' hid t = update_holdout now seen seen' hid (no_fields True) t"

definition deactivate_holdout where
  "deactivate_holdout now seen seen' hid t = update_holdout now seen seen' hid (no_fields False) t"

record holdout_create =
  create_ho_name :: pstr
  create_ho_description :: "pstr option"
  create_ho_percentage :: int
  create_ho_active :: bool
  create_ho_salt :: "pstr option"

definition created_row :: "pstr \<Rightarrow> pstr \<Rightarrow> holdout_create \<Rightarrow> holdout" where
  "created_row new_id token data =
     \<lparr>ho_id = new_id, ho_name = create_ho_name data, ho_description = create_ho_description data,
      ho_percentage = create_ho_percentage data, ho_active = False, ho_activated_at = None,
      ho_deactivated_at = None,
      ho_salt = (case create_ho_salt data of None \<Rightarrow> new_holdout_salt token | Some s \<Rightarrow> s)\<rparr>"

definition create_holdout ::
  "int \<Rightarrow> pstr \<Rightarrow> pstr \<Rightarrow> holdout list \<Rightarrow> holdout_create \<Rightarrow> holdout list \<Rightarrow>
     holdout_error + holdout list" where
  "create_holdout now new_id token seen data t =
     (if create_ho_salt data = Some LEGACY_HOLDOUT_SALT then Inl LegacySaltRefused
      else
        (let h = created_row new_id token data in
         ebind (check_table (t @ [h])) (\<lambda>t'.
           if create_ho_active data then run_writes (activation_writes now seen h) t' else Inr t')))"

text \<open>\<^verbatim>\<open>is_user_in_holdout\<close>: in the holdout, its percentage, the user's bucket.\<close>

definition is_user_in_holdout :: "pstr \<Rightarrow> holdout option \<Rightarrow> (bool \<times> int \<times> int) res" where
  "is_user_in_holdout user_id active = (case active of
       None \<Rightarrow> Inr (False, 0, 0)
     | Some h \<Rightarrow> emap (\<lambda>bucket. (bucket < ho_percentage h, ho_percentage h, bucket))
         (holdout_bucket user_id (ho_salt h)))"

section \<open>Steps\<close>

text \<open>
  A racing step acts on rows read at any earlier moment, a serial step on the table it writes to.
\<close>

inductive racing_step :: "holdout list \<Rightarrow> holdout list \<Rightarrow> bool" where
  race_create: "create_holdout now new_id token seen data t = Inr t' \<Longrightarrow> racing_step t t'"
| race_update: "update_holdout now seen seen' hid data t = Inr (Some t') \<Longrightarrow> racing_step t t'"

inductive holdout_step :: "holdout list \<Rightarrow> holdout list \<Rightarrow> bool" where
  step_create: "create_holdout now new_id token t data t = Inr t' \<Longrightarrow> holdout_step t t'"
| step_update: "update_holdout now t t hid data t = Inr (Some t') \<Longrightarrow> holdout_step t t'"

lemma holdout_step_races: "holdout_step t t' \<Longrightarrow> racing_step t t'"
  by (erule holdout_step.cases) (auto intro: racing_step.intros)

section \<open>The constraints\<close>

definition n_active :: "holdout list \<Rightarrow> nat" where
  "n_active t = length (filter ho_active t)"

lemma check_table_Inr:
  "check_table t = Inr t' \<longleftrightarrow> t' = t \<and> distinct (map ho_id t) \<and> distinct (map ho_name t) \<and>
     list_all (\<lambda>h. 1 \<le> ho_percentage h \<and> ho_percentage h \<le> 20) t \<and> n_active t \<le> 1"
  by (auto simp: check_table_def n_active_def split: if_splits)

lemma check_table_conflict: "check_table t = Inl HoldoutActivationConflict \<Longrightarrow> 1 < n_active t"
  by (auto simp: check_table_def n_active_def split: if_splits)

definition constraints_hold :: "holdout list \<Rightarrow> bool" where
  "constraints_hold t = (check_table t = Inr t)"

lemma check_table_holds: "check_table t = Inr t' \<Longrightarrow> constraints_hold t'"
  by (auto simp: constraints_hold_def check_table_Inr)

lemma run_writes_holds: "run_writes ws t = Inr t' \<Longrightarrow> constraints_hold t \<Longrightarrow> constraints_hold t'"
  by (induction ws arbitrary: t)
    (auto simp: exc_rules run_write_def dest: check_table_holds split: if_splits)

lemma racing_step_holds: "constraints_hold t \<Longrightarrow> racing_step t t' \<Longrightarrow> constraints_hold t'"
  by (erule racing_step.cases)
    (auto simp: create_holdout_def update_holdout_def Let_def exc_rules
      dest: check_table_holds run_writes_holds split: if_splits option.splits)

interpretation racing: invariant_of racing_step constraints_hold
  by unfold_locales (rule racing_step_holds)

section \<open>The rows a transaction leaves\<close>

definition apply_writes :: "holdout_write list \<Rightarrow> holdout \<Rightarrow> holdout" where
  "apply_writes ws h = foldl (\<lambda>h w. if ho_id h = fst w then snd w h else h) h ws"

lemma apply_writes_simps [simp]:
  "apply_writes [] h = h"
  "apply_writes (w # ws) h = apply_writes ws (if ho_id h = fst w then snd w h else h)"
  by (simp_all add: apply_writes_def)

lemma apply_writes_append [simp]: "apply_writes (ws @ ws') h = apply_writes ws' (apply_writes ws h)"
  by (simp add: apply_writes_def)

lemma run_write_map:
  "run_write w t = Inr t' \<Longrightarrow> t' = map (\<lambda>h. if ho_id h = fst w then snd w h else h) t"
  by (auto simp: run_write_def check_table_Inr split: if_splits)

lemma run_writes_map: "run_writes ws t = Inr t' \<Longrightarrow> t' = map (apply_writes ws) t"
proof (induction ws arbitrary: t)
  case Nil
  then show ?case by (simp add: map_idI)
next
  case (Cons w ws)
  then obtain t1 where t1: "run_write w t = Inr t1" and t': "run_writes ws t1 = Inr t'"
    by (auto simp: exc_rules)
  show ?case
    unfolding Cons.IH [OF t'] run_write_map [OF t1] by simp
qed

lemma apply_deactivations:
  assumes "D = (\<lambda>r. r\<lparr>ho_active := False, ho_deactivated_at := Some now\<rparr>)"
  shows "apply_writes (map (\<lambda>other. (ho_id other, D)) others) r =
    (if ho_id r \<in> ho_id ` set others then D r else r)"
  by (induction others arbitrary: r) (auto simp: assms)

lemma active_ids:
  assumes "distinct (map ho_id t)" and "r \<in> set t"
  shows "ho_id r \<in> ho_id ` set (filter (\<lambda>other. ho_active other \<and> ho_id other \<noteq> i) t) \<longleftrightarrow>
    ho_active r \<and> ho_id r \<noteq> i"
  using assms by (auto simp: distinct_map inj_on_def)

text \<open>The row of a serial activation or deactivation.\<close>

definition row_activated :: "int \<Rightarrow> holdout \<Rightarrow> holdout \<Rightarrow> holdout" where
  "row_activated now h r =
     (if ho_active h then r
      else if ho_id r = ho_id h then
        (if ho_salt h \<noteq> LEGACY_HOLDOUT_SALT \<and> ho_activated_at h = None
         then r\<lparr>ho_active := True, ho_activated_at := Some now\<rparr> else r\<lparr>ho_active := True\<rparr>)
      else if ho_active r then r\<lparr>ho_active := False, ho_deactivated_at := Some now\<rparr>
      else r)"

lemma apply_activation:
  assumes "distinct (map ho_id t)" and "r \<in> set t" and "r' = r \<or> ho_id r' = ho_id h \<and> ho_id r = ho_id h"
  shows "apply_writes (activation_writes now t h) r' = row_activated now h r'"
proof -
  have "ho_id r' \<in> ho_id ` set (filter (\<lambda>other. ho_active other \<and> ho_id other \<noteq> ho_id h) t) \<longleftrightarrow>
      ho_active r' \<and> ho_id r' \<noteq> ho_id h"
    using active_ids [OF assms(1,2), of "ho_id h"] assms(3) by auto
  then show ?thesis
    by (simp add: activation_writes_def row_activated_def apply_deactivations [OF refl] del: set_filter)
qed

lemma get_holdoutE:
  assumes "get_holdout t hid = Some h"
  shows "h \<in> set t" and "ho_id h = hid"
  using assms by (auto simp: get_holdout_def find_Some_iff)

lemma field_write_id [simp]: "fst (field_write data h) = ho_id h"
  by (simp add: field_write_def)

lemma field_write_keeps [simp]:
  "ho_id (snd (field_write data h) r) = ho_id r"
  "ho_active (snd (field_write data h) r) = ho_active r"
  "ho_salt (snd (field_write data h) r) = ho_salt r"
  "ho_activated_at (snd (field_write data h) r) = ho_activated_at r"
  "ho_deactivated_at (snd (field_write data h) r) = ho_deactivated_at r"
  by (simp_all add: field_write_def sent_column_def split: option.split)

lemma field_write_percentage:
  "ho_percentage (snd (field_write data h) r) =
     (case new_percentage data of None \<Rightarrow> ho_percentage r
      | Some p \<Rightarrow> if p = ho_percentage h then ho_percentage r else p)"
  by (simp add: field_write_def sent_column_def split: option.split)

text \<open>A serial update, row by row.\<close>

definition row_updated :: "int \<Rightarrow> holdout_update \<Rightarrow> holdout \<Rightarrow> holdout \<Rightarrow> holdout" where
  "row_updated now data h r =
     (let r1 = (if ho_id r = ho_id h then snd (field_write data h) r else r) in
      case new_active data of
        Some True \<Rightarrow> row_activated now h r1
      | Some False \<Rightarrow>
          if ho_active h \<and> ho_id r = ho_id h
          then r1\<lparr>ho_active := False, ho_deactivated_at := Some now\<rparr> else r1
      | None \<Rightarrow> r1)"

lemma update_holdout_rows:
  assumes "update_holdout now t t hid data t = Inr (Some t')" and "distinct (map ho_id t)"
  obtains h where "h \<in> set t" "t' = map (row_updated now data h) t"
    "ho_id h = hid"
    "has_been_active h \<Longrightarrow> \<forall>p\<in>set_option (new_percentage data). p = ho_percentage h"
    "new_active data = Some True \<Longrightarrow> \<not> ho_active h \<Longrightarrow> ho_deactivated_at h = None"
proof -
  from assms(1) obtain h ws where h: "get_holdout t hid = Some h"
    and ws: "update_writes now data t h = Inr ws" and t': "run_writes ws t = Inr t'"
    by (auto simp: update_holdout_def exc_rules split: option.splits)
  have "apply_writes ws r = row_updated now data h r" if r: "r \<in> set t" for r
  proof -
    let ?r1 = "if ho_id r = ho_id h then snd (field_write data h) r else r"
    have "apply_writes (activation_writes now t h) ?r1 = row_activated now h ?r1"
      by (rule apply_activation [OF assms(2) r]) auto
    then show ?thesis
      using ws by (auto simp: update_writes_def row_updated_def deactivation_writes_def
          split: if_splits option.splits bool.splits)
  qed
  then have "t' = map (row_updated now data h) t"
    using run_writes_map [OF t'] by simp
  with that [of h] get_holdoutE [OF h] ws show ?thesis
    by (auto simp: update_writes_def split: if_splits)
qed

end
