(* ===== verification/Assignment.thy ===== *)
theory Assignment
  imports Mutual_Exclusion Rules_Evaluation Segment_Membership Holdout
begin

text \<open>
  The assignment of users to experiment variants, \<^verbatim>\<open>backend/app/services/assignment_service.py\<close>: the
  eligibility gate for new users (global holdout, mutual exclusion, targeting), the choice of a
  variant, the sticky row. As for holdouts, a request reads one state (\<open>seen\<close>) and writes another,
  so a concurrent first assignment is part of the model. Exposure events, the details of an answer
  other than variant, flag and reason are left out.
\<close>

section \<open>State\<close>

record app_db =
  experiments :: "experiment_row list"
  groups :: "exclusion_group list"
  assignments :: "assignment list"
  holdouts :: "holdout list"
  population :: "(pstr \<times> pstr \<times> bool) list"
  segments :: segment_db

datatype assign_reason = ReasonAssigned | ReasonHoldout | ReasonMutualExclusion | ReasonTargeting

record assign_answer =
  answer_variant :: pstr
  answer_assigned :: bool
  answer_reason :: assign_reason

section \<open>Targeting\<close>

text \<open>
  \<^verbatim>\<open>_coerce_targeting_rules\<close>: \<open>Inr None\<close> is "no rules", for which every user is eligible.
\<close>

definition coerce_dict :: "'z adapter_env_scheme \<Rightarrow> pyval \<Rightarrow> targeting_rules option res" where
  "coerce_dict E raw = (case raw of
       PDict d \<Rightarrow>
         (if is_dashboard_rules_shape d then normalise_targeting_rules E raw
          else emap Some (model_validate E raw))
     | PList _ \<Rightarrow> Inr None
     | _ \<Rightarrow> Inl PyAttributeError)"

definition coerce_targeting_rules :: "'z adapter_env_scheme \<Rightarrow> pyval \<Rightarrow> targeting_rules option res" where
  "coerce_targeting_rules E raw =
     ebind (case raw of
              PStr s \<Rightarrow> ebind (json_loads E s) (coerce_dict E)
            | v \<Rightarrow> coerce_dict E v)
       (\<lambda>native. Inr (case native of
          None \<Rightarrow> None
        | Some rs \<Rightarrow> if rules rs = [] \<and> default_rule rs = None then None else Some rs))"

definition build_targeting_context :: "pstr \<Rightarrow> (pstr \<times> pyval) list \<Rightarrow> user_context" where
  "build_targeting_context user_id ctx = expand_items (setdefault (str ''user_id'') (PStr user_id) ctx)"

definition evaluate_experiment_rules ::
  "'z adapter_env_scheme \<Rightarrow> (pyval \<Rightarrow> targeting_rules res) \<Rightarrow> segment_db \<Rightarrow> pyval \<Rightarrow> pstr \<Rightarrow>
     user_context \<Rightarrow> bool res" where
  "evaluate_experiment_rules E validate db raw user_id ctx =
     ebind (coerce_targeting_rules E raw) (\<lambda>native. case native of
       None \<Rightarrow> Inr True
     | Some rs \<Rightarrow>
         (let ids = segment_ids_in rs in
          ebind (if ids = [] then Inr None
                 else ebind (resolve_segment_memberships E validate db user_id ctx ids) (\<lambda>ms.
                   if undecided ms ids \<noteq> [] then Inl (SegmentMembershipUnavailable (undecided ms ids))
                   else Inr (Some (members ms))))
            (\<lambda>m. emap (\<lambda>matched. matched \<noteq> None)
               (evaluate_rules_with_validation E rs (with_memberships ctx m)))))"

text \<open>\<^verbatim>\<open>_evaluate_experiment_targeting\<close>: any exception is "not eligible".\<close>

definition experiment_targeting ::
  "'z adapter_env_scheme \<Rightarrow> (pyval \<Rightarrow> targeting_rules res) \<Rightarrow> segment_db \<Rightarrow> pyval \<Rightarrow> pstr \<Rightarrow>
     user_context \<Rightarrow> bool" where
  "experiment_targeting E validate db raw user_id ctx =
     (\<not> truthy raw \<or> rescue_all False (evaluate_experiment_rules E validate db raw user_id ctx))"

section \<open>Eligibility\<close>

definition check_eligibility ::
  "'z adapter_env_scheme \<Rightarrow> (pyval \<Rightarrow> targeting_rules res) \<Rightarrow> app_db \<Rightarrow> pstr \<Rightarrow> experiment_row \<Rightarrow>
     (pstr \<times> pyval) list \<Rightarrow> bool \<Rightarrow> assign_reason res" where
  "check_eligibility E validate db user_id e ctx in_holdout =
     (if in_holdout then Inr ReasonHoldout
      else ebind (if exclusion_group_id e = None then Inr True
                  else is_user_eligible_for_experiment (experiments db) (groups db) (assignments db)
                         user_id (experiment_id e)) (\<lambda>free.
        Inr (if \<not> free then ReasonMutualExclusion
             else if truthy (experiment_rules e) \<and>
               \<not> experiment_targeting E validate (segments db) (experiment_rules e) user_id
                   (build_targeting_context user_id ctx)
             then ReasonTargeting
             else ReasonAssigned)))"

section \<open>The variant\<close>

text \<open>\<^verbatim>\<open>_hash_user_to_variant\<close>; an empty key is falsy, so the id is used.\<close>

definition assignment_namespace :: "experiment_row \<Rightarrow> pstr" where
  "assignment_namespace e =
     (case experiment_key e of None \<Rightarrow> experiment_id e
      | Some k \<Rightarrow> if k = [] then experiment_id e else k)"

definition hash_user_to_variant :: "pstr \<Rightarrow> experiment_row \<Rightarrow> pstr res" where
  "hash_user_to_variant user_id e =
     (if variants e = [] then Inl PyValueError
      else emap (\<lambda>bucket. walk_or_last (+) (<) bucket 0
            (map (\<lambda>v. (variant_id v, traffic_allocation v)) (variants e)))
        (bucket_of user_id (assignment_namespace e)))"

definition control_variant :: "experiment_row \<Rightarrow> variant res" where
  "control_variant e = (case variants e of
       [] \<Rightarrow> Inl PyValueError
     | v # _ \<Rightarrow> Inr (case find is_control (variants e) of None \<Rightarrow> v | Some c \<Rightarrow> c))"

text \<open>An empty override is falsy, and so no override.\<close>

definition choose_variant :: "pstr \<Rightarrow> experiment_row \<Rightarrow> pstr option \<Rightarrow> pstr res" where
  "choose_variant user_id e override =
     (if override = None \<or> override = Some [] then hash_user_to_variant user_id e
      else if the override \<in> variant_id ` set (variants e) then Inr (the override)
      else Inl PyValueError)"

section \<open>The row\<close>

definition stored_assignment :: "assignment list \<Rightarrow> pstr \<Rightarrow> pstr \<Rightarrow> assignment option" where
  "stored_assignment asgs user_id eid =
     find (\<lambda>a. assigned_user a = user_id \<and> assigned_experiment a = eid) asgs"

definition sticky_answer :: "assignment \<Rightarrow> assign_answer" where
  "sticky_answer a =
     \<lparr>answer_variant = assigned_variant a, answer_assigned = True, answer_reason = ReasonAssigned\<rparr>"

text \<open>\<^verbatim>\<open>INSERT ... ON CONFLICT DO NOTHING\<close> on \<^verbatim>\<open>(holdout_id, user_id)\<close>, for a measurable holdout.\<close>

definition record_holdout_population :: "holdout option \<Rightarrow> pstr \<Rightarrow> bool \<Rightarrow> app_db \<Rightarrow> app_db" where
  "record_holdout_population active user_id in_holdout db = (case active of
       None \<Rightarrow> db
     | Some h \<Rightarrow>
         if \<not> is_measurable h then db
         else if (\<exists>(hid, uid, _)\<in>set (population db). hid = ho_id h \<and> uid = user_id) then db
         else db\<lparr>population := population db @ [(ho_id h, user_id, in_holdout)]\<rparr>)"

text \<open>
  The insertion: the unique index on \<^verbatim>\<open>(experiment_id, user_id)\<close> refuses a second row, and then the
  stored one is the answer.
\<close>

definition insert_assignment :: "pstr \<Rightarrow> pstr \<Rightarrow> pstr \<Rightarrow> app_db \<Rightarrow> assign_answer \<times> app_db" where
  "insert_assignment user_id eid vid db =
     (case stored_assignment (assignments db) user_id eid of
        Some a \<Rightarrow> (sticky_answer a, db)
      | None \<Rightarrow>
          (let a = \<lparr>assigned_user = user_id, assigned_experiment = eid, assigned_variant = vid\<rparr> in
           (sticky_answer a, db\<lparr>assignments := assignments db @ [a]\<rparr>)))"

definition assign_user ::
  "'z adapter_env_scheme \<Rightarrow> (pyval \<Rightarrow> targeting_rules res) \<Rightarrow> app_db \<Rightarrow> pstr \<Rightarrow> pstr \<Rightarrow> pstr option \<Rightarrow>
     (pstr \<times> pyval) list \<Rightarrow> app_db \<Rightarrow> (assign_answer \<times> app_db) res" where
  "assign_user E validate seen user_id eid override ctx db =
     (case get_experiment (experiments seen) eid of
        None \<Rightarrow> Inl PyValueError
      | Some e \<Rightarrow>
          if experiment_status e \<noteq> ExpActive then Inl PyValueError
          else case stored_assignment (assignments seen) user_id eid of
            Some a \<Rightarrow> Inr (sticky_answer a, db)
          | None \<Rightarrow>
              (let active = get_active_holdout (holdouts seen) in
               ebind (is_user_in_holdout user_id active) (\<lambda>(in_holdout, _, _).
               ebind (check_eligibility E validate seen user_id e ctx in_holdout) (\<lambda>reason.
                 if reason \<noteq> ReasonAssigned then
                   emap (\<lambda>c. (\<lparr>answer_variant = variant_id c, answer_assigned = False, answer_reason = reason\<rparr>,
                       record_holdout_population active user_id in_holdout db)) (control_variant e)
                 else
                   emap (\<lambda>vid. insert_assignment user_id eid vid
                       (record_holdout_population active user_id in_holdout db))
                     (choose_variant user_id e override)))))"

text \<open>
  \<^verbatim>\<open>assign_user_with_targeting\<close>: targeting only, on the context as it is sent; neither the holdout nor
  the mutual exclusion group is asked. The unique index refuses a row stored meanwhile.
\<close>

definition assign_user_with_targeting ::
  "'z adapter_env_scheme \<Rightarrow> (pyval \<Rightarrow> targeting_rules res) \<Rightarrow> app_db \<Rightarrow> pstr \<Rightarrow> pstr \<Rightarrow>
     (pstr \<times> pyval) list \<Rightarrow> app_db \<Rightarrow> (assignment option \<times> app_db) res" where
  "assign_user_with_targeting E validate seen user_id eid ctx db =
     (case get_experiment (experiments seen) eid of
        None \<Rightarrow> Inl PyValueError
      | Some e \<Rightarrow>
          if experiment_status e \<noteq> ExpActive then Inl PyValueError
          else case stored_assignment (assignments seen) user_id eid of
            Some a \<Rightarrow> Inr (Some a, db)
          | None \<Rightarrow>
              if \<not> experiment_targeting E validate (segments seen) (experiment_rules e) user_id
                (setdefault (str ''user_id'') (PStr user_id) ctx) then Inr (None, db)
              else ebind (hash_user_to_variant user_id e) (\<lambda>vid.
                if stored_assignment (assignments db) user_id eid \<noteq> None then Inl IntegrityError
                else (let a = \<lparr>assigned_user = user_id, assigned_experiment = eid, assigned_variant = vid\<rparr> in
                  Inr (Some a, db\<lparr>assignments := assignments db @ [a]\<rparr>))))"

text \<open>\<^verbatim>\<open>reassign_user\<close> and \<^verbatim>\<open>delete_assignments_by_experiment\<close>\<close>

definition reassign_user :: "pstr \<Rightarrow> pstr \<Rightarrow> pstr option \<Rightarrow> app_db \<Rightarrow> app_db res" where
  "reassign_user user_id eid vid db =
     (case get_experiment (experiments db) eid of
        None \<Rightarrow> Inl PyValueError
      | Some e \<Rightarrow>
          emap (\<lambda>v.
            (if stored_assignment (assignments db) user_id eid = None then
               db\<lparr>assignments := assignments db @
                 [\<lparr>assigned_user = user_id, assigned_experiment = eid, assigned_variant = v\<rparr>]\<rparr>
             else
               db\<lparr>assignments := map (\<lambda>a.
                 if assigned_user a = user_id \<and> assigned_experiment a = eid
                 then a\<lparr>assigned_variant := v\<rparr> else a) (assignments db)\<rparr>))
            (choose_variant user_id e vid))"

definition delete_assignments_by_experiment :: "pstr \<Rightarrow> app_db \<Rightarrow> nat \<times> app_db" where
  "delete_assignments_by_experiment eid db =
     (length (filter (\<lambda>a. assigned_experiment a = eid) (assignments db)),
      db\<lparr>assignments := filter (\<lambda>a. assigned_experiment a \<noteq> eid) (assignments db)\<rparr>)"

end
