(* ===== verification/Holdout_Facts.thy ===== *)
theory Holdout_Facts
  imports Holdout
begin

text \<open>
  What the service promises of a holdout's life when its transactions do not overlap: what is
  fixed once a holdout has been active, that an ended one does not restart, that the one-active
  index never refuses, and that a user's membership does not change while a holdout is active.
\<close>

section \<open>The life of one holdout\<close>

definition kept :: "holdout \<Rightarrow> holdout \<Rightarrow> bool" where
  "kept r r' =
     (ho_id r' = ho_id r \<and> ho_salt r' = ho_salt r \<and>
      (has_been_active r \<longrightarrow> ho_percentage r' = ho_percentage r \<and> has_been_active r') \<and>
      (ho_activated_at r \<noteq> None \<longrightarrow> ho_activated_at r' = ho_activated_at r) \<and>
      (ho_deactivated_at r \<noteq> None \<longrightarrow>
         \<not> ho_active r' \<and> ho_deactivated_at r' = ho_deactivated_at r))"

definition table_kept :: "holdout list \<Rightarrow> holdout list \<Rightarrow> bool" where
  "table_kept t t' = (\<forall>r\<in>set t. \<exists>r'\<in>set t'. kept r r')"

definition not_ended :: "holdout \<Rightarrow> bool" where
  "not_ended r = (ho_active r \<longrightarrow> ho_deactivated_at r = None)"

definition table_ok :: "holdout list \<Rightarrow> bool" where
  "table_ok t = (constraints_hold t \<and> list_all not_ended t)"

lemma table_okD:
  assumes "table_ok t"
  shows "distinct (map ho_id t)" "n_active t \<le> 1" "r \<in> set t \<Longrightarrow> not_ended r"
  using assms by (auto simp: table_ok_def constraints_hold_def check_table_Inr list_all_iff)

lemma same_row: "table_ok t \<Longrightarrow> r \<in> set t \<Longrightarrow> h \<in> set t \<Longrightarrow> ho_id r = ho_id h \<Longrightarrow> r = h"
  using table_okD(1) [of t] by (simp add: distinct_map inj_on_def)

lemma kept_refl: "not_ended r \<Longrightarrow> kept r r"
  by (auto simp: kept_def not_ended_def)

lemma kept_trans: "kept a b \<Longrightarrow> kept b c \<Longrightarrow> kept a c"
  by (auto simp: kept_def)

lemma row_activated_other:
  assumes "not_ended r" and "ho_id r \<noteq> ho_id h"
  shows "kept r (row_activated now h r) \<and> not_ended (row_activated now h r)"
  using assms by (auto simp: row_activated_def kept_def not_ended_def has_been_active_def)

lemma field_write_kept:
  assumes "not_ended r"
    and "has_been_active r \<Longrightarrow> \<forall>p\<in>set_option (new_percentage data). p = ho_percentage r"
  shows "kept r (snd (field_write data r) r)"
  using assms
  by (auto simp: kept_def not_ended_def has_been_active_def field_write_percentage split: option.split)

text \<open>The row the request names: an activation is refused when it has ended.\<close>

lemma row_updated_own:
  assumes "not_ended r"
    and "has_been_active r \<Longrightarrow> \<forall>p\<in>set_option (new_percentage data). p = ho_percentage r"
    and "new_active data = Some True \<Longrightarrow> \<not> ho_active r \<Longrightarrow> ho_deactivated_at r = None"
  shows "kept r (row_updated now data r r) \<and> not_ended (row_updated now data r r)"
proof -
  let ?r1 = "snd (field_write data r) r"
  have k: "kept r ?r1" using assms(1,2) by (rule field_write_kept)
  have ne: "not_ended ?r1" using assms(1) by (simp add: not_ended_def)
  have "row_updated now data r r = ?r1"
    if "\<not> (new_active data = Some True \<and> \<not> ho_active r)" "\<not> (new_active data = Some False \<and> ho_active r)"
    using that by (auto simp: row_updated_def row_activated_def Let_def split: option.split bool.split)
  then consider "new_active data = Some True" "\<not> ho_active r" | "new_active data = Some False" "ho_active r"
    | "row_updated now data r r = ?r1"
    by blast
  then show ?thesis
  proof cases
    case 1
    then show ?thesis
      using k assms(3) by (auto simp: row_updated_def row_activated_def Let_def kept_def not_ended_def has_been_active_def)
  next
    case 2
    then show ?thesis
      using k assms(1) by (auto simp: row_updated_def Let_def kept_def not_ended_def has_been_active_def)
  next
    case 3
    then show ?thesis using k ne by simp
  qed
qed

lemma row_updated_other:
  assumes "not_ended r" and "ho_id r \<noteq> ho_id h"
  shows "kept r (row_updated now data h r) \<and> not_ended (row_updated now data h r)"
  using row_activated_other [OF assms] assms kept_refl [OF assms(1)]
  by (simp add: row_updated_def Let_def split: option.split bool.split)

section \<open>Serial steps\<close>

lemma update_step_ok:
  assumes "table_ok t" and "update_holdout now t t hid data t = Inr (Some t')"
  shows "table_kept t t' \<and> list_all not_ended t'"
proof (rule update_holdout_rows [OF assms(2) table_okD(1) [OF assms(1)]])
  fix h
  assume h: "h \<in> set t" "t' = map (row_updated now data h) t"
    "has_been_active h \<Longrightarrow> \<forall>p\<in>set_option (new_percentage data). p = ho_percentage h"
    "new_active data = Some True \<Longrightarrow> \<not> ho_active h \<Longrightarrow> ho_deactivated_at h = None"
  have "kept r (row_updated now data h r) \<and> not_ended (row_updated now data h r)" if r: "r \<in> set t" for r
  proof (cases "ho_id r = ho_id h")
    case True
    then have "r = h" using same_row [OF assms(1) r h(1)] by blast
    then show ?thesis using row_updated_own [OF table_okD(3) [OF assms(1) h(1)] h(3,4)] by blast
  next
    case False
    then show ?thesis using row_updated_other [OF table_okD(3) [OF assms(1) r]] by blast
  qed
  then show ?thesis
    by (auto simp: table_kept_def h(2) list_all_iff)
qed

lemma created_row_fresh [simp]:
  "ho_id (created_row i token data) = i" "\<not> ho_active (created_row i token data)"
  "ho_activated_at (created_row i token data) = None" "ho_deactivated_at (created_row i token data) = None"
  by (simp_all add: created_row_def)

lemma create_step_ok:
  assumes "table_ok t" and "create_holdout now i token t data t = Inr t'"
  shows "table_kept t t' \<and> list_all not_ended t'"
proof -
  let ?h = "created_row i token data"
  have t1: "check_table (t @ [?h]) = Inr (t @ [?h])"
    using assms(2) by (auto simp: create_holdout_def Let_def exc_rules check_table_Inr split: if_splits)
  then have fresh: "i \<notin> ho_id ` set t" by (auto simp: check_table_Inr)
  have new: "not_ended ?h" by (simp add: not_ended_def)
  show ?thesis
  proof (cases "create_ho_active data")
    case False
    with assms(2) t1 have "t' = t @ [?h]"
      by (auto simp: create_holdout_def Let_def split: if_splits)
    then show ?thesis
      using new table_okD(3) [OF assms(1)] kept_refl by (auto simp: table_kept_def list_all_iff)
  next
    case True
    with assms(2) t1 have "run_writes (activation_writes now t ?h) (t @ [?h]) = Inr t'"
      by (auto simp: create_holdout_def Let_def split: if_splits)
    then have t': "t' = map (apply_writes (activation_writes now t ?h)) (t @ [?h])"
      by (rule run_writes_map)
    have others: "filter (\<lambda>other. ho_active other \<and> ho_id other \<noteq> ho_id ?h) t =
        filter (\<lambda>other. ho_active other \<and> ho_id other \<noteq> ho_id ?h) (t @ [?h])"
      by simp
    have row: "apply_writes (activation_writes now t ?h) r = row_activated now ?h r"
      if "r \<in> set (t @ [?h])" for r
    proof -
      have "activation_writes now t ?h = activation_writes now (t @ [?h]) ?h"
        unfolding activation_writes_def others ..
      with apply_activation [of "t @ [?h]" r r ?h now] that t1 show ?thesis
        by (simp add: check_table_Inr)
    qed
    have "kept r (row_activated now ?h r) \<and> not_ended (row_activated now ?h r)" if "r \<in> set t" for r
      using that fresh table_okD(3) [OF assms(1) that] by (intro row_activated_other) auto
    moreover have "not_ended (row_activated now ?h ?h)"
      by (simp add: row_activated_def not_ended_def)
    ultimately show ?thesis
      using row by (auto simp: t' table_kept_def list_all_iff)
  qed
qed

lemma holdout_step_ok:
  assumes "table_ok t" and "holdout_step t t'"
  shows "table_ok t' \<and> table_kept t t'"
proof -
  have "constraints_hold t'"
    using assms racing_step_holds holdout_step_races by (auto simp: table_ok_def)
  moreover have "table_kept t t' \<and> list_all not_ended t'"
    using assms(2)
  proof cases
    case step_create
    then show ?thesis using create_step_ok [OF assms(1)] by blast
  next
    case step_update
    then show ?thesis using update_step_ok [OF assms(1)] by blast
  qed
  ultimately show ?thesis by (simp add: table_ok_def)
qed

text \<open>The life of the table, over any number of steps.\<close>

definition table_history :: "holdout list \<Rightarrow> holdout list \<Rightarrow> bool" where
  "table_history t t' = (\<forall>r\<in>set t. not_ended r \<longrightarrow> (\<exists>r'\<in>set t'. kept r r' \<and> not_ended r'))"

lemma holdout_step_history: "table_ok t \<Longrightarrow> holdout_step t t' \<Longrightarrow> table_history t t'"
  using holdout_step_ok [of t t'] table_okD(3) [of t'] by (fastforce simp: table_history_def table_kept_def)

lemma table_history_refl: "table_history t t"
  by (auto simp: table_history_def intro: kept_refl)

lemma table_history_trans: "table_history t u \<Longrightarrow> table_history u v \<Longrightarrow> table_history t v"
  unfolding table_history_def by (meson kept_trans)

interpretation holdouts: history_of holdout_step table_ok table_history
  by unfold_locales
    (blast intro: table_history_refl table_history_trans holdout_step_history dest: holdout_step_ok)+

lemma holdout_row_later:
  assumes "reach holdout_step t t'" and "table_ok t" and "r \<in> set t"
  obtains r' where "r' \<in> set t'" "kept r r'"
  using holdouts.reach_extends [OF assms(1,2)] table_okD(3) [OF assms(2,3)] assms(3)
  by (auto simp: table_history_def)

lemma holdout_row_later_same:
  assumes "reach holdout_step t t'" and "table_ok t" and "r \<in> set t" and "r' \<in> set t'"
    and "ho_id r' = ho_id r"
  shows "kept r r'"
proof -
  obtain x where x: "x \<in> set t'" "kept r x" using holdout_row_later [OF assms(1-3)] by blast
  have "table_ok t'" using holdouts.reach_keeps [OF assms(1,2)] .
  then have "x = r'" using same_row x assms(4,5) by (auto simp: kept_def)
  with x(2) show ?thesis by simp
qed

lemma active_holdoutE:
  assumes "get_active_holdout t = Some h"
  shows "h \<in> set t" "ho_active h"
  using assms by (auto simp: get_active_holdout_def find_Some_iff)

lemma same_membership:
  assumes "reach holdout_step t t'" and "table_ok t"
    and "get_active_holdout t = Some h" and "get_active_holdout t' = Some h'" and "ho_id h' = ho_id h"
  shows "is_user_in_holdout u (Some h') = is_user_in_holdout u (Some h)"
  using holdout_row_later_same [OF assms(1,2) active_holdoutE(1) [OF assms(3)]
      active_holdoutE(1) [OF assms(4)] assms(5)] active_holdoutE(2) [OF assms(3)]
  by (simp add: is_user_in_holdout_def kept_def has_been_active_def)

section \<open>The one-active index\<close>

definition never_activates :: "holdout_write \<Rightarrow> bool" where
  "never_activates w = (\<forall>r. ho_active (snd w r) \<longrightarrow> ho_active r)"

lemma n_active_map_le:
  "(\<And>r. r \<in> set t \<Longrightarrow> ho_active (f r) \<Longrightarrow> ho_active r) \<Longrightarrow> n_active (map f t) \<le> n_active t"
  by (induction t) (auto simp: n_active_def le_Suc_eq)

lemma run_write_no_conflict:
  assumes "never_activates w" and "n_active t \<le> 1"
  shows "run_write w t \<noteq> Inl HoldoutActivationConflict"
proof
  assume "run_write w t = Inl HoldoutActivationConflict"
  then have "1 < n_active (map (\<lambda>h. if ho_id h = fst w then snd w h else h) t)"
    by (auto simp: run_write_def dest: check_table_conflict split: if_splits)
  moreover have "n_active (map (\<lambda>h. if ho_id h = fst w then snd w h else h) t) \<le> n_active t"
    using assms(1) by (intro n_active_map_le) (auto simp: never_activates_def split: if_splits)
  ultimately show False using assms(2) by simp
qed

lemma run_writes_no_conflict:
  assumes "list_all never_activates ws" and "n_active t \<le> 1"
  shows "run_writes ws t \<noteq> Inl HoldoutActivationConflict"
  using assms
proof (induction ws arbitrary: t)
  case (Cons w ws)
  have "n_active t1 \<le> 1" if "run_write w t = Inr t1" for t1
    using that by (auto simp: run_write_def check_table_Inr split: if_splits)
  then show ?case
    using Cons run_write_no_conflict [of w t] by (auto simp: exc_rules)
qed simp

lemma run_writes_append: "run_writes (ws @ ws') t = ebind (run_writes ws t) (run_writes ws')"
  by (induction ws arbitrary: t) (simp_all add: ebind_def split: sum.split)

lemma n_active_one_id:
  assumes "distinct (map ho_id t)" and "\<And>r. r \<in> set t \<Longrightarrow> ho_active r \<Longrightarrow> ho_id r = i"
  shows "n_active t \<le> 1"
  using assms
proof (induction t)
  case (Cons r t)
  have "filter ho_active t = []" if "ho_active r"
    using Cons.prems that by (fastforce simp: filter_empty_conv)
  then show ?case
    using Cons by (auto simp: n_active_def)
qed (simp add: n_active_def)

text \<open>An activation that saw every active row deactivates them all before it activates its own.\<close>

lemma activation_no_conflict:
  assumes "distinct (map ho_id t)" and "n_active t \<le> 1"
    and "\<And>r. r \<in> set t \<Longrightarrow> ho_active r \<Longrightarrow> \<not> ho_active h \<Longrightarrow>
      ho_id r \<in> ho_id ` set (filter (\<lambda>other. ho_active other \<and> ho_id other \<noteq> ho_id h) seen)"
  shows "run_writes (activation_writes now seen h) t \<noteq> Inl HoldoutActivationConflict"
proof (cases "ho_active h")
  case True
  then show ?thesis by (simp add: activation_writes_def)
next
  case False
  let ?D = "\<lambda>r. r\<lparr>ho_active := False, ho_deactivated_at := Some now\<rparr>"
  let ?ws = "map (\<lambda>other. (ho_id other, ?D))
    (filter (\<lambda>other. ho_active other \<and> ho_id other \<noteq> ho_id h) seen)"
  let ?A = "\<lambda>r. if ho_salt h \<noteq> LEGACY_HOLDOUT_SALT \<and> ho_activated_at h = None
    then r\<lparr>ho_active := True, ho_activated_at := Some now\<rparr> else r\<lparr>ho_active := True\<rparr>"
  have ws: "activation_writes now seen h = ?ws @ [(ho_id h, ?A)]"
    using False by (simp add: activation_writes_def)
  have "list_all never_activates ?ws"
    by (simp add: list_all_iff never_activates_def)
  then have "run_writes ?ws t \<noteq> Inl HoldoutActivationConflict"
    using assms(2) by (rule run_writes_no_conflict)
  moreover have "run_writes [(ho_id h, ?A)] t1 \<noteq> Inl HoldoutActivationConflict"
    if t1: "run_writes ?ws t = Inr t1" for t1
  proof
    let ?t2 = "map (\<lambda>r. if ho_id r = ho_id h then ?A r else r) t1"
    assume "run_writes [(ho_id h, ?A)] t1 = Inl HoldoutActivationConflict"
    then have "run_write (ho_id h, ?A) t1 = Inl HoldoutActivationConflict"
      by (auto simp: exc_rules)
    then have many: "1 < n_active ?t2"
      unfolding run_write_def fst_conv snd_conv by (auto dest!: check_table_conflict split: if_splits)
    obtain F where F: "F = apply_writes ?ws" by simp
    have rows: "t1 = map F t" using run_writes_map [OF t1] F by simp
    have dead: "\<not> ho_active (F r)" if "r \<in> set t" for r
      using assms(3) [OF that _ False] unfolding F apply_deactivations [OF refl] by auto
    have ids: "ho_id (F r) = ho_id r" for r
      unfolding F apply_deactivations [OF refl] by simp
    have "map ho_id ?t2 = map ho_id t"
      unfolding rows map_map by (rule map_cong [OF refl]) (simp add: ids)
    then have dist: "distinct (map ho_id ?t2)" using assms(1) by (simp only:)
    have "n_active ?t2 \<le> 1"
      by (rule n_active_one_id [OF dist]) (auto simp: rows ids dead split: if_splits)
    with many show False by simp
  qed
  ultimately show ?thesis
    unfolding ws run_writes_append by (auto simp: ebind_eq_Inl)
qed

lemma serial_update_no_conflict:
  assumes "table_ok t"
  shows "update_holdout now t t hid data t \<noteq> Inl HoldoutActivationConflict"
proof
  note ok = table_okD [OF assms]
  assume "update_holdout now t t hid data t = Inl HoldoutActivationConflict"
  then obtain h ws where h: "get_holdout t hid = Some h" and ws: "update_writes now data t h = Inr ws"
    and bad: "run_writes ws t = Inl HoldoutActivationConflict"
    by (auto simp: update_holdout_def exc_rules emap_def update_writes_def split: option.splits if_splits)
  obtain rest where rest: "ws = field_write data h # rest"
    "rest = activation_writes now t h \<or> rest = deactivation_writes now h \<or> rest = []"
    using ws by (auto simp: update_writes_def split: if_splits option.splits bool.splits)
  have field: "never_activates (field_write data h)" by (simp add: never_activates_def)
  have "run_writes (deactivation_writes now h) t1 \<noteq> Inl HoldoutActivationConflict" if "n_active t1 \<le> 1" for t1
    using that by (intro run_writes_no_conflict) (simp_all add: deactivation_writes_def never_activates_def)
  moreover have "run_writes (activation_writes now t h) t1 \<noteq> Inl HoldoutActivationConflict"
    if t1: "run_write (field_write data h) t = Inr t1" for t1
  proof (rule activation_no_conflict)
    have rows: "t1 = map (\<lambda>r. if ho_id r = ho_id h then snd (field_write data h) r else r) t"
      using run_write_map [OF t1] by simp
    have "map ho_id t1 = map ho_id t" unfolding rows map_map by (rule map_cong [OF refl]) simp
    with ok(1) show "distinct (map ho_id t1)" by simp
    show "n_active t1 \<le> 1"
      using t1 by (auto simp: run_write_def check_table_Inr split: if_splits)
    show "ho_id r \<in> ho_id ` set (filter (\<lambda>other. ho_active other \<and> ho_id other \<noteq> ho_id h) t)"
      if r: "r \<in> set t1" "ho_active r" "\<not> ho_active h" for r
    proof -
      obtain x where x: "x \<in> set t" "ho_id r = ho_id x" "ho_active x"
        using r(1,2) unfolding rows by (auto split: if_splits)
      moreover have "ho_id x \<noteq> ho_id h"
        using same_row [OF assms x(1)] get_holdoutE [OF h] r(3) x(3) by metis
      ultimately show ?thesis by auto
    qed
  qed
  moreover have "run_write (field_write data h) t \<noteq> Inl HoldoutActivationConflict"
    using field ok(2) by (rule run_write_no_conflict)
  moreover have "n_active t1 \<le> 1" if "run_write (field_write data h) t = Inr t1" for t1
    using that by (auto simp: run_write_def check_table_Inr split: if_splits)
  ultimately show False
    using bad rest by (auto simp: exc_rules)
qed

lemma serial_create_no_conflict:
  assumes "table_ok t"
  shows "create_holdout now i token t data t \<noteq> Inl HoldoutActivationConflict"
proof
  let ?h = "created_row i token data"
  assume bad: "create_holdout now i token t data t = Inl HoldoutActivationConflict"
  have "n_active (t @ [?h]) = n_active t" by (simp add: n_active_def)
  then have "check_table (t @ [?h]) \<noteq> Inl HoldoutActivationConflict"
    using table_okD(2) [OF assms] check_table_conflict by fastforce
  with bad have t1: "check_table (t @ [?h]) = Inr (t @ [?h])"
    and run: "run_writes (activation_writes now t ?h) (t @ [?h]) = Inl HoldoutActivationConflict"
    by (auto simp: create_holdout_def Let_def exc_rules check_table_Inr split: if_splits)
  have "run_writes (activation_writes now t ?h) (t @ [?h]) \<noteq> Inl HoldoutActivationConflict"
    using t1 by (intro activation_no_conflict) (auto simp: check_table_Inr)
  with run show False by simp
qed

end
