(* ===== verification/Assignment_Facts.thy ===== *)
theory Assignment_Facts
  imports Assignment Holdout_Facts
begin

text \<open>
  What assignment promises: a stored row decides every later answer, there is one row for a user
  and experiment, a held-out user gets none, no user holds rows in two live experiments of an
  active group, the arms recorded for a holdout agree with its buckets, and the variant is the one
  whose share of 0 to 99 holds the user's bucket.
\<close>

section \<open>The sticky row\<close>

text \<open>
  The steps of the application that neither reassign user \<open>u\<close> in experiment \<open>eid\<close> nor delete
  assignments of \<open>eid\<close>: a request that read some earlier state, a reassignment in another experiment or
  of another user, the deletion of the assignments of another experiment (by the service or with its
  experiment or variants), and any other change (experiments, groups, holdouts, segments).
\<close>

inductive app_step :: "pstr \<Rightarrow> pstr \<Rightarrow> app_db \<Rightarrow> app_db \<Rightarrow> bool" for u eid where
  app_assign: "assign_user (E :: adapter_env) validate seen w x override ctx db = Inr (ans, db') \<Longrightarrow> app_step u eid db db'"
| app_assign_targeting:
    "assign_user_with_targeting (E :: adapter_env) validate seen w x ctx db = Inr (row, db') \<Longrightarrow> app_step u eid db db'"
| app_reassign: "reassign_user w x v db = Inr db' \<Longrightarrow> w \<noteq> u \<or> x \<noteq> eid \<Longrightarrow> app_step u eid db db'"
| app_delete: "delete_assignments_by_experiment x db = (n, db') \<Longrightarrow> x \<noteq> eid \<Longrightarrow> app_step u eid db db'"
| app_cascade: "assignments db' = filter P (assignments db) \<Longrightarrow> (\<And>a. assigned_experiment a = eid \<Longrightarrow> P a) \<Longrightarrow>
     app_step u eid db db'"
| app_other: "assignments db' = assignments db \<Longrightarrow> app_step u eid db db'"

text \<open>Every step of the application, for the unique index.\<close>

inductive any_app_step :: "app_db \<Rightarrow> app_db \<Rightarrow> bool" where
  any_app: "app_step u eid db db' \<Longrightarrow> any_app_step db db'"
| any_reassign: "reassign_user w x v db = Inr db' \<Longrightarrow> any_app_step db db'"
| any_delete: "assignments db' = filter P (assignments db) \<Longrightarrow> any_app_step db db'"

lemma record_assignments [simp]:
  "assignments (record_holdout_population active u b db) = assignments db"
  "experiments (record_holdout_population active u b db) = experiments db"
  "groups (record_holdout_population active u b db) = groups db"
  "holdouts (record_holdout_population active u b db) = holdouts db"
  by (simp_all add: record_holdout_population_def split: option.split)

lemma insert_assignment_cases:
  assumes "insert_assignment u eid vid db = (ans, db')"
  obtains (stored) a where "stored_assignment (assignments db) u eid = Some a"
      "ans = sticky_answer a" "db' = db"
    | (added) "stored_assignment (assignments db) u eid = None"
      "db' = db\<lparr>assignments := assignments db @
         [\<lparr>assigned_user = u, assigned_experiment = eid, assigned_variant = vid\<rparr>]\<rparr>"
      "ans = sticky_answer \<lparr>assigned_user = u, assigned_experiment = eid, assigned_variant = vid\<rparr>"
  using assms by (auto simp: insert_assignment_def Let_def split: option.splits)

lemma assign_user_cases:
  assumes "assign_user E validate seen u eid override ctx db = Inr (ans, db')"
  obtains (sticky) a where "stored_assignment (assignments seen) u eid = Some a"
      "ans = sticky_answer a" "db' = db"
    | (refused) e reason in_holdout p bucket c where
      "stored_assignment (assignments seen) u eid = None"
      "get_experiment (experiments seen) eid = Some e" "experiment_status e = ExpActive"
      "is_user_in_holdout u (get_active_holdout (holdouts seen)) = Inr (in_holdout, p, bucket)"
      "check_eligibility E validate seen u e ctx in_holdout = Inr reason" "reason \<noteq> ReasonAssigned"
      "control_variant e = Inr c"
      "ans = \<lparr>answer_variant = variant_id c, answer_assigned = False, answer_reason = reason\<rparr>"
      "db' = record_holdout_population (get_active_holdout (holdouts seen)) u in_holdout db"
    | (eligible) e in_holdout p bucket vid where
      "stored_assignment (assignments seen) u eid = None"
      "get_experiment (experiments seen) eid = Some e" "experiment_status e = ExpActive"
      "is_user_in_holdout u (get_active_holdout (holdouts seen)) = Inr (in_holdout, p, bucket)"
      "check_eligibility E validate seen u e ctx in_holdout = Inr ReasonAssigned"
      "choose_variant u e override = Inr vid"
      "insert_assignment u eid vid
         (record_holdout_population (get_active_holdout (holdouts seen)) u in_holdout db) = (ans, db')"
  using assms
  by (auto simp: assign_user_def Let_def exc_rules split: option.splits if_splits prod.splits)

lemma stored_assignmentE:
  assumes "stored_assignment asgs u eid = Some a"
  shows "a \<in> set asgs" "assigned_user a = u" "assigned_experiment a = eid"
  using assms by (auto simp: stored_assignment_def find_Some_iff)

lemma stored_append:
  "stored_assignment asgs u eid = Some a \<Longrightarrow> stored_assignment (asgs @ more_rows) u eid = Some a"
  by (induction asgs) (auto simp: stored_assignment_def)

lemma assign_user_extends:
  assumes "assign_user E validate seen u eid override ctx db = Inr (ans, db')"
  shows "\<exists>added. assignments db' = assignments db @ added"
  using assms
proof (cases rule: assign_user_cases)
  case eligible
  from eligible(7) show ?thesis by (cases rule: insert_assignment_cases) auto
qed auto

lemma stored_append_new [simp]:
  "stored_assignment (asgs @ [\<lparr>assigned_user = u, assigned_experiment = eid, assigned_variant = v\<rparr>]) u eid =
     (case stored_assignment asgs u eid of
        None \<Rightarrow> Some \<lparr>assigned_user = u, assigned_experiment = eid, assigned_variant = v\<rparr> | Some a \<Rightarrow> Some a)"
  by (induction asgs) (auto simp: stored_assignment_def)

text \<open>What a later state keeps of an earlier one: the user's row in the experiment.\<close>

definition row_kept :: "pstr \<Rightarrow> pstr \<Rightarrow> app_db \<Rightarrow> app_db \<Rightarrow> bool" where
  "row_kept u eid db db' =
     (\<forall>a. stored_assignment (assignments db) u eid = Some a \<longrightarrow>
        stored_assignment (assignments db') u eid = Some a)"

definition one_row_each :: "app_db \<Rightarrow> bool" where
  "one_row_each db = distinct (map (\<lambda>a. (assigned_user a, assigned_experiment a)) (assignments db))"

lemma stored_filter:
  "(\<And>a. assigned_experiment a = eid \<Longrightarrow> P a) \<Longrightarrow>
     stored_assignment (filter P asgs) u eid = stored_assignment asgs u eid"
  by (induction asgs) (auto simp: stored_assignment_def)

lemma stored_map_other:
  "w \<noteq> u \<or> x \<noteq> eid \<Longrightarrow>
     stored_assignment (map (\<lambda>a. if assigned_user a = w \<and> assigned_experiment a = x then a\<lparr>assigned_variant := v\<rparr> else a)
       asgs) u eid = stored_assignment asgs u eid"
  by (induction asgs) (auto simp: stored_assignment_def)

lemma assign_targeting_extends:
  "assign_user_with_targeting E validate seen w x ctx db = Inr (row, db') \<Longrightarrow>
     assignments db' = assignments db \<or> stored_assignment (assignments db) w x = None \<and>
       (\<exists>v. assignments db' = assignments db @ [\<lparr>assigned_user = w, assigned_experiment = x, assigned_variant = v\<rparr>])"
  by (auto simp: assign_user_with_targeting_def Let_def exc_rules split: option.splits if_splits)

lemma reassign_user_cases:
  assumes "reassign_user w x v db = Inr db'"
  obtains (added) vid where "stored_assignment (assignments db) w x = None"
      "db' = db\<lparr>assignments := assignments db @
         [\<lparr>assigned_user = w, assigned_experiment = x, assigned_variant = vid\<rparr>]\<rparr>"
    | (moved) vid where "stored_assignment (assignments db) w x \<noteq> None"
      "db' = db\<lparr>assignments := map (\<lambda>a. if assigned_user a = w \<and> assigned_experiment a = x
         then a\<lparr>assigned_variant := vid\<rparr> else a) (assignments db)\<rparr>"
proof (cases "stored_assignment (assignments db) w x = None")
  case True
  with assms obtain vid where "db' = db\<lparr>assignments := assignments db @
      [\<lparr>assigned_user = w, assigned_experiment = x, assigned_variant = vid\<rparr>]\<rparr>"
    by (auto simp: reassign_user_def emap_eq_Inr split: option.splits)
  with True show thesis by (rule added)
next
  case False
  with assms obtain vid where "db' = db\<lparr>assignments := map (\<lambda>a. if assigned_user a = w \<and> assigned_experiment a = x
      then a\<lparr>assigned_variant := vid\<rparr> else a) (assignments db)\<rparr>"
    by (auto simp: reassign_user_def emap_eq_Inr split: option.splits)
  with False show thesis by (rule moved)
qed

lemma app_step_keeps_row:
  assumes "app_step u eid db db'"
  shows "row_kept u eid db db'"
  using assms
proof cases
  case app_assign
  then show ?thesis by (auto simp: row_kept_def intro: stored_append dest!: assign_user_extends)
next
  case app_assign_targeting
  from assign_targeting_extends [OF this(1)] show ?thesis by (auto simp: row_kept_def intro: stored_append)
next
  case (app_reassign w x v)
  from app_reassign(1) show ?thesis
    by (cases rule: reassign_user_cases)
      (auto simp: row_kept_def stored_map_other [OF app_reassign(2)] intro: stored_append)
next
  case (app_delete x n)
  then show ?thesis
    using stored_filter [of eid "\<lambda>a. assigned_experiment a \<noteq> x" "assignments db" u]
    by (auto simp: row_kept_def delete_assignments_by_experiment_def)
next
  case (app_cascade P)
  then show ?thesis using stored_filter [of eid P "assignments db" u] by (simp add: row_kept_def)
qed (simp add: row_kept_def)

lemma stored_None_iff:
  "stored_assignment asgs u eid = None \<longleftrightarrow>
     (u, eid) \<notin> (\<lambda>a. (assigned_user a, assigned_experiment a)) ` set asgs"
  by (auto simp: stored_assignment_def find_None_iff image_iff)

lemma one_row_added:
  assumes "one_row_each db" and "stored_assignment (assignments db) w x = None"
    and "assignments db' = assignments db @ [\<lparr>assigned_user = w, assigned_experiment = x, assigned_variant = v\<rparr>]"
  shows "one_row_each db'"
  using assms by (auto simp: one_row_each_def stored_None_iff)

lemma one_row_filter: "one_row_each db \<Longrightarrow> assignments db' = filter P (assignments db) \<Longrightarrow> one_row_each db'"
  by (simp add: one_row_each_def distinct_map_filter)

lemma one_row_reassigned:
  assumes "one_row_each db" and "reassign_user w x v db = Inr db'"
  shows "one_row_each db'"
  using assms(2)
proof (cases rule: reassign_user_cases)
  case added
  then show ?thesis by (intro one_row_added [OF assms(1)]) simp_all
next
  case (moved vid)
  have "map (\<lambda>a. (assigned_user a, assigned_experiment a)) (assignments db') =
      map (\<lambda>a. (assigned_user a, assigned_experiment a)) (assignments db)"
    using moved(2) by simp
  then show ?thesis using assms(1) by (simp add: one_row_each_def)
qed

lemma app_step_one_row:
  assumes "one_row_each db" and "app_step u eid db db'"
  shows "one_row_each db'"
  using assms(2)
proof cases
  case (app_assign E validate seen w x override ctx ans)
  then show ?thesis
  proof (cases rule: assign_user_cases)
    case eligible
    from eligible(7) show ?thesis
      by (cases rule: insert_assignment_cases)
        (use assms(1) in \<open>auto simp: one_row_each_def stored_None_iff\<close>)
  qed (use assms(1) in \<open>auto simp: one_row_each_def\<close>)
next
  case app_assign_targeting
  from assign_targeting_extends [OF this(1)] show ?thesis
    using assms(1) one_row_added [OF assms(1)] by (auto simp: one_row_each_def)
next
  case app_reassign
  then show ?thesis using one_row_reassigned [OF assms(1)] by blast
next
  case app_delete
  then show ?thesis
    using one_row_filter [OF assms(1)] by (auto simp: delete_assignments_by_experiment_def)
next
  case app_cascade
  then show ?thesis using one_row_filter [OF assms(1)] by blast
qed (use assms(1) in \<open>simp add: one_row_each_def\<close>)

lemma any_app_step_one_row: "one_row_each db \<Longrightarrow> any_app_step db db' \<Longrightarrow> one_row_each db'"
  by (erule any_app_step.cases) (blast intro: app_step_one_row one_row_reassigned one_row_filter)+

lemma row_kept_refl: "row_kept u eid db db"
  by (simp add: row_kept_def)

lemma row_kept_trans: "row_kept u eid a b \<Longrightarrow> row_kept u eid b c \<Longrightarrow> row_kept u eid a c"
  by (simp add: row_kept_def)

interpretation app: history_of "app_step u eid" one_row_each "row_kept u eid" for u eid
  by unfold_locales (blast intro: row_kept_refl row_kept_trans app_step_keeps_row app_step_one_row)+

interpretation app_rows: invariant_of any_app_step one_row_each
  by unfold_locales (rule any_app_step_one_row)

text \<open>Later answers repeat the stored row.\<close>

lemma assigned_row_stored:
  assumes "assign_user E validate seen u eid override ctx db = Inr (ans, db')"
    and "answer_assigned ans" and "row_kept u eid seen db"
  obtains a where "stored_assignment (assignments db') u eid = Some a" "ans = sticky_answer a"
  using assms(1)
proof (cases rule: assign_user_cases)
  case (sticky a)
  then show ?thesis using assms(3) that by (auto simp: row_kept_def)
next
  case refused
  then show ?thesis using assms(2) by simp
next
  case (eligible e in_holdout p bucket vid)
  from eligible(7) show ?thesis
    by (cases rule: insert_assignment_cases) (auto intro: that)
qed

lemma stored_row_answers:
  assumes "assign_user E validate seen u eid override ctx db = Inr (ans, db')"
    and "stored_assignment (assignments seen) u eid = Some a"
  shows "ans = sticky_answer a"
  using assms by (cases rule: assign_user_cases) auto

lemma assigned_row_stays:
  assumes "assign_user E validate seen u eid override ctx db = Inr (ans, db1)"
    and "answer_assigned ans" and "row_kept u eid seen db" and "reach (app_step u eid) db1 db2" and "one_row_each db1"
    and "assign_user E' validate' db2 u eid override' ctx' db3 = Inr (ans', db4)"
  shows "ans' = ans"
proof (rule assigned_row_stored [OF assms(1-3)])
  fix a
  assume a: "stored_assignment (assignments db1) u eid = Some a" "ans = sticky_answer a"
  have "row_kept u eid db1 db2" using app.reach_extends [OF assms(4,5)] .
  then have "stored_assignment (assignments db2) u eid = Some a" using a(1) by (simp add: row_kept_def)
  from stored_row_answers [OF assms(6) this] show ?thesis using a(2) by simp
qed

section \<open>Mutual exclusion\<close>

definition live_in :: "experiment_row list \<Rightarrow> pstr \<Rightarrow> pstr \<Rightarrow> bool" where
  "live_in es gid eid =
     (\<exists>e\<in>set es. experiment_id e = eid \<and> exclusion_group_id e = Some gid \<and> live_status (experiment_status e))"

definition holds_row :: "app_db \<Rightarrow> pstr \<Rightarrow> pstr \<Rightarrow> bool" where
  "holds_row db u eid = (\<exists>a\<in>set (assignments db). assigned_user a = u \<and> assigned_experiment a = eid)"

definition exclusive :: "pstr \<Rightarrow> app_db \<Rightarrow> bool" where
  "exclusive gid db =
     (distinct (map experiment_id (experiments db)) \<and>
      (\<forall>u eid eid'. holds_row db u eid \<and> live_in (experiments db) gid eid \<and>
         holds_row db u eid' \<and> live_in (experiments db) gid eid' \<longrightarrow> eid = eid'))"

text \<open>
  Steps that do not overlap (each request reads the state it writes): an assignment while the group is
  active; \<^verbatim>\<open>reassign_user\<close> and \<^verbatim>\<open>assign_user_with_targeting\<close>, which ask no group, where they put nobody
  new into the group; the deletion of assignments; a change that brings no experiment with users into
  the group and completes, pauses, starts or removes others.
\<close>

inductive group_step :: "pstr \<Rightarrow> app_db \<Rightarrow> app_db \<Rightarrow> bool" for gid where
  group_assign: "get_group (groups db) gid = Some g \<Longrightarrow> group_status g = GroupActive \<Longrightarrow>
     assign_user (E :: adapter_env) validate db u eid override ctx db = Inr (ans, db') \<Longrightarrow> group_step gid db db'"
| group_assign_targeting: "\<not> live_in (experiments db) gid eid \<Longrightarrow>
     assign_user_with_targeting (E :: adapter_env) validate db u eid ctx db = Inr (row, db') \<Longrightarrow> group_step gid db db'"
| group_reassign: "holds_row db u eid \<or> \<not> live_in (experiments db) gid eid \<Longrightarrow> reassign_user u eid v db = Inr db' \<Longrightarrow>
     group_step gid db db'"
| group_delete: "delete_assignments_by_experiment eid db = (n, db') \<Longrightarrow> group_step gid db db'"
| group_change: "assignments db' = assignments db \<Longrightarrow> distinct (map experiment_id (experiments db')) \<Longrightarrow>
     (\<And>u eid. holds_row db u eid \<Longrightarrow> live_in (experiments db') gid eid \<Longrightarrow> live_in (experiments db) gid eid) \<Longrightarrow>
     group_step gid db db'"

lemma has_sibling_iff:
  "has_sibling_assignment es (assignments db) u gid eid \<longleftrightarrow>
     (\<exists>eid'. holds_row db u eid' \<and> live_in es gid eid' \<and> eid' \<noteq> eid)"
  unfolding has_sibling_assignment_def holds_row_def live_in_def list_ex_iff by metis

lemma check_eligibility_free:
  assumes "check_eligibility E validate db u e ctx in_holdout = Inr ReasonAssigned"
  shows "\<not> in_holdout"
    and "exclusion_group_id e = None \<or> is_user_eligible_for_experiment (experiments db) (groups db)
      (assignments db) u (experiment_id e) = Inr True"
  using assms by (auto simp: check_eligibility_def exc_rules split: if_splits)

lemma exclusive_added:
  assumes "exclusive gid db" and "live_in (experiments db) gid eid \<Longrightarrow>
      \<not> has_sibling_assignment (experiments db) (assignments db) u gid eid"
    and "assignments db' = assignments db @
      [\<lparr>assigned_user = u, assigned_experiment = eid, assigned_variant = v\<rparr>]"
    and "experiments db' = experiments db"
  shows "exclusive gid db'"
proof -
  have rows: "holds_row db' w x \<longleftrightarrow> holds_row db w x \<or> w = u \<and> x = eid" for w x
    by (auto simp: holds_row_def assms(3))
  have old: "x = y" if "holds_row db w x" "live_in (experiments db) gid x"
    "holds_row db w y" "live_in (experiments db) gid y" for w x y
    using assms(1) that unfolding exclusive_def by blast
  have new: "x = eid" if "live_in (experiments db) gid eid" "holds_row db u x" "live_in (experiments db) gid x" for x
    using assms(2) that unfolding has_sibling_iff by blast
  have "x = y" if "holds_row db' w x" "live_in (experiments db) gid x"
    "holds_row db' w y" "live_in (experiments db) gid y" for w x y
    using that old [of w x y] new [of x] new [of y] unfolding rows by metis
  then show ?thesis
    using assms(1) unfolding exclusive_def assms(4) by blast
qed

lemma exclusive_cong:
  assumes "exclusive gid db" and "assignments db' = assignments db" and "experiments db' = experiments db"
  shows "exclusive gid db'"
  using assms(1) unfolding exclusive_def holds_row_def assms(2,3) .

lemma exclusive_fewer:
  assumes "exclusive gid db" and "experiments db' = experiments db" and "\<And>u x. holds_row db' u x \<Longrightarrow> holds_row db u x"
  shows "exclusive gid db'"
  using assms unfolding exclusive_def by metis

text \<open>A row of an experiment that is not in the group makes no difference.\<close>

lemma exclusive_outside:
  assumes "exclusive gid db" and "\<not> live_in (experiments db) gid eid"
    and "assignments db' = assignments db @ [\<lparr>assigned_user = u, assigned_experiment = eid, assigned_variant = v\<rparr>]"
    and "experiments db' = experiments db"
  shows "exclusive gid db'"
  by (rule exclusive_added [OF assms(1) _ assms(3,4)]) (use assms(2) in simp)

lemma holds_row_stored: "holds_row db u eid \<longleftrightarrow> stored_assignment (assignments db) u eid \<noteq> None"
  unfolding stored_None_iff holds_row_def by auto

lemma reassign_exclusive:
  assumes "exclusive gid db" and "holds_row db u eid \<or> \<not> live_in (experiments db) gid eid"
    and "reassign_user u eid v db = Inr db'"
  shows "exclusive gid db'"
  using assms(3)
proof (cases rule: reassign_user_cases)
  case added
  then show ?thesis
    using assms(2) by (intro exclusive_outside [OF assms(1)]) (auto simp: holds_row_stored)
next
  case moved
  then show ?thesis by (intro exclusive_fewer [OF assms(1)]) (auto simp: holds_row_def split: if_splits)
qed

lemma assign_targeting_experiments:
  "assign_user_with_targeting E validate seen w x ctx db = Inr (row, db') \<Longrightarrow> experiments db' = experiments db"
  by (auto simp: assign_user_with_targeting_def Let_def exc_rules split: option.splits if_splits)

lemma group_step_exclusive:
  assumes "exclusive gid db" and "group_step gid db db'"
  shows "exclusive gid db'"
  using assms(2)
proof cases
  case (group_assign g E validate u eid override ctx ans)
  from group_assign(3) show ?thesis
  proof (cases rule: assign_user_cases)
    case sticky
    then show ?thesis using assms(1) by simp
  next
    case refused
    then show ?thesis using exclusive_cong [OF assms(1)] by simp
  next
    case (eligible e in_holdout p bucket vid)
    have dist: "distinct (map experiment_id (experiments db))" using assms(1) by (simp add: exclusive_def)
    note e = get_experimentE [OF eligible(2)]
    have free: "\<not> has_sibling_assignment (experiments db) (assignments db) u gid eid"
      if live: "live_in (experiments db) gid eid"
    proof -
      obtain e' where e': "e' \<in> set (experiments db)" "experiment_id e' = eid" "exclusion_group_id e' = Some gid"
        using live unfolding live_in_def by blast
      then have "e' = e" using dist e by (auto simp: distinct_map inj_on_def)
      with check_eligibility_free(2) [OF eligible(5)] e' e(2) show ?thesis
        using eligible_no_sibling(1) [OF _ eligible(2) _ group_assign(1,2)] by auto
    qed
    from eligible(7) show ?thesis
    proof (cases rule: insert_assignment_cases)
      case stored
      then show ?thesis using exclusive_cong [OF assms(1)] by simp
    next
      case added
      then show ?thesis using exclusive_added [OF assms(1) free] by simp
    qed
  qed
next
  case (group_assign_targeting eid E validate u ctx row)
  note same = assign_targeting_experiments [OF group_assign_targeting(2)]
  from assign_targeting_extends [OF group_assign_targeting(2)] show ?thesis
    using exclusive_cong [OF assms(1) _ same] exclusive_outside [OF assms(1) group_assign_targeting(1) _ same] by blast
next
  case group_reassign
  then show ?thesis using reassign_exclusive [OF assms(1)] by blast
next
  case (group_delete eid n)
  then show ?thesis
    by (intro exclusive_fewer [OF assms(1)]) (auto simp: delete_assignments_by_experiment_def holds_row_def)
next
  case group_change
  then show ?thesis
    using assms(1) unfolding exclusive_def holds_row_def by metis
qed

interpretation exclusion: invariant_of "group_step gid" "exclusive gid" for gid
  by unfold_locales (rule group_step_exclusive)

section \<open>The recorded arms\<close>

definition in_arm :: "pstr \<Rightarrow> holdout \<Rightarrow> bool \<Rightarrow> bool" where
  "in_arm u h b = (\<exists>p bucket. is_user_in_holdout u (Some h) = Inr (b, p, bucket))"

definition arms_ok :: "app_db \<Rightarrow> bool" where
  "arms_ok db =
     (table_ok (holdouts db) \<and>
      distinct (map (\<lambda>(hid, u, _). (hid, u)) (population db)) \<and>
      (\<forall>(hid, u, b)\<in>set (population db).
         \<exists>h\<in>set (holdouts db). ho_id h = hid \<and> has_been_active h \<and> in_arm u h b))"

text \<open>Steps that do not overlap: a request, a change of the holdouts, any other change.\<close>

inductive life_step :: "app_db \<Rightarrow> app_db \<Rightarrow> bool" where
  life_assign: "assign_user (E :: adapter_env) validate db u eid override ctx db = Inr (ans, db') \<Longrightarrow>
     life_step db db'"
| life_holdout: "holdout_step (holdouts db) hs \<Longrightarrow> life_step db (db\<lparr>holdouts := hs\<rparr>)"
| life_other: "holdouts db' = holdouts db \<Longrightarrow> population db' = population db \<Longrightarrow> life_step db db'"

lemma arms_ok_cong:
  assumes "arms_ok db" and "holdouts db' = holdouts db" and "population db' = population db"
  shows "arms_ok db'"
  using assms(1) unfolding arms_ok_def assms(2,3) .

lemma arms_ok_recorded:
  assumes "arms_ok db" and "is_user_in_holdout u (get_active_holdout (holdouts db)) = Inr (b, p, bucket)"
  shows "arms_ok (record_holdout_population (get_active_holdout (holdouts db)) u b db)"
proof (cases "get_active_holdout (holdouts db)")
  case None
  then show ?thesis using assms(1) by (simp add: record_holdout_population_def)
next
  case (Some h)
  note h = active_holdoutE [OF Some]
  have arm: "in_arm u h b" using assms(2) by (auto simp: in_arm_def Some)
  have been: "has_been_active h" using h(2) by (simp add: has_been_active_def)
  have new: "arms_ok (db\<lparr>population := population db @ [(ho_id h, u, b)]\<rparr>)"
    if fresh: "\<not> (\<exists>(hid, uid, _)\<in>set (population db). hid = ho_id h \<and> uid = u)"
  proof -
    have "(ho_id h, u) \<notin> (\<lambda>(hid, u, _). (hid, u)) ` set (population db)"
      using fresh by auto
    then show ?thesis
      using assms(1) h(1) been arm by (auto simp: arms_ok_def)
  qed
  then show ?thesis
    using assms(1) by (simp add: record_holdout_population_def Some)
qed

lemma arms_ok_insert:
  "insert_assignment u eid vid db = (ans, db') \<Longrightarrow> arms_ok db \<Longrightarrow> arms_ok db'"
  by (erule insert_assignment_cases) (auto intro: arms_ok_cong)

lemma arms_ok_holdout_step:
  assumes "arms_ok db" and "holdout_step (holdouts db) hs"
  shows "arms_ok (db\<lparr>holdouts := hs\<rparr>)"
proof -
  have ok: "table_ok (holdouts db)" using assms(1) by (simp add: arms_ok_def)
  note kept = holdout_step_ok [OF ok assms(2)]
  have "\<exists>h\<in>set hs. ho_id h = hid \<and> has_been_active h \<and> in_arm u h b"
    if row: "(hid, u, b) \<in> set (population db)" for hid u b
  proof -
    obtain h where h: "h \<in> set (holdouts db)" "ho_id h = hid" "has_been_active h" "in_arm u h b"
      using assms(1) row by (fastforce simp: arms_ok_def)
    then obtain h' where h': "h' \<in> set hs" "kept h h'"
      using kept by (auto simp: table_kept_def)
    then have "in_arm u h' b" using h(3,4)
      by (simp add: in_arm_def is_user_in_holdout_def kept_def)
    then show ?thesis using h h' by (auto simp: kept_def)
  qed
  then show ?thesis
    using assms(1) kept by (auto simp: arms_ok_def)
qed

lemma life_step_arms:
  assumes "arms_ok db" and "life_step db db'"
  shows "arms_ok db'"
  using assms(2)
proof cases
  case (life_assign E validate u eid override ctx ans)
  then show ?thesis
  proof (cases rule: assign_user_cases)
    case refused
    then show ?thesis using arms_ok_recorded [OF assms(1)] by blast
  next
    case eligible
    then show ?thesis using arms_ok_insert arms_ok_recorded [OF assms(1)] by blast
  qed (use assms(1) in simp)
next
  case life_holdout
  then show ?thesis using arms_ok_holdout_step [OF assms(1)] by simp
next
  case life_other
  then show ?thesis using arms_ok_cong [OF assms(1)] by blast
qed

interpretation arms: invariant_of life_step arms_ok
  by unfold_locales (rule life_step_arms)

section \<open>The variant\<close>

lemma foldl_plus_sum: "foldl (+) (c :: int) xs = c + sum_list xs"
  by (induction xs arbitrary: c) simp_all

lemma sum_list_nonneg_int: "\<forall>x\<in>set xs. 0 \<le> (x :: int) \<Longrightarrow> 0 \<le> sum_list xs"
  by (induction xs) auto

text \<open>Allocations that add up to 100 give each variant the buckets of its own share.\<close>

lemma hash_variant_share:
  assumes "hash_user_to_variant u e = Inr v"
    and "\<forall>w\<in>set (variants e). 0 \<le> traffic_allocation w"
    and "100 \<le> sum_list (map traffic_allocation (variants e))"
  shows "\<exists>b pre w post. bucket_of u (assignment_namespace e) = Inr b \<and> variants e = pre @ w # post \<and>
    variant_id w = v \<and> sum_list (map traffic_allocation pre) \<le> b \<and>
    b < sum_list (map traffic_allocation pre) + traffic_allocation w"
proof -
  let ?items = "map (\<lambda>w. (variant_id w, traffic_allocation w)) (variants e)"
  from assms(1) obtain b where b: "bucket_of u (assignment_namespace e) = Inr b"
    and v: "v = walk_or_last (+) (<) b 0 ?items" and ne: "variants e \<noteq> []"
    by (auto simp: hash_user_to_variant_def exc_rules split: if_splits)
  have range: "0 \<le> b" "b < 100" using bucket_of_range [OF b] by auto
  have nonneg: "\<forall>w\<in>snd ` set ?items. 0 \<le> w" using assms(2) by auto
  have fst_item: "map snd ?items = map traffic_allocation (variants e)" by simp
  have "cumulative_walk (+) (<) b 0 ?items \<noteq> None"
    using int_walk.walk_None_iff [OF TrueI nonneg, of b 0] ne range(2) assms(3)
    by (auto simp: foldl_plus_sum comp_def)
  then have walk: "cumulative_walk (+) (<) b 0 ?items = Some v"
    using v by (auto simp: walk_or_last_def split: option.splits)
  then obtain pre w post where p: "?items = pre @ (v, w) # post"
      "pre = [] \<or> \<not> b < foldl (+) 0 (map snd pre)" "b < foldl (+) 0 (map snd pre @ [w])"
    using int_walk.walk_Some_iff [OF TrueI nonneg, of b 0 v] by blast
  then obtain pre' x post' where x: "variants e = pre' @ x # post'" "v = variant_id x"
      "w = traffic_allocation x" "map snd pre = map traffic_allocation pre'"
    by (auto simp: map_eq_append_conv map_eq_Cons_conv comp_def)
  then show ?thesis
    using p(2,3) range(1) by (intro exI [of _ b] exI [of _ pre'] exI [of _ x] exI [of _ post'])
      (auto simp: b foldl_plus_sum)
qed

end
