(* ===== verification/Concrete_App.thy ===== *)
theory Concrete_App
  imports Concrete_Env Golden_Vectors Assignment_Facts
begin

text \<open>
  A concrete application: an experiment of two variants, a holdout of five percent that is active
  and one that is not, and the assignments two users get.
\<close>

definition demo_holdout :: "string \<Rightarrow> bool \<Rightarrow> int \<Rightarrow> holdout" where
  "demo_holdout name on p =
     \<lparr>ho_id = str name, ho_name = str name, ho_description = None, ho_percentage = p, ho_active = on,
      ho_activated_at = (if on then Some 1 else None), ho_deactivated_at = None,
      ho_salt = str ''holdout:'' @ str name\<rparr>"

definition demo_experiment :: experiment_row where
  "demo_experiment =
     \<lparr>experiment_id = str ''e1'', experiment_key = Some (str ''my-flag''), experiment_status = ExpActive,
      exclusion_group_id = None, experiment_rules = PNone,
      variants = [\<lparr>variant_id = str ''control'', is_control = True, traffic_allocation = 50\<rparr>,
                  \<lparr>variant_id = str ''treatment'', is_control = False, traffic_allocation = 50\<rparr>]\<rparr>"

definition demo_app :: "holdout list \<Rightarrow> app_db" where
  "demo_app hs =
     \<lparr>experiments = [demo_experiment],
      groups = [\<lparr>group_id = str ''g'', group_name = str ''g'', group_description = None, group_status = GroupActive, group_traffic = Fin 1\<rparr>],
      assignments = [], holdouts = hs, population = [], segments = demo_db\<rparr>"

definition demo_row :: assignment where
  "demo_row = \<lparr>assigned_user = str ''user-123'', assigned_experiment = str ''e1'',
     assigned_variant = str ''treatment''\<rparr>"

definition demo_app_assigned :: app_db where
  "demo_app_assigned = (demo_app [])\<lparr>assignments := [demo_row]\<rparr>"

lemma demo_table_ok: "p = 5 \<or> p = 10 \<Longrightarrow> table_ok [demo_holdout ''a'' True p, demo_holdout ''b'' False 5]"
  by (auto simp: table_ok_def constraints_hold_def check_table_Inr n_active_def not_ended_def
      demo_holdout_def str_def)

lemma demo_variant: "hash_user_to_variant (str ''user-123'') demo_experiment = Inr (str ''treatment'')"
proof -
  have "assignment_namespace demo_experiment = str ''my-flag''"
    by (simp add: assignment_namespace_def demo_experiment_def str_def)
  then show ?thesis
    by (simp add: hash_user_to_variant_def golden_bucket walk_or_last_def demo_experiment_def)
qed

lemma demo_app_fields [simp]:
  "experiments (demo_app hs) = [demo_experiment]" "assignments (demo_app hs) = []"
  "holdouts (demo_app hs) = hs" "population (demo_app hs) = []"
  by (simp_all add: demo_app_def)

lemma demo_experiment_fields [simp]:
  "experiment_id demo_experiment = str ''e1''" "experiment_status demo_experiment = ExpActive"
  "exclusion_group_id demo_experiment = None" "experiment_rules demo_experiment = PNone"
  by (simp_all add: demo_experiment_def)

lemma demo_assigned:
  "assign_user demo_env no_rules (demo_app []) (str ''user-123'') (str ''e1'') None ctx (demo_app []) =
     Inr (sticky_answer demo_row, demo_app_assigned)"
  by (simp add: assign_user_def check_eligibility_def get_experiment_def demo_variant choose_variant_def
      is_user_in_holdout_def get_active_holdout_def stored_assignment_def record_holdout_population_def
      insert_assignment_def demo_row_def demo_app_assigned_def Let_def)

lemma demo_active: "get_active_holdout [demo_holdout ''a'' True p, h] = Some (demo_holdout ''a'' True p)"
  by (simp add: get_active_holdout_def demo_holdout_def)

lemma demo_held_out: "is_user_in_holdout (str ''user-0'') (Some (demo_holdout ''a'' True 5)) = Inr (True, 5, 4)"
proof -
  have "ho_salt (demo_holdout ''a'' True 5) = str ''holdout:a''"
    by (simp add: demo_holdout_def str_def)
  then show ?thesis
    by (simp add: is_user_in_holdout_def held_out_bucket) (simp add: demo_holdout_def)
qed

text \<open>A later request, and two changes of the holdouts.\<close>

lemma demo_assigned_again:
  "assign_user demo_env no_rules demo_app_assigned (str ''user-123'') (str ''e1'') override ctx demo_app_assigned =
     Inr (sticky_answer demo_row, demo_app_assigned)"
  by (simp add: assign_user_def get_experiment_def stored_assignment_def demo_app_assigned_def demo_row_def)

definition demo_table :: "holdout list" where
  "demo_table = [demo_holdout ''a'' True 5, demo_holdout ''b'' False 5]"

definition demo_switched :: "holdout list" where
  "demo_switched =
     [(demo_holdout ''a'' True 5)\<lparr>ho_active := False, ho_deactivated_at := Some 7\<rparr>,
      (demo_holdout ''b'' False 5)\<lparr>ho_active := True, ho_activated_at := Some 7\<rparr>]"

lemma demo_switch: "holdout_step demo_table demo_switched"
proof (rule step_update)
  show "update_holdout 7 demo_table demo_table (str ''b'') (no_fields True) demo_table = Inr (Some demo_switched)"
    by (simp add: update_holdout_def get_holdout_def update_writes_def has_been_active_def field_write_def
        sent_column_def run_write_def check_table_def demo_holdout_def str_def demo_table_def demo_switched_def
        no_fields_def activation_writes_def LEGACY_HOLDOUT_SALT_def)
qed

definition demo_resized :: "holdout list" where
  "demo_resized = [demo_holdout ''a'' True 5, demo_holdout ''b'' False 9]"

lemma demo_resize: "holdout_step demo_table demo_resized"
proof (rule step_update)
  show "update_holdout 7 demo_table demo_table (str ''b'')
      \<lparr>new_name = None, new_description = None, new_percentage = Some 9, new_active = None\<rparr> demo_table =
    Inr (Some demo_resized)"
    by (simp add: update_holdout_def get_holdout_def update_writes_def has_been_active_def field_write_def
        sent_column_def run_write_def check_table_def demo_holdout_def str_def demo_table_def demo_resized_def)
qed

text \<open>
  Two experiments in a group: the group's hash of \<^verbatim>\<open>user-123\<close> is in the second half of its traffic, so the
  second experiment takes the user.
\<close>

definition demo_member :: "string \<Rightarrow> experiment_row" where
  "demo_member name = demo_experiment\<lparr>experiment_id := str name, exclusion_group_id := Some (str ''my-flag'')\<rparr>"

definition demo_pair :: app_db where
  "demo_pair = (demo_app [])\<lparr>experiments := [demo_member ''e1'', demo_member ''e2''],
     groups := [\<lparr>group_id = str ''my-flag'', group_name = str ''g'', group_description = None,
       group_status = GroupActive, group_traffic = Fin 1\<rparr>]\<rparr>"

definition demo_pair_assigned :: app_db where
  "demo_pair_assigned = demo_pair\<lparr>assignments :=
     [\<lparr>assigned_user = str ''user-123'', assigned_experiment = str ''e2'', assigned_variant = str ''treatment''\<rparr>]\<rparr>"

lemma demo_member_fields [simp]:
  "experiment_id (demo_member name) = str name" "experiment_status (demo_member name) = ExpActive"
  "exclusion_group_id (demo_member name) = Some (str ''my-flag'')" "experiment_rules (demo_member name) = PNone"
  by (simp_all add: demo_member_def demo_experiment_def)

lemma demo_member_variant: "hash_user_to_variant (str ''user-123'') (demo_member name) = Inr (str ''treatment'')"
proof -
  have "assignment_namespace (demo_member name) = str ''my-flag''"
    by (simp add: assignment_namespace_def demo_member_def demo_experiment_def str_def)
  then show ?thesis
    by (simp add: hash_user_to_variant_def golden_bucket walk_or_last_def demo_member_def demo_experiment_def)
qed

lemma fl_halves: "fl (1 / 2) = Fin (1 / 2)" "fl 1 = Fin 1" "float_of_int 2 = Some (Fin 2)"
proof -
  show "fl (1 / 2) = Fin (1 / 2)" by (rule fl_dyadic_exact [of 1 1]) simp_all
  show "fl 1 = Fin 1" using fl_of_int_exact [of 1] by simp
  show "float_of_int 2 = Some (Fin 2)" using float_of_int_exact [of 2] by simp
qed

lemma demo_pair_order: "str ''e1'' \<le> str ''e2''"
  by (simp add: str_def)

lemma demo_pair_selected:
  "select_experiment_for_user (experiments demo_pair) (groups demo_pair) (str ''user-123'') (str ''my-flag'') =
     Inr (Some (str ''e2''))"
proof -
  have "normalized_hash (str ''user-123'') (str ''my-flag'') = Inr (Fin (2975317059 / 4294967296))"
    using normalized_hash_eq [of "str ''user-123''" "str ''my-flag''" 2975317059] by (simp add: golden_seed golden_uint32)
  then show ?thesis
    by (simp add: select_experiment_for_user_def get_group_def demo_pair_def get_active_group_experiments_def
        slot_size_def select_slot_def demo_pair_order fl_halves Let_def)
qed

lemma demo_pair_assign:
  "assign_user demo_env no_rules demo_pair (str ''user-123'') (str ''e2'') None ctx demo_pair =
     Inr (sticky_answer \<lparr>assigned_user = str ''user-123'', assigned_experiment = str ''e2'',
       assigned_variant = str ''treatment''\<rparr>, demo_pair_assigned)"
proof -
  have fields: "experiments demo_pair = [demo_member ''e1'', demo_member ''e2'']" "assignments demo_pair = []"
    "holdouts demo_pair = []" "get_group (groups demo_pair) (str ''my-flag'') = Some
      \<lparr>group_id = str ''my-flag'', group_name = str ''g'', group_description = None, group_status = GroupActive,
       group_traffic = Fin 1\<rparr>"
    by (simp_all add: demo_pair_def get_group_def)
  have found: "get_experiment (experiments demo_pair) (str ''e2'') = Some (demo_member ''e2'')"
    by (simp add: fields get_experiment_def str_def)
  have "is_user_eligible_for_experiment (experiments demo_pair) (groups demo_pair) (assignments demo_pair)
      (str ''user-123'') (str ''e2'') = Inr True"
    by (simp add: is_user_eligible_for_experiment_def found fields(4) demo_pair_selected)
      (simp add: fields has_sibling_assignment_def)
  then show ?thesis
    by (simp add: assign_user_def found check_eligibility_def demo_member_variant choose_variant_def fields(2,3)
        is_user_in_holdout_def get_active_holdout_def stored_assignment_def record_holdout_population_def
        insert_assignment_def demo_pair_assigned_def Let_def)
qed

lemma demo_pair_step: "group_step (str ''my-flag'') demo_pair demo_pair_assigned"
proof -
  have "get_group (groups demo_pair) (str ''my-flag'') = Some (hd (groups demo_pair))"
    "group_status (hd (groups demo_pair)) = GroupActive"
    by (simp_all add: demo_pair_def get_group_def)
  then show ?thesis using demo_pair_assign [of "[]"] by (rule group_assign)
qed

lemma demo_pair_exclusive: "exclusive (str ''my-flag'') demo_pair"
  by (simp add: exclusive_def holds_row_def demo_pair_def str_def)

lemma demo_pair_rows:
  "holds_row demo_pair_assigned (str ''user-123'') (str ''e2'')"
  "live_in (experiments demo_pair_assigned) (str ''my-flag'') (str ''e1'')"
  "live_in (experiments demo_pair_assigned) (str ''my-flag'') (str ''e2'')"
  by (simp_all add: holds_row_def live_in_def live_status_def demo_pair_assigned_def demo_pair_def)

text \<open>
  The percentage lock is a check before the write, not a constraint: a request that read the
  holdout before it was activated changes the percentage of the active holdout.
\<close>

lemma percentage_lock_race:
  assumes "1 \<le> p" "p \<le> 20" and "1 \<le> q" "q \<le> 20"
  shows "racing_step [demo_holdout ''a'' True p] [demo_holdout ''a'' True q]"
proof (rule race_update)
  show "update_holdout 0 [demo_holdout ''a'' False p] [] (str ''a'')
      \<lparr>new_name = None, new_description = None, new_percentage = Some q, new_active = None\<rparr>
      [demo_holdout ''a'' True p] = Inr (Some [demo_holdout ''a'' True q])"
    using assms
    by (simp add: update_holdout_def get_holdout_def update_writes_def has_been_active_def field_write_def
        sent_column_def run_write_def check_table_def demo_holdout_def)
qed

end
