(* ===== verification/Rollout_Schedule.thy ===== *)
theory Rollout_Schedule
  imports Feature_Flags Machine
begin

text \<open>
  Rollout schedules: \<^verbatim>\<open>backend/app/services/rollout_service.py\<close> (requests) and
  \<^verbatim>\<open>backend/app/core/rollout_scheduler.py\<close> (the periodic tick) over the tables of
  \<^verbatim>\<open>models/rollout_schedule.py\<close> and the flags. Instants are microseconds, tables are lists in the
  order queries return their rows. As for holdouts, an operation reads rows without a lock (\<open>seen\<close>)
  and writes the rows of a later moment (\<open>db\<close>), where only the statements that lock read again. The
  columns \<^verbatim>\<open>owner_id\<close>, \<^verbatim>\<open>config_data\<close> and \<^verbatim>\<open>created_at\<close>, audit entries and logging are left out.
\<close>

section \<open>Tables\<close>

datatype trigger_type = TimeBased | MetricBased | Manual

datatype stage_status = StagePending | StageInProgress | StageCompleted | StageFailed

datatype schedule_status = SchedDraft | SchedActive | SchedPaused | SchedCompleted | SchedCancelled

record rollout_stage =
  stage_id :: pstr
  stage_schedule :: pstr
  stage_name :: pstr
  stage_description :: "pstr option"
  stage_order :: int
  stage_target :: int
  stage_trigger :: trigger_type
  stage_config :: pyval
  stage_start :: "int option"
  stage_status :: stage_status
  stage_completed_at :: "int option"
  stage_updated :: int

record rollout_schedule =
  sched_id :: pstr
  sched_name :: pstr
  sched_description :: "pstr option"
  sched_flag :: pstr
  sched_status :: schedule_status
  sched_start :: "int option"
  sched_end :: "int option"
  sched_max_percentage :: int
  sched_min_duration :: "int option"
  sched_updated :: int

record rollout_db =
  schedules :: "rollout_schedule list"
  stages :: "rollout_stage list"
  rollout_flags :: "feature_flag list"

datatype rollout_error =
    RolloutValueError | RolloutIntegrityError | RolloutAttributeError | RolloutLookupError
  | RolloutStaleData | ScheduleNoLongerActive "schedule_status option" | RolloutRaised exc

text \<open>The check constraints and primary keys.\<close>

definition schedule_row_ok :: "rollout_schedule \<Rightarrow> bool" where
  "schedule_row_ok s =
     (0 \<le> sched_max_percentage s \<and> sched_max_percentage s \<le> 100 \<and>
      (case (sched_start s, sched_end s) of (Some a, Some b) \<Rightarrow> a < b | _ \<Rightarrow> True))"

definition stage_row_ok :: "rollout_stage \<Rightarrow> bool" where
  "stage_row_ok s = (0 \<le> stage_target s \<and> stage_target s \<le> 100)"

definition check_rollout :: "rollout_db \<Rightarrow> rollout_error + rollout_db" where
  "check_rollout db =
     (if distinct (map sched_id (schedules db)) \<and> distinct (map stage_id (stages db)) \<and>
         list_all schedule_row_ok (schedules db) \<and> list_all stage_row_ok (stages db)
      then Inr db else Inl RolloutIntegrityError)"

definition get_rollout_schedule :: "rollout_db \<Rightarrow> pstr \<Rightarrow> rollout_schedule option" where
  "get_rollout_schedule db sid = find (\<lambda>s. sched_id s = sid) (schedules db)"

definition get_stage :: "rollout_db \<Rightarrow> pstr \<Rightarrow> rollout_stage option" where
  "get_stage db stid = find (\<lambda>s. stage_id s = stid) (stages db)"

definition get_rollout_flag :: "rollout_db \<Rightarrow> pstr \<Rightarrow> feature_flag option" where
  "get_rollout_flag db fid = find (\<lambda>f. flag_id f = fid) (rollout_flags db)"

definition stages_of :: "pstr \<Rightarrow> rollout_stage list \<Rightarrow> rollout_stage list" where
  "stages_of sid ss = filter (\<lambda>s. stage_schedule s = sid) ss"

text \<open>
  A changed row is written with \<^verbatim>\<open>updated_at\<close> set to the moment of the write
  (\<^verbatim>\<open>onupdate\<close>); a row that did not change is not written.
\<close>

definition touch_stage :: "int \<Rightarrow> rollout_stage \<Rightarrow> rollout_stage \<Rightarrow> rollout_stage" where
  "touch_stage now old new = (if new = old then old else new\<lparr>stage_updated := now\<rparr>)"

definition touch_schedule :: "int \<Rightarrow> rollout_schedule \<Rightarrow> rollout_schedule \<Rightarrow> rollout_schedule" where
  "touch_schedule now old new = (if new = old then old else new\<lparr>sched_updated := now\<rparr>)"

definition write_stage ::
  "pstr \<Rightarrow> (rollout_stage \<Rightarrow> rollout_stage) \<Rightarrow> rollout_db \<Rightarrow> rollout_error + rollout_db" where
  "write_stage stid f db =
     (if stid \<notin> stage_id ` set (stages db) then Inl RolloutStaleData
      else Inr (db\<lparr>stages := map (\<lambda>s. if stage_id s = stid then f s else s) (stages db)\<rparr>))"

definition write_schedule ::
  "pstr \<Rightarrow> (rollout_schedule \<Rightarrow> rollout_schedule) \<Rightarrow> rollout_db \<Rightarrow> rollout_error + rollout_db" where
  "write_schedule sid f db =
     (if sid \<notin> sched_id ` set (schedules db) then Inl RolloutStaleData
      else Inr (db\<lparr>schedules := map (\<lambda>s. if sched_id s = sid then f s else s) (schedules db)\<rparr>))"

definition set_percentage :: "int \<Rightarrow> pstr \<Rightarrow> int \<Rightarrow> rollout_db \<Rightarrow> rollout_db" where
  "set_percentage now fid p db =
     db\<lparr>rollout_flags := map (\<lambda>f. if flag_id f = fid
        then f\<lparr>flag_rollout := p, flag_updated_at := now\<rparr> else f) (rollout_flags db)\<rparr>"

section \<open>Creation\<close>

record stage_create =
  sc_name :: pstr
  sc_description :: "pstr option"
  sc_order :: int
  sc_target :: int
  sc_trigger :: trigger_type
  sc_config :: pyval
  sc_start :: "int option"

record schedule_create =
  rc_name :: pstr
  rc_description :: "pstr option"
  rc_flag :: pstr
  rc_start :: "int option"
  rc_end :: "int option"
  rc_max :: int
  rc_min_duration :: "int option"
  rc_stages :: "stage_create list"

definition MAX_STAGE_ORDER :: int where
  "MAX_STAGE_ORDER = 1000"

definition valid_stage_create :: "stage_create \<Rightarrow> bool" where
  "valid_stage_create s =
     (1 \<le> length (sc_name s) \<and> length (sc_name s) \<le> 100 \<and> 0 \<le> sc_order s \<and>
      sc_order s \<le> MAX_STAGE_ORDER \<and> 0 \<le> sc_target s \<and> sc_target s \<le> 100)"

text \<open>\<^verbatim>\<open>validate_stages\<close>: non-decreasing percentages up to the maximum, orders without gaps.\<close>

definition validate_stages :: "schedule_create \<Rightarrow> bool" where
  "validate_stages d =
     (let ps = map sc_target (rc_stages d); os = sort (map sc_order (rc_stages d)) in
      rc_stages d \<noteq> [] \<and> sorted ps \<and> Max (set ps) \<le> rc_max d \<and>
      distinct os \<and> last os - hd os = int (length os) - 1)"

definition validate_dates :: "schedule_create \<Rightarrow> bool" where
  "validate_dates d = (case (rc_start d, rc_end d) of (Some a, Some b) \<Rightarrow> a < b | _ \<Rightarrow> True)"

definition valid_schedule_create :: "schedule_create \<Rightarrow> bool" where
  "valid_schedule_create d =
     (1 \<le> length (rc_name d) \<and> length (rc_name d) \<le> 100 \<and> 0 \<le> rc_max d \<and> rc_max d \<le> 100 \<and>
      list_all valid_stage_create (rc_stages d) \<and> validate_dates d \<and> validate_stages d)"

definition created_stage :: "int \<Rightarrow> pstr \<Rightarrow> pstr \<Rightarrow> stage_create \<Rightarrow> rollout_stage" where
  "created_stage now sid stid d =
     \<lparr>stage_id = stid, stage_schedule = sid, stage_name = sc_name d, stage_description = sc_description d,
      stage_order = sc_order d, stage_target = sc_target d, stage_trigger = sc_trigger d,
      stage_config = sc_config d, stage_start = sc_start d, stage_status = StagePending,
      stage_completed_at = None, stage_updated = now\<rparr>"

definition create_rollout_schedule ::
  "int \<Rightarrow> pstr \<Rightarrow> pstr list \<Rightarrow> schedule_create \<Rightarrow> rollout_db \<Rightarrow> rollout_error + rollout_db" where
  "create_rollout_schedule now sid stids d db =
     (if get_rollout_flag db (rc_flag d) = None then Inl RolloutValueError
      else check_rollout (db
        \<lparr>schedules := schedules db @
           [\<lparr>sched_id = sid, sched_name = rc_name d, sched_description = rc_description d,
             sched_flag = rc_flag d, sched_status = SchedDraft, sched_start = rc_start d,
             sched_end = rc_end d, sched_max_percentage = rc_max d,
             sched_min_duration = rc_min_duration d, sched_updated = now\<rparr>],
         stages := stages db @ map (\<lambda>(stid, s). created_stage now sid stid s) (zip stids (rc_stages d))\<rparr>))"

section \<open>Updates of a schedule\<close>

text \<open>
  The members of the two enumerations of the same name, the model's and the schema's: members of
  different enumerations are never equal, whatever their values.
\<close>

datatype enum_class = ModelEnum | SchemaEnum

definition allowed_transitions :: "enum_class \<times> schedule_status \<Rightarrow> (enum_class \<times> schedule_status) list" where
  "allowed_transitions current =
     map (Pair ModelEnum) (case current of
         (ModelEnum, SchedDraft) \<Rightarrow> [SchedActive, SchedCancelled]
       | (ModelEnum, SchedActive) \<Rightarrow> [SchedPaused, SchedCompleted, SchedCancelled]
       | (ModelEnum, SchedPaused) \<Rightarrow> [SchedActive, SchedCancelled]
       | _ \<Rightarrow> [])"

definition validate_status_transition ::
  "enum_class \<times> schedule_status \<Rightarrow> enum_class \<times> schedule_status \<Rightarrow> bool" where
  "validate_status_transition current new = (new \<in> set (allowed_transitions current))"

text \<open>
  A sent field is \<open>Some\<close>; \<open>Some None\<close> is a sent null, which a column that may not be null refuses at
  the commit. Sent stages are dumped to dictionaries before the loop reads their attribute \<^verbatim>\<open>id\<close>, so
  none is found and the loop changes nothing.
\<close>

record schedule_update =
  ru_name :: "pstr option option"
  ru_description :: "pstr option option"
  ru_start :: "int option option"
  ru_end :: "int option option"
  ru_max :: "int option option"
  ru_min_duration :: "int option option"
  ru_status :: "schedule_status option option"

definition sent_value :: "'a option option \<Rightarrow> 'a option" where
  "sent_value sent = Option.bind sent (\<lambda>v. v)"

definition update_rollout_schedule ::
  "int \<Rightarrow> rollout_db \<Rightarrow> pstr \<Rightarrow> schedule_update \<Rightarrow> rollout_db \<Rightarrow> rollout_error + rollout_db option" where
  "update_rollout_schedule now seen sid d db =
     (case get_rollout_schedule seen sid of
        None \<Rightarrow> Inr None
      | Some s \<Rightarrow>
          ebind (case sent_value (ru_status d) of
                   None \<Rightarrow> Inr ()
                 | Some st \<Rightarrow>
                     let sent = (SchemaEnum, st); current = (ModelEnum, sched_status s) in
                     if sent \<noteq> current then
                       if \<not> validate_status_transition current sent then Inl RolloutValueError
                       else if sent = (ModelEnum, SchedActive) \<and> stages_of sid (stages seen) = []
                       then Inl RolloutValueError else Inr ()
                     else Inr ()) (\<lambda>_.
          if ru_status d = Some None \<or> ru_name d = Some None \<or> ru_max d = Some None
          then Inl RolloutIntegrityError
          else ebind (write_schedule sid (\<lambda>r. touch_schedule now r
              (upd (sent_value (ru_status d)) (\<lambda>v r. r\<lparr>sched_status := v\<rparr>)
              (upd (ru_min_duration d) (\<lambda>v r. r\<lparr>sched_min_duration := v\<rparr>)
              (upd (sent_value (ru_max d)) (\<lambda>v r. r\<lparr>sched_max_percentage := v\<rparr>)
              (upd (ru_end d) (\<lambda>v r. r\<lparr>sched_end := v\<rparr>)
              (upd (ru_start d) (\<lambda>v r. r\<lparr>sched_start := v\<rparr>)
              (upd (ru_description d) (\<lambda>v r. r\<lparr>sched_description := v\<rparr>)
              (upd (sent_value (ru_name d)) (\<lambda>v r. r\<lparr>sched_name := v\<rparr>) r)))))))) db)
            (\<lambda>db'. emap Some (check_rollout db'))))"

section \<open>Status requests\<close>

text \<open>The column is written only when the value differs from the one read.\<close>

definition status_write ::
  "int \<Rightarrow> rollout_schedule \<Rightarrow> schedule_status \<Rightarrow> rollout_db \<Rightarrow> rollout_error + rollout_db option" where
  "status_write now s st db =
     (if sched_status s = st then Inr (Some db)
      else emap Some (write_schedule (sched_id s) (\<lambda>r. r\<lparr>sched_status := st, sched_updated := now\<rparr>) db))"

definition activate_rollout_schedule ::
  "int \<Rightarrow> rollout_db \<Rightarrow> pstr \<Rightarrow> rollout_db \<Rightarrow> rollout_error + rollout_db option" where
  "activate_rollout_schedule now seen sid db =
     (case get_rollout_schedule seen sid of
        None \<Rightarrow> Inr None
      | Some s \<Rightarrow>
          if sched_status s \<noteq> SchedDraft \<and> sched_status s \<noteq> SchedPaused then Inl RolloutValueError
          else if stages_of sid (stages seen) = [] then Inl RolloutValueError
          else status_write now s SchedActive db)"

definition pause_rollout_schedule ::
  "int \<Rightarrow> rollout_db \<Rightarrow> pstr \<Rightarrow> rollout_db \<Rightarrow> rollout_error + rollout_db option" where
  "pause_rollout_schedule now seen sid db =
     (case get_rollout_schedule seen sid of
        None \<Rightarrow> Inr None
      | Some s \<Rightarrow>
          if sched_status s \<noteq> SchedActive then Inl RolloutValueError
          else status_write now s SchedPaused db)"

definition cancel_rollout_schedule ::
  "int \<Rightarrow> rollout_db \<Rightarrow> pstr \<Rightarrow> rollout_db \<Rightarrow> rollout_error + rollout_db option" where
  "cancel_rollout_schedule now seen sid db =
     (case get_rollout_schedule seen sid of
        None \<Rightarrow> Inr None
      | Some s \<Rightarrow>
          if sched_status s = SchedCompleted then Inl RolloutValueError
          else status_write now s SchedCancelled db)"

definition delete_rollout_schedule ::
  "rollout_db \<Rightarrow> pstr \<Rightarrow> rollout_db \<Rightarrow> rollout_error + rollout_db option" where
  "delete_rollout_schedule seen sid db =
     (case get_rollout_schedule seen sid of
        None \<Rightarrow> Inr None
      | Some s \<Rightarrow>
          if sched_status s = SchedActive then Inl RolloutValueError
          else Inr (Some (db\<lparr>schedules := filter (\<lambda>r. sched_id r \<noteq> sid) (schedules db),
                             stages := filter (\<lambda>r. stage_schedule r \<noteq> sid) (stages db)\<rparr>)))"

end
