(* ===== verification/Rollout_Stages.thy ===== *)
theory Rollout_Stages
  imports Rollout_Schedule
begin

text \<open>
  The stages of a rollout schedule: the requests that add, change, delete and advance one, and the
  tick of the scheduler (\<^verbatim>\<open>core/rollout_scheduler.py\<close>), which completes the stage in progress and
  starts the next. Both set the flag's percentage.
\<close>

section \<open>Adding, changing and deleting a stage\<close>

text \<open>The rows a query selected are moved by one; their \<^verbatim>\<open>updated_at\<close> follows.\<close>

definition shift_stages ::
  "int \<Rightarrow> (rollout_stage \<Rightarrow> bool) \<Rightarrow> int \<Rightarrow> rollout_stage list \<Rightarrow> rollout_stage list" where
  "shift_stages now selected d ss =
     map (\<lambda>s. if selected s then s\<lparr>stage_order := stage_order s + d, stage_updated := now\<rparr> else s) ss"

definition max_stage_order :: "pstr \<Rightarrow> rollout_stage list \<Rightarrow> int" where
  "max_stage_order sid ss =
     (case map stage_order (stages_of sid ss) of [] \<Rightarrow> 0 | n # ns \<Rightarrow> foldl max n ns)"

definition add_rollout_stage ::
  "int \<Rightarrow> pstr \<Rightarrow> pstr \<Rightarrow> stage_create \<Rightarrow> rollout_db \<Rightarrow> rollout_error + rollout_db option" where
  "add_rollout_stage now new_id sid d db =
     (case get_rollout_schedule db sid of
        None \<Rightarrow> Inr None
      | Some _ \<Rightarrow>
          (let moved = (if sc_order d \<le> max_stage_order sid (stages db)
                        then shift_stages now (\<lambda>s. stage_schedule s = sid \<and> sc_order d \<le> stage_order s) 1 (stages db)
                        else stages db) in
           emap Some (check_rollout (db\<lparr>stages := moved @ [created_stage now sid new_id d]\<rparr>))))"

record stage_update =
  su_name :: "pstr option option"
  su_description :: "pstr option option"
  su_order :: "int option option"
  su_target :: "int option option"
  su_trigger :: "trigger_type option option"
  su_config :: "pyval option"
  su_start :: "int option option"

definition move_stages ::
  "int \<Rightarrow> rollout_stage \<Rightarrow> int \<Rightarrow> rollout_stage list \<Rightarrow> rollout_stage list" where
  "move_stages now s new ss =
     (let other = (\<lambda>r. stage_schedule r = stage_schedule s \<and> stage_id r \<noteq> stage_id s) in
      if stage_order s < new
      then shift_stages now (\<lambda>r. other r \<and> stage_order s < stage_order r \<and> stage_order r \<le> new) (- 1) ss
      else shift_stages now (\<lambda>r. other r \<and> stage_order r < stage_order s \<and> new \<le> stage_order r) 1 ss)"

definition stage_fields :: "stage_update \<Rightarrow> rollout_stage \<Rightarrow> rollout_stage" where
  "stage_fields d r =
     upd (su_start d) (\<lambda>v r. r\<lparr>stage_start := v\<rparr>)
     (upd (su_config d) (\<lambda>v r. r\<lparr>stage_config := v\<rparr>)
     (upd (sent_value (su_trigger d)) (\<lambda>v r. r\<lparr>stage_trigger := v\<rparr>)
     (upd (sent_value (su_target d)) (\<lambda>v r. r\<lparr>stage_target := v\<rparr>)
     (upd (sent_value (su_order d)) (\<lambda>v r. r\<lparr>stage_order := v\<rparr>)
     (upd (su_description d) (\<lambda>v r. r\<lparr>stage_description := v\<rparr>)
     (upd (sent_value (su_name d)) (\<lambda>v r. r\<lparr>stage_name := v\<rparr>) r))))))"

definition update_rollout_stage ::
  "int \<Rightarrow> pstr \<Rightarrow> stage_update \<Rightarrow> rollout_db \<Rightarrow> rollout_error + rollout_db option" where
  "update_rollout_stage now stid d db =
     (case get_stage db stid of
        None \<Rightarrow> Inr None
      | Some s \<Rightarrow>
          ebind (case sent_value (su_order d) of
                   None \<Rightarrow> Inr (stages db)
                 | Some new \<Rightarrow>
                     if new = stage_order s then Inr (stages db)
                     else if get_rollout_schedule db (stage_schedule s) = None then Inl RolloutValueError
                     else if stage_status s \<noteq> StagePending then Inl RolloutValueError
                     else Inr (move_stages now s new (stages db))) (\<lambda>moved.
          if su_trigger d = Some None then Inl RolloutAttributeError
          else if su_name d = Some None \<or> su_order d = Some None \<or> su_target d = Some None
          then Inl RolloutIntegrityError
          else emap Some (check_rollout (db\<lparr>stages :=
            map (\<lambda>r. if stage_id r = stid then touch_stage now r (stage_fields d r) else r) moved\<rparr>))))"

text \<open>\<^verbatim>\<open>delete_rollout_stage\<close>: \<open>Inr None\<close> is the answer \<^verbatim>\<open>False\<close>.\<close>

definition delete_rollout_stage ::
  "int \<Rightarrow> pstr \<Rightarrow> rollout_db \<Rightarrow> rollout_error + rollout_db option" where
  "delete_rollout_stage now stid db =
     (case get_stage db stid of
        None \<Rightarrow> Inr None
      | Some s \<Rightarrow>
          if stage_status s \<noteq> StagePending then Inl RolloutValueError
          else (case get_rollout_schedule db (stage_schedule s) of
              None \<Rightarrow> Inr None
            | Some r \<Rightarrow>
                if sched_status r = SchedActive then Inl RolloutValueError
                else Inr (Some (db\<lparr>stages := filter (\<lambda>x. stage_id x \<noteq> stid)
                  (shift_stages now (\<lambda>x. stage_schedule x = stage_schedule s \<and> stage_order s < stage_order x)
                     (- 1) (stages db))\<rparr>))))"

section \<open>Pending stages in order\<close>

definition pending_stages :: "pstr \<Rightarrow> rollout_stage list \<Rightarrow> rollout_stage list" where
  "pending_stages sid ss =
     sort_key stage_order (filter (\<lambda>s. stage_schedule s = sid \<and> stage_status s = StagePending) ss)"

definition start_write :: "int \<Rightarrow> rollout_stage \<Rightarrow> rollout_stage" where
  "start_write now r = r\<lparr>stage_status := StageInProgress, stage_updated := now\<rparr>"

definition complete_write :: "int \<Rightarrow> rollout_stage \<Rightarrow> rollout_stage" where
  "complete_write now r =
     r\<lparr>stage_status := StageCompleted, stage_completed_at := Some now, stage_updated := now\<rparr>"

section \<open>The manual advance\<close>

text \<open>
  The stage and the first check use unlocked reads (\<open>seen\<close>); the flag and the schedule are read
  again under the lock (\<open>db\<close>), the stage is not.
\<close>

definition advance_locked ::
  "int \<Rightarrow> rollout_stage \<Rightarrow> rollout_schedule \<Rightarrow> rollout_db \<Rightarrow> rollout_error + rollout_db" where
  "advance_locked now s sched db =
     (if stage_status s = StagePending then
        emap (set_percentage now (sched_flag sched) (stage_target s))
          (write_stage (stage_id s) (start_write now) db)
      else
        ebind (write_stage (stage_id s) (complete_write now) db) (\<lambda>db1.
          case filter (\<lambda>r. stage_order s < stage_order r) (pending_stages (sched_id sched) (stages db1)) of
            next_stage # _ \<Rightarrow>
              emap (set_percentage now (sched_flag sched) (stage_target next_stage))
                (write_stage (stage_id next_stage) (start_write now) db1)
          | [] \<Rightarrow>
              write_schedule (sched_id sched) (\<lambda>r. r\<lparr>sched_status := SchedCompleted, sched_updated := now\<rparr>) db1))"

definition manually_advance_stage ::
  "int \<Rightarrow> rollout_db \<Rightarrow> pstr \<Rightarrow> rollout_db \<Rightarrow> rollout_error + rollout_db option" where
  "manually_advance_stage now seen stid db =
     (case get_stage seen stid of
        None \<Rightarrow> Inr None
      | Some s \<Rightarrow>
          if stage_trigger s \<noteq> Manual then Inl RolloutValueError
          else if stage_status s \<noteq> StagePending \<and> stage_status s \<noteq> StageInProgress then Inl RolloutValueError
          else (case get_rollout_schedule seen (stage_schedule s) of
              None \<Rightarrow> Inl RolloutValueError
            | Some early \<Rightarrow>
                if sched_status early \<noteq> SchedActive then Inl RolloutValueError
                else (case get_rollout_schedule db (stage_schedule s) of
                    None \<Rightarrow> Inl RolloutValueError
                  | Some sched \<Rightarrow>
                      if sched_status sched \<noteq> SchedActive then Inl RolloutValueError
                      else emap Some (advance_locked now s sched db))))"

section \<open>The scheduler\<close>

text \<open>
  \<^verbatim>\<open>timedelta(hours=v)\<close> in microseconds; a float's rounding is an argument. Adding it to an instant
  raises \<^verbatim>\<open>OverflowError\<close> outside the years 1 to 9999.
\<close>

definition HOUR :: int where "HOUR = 3600 * 1000000"
definition DATETIME_MIN :: int where "DATETIME_MIN = - 62135596800000000"
definition DATETIME_MAX :: int where "DATETIME_MAX = 253402300799999999"

definition timedelta_hours :: "(pyfloat \<Rightarrow> int res) \<Rightarrow> pyval \<Rightarrow> int res" where
  "timedelta_hours float_hours v =
     (let whole = (\<lambda>n. if - 999999999 \<le> n div 24 \<and> n div 24 \<le> 999999999 then Inr (HOUR * n)
                       else Inl PyOverflowError) in
      case v of
        PInt n \<Rightarrow> whole n
      | PBool b \<Rightarrow> whole (if b then 1 else 0)
      | PFloat x \<Rightarrow> float_hours x
      | _ \<Rightarrow> Inl PyTypeError)"

definition add_delta :: "int \<Rightarrow> int \<Rightarrow> int res" where
  "add_delta t d =
     (if DATETIME_MIN \<le> t + d \<and> t + d \<le> DATETIME_MAX then Inr (t + d) else Inl PyOverflowError)"

definition stage_duration :: "pyval \<Rightarrow> pyval res" where
  "stage_duration config =
     (if \<not> truthy config then Inr (PInt 24)
      else case config of
        PDict d \<Rightarrow> Inr (case map_of d (str ''duration'') of None \<Rightarrow> PInt 24 | Some v \<Rightarrow> v)
      | _ \<Rightarrow> Inl PyAttributeError)"

definition is_stage_eligible_for_activation :: "rollout_stage \<Rightarrow> int \<Rightarrow> bool" where
  "is_stage_eligible_for_activation s now =
     (stage_status s = StagePending \<and> stage_trigger s = TimeBased \<and>
      (case stage_start s of None \<Rightarrow> True | Some t \<Rightarrow> t \<le> now))"

definition is_stage_eligible_for_completion ::
  "(pyfloat \<Rightarrow> int res) \<Rightarrow> rollout_stage \<Rightarrow> int \<Rightarrow> bool res" where
  "is_stage_eligible_for_completion float_hours s now =
     (if stage_status s \<noteq> StageInProgress \<or> stage_trigger s \<noteq> TimeBased then Inr False
      else ebind (stage_duration (stage_config s)) (\<lambda>v.
           ebind (timedelta_hours float_hours v) (\<lambda>d.
           emap (\<lambda>t. t \<le> now) (add_delta (stage_updated s) d))))"

definition lock_active_schedule :: "pstr \<Rightarrow> rollout_db \<Rightarrow> rollout_error + rollout_schedule" where
  "lock_active_schedule sid db =
     (case get_rollout_schedule db sid of
        None \<Rightarrow> Inl (ScheduleNoLongerActive None)
      | Some s \<Rightarrow>
          if sched_status s = SchedActive then Inr s
          else Inl (ScheduleNoLongerActive (Some (sched_status s))))"

text \<open>What a stage start tells the notification service: flag, stage name, percentage.\<close>

type_synonym rollout_notice = "pstr \<times> pstr \<times> int"

definition activate_stage ::
  "int \<Rightarrow> rollout_schedule \<Rightarrow> rollout_stage \<Rightarrow> rollout_db \<Rightarrow> rollout_error + rollout_db" where
  "activate_stage now sched s db =
     ebind (lock_active_schedule (sched_id sched) db) (\<lambda>_.
       if get_rollout_flag db (sched_flag sched) = None then Inl RolloutLookupError
       else emap (set_percentage now (sched_flag sched) (stage_target s))
         (write_stage (stage_id s) (start_write now) db))"

definition next_pending :: "rollout_stage \<Rightarrow> rollout_stage list \<Rightarrow> rollout_stage option" where
  "next_pending current pending =
     (case filter (\<lambda>s. stage_order current < stage_order s) pending of
        s # _ \<Rightarrow> Some s
      | [] \<Rightarrow> (case pending of [] \<Rightarrow> None | s # _ \<Rightarrow> Some s))"

definition min_duration_left :: "int \<Rightarrow> rollout_schedule \<Rightarrow> rollout_stage \<Rightarrow> bool" where
  "min_duration_left now sched current =
     (case sched_min_duration sched of
        None \<Rightarrow> False
      | Some h \<Rightarrow> 0 < h \<and> now - stage_updated current < HOUR * h)"

text \<open>
  \<^verbatim>\<open>_process_schedule\<close>: whether it changed the schedule, the notices (one for each started stage),
  and the tables. \<open>seen\<close> are the rows its queries read, \<open>db\<close> those it writes and locks.
\<close>

definition process_schedule ::
  "(pyfloat \<Rightarrow> int res) \<Rightarrow> int \<Rightarrow> rollout_db \<Rightarrow> rollout_schedule \<Rightarrow> rollout_db \<Rightarrow>
     rollout_error + bool \<times> rollout_notice list \<times> rollout_db" where
  "process_schedule float_hours now seen sched db =
     (let pending = pending_stages (sched_id sched) (stages seen);
          started = (\<lambda>s db. (True, [(sched_flag sched, stage_name s, stage_target s)], db)) in
      case find (\<lambda>s. stage_schedule s = sched_id sched \<and> stage_status s = StageInProgress) (stages seen) of
        None \<Rightarrow>
          (case pending of
             [] \<Rightarrow> Inr (False, [], db)
           | s # _ \<Rightarrow>
               if \<not> is_stage_eligible_for_activation s now then Inr (False, [], db)
               else emap (started s) (activate_stage now sched s db))
      | Some current \<Rightarrow>
          ebind (case is_stage_eligible_for_completion float_hours current now of
                   Inl e \<Rightarrow> Inl (RolloutRaised e) | Inr b \<Rightarrow> Inr b) (\<lambda>due.
          if \<not> due then Inr (False, [], db)
          else
            (let following = next_pending current pending in
             if following \<noteq> None \<and> min_duration_left now sched current then Inr (False, [], db)
             else ebind (write_stage (stage_id current) (complete_write now) db) (\<lambda>db1.
               case following of
                 Some s \<Rightarrow>
                   if is_stage_eligible_for_activation s now
                   then emap (started s) (activate_stage now sched s db1)
                   else Inr (True, [], db1)
               | None \<Rightarrow>
                   ebind (lock_active_schedule (sched_id sched) db1) (\<lambda>_.
                   emap (\<lambda>db2. (True, [], db2))
                     (write_schedule (sched_id sched)
                       (\<lambda>r. r\<lparr>sched_status := SchedCompleted, sched_updated := now\<rparr>) db1))))))"

text \<open>
  \<^verbatim>\<open>process_rollout_schedules\<close>: every schedule active at the start of the tick and not past its end,
  each in a transaction of its own; an exception undoes that schedule alone.
\<close>

record tick_report =
  items_processed :: nat
  items_failed :: nat
  stage_transitions :: nat
  schedules_skipped :: nat

definition due_schedules :: "int \<Rightarrow> rollout_db \<Rightarrow> rollout_schedule list" where
  "due_schedules now db =
     filter (\<lambda>s. sched_status s = SchedActive \<and> (case sched_end s of None \<Rightarrow> True | Some t \<Rightarrow> now < t))
       (schedules db)"

fun process_each ::
  "(pyfloat \<Rightarrow> int res) \<Rightarrow> int \<Rightarrow> rollout_schedule list \<Rightarrow> tick_report \<times> rollout_db \<Rightarrow>
     tick_report \<times> rollout_db" where
  "process_each float_hours now [] (report, db) = (report, db)"
| "process_each float_hours now (s # ss) (report, db) =
     process_each float_hours now ss
       (case process_schedule float_hours now db s db of
          Inl (ScheduleNoLongerActive _) \<Rightarrow>
            (report\<lparr>schedules_skipped := Suc (schedules_skipped report)\<rparr>, db)
        | Inl _ \<Rightarrow> (report\<lparr>items_failed := Suc (items_failed report)\<rparr>, db)
        | Inr (updated, notices, db') \<Rightarrow>
            (report\<lparr>items_processed := items_processed report + (if updated then 1 else 0),
               stage_transitions := stage_transitions report + length notices\<rparr>, db'))"

definition process_rollout_schedules ::
  "(pyfloat \<Rightarrow> int res) \<Rightarrow> int \<Rightarrow> rollout_db \<Rightarrow> tick_report \<times> rollout_db" where
  "process_rollout_schedules float_hours now db =
     process_each float_hours now (due_schedules now db)
       (\<lparr>items_processed = 0, items_failed = 0, stage_transitions = 0, schedules_skipped = 0\<rparr>, db)"

end
