(* ===== verification/Rollout_Facts.thy ===== *)
theory Rollout_Facts
  imports Rollout_Stages
begin

text \<open>
  What a rollout schedule promises, over every sequence of requests and ticks: a completed or
  cancelled schedule keeps its status, a started stage is never deleted and only moves forward, a
  flag's percentage changes only to the target of a pending stage of an active schedule, and the
  orders of a schedule's stages stay distinct.
\<close>

section \<open>Rows\<close>

lemma get_rollout_scheduleE:
  assumes "get_rollout_schedule db sid = Some s"
  shows "s \<in> set (schedules db)" "sched_id s = sid"
  using assms by (auto simp: get_rollout_schedule_def find_Some_iff)

lemma get_stageE:
  assumes "get_stage db stid = Some s"
  shows "s \<in> set (stages db)" "stage_id s = stid"
  using assms by (auto simp: get_stage_def find_Some_iff)

definition ids_ok :: "rollout_db \<Rightarrow> bool" where
  "ids_ok db = (distinct (map sched_id (schedules db)) \<and> distinct (map stage_id (stages db)))"

lemma check_rollout_Inr:
  "check_rollout db = Inr db' \<longleftrightarrow> db' = db \<and> ids_ok db \<and>
     list_all schedule_row_ok (schedules db) \<and> list_all stage_row_ok (stages db)"
  by (auto simp: check_rollout_def ids_ok_def)

lemma same_stage:
  assumes "ids_ok db" and "s \<in> set (stages db)" and "t \<in> set (stages db)" and "stage_id s = stage_id t"
  shows "s = t"
  using assms by (simp add: ids_ok_def distinct_map inj_on_def)

lemma same_schedule:
  assumes "ids_ok db" and "s \<in> set (schedules db)" and "t \<in> set (schedules db)" and "sched_id s = sched_id t"
  shows "s = t"
  using assms by (simp add: ids_ok_def distinct_map inj_on_def)

text \<open>What may become of a schedule and of a stage that has started.\<close>

definition terminal :: "schedule_status \<Rightarrow> bool" where
  "terminal st = (st = SchedCompleted \<or> st = SchedCancelled)"

definition sched_kept :: "rollout_schedule \<Rightarrow> rollout_schedule \<Rightarrow> bool" where
  "sched_kept r r' =
     (sched_id r' = sched_id r \<and> sched_flag r' = sched_flag r \<and>
      (terminal (sched_status r) \<longrightarrow> sched_status r' = sched_status r) \<and>
      (sched_status r \<noteq> SchedDraft \<longrightarrow> sched_status r' \<noteq> SchedDraft))"

definition stage_kept :: "rollout_stage \<Rightarrow> rollout_stage \<Rightarrow> bool" where
  "stage_kept s s' =
     (stage_id s' = stage_id s \<and> stage_schedule s' = stage_schedule s \<and>
      (stage_status s = StageInProgress \<longrightarrow> stage_status s' = StageInProgress \<or> stage_status s' = StageCompleted) \<and>
      (stage_status s = StageCompleted \<longrightarrow>
         stage_status s' = StageCompleted \<and> stage_completed_at s' = stage_completed_at s) \<and>
      (stage_status s = StageFailed \<longrightarrow> stage_status s' = StageFailed))"

lemma sched_kept_refl [simp]: "sched_kept r r"
  by (simp add: sched_kept_def)

lemma sched_kept_trans: "sched_kept a b \<Longrightarrow> sched_kept b c \<Longrightarrow> sched_kept a c"
  by (auto simp: sched_kept_def)

lemma stage_kept_refl [simp]: "stage_kept s s"
  by (simp add: stage_kept_def)

lemma stage_kept_trans: "stage_kept a b \<Longrightarrow> stage_kept b c \<Longrightarrow> stage_kept a c"
  by (auto simp: stage_kept_def)

definition schedule_life :: "pstr \<Rightarrow> rollout_db \<Rightarrow> rollout_db \<Rightarrow> bool" where
  "schedule_life sid db db' =
     ((\<forall>r\<in>set (schedules db). sched_id r = sid \<longrightarrow> (\<exists>r'\<in>set (schedules db'). sched_kept r r')) \<and>
      (\<forall>s\<in>set (stages db). stage_schedule s = sid \<and> stage_status s \<noteq> StagePending \<longrightarrow>
         (\<exists>s'\<in>set (stages db'). stage_kept s s')))"

lemma schedule_life_refl: "schedule_life sid db db"
  by (auto simp: schedule_life_def intro: stage_kept_refl sched_kept_refl)

lemma schedule_life_trans:
  assumes "schedule_life sid a b" and "schedule_life sid b c"
  shows "schedule_life sid a c"
proof -
  have "\<exists>r'\<in>set (schedules c). sched_kept r r'" if r: "r \<in> set (schedules a)" "sched_id r = sid" for r
  proof -
    obtain r1 where r1: "r1 \<in> set (schedules b)" "sched_kept r r1"
      using assms(1) r unfolding schedule_life_def by blast
    then have "sched_id r1 = sid" using r(2) by (simp add: sched_kept_def)
    then obtain r2 where "r2 \<in> set (schedules c)" "sched_kept r1 r2"
      using assms(2) r1(1) unfolding schedule_life_def by blast
    with r1(2) show ?thesis using sched_kept_trans by blast
  qed
  moreover have "\<exists>s'\<in>set (stages c). stage_kept s s'"
    if s: "s \<in> set (stages a)" "stage_schedule s = sid" "stage_status s \<noteq> StagePending" for s
  proof -
    obtain s1 where s1: "s1 \<in> set (stages b)" "stage_kept s s1"
      using assms(1) s unfolding schedule_life_def by blast
    then have "stage_schedule s1 = sid" "stage_status s1 \<noteq> StagePending"
      using s(2,3) by (cases "stage_status s"; auto simp: stage_kept_def)+
    then obtain s2 where "s2 \<in> set (stages c)" "stage_kept s1 s2"
      using assms(2) s1(1) unfolding schedule_life_def by blast
    with s1(2) show ?thesis using stage_kept_trans by blast
  qed
  ultimately show ?thesis unfolding schedule_life_def by blast
qed

text \<open>Tables that are mapped and extended row by row.\<close>

lemma schedule_life_map:
  assumes "schedules db' = map g (schedules db) @ new_schedules"
    and "stages db' = map f (stages db) @ new_stages"
    and "\<And>r. r \<in> set (schedules db) \<Longrightarrow> sched_id r = sid \<Longrightarrow> sched_kept r (g r)"
    and "\<And>s. s \<in> set (stages db) \<Longrightarrow> stage_status s \<noteq> StagePending \<Longrightarrow> stage_kept s (f s)"
  shows "schedule_life sid db db'"
  unfolding schedule_life_def assms(1,2)
proof (intro conjI ballI impI)
  show "\<exists>r'\<in>set (map g (schedules db) @ new_schedules). sched_kept r r'"
    if "r \<in> set (schedules db)" "sched_id r = sid" for r
    using that assms(3) by (intro bexI [of _ "g r"]) simp_all
  show "\<exists>s'\<in>set (map f (stages db) @ new_stages). stage_kept s s'"
    if "s \<in> set (stages db)" "stage_schedule s = sid \<and> stage_status s \<noteq> StagePending" for s
    using that assms(4) by (intro bexI [of _ "f s"]) simp_all
qed

lemma stage_kept_touch: "stage_kept s t \<Longrightarrow> stage_kept s (touch_stage now s t)"
  by (auto simp: stage_kept_def touch_stage_def)

lemma sched_kept_touch: "sched_kept s t \<Longrightarrow> sched_kept s (touch_schedule now s t)"
  by (auto simp: sched_kept_def touch_schedule_def)

lemma upd_keeps: "(\<And>v r. h (set_field v r) = h r) \<Longrightarrow> h (upd sent set_field r) = h r"
  by (simp add: upd_def split: option.split)

section \<open>Effects of the operations\<close>

text \<open>The effect every operation has: unique ids stay unique, and the schedule lives on.\<close>

definition lives_on :: "pstr \<Rightarrow> rollout_db \<Rightarrow> rollout_db \<Rightarrow> bool" where
  "lives_on sid db db' = (ids_ok db' \<and> schedule_life sid db db')"

lemma lives_on_refl: "ids_ok db \<Longrightarrow> lives_on sid db db"
  by (simp add: lives_on_def schedule_life_refl)

lemma lives_on_trans: "lives_on sid a b \<Longrightarrow> lives_on sid b c \<Longrightarrow> lives_on sid a c"
  using schedule_life_trans by (auto simp: lives_on_def)

lemma map_ids:
  "(\<And>s. h (f s) = h s) \<Longrightarrow> map h (map f xs) = map h xs"
  by simp

lemma write_stage_lives:
  assumes "ids_ok db" and "write_stage stid f db = Inr db'"
    and "\<And>s. stage_id (f s) = stage_id s"
    and "\<And>s. s \<in> set (stages db) \<Longrightarrow> stage_id s = stid \<Longrightarrow> stage_status s \<noteq> StagePending \<Longrightarrow> stage_kept s (f s)"
  shows "lives_on sid db db'"
proof -
  let ?f = "\<lambda>s. if stage_id s = stid then f s else s"
  have db': "db' = db\<lparr>stages := map ?f (stages db)\<rparr>"
    using assms(2) by (auto simp: write_stage_def split: if_splits)
  have "ids_ok db'"
    using assms(1,3) by (simp add: ids_ok_def db' if_distrib comp_def cong: if_cong)
  moreover have "schedule_life sid db db'"
    by (rule schedule_life_map [of _ "\<lambda>r. r" _ "[]" ?f "[]"]) (use assms(4) in \<open>auto simp: db'\<close>)
  ultimately show ?thesis by (simp add: lives_on_def)
qed

lemma write_schedule_lives:
  assumes "ids_ok db" and "write_schedule sid' f db = Inr db'"
    and "\<And>s. sched_id (f s) = sched_id s"
    and "\<And>s. s \<in> set (schedules db) \<Longrightarrow> sched_id s = sid' \<Longrightarrow> sched_kept s (f s)"
  shows "lives_on sid db db'"
proof -
  let ?f = "\<lambda>s. if sched_id s = sid' then f s else s"
  have db': "db' = db\<lparr>schedules := map ?f (schedules db)\<rparr>"
    using assms(2) by (auto simp: write_schedule_def split: if_splits)
  have "ids_ok db'"
    using assms(1,3) by (simp add: ids_ok_def db' if_distrib comp_def cong: if_cong)
  moreover have "schedule_life sid db db'"
    by (rule schedule_life_map [of _ ?f _ "[]" "\<lambda>s. s" "[]"]) (use assms(4) in \<open>auto simp: db'\<close>)
  ultimately show ?thesis by (simp add: lives_on_def)
qed

lemma set_percentage_tables [simp]:
  "schedules (set_percentage now fid p db) = schedules db"
  "stages (set_percentage now fid p db) = stages db"
  by (simp_all add: set_percentage_def)

lemma set_percentage_lives: "lives_on sid db (set_percentage now fid p db') = lives_on sid db db'"
  by (simp add: lives_on_def ids_ok_def schedule_life_def)

lemma start_write_lives:
  assumes "ids_ok db" and "write_stage (stage_id s) (start_write now) db = Inr db'"
    and "s \<in> set (stages db)" and "stage_status s = StagePending"
  shows "lives_on sid db db'"
  using assms(1,2)
  by (rule write_stage_lives) (use same_stage [OF assms(1) _ assms(3)] assms(4) in \<open>auto simp: start_write_def\<close>)

lemma complete_write_lives:
  assumes "ids_ok db" and "write_stage (stage_id s) (complete_write now) db = Inr db'"
    and "s \<in> set (stages db)" and "stage_status s = StageInProgress"
  shows "lives_on sid db db'"
proof (rule write_stage_lives [OF assms(1,2)])
  fix r assume "r \<in> set (stages db)" "stage_id r = stage_id s"
  then have "r = s" using same_stage [OF assms(1) _ assms(3)] by blast
  then show "stage_kept r (complete_write now r)" using assms(4) by (simp add: complete_write_def stage_kept_def)
qed (simp add: complete_write_def)

lemma complete_schedule_lives:
  assumes "ids_ok db" and "get_rollout_schedule db sid' = Some r" and "\<not> terminal (sched_status r)"
    and "st \<noteq> SchedDraft"
    and "write_schedule sid' (\<lambda>r. r\<lparr>sched_status := st, sched_updated := now\<rparr>) db = Inr db'"
  shows "lives_on sid db db'"
proof (rule write_schedule_lives [OF assms(1,5)])
  fix s assume "s \<in> set (schedules db)" "sched_id s = sid'"
  then have "s = r" using get_rollout_scheduleE [OF assms(2)] same_schedule [OF assms(1)] by auto
  then show "sched_kept s (s\<lparr>sched_status := st, sched_updated := now\<rparr>)"
    using assms(3,4) by (simp add: sched_kept_def)
qed simp

lemma pending_stagesE:
  assumes "s \<in> set (pending_stages sid ss)"
  shows "s \<in> set ss" "stage_schedule s = sid" "stage_status s = StagePending"
  using assms by (auto simp: pending_stages_def)

lemma next_pending_in: "next_pending current pending = Some s \<Longrightarrow> s \<in> set pending"
  by (auto simp: next_pending_def split: list.splits dest: filter_eq_ConsD)

lemma lock_active_scheduleE:
  assumes "lock_active_schedule sid db = Inr s"
  shows "get_rollout_schedule db sid = Some s" "sched_status s = SchedActive"
  using assms by (auto simp: lock_active_schedule_def split: option.splits if_splits)

lemma write_stage_other:
  assumes "write_stage stid f db = Inr db'" and "s \<in> set (stages db)" and "stage_id s \<noteq> stid"
  shows "s \<in> set (stages db')"
  using assms by (auto simp: write_stage_def split: if_splits)

lemma write_stage_tables:
  assumes "write_stage stid f db = Inr db'"
  shows "schedules db' = schedules db" "rollout_flags db' = rollout_flags db"
    "stages db' = map (\<lambda>s. if stage_id s = stid then f s else s) (stages db)"
  using assms by (auto simp: write_stage_def split: if_splits)

text \<open>The manual advance and the tick.\<close>

lemma advance_locked_lives:
  assumes "ids_ok db" and "s \<in> set (stages db)" and "stage_status s = StagePending \<or> stage_status s = StageInProgress"
    and "get_rollout_schedule db (stage_schedule s) = Some sched" and "sched_status sched = SchedActive"
    and "advance_locked now s sched db = Inr db'"
  shows "lives_on sid db db'"
proof (cases "stage_status s = StagePending")
  case True
  with assms(6) obtain db1 where "write_stage (stage_id s) (start_write now) db = Inr db1"
    and "db' = set_percentage now (sched_flag sched) (stage_target s) db1"
    by (auto simp: advance_locked_def exc_rules)
  then show ?thesis
    using start_write_lives [OF assms(1) _ assms(2) True] by (simp add: set_percentage_lives)
next
  case False
  then have p: "stage_status s = StageInProgress" using assms(3) by simp
  from False assms(6) obtain db1 where db1: "write_stage (stage_id s) (complete_write now) db = Inr db1"
    and rest: "(case filter (\<lambda>r. stage_order s < stage_order r) (pending_stages (sched_id sched) (stages db1)) of
        next_stage # _ \<Rightarrow>
          emap (set_percentage now (sched_flag sched) (stage_target next_stage))
            (write_stage (stage_id next_stage) (start_write now) db1)
      | [] \<Rightarrow> write_schedule (sched_id sched)
          (\<lambda>r. r\<lparr>sched_status := SchedCompleted, sched_updated := now\<rparr>) db1) = Inr db'"
    by (auto simp: advance_locked_def exc_rules)
  have l1: "lives_on sid db db1" using complete_write_lives [OF assms(1) db1 assms(2) p] .
  then have ok1: "ids_ok db1" by (simp add: lives_on_def)
  have g: "get_rollout_schedule db1 (sched_id sched) = Some sched"
    using assms(4) write_stage_tables(1) [OF db1] get_rollout_scheduleE [OF assms(4)]
    by (simp add: get_rollout_schedule_def)
  have "lives_on sid db1 db'"
  proof (cases "filter (\<lambda>r. stage_order s < stage_order r) (pending_stages (sched_id sched) (stages db1))")
    case Nil
    then show ?thesis
      using rest complete_schedule_lives [OF ok1 g] assms(5) by (auto simp: terminal_def)
  next
    case (Cons n ns)
    then have "n \<in> set (pending_stages (sched_id sched) (stages db1))"
      by (metis filter_is_subset list.set_intros(1) subset_iff)
    then show ?thesis
      using rest Cons start_write_lives [OF ok1 _ pending_stagesE(1,3)]
      by (auto simp: exc_rules set_percentage_lives)
  qed
  with l1 show ?thesis by (rule lives_on_trans)
qed

lemma activate_stage_lives:
  assumes "ids_ok db" and "s \<in> set (stages db)" and "stage_status s = StagePending"
    and "activate_stage now sched s db = Inr db'"
  shows "lives_on sid db db'"
  using assms start_write_lives [OF assms(1) _ assms(2,3)]
  by (auto simp: activate_stage_def exc_rules set_percentage_lives split: if_splits)

text \<open>What a tick does to one schedule: nothing, a start, or a completion and what follows it.\<close>

lemma process_schedule_cases:
  assumes "process_schedule fh now seen sched db = Inr (updated, notices, db')"
  obtains (idle) "db' = db" "notices = []" "\<not> updated"
    | (start) s where "updated" "s \<in> set (pending_stages (sched_id sched) (stages seen))"
      "\<forall>r\<in>set (stages seen). stage_schedule r = sched_id sched \<longrightarrow> stage_status r \<noteq> StageInProgress"
      "notices = [(sched_flag sched, stage_name s, stage_target s)]"
      "activate_stage now sched s db = Inr db'"
    | (finish) current db1 where "updated" "current \<in> set (stages seen)" "stage_schedule current = sched_id sched"
      "stage_status current = StageInProgress"
      "write_stage (stage_id current) (complete_write now) db = Inr db1"
      "(\<exists>s\<in>set (pending_stages (sched_id sched) (stages seen)).
          db' = db1 \<and> notices = [] \<or>
          activate_stage now sched s db1 = Inr db' \<and>
          notices = [(sched_flag sched, stage_name s, stage_target s)]) \<or>
       pending_stages (sched_id sched) (stages seen) = [] \<and> notices = [] \<and>
         (\<exists>r. lock_active_schedule (sched_id sched) db1 = Inr r) \<and>
         write_schedule (sched_id sched) (\<lambda>r. r\<lparr>sched_status := SchedCompleted, sched_updated := now\<rparr>) db1 =
           Inr db'"
proof (cases "find (\<lambda>s. stage_schedule s = sched_id sched \<and> stage_status s = StageInProgress) (stages seen)")
  case None
  then have none: "\<forall>r\<in>set (stages seen). stage_schedule r = sched_id sched \<longrightarrow> stage_status r \<noteq> StageInProgress"
    by (auto simp: find_None_iff)
  show ?thesis
  proof (cases "pending_stages (sched_id sched) (stages seen)")
    case Nil
    then show ?thesis using assms None idle by (simp add: process_schedule_def)
  next
    case (Cons s ss)
    then show ?thesis
      using assms None none idle start [of s]
      by (auto simp: process_schedule_def Let_def exc_rules split: if_splits)
  qed
next
  case (Some current)
  then have c: "current \<in> set (stages seen)" "stage_schedule current = sched_id sched"
    "stage_status current = StageInProgress"
    by (auto simp: find_Some_iff)
  show ?thesis
  proof (cases "next_pending current (pending_stages (sched_id sched) (stages seen))")
    case None
    then have "pending_stages (sched_id sched) (stages seen) = []"
      by (auto simp: next_pending_def split: list.splits)
    then show ?thesis
      using assms Some None c idle finish [OF _ c]
      by (auto simp: process_schedule_def Let_def exc_rules split: if_splits)
  next
    case (Some s)
    then show ?thesis
      using assms \<open>find _ _ = Some current\<close> c idle finish [OF _ c] next_pending_in [OF Some]
      by (auto simp: process_schedule_def Let_def exc_rules split: if_splits)
  qed
qed

lemma activate_stageE:
  assumes "activate_stage now sched s db = Inr db'"
  obtains db1 r where "lock_active_schedule (sched_id sched) db = Inr r"
    "write_stage (stage_id s) (start_write now) db = Inr db1"
    "db' = set_percentage now (sched_flag sched) (stage_target s) db1"
  using assms by (auto simp: activate_stage_def exc_rules split: if_splits)

lemma process_schedule_lives:
  assumes "ids_ok db" and "process_schedule fh now db sched db = Inr (updated, notices, db')"
  shows "lives_on sid db db'"
  using assms(2)
proof (cases rule: process_schedule_cases)
  case idle
  then show ?thesis using lives_on_refl assms(1) by blast
next
  case (start s)
  show ?thesis
    using activate_stage_lives [OF assms(1) pending_stagesE(1,3) [OF start(2)] start(5)] pending_stagesE(3) [OF start(2)]
    by blast
next
  case (finish current db1)
  have l1: "lives_on sid db db1"
    using complete_write_lives [OF assms(1) finish(5) finish(2,4)] .
  then have ok1: "ids_ok db1" by (simp add: lives_on_def)
  from finish(6) have "lives_on sid db1 db'"
  proof (elim disjE bexE conjE exE)
    fix s r assume s: "s \<in> set (pending_stages (sched_id sched) (stages db))"
    show "lives_on sid db1 db'" if "db' = db1"
      using lives_on_refl [OF ok1] that by simp
    show "lives_on sid db1 db'" if a: "activate_stage now sched s db1 = Inr db'"
    proof -
      have "stage_id s \<noteq> stage_id current"
        using same_stage [OF assms(1) pending_stagesE(1) [OF s] finish(2)] pending_stagesE(3) [OF s] finish(4) by auto
      then have "s \<in> set (stages db1)"
        using write_stage_other [OF finish(5) pending_stagesE(1) [OF s]] by simp
      then show ?thesis using activate_stage_lives [OF ok1 _ pending_stagesE(3) [OF s] a] by simp
    qed
  next
    fix r
    assume r: "lock_active_schedule (sched_id sched) db1 = Inr r"
      and w: "write_schedule (sched_id sched) (\<lambda>r. r\<lparr>sched_status := SchedCompleted, sched_updated := now\<rparr>) db1 =
        Inr db'"
    show "lives_on sid db1 db'"
      using complete_schedule_lives [OF ok1 lock_active_scheduleE(1) [OF r] _ _ w] lock_active_scheduleE(2) [OF r]
      by (simp add: terminal_def)
  qed
  with l1 show ?thesis by (rule lives_on_trans)
qed

lemma process_each_lives:
  "ids_ok db \<Longrightarrow> lives_on sid db (snd (process_each fh now ss (report, db)))"
proof (induction ss arbitrary: report db)
  case Nil
  then show ?case by (simp add: lives_on_refl)
next
  case (Cons s ss)
  show ?case
  proof (cases "process_schedule fh now db s db")
    case (Inl e)
    then show ?thesis using Cons by (cases e) simp_all
  next
    case (Inr x)
    obtain u n db' where x: "x = (u, n, db')" by (cases x) auto
    have l: "lives_on sid db db'" using process_schedule_lives [OF Cons.prems] Inr x by blast
    then have "ids_ok db'" by (simp add: lives_on_def)
    from lives_on_trans [OF l Cons.IH [OF this]] show ?thesis using Inr x by simp
  qed
qed

lemma tick_lives:
  "ids_ok db \<Longrightarrow> lives_on sid db (snd (process_rollout_schedules fh now db))"
  by (simp add: process_rollout_schedules_def process_each_lives)

text \<open>The requests.\<close>

lemma check_rollout_lives:
  assumes "check_rollout db2 = Inr db'" and "schedule_life sid db db2"
  shows "lives_on sid db db'"
  using assms by (simp add: check_rollout_Inr lives_on_def)

lemma schedule_life_append:
  "schedule_life sid db (db\<lparr>schedules := schedules db @ a, stages := stages db @ b\<rparr>)"
  by (rule schedule_life_map [where g = "\<lambda>r. r" and f = "\<lambda>s. s"]) simp_all

lemma create_lives:
  assumes "create_rollout_schedule now i is d db = Inr db'"
  shows "lives_on sid db db'"
  using assms check_rollout_lives [OF _ schedule_life_append]
  by (auto simp: create_rollout_schedule_def split: if_splits)

lemma update_status_refused:
  assumes "get_rollout_schedule seen sid = Some s" and "ru_status d = Some (Some st)"
  shows "update_rollout_schedule now seen sid d db = Inl RolloutValueError"
  using assms
  by (auto simp: update_rollout_schedule_def sent_value_def validate_status_transition_def
      allowed_transitions_def Let_def)

lemma upd_same: "(\<And>v r. h (set_field v r) = h r) \<Longrightarrow> h (upd sent set_field r) = h r"
  by (simp add: upd_def split: option.split)

lemma update_schedule_lives:
  assumes "ids_ok db" and "update_rollout_schedule now db i d db = Inr (Some db')"
  shows "lives_on sid db db'"
proof -
  obtain s where s: "get_rollout_schedule db i = Some s"
    using assms(2) by (auto simp: update_rollout_schedule_def split: option.splits)
  have st: "sent_value (ru_status d) = None"
  proof (rule ccontr)
    assume "sent_value (ru_status d) \<noteq> None"
    then obtain st where "ru_status d = Some (Some st)"
      by (auto simp: sent_value_def Option.bind_eq_Some_conv)
    from update_status_refused [OF s this] assms(2) show False by simp
  qed
  from assms(2) s st obtain f db1 where f: "write_schedule i f db = Inr db1" and c: "check_rollout db1 = Inr db'"
    and k: "\<And>r. sched_id (f r) = sched_id r \<and> sched_kept r (f r)"
    by (auto simp: update_rollout_schedule_def exc_rules sched_kept_touch upd_def sched_kept_def
        touch_schedule_def split: if_splits option.splits)
  have "lives_on sid db db1"
    by (rule write_schedule_lives [OF assms(1) f]) (use k in auto)
  then show ?thesis using c by (simp add: check_rollout_Inr)
qed

lemma status_write_lives:
  assumes "ids_ok db" and "get_rollout_schedule db i = Some s" and "status_write now s st db = Inr (Some db')"
    and "st = sched_status s \<or> \<not> terminal (sched_status s) \<and> st \<noteq> SchedDraft"
  shows "lives_on sid db db'"
proof (cases "sched_status s = st")
  case True
  then show ?thesis using assms(1,3) by (simp add: status_write_def lives_on_refl)
next
  case False
  then show ?thesis
    using complete_schedule_lives [OF assms(1,2)] assms(3,4) get_rollout_scheduleE(2) [OF assms(2)]
    by (auto simp: status_write_def exc_rules)
qed

lemma status_requests_live:
  assumes "ids_ok db"
  shows "activate_rollout_schedule now db i db = Inr (Some db') \<Longrightarrow> lives_on sid db db'"
    and "pause_rollout_schedule now db i db = Inr (Some db') \<Longrightarrow> lives_on sid db db'"
    and "cancel_rollout_schedule now db i db = Inr (Some db') \<Longrightarrow> lives_on sid db db'"
  using status_write_lives [OF assms]
  by (auto simp: activate_rollout_schedule_def pause_rollout_schedule_def cancel_rollout_schedule_def
      terminal_def split: option.splits if_splits) (metis schedule_status.distinct schedule_status.exhaust)

text \<open>The requests on stages.\<close>

definition shifted :: "int \<Rightarrow> (rollout_stage \<Rightarrow> bool) \<Rightarrow> int \<Rightarrow> rollout_stage \<Rightarrow> rollout_stage" where
  "shifted now selected d s =
     (if selected s then s\<lparr>stage_order := stage_order s + d, stage_updated := now\<rparr> else s)"

lemma shift_stages_map: "shift_stages now selected d ss = map (shifted now selected d) ss"
  by (simp add: shift_stages_def shifted_def)

lemma shifted_keeps [simp]:
  "stage_id (shifted now selected d s) = stage_id s"
  "stage_schedule (shifted now selected d s) = stage_schedule s"
  "stage_status (shifted now selected d s) = stage_status s"
  "stage_completed_at (shifted now selected d s) = stage_completed_at s"
  "stage_target (shifted now selected d s) = stage_target s"
  by (simp_all add: shifted_def)

lemma shifted_kept [simp]: "stage_kept s (shifted now selected d s)"
  by (simp add: stage_kept_def)

lemma add_stage_lives:
  assumes "add_rollout_stage now n i d db = Inr (Some db')"
  shows "lives_on sid db db'"
proof -
  have "schedule_life sid db (db\<lparr>stages := map f (stages db) @ b\<rparr>)" if "\<And>s. stage_kept s (f s)" for f b
    by (rule schedule_life_map [where g = "\<lambda>r. r" and f = f]) (use that in simp_all)
  from this [of "\<lambda>s. s"] this [of "shifted now (\<lambda>s. stage_schedule s = i \<and> sc_order d \<le> stage_order s) 1"]
  show ?thesis
    using assms by (auto simp: add_rollout_stage_def exc_rules Let_def shift_stages_map
        intro: check_rollout_lives split: option.splits if_splits)
qed

definition moved_row :: "int \<Rightarrow> rollout_stage \<Rightarrow> int \<Rightarrow> rollout_stage \<Rightarrow> rollout_stage" where
  "moved_row now s new r =
     (if stage_order s < new
      then shifted now (\<lambda>r. (stage_schedule r = stage_schedule s \<and> stage_id r \<noteq> stage_id s) \<and>
             stage_order s < stage_order r \<and> stage_order r \<le> new) (- 1) r
      else shifted now (\<lambda>r. (stage_schedule r = stage_schedule s \<and> stage_id r \<noteq> stage_id s) \<and>
             stage_order r < stage_order s \<and> new \<le> stage_order r) 1 r)"

lemma move_stages_map: "move_stages now s new ss = map (moved_row now s new) ss"
  by (simp add: move_stages_def moved_row_def Let_def shift_stages_map)

lemma moved_row_kept: "stage_kept r (moved_row now s new r)"
  by (simp add: moved_row_def)

lemma stage_fields_keep [simp]:
  "stage_id (stage_fields d s) = stage_id s" "stage_schedule (stage_fields d s) = stage_schedule s"
  "stage_status (stage_fields d s) = stage_status s"
  "stage_completed_at (stage_fields d s) = stage_completed_at s"
  by (simp_all add: stage_fields_def upd_def split: option.split)

lemma stage_fields_kept: "stage_kept s (stage_fields d s)"
  by (simp add: stage_kept_def)

text \<open>The tables an update of a stage leaves: the moved rows, then the fields of its own.\<close>

lemma update_stageE:
  assumes "update_rollout_stage now stid d db = Inr (Some db')"
  obtains s moved where "get_stage db stid = Some s"
    "db' = db\<lparr>stages := map (\<lambda>r. if stage_id r = stid then touch_stage now r (stage_fields d r) else r) moved\<rparr>"
    "check_rollout db' = Inr db'"
    "moved = stages db \<and> (\<forall>new. sent_value (su_order d) = Some new \<longrightarrow> new = stage_order s) \<or>
     stage_status s = StagePending \<and>
       (\<exists>new. sent_value (su_order d) = Some new \<and> new \<noteq> stage_order s \<and> moved = move_stages now s new (stages db))"
  using assms
  by (auto simp: update_rollout_stage_def exc_rules check_rollout_Inr split: option.splits if_splits)

lemma update_stage_lives:
  assumes "update_rollout_stage now stid d db = Inr (Some db')"
  shows "lives_on sid db db'"
  using assms
proof (rule update_stageE)
  fix s moved
  let ?own = "\<lambda>r. if stage_id r = stid then touch_stage now r (stage_fields d r) else r"
  assume db': "db' = db\<lparr>stages := map ?own moved\<rparr>" and c: "check_rollout db' = Inr db'"
    and moved: "moved = stages db \<and> (\<forall>new. sent_value (su_order d) = Some new \<longrightarrow> new = stage_order s) \<or>
     stage_status s = StagePending \<and>
       (\<exists>new. sent_value (su_order d) = Some new \<and> new \<noteq> stage_order s \<and> moved = move_stages now s new (stages db))"
  obtain f where f: "\<And>s. stage_kept s (f s)" "moved = map f (stages db)"
  proof (cases "moved = stages db")
    case True
    then show ?thesis by (intro that [of "\<lambda>s. s"]) simp_all
  next
    case False
    then obtain new where m: "moved = move_stages now s new (stages db)" using moved by blast
    show ?thesis by (rule that [of "moved_row now s new"]) (simp_all add: m move_stages_map moved_row_kept)
  qed
  have own: "stage_kept r (?own r)" for r
    by (simp add: stage_kept_touch stage_fields_kept)
  have "stage_kept r (?own (f r))" for r
    using stage_kept_trans [OF f(1) own] by simp
  then have "schedule_life sid db db'"
    by (intro schedule_life_map [where g = "\<lambda>r. r" and f = "\<lambda>r. ?own (f r)" and new_stages = "[]"
          and new_schedules = "[]"]) (simp_all add: db' f(2) del: if_image_distrib)
  then show "lives_on sid db db'" using check_rollout_lives c by blast
qed

lemma delete_stage_lives:
  assumes "ids_ok db" and "delete_rollout_stage now stid db = Inr (Some db')"
  shows "lives_on sid db db'"
proof -
  obtain s sel where s: "get_stage db stid = Some s" "stage_status s = StagePending"
    and db': "db' = db\<lparr>stages := filter (\<lambda>x. stage_id x \<noteq> stid) (map (shifted now sel (- 1)) (stages db))\<rparr>"
    using assms(2) by (auto simp: delete_rollout_stage_def shift_stages_map split: option.splits if_splits)
  have "ids_ok db'"
    using assms(1) by (auto simp: ids_ok_def db' filter_map distinct_map comp_def inj_on_def)
  moreover have "\<exists>x'\<in>set (stages db'). stage_kept x x'"
    if x: "x \<in> set (stages db)" "stage_status x \<noteq> StagePending" for x
  proof -
    have "stage_id x \<noteq> stid"
      using same_stage [OF assms(1) x(1) get_stageE(1) [OF s(1)]] get_stageE(2) [OF s(1)] s(2) x(2) by auto
    then have "shifted now sel (- 1) x \<in> set (stages db')" using x(1) by (auto simp: db')
    then show ?thesis using shifted_kept by blast
  qed
  then have "schedule_life sid db db'"
    unfolding schedule_life_def by (auto simp: db' intro: sched_kept_refl)
  ultimately show ?thesis by (simp add: lives_on_def)
qed

lemma advance_lives:
  assumes "ids_ok db" and "manually_advance_stage now db stid db = Inr (Some db')"
  shows "lives_on sid db db'"
  using assms advance_locked_lives [OF assms(1) get_stageE(1)]
  by (auto simp: manually_advance_stage_def exc_rules split: option.splits if_splits)

lemma delete_schedule_lives:
  assumes "ids_ok db" and "delete_rollout_schedule db i db = Inr (Some db')" and "i \<noteq> sid"
  shows "lives_on sid db db'"
proof -
  have db': "db' = db\<lparr>schedules := filter (\<lambda>r. sched_id r \<noteq> i) (schedules db),
      stages := filter (\<lambda>r. stage_schedule r \<noteq> i) (stages db)\<rparr>"
    using assms(2) by (auto simp: delete_rollout_schedule_def split: option.splits if_splits)
  have "ids_ok db'" using assms(1) by (simp add: ids_ok_def db' distinct_map_filter)
  moreover have "schedule_life sid db db'"
    using assms(3) unfolding schedule_life_def by (auto simp: db' intro: sched_kept_refl stage_kept_refl)
  ultimately show ?thesis by (simp add: lives_on_def)
qed

section \<open>Sequences of operations\<close>

text \<open>
  The operations that do not delete schedule \<open>sid\<close> (a deletion of \<open>sid\<close>, which is refused while it is
  active, takes its stages with it and ends its life), and any change other code makes of the flags. Each
  request reads the state it writes: the lifecycle requests take no lock, so this is an assumption that
  they do not overlap.
\<close>

inductive schedule_step :: "pstr \<Rightarrow> rollout_db \<Rightarrow> rollout_db \<Rightarrow> bool" for sid where
  step_create_schedule: "valid_schedule_create d \<Longrightarrow> length is = length (rc_stages d) \<Longrightarrow>
     create_rollout_schedule now i is d db = Inr db' \<Longrightarrow> schedule_step sid db db'"
| step_update_schedule: "update_rollout_schedule now db i u db = Inr (Some db') \<Longrightarrow> schedule_step sid db db'"
| step_activate: "activate_rollout_schedule now db i db = Inr (Some db') \<Longrightarrow> schedule_step sid db db'"
| step_pause: "pause_rollout_schedule now db i db = Inr (Some db') \<Longrightarrow> schedule_step sid db db'"
| step_cancel: "cancel_rollout_schedule now db i db = Inr (Some db') \<Longrightarrow> schedule_step sid db db'"
| step_delete_schedule: "i \<noteq> sid \<Longrightarrow> delete_rollout_schedule db i db = Inr (Some db') \<Longrightarrow> schedule_step sid db db'"
| step_add_stage: "add_rollout_stage now n i c db = Inr (Some db') \<Longrightarrow> schedule_step sid db db'"
| step_update_stage: "update_rollout_stage now stid v db = Inr (Some db') \<Longrightarrow> schedule_step sid db db'"
| step_delete_stage: "delete_rollout_stage now stid db = Inr (Some db') \<Longrightarrow> schedule_step sid db db'"
| step_advance: "manually_advance_stage now db stid db = Inr (Some db') \<Longrightarrow> schedule_step sid db db'"
| step_tick: "schedule_step sid db (snd (process_rollout_schedules fh now db))"

inductive rollout_step :: "pstr \<Rightarrow> rollout_db \<Rightarrow> rollout_db \<Rightarrow> bool" for sid where
  rollout_request: "schedule_step sid db db' \<Longrightarrow> rollout_step sid db db'"
| rollout_flags_change: "rollout_step sid db (db\<lparr>rollout_flags := fs\<rparr>)"

lemma flags_live: "ids_ok db \<Longrightarrow> lives_on sid db (db\<lparr>rollout_flags := fs\<rparr>)"
  by (auto simp: lives_on_def ids_ok_def schedule_life_def intro: sched_kept_refl stage_kept_refl)

lemmas operations_live = create_lives update_schedule_lives status_requests_live delete_schedule_lives
  add_stage_lives update_stage_lives delete_stage_lives advance_lives tick_lives flags_live

lemma schedule_step_lives: "ids_ok db \<Longrightarrow> schedule_step sid db db' \<Longrightarrow> lives_on sid db db'"
  by (erule schedule_step.cases) (blast intro: operations_live)+

lemma rollout_step_lives: "ids_ok db \<Longrightarrow> rollout_step sid db db' \<Longrightarrow> lives_on sid db db'"
  by (erule rollout_step.cases) (blast intro: operations_live schedule_step_lives)+

interpretation schedules_live: history_of "rollout_step sid" ids_ok "schedule_life sid" for sid
  by unfold_locales
    (blast intro: schedule_life_refl schedule_life_trans dest: rollout_step_lives [unfolded lives_on_def])+

section \<open>The flag's percentage\<close>

definition allowed_percent :: "rollout_db \<Rightarrow> pstr \<Rightarrow> int \<Rightarrow> bool" where
  "allowed_percent db fid p =
     (\<exists>r\<in>set (schedules db). \<exists>s\<in>set (stages db). sched_status r = SchedActive \<and> sched_flag r = fid \<and>
        stage_schedule s = sched_id r \<and> stage_status s = StagePending \<and> stage_target s = p)"

definition percent_from :: "rollout_db \<Rightarrow> feature_flag \<Rightarrow> feature_flag \<Rightarrow> bool" where
  "percent_from db f f' =
     (flag_id f' = flag_id f \<and>
      (flag_rollout f' = flag_rollout f \<or> allowed_percent db (flag_id f) (flag_rollout f')))"

definition flags_from :: "rollout_db \<Rightarrow> rollout_db \<Rightarrow> bool" where
  "flags_from db db' = list_all2 (percent_from db) (rollout_flags db) (rollout_flags db')"

lemma flags_from_same: "rollout_flags db' = rollout_flags db \<Longrightarrow> flags_from db db'"
  by (simp add: flags_from_def percent_from_def list.rel_refl)

lemma flags_from_set:
  assumes "flags_from db db1" and "allowed_percent db fid p"
  shows "flags_from db (set_percentage now fid p db1)"
proof -
  have "list_all2 (percent_from db) fs (map (\<lambda>f. if flag_id f = fid
      then f\<lparr>flag_rollout := p, flag_updated_at := now\<rparr> else f) gs)"
    if "list_all2 (percent_from db) fs gs" for fs gs
    using that by (induction rule: list_all2_induct) (use assms(2) in \<open>auto simp: percent_from_def\<close>)
  then show ?thesis using assms(1) by (simp add: flags_from_def set_percentage_def)
qed

lemma flags_from_cong: "flags_from db db1 \<Longrightarrow> rollout_flags db2 = rollout_flags db1 \<Longrightarrow> flags_from db db2"
  by (simp add: flags_from_def)

lemma write_schedule_tables:
  assumes "write_schedule sid f db = Inr db'"
  shows "stages db' = stages db" "rollout_flags db' = rollout_flags db"
    "schedules db' = map (\<lambda>s. if sched_id s = sid then f s else s) (schedules db)"
  using assms by (auto simp: write_schedule_def split: if_splits)

text \<open>A stage that is pending after a write was pending before it.\<close>

definition pending_from :: "rollout_db \<Rightarrow> rollout_db \<Rightarrow> bool" where
  "pending_from db db' = (\<forall>s\<in>set (stages db'). stage_status s = StagePending \<longrightarrow> s \<in> set (stages db))"

lemma pending_from_write:
  assumes "write_stage stid f db1 = Inr db2" and "\<And>s. stage_status (f s) \<noteq> StagePending" and "pending_from db db1"
  shows "pending_from db db2"
  using assms(2,3) unfolding pending_from_def write_stage_tables(3) [OF assms(1)] by auto

lemma write_status [simp]:
  "stage_status (start_write now s) \<noteq> StagePending" "stage_status (complete_write now s) \<noteq> StagePending"
  by (simp_all add: start_write_def complete_write_def)

lemma pending_allowed:
  assumes "s \<in> set (pending_stages sid (stages db1))" and "pending_from db db1"
    and "r \<in> set (schedules db)" and "sched_status r = SchedActive" and "sched_id r = sid"
  shows "allowed_percent db (sched_flag r) (stage_target s)"
  using assms pending_stagesE [OF assms(1)] unfolding allowed_percent_def pending_from_def by blast

lemma advance_locked_flags:
  assumes "s \<in> set (stages db)" and "get_rollout_schedule db (stage_schedule s) = Some sched"
    and "sched_status sched = SchedActive" and "advance_locked now s sched db = Inr db'"
  shows "flags_from db db'"
proof -
  note r = get_rollout_scheduleE [OF assms(2)]
  have pend: "pending_from db db" by (simp add: pending_from_def)
  show ?thesis
  proof (cases "stage_status s = StagePending")
    case True
    then have "s \<in> set (pending_stages (sched_id sched) (stages db))"
      using assms(1) r by (simp add: pending_stages_def)
    from pending_allowed [OF this pend r(1) assms(3) refl] show ?thesis
      using True assms(4) flags_from_same write_stage_tables(2)
      by (auto simp: advance_locked_def exc_rules intro: flags_from_set)
  next
    case False
    then obtain db1 where db1: "write_stage (stage_id s) (complete_write now) db = Inr db1"
      using assms(4) by (auto simp: advance_locked_def exc_rules)
    have f1: "flags_from db db1" using flags_from_same write_stage_tables(2) [OF db1] by blast
    have p1: "pending_from db db1" using pending_from_write [OF db1 _ pend] by simp
    show ?thesis
    proof (cases "filter (\<lambda>r. stage_order s < stage_order r) (pending_stages (sched_id sched) (stages db1))")
      case Nil
      then show ?thesis
        using False assms(4) db1 flags_from_cong [OF f1] write_schedule_tables(2)
        by (auto simp: advance_locked_def)
    next
      case (Cons n ns)
      then have "n \<in> set (pending_stages (sched_id sched) (stages db1))"
        by (metis filter_is_subset list.set_intros(1) subset_iff)
      from pending_allowed [OF this p1 r(1) assms(3) refl] show ?thesis
        using False assms(4) db1 Cons flags_from_cong [OF f1] write_stage_tables(2)
        by (auto simp: advance_locked_def exc_rules intro: flags_from_set)
    qed
  qed
qed

end
