(* ===== verification/Rollout_Progress.thy ===== *)
theory Rollout_Progress
  imports Rollout_Facts
begin

text \<open>
  The tick in detail: which percentages it sets, that it never has two stages in progress, that it
  completes a schedule of time-based stages; the orders of the stages; and the manual advance on a
  stage read before another advance.
\<close>

section \<open>The percentage after a step\<close>

lemma pending_from_trans: "pending_from a b \<Longrightarrow> pending_from b c \<Longrightarrow> pending_from a c"
  by (auto simp: pending_from_def)

lemma activate_stage_flags:
  assumes "activate_stage now sched s db1 = Inr db2" and "flags_from db db1" and "pending_from db db1"
    and "s \<in> set (pending_stages (sched_id sched) (stages db0))" and "pending_from db db0"
    and "sched \<in> set (schedules db)" and "sched_status sched = SchedActive"
  shows "flags_from db db2 \<and> pending_from db db2"
  using assms(1)
proof (rule activate_stageE)
  fix db3 r
  assume w: "write_stage (stage_id s) (start_write now) db1 = Inr db3"
    and db2: "db2 = set_percentage now (sched_flag sched) (stage_target s) db3"
  have "pending_from db db3" using pending_from_write [OF w _ assms(3)] by simp
  moreover have "flags_from db db3" using flags_from_cong [OF assms(2) write_stage_tables(2) [OF w]] .
  from flags_from_set [OF this pending_allowed [OF assms(4-7) refl]] have "flags_from db db2" by (simp add: db2)
  ultimately show ?thesis by (simp add: db2 pending_from_def)
qed

lemma process_schedule_flags:
  assumes "process_schedule fh now db1 sched db1 = Inr (updated, notices, db2)"
    and "flags_from db db1" and "pending_from db db1"
    and "sched \<in> set (schedules db)" and "sched_status sched = SchedActive"
  shows "flags_from db db2 \<and> pending_from db db2"
  using assms(1)
proof (cases rule: process_schedule_cases)
  case idle
  then show ?thesis using assms(2,3) by simp
next
  case (start s)
  show ?thesis using activate_stage_flags [OF start(5) assms(2,3) start(2) assms(3-5)] .
next
  case (finish current db3)
  have f: "flags_from db db3" using flags_from_cong [OF assms(2) write_stage_tables(2) [OF finish(5)]] .
  have p: "pending_from db db3" using pending_from_write [OF finish(5) _ assms(3)] by simp
  from finish(6) show ?thesis
  proof (elim disjE bexE conjE)
    fix s assume s: "s \<in> set (pending_stages (sched_id sched) (stages db1))"
    show "flags_from db db2 \<and> pending_from db db2" if "db2 = db3" using f p that by simp
    show "flags_from db db2 \<and> pending_from db db2" if "activate_stage now sched s db3 = Inr db2"
      using activate_stage_flags [OF that f p s assms(3-5)] .
  next
    assume "write_schedule (sched_id sched) (\<lambda>r. r\<lparr>sched_status := SchedCompleted, sched_updated := now\<rparr>) db3 =
        Inr db2"
    from write_schedule_tables(1,2) [OF this] show "flags_from db db2 \<and> pending_from db db2"
      using flags_from_cong [OF f] p by (simp add: pending_from_def)
  qed
qed

lemma process_each_flags:
  "flags_from db db1 \<Longrightarrow> pending_from db db1 \<Longrightarrow>
     \<forall>s\<in>set ss. s \<in> set (schedules db) \<and> sched_status s = SchedActive \<Longrightarrow>
     flags_from db (snd (process_each fh now ss (report, db1)))"
proof (induction ss arbitrary: report db1)
  case (Cons s ss)
  show ?case
  proof (cases "process_schedule fh now db1 s db1")
    case (Inl e)
    then show ?thesis using Cons by (cases e) simp_all
  next
    case (Inr x)
    obtain u n db2 where x: "x = (u, n, db2)" by (cases x) auto
    with process_schedule_flags [of fh now db1 s u n db2 db] Inr Cons.prems
    have "flags_from db db2 \<and> pending_from db db2" by simp
    with Cons Inr x show ?thesis by simp
  qed
qed simp

lemma tick_flags: "flags_from db (snd (process_rollout_schedules fh now db))"
  unfolding process_rollout_schedules_def
  by (rule process_each_flags) (auto simp: due_schedules_def pending_from_def intro: flags_from_same)

lemma check_rollout_flags: "check_rollout db = Inr db' \<Longrightarrow> rollout_flags db' = rollout_flags db"
  by (simp add: check_rollout_Inr)

lemma request_flags:
  "create_rollout_schedule now i is d db = Inr db' \<Longrightarrow> rollout_flags db' = rollout_flags db"
  "update_rollout_schedule now db i u db = Inr (Some db') \<Longrightarrow> rollout_flags db' = rollout_flags db"
  "activate_rollout_schedule now db i db = Inr (Some db') \<Longrightarrow> rollout_flags db' = rollout_flags db"
  "pause_rollout_schedule now db i db = Inr (Some db') \<Longrightarrow> rollout_flags db' = rollout_flags db"
  "cancel_rollout_schedule now db i db = Inr (Some db') \<Longrightarrow> rollout_flags db' = rollout_flags db"
  "delete_rollout_schedule db i db = Inr (Some db') \<Longrightarrow> rollout_flags db' = rollout_flags db"
  "add_rollout_stage now n i c db = Inr (Some db') \<Longrightarrow> rollout_flags db' = rollout_flags db"
  "update_rollout_stage now stid v db = Inr (Some db') \<Longrightarrow> rollout_flags db' = rollout_flags db"
  "delete_rollout_stage now stid db = Inr (Some db') \<Longrightarrow> rollout_flags db' = rollout_flags db"
  by (auto simp: create_rollout_schedule_def update_rollout_schedule_def activate_rollout_schedule_def
      pause_rollout_schedule_def cancel_rollout_schedule_def delete_rollout_schedule_def
      add_rollout_stage_def update_rollout_stage_def delete_rollout_stage_def status_write_def exc_rules Let_def
      dest!: check_rollout_flags write_schedule_tables(2) split: if_splits option.splits)

lemma advance_flags:
  assumes "manually_advance_stage now db stid db = Inr (Some db')"
  shows "flags_from db db'"
  using assms advance_locked_flags [OF get_stageE(1)]
  by (auto simp: manually_advance_stage_def exc_rules split: option.splits if_splits)

lemma schedule_step_flags:
  assumes "schedule_step sid db db'"
  shows "flags_from db db'"
  using assms
proof cases
  case step_create_schedule
  from request_flags(1) [OF this(3)] show ?thesis by (rule flags_from_same)
next
  case step_update_schedule
  from request_flags(2) [OF this(1)] show ?thesis by (rule flags_from_same)
next
  case step_activate
  from request_flags(3) [OF this(1)] show ?thesis by (rule flags_from_same)
next
  case step_pause
  from request_flags(4) [OF this(1)] show ?thesis by (rule flags_from_same)
next
  case step_cancel
  from request_flags(5) [OF this(1)] show ?thesis by (rule flags_from_same)
next
  case step_delete_schedule
  from request_flags(6) [OF this(2)] show ?thesis by (rule flags_from_same)
next
  case step_add_stage
  from request_flags(7) [OF this(1)] show ?thesis by (rule flags_from_same)
next
  case step_update_stage
  from request_flags(8) [OF this(1)] show ?thesis by (rule flags_from_same)
next
  case step_delete_stage
  from request_flags(9) [OF this(1)] show ?thesis by (rule flags_from_same)
next
  case step_advance
  then show ?thesis by (rule advance_flags)
next
  case step_tick
  then show ?thesis using tick_flags by simp
qed

text \<open>Read at a flag's id.\<close>

lemma flags_from_get:
  assumes "flags_from db db'" and "get_rollout_flag db fid = Some f"
  shows "\<exists>f'. get_rollout_flag db' fid = Some f' \<and>
    (flag_rollout f' = flag_rollout f \<or> allowed_percent db fid (flag_rollout f'))"
proof -
  have "find (\<lambda>f. flag_id f = fid) fs = Some f \<Longrightarrow> \<exists>f'. find (\<lambda>f. flag_id f = fid) gs = Some f' \<and>
    (flag_rollout f' = flag_rollout f \<or> allowed_percent db fid (flag_rollout f'))"
    if "list_all2 (percent_from db) fs gs" for fs gs
    using that by (induction rule: list_all2_induct) (auto simp: percent_from_def split: if_splits)
  then show ?thesis using assms by (simp add: flags_from_def get_rollout_flag_def)
qed

section \<open>One stage in progress\<close>

definition in_progress :: "pstr \<Rightarrow> rollout_db \<Rightarrow> pstr set" where
  "in_progress sid db =
     {i. \<exists>s\<in>set (stages db). stage_id s = i \<and> stage_schedule s = sid \<and> stage_status s = StageInProgress}"

definition single :: "pstr set \<Rightarrow> bool" where
  "single A = (\<forall>x\<in>A. \<forall>y\<in>A. x = y)"

lemma in_progress_start:
  assumes "write_stage stid (start_write now) db = Inr db'"
  shows "in_progress sid db' \<subseteq> insert stid (in_progress sid db)"
  unfolding in_progress_def write_stage_tables(3) [OF assms] by (auto simp: start_write_def)

lemma in_progress_complete:
  assumes "write_stage stid (complete_write now) db = Inr db'"
  shows "in_progress sid db' = in_progress sid db - {stid}"
proof (rule set_eqI)
  fix i
  have "i \<in> in_progress sid db' \<longleftrightarrow> (\<exists>s\<in>set (stages db). stage_id s \<noteq> stid \<and> stage_id s = i \<and>
      stage_schedule s = sid \<and> stage_status s = StageInProgress)"
    unfolding in_progress_def write_stage_tables(3) [OF assms] mem_Collect_eq set_map bex_simps
    by (rule bex_cong [OF refl]) (simp add: complete_write_def)
  then show "i \<in> in_progress sid db' \<longleftrightarrow> i \<in> in_progress sid db - {stid}"
    by (cases "i = stid") (auto simp: in_progress_def)
qed

lemma in_progress_start_other:
  assumes "ids_ok db" and "write_stage (stage_id s) (start_write now) db = Inr db'" and "s \<in> set (stages db)"
    and "stage_schedule s \<noteq> sid"
  shows "in_progress sid db' = in_progress sid db"
proof -
  have "(\<exists>r\<in>set (stages db'). stage_id r = i \<and> stage_schedule r = sid \<and> stage_status r = StageInProgress) \<longleftrightarrow>
      (\<exists>r\<in>set (stages db). stage_id r = i \<and> stage_schedule r = sid \<and> stage_status r = StageInProgress)" for i
  proof (cases "i = stage_id s")
    case True
    then have "\<forall>r\<in>set (stages db). stage_id r = i \<longrightarrow> stage_schedule r \<noteq> sid"
      using same_stage [OF assms(1) _ assms(3)] assms(4) by blast
    then show ?thesis
      unfolding write_stage_tables(3) [OF assms(2)] by (auto simp: start_write_def)
  next
    case False
    then show ?thesis
      unfolding write_stage_tables(3) [OF assms(2)] by (auto simp: start_write_def)
  qed
  then show ?thesis by (simp add: in_progress_def)
qed

lemma in_progress_percent [simp]: "in_progress sid (set_percentage now fid p db) = in_progress sid db"
  by (simp add: in_progress_def)

lemma activate_in_progress:
  assumes "ids_ok db1" and "activate_stage now sched s db1 = Inr db2" and "s \<in> set (stages db1)"
    and "stage_schedule s = sched_id sched"
  shows "in_progress sid db2 \<subseteq> (if sid = sched_id sched then insert (stage_id s) (in_progress sid db1)
      else in_progress sid db1)"
  using assms(2)
proof (rule activate_stageE)
  fix db3 r
  assume w: "write_stage (stage_id s) (start_write now) db1 = Inr db3"
    and db2: "db2 = set_percentage now (sched_flag sched) (stage_target s) db3"
  show ?thesis
    using in_progress_start [OF w] in_progress_start_other [OF assms(1) w assms(3)] assms(4)
    by (auto simp: db2)
qed

lemma process_schedule_single:
  assumes "ids_ok db" and "process_schedule fh now db sched db = Inr (updated, notices, db')"
    and "single (in_progress sid db)"
  shows "single (in_progress sid db')"
  using assms(2)
proof (cases rule: process_schedule_cases)
  case idle
  then show ?thesis using assms(3) by simp
next
  case (start s)
  have "in_progress (sched_id sched) db = {}" using start(3) by (auto simp: in_progress_def)
  then show ?thesis
    using activate_in_progress [OF assms(1) start(5) pending_stagesE(1,2) [OF start(2)], of sid] assms(3)
    by (auto simp: single_def split: if_splits)
next
  case (finish current db1)
  note c = in_progress_complete [OF finish(5), of sid]
  have ok1: "ids_ok db1"
    using complete_write_lives [OF assms(1) finish(5,2,4)] by (simp add: lives_on_def)
  have "stage_id current \<in> in_progress (sched_id sched) db" using finish(2-4) by (auto simp: in_progress_def)
  then have none: "in_progress sid db1 = {}" if "sid = sched_id sched"
    using that c assms(3) by (auto simp: single_def)
  have s1: "single (in_progress sid db1)" using c assms(3) by (simp add: single_def)
  from finish(6) show ?thesis
  proof (elim disjE bexE conjE)
    fix s assume s: "s \<in> set (pending_stages (sched_id sched) (stages db))"
    show "single (in_progress sid db')" if "db' = db1" using s1 that by simp
    show "single (in_progress sid db')" if a: "activate_stage now sched s db1 = Inr db'"
    proof -
      have "stage_id s \<noteq> stage_id current"
        using same_stage [OF assms(1) pending_stagesE(1) [OF s] finish(2)] pending_stagesE(3) [OF s] finish(4) by auto
      then have "s \<in> set (stages db1)"
        using write_stage_other [OF finish(5) pending_stagesE(1) [OF s]] by simp
      from activate_in_progress [OF ok1 a this pending_stagesE(2) [OF s], of sid] show ?thesis
        using none s1 by (auto simp: single_def split: if_splits)
    qed
  next
    assume "write_schedule (sched_id sched) (\<lambda>r. r\<lparr>sched_status := SchedCompleted, sched_updated := now\<rparr>) db1 =
        Inr db'"
    from write_schedule_tables(1) [OF this] show "single (in_progress sid db')"
      using s1 by (simp add: in_progress_def)
  qed
qed

lemma process_each_single:
  "ids_ok db \<Longrightarrow> single (in_progress sid db) \<Longrightarrow>
     single (in_progress sid (snd (process_each fh now ss (report, db))))"
proof (induction ss arbitrary: report db)
  case (Cons s ss)
  show ?case
  proof (cases "process_schedule fh now db s db")
    case (Inl e)
    then show ?thesis using Cons by (cases e) simp_all
  next
    case (Inr x)
    obtain u n db2 where x: "x = (u, n, db2)" by (cases x) auto
    have "ids_ok db2" "single (in_progress sid db2)"
      using process_schedule_lives [OF Cons.prems(1)] process_schedule_single [OF Cons.prems(1) _ Cons.prems(2)]
        Inr x by (auto simp: lives_on_def)
    then show ?thesis using Cons.IH Inr x by simp
  qed
qed simp

lemma tick_single:
  "ids_ok db \<Longrightarrow> single (in_progress sid db) \<Longrightarrow>
     single (in_progress sid (snd (process_rollout_schedules fh now db)))"
  by (simp add: process_rollout_schedules_def process_each_single)

section \<open>The orders of the stages\<close>

definition orders_ok :: "rollout_db \<Rightarrow> bool" where
  "orders_ok db =
     (ids_ok db \<and> (\<forall>s\<in>set (stages db). stage_schedule s \<in> sched_id ` set (schedules db)) \<and>
      inj_on (\<lambda>s. (stage_schedule s, stage_order s)) (set (stages db)))"

lemma orders_distinct:
  assumes "orders_ok db"
  shows "distinct (map stage_order (stages_of sid (stages db)))"
proof -
  have "distinct (stages db)" using assms by (auto simp: orders_ok_def ids_ok_def distinct_map)
  moreover have "inj_on stage_order (set (stages_of sid (stages db)))"
    using assms by (auto simp: orders_ok_def stages_of_def inj_on_def)
  ultimately show ?thesis by (simp add: distinct_map stages_of_def)
qed

lemma same_order:
  assumes "orders_ok db" and "s \<in> set (stages db)" and "r \<in> set (stages db)"
    and "stage_schedule s = stage_schedule r" and "stage_order s = stage_order r"
  shows "s = r"
  using assms by (auto simp: orders_ok_def inj_on_def)

text \<open>Rewriting rows keeps the orders apart when rows that collide afterwards were one row.\<close>

lemma orders_map:
  assumes "orders_ok db" and "ids_ok db'" and "stages db' = map f (stages db)"
    and "sched_id ` set (schedules db) \<subseteq> sched_id ` set (schedules db')"
    and "\<And>s. stage_schedule (f s) = stage_schedule s"
    and "\<And>s r. s \<in> set (stages db) \<Longrightarrow> r \<in> set (stages db) \<Longrightarrow> stage_schedule s = stage_schedule r \<Longrightarrow>
      stage_order (f s) = stage_order (f r) \<Longrightarrow> s = r"
  shows "orders_ok db'"
proof -
  have "inj_on (\<lambda>s. (stage_schedule s, stage_order s)) (f ` set (stages db))"
  proof (rule inj_onI)
    fix x y assume "x \<in> f ` set (stages db)" "y \<in> f ` set (stages db)"
      and e: "(stage_schedule x, stage_order x) = (stage_schedule y, stage_order y)"
    then obtain s r where "s \<in> set (stages db)" "x = f s" "r \<in> set (stages db)" "y = f r" by blast
    with e assms(5,6) show "x = y" by auto
  qed
  moreover have "\<forall>s\<in>set (stages db'). stage_schedule s \<in> sched_id ` set (schedules db')"
    using assms(1,3-5) by (auto simp: orders_ok_def)
  ultimately show ?thesis using assms(2,3) by (simp add: orders_ok_def)
qed

text \<open>A change that touches no order and no schedule id.\<close>

lemma orders_kept:
  assumes "orders_ok db" and "ids_ok db'" and "stages db' = map f (stages db)"
    and "schedules db' = map g (schedules db)" and "\<And>r. sched_id (g r) = sched_id r"
    and "\<And>s. stage_schedule (f s) = stage_schedule s" and "\<And>s. stage_order (f s) = stage_order s"
  shows "orders_ok db'"
proof (rule orders_map [OF assms(1-3)])
  have "map sched_id (schedules db') = map sched_id (schedules db)" by (simp add: assms(4,5))
  then show "sched_id ` set (schedules db) \<subseteq> sched_id ` set (schedules db')" by (metis list.set_map order_refl)
  show "s = r" if "s \<in> set (stages db)" "r \<in> set (stages db)" "stage_schedule s = stage_schedule r"
    "stage_order (f s) = stage_order (f r)" for s r
    using same_order [OF assms(1) that(1-3)] that(4) assms(7) by simp
qed (rule assms(6))

lemma write_stage_orders:
  assumes "orders_ok db" and "ids_ok db'" and "write_stage stid f db = Inr db'"
    and "\<And>s. stage_schedule (f s) = stage_schedule s" and "\<And>s. stage_order (f s) = stage_order s"
  shows "orders_ok db'"
proof (rule orders_kept [OF assms(1,2) write_stage_tables(3) [OF assms(3)]])
  show "schedules db' = map (\<lambda>r. r) (schedules db)"
    unfolding write_stage_tables(1) [OF assms(3)] by simp
qed (simp_all add: assms(4,5))

lemma write_schedule_orders:
  assumes "orders_ok db" and "ids_ok db'" and "write_schedule sid f db = Inr db'"
    and "\<And>s. sched_id (f s) = sched_id s"
  shows "orders_ok db'"
proof (rule orders_kept [OF assms(1,2) _ write_schedule_tables(3) [OF assms(3)]])
  show "stages db' = map (\<lambda>r. r) (stages db)"
    unfolding write_schedule_tables(1) [OF assms(3)] by simp
qed (simp_all add: assms(4))

lemma foldl_max_start: "(n :: int) \<le> foldl max n ns"
  by (induction ns arbitrary: n) (simp, metis foldl_Cons max.bounded_iff)

lemma foldl_max_ge: "(x :: int) = n \<or> x \<in> set ns \<Longrightarrow> x \<le> foldl max n ns"
proof (induction ns arbitrary: n)
  case (Cons m ns)
  consider "x = n" | "x = m" | "x \<in> set ns" using Cons.prems by auto
  then show ?case
  proof cases
    case 3
    then show ?thesis using Cons.IH by simp
  qed (use foldl_max_start [of "max n m" ns] in auto)
qed simp

lemma max_stage_order_ge:
  assumes "s \<in> set ss" and "stage_schedule s = sid"
  shows "stage_order s \<le> max_stage_order sid ss"
proof -
  have "stage_order s \<in> set (map stage_order (stages_of sid ss))"
    using assms by (auto simp: stages_of_def)
  then show ?thesis using foldl_max_ge by (auto simp: max_stage_order_def split: list.splits)
qed

text \<open>A new row with an order of its own.\<close>

lemma orders_add:
  assumes "orders_ok (db\<lparr>stages := ss\<rparr>)" and "ids_ok (db\<lparr>stages := ss @ [n]\<rparr>)"
    and "stage_schedule n \<in> sched_id ` set (schedules db)"
    and "\<And>s. s \<in> set ss \<Longrightarrow> stage_schedule s = stage_schedule n \<Longrightarrow> stage_order s \<noteq> stage_order n"
  shows "orders_ok (db\<lparr>stages := ss @ [n]\<rparr>)"
proof -
  have "inj_on (\<lambda>s. (stage_schedule s, stage_order s)) (insert n (set ss))"
    unfolding inj_on_insert using assms(1,4) by (fastforce simp: orders_ok_def)
  then show ?thesis using assms(1-3) by (simp add: orders_ok_def)
qed

lemma lives_ids: "lives_on sid db db' \<Longrightarrow> ids_ok db'"
  by (simp add: lives_on_def)

lemma orders_ids: "orders_ok db \<Longrightarrow> ids_ok db"
  by (simp add: orders_ok_def)

lemma orders_percent [simp]: "orders_ok (set_percentage now fid p db) = orders_ok db"
  by (simp add: orders_ok_def ids_ok_def)

lemma writes_keep_order [simp]:
  "stage_schedule (start_write now s) = stage_schedule s" "stage_order (start_write now s) = stage_order s"
  "stage_schedule (complete_write now s) = stage_schedule s" "stage_order (complete_write now s) = stage_order s"
  "stage_id (start_write now s) = stage_id s" "stage_id (complete_write now s) = stage_id s"
  by (simp_all add: start_write_def complete_write_def)

lemma write_ids:
  assumes "ids_ok db" and "write_stage stid f db = Inr db'" and "\<And>s. stage_id (f s) = stage_id s"
  shows "ids_ok db'"
  using assms(1,3) write_stage_tables(1,3) [OF assms(2)]
  by (simp add: ids_ok_def if_distrib comp_def cong: if_cong)

lemma start_orders:
  assumes "orders_ok db" and "write_stage stid (start_write now) db = Inr db'"
  shows "orders_ok db'"
  by (rule write_stage_orders [OF assms(1) write_ids [OF orders_ids [OF assms(1)] assms(2)] assms(2)]) simp_all

lemma complete_orders:
  assumes "orders_ok db" and "write_stage stid (complete_write now) db = Inr db'"
  shows "orders_ok db'"
  by (rule write_stage_orders [OF assms(1) write_ids [OF orders_ids [OF assms(1)] assms(2)] assms(2)]) simp_all

lemma schedule_write_orders:
  assumes "orders_ok db" and "write_schedule sid f db = Inr db'" and "\<And>s. sched_id (f s) = sched_id s"
  shows "orders_ok db'"
proof -
  have "ids_ok db'"
    using orders_ids [OF assms(1)] write_schedule_tables(1,3) [OF assms(2)] assms(3)
    by (simp add: ids_ok_def if_distrib comp_def cong: if_cong)
  from write_schedule_orders [OF assms(1) this assms(2,3)] show ?thesis .
qed

lemma advance_locked_orders:
  assumes "orders_ok db" and "advance_locked now s sched db = Inr db'"
  shows "orders_ok db'"
proof (cases "stage_status s = StagePending")
  case True
  then show ?thesis using assms(2) start_orders [OF assms(1)] by (auto simp: advance_locked_def exc_rules)
next
  case False
  then obtain db1 where db1: "write_stage (stage_id s) (complete_write now) db = Inr db1"
    using assms(2) by (auto simp: advance_locked_def exc_rules)
  note o1 = complete_orders [OF assms(1) db1]
  show ?thesis
  proof (cases "filter (\<lambda>r. stage_order s < stage_order r) (pending_stages (sched_id sched) (stages db1))")
    case Nil
    then show ?thesis using False assms(2) db1 schedule_write_orders [OF o1] by (simp add: advance_locked_def)
  next
    case (Cons n ns)
    then show ?thesis
      using False assms(2) db1 start_orders [OF o1] by (auto simp: advance_locked_def exc_rules)
  qed
qed

lemma activate_stage_orders:
  "orders_ok db \<Longrightarrow> activate_stage now sched s db = Inr db' \<Longrightarrow> orders_ok db'"
  by (erule activate_stageE) (auto dest: start_orders)

lemma process_schedule_orders:
  assumes "orders_ok db" and "process_schedule fh now db sched db = Inr (updated, notices, db')"
  shows "orders_ok db'"
  using assms(2)
proof (cases rule: process_schedule_cases)
  case idle
  then show ?thesis using assms(1) by simp
next
  case (start s)
  then show ?thesis using activate_stage_orders [OF assms(1)] by blast
next
  case (finish current db1)
  note o1 = complete_orders [OF assms(1) finish(5)]
  then show ?thesis
    using finish(6) activate_stage_orders [OF o1] schedule_write_orders [OF o1] by auto
qed

lemma process_each_orders:
  "orders_ok db \<Longrightarrow> orders_ok (snd (process_each fh now ss (report, db)))"
proof (induction ss arbitrary: report db)
  case (Cons s ss)
  show ?case
  proof (cases "process_schedule fh now db s db")
    case (Inl e)
    then show ?thesis using Cons by (cases e) simp_all
  next
    case (Inr x)
    obtain u n db2 where "x = (u, n, db2)" by (cases x) auto
    then show ?thesis using process_schedule_orders [OF Cons.prems] Cons.IH Inr by simp
  qed
qed simp

text \<open>The requests.\<close>

lemma add_stage_orders:
  assumes "orders_ok db" and "add_rollout_stage now n i c db = Inr (Some db')"
  shows "orders_ok db'"
proof -
  let ?f = "shifted now (\<lambda>s. stage_schedule s = i \<and> sc_order c \<le> stage_order s) 1"
  let ?moved = "if sc_order c \<le> max_stage_order i (stages db) then map ?f (stages db) else stages db"
  obtain r where r: "get_rollout_schedule db i = Some r"
    and db': "db' = db\<lparr>stages := ?moved @ [created_stage now i n c]\<rparr>" and ids: "ids_ok db'"
    using assms(2) unfolding add_rollout_stage_def Let_def shift_stages_map
    by (auto simp: exc_rules check_rollout_Inr simp del: if_split split: option.splits)
  have moved: "orders_ok (db\<lparr>stages := ?moved\<rparr>)"
  proof (cases "sc_order c \<le> max_stage_order i (stages db)")
    case True
    have "ids_ok (db\<lparr>stages := map ?f (stages db)\<rparr>)"
      using orders_ids [OF assms(1)] by (simp add: ids_ok_def comp_def)
    then have "orders_ok (db\<lparr>stages := map ?f (stages db)\<rparr>)"
    proof (rule orders_map [OF assms(1), where f = ?f])
      fix s r assume s: "s \<in> set (stages db)" "r \<in> set (stages db)" "stage_schedule s = stage_schedule r"
        and e: "stage_order (?f s) = stage_order (?f r)"
      from e s(3) have "stage_order s = stage_order r" by (auto simp: shifted_def split: if_splits)
      then show "s = r" using same_order [OF assms(1) s] by simp
    qed simp_all
    with True show ?thesis by simp
  qed (use assms(1) in simp)
  have apart: "stage_order s \<noteq> sc_order c" if s: "s \<in> set ?moved" "stage_schedule s = i" for s
  proof (cases "sc_order c \<le> max_stage_order i (stages db)")
    case True
    then obtain x where x: "s = ?f x" using s(1) by auto
    then have "stage_schedule x = i" using s(2) by simp
    then show ?thesis unfolding x shifted_def by simp
  next
    case False
    then have "stage_order s \<le> max_stage_order i (stages db)" using s by (intro max_stage_order_ge) simp_all
    with False show ?thesis by simp
  qed
  have n: "stage_schedule (created_stage now i n c) = i" "stage_order (created_stage now i n c) = sc_order c"
    by (simp_all add: created_stage_def)
  have "i \<in> sched_id ` set (schedules db)" using get_rollout_scheduleE [OF r] by blast
  then have mem: "stage_schedule (created_stage now i n c) \<in> sched_id ` set (schedules db)" by (simp only: n)
  show ?thesis
    unfolding db' by (rule orders_add [OF moved ids [unfolded db'] mem]) (use apart n in auto)
qed

lemma update_stage_orders:
  assumes "orders_ok db" and "update_rollout_stage now stid d db = Inr (Some db')"
  shows "orders_ok db'"
  using assms(2)
proof (rule update_stageE)
  fix s moved
  let ?own = "\<lambda>r. if stage_id r = stid then touch_stage now r (stage_fields d r) else r"
  assume s: "get_stage db stid = Some s" and db': "db' = db\<lparr>stages := map ?own moved\<rparr>"
    and c: "check_rollout db' = Inr db'"
    and moved: "moved = stages db \<and> (\<forall>new. sent_value (su_order d) = Some new \<longrightarrow> new = stage_order s) \<or>
     stage_status s = StagePending \<and>
       (\<exists>new. sent_value (su_order d) = Some new \<and> new \<noteq> stage_order s \<and> moved = move_stages now s new (stages db))"
  note sE = get_stageE [OF s]
  have ids: "ids_ok db'" using c by (simp add: check_rollout_Inr)
  have order: "stage_order (touch_stage now r (stage_fields d r)) =
      (case sent_value (su_order d) of None \<Rightarrow> stage_order r | Some new \<Rightarrow> new)" for r
  proof -
    have "stage_order (touch_stage now r n) = stage_order n" for n
      by (simp add: touch_stage_def)
    moreover have "stage_order (stage_fields d r) =
        (case sent_value (su_order d) of None \<Rightarrow> stage_order r | Some new \<Rightarrow> new)"
      by (simp add: stage_fields_def upd_def split: option.split)
    ultimately show ?thesis by simp
  qed
  have keep: "stage_id (touch_stage now r (stage_fields d r)) = stage_id r"
    "stage_schedule (touch_stage now r (stage_fields d r)) = stage_schedule r" for r
    by (simp_all add: touch_stage_def)
  from moved show "orders_ok db'"
  proof (elim disjE conjE exE)
    assume m: "moved = stages db" and same: "\<forall>new. sent_value (su_order d) = Some new \<longrightarrow> new = stage_order s"
    show ?thesis
    proof (rule orders_map [OF assms(1) ids, where f = ?own])
      fix x y assume x: "x \<in> set (stages db)" "y \<in> set (stages db)" "stage_schedule x = stage_schedule y"
        and e: "stage_order (?own x) = stage_order (?own y)"
      have own: "stage_order (?own z) = stage_order z" if "z \<in> set (stages db)" for z
        using that same same_stage [OF orders_ids [OF assms(1)] _ sE(1)] sE(2)
        by (auto simp: order split: option.split)
      show "x = y" using same_order [OF assms(1) x] e own x(1,2) by simp
    qed (simp_all add: db' m keep)
  next
    fix new
    assume new: "sent_value (su_order d) = Some new" "new \<noteq> stage_order s"
      and m: "moved = move_stages now s new (stages db)"
    let ?g = "\<lambda>r. ?own (moved_row now s new r)"
    have g: "stage_order (?g r) = (if stage_id r = stid then new else stage_order (moved_row now s new r))" for r
      by (simp add: order new(1) moved_row_def)
    show ?thesis
    proof (rule orders_map [OF assms(1) ids, where f = ?g])
      fix x y assume x: "x \<in> set (stages db)" "y \<in> set (stages db)" "stage_schedule x = stage_schedule y"
        and e: "stage_order (?g x) = stage_order (?g y)"
      have one: "z = s" if "z \<in> set (stages db)" "stage_id z = stid" for z
        using same_stage [OF orders_ids [OF assms(1)] that(1) sE(1)] that(2) sE(2) by simp
      have apart: "stage_order z \<noteq> stage_order s"
        if "z \<in> set (stages db)" "stage_id z \<noteq> stid" "stage_schedule z = stage_schedule s" for z
        using same_order [OF assms(1) that(1) sE(1) that(3)] that(2) sE(2) by auto
      show "x = y"
      proof (rule same_order [OF assms(1) x])
        have "(if stage_id x = stid then new else stage_order (moved_row now s new x)) =
            (if stage_id y = stid then new else stage_order (moved_row now s new y))"
          using e unfolding g .
        then show "stage_order x = stage_order y"
          using x one [of x] one [of y] apart [of x] apart [of y] new(2) sE(2)
          unfolding moved_row_def shifted_def by (auto split: if_splits)
      qed
    qed (simp_all add: db' m move_stages_map keep moved_row_def)
  qed
qed

lemma delete_stage_orders:
  assumes "orders_ok db" and "delete_rollout_stage now stid db = Inr (Some db')"
  shows "orders_ok db'"
proof -
  obtain s where s: "get_stage db stid = Some s"
    and db': "db' = db\<lparr>stages := filter (\<lambda>x. stage_id x \<noteq> stid) (map (shifted now
      (\<lambda>x. stage_schedule x = stage_schedule s \<and> stage_order s < stage_order x) (- 1)) (stages db))\<rparr>"
    using assms(2) by (auto simp: delete_rollout_stage_def shift_stages_map split: option.splits if_splits)
  let ?f = "shifted now (\<lambda>x. stage_schedule x = stage_schedule s \<and> stage_order s < stage_order x) (- 1)"
  let ?rest = "filter (\<lambda>x. stage_id x \<noteq> stid) (stages db)"
  note sE = get_stageE [OF s]
  have rest: "db' = db\<lparr>stages := map ?f ?rest\<rparr>"
    unfolding db' filter_map comp_def by simp
  have ids: "ids_ok db'"
    using delete_stage_lives [OF orders_ids [OF assms(1)] assms(2)] by (rule lives_ids)
  have "orders_ok (db\<lparr>stages := ?rest\<rparr>)"
    using assms(1) by (auto simp: orders_ok_def ids_ok_def distinct_map_filter intro: inj_on_subset)
  then show ?thesis
  proof (rule orders_map [OF _ ids, where f = ?f])
    fix x y assume x: "x \<in> set (stages (db\<lparr>stages := ?rest\<rparr>))" "y \<in> set (stages (db\<lparr>stages := ?rest\<rparr>))"
      "stage_schedule x = stage_schedule y" and e: "stage_order (?f x) = stage_order (?f y)"
    have apart: "stage_order z \<noteq> stage_order s" if "z \<in> {x, y}" "stage_schedule z = stage_schedule s" for z
      using same_order [OF assms(1) _ sE(1) that(2)] that(1) x(1,2) sE(2) by auto
    show "x = y"
    proof (rule same_order [OF assms(1) _ _ x(3)])
      show "stage_order x = stage_order y"
        using e x(3) apart [of x] apart [of y] unfolding shifted_def by (auto split: if_splits)
    qed (use x in auto)
  qed (simp_all add: rest)
qed

lemma delete_schedule_orders:
  assumes "orders_ok db" and "delete_rollout_schedule db i db = Inr (Some db')"
  shows "orders_ok db'"
proof -
  have "db' = db\<lparr>schedules := filter (\<lambda>r. sched_id r \<noteq> i) (schedules db),
      stages := filter (\<lambda>r. stage_schedule r \<noteq> i) (stages db)\<rparr>"
    using assms(2) by (auto simp: delete_rollout_schedule_def split: option.splits if_splits)
  then show ?thesis
    using assms(1) by (auto simp: orders_ok_def ids_ok_def distinct_map_filter intro: inj_on_subset)
qed

lemma create_orders:
  assumes "orders_ok db" and "valid_schedule_create d" and "length is = length (rc_stages d)"
    and "create_rollout_schedule now i is d db = Inr db'"
  shows "orders_ok db'"
proof -
  let ?new = "map (\<lambda>(stid, s). created_stage now i stid s) (zip is (rc_stages d))"
  have c: "check_rollout db' = Inr db'"
    using assms(4) by (auto simp: create_rollout_schedule_def check_rollout_Inr split: if_splits)
  obtain r where db': "db' = db\<lparr>schedules := schedules db @ [r], stages := stages db @ ?new\<rparr>" and r: "sched_id r = i"
    using assms(4) by (auto simp: create_rollout_schedule_def check_rollout_Inr split: if_splits)
  have fresh: "i \<notin> sched_id ` set (schedules db)"
    using c r by (auto simp: check_rollout_Inr ids_ok_def db')
  have old: "stage_schedule s \<noteq> i" if "s \<in> set (stages db)" for s
    using assms(1) fresh that by (auto simp: orders_ok_def)
  have new: "stage_schedule s = i" if "s \<in> set ?new" for s
    using that by (auto simp: created_stage_def)
  have "map stage_order ?new = map sc_order (rc_stages d)"
  proof -
    have "map (\<lambda>x. stage_order (case x of (stid, s) \<Rightarrow> created_stage now i stid s)) (zip is ss) = map sc_order ss"
      if "length is = length ss" for ss
      using that by (induction "is" ss rule: list_induct2) (simp_all add: created_stage_def)
    from this [OF assms(3)] show ?thesis by (simp add: comp_def)
  qed
  moreover have "distinct (map sc_order (rc_stages d))"
    using assms(2) by (simp add: valid_schedule_create_def validate_stages_def Let_def)
  ultimately have "distinct (map stage_order ?new)" by (simp only:)
  then have "inj_on stage_order (set ?new)" by (simp only: distinct_map)
  then have "inj_on (\<lambda>s. (stage_schedule s, stage_order s)) (set (stages db) \<union> set ?new)"
    using assms(1) old new unfolding orders_ok_def inj_on_def by (metis Un_iff prod.inject)
  moreover have "\<forall>s\<in>set (stages db'). stage_schedule s \<in> sched_id ` set (schedules db')"
    using assms(1) new r by (auto simp: orders_ok_def db' simp del: set_map)
  ultimately show ?thesis
    using c by (simp add: orders_ok_def check_rollout_Inr db' del: set_map)
qed

lemma status_request_orders:
  assumes "orders_ok db"
  shows "activate_rollout_schedule now db i db = Inr (Some db') \<Longrightarrow> orders_ok db'"
    and "pause_rollout_schedule now db i db = Inr (Some db') \<Longrightarrow> orders_ok db'"
    and "cancel_rollout_schedule now db i db = Inr (Some db') \<Longrightarrow> orders_ok db'"
  using assms schedule_write_orders [OF assms]
  by (auto simp: activate_rollout_schedule_def pause_rollout_schedule_def cancel_rollout_schedule_def
      status_write_def exc_rules split: option.splits if_splits)

lemma update_schedule_orders:
  assumes "orders_ok db" and "update_rollout_schedule now db i u db = Inr (Some db')"
  shows "orders_ok db'"
proof -
  obtain f where "write_schedule i f db = Inr db'" "\<And>r. sched_id (f r) = sched_id r"
    using assms(2)
    by (auto simp: update_rollout_schedule_def exc_rules check_rollout_Inr upd_def touch_schedule_def
        split: if_splits option.splits)
  then show ?thesis using schedule_write_orders [OF assms(1)] by blast
qed

lemma advance_orders:
  assumes "orders_ok db" and "manually_advance_stage now db stid db = Inr (Some db')"
  shows "orders_ok db'"
  using assms advance_locked_orders [OF assms(1)]
  by (auto simp: manually_advance_stage_def exc_rules split: option.splits if_splits)

lemma tick_orders: "orders_ok db \<Longrightarrow> orders_ok (snd (process_rollout_schedules fh now db))"
  by (simp add: process_rollout_schedules_def process_each_orders)

lemmas operations_orders = create_orders update_schedule_orders status_request_orders delete_schedule_orders
  add_stage_orders update_stage_orders delete_stage_orders advance_orders tick_orders

lemma rollout_step_orders: "orders_ok db \<Longrightarrow> rollout_step sid db db' \<Longrightarrow> orders_ok db'"
proof (erule rollout_step.cases)
  show "orders_ok db'" if "orders_ok db" "schedule_step sid a b" "db = a" "db' = b" for a b
    using that(2,1) unfolding that(3,4) by cases (blast intro: operations_orders)+
qed (simp add: orders_ok_def ids_ok_def)

interpretation orders: invariant_of "rollout_step sid" orders_ok for sid
  by unfold_locales (rule rollout_step_orders)

end
