(* ===== verification/Rollout_Liveness.thy ===== *)
theory Rollout_Liveness
  imports Rollout_Progress
begin

text \<open>
  A schedule of time-based stages completes: ticks that come at least as far apart as the longest
  stage finish it in one tick more than it has pending stages, whatever the ticks do to other
  schedules and whichever of those fail.
\<close>

section \<open>Ticks leave the other schedules alone\<close>

definition same_own :: "pstr \<Rightarrow> rollout_db \<Rightarrow> rollout_db \<Rightarrow> bool" where
  "same_own sid db db' =
     (stages_of sid (stages db') = stages_of sid (stages db) \<and>
      get_rollout_schedule db' sid = get_rollout_schedule db sid \<and>
      map flag_id (rollout_flags db') = map flag_id (rollout_flags db) \<and> ids_ok db')"

lemma same_own_refl: "ids_ok db \<Longrightarrow> same_own sid db db"
  by (simp add: same_own_def)

lemma same_own_trans: "same_own sid a b \<Longrightarrow> same_own sid b c \<Longrightarrow> same_own sid a c"
  by (simp add: same_own_def)

lemma same_own_ids: "same_own sid a b \<Longrightarrow> ids_ok b"
  by (simp add: same_own_def)

lemma stages_of_map_other:
  assumes "\<And>x. x \<in> set xs \<Longrightarrow> stage_id x = i \<Longrightarrow> stage_schedule x \<noteq> sid"
    and "\<And>x. stage_schedule (f x) = stage_schedule x"
  shows "stages_of sid (map (\<lambda>x. if stage_id x = i then f x else x) xs) = stages_of sid xs"
  using assms(1) by (induction xs) (simp_all add: stages_of_def assms(2))

lemma write_stage_own:
  assumes "ids_ok db" and "write_stage (stage_id s) f db = Inr db'" and "s \<in> set (stages db)"
    and "stage_schedule s \<noteq> sid" and "\<And>x. stage_schedule (f x) = stage_schedule x"
    and "\<And>x. stage_id (f x) = stage_id x"
  shows "same_own sid db db'"
proof -
  have "stages_of sid (stages db') = stages_of sid (stages db)"
    unfolding write_stage_tables(3) [OF assms(2)]
    by (rule stages_of_map_other) (use same_stage [OF assms(1) _ assms(3)] assms(4,5) in auto)
  then show ?thesis
    using write_ids [OF assms(1,2,6)] write_stage_tables(1,2) [OF assms(2)]
    by (simp add: same_own_def get_rollout_schedule_def)
qed

lemma find_map_other:
  assumes "i \<noteq> sid" and "\<And>x. sched_id (f x) = sched_id x"
  shows "find (\<lambda>s. sched_id s = sid) (map (\<lambda>x. if sched_id x = i then f x else x) xs) =
    find (\<lambda>s. sched_id s = sid) xs"
  using assms(1) by (induction xs) (simp_all add: assms(2))

lemma write_schedule_own:
  assumes "ids_ok db" and "write_schedule i f db = Inr db'" and "i \<noteq> sid" and "\<And>x. sched_id (f x) = sched_id x"
  shows "same_own sid db db'"
proof -
  have "get_rollout_schedule db' sid = get_rollout_schedule db sid"
    unfolding get_rollout_schedule_def write_schedule_tables(3) [OF assms(2)]
    by (rule find_map_other [OF assms(3,4)])
  moreover have "ids_ok db'"
    using assms(1,4) write_schedule_tables(1,3) [OF assms(2)]
    by (simp add: ids_ok_def if_distrib comp_def cong: if_cong)
  ultimately show ?thesis using write_schedule_tables(1,2) [OF assms(2)] by (simp add: same_own_def)
qed

lemma set_percentage_own: "same_own sid db (set_percentage now fid p db') = same_own sid db db'"
  by (simp add: same_own_def get_rollout_schedule_def ids_ok_def set_percentage_def comp_def if_distrib cong: if_cong)

lemma activate_stage_own:
  assumes "ids_ok db" and "activate_stage now sched s db = Inr db'" and "s \<in> set (stages db)"
    and "stage_schedule s \<noteq> sid"
  shows "same_own sid db db'"
  using assms(2)
proof (rule activate_stageE)
  fix db1 r
  assume w: "write_stage (stage_id s) (start_write now) db = Inr db1"
    and db': "db' = set_percentage now (sched_flag sched) (stage_target s) db1"
  have "same_own sid db db1" by (rule write_stage_own [OF assms(1) w assms(3,4)]) simp_all
  then show ?thesis by (simp add: db' set_percentage_own)
qed

lemma process_schedule_own:
  assumes "ids_ok db" and "process_schedule fh now db sched db = Inr (updated, notices, db')"
    and "sched_id sched \<noteq> sid"
  shows "same_own sid db db'"
  using assms(2)
proof (cases rule: process_schedule_cases)
  case idle
  then show ?thesis using same_own_refl assms(1) by blast
next
  case (start s)
  show ?thesis
    using activate_stage_own [OF assms(1) start(5)] pending_stagesE [OF start(2)] assms(3) by simp
next
  case (finish current db1)
  have s1: "same_own sid db db1"
    by (rule write_stage_own [OF assms(1) finish(5,2)]) (use finish(3) assms(3) in simp_all)
  note ok1 = same_own_ids [OF s1]
  from finish(6) have "same_own sid db1 db'"
  proof (elim disjE bexE conjE)
    fix s assume s: "s \<in> set (pending_stages (sched_id sched) (stages db))"
    show "same_own sid db1 db'" if "db' = db1" using same_own_refl [OF ok1] that by simp
    show "same_own sid db1 db'" if a: "activate_stage now sched s db1 = Inr db'"
    proof -
      have "stage_id s \<noteq> stage_id current"
        using same_stage [OF assms(1) pending_stagesE(1) [OF s] finish(2)] pending_stagesE(3) [OF s] finish(4) by auto
      then have "s \<in> set (stages db1)"
        using write_stage_other [OF finish(5) pending_stagesE(1) [OF s]] by simp
      then show ?thesis using activate_stage_own [OF ok1 a] pending_stagesE(2) [OF s] assms(3) by simp
    qed
  next
    assume "write_schedule (sched_id sched) (\<lambda>r. r\<lparr>sched_status := SchedCompleted, sched_updated := now\<rparr>) db1 =
        Inr db'"
    then show "same_own sid db1 db'" by (rule write_schedule_own [OF ok1 _ assms(3)]) simp
  qed
  with s1 show ?thesis by (rule same_own_trans)
qed

lemma process_each_others:
  "ids_ok db \<Longrightarrow> sid \<notin> sched_id ` set ss \<Longrightarrow> same_own sid db (snd (process_each fh now ss (report, db)))"
proof (induction ss arbitrary: report db)
  case Nil
  then show ?case by (simp add: same_own_refl)
next
  case (Cons s ss)
  show ?case
  proof (cases "process_schedule fh now db s db")
    case (Inl e)
    then show ?thesis using Cons by (cases e) simp_all
  next
    case (Inr x)
    obtain u n db2 where x: "x = (u, n, db2)" by (cases x) auto
    have "sched_id s \<noteq> sid" using Cons.prems(2) by auto
    then have s2: "same_own sid db db2" using process_schedule_own [OF Cons.prems(1) Inr [unfolded x]] by simp
    have "same_own sid db2 (snd (process_each fh now ss (r, db2)))" for r
      using Cons.IH [OF same_own_ids [OF s2]] Cons.prems(2) by simp
    from same_own_trans [OF s2 this] show ?thesis using Inr x by simp
  qed
qed

lemma process_each_append:
  "process_each fh now (a @ b) (report, db) =
     process_each fh now b (process_each fh now a (report, db))"
proof (induction a arbitrary: report db)
  case (Cons s a)
  obtain report2 db2 where "(case process_schedule fh now db s db of
      Inl (ScheduleNoLongerActive _) \<Rightarrow> (report\<lparr>schedules_skipped := Suc (schedules_skipped report)\<rparr>, db)
    | Inl _ \<Rightarrow> (report\<lparr>items_failed := Suc (items_failed report)\<rparr>, db)
    | Inr (updated, notices, db') \<Rightarrow>
        (report\<lparr>items_processed := items_processed report + (if updated then 1 else 0),
           stage_transitions := stage_transitions report + length notices\<rparr>, db')) = (report2, db2)"
    by (rule prod.exhaust)
  with Cons.IH show ?case by simp
qed simp

section \<open>A tick advances the schedule\<close>

text \<open>
  A stage that only time holds back: its start is not later than \<open>t\<close>, its duration is at most
  \<open>D\<close>, and if it is in progress it has been since an instant not later than \<open>t\<close>.
\<close>

definition timely :: "(pyfloat \<Rightarrow> int res) \<Rightarrow> int \<Rightarrow> int \<Rightarrow> rollout_stage \<Rightarrow> bool" where
  "timely fh D t s =
     (stage_trigger s = TimeBased \<and> stage_status s \<noteq> StageFailed \<and>
      (case stage_start s of None \<Rightarrow> True | Some start \<Rightarrow> start \<le> t) \<and>
      (stage_status s = StageInProgress \<longrightarrow> 0 \<le> stage_updated s \<and> stage_updated s \<le> t) \<and>
      (\<exists>v d. stage_duration (stage_config s) = Inr v \<and> timedelta_hours fh v = Inr d \<and> 0 \<le> d \<and> d \<le> D))"

definition running :: "int \<Rightarrow> rollout_db \<Rightarrow> rollout_schedule \<Rightarrow> bool" where
  "running D db r =
     (sched_status r = SchedActive \<and> sched_end r = None \<and> get_rollout_flag db (sched_flag r) \<noteq> None \<and>
      (case sched_min_duration r of None \<Rightarrow> True | Some h \<Rightarrow> HOUR * h \<le> D))"

definition ticking :: "(pyfloat \<Rightarrow> int res) \<Rightarrow> int \<Rightarrow> pstr \<Rightarrow> int \<Rightarrow> rollout_db \<Rightarrow> bool" where
  "ticking fh D sid t db =
     (ids_ok db \<and> (\<exists>r. get_rollout_schedule db sid = Some r \<and> running D db r) \<and>
      list_all (timely fh D t) (stages_of sid (stages db)) \<and> single (in_progress sid db) \<and> 0 \<le> t)"

definition n_pending :: "pstr \<Rightarrow> rollout_db \<Rightarrow> nat" where
  "n_pending sid db = length (filter (\<lambda>s. stage_status s = StagePending) (stages_of sid (stages db)))"

definition finished :: "pstr \<Rightarrow> rollout_db \<Rightarrow> bool" where
  "finished sid db =
     (map_option sched_status (get_rollout_schedule db sid) = Some SchedCompleted \<and>
      list_all (\<lambda>s. stage_status s = StageCompleted) (stages_of sid (stages db)))"

lemma flag_known:
  "map flag_id (rollout_flags db') = map flag_id (rollout_flags db) \<Longrightarrow>
     get_rollout_flag db' fid = None \<longleftrightarrow> get_rollout_flag db fid = None"
  unfolding get_rollout_flag_def find_None_iff by (metis (no_types, opaque_lifting) image_iff list.set_map)

lemma running_own:
  assumes "same_own sid db db'" and "running D db r"
  shows "running D db' r"
  using assms flag_known [of db' db "sched_flag r"] by (simp add: running_def same_own_def)

lemma in_progress_own: "in_progress sid db =
    {i. \<exists>s\<in>set (stages_of sid (stages db)). stage_id s = i \<and> stage_status s = StageInProgress}"
  by (auto simp: in_progress_def stages_of_def)

lemma ticking_own:
  assumes "same_own sid db db'" and "ticking fh D sid t db"
  shows "ticking fh D sid t db'"
  using assms running_own [OF assms(1)]
  unfolding ticking_def in_progress_own by (auto simp: same_own_def)

lemma n_pending_own: "same_own sid db db' \<Longrightarrow> n_pending sid db' = n_pending sid db"
  by (simp add: same_own_def n_pending_def)

lemma finished_own: "same_own sid db db' \<Longrightarrow> finished sid db' = finished sid db"
  by (simp add: same_own_def finished_def)

lemma timely_later: "timely fh D t s \<Longrightarrow> t \<le> t' \<Longrightarrow> timely fh D t' s"
  by (auto simp: timely_def split: option.splits)

lemma timely_written:
  assumes "timely fh D t s" and "t \<le> now" and "0 \<le> now"
  shows "timely fh D now (start_write now s)" "timely fh D now (complete_write now s)"
  using assms by (auto simp: timely_def start_write_def complete_write_def split: option.splits)

text \<open>Writing the rows of the schedule.\<close>

lemma stages_of_map:
  assumes "\<And>x. stage_schedule (f x) = stage_schedule x"
  shows "stages_of sid (map f xs) = map f (stages_of sid xs)"
  by (induction xs) (simp_all add: stages_of_def assms)

lemma pending_after_write:
  assumes "distinct (map stage_id xs)" and "s \<in> set xs" and "\<And>x. stage_status (f x) \<noteq> StagePending"
  shows "length (filter (\<lambda>x. stage_status x = StagePending)
      (map (\<lambda>x. if stage_id x = stage_id s then f x else x) xs)) =
    length (filter (\<lambda>x. stage_status x = StagePending) xs) - (if stage_status s = StagePending then 1 else 0)"
  using assms(1,2)
proof (induction xs)
  case (Cons x xs)
  show ?case
  proof (cases "x = s")
    case True
    then have "map (\<lambda>x. if stage_id x = stage_id s then f x else x) xs = xs"
      using Cons.prems(1) by (intro map_idI) (auto simp: image_iff)
    then show ?thesis using True assms(3) by simp
  next
    case False
    then have s: "s \<in> set xs" "stage_id x \<noteq> stage_id s" using Cons.prems by auto
    have "0 < length (filter (\<lambda>x. stage_status x = StagePending) xs)" if "stage_status s = StagePending"
      using s(1) that by (auto simp: filter_empty_conv)
    then show ?thesis using s Cons by auto
  qed
qed simp

lemma own_distinct: "ids_ok db \<Longrightarrow> distinct (map stage_id (stages_of sid (stages db)))"
  by (simp add: ids_ok_def stages_of_def distinct_map_filter)

text \<open>One write to a row of the schedule: what stays, and how many stages are pending.\<close>

lemma write_own:
  assumes "ids_ok db" and "write_stage (stage_id s) f db = Inr db'" and "s \<in> set (stages_of sid (stages db))"
    and "\<And>x. stage_schedule (f x) = stage_schedule x" and "\<And>x. stage_id (f x) = stage_id x"
    and "\<And>x. stage_status (f x) \<noteq> StagePending"
  shows "n_pending sid db' = n_pending sid db - (if stage_status s = StagePending then 1 else 0)"
    and "ids_ok db'" and "get_rollout_schedule db' sid' = get_rollout_schedule db sid'"
    and "stages_of sid (stages db') =
      map (\<lambda>x. if stage_id x = stage_id s then f x else x) (stages_of sid (stages db))"
    and "rollout_flags db' = rollout_flags db"
proof -
  show e: "stages_of sid (stages db') =
      map (\<lambda>x. if stage_id x = stage_id s then f x else x) (stages_of sid (stages db))"
    unfolding write_stage_tables(3) [OF assms(2)] by (rule stages_of_map) (simp add: assms(4))
  show "n_pending sid db' = n_pending sid db - (if stage_status s = StagePending then 1 else 0)"
    unfolding n_pending_def e by (rule pending_after_write [OF own_distinct [OF assms(1)] assms(3,6)])
  show "ids_ok db'" by (rule write_ids [OF assms(1,2,5)])
  show "get_rollout_schedule db' sid' = get_rollout_schedule db sid'" "rollout_flags db' = rollout_flags db"
    using write_stage_tables(1,2) [OF assms(2)] by (simp_all add: get_rollout_schedule_def)
qed

text \<open>Starting a stage of the schedule never fails here.\<close>

definition paced :: "(pyfloat \<Rightarrow> int res) \<Rightarrow> int \<Rightarrow> pstr \<Rightarrow> int \<Rightarrow> rollout_schedule \<Rightarrow> rollout_db \<Rightarrow> bool" where
  "paced fh D sid t r db =
     (ids_ok db \<and> get_rollout_schedule db sid = Some r \<and> running D db r \<and>
      list_all (timely fh D t) (stages_of sid (stages db)) \<and> 0 \<le> t)"

lemma write_paced:
  assumes "paced fh D sid t r db" and "t \<le> now" and "f = start_write now \<or> f = complete_write now"
    and "write_stage (stage_id s) f db = Inr db'" and "s \<in> set (stages_of sid (stages db))"
  shows "paced fh D sid now r db'"
    and "n_pending sid db' = n_pending sid db - (if stage_status s = StagePending then 1 else 0)"
proof -
  have ok: "ids_ok db" and nn: "0 \<le> now" using assms(1,2) by (auto simp: paced_def)
  have keep: "\<And>x. stage_schedule (f x) = stage_schedule x" "\<And>x. stage_id (f x) = stage_id x"
    "\<And>x. stage_status (f x) \<noteq> StagePending"
    using assms(3) by auto
  note w = write_own [OF ok assms(4,5) keep]
  show "n_pending sid db' = n_pending sid db - (if stage_status s = StagePending then 1 else 0)" by (rule w(1))
  have "timely fh D now (f x)" if "timely fh D t x" for x
    using timely_written [OF that assms(2) nn] assms(3) by blast
  then have "list_all (timely fh D now) (stages_of sid (stages db'))"
    using assms(1,2) unfolding w(4) by (auto simp: paced_def list_all_iff intro: timely_later)
  moreover have "running D db' r"
    using assms(1) flag_known [of db' db] w(5) by (simp add: paced_def running_def)
  ultimately show "paced fh D sid now r db'"
    using assms(1) w(2,3) nn by (simp add: paced_def)
qed

lemma stages_of_iff: "s \<in> set (stages_of sid ss) \<longleftrightarrow> s \<in> set ss \<and> stage_schedule s = sid"
  by (auto simp: stages_of_def)

lemma percent_paced: "paced fh D sid t r (set_percentage now fid p db) = paced fh D sid t r db"
  unfolding paced_def running_def
  using flag_known [of "set_percentage now fid p db" db "sched_flag r"]
  by (simp add: ids_ok_def get_rollout_schedule_def set_percentage_def comp_def if_distrib cong: if_cong)

lemma percent_pending: "n_pending sid (set_percentage now fid p db) = n_pending sid db"
  by (simp add: n_pending_def)

lemma write_stage_ok: "s \<in> set (stages db) \<Longrightarrow> \<exists>db'. write_stage (stage_id s) f db = Inr db'"
  by (simp add: write_stage_def)

lemma start_paced:
  assumes "paced fh D sid t r db" and "t \<le> now" and "s \<in> set (stages_of sid (stages db))"
    and "stage_status s = StagePending"
  obtains db' where "activate_stage now r s db = Inr db'" "paced fh D sid now r db'"
    "n_pending sid db' = n_pending sid db - 1" "stage_id s \<in> in_progress sid db'"
proof -
  have r: "sched_id r = sid" "get_rollout_schedule db sid = Some r" "sched_status r = SchedActive"
    "get_rollout_flag db (sched_flag r) \<noteq> None"
    using assms(1) get_rollout_scheduleE(2) by (auto simp: paced_def running_def)
  obtain db1 where db1: "write_stage (stage_id s) (start_write now) db = Inr db1"
    using write_stage_ok [of s db "start_write now"] assms(3) by (auto simp: stages_of_iff)
  let ?db = "set_percentage now (sched_flag r) (stage_target s) db1"
  have "activate_stage now r s db = Inr ?db"
    using r db1 by (simp add: activate_stage_def lock_active_schedule_def)
  moreover have "paced fh D sid now r ?db" "n_pending sid ?db = n_pending sid db - 1"
    using write_paced [OF assms(1,2) _ db1 assms(3)] assms(4) by (simp_all add: percent_paced percent_pending)
  moreover have "start_write now s \<in> set (stages db1)"
    using assms(3) unfolding write_stage_tables(3) [OF db1] by (auto simp: stages_of_iff image_iff)
  then have "stage_id s \<in> in_progress sid ?db"
    using assms(3) unfolding in_progress_percent in_progress_def
    by (intro CollectI bexI [of _ "start_write now s"]) (simp_all add: start_write_def stages_of_iff)
  ultimately show ?thesis by (rule that)
qed

lemma pending_of: "s \<in> set (pending_stages sid ss) \<Longrightarrow> s \<in> set (stages_of sid ss) \<and> stage_status s = StagePending"
  using pending_stagesE by (auto simp: stages_of_iff)

lemma no_pending_iff: "pending_stages sid (stages db) = [] \<longleftrightarrow> n_pending sid db = 0"
proof -
  have "length (pending_stages sid (stages db)) = n_pending sid db"
    by (simp add: pending_stages_def n_pending_def stages_of_def conj_commute)
  then show ?thesis by (metis length_0_conv)
qed

text \<open>A timely stage is eligible, and a stage in progress is due after \<open>D\<close>.\<close>

lemma timely_eligible:
  "timely fh D t s \<Longrightarrow> t \<le> now \<Longrightarrow> stage_status s = StagePending \<Longrightarrow> is_stage_eligible_for_activation s now"
  by (auto simp: timely_def is_stage_eligible_for_activation_def split: option.splits)

lemma timely_due:
  assumes "timely fh D t s" and "t + D \<le> now" and "now \<le> DATETIME_MAX" and "stage_status s = StageInProgress"
  shows "is_stage_eligible_for_completion fh s now = Inr True"
  using assms by (auto simp: timely_def is_stage_eligible_for_completion_def add_delta_def DATETIME_MIN_def)

lemma not_waiting:
  assumes "running D db r" and "t + D \<le> now" and "stage_updated s \<le> t"
  shows "\<not> min_duration_left now r s"
  using assms by (auto simp: running_def min_duration_left_def split: option.splits)

lemma finish_own:
  assumes "paced fh D sid t r db" and "n_pending sid db = 0" and "in_progress sid db = {}"
    and "write_schedule sid (\<lambda>r. r\<lparr>sched_status := SchedCompleted, sched_updated := now\<rparr>) db = Inr db'"
  shows "finished sid db'"
proof -
  have "stage_status s = StageCompleted" if s: "s \<in> set (stages_of sid (stages db))" for s
  proof -
    have "stage_status s \<noteq> StageFailed" using assms(1) s by (auto simp: paced_def timely_def list_all_iff)
    moreover have "stage_status s \<noteq> StageInProgress" using assms(3) s by (auto simp: in_progress_own)
    moreover have "stage_status s \<noteq> StagePending"
      using assms(2) s by (auto simp: n_pending_def filter_empty_conv)
    ultimately show ?thesis by (cases "stage_status s") simp_all
  qed
  moreover have "map_option sched_status (get_rollout_schedule db' sid) = Some SchedCompleted"
  proof -
    have F: "find (\<lambda>s. sched_id s = sid) (map (\<lambda>s. if sched_id s = sid
        then s\<lparr>sched_status := SchedCompleted, sched_updated := now\<rparr> else s) xs) =
      map_option (\<lambda>r. r\<lparr>sched_status := SchedCompleted, sched_updated := now\<rparr>)
        (find (\<lambda>s. sched_id s = sid) xs)" for xs
      by (induction xs) simp_all
    have "find (\<lambda>s. sched_id s = sid) (schedules db) = Some r"
      using assms(1) by (simp add: paced_def get_rollout_schedule_def)
    then show ?thesis
      unfolding get_rollout_schedule_def write_schedule_tables(3) [OF assms(4)] F by simp
  qed
  ultimately show ?thesis
    using write_schedule_tables(1) [OF assms(4)] by (simp add: finished_def list_all_iff)
qed

lemma paced_ticking:
  "paced fh D sid t r db \<Longrightarrow> single (in_progress sid db) \<Longrightarrow> ticking fh D sid t db"
  by (auto simp: paced_def ticking_def)

lemma own_tick:
  assumes "ticking fh D sid t db" and "0 \<le> D" and "t + D \<le> now" and "now \<le> DATETIME_MAX"
    and "get_rollout_schedule db sid = Some r" and "n_pending sid db \<noteq> 0 \<or> in_progress sid db \<noteq> {}"
  shows "\<exists>u n db'. process_schedule fh now db r db = Inr (u, n, db') \<and>
    (if n_pending sid db = 0 then finished sid db'
     else ticking fh D sid now db' \<and> Suc (n_pending sid db') = n_pending sid db \<and> in_progress sid db' \<noteq> {})"
proof -
  have p: "paced fh D sid t r db" and one: "single (in_progress sid db)" and ok: "ids_ok db"
    using assms(1,5) by (auto simp: ticking_def paced_def)
  have le: "t \<le> now" using assms(2,3) by simp
  have run: "running D db r" and r: "sched_id r = sid" and active: "sched_status r = SchedActive"
    using p get_rollout_scheduleE(2) [OF assms(5)] by (auto simp: paced_def running_def)
  have timely: "timely fh D t s" if "s \<in> set (stages_of sid (stages db))" for s
    using p that by (simp add: paced_def list_all_iff)
  let ?P = "pending_stages sid (stages db)"
  show ?thesis
  proof (cases "find (\<lambda>s. stage_schedule s = sid \<and> stage_status s = StageInProgress) (stages db)")
    case None
    then have none: "in_progress sid db = {}" by (auto simp: in_progress_def find_None_iff)
    then obtain s ss where s: "?P = s # ss"
      using assms(6) no_pending_iff [of sid db] by (cases ?P) auto
    then have sm: "s \<in> set (stages_of sid (stages db))" "stage_status s = StagePending"
      using pending_of [of s sid "stages db"] by auto
    obtain db' where a: "activate_stage now r s db = Inr db'" "paced fh D sid now r db'"
      "n_pending sid db' = n_pending sid db - 1" "stage_id s \<in> in_progress sid db'"
      using start_paced [OF p le sm] .
    have e: "process_schedule fh now db r db = Inr (True, [(sched_flag r, stage_name s, stage_target s)], db')"
      using None s a(1) timely_eligible [OF timely [OF sm(1)] le sm(2)]
      by (simp add: process_schedule_def r Let_def)
    have "single (in_progress sid db')" using process_schedule_single [OF ok e one] .
    from paced_ticking [OF a(2) this] have "ticking fh D sid now db'" .
    moreover have nz: "n_pending sid db \<noteq> 0" using s no_pending_iff [of sid db] by simp
    moreover have "Suc (n_pending sid db') = n_pending sid db" using a(3) nz by simp
    moreover have "in_progress sid db' \<noteq> {}" using a(4) by blast
    ultimately show ?thesis unfolding if_not_P [OF nz] using e by blast
  next
    case (Some current)
    then have c: "current \<in> set (stages_of sid (stages db))" "stage_status current = StageInProgress"
      by (auto simp: find_Some_iff stages_of_iff)
    have due: "is_stage_eligible_for_completion fh current now = Inr True"
      using timely_due [OF timely [OF c(1)] assms(3,4) c(2)] .
    have wait: "\<not> min_duration_left now r current"
      using not_waiting [OF run assms(3)] timely [OF c(1)] c(2) by (simp add: timely_def)
    obtain db1 where db1: "write_stage (stage_id current) (complete_write now) db = Inr db1"
      using write_stage_ok [of current db "complete_write now"] c(1) by (auto simp: stages_of_iff)
    have p1: "paced fh D sid now r db1" and n1: "n_pending sid db1 = n_pending sid db"
      using write_paced [OF p le _ db1 c(1)] c(2) by simp_all
    have none: "in_progress sid db1 = {}"
    proof -
      have "stage_id current \<in> in_progress sid db" using c by (auto simp: in_progress_own)
      then show ?thesis
        using one in_progress_complete [OF db1, of sid] by (auto simp: single_def)
    qed
    show ?thesis
    proof (cases "next_pending current ?P")
      case None
      then have "?P = []" by (auto simp: next_pending_def split: list.splits)
      then have z: "n_pending sid db = 0" by (simp add: no_pending_iff)
      obtain db' where w: "write_schedule sid (\<lambda>r. r\<lparr>sched_status := SchedCompleted, sched_updated := now\<rparr>) db1 =
          Inr db'"
        using p1 get_rollout_scheduleE [of db1 sid r] by (auto simp: write_schedule_def paced_def)
      have "process_schedule fh now db r db = Inr (True, [], db')"
        using \<open>find _ _ = Some current\<close> None due db1 w p1 active
        by (simp add: process_schedule_def r Let_def lock_active_schedule_def paced_def)
      moreover have "finished sid db'" using finish_own [OF p1 _ none w] n1 z by simp
      ultimately show ?thesis unfolding if_P [OF z] by blast
    next
      case (Some s)
      then have s: "s \<in> set ?P" using next_pending_in by blast
      then have sm: "s \<in> set (stages_of sid (stages db))" "stage_status s = StagePending"
        using pending_of [of s sid "stages db"] by auto
      have nz: "n_pending sid db \<noteq> 0" using s no_pending_iff [of sid db] by auto
      have rows: "s \<in> set (stages db)" "current \<in> set (stages db)"
        using sm(1) c(1) by (simp_all add: stages_of_iff)
      have "stage_id s \<noteq> stage_id current"
      proof
        assume "stage_id s = stage_id current"
        then have "s = current" by (rule same_stage [OF ok rows])
        then show False using sm(2) c(2) by simp
      qed
      then have "s \<in> set (stages db1)" using write_stage_other [OF db1, of s] sm(1) by (simp add: stages_of_iff)
      then have sm1: "s \<in> set (stages_of sid (stages db1))" using sm(1) by (simp add: stages_of_iff)
      obtain db' where a: "activate_stage now r s db1 = Inr db'" "paced fh D sid now r db'"
        "n_pending sid db' = n_pending sid db1 - 1" "stage_id s \<in> in_progress sid db'"
        using start_paced [OF p1 order_refl sm1 sm(2)] .
      have e: "process_schedule fh now db r db = Inr (True, [(sched_flag r, stage_name s, stage_target s)], db')"
        using \<open>find _ _ = Some current\<close> Some due wait db1 a(1) timely_eligible [OF timely [OF sm(1)] le sm(2)]
        by (simp add: process_schedule_def r Let_def)
      have "single (in_progress sid db')" using process_schedule_single [OF ok e one] .
      from paced_ticking [OF a(2) this] have "ticking fh D sid now db'" .
      moreover have "Suc (n_pending sid db') = n_pending sid db" using a(3) n1 nz by simp
      moreover have "in_progress sid db' \<noteq> {}" using a(4) by blast
      ultimately show ?thesis unfolding if_not_P [OF nz] using e by blast
    qed
  qed
qed

section \<open>Enough ticks complete the schedule\<close>

fun run_ticks :: "(pyfloat \<Rightarrow> int res) \<Rightarrow> int list \<Rightarrow> rollout_db \<Rightarrow> rollout_db" where
  "run_ticks fh [] db = db"
| "run_ticks fh (now # instants) db = run_ticks fh instants (snd (process_rollout_schedules fh now db))"

fun spaced :: "int \<Rightarrow> int \<Rightarrow> int list \<Rightarrow> bool" where
  "spaced D t [] = True"
| "spaced D t (now # instants) = (t + D \<le> now \<and> now \<le> DATETIME_MAX \<and> spaced D now instants)"

lemma tick_own:
  assumes "ticking fh D sid t db" and "0 \<le> D" and "t + D \<le> now" and "now \<le> DATETIME_MAX"
    and "n_pending sid db \<noteq> 0 \<or> in_progress sid db \<noteq> {}"
  shows "let db' = snd (process_rollout_schedules fh now db) in
    if n_pending sid db = 0 then finished sid db'
    else ticking fh D sid now db' \<and> Suc (n_pending sid db') = n_pending sid db \<and> in_progress sid db' \<noteq> {}"
proof -
  obtain r where r: "get_rollout_schedule db sid = Some r" and run: "running D db r" and ok: "ids_ok db"
    using assms(1) by (auto simp: ticking_def)
  have "r \<in> set (due_schedules now db)"
    using run get_rollout_scheduleE [OF r] by (auto simp: due_schedules_def running_def)
  then obtain a b where ab: "due_schedules now db = a @ r # b" by (meson split_list)
  have "distinct (map sched_id (due_schedules now db))"
    using ok by (simp add: ids_ok_def due_schedules_def distinct_map_filter)
  then have out: "sid \<notin> sched_id ` set a" "sid \<notin> sched_id ` set b"
    using get_rollout_scheduleE(2) [OF r] by (auto simp: ab)
  let ?rep = "\<lparr>items_processed = 0, items_failed = 0, stage_transitions = 0, schedules_skipped = 0\<rparr>"
  obtain rep1 db1 where x1: "process_each fh now a (?rep, db) = (rep1, db1)" by fastforce
  then have s1: "same_own sid db db1" using process_each_others [OF ok out(1), of fh now ?rep] by simp
  note t1 = ticking_own [OF s1 assms(1)]
  have r1: "get_rollout_schedule db1 sid = Some r" using s1 r by (simp add: same_own_def)
  have i1: "in_progress sid db1 = in_progress sid db" using s1 by (simp add: in_progress_own same_own_def)
  obtain u n db2 where x2: "process_schedule fh now db1 r db1 = Inr (u, n, db2)"
    and g: "if n_pending sid db = 0 then finished sid db2
     else ticking fh D sid now db2 \<and> Suc (n_pending sid db2) = n_pending sid db \<and> in_progress sid db2 \<noteq> {}"
    using own_tick [OF t1 assms(2-4) r1] assms(5) unfolding n_pending_own [OF s1] i1 by blast
  have "ids_ok db2" using process_schedule_lives [OF same_own_ids [OF s1] x2] by (rule lives_ids)
  from process_each_others [OF this out(2)]
  have s3: "same_own sid db2 (snd (process_each fh now b (rep, db2)))" for rep .
  have "snd (process_rollout_schedules fh now db) =
    snd (process_each fh now b (rep1\<lparr>items_processed := items_processed rep1 + (if u then 1 else 0),
           stage_transitions := stage_transitions rep1 + length n\<rparr>, db2))"
    by (simp add: process_rollout_schedules_def ab process_each_append x1 x2)
  then obtain db3 where db3: "snd (process_rollout_schedules fh now db) = db3" and s: "same_own sid db2 db3"
    using s3 by metis
  have "in_progress sid db3 = in_progress sid db2" using s by (simp add: in_progress_own same_own_def)
  then show ?thesis
    using g finished_own [OF s] ticking_own [OF s] n_pending_own [OF s] by (auto simp: db3)
qed

lemma ticks_finish:
  assumes "ticking fh D sid t db" and "0 \<le> D" and "n_pending sid db \<noteq> 0 \<or> in_progress sid db \<noteq> {}"
    and "spaced D t instants" and "length instants = Suc (n_pending sid db)"
  shows "finished sid (run_ticks fh instants db)"
  using assms
proof (induction instants arbitrary: t db)
  case (Cons now instants)
  let ?db = "snd (process_rollout_schedules fh now db)"
  from Cons.prems have now: "t + D \<le> now" "now \<le> DATETIME_MAX" "spaced D now instants" by simp_all
  have g: "if n_pending sid db = 0 then finished sid ?db
    else ticking fh D sid now ?db \<and> Suc (n_pending sid ?db) = n_pending sid db \<and> in_progress sid ?db \<noteq> {}"
    using tick_own [OF Cons.prems(1,2) now(1,2) Cons.prems(3)] by (simp add: Let_def)
  show ?case
  proof (cases "n_pending sid db = 0")
    case True
    then have "instants = []" using Cons.prems(5) by simp
    then show ?thesis using g True by simp
  next
    case False
    then show ?thesis using g Cons.IH [of now ?db] Cons.prems(2,5) now(3) by auto
  qed
qed simp

end
