(* ===== verification/Concrete_Rollout.thy ===== *)
theory Concrete_Rollout
  imports Concrete_Env Rollout_Liveness
begin

text \<open>Concrete rollout schedules: one of two time-based stages, one of three manual stages.\<close>

definition demo_stage :: "string \<Rightarrow> int \<Rightarrow> int \<Rightarrow> trigger_type \<Rightarrow> stage_status \<Rightarrow> rollout_stage" where
  "demo_stage name ord p trigger status =
     \<lparr>stage_id = str name, stage_schedule = str ''r'', stage_name = str name, stage_description = None,
      stage_order = ord, stage_target = p, stage_trigger = trigger, stage_config = PNone, stage_start = None,
      stage_status = status, stage_completed_at = None, stage_updated = 0\<rparr>"

definition demo_schedule :: "schedule_status \<Rightarrow> rollout_schedule" where
  "demo_schedule status =
     \<lparr>sched_id = str ''r'', sched_name = str ''r'', sched_description = None, sched_flag = str ''f'',
      sched_status = status, sched_start = None, sched_end = None, sched_max_percentage = 100,
      sched_min_duration = None, sched_updated = 0\<rparr>"

definition demo_rollout :: "schedule_status \<Rightarrow> rollout_stage list \<Rightarrow> rollout_db" where
  "demo_rollout status ss =
     \<lparr>schedules = [demo_schedule status], stages = ss,
      rollout_flags = [demo_flag ''f'' ACTIVE PNone 0]\<rparr>"

definition demo_timed :: "rollout_stage list" where
  "demo_timed = [demo_stage ''s1'' 1 10 TimeBased StagePending, demo_stage ''s2'' 2 50 TimeBased StagePending]"

definition demo_manual :: "int \<Rightarrow> int \<Rightarrow> rollout_stage list" where
  "demo_manual p2 p3 =
     [demo_stage ''s1'' 1 10 Manual StageInProgress, demo_stage ''s2'' 2 p2 Manual StagePending,
      demo_stage ''s3'' 3 p3 Manual StagePending]"

lemma demo_rollout_fields [simp]:
  "schedules (demo_rollout status ss) = [demo_schedule status]" "stages (demo_rollout status ss) = ss"
  "rollout_flags (demo_rollout status ss) = [demo_flag ''f'' ACTIVE PNone 0]"
  by (simp_all add: demo_rollout_def)

lemma demo_rollout_ids:
  "distinct (map stage_id ss) \<Longrightarrow> ids_ok (demo_rollout status ss)"
  by (simp add: ids_ok_def)

lemma demo_timed_ids [simp]: "distinct (map stage_id demo_timed)"
  by (simp add: demo_timed_def demo_stage_def str_def)

lemma demo_schedule_get [simp]:
  "get_rollout_schedule (demo_rollout status ss) (str ''r'') = Some (demo_schedule status)"
  by (simp add: get_rollout_schedule_def demo_schedule_def)

lemma demo_flag_get: "get_rollout_flag (demo_rollout status ss) (str ''f'') = Some (demo_flag ''f'' ACTIVE PNone 0)"
  by (simp add: get_rollout_flag_def demo_flag_def)

lemma demo_cancelled:
  "cancel_rollout_schedule 5 (demo_rollout SchedActive demo_timed) (str ''r'') (demo_rollout SchedActive demo_timed) =
     Inr (Some ((demo_rollout SchedActive demo_timed)
       \<lparr>schedules := [(demo_schedule SchedActive)\<lparr>sched_status := SchedCancelled, sched_updated := 5\<rparr>]\<rparr>))"
  by (simp add: cancel_rollout_schedule_def status_write_def write_schedule_def demo_schedule_def)

lemma demo_ticking: "ticking (\<lambda>_. Inr 0) (24 * HOUR) (str ''r'') 0 (demo_rollout SchedActive demo_timed)"
proof -
  have "timely (\<lambda>_. Inr 0) (24 * HOUR) 0 (demo_stage n i p TimeBased StagePending)" for n i p
    by (simp add: timely_def demo_stage_def stage_duration_def timedelta_hours_def HOUR_def)
  then have "list_all (timely (\<lambda>_. Inr 0) (24 * HOUR) 0) (stages_of (str ''r'') demo_timed)"
    by (simp add: demo_timed_def stages_of_def)
  moreover have "running (24 * HOUR) (demo_rollout SchedActive demo_timed) (demo_schedule SchedActive)"
    by (simp add: running_def demo_schedule_def demo_flag_get)
  moreover have "in_progress (str ''r'') (demo_rollout SchedActive demo_timed) = {}"
    by (simp add: in_progress_def demo_timed_def demo_stage_def)
  ultimately show ?thesis
    using demo_rollout_ids by (simp add: ticking_def single_def)
qed

lemma demo_two_pending: "n_pending (str ''r'') (demo_rollout SchedActive demo_timed) = 2"
  by (simp add: n_pending_def stages_of_def demo_timed_def demo_stage_def)

lemma demo_orders: "orders_ok (demo_rollout SchedActive demo_timed)"
  using demo_rollout_ids [OF demo_timed_ids, of SchedActive]
  by (simp add: orders_ok_def demo_timed_def demo_stage_def demo_schedule_def)

text \<open>
  Two advances of one stage that both read it in progress start two stages: the second waits
  for the lock, but does not read the stage again, and the flag jumps to the third stage's percentage.
\<close>

lemma stale_advance_skips:
  "\<exists>db1 db2.
     manually_advance_stage 1 (demo_rollout SchedActive (demo_manual p2 p3)) (str ''s1'')
       (demo_rollout SchedActive (demo_manual p2 p3)) = Inr (Some db1) \<and>
     manually_advance_stage 2 (demo_rollout SchedActive (demo_manual p2 p3)) (str ''s1'') db1 = Inr (Some db2) \<and>
     map stage_status (stages db2) = [StageCompleted, StageInProgress, StageInProgress] \<and>
     map flag_rollout (rollout_flags db2) = [p3]"
  by (simp add: manually_advance_stage_def advance_locked_def write_stage_def pending_stages_def get_stage_def
      demo_rollout_def demo_manual_def demo_stage_def demo_schedule_def get_rollout_schedule_def
      complete_write_def start_write_def set_percentage_def demo_flag_def str_def)

end
