(* ===== verification/Experiment_Lifecycle.thy ===== *)
theory Experiment_Lifecycle
  imports Mutual_Exclusion Targeting_Adapter Machine
begin

text \<open>
  The life of an experiment: \<^verbatim>\<open>services/experiment_service.py\<close>, the lifecycle routes of
  \<^verbatim>\<open>api/v1/endpoints/experiments.py\<close>, the scheduler's tick (\<^verbatim>\<open>core/scheduler.py\<close>) and the constraints of
  \<^verbatim>\<open>models/experiment.py\<close>. A row extends the one assignment reads. Instants are microseconds (UTC);
  a route and the service method of the same name differ in messages only and are one definition.
  Left out: permissions, the owner, descriptive columns, \<^verbatim>\<open>updated_at\<close>, the analysis settings (with
  their one refusal), the audit entries and the notifications, whose failures are caught; and two
  refusals that only narrow what is stored, of targeting rules and of a type no module serves.
\<close>

section \<open>Rows\<close>

datatype experiment_type = TypeAB | TypeMultivariate | TypeSplitUrl | TypeBandit

record experiment_metric =
  metric_name :: pstr
  metric_event :: pstr
  metric_primary :: bool

record stored_experiment = experiment_row +
  experiment_name :: pstr
  experiment_kind :: experiment_type
  start_date :: "int option"
  end_date :: "int option"
  resume_at :: "int option"
  metric_definitions :: "experiment_metric list"

datatype lifecycle_error =
    ExperimentNotFound | StatusRefused experiment_status
  | TooFewVariants | NoControlVariant | NoMetrics | EndDatePassed
  | StartInPast | EndNotAfterStart | RunTooShort | EndTooSoonAfterResume
  | TargetingLocked experiment_status | TargetingNotAlone | StatusThroughLifecycle | FieldLocked experiment_status
  | RequestInvalid | AllocationsNotHundred | StatusOnCreate
  | ExperimentKeyConflict | ExperimentIntegrityError | ExperimentRaised exc

definition may_raise :: "'a res \<Rightarrow> lifecycle_error + 'a" where
  "may_raise m = (case m of Inl e \<Rightarrow> Inl (ExperimentRaised e) | Inr x \<Rightarrow> Inr x)"

text \<open>
  \<^verbatim>\<open>check_experiment_dates\<close>, \<^verbatim>\<open>ck_experiments_resume_only_when_paused\<close>, the range of an allocation, the
  unique metric names; and ids are UUIDs, so not empty.
\<close>

definition dates_ok :: "stored_experiment \<Rightarrow> bool" where
  "dates_ok e = (case (start_date e, end_date e) of (Some s, Some f) \<Rightarrow> s < f | _ \<Rightarrow> True)"

definition experiment_row_ok :: "stored_experiment \<Rightarrow> bool" where
  "experiment_row_ok e =
     (experiment_id e \<noteq> [] \<and> dates_ok e \<and> (resume_at e \<noteq> None \<longrightarrow> experiment_status e = ExpPaused) \<and>
      list_all (\<lambda>v. 0 \<le> traffic_allocation v \<and> traffic_allocation v \<le> 100) (variants e) \<and>
      distinct (map metric_name (metric_definitions e)))"

type_synonym experiment_table = "stored_experiment list"

definition stored_keys :: "experiment_table \<Rightarrow> pstr list" where
  "stored_keys t = List.map_filter experiment_key t"

definition check_experiments :: "experiment_table \<Rightarrow> lifecycle_error + experiment_table" where
  "check_experiments t =
     (if \<not> list_all experiment_row_ok t \<or> \<not> distinct (map experiment_id t) then Inl ExperimentIntegrityError
      else if \<not> distinct (stored_keys t) then Inl ExperimentKeyConflict
      else Inr t)"

text \<open>
  A request reads a row and writes what it changed; the database checks the statement.
\<close>

definition put_experiment :: "stored_experiment \<Rightarrow> experiment_table \<Rightarrow> experiment_table" where
  "put_experiment e t = map (\<lambda>r. if experiment_id r = experiment_id e then e else r) t"

definition change_experiment ::
  "pstr \<Rightarrow> (stored_experiment \<Rightarrow> lifecycle_error + stored_experiment) \<Rightarrow> experiment_table \<Rightarrow>
     lifecycle_error + experiment_table" where
  "change_experiment eid f t = (case find (\<lambda>e. experiment_id e = eid) t of
       None \<Rightarrow> Inl ExperimentNotFound
     | Some e \<Rightarrow> ebind (f e) (\<lambda>e'. check_experiments (put_experiment e' t)))"

text \<open>Every assignment of \<^verbatim>\<open>status\<close> goes through the listener that ends a scheduled resume.\<close>

definition set_experiment_status :: "experiment_status \<Rightarrow> stored_experiment \<Rightarrow> stored_experiment" where
  "set_experiment_status st e =
     e\<lparr>experiment_status := st, resume_at := (if st = experiment_status e then resume_at e else None)\<rparr>"

section \<open>The id a partial rollout buckets on\<close>

text \<open>\<^verbatim>\<open>{**rules, "id": i}\<close>\<close>

definition with_rule_id :: "pstr \<Rightarrow> pyval \<Rightarrow> pyval" where
  "with_rule_id i raw = (case raw of PDict d \<Rightarrow> PDict (dict_set (str ''id'') (PStr i) d) | v \<Rightarrow> v)"

definition stamp_rollout_rule_id ::
  "'z pyenv_scheme \<Rightarrow> stored_experiment \<Rightarrow> experiment_status \<Rightarrow> stored_experiment res" where
  "stamp_rollout_rule_id E e previous =
     (if previous \<noteq> ExpDraft then Inr e
      else ebind (buckets_on_rule_id E (experiment_rules e)) (\<lambda>buckets.
        if \<not> buckets \<or> stored_rule_id E (experiment_rules e) \<noteq> None then Inr e
        else Inr (e\<lparr>experiment_rules := with_rule_id (experiment_id e) (experiment_rules e)\<rparr>)))"

definition rules_with_rule_id :: "'z pyenv_scheme \<Rightarrow> stored_experiment \<Rightarrow> pyval \<Rightarrow> pyval res" where
  "rules_with_rule_id E e new_rules = (case new_rules of
       PDict d \<Rightarrow>
         (if \<not> is_dashboard_rules_shape d \<or> \<not> truthy (dget d ''groups'') \<or> stored_rule_id E new_rules \<noteq> None
          then Inr new_rules
          else (case stored_rule_id E (experiment_rules e) of
              Some inherited \<Rightarrow> Inr (with_rule_id inherited new_rules)
            | None \<Rightarrow>
                (if experiment_status e \<noteq> ExpPaused then Inr new_rules
                 else ebind (buckets_on_rule_id E new_rules) (\<lambda>part. if \<not> part then Inr new_rules
                   else emap (\<lambda>already. if already then new_rules else with_rule_id (experiment_id e) new_rules)
                     (buckets_on_rule_id E (experiment_rules e))))))
     | _ \<Rightarrow> Inr new_rules)"

definition rules_for_clone :: "'z pyenv_scheme \<Rightarrow> stored_experiment \<Rightarrow> pyval" where
  "rules_for_clone E source = (case experiment_rules source of
       PDict d \<Rightarrow>
         if stored_rule_id E (PDict d) = Some (experiment_id source) then PDict (dict_pop (str ''id'') d) else PDict d
     | v \<Rightarrow> v)"

section \<open>Start, pause, complete, archive\<close>

text \<open>The checks of the route, which \<^verbatim>\<open>_validate_experiment_for_start\<close> repeats.\<close>

definition start_refusal :: "stored_experiment \<Rightarrow> lifecycle_error option" where
  "start_refusal e =
     (if experiment_status e \<notin> {ExpDraft, ExpPaused} then Some (StatusRefused (experiment_status e))
      else if length (variants e) < 2 then Some TooFewVariants
      else if \<not> list_ex is_control (variants e) then Some NoControlVariant
      else if metric_definitions e = [] then Some NoMetrics
      else None)"

definition kept_start_date :: "int \<Rightarrow> stored_experiment \<Rightarrow> int option" where
  "kept_start_date now e = (case start_date e of
       Some s \<Rightarrow> if experiment_status e = ExpDraft \<and> now < s then None else Some s
     | None \<Rightarrow> None)"

definition start_experiment ::
  "'z pyenv_scheme \<Rightarrow> int \<Rightarrow> stored_experiment \<Rightarrow> lifecycle_error + stored_experiment" where
  "start_experiment E now e = (case start_refusal e of
       Some err \<Rightarrow> Inl err
     | None \<Rightarrow>
         (if kept_start_date now e = None \<and> (case end_date e of Some f \<Rightarrow> f \<le> now | None \<Rightarrow> False)
          then Inl EndDatePassed
          else emap (\<lambda>stamped. (set_experiment_status ExpActive stamped)
                  \<lparr>start_date := (case kept_start_date now e of None \<Rightarrow> Some now | Some _ \<Rightarrow> start_date e)\<rparr>)
                (may_raise (stamp_rollout_rule_id E e (experiment_status e)))))"

definition pause_experiment :: "stored_experiment \<Rightarrow> lifecycle_error + stored_experiment" where
  "pause_experiment e =
     (if experiment_status e \<noteq> ExpActive then Inl (StatusRefused (experiment_status e))
      else Inr (set_experiment_status ExpPaused e))"

definition record_end_date :: "int \<Rightarrow> stored_experiment \<Rightarrow> stored_experiment" where
  "record_end_date now e =
     e\<lparr>start_date := (case start_date e of Some s \<Rightarrow> if now \<le> s then Some (now - 1) else Some s | None \<Rightarrow> None),
       end_date := Some now\<rparr>"

definition complete_experiment :: "int \<Rightarrow> stored_experiment \<Rightarrow> lifecycle_error + stored_experiment" where
  "complete_experiment now e =
     (if experiment_status e \<notin> {ExpActive, ExpPaused} then Inl (StatusRefused (experiment_status e))
      else Inr (record_end_date now (set_experiment_status ExpCompleted e)))"

definition archive_experiment :: "stored_experiment \<Rightarrow> lifecycle_error + stored_experiment" where
  "archive_experiment e =
     (if experiment_status e = ExpArchived then Inl (StatusRefused ExpArchived)
      else Inr (set_experiment_status ExpArchived e))"

section \<open>Scheduling\<close>

text \<open>
  \<^verbatim>\<open>ScheduleConfig\<close>: a field is left out (\<open>None\<close>), null (\<open>Some None\<close>) or an instant, the dates
  already read in the request's time zone.
\<close>

record schedule_config =
  config_start :: "int option option"
  config_end :: "int option option"

definition START_BUFFER :: int where "START_BUFFER = 10 * 60 * 1000000"
definition MIN_DURATION :: int where "MIN_DURATION = 3600 * 1000000"

definition sent_field :: "'a option option \<Rightarrow> 'a option" where
  "sent_field f = (case f of None \<Rightarrow> None | Some v \<Rightarrow> v)"

definition sent_or_stored :: "'a option option \<Rightarrow> 'a option \<Rightarrow> 'a option" where
  "sent_or_stored f stored = (case f of None \<Rightarrow> stored | Some v \<Rightarrow> v)"

definition run_refusal :: "int option \<Rightarrow> int option \<Rightarrow> lifecycle_error option" where
  "run_refusal s f = (case (s, f) of
       (Some a, Some b) \<Rightarrow> if b \<le> a then Some EndNotAfterStart else if b - a < MIN_DURATION then Some RunTooShort else None
     | _ \<Rightarrow> None)"

definition validate_schedule :: "int \<Rightarrow> schedule_config \<Rightarrow> lifecycle_error option" where
  "validate_schedule now c =
     (if (case sent_field (config_start c) of Some s \<Rightarrow> s < now - START_BUFFER | None \<Rightarrow> False) then Some StartInPast
      else run_refusal (sent_field (config_start c)) (sent_field (config_end c)))"

definition schedule_draft ::
  "schedule_config \<Rightarrow> stored_experiment \<Rightarrow> lifecycle_error + stored_experiment" where
  "schedule_draft c e =
     (let s = sent_or_stored (config_start c) (start_date e); f = sent_or_stored (config_end c) (end_date e) in
      case run_refusal s f of Some err \<Rightarrow> Inl err | None \<Rightarrow> Inr (e\<lparr>start_date := s, end_date := f\<rparr>))"

definition schedule_resume ::
  "schedule_config \<Rightarrow> stored_experiment \<Rightarrow> lifecycle_error + stored_experiment" where
  "schedule_resume c e =
     (let r = sent_or_stored (config_start c) (resume_at e); f = sent_or_stored (config_end c) (end_date e) in
      if (case (f, start_date e) of (Some b, Some a) \<Rightarrow> b \<le> a | _ \<Rightarrow> False) then Inl EndNotAfterStart
      else if (case (f, r) of (Some b, Some a) \<Rightarrow> b - a < MIN_DURATION | _ \<Rightarrow> False) then Inl EndTooSoonAfterResume
      else Inr (e\<lparr>resume_at := r, end_date := f\<rparr>))"

definition update_experiment_schedule ::
  "int \<Rightarrow> schedule_config \<Rightarrow> stored_experiment \<Rightarrow> lifecycle_error + stored_experiment" where
  "update_experiment_schedule now c e = (case validate_schedule now c of
       Some err \<Rightarrow> Inl err
     | None \<Rightarrow>
         (if experiment_status e = ExpDraft then schedule_draft c e
          else if experiment_status e = ExpPaused then schedule_resume c e
          else Inl (StatusRefused (experiment_status e))))"

section \<open>Update\<close>

text \<open>
  \<^verbatim>\<open>PUT /experiments/{id}\<close>. The fields sent; \<open>sent_settings\<close> is whether \<^verbatim>\<open>correction_method\<close> or
  \<^verbatim>\<open>confidence_level\<close> is among them, \<open>sent_other\<close> any field without a column here. The variants carry
  the ids their new rows get.
\<close>

record experiment_update =
  sent_name :: "pstr option"
  sent_kind :: "experiment_type option"
  sent_status :: "experiment_status option"
  sent_rules :: "pyval option"
  sent_variants :: "variant list option option"
  sent_metrics :: "experiment_metric list option option"
  sent_settings :: bool
  sent_other :: bool

definition only_targeting :: "experiment_update \<Rightarrow> bool" where
  "only_targeting u = (sent_rules u \<noteq> None \<and> sent_name u = None \<and> sent_kind u = None \<and> sent_status u = None \<and>
     sent_variants u = None \<and> sent_metrics u = None \<and> \<not> sent_settings u \<and> \<not> sent_other u)"

definition variants_refusal :: "variant list \<Rightarrow> lifecycle_error option" where
  "variants_refusal vs =
     (if \<not> list_all (\<lambda>v. 0 \<le> traffic_allocation v \<and> traffic_allocation v \<le> 100) vs then Some RequestInvalid
      else if \<not> list_ex is_control vs then Some NoControlVariant
      else if sum_list (map traffic_allocation vs) \<noteq> 100 then Some AllocationsNotHundred
      else None)"

definition update_refusal :: "bool \<Rightarrow> experiment_update \<Rightarrow> stored_experiment \<Rightarrow> lifecycle_error option" where
  "update_refusal superuser u e =
     (let st = experiment_status e; paused_only = (st = ExpPaused \<and> only_targeting u) in
      if sent_rules u \<noteq> None \<and> st \<notin> {ExpDraft, ExpPaused} then Some (TargetingLocked st)
      else if st \<noteq> ExpDraft \<and> \<not> paused_only \<and> \<not> superuser then Some (StatusRefused st)
      else if st = ExpPaused \<and> sent_rules u \<noteq> None \<and> \<not> paused_only then Some TargetingNotAlone
      else if sent_status u \<noteq> None \<and> sent_status u \<noteq> Some st then Some StatusThroughLifecycle
      else if st \<noteq> ExpDraft \<and> (sent_variants u \<noteq> None \<or> sent_metrics u \<noteq> None \<or> sent_settings u)
      then Some (FieldLocked st)
      else None)"

definition update_invalid :: "experiment_update \<Rightarrow> lifecycle_error option" where
  "update_invalid u =
     (if (case sent_name u of None \<Rightarrow> False | Some n \<Rightarrow> n = [] \<or> 100 < length n) then Some RequestInvalid
      else (case sent_field (sent_variants u) of None \<Rightarrow> None | Some vs \<Rightarrow> variants_refusal vs))"

definition update_experiment ::
  "'z pyenv_scheme \<Rightarrow> bool \<Rightarrow> experiment_update \<Rightarrow> stored_experiment \<Rightarrow> lifecycle_error + stored_experiment" where
  "update_experiment E superuser u e =
     (case update_invalid u of
        Some err \<Rightarrow> Inl err
      | None \<Rightarrow> (case update_refusal superuser u e of
            Some err \<Rightarrow> Inl err
          | None \<Rightarrow>
              emap (\<lambda>rules. e\<lparr>experiment_rules := rules,
                   experiment_name := (case sent_name u of None \<Rightarrow> experiment_name e | Some n \<Rightarrow> n),
                   experiment_kind := (case sent_kind u of None \<Rightarrow> experiment_kind e | Some k \<Rightarrow> k),
                   variants := (case sent_field (sent_variants u) of None \<Rightarrow> variants e | Some vs \<Rightarrow> vs),
                   metric_definitions :=
                     (case sent_field (sent_metrics u) of None \<Rightarrow> metric_definitions e | Some ms \<Rightarrow> ms)\<rparr>)
                (case sent_rules u of None \<Rightarrow> Inr (experiment_rules e)
                 | Some sent \<Rightarrow> may_raise (rules_with_rule_id E e sent))))"

section \<open>Create, clone, delete\<close>

text \<open>
  \<^verbatim>\<open>generate_key\<close>; the suffix (six characters of a UUID) is random. Of the code points outside ASCII
  two lower to an ASCII letter, one of them (U+0130) followed by a combining dot.
\<close>

definition slug_char :: "nat \<Rightarrow> bool" where
  "slug_char c = (97 \<le> c \<and> c \<le> 122 \<or> 48 \<le> c \<and> c \<le> 57)"

definition lower_for_slug :: "pstr \<Rightarrow> pstr" where
  "lower_for_slug s = concat (map (\<lambda>c. if c = 0x130 then [105, 0x307] else [lower_char c]) s)"

fun dash_runs :: "bool \<Rightarrow> pstr \<Rightarrow> pstr" where
  "dash_runs in_run [] = []"
| "dash_runs in_run (c # s) =
     (if slug_char c then c # dash_runs False s
      else if in_run then dash_runs True s else 45 # dash_runs True s)"

definition strip_dashes :: "pstr \<Rightarrow> pstr" where
  "strip_dashes s = rev (dropWhile (\<lambda>c. c = 45) (rev (dropWhile (\<lambda>c. c = 45) s)))"

definition generate_key :: "pstr \<Rightarrow> pstr \<Rightarrow> pstr" where
  "generate_key name suffix =
     (let text = (if name = [] then str ''experiment'' else name);
          slug = take 80 (strip_dashes (dash_runs False (lower_for_slug text))) in
      (if slug = [] then str ''experiment'' else slug) @ [45] @ suffix)"

definition KEY_GENERATION_ATTEMPTS :: nat where "KEY_GENERATION_ATTEMPTS = 3"

text \<open>One suffix per attempt; only a key conflict is tried again.\<close>

fun insert_with_generated_key ::
  "pstr list \<Rightarrow> stored_experiment \<Rightarrow> experiment_table \<Rightarrow> lifecycle_error + experiment_table" where
  "insert_with_generated_key [] e t = Inl ExperimentKeyConflict"
| "insert_with_generated_key (suffix # suffixes) e t =
     (case check_experiments (t @ [e\<lparr>experiment_key := Some (generate_key (experiment_name e) suffix)\<rparr>]) of
        Inr t' \<Rightarrow> Inr t'
      | Inl err \<Rightarrow>
          if err = ExperimentKeyConflict then insert_with_generated_key suffixes e t else Inl err)"

record experiment_create =
  draft_name :: pstr
  draft_key :: "pstr option"
  draft_kind :: experiment_type
  draft_status :: experiment_status
  draft_rules :: pyval
  draft_variants :: "variant list"
  draft_metrics :: "experiment_metric list"

definition key_char :: "nat \<Rightarrow> bool" where
  "key_char c = (97 \<le> c \<and> c \<le> 122 \<or> 65 \<le> c \<and> c \<le> 90 \<or> 48 \<le> c \<and> c \<le> 57 \<or> c \<in> {45, 46, 95})"

text \<open>The pattern \<^verbatim>\<open>^[A-Za-z0-9][A-Za-z0-9_.-]*$\<close> and the length of the column.\<close>

definition valid_key :: "pstr \<Rightarrow> bool" where
  "valid_key k = (k \<noteq> [] \<and> length k \<le> 100 \<and> list_all key_char k \<and> hd k \<notin> {45, 46, 95})"

definition create_refusal :: "experiment_create \<Rightarrow> lifecycle_error option" where
  "create_refusal c =
     (if draft_name c = [] \<or> 100 < length (draft_name c) \<or> draft_variants c = [] \<or> draft_metrics c = [] \<or>
         (case draft_key c of None \<Rightarrow> False | Some k \<Rightarrow> \<not> valid_key k) then Some RequestInvalid
      else (case variants_refusal (draft_variants c) of
          Some err \<Rightarrow> Some err
        | None \<Rightarrow> if draft_status c \<noteq> ExpDraft then Some StatusOnCreate else None))"

definition create_experiment ::
  "pstr \<Rightarrow> pstr list \<Rightarrow> experiment_create \<Rightarrow> experiment_table \<Rightarrow> lifecycle_error + experiment_table" where
  "create_experiment new_id suffixes c t = (case create_refusal c of
       Some err \<Rightarrow> Inl err
     | None \<Rightarrow>
         (let e = \<lparr>experiment_id = new_id, experiment_key = draft_key c, experiment_status = ExpDraft,
                   exclusion_group_id = None, experiment_rules = draft_rules c, variants = draft_variants c,
                   experiment_name = draft_name c, experiment_kind = draft_kind c, start_date = None,
                   end_date = None, resume_at = None, metric_definitions = draft_metrics c\<rparr> in
          if draft_key c \<noteq> None then check_experiments (t @ [e])
          else insert_with_generated_key (take KEY_GENERATION_ATTEMPTS suffixes) e t))"

definition NAME_MAX :: nat where "NAME_MAX = 100"

definition clone_experiment ::
  "'z pyenv_scheme \<Rightarrow> pstr \<Rightarrow> pstr list \<Rightarrow> pstr list \<Rightarrow> stored_experiment \<Rightarrow> experiment_table \<Rightarrow>
     lifecycle_error + experiment_table" where
  "clone_experiment E new_id variant_ids suffixes source t =
     insert_with_generated_key (take KEY_GENERATION_ATTEMPTS suffixes)
       \<lparr>experiment_id = new_id, experiment_key = None, experiment_status = ExpDraft,
        exclusion_group_id = None, experiment_rules = rules_for_clone E source,
        variants = map2 (\<lambda>i v. v\<lparr>variant_id := i\<rparr>) variant_ids (variants source),
        experiment_name = take NAME_MAX (str ''Copy of '' @ experiment_name source),
        experiment_kind = experiment_kind source, start_date = None, end_date = None, resume_at = None,
        metric_definitions = metric_definitions source\<rparr> t"

definition delete_experiment :: "pstr \<Rightarrow> experiment_table \<Rightarrow> lifecycle_error + experiment_table" where
  "delete_experiment eid t = (case find (\<lambda>e. experiment_id e = eid) t of
       None \<Rightarrow> Inl ExperimentNotFound
     | Some e \<Rightarrow>
         (if experiment_status e \<noteq> ExpDraft then Inl (StatusRefused (experiment_status e))
          else Inr (filter (\<lambda>r. experiment_id r \<noteq> eid) t)))"

section \<open>The scheduler's tick\<close>

definition due :: "int \<Rightarrow> int option \<Rightarrow> bool" where
  "due now instant = (case instant of None \<Rightarrow> False | Some a \<Rightarrow> a \<le> now)"

definition due_to_activate :: "int \<Rightarrow> stored_experiment \<Rightarrow> bool" where
  "due_to_activate now e =
     (experiment_status e = ExpDraft \<and> due now (start_date e) \<or>
      experiment_status e = ExpPaused \<and> due now (resume_at e))"

definition due_to_complete :: "int \<Rightarrow> stored_experiment \<Rightarrow> bool" where
  "due_to_complete now e = (experiment_status e = ExpActive \<and> due now (end_date e))"

definition activate_row :: "'z pyenv_scheme \<Rightarrow> stored_experiment \<Rightarrow> lifecycle_error + stored_experiment" where
  "activate_row E e =
     emap (set_experiment_status ExpActive) (may_raise (stamp_rollout_rule_id E e (experiment_status e)))"

definition complete_row :: "stored_experiment \<Rightarrow> lifecycle_error + stored_experiment" where
  "complete_row e = Inr (set_experiment_status ExpCompleted e)"

text \<open>One savepoint per row: a row that raises or is refused is rolled back alone and counted.\<close>

fun run_batch ::
  "(stored_experiment \<Rightarrow> lifecycle_error + stored_experiment) \<Rightarrow> pstr list \<Rightarrow> experiment_table \<Rightarrow>
     experiment_table \<times> nat \<times> nat" where
  "run_batch f [] t = (t, 0, 0)"
| "run_batch f (eid # ids) t = (case change_experiment eid f t of
       Inl _ \<Rightarrow> (let (t', ok, failed) = run_batch f ids t in (t', ok, Suc failed))
     | Inr t1 \<Rightarrow> (let (t', ok, failed) = run_batch f ids t1 in (t', Suc ok, failed)))"

definition process_scheduled_experiments ::
  "'z pyenv_scheme \<Rightarrow> int \<Rightarrow> experiment_table \<Rightarrow> experiment_table \<times> nat \<times> nat \<times> nat" where
  "process_scheduled_experiments E now t =
     (let (t1, activated, failed1) = run_batch (activate_row E) (map experiment_id (filter (due_to_activate now) t)) t;
          (t2, completed, failed2) = run_batch complete_row (map experiment_id (filter (due_to_complete now) t1)) t1
      in (t2, activated, completed, failed1 + failed2))"

section \<open>Steps\<close>

datatype lifecycle_request =
    RequestStart | RequestPause | RequestComplete | RequestArchive
  | RequestSchedule schedule_config | RequestUpdate bool experiment_update

fun handle_request ::
  "'z pyenv_scheme \<Rightarrow> int \<Rightarrow> lifecycle_request \<Rightarrow> stored_experiment \<Rightarrow> lifecycle_error + stored_experiment" where
  "handle_request E now RequestStart e = start_experiment E now e"
| "handle_request E now RequestPause e = pause_experiment e"
| "handle_request E now RequestComplete e = complete_experiment now e"
| "handle_request E now RequestArchive e = archive_experiment e"
| "handle_request E now (RequestSchedule c) e = update_experiment_schedule now c e"
| "handle_request E now (RequestUpdate superuser u) e = update_experiment E superuser u e"

record lifecycle_db =
  lifecycle_now :: int
  experiment_rows :: experiment_table

text \<open>
  One step per request: it reads the row it writes. The routes take no row lock, so requests that overlap
  are not covered.
\<close>

inductive lifecycle_step :: "'z pyenv_scheme \<Rightarrow> lifecycle_db \<Rightarrow> lifecycle_db \<Rightarrow> bool" for E where
  time_passes: "lifecycle_now db \<le> later \<Longrightarrow> lifecycle_step E db (db\<lparr>lifecycle_now := later\<rparr>)"
| request: "change_experiment eid (handle_request E (lifecycle_now db) req) (experiment_rows db) = Inr t \<Longrightarrow>
    lifecycle_step E db (db\<lparr>experiment_rows := t\<rparr>)"
| created: "create_experiment new_id suffixes c (experiment_rows db) = Inr t \<Longrightarrow>
    lifecycle_step E db (db\<lparr>experiment_rows := t\<rparr>)"
| cloned: "source \<in> set (experiment_rows db) \<Longrightarrow> length variant_ids = length (variants source) \<Longrightarrow>
    clone_experiment E new_id variant_ids suffixes source (experiment_rows db) = Inr t \<Longrightarrow>
    lifecycle_step E db (db\<lparr>experiment_rows := t\<rparr>)"
| deleted: "delete_experiment eid (experiment_rows db) = Inr t \<Longrightarrow>
    lifecycle_step E db (db\<lparr>experiment_rows := t\<rparr>)"
| tick: "process_scheduled_experiments E (lifecycle_now db) (experiment_rows db) = (t, counts) \<Longrightarrow>
    lifecycle_step E db (db\<lparr>experiment_rows := t\<rparr>)"

end
