(* ===== verification/Experiment_Facts.thy ===== *)
theory Experiment_Facts
  imports Experiment_Lifecycle
begin

text \<open>
  The life of an experiment: what every reachable row satisfies (a running experiment has started, its
  arms fill the hundred buckets, its partial rollout buckets on an id of its own), what never
  changes once it left draft, and what the scheduler's tick does.
\<close>

section \<open>The table\<close>

definition table_constraints :: "experiment_table \<Rightarrow> bool" where
  "table_constraints t =
     (list_all experiment_row_ok t \<and> distinct (map experiment_id t) \<and> distinct (stored_keys t))"

lemma check_experiments_Inr [simp]:
  "check_experiments t = Inr t' \<longleftrightarrow> t' = t \<and> table_constraints t"
  by (auto simp: check_experiments_def table_constraints_def)

lemma may_raise_simps [simp]:
  "may_raise (Inr x) = Inr x" "may_raise (Inl e) = Inl (ExperimentRaised e)"
  by (simp_all add: may_raise_def)

lemma may_raise_Inr [exc_rules]: "may_raise m = Inr x \<longleftrightarrow> m = Inr x"
  by (cases m) (auto simp: may_raise_def)

lemma may_raise_Inl [exc_rules]: "may_raise m = Inl err \<longleftrightarrow> (\<exists>e. m = Inl e \<and> err = ExperimentRaised e)"
  by (cases m) (auto simp: may_raise_def)

lemma change_experimentE:
  assumes "change_experiment eid f t = Inr t'"
  obtains e e' where "e \<in> set t" "experiment_id e = eid" "f e = Inr e'" "t' = put_experiment e' t"
    "table_constraints t'"
proof -
  obtain e where e: "find (\<lambda>e. experiment_id e = eid) t = Some e"
    using assms by (auto simp: change_experiment_def split: option.splits)
  then obtain e' where e': "f e = Inr e'" "check_experiments (put_experiment e' t) = Inr t'"
    using assms by (auto simp: change_experiment_def exc_rules)
  have "e \<in> set t \<and> experiment_id e = eid"
    using find_SomeE [OF e] by auto
  with e' that show ?thesis by auto
qed

lemma set_put_experiment:
  "set (put_experiment e' t) \<subseteq> insert e' (set t)"
  by (auto simp: put_experiment_def)

lemma ids_put_experiment [simp]: "map experiment_id (put_experiment e' t) = map experiment_id t"
  by (induction t) (auto simp: put_experiment_def)

lemma put_experiment_in:
  "e \<in> set t \<Longrightarrow> experiment_id e' = experiment_id e \<Longrightarrow> e' \<in> set (put_experiment e' t)"
  by (force simp: put_experiment_def)

lemma put_experiment_keeps:
  "e \<in> set t \<Longrightarrow> experiment_id e \<noteq> experiment_id e' \<Longrightarrow> e \<in> set (put_experiment e' t)"
  by (force simp: put_experiment_def)

lemma row_of_id:
  "distinct (map experiment_id t) \<Longrightarrow> e \<in> set t \<Longrightarrow> e' \<in> set t \<Longrightarrow> experiment_id e = experiment_id e' \<Longrightarrow> e = e'"
  by (metis distinct_map inj_on_def)

lemma find_row_of_id:
  "distinct (map experiment_id t) \<Longrightarrow> e \<in> set t \<Longrightarrow> find (\<lambda>r. experiment_id r = experiment_id e) t = Some e"
  by (induction t) auto

lemma list_all_put_experiment: "list_all P t \<Longrightarrow> P e' \<Longrightarrow> list_all P (put_experiment e' t)"
  by (auto simp: put_experiment_def list_all_iff)

section \<open>The rule id\<close>

text \<open>\<^verbatim>\<open>str\<close> of a value is never empty, except of the empty text.\<close>

definition repr_ok :: "'z pyenv_scheme \<Rightarrow> bool" where
  "repr_ok E = (\<forall>v. repr_text E v \<noteq> [])"

lemma stored_rule_id_nonempty:
  assumes "repr_ok E" "stored_rule_id E raw = Some i"
  shows "i \<noteq> []"
proof -
  obtain d where d: "truthy (dget d ''id'')" "i = py_str E (dget d ''id'')"
    using assms(2) by (auto simp: stored_rule_id_def split: pyval.splits if_splits)
  have "dec_of_int n \<noteq> []" for n
    by (simp add: dec_of_int_def dec_digits.simps [of "nat n"])
  with d assms(1) show ?thesis
    by (cases "dget d ''id''") (auto simp: repr_ok_def str_def)
qed

lemma dget_dict_set: "dget (dict_set (str k) v d) k' = (if k' = k then v else dget d k')"
  by (simp add: dget_def str_eq_iff)

lemma has_key_dict_set: "has_key (dict_set (str k) v d) k' \<longleftrightarrow> k' = k \<or> has_key d k'"
  by (simp add: has_key_def str_eq_iff)

lemma shape_dict_set_id [simp]:
  "is_dashboard_rules_shape (dict_set (str ''id'') v d) = is_dashboard_rules_shape d"
  by (simp add: is_dashboard_rules_shape_def has_key_dict_set)

lemma buckets_with_rule_id [simp]:
  "buckets_on_rule_id E (with_rule_id i raw) = buckets_on_rule_id E raw"
proof (cases raw)
  case (PDict d)
  have groups: "map_of (dict_set (str ''id'') (PStr i) d) (str ''groups'') = map_of d (str ''groups'')"
    by (simp add: str_eq_iff)
  have percentage: "dget (dict_set (str ''id'') (PStr i) d) ''rollout_percentage'' = dget d ''rollout_percentage''"
    by (simp add: dget_dict_set)
  show ?thesis
    unfolding PDict with_rule_id_def buckets_on_rule_id_def pyval.case groups percentage shape_dict_set_id ..
qed (simp_all add: with_rule_id_def)

lemma buckets_dashboard:
  "buckets_on_rule_id E raw = Inr True \<Longrightarrow> \<exists>d. raw = PDict d \<and> is_dashboard_rules_shape d \<and> truthy (dget d ''groups'')"
  by (auto simp: buckets_on_rule_id_def dget_def split: pyval.splits if_splits option.splits)

lemma stored_with_rule_id:
  "is_dashboard_rules_shape d \<Longrightarrow> i \<noteq> [] \<Longrightarrow> stored_rule_id E (with_rule_id i (PDict d)) = Some i"
  by (simp add: with_rule_id_def stored_rule_id_def dget_dict_set)

section \<open>What a request keeps\<close>

text \<open>
  The part of the state beyond the table's constraints: a running or finished experiment has started,
  a running one whose rule admits part of its users has an id of its own to bucket on, and the arms
  are a distribution with a control.
\<close>

definition is_running :: "experiment_status \<Rightarrow> bool" where
  "is_running st = (st = ExpActive \<or> st = ExpPaused)"

definition row_inv :: "'z pyenv_scheme \<Rightarrow> int \<Rightarrow> stored_experiment \<Rightarrow> bool" where
  "row_inv E now e =
     ((is_running (experiment_status e) \<or> experiment_status e = ExpCompleted \<longrightarrow>
        (\<exists>s. start_date e = Some s \<and> s \<le> now)) \<and>
      (is_running (experiment_status e) \<and> buckets_on_rule_id E (experiment_rules e) = Inr True \<longrightarrow>
        stored_rule_id E (experiment_rules e) \<noteq> None) \<and>
      variants_refusal (variants e) = None)"

lemma row_inv_later: "row_inv E now e \<Longrightarrow> now \<le> later \<Longrightarrow> row_inv E later e"
  by (force simp: row_inv_def)

lemma stamp_cases:
  assumes "stamp_rollout_rule_id E e st = Inr e'" and "repr_ok E" and "experiment_id e \<noteq> []"
  obtains r where "e' = e\<lparr>experiment_rules := r\<rparr>" "st \<noteq> ExpDraft \<Longrightarrow> r = experiment_rules e"
    "st = ExpDraft \<Longrightarrow> buckets_on_rule_id E r = Inr True \<Longrightarrow> stored_rule_id E r \<noteq> None"
proof (cases "st = ExpDraft \<and> buckets_on_rule_id E (experiment_rules e) = Inr True \<and>
    stored_rule_id E (experiment_rules e) = None")
  case True
  let ?r = "with_rule_id (experiment_id e) (experiment_rules e)"
  obtain d where "experiment_rules e = PDict d" "is_dashboard_rules_shape d"
    using buckets_dashboard True by blast
  then have "stored_rule_id E ?r = Some (experiment_id e)"
    using stored_with_rule_id [OF _ assms(3)] by simp
  moreover have "e' = e\<lparr>experiment_rules := ?r\<rparr>"
    using assms(1) True by (simp add: stamp_rollout_rule_id_def)
  ultimately show ?thesis
    using True that [of ?r] by simp
next
  case False
  then have "e' = e"
    using assms(1) by (auto simp: stamp_rollout_rule_id_def exc_rules split: if_splits)
  with False that [of "experiment_rules e"] show ?thesis by auto
qed

lemma rules_with_rule_id_bucketed:
  assumes "rules_with_rule_id E e new = Inr r" and "repr_ok E" and "experiment_id e \<noteq> []"
    and "experiment_status e = ExpPaused" and "row_inv E now e" and "buckets_on_rule_id E r = Inr True"
  shows "stored_rule_id E r \<noteq> None"
proof (cases "r = new")
  case False
  then obtain i d where d: "r = with_rule_id i new" "new = PDict d" "is_dashboard_rules_shape d"
      "i = experiment_id e \<or> stored_rule_id E (experiment_rules e) = Some i"
    using assms(1) by (auto simp: rules_with_rule_id_def exc_rules split: pyval.splits if_splits option.splits)
  then have "i \<noteq> []"
    using assms(3) stored_rule_id_nonempty [OF assms(2)] by auto
  with d show ?thesis
    using stored_with_rule_id [of d i E] by simp
next
  case True
  show ?thesis
  proof
    assume n: "stored_rule_id E r = None"
    obtain d where "new = PDict d" "is_dashboard_rules_shape d" "truthy (dget d ''groups'')"
      using buckets_dashboard assms(6) True by blast
    moreover from this have "r = with_rule_id (experiment_id e) new \<or> buckets_on_rule_id E (experiment_rules e) = Inr True \<and>
        stored_rule_id E (experiment_rules e) = None \<or> (\<exists>i. r = with_rule_id i new \<and> i \<noteq> [])"
      using assms(1,4,6) True n stored_rule_id_nonempty [OF assms(2), of "experiment_rules e"]
      by (auto simp: rules_with_rule_id_def exc_rules split: if_splits option.splits)
    ultimately show False
      using n assms(3,4,5) by (auto simp: row_inv_def is_running_def stored_with_rule_id)
  qed
qed

text \<open>The dates: a run that passes the checks has its end after its start.\<close>

lemma run_refusal_None: "run_refusal (Some a) (Some b) = None \<Longrightarrow> a < b"
  by (auto simp: run_refusal_def split: if_splits)

lemma update_experimentE:
  assumes "update_experiment E superuser u e = Inr e'"
  obtains r where "update_invalid u = None" "update_refusal superuser u e = None"
    "(case sent_rules u of None \<Rightarrow> Inr (experiment_rules e) | Some new \<Rightarrow> rules_with_rule_id E e new) = Inr r"
    "experiment_rules e' = r" "experiment_status e' = experiment_status e" "experiment_id e' = experiment_id e"
    "experiment_key e' = experiment_key e" "start_date e' = start_date e" "end_date e' = end_date e" "resume_at e' = resume_at e"
    "variants e' = (case sent_field (sent_variants u) of None \<Rightarrow> variants e | Some vs \<Rightarrow> vs)"
    "metric_definitions e' = (case sent_field (sent_metrics u) of None \<Rightarrow> metric_definitions e | Some ms \<Rightarrow> ms)"
  using assms by (auto simp: update_experiment_def exc_rules split: option.splits)

lemma start_experimentE:
  assumes "start_experiment E now e = Inr e'" and "repr_ok E" and "experiment_id e \<noteq> []"
  obtains r where "e' = e\<lparr>experiment_rules := r, experiment_status := ExpActive, resume_at := None,
      start_date := (case kept_start_date now e of None \<Rightarrow> Some now | Some _ \<Rightarrow> start_date e)\<rparr>"
    "experiment_status e = ExpDraft \<or> experiment_status e = ExpPaused"
    "kept_start_date now e = None \<Longrightarrow> (case end_date e of None \<Rightarrow> True | Some f \<Rightarrow> now < f)"
    "experiment_status e \<noteq> ExpDraft \<Longrightarrow> r = experiment_rules e"
    "experiment_status e = ExpDraft \<Longrightarrow> buckets_on_rule_id E r = Inr True \<Longrightarrow> stored_rule_id E r \<noteq> None"
proof -
  obtain s where s: "stamp_rollout_rule_id E e (experiment_status e) = Inr s"
    and e': "e' = (set_experiment_status ExpActive s)
      \<lparr>start_date := (case kept_start_date now e of None \<Rightarrow> Some now | Some _ \<Rightarrow> start_date e)\<rparr>"
    and ref: "start_refusal e = None"
    and fin: "kept_start_date now e = None \<Longrightarrow> (case end_date e of None \<Rightarrow> True | Some f \<Rightarrow> now < f)"
    using assms(1) by (auto simp: start_experiment_def exc_rules split: option.splits if_splits)
  have st: "experiment_status e = ExpDraft \<or> experiment_status e = ExpPaused"
    using ref by (auto simp: start_refusal_def split: if_splits)
  obtain r where r: "s = e\<lparr>experiment_rules := r\<rparr>" "experiment_status e \<noteq> ExpDraft \<Longrightarrow> r = experiment_rules e"
    "experiment_status e = ExpDraft \<Longrightarrow> buckets_on_rule_id E r = Inr True \<Longrightarrow> stored_rule_id E r \<noteq> None"
    using stamp_cases [OF s assms(2,3)] by blast
  show ?thesis
    by (rule that [OF _ st fin r(2,3)]) (use e' r(1) st in \<open>auto simp: set_experiment_status_def\<close>)
qed

lemma start_inv:
  assumes "start_experiment E now e = Inr e'" and "repr_ok E" and "experiment_id e \<noteq> []" and "row_inv E now e"
  shows "row_inv E now e'"
  using assms(1-3)
proof (cases rule: start_experimentE)
  case (1 r)
  have "\<exists>s. start_date e' = Some s \<and> s \<le> now"
    unfolding 1(1) using assms(4) 1(2)
    by (auto simp: kept_start_date_def row_inv_def is_running_def split: option.splits if_splits)
  moreover have "buckets_on_rule_id E r = Inr True \<longrightarrow> stored_rule_id E r \<noteq> None"
    using 1 assms(4) by (auto simp: row_inv_def is_running_def)
  ultimately show ?thesis
    using assms(4) unfolding 1(1) by (auto simp: row_inv_def is_running_def)
qed

lemma update_inv:
  assumes "update_experiment E superuser u e = Inr e'" and "repr_ok E" and "experiment_id e \<noteq> []" and "row_inv E now e"
  shows "row_inv E now e'"
  using assms(1)
proof (cases rule: update_experimentE)
  case (1 r)
  have "variants_refusal (variants e') = None"
    using 1(1,11) assms(4)
    by (auto simp: update_invalid_def row_inv_def split: option.splits if_splits)
  moreover have "is_running (experiment_status e) \<longrightarrow> buckets_on_rule_id E r = Inr True \<longrightarrow> stored_rule_id E r \<noteq> None"
  proof (cases "sent_rules u")
    case None
    with 1(3) assms(4) show ?thesis by (auto simp: row_inv_def)
  next
    case (Some new)
    then have "is_running (experiment_status e) \<Longrightarrow> experiment_status e = ExpPaused"
      using 1(2) by (auto simp: update_refusal_def is_running_def Let_def)
    with Some 1(3) show ?thesis
      using rules_with_rule_id_bucketed [OF _ assms(2,3) _ assms(4)] by auto
  qed
  ultimately show ?thesis
    using assms(4) 1(4-10) by (auto simp: row_inv_def)
qed

lemma schedule_fields:
  assumes "update_experiment_schedule now c e = Inr e'"
  shows "experiment_rules e' = experiment_rules e" "variants e' = variants e" "experiment_status e' = experiment_status e"
    "experiment_id e' = experiment_id e" "experiment_key e' = experiment_key e"
    "metric_definitions e' = metric_definitions e" "experiment_status e = ExpDraft \<or> start_date e' = start_date e"
    "experiment_status e = ExpDraft \<or> experiment_status e = ExpPaused"
  using assms
  by (auto simp: update_experiment_schedule_def schedule_draft_def schedule_resume_def Let_def
      split: option.splits if_splits)

lemma schedule_dates:
  assumes "update_experiment_schedule now c e = Inr e'"
  shows "dates_ok e'"
proof -
  have draft: "schedule_draft c e = Inr e' \<Longrightarrow> dates_ok e'"
    by (auto simp: schedule_draft_def Let_def dates_ok_def dest: run_refusal_None split: option.splits)
  have resume: "schedule_resume c e = Inr e' \<Longrightarrow> dates_ok e'"
    by (auto simp: schedule_resume_def Let_def dates_ok_def split: option.splits if_splits)
  show ?thesis
    using assms draft resume by (auto simp: update_experiment_schedule_def split: option.splits if_splits)
qed

lemma complete_fields:
  assumes "complete_experiment now e = Inr e'" and "row_inv E now e"
  obtains s where "e' = e\<lparr>experiment_status := ExpCompleted, resume_at := None, start_date := Some s, end_date := Some now\<rparr>"
    "s < now" "is_running (experiment_status e)"
proof -
  have st: "is_running (experiment_status e)"
    and e': "e' = record_end_date now (set_experiment_status ExpCompleted e)"
    using assms(1) by (auto simp: complete_experiment_def is_running_def split: if_splits)
  obtain s where "start_date e = Some s" "s \<le> now"
    using assms(2) st by (auto simp: row_inv_def)
  with st e' that [of "if now \<le> s then now - 1 else s"] show ?thesis
    by (auto simp: record_end_date_def set_experiment_status_def is_running_def)
qed

lemma request_inv:
  assumes "handle_request E now req e = Inr e'" and "repr_ok E" and "experiment_id e \<noteq> []" and "row_inv E now e"
  shows "row_inv E now e'"
proof (cases req)
  case RequestStart
  with assms start_inv show ?thesis by simp
next
  case RequestPause
  with assms show ?thesis
    by (auto simp: pause_experiment_def set_experiment_status_def row_inv_def is_running_def split: if_splits)
next
  case RequestComplete
  then have "complete_experiment now e = Inr e'" using assms(1) by simp
  then show ?thesis
    by (rule complete_fields [OF _ assms(4)]) (use assms(4) in \<open>auto simp: row_inv_def is_running_def\<close>)
next
  case RequestArchive
  with assms show ?thesis
    by (auto simp: archive_experiment_def set_experiment_status_def row_inv_def is_running_def split: if_splits)
next
  case (RequestSchedule c)
  then show ?thesis
    using assms schedule_fields [of now c e e'] by (auto simp: row_inv_def is_running_def)
next
  case (RequestUpdate superuser u)
  with assms update_inv show ?thesis by simp
qed

text \<open>The database refuses no row a lifecycle request or the scheduler writes.\<close>

definition is_update :: "lifecycle_request \<Rightarrow> bool" where
  "is_update req = (case req of RequestUpdate _ _ \<Rightarrow> True | _ \<Rightarrow> False)"

lemma start_row_ok:
  assumes "start_experiment E now e = Inr e'" and "repr_ok E" and "experiment_row_ok e"
  shows "experiment_row_ok e'"
proof -
  have "experiment_id e \<noteq> []" using assms(3) by (simp add: experiment_row_ok_def)
  with assms(1,2) show ?thesis
  proof (cases rule: start_experimentE)
    case (1 r)
    have "dates_ok e'"
      unfolding 1(1) using 1(3) assms(3)
      by (auto simp: kept_start_date_def dates_ok_def experiment_row_ok_def split: option.splits if_splits)
    with assms(3) show ?thesis
      by (simp add: experiment_row_ok_def 1(1))
  qed
qed

lemma complete_row_ok:
  assumes "complete_experiment now e = Inr e'" and "row_inv E now e" and "experiment_row_ok e"
  shows "experiment_row_ok e'"
  using assms(1,2) by (rule complete_fields) (use assms(3) in \<open>auto simp: experiment_row_ok_def dates_ok_def\<close>)

lemma set_status_row_ok:
  "experiment_row_ok e \<Longrightarrow> experiment_row_ok (set_experiment_status st e)"
  by (auto simp: experiment_row_ok_def set_experiment_status_def dates_ok_def)

lemma scheduled_row_ok:
  assumes "update_experiment_schedule now c e = Inr e'" and "experiment_row_ok e"
  shows "experiment_row_ok e'"
proof -
  have "resume_at e' \<noteq> None \<Longrightarrow> experiment_status e' = ExpPaused"
    using assms by (auto simp: update_experiment_schedule_def schedule_draft_def schedule_resume_def Let_def
        experiment_row_ok_def split: option.splits if_splits)
  with assms(2) show ?thesis
    using schedule_fields [OF assms(1)] schedule_dates [OF assms(1)] by (simp add: experiment_row_ok_def)
qed

lemma request_row_ok:
  assumes "handle_request E now req e = Inr e'" and "\<not> is_update req" and "repr_ok E"
    and "experiment_row_ok e" and "row_inv E now e"
  shows "experiment_row_ok e'"
  using assms start_row_ok complete_row_ok scheduled_row_ok set_status_row_ok
  by (cases req) (auto simp: is_update_def pause_experiment_def archive_experiment_def split: if_splits)

lemma request_identity:
  assumes "handle_request E now req e = Inr e'" and "repr_ok E" and "experiment_id e \<noteq> []"
  shows "experiment_id e' = experiment_id e \<and> experiment_key e' = experiment_key e"
proof (cases req)
  case RequestStart
  then have "start_experiment E now e = Inr e'" using assms(1) by simp
  then show ?thesis by (rule start_experimentE [OF _ assms(2,3)]) simp
next
  case (RequestSchedule c)
  with assms schedule_fields show ?thesis by simp
next
  case (RequestUpdate superuser u)
  then have "update_experiment E superuser u e = Inr e'" using assms(1) by simp
  then show ?thesis by (rule update_experimentE) simp
qed (use assms in \<open>auto simp: pause_experiment_def complete_experiment_def archive_experiment_def
    set_experiment_status_def record_end_date_def split: if_splits\<close>)

lemma put_experiment_constraints:
  assumes "table_constraints t" and "e \<in> set t" and "experiment_row_ok e'"
    and "experiment_id e' = experiment_id e" "experiment_key e' = experiment_key e"
  shows "table_constraints (put_experiment e' t)"
proof -
  have "distinct (map experiment_id t)" using assms(1) by (simp add: table_constraints_def)
  then have "\<And>r. r \<in> set t \<Longrightarrow> experiment_id r = experiment_id e' \<Longrightarrow> experiment_key r = experiment_key e'"
    using row_of_id [OF _ assms(2)] assms(4,5) by metis
  then have "map experiment_key (put_experiment e' t) = map experiment_key t"
    by (auto simp: put_experiment_def)
  moreover have "stored_keys s = List.map_filter (\<lambda>k. k) (map experiment_key s)" for s
    by (induction s) (auto simp: stored_keys_def List.map_filter_def)
  ultimately have "stored_keys (put_experiment e' t) = stored_keys t" by simp
  then show ?thesis
    using assms(1,3) by (simp add: table_constraints_def list_all_put_experiment)
qed

section \<open>The tick\<close>

definition apply_or_keep :: "('a \<Rightarrow> 'e + 'a) \<Rightarrow> 'a \<Rightarrow> 'a" where
  "apply_or_keep f e = (case f e of Inl _ \<Rightarrow> e | Inr e' \<Rightarrow> e')"

text \<open>A row function whose results the database accepts.\<close>

definition acceptable :: "(stored_experiment \<Rightarrow> lifecycle_error + stored_experiment) \<Rightarrow> bool" where
  "acceptable f = (\<forall>e e'. experiment_row_ok e \<longrightarrow> f e = Inr e' \<longrightarrow>
     experiment_row_ok e' \<and> experiment_id e' = experiment_id e \<and> experiment_key e' = experiment_key e)"

lemma change_acceptable:
  assumes "acceptable f" and "table_constraints t" and "e \<in> set t" and "f e = Inr e'"
  shows "change_experiment (experiment_id e) f t = Inr (put_experiment e' t) \<and> table_constraints (put_experiment e' t)"
proof -
  have ok: "experiment_row_ok e" and ids: "distinct (map experiment_id t)"
    using assms(2,3) by (auto simp: table_constraints_def list_all_iff)
  have "find (\<lambda>r. experiment_id r = experiment_id e) t = Some e"
    using ids assms(3) by (rule find_row_of_id)
  moreover have "experiment_row_ok e' \<and> experiment_id e' = experiment_id e \<and> experiment_key e' = experiment_key e"
    using assms(1) [unfolded acceptable_def, rule_format, OF ok assms(4)] .
  then have "table_constraints (put_experiment e' t)"
    using put_experiment_constraints [OF assms(2,3)] by blast
  ultimately show ?thesis
    using assms(4) by (simp add: change_experiment_def)
qed

lemma put_experiment_map:
  assumes "distinct (map experiment_id t)" and "e \<in> set t" and "experiment_id e' = experiment_id e"
  shows "put_experiment e' t = map (\<lambda>r. if r = e then e' else r) t"
  unfolding put_experiment_def
  by (rule map_cong [OF refl]) (use row_of_id [OF assms(1) _ assms(2)] assms(3) in auto)

lemma length_filter_insert:
  assumes "distinct xs" and "e \<in> set xs" and "\<not> Q e"
  shows "length (filter (\<lambda>r. r = e \<or> Q r) xs) = Suc (length (filter Q xs))"
  using assms(1,2)
proof (induction xs)
  case Nil
  then show ?case by simp
next
  case (Cons x xs)
  show ?case
  proof (cases "x = e")
    case True
    with Cons.prems have "e \<notin> set xs" by simp
    then have "filter (\<lambda>r. r = e \<or> Q r) xs = filter Q xs" by (intro filter_cong) auto
    with True assms(3) show ?thesis by simp
  next
    case False
    with Cons show ?thesis by simp
  qed
qed

definition raises_on :: "('a \<Rightarrow> 'e + 'a) \<Rightarrow> 'a \<Rightarrow> bool" where
  "raises_on f e = (case f e of Inl _ \<Rightarrow> True | Inr _ \<Rightarrow> False)"

definition batch_done ::
  "(stored_experiment \<Rightarrow> lifecycle_error + stored_experiment) \<Rightarrow> (stored_experiment \<Rightarrow> bool) \<Rightarrow>
     experiment_table \<Rightarrow> experiment_table \<times> nat \<times> nat \<Rightarrow> bool" where
  "batch_done f P t out =
     (fst out = map (\<lambda>e. if P e then apply_or_keep f e else e) t \<and> table_constraints (fst out) \<and>
      snd (snd out) = length (filter (\<lambda>e. P e \<and> raises_on f e) t))"

lemma batch_doneD:
  assumes "batch_done f P t (t', ok, failed)"
  shows "t' = map (\<lambda>e. if P e then apply_or_keep f e else e) t" "table_constraints t'"
    "failed = length (filter (\<lambda>e. P e \<and> raises_on f e) t)"
  using assms unfolding batch_done_def fst_conv snd_conv by blast+

text \<open>A row that fails counts once and stays; a row that succeeds is replaced.\<close>

lemma batch_done_skip:
  assumes "batch_done f Q t (t', ok, failed)" and "distinct t" and "e \<in> set t" and "f e = Inl err" and "\<not> Q e"
    and "\<And>r. r \<in> set t \<Longrightarrow> P r \<longleftrightarrow> r = e \<or> Q r"
  shows "batch_done f P t (t', ok, Suc failed)"
proof -
  have "map (\<lambda>r. if P r then apply_or_keep f r else r) t = map (\<lambda>r. if Q r then apply_or_keep f r else r) t"
    by (rule map_cong [OF refl]) (use assms(4,6) in \<open>auto simp: apply_or_keep_def\<close>)
  moreover have "filter (\<lambda>r. P r \<and> raises_on f r) t = filter (\<lambda>r. r = e \<or> Q r \<and> raises_on f r) t"
    by (rule filter_cong [OF refl]) (use assms(4,6) in \<open>auto simp: raises_on_def\<close>)
  moreover have "length (filter (\<lambda>r. r = e \<or> Q r \<and> raises_on f r) t) =
      Suc (length (filter (\<lambda>r. Q r \<and> raises_on f r) t))"
    using assms(5) by (intro length_filter_insert [OF assms(2,3)]) simp
  ultimately show ?thesis
    using assms(1) unfolding batch_done_def fst_conv snd_conv by metis
qed

lemma batch_done_apply:
  assumes "batch_done f Q (map (\<lambda>r. if r = e then e' else r) t) (t', ok, failed)" and "f e = Inr e'" and "\<not> Q e'"
    and "\<And>r. r \<in> set t \<Longrightarrow> P r \<longleftrightarrow> r = e \<or> Q r"
  shows "batch_done f P t (t', Suc ok, failed)"
proof -
  have "map ((\<lambda>r. if Q r then apply_or_keep f r else r) \<circ> (\<lambda>r. if r = e then e' else r)) t =
      map (\<lambda>r. if P r then apply_or_keep f r else r) t"
    by (rule map_cong [OF refl]) (use assms(2-4) in \<open>auto simp: apply_or_keep_def\<close>)
  moreover have "filter ((\<lambda>r. Q r \<and> raises_on f r) \<circ> (\<lambda>r. if r = e then e' else r)) t =
      filter (\<lambda>r. P r \<and> raises_on f r) t"
    by (rule filter_cong [OF refl]) (use assms(2-4) in \<open>auto simp: raises_on_def\<close>)
  ultimately show ?thesis
    using assms(1) unfolding batch_done_def fst_conv snd_conv map_map filter_map length_map by metis
qed

lemma run_batch_rows:
  assumes "acceptable f" and "table_constraints t" and "distinct ids" and "set ids \<subseteq> experiment_id ` set t"
  shows "batch_done f (\<lambda>e. experiment_id e \<in> set ids) t (run_batch f ids t)"
  using assms(2-4)
proof (induction ids arbitrary: t)
  case Nil
  then show ?case by (simp add: batch_done_def)
next
  case (Cons eid ids)
  obtain e where e: "e \<in> set t" "experiment_id e = eid" using Cons.prems(3) by auto
  have ids: "distinct (map experiment_id t)" using Cons.prems(1) by (simp add: table_constraints_def)
  then have dist: "distinct t" by (simp add: distinct_map)
  have only: "experiment_id r \<in> set (eid # ids) \<longleftrightarrow> r = e \<or> experiment_id r \<in> set ids" if "r \<in> set t" for r
    using row_of_id [OF ids that e(1)] e(2) by auto
  have new: "eid \<notin> set ids" "distinct ids" using Cons.prems(2) by simp_all
  show ?case
  proof (cases "f e")
    case (Inl err)
    obtain t' ok failed where run: "run_batch f ids t = (t', ok, failed)" by (cases "run_batch f ids t")
    have "batch_done f (\<lambda>e. experiment_id e \<in> set ids) t (t', ok, failed)"
      using Cons.IH [OF Cons.prems(1) new(2)] Cons.prems(3) run by simp
    then have "batch_done f (\<lambda>e. experiment_id e \<in> set (eid # ids)) t (t', ok, Suc failed)"
      by (rule batch_done_skip [where e = e and err = err and Q = "\<lambda>e. experiment_id e \<in> set ids"])
        (use dist e new Inl only in auto)
    moreover have "change_experiment eid f t = Inl err"
      using find_row_of_id [OF ids e(1)] e(2) Inl by (simp add: change_experiment_def)
    ultimately show ?thesis using run by simp
  next
    case (Inr e')
    let ?t1 = "put_experiment e' t"
    have ch: "change_experiment eid f t = Inr ?t1" "table_constraints ?t1"
      using change_acceptable [OF assms(1) Cons.prems(1) e(1) Inr] e(2) by simp_all
    have "experiment_row_ok e" using Cons.prems(1) e(1) by (simp add: table_constraints_def list_all_iff)
    then have e': "experiment_id e' = eid"
      using assms(1) [unfolded acceptable_def, rule_format, OF _ Inr] e(2) by blast
    have t1: "?t1 = map (\<lambda>r. if r = e then e' else r) t"
      using put_experiment_map [OF ids e(1)] e' e(2) by simp
    have "set ids \<subseteq> experiment_id ` set ?t1"
      using Cons.prems(3) ids_put_experiment [of e' t] by (metis list.set_map set_subset_Cons subset_trans)
    note IH = Cons.IH [OF ch(2) new(2) this]
    obtain t' ok failed where run: "run_batch f ids ?t1 = (t', ok, failed)" by (cases "run_batch f ids ?t1")
    have "batch_done f (\<lambda>e. experiment_id e \<in> set (eid # ids)) t (t', Suc ok, failed)"
      by (rule batch_done_apply [where e = e and e' = e' and Q = "\<lambda>e. experiment_id e \<in> set ids"])
        (use IH [unfolded run] e' new Inr only in \<open>auto simp: t1\<close>)
    then show ?thesis using ch(1) run by simp
  qed
qed

lemma run_batch_due:
  assumes "acceptable f" and "table_constraints t"
  shows "batch_done f P t (run_batch f (map experiment_id (filter P t)) t)"
proof -
  let ?ids = "map experiment_id (filter P t)"
  have ids: "distinct (map experiment_id t)" using assms(2) by (simp add: table_constraints_def)
  then have "distinct ?ids" by (rule distinct_map_filter)
  then have rows: "batch_done f (\<lambda>e. experiment_id e \<in> set ?ids) t (run_batch f ?ids t)"
    by (rule run_batch_rows [OF assms]) auto
  have member: "\<And>e. e \<in> set t \<Longrightarrow> experiment_id e \<in> set ?ids \<longleftrightarrow> P e"
    using row_of_id [OF ids] by force
  have "map (\<lambda>e. if experiment_id e \<in> set ?ids then apply_or_keep f e else e) t =
      map (\<lambda>e. if P e then apply_or_keep f e else e) t"
    by (rule map_cong [OF refl]) (simp only: member)
  moreover have "filter (\<lambda>e. experiment_id e \<in> set ?ids \<and> raises_on f e) t = filter (\<lambda>e. P e \<and> raises_on f e) t"
    by (rule filter_cong [OF refl]) (simp only: member)
  ultimately show ?thesis
    using rows unfolding batch_done_def by metis
qed

lemma activate_acceptable: "repr_ok E \<Longrightarrow> acceptable (activate_row E)"
proof -
  assume E: "repr_ok E"
  have "experiment_row_ok e' \<and> experiment_id e' = experiment_id e \<and> experiment_key e' = experiment_key e"
    if ok: "experiment_row_ok e" and a: "activate_row E e = Inr e'" for e e'
  proof -
    obtain s where s: "stamp_rollout_rule_id E e (experiment_status e) = Inr s" "e' = set_experiment_status ExpActive s"
      using a by (auto simp: activate_row_def exc_rules)
    have "experiment_id e \<noteq> []" using ok by (simp add: experiment_row_ok_def)
    then obtain r where r: "s = e\<lparr>experiment_rules := r\<rparr>" using stamp_cases [OF s(1) E] by blast
    have "experiment_row_ok (e\<lparr>experiment_rules := r\<rparr>)"
      using ok by (simp add: experiment_row_ok_def dates_ok_def)
    then have "experiment_row_ok e'"
      unfolding s(2) r by (rule set_status_row_ok)
    then show ?thesis
      unfolding s(2) r set_experiment_status_def by simp
  qed
  then show ?thesis unfolding acceptable_def by blast
qed

lemma complete_acceptable: "acceptable complete_row"
  using set_status_row_ok [of _ ExpCompleted]
  by (auto simp: acceptable_def complete_row_def) (simp_all add: set_experiment_status_def)

text \<open>The tick, row by row.\<close>

definition activate_if_due :: "'z pyenv_scheme \<Rightarrow> int \<Rightarrow> stored_experiment \<Rightarrow> stored_experiment" where
  "activate_if_due E now e = (if due_to_activate now e then apply_or_keep (activate_row E) e else e)"

definition complete_if_due :: "int \<Rightarrow> stored_experiment \<Rightarrow> stored_experiment" where
  "complete_if_due now e = (if due_to_complete now e then set_experiment_status ExpCompleted e else e)"

lemma tick_rowwise:
  assumes "repr_ok E" and "table_constraints t"
    and "process_scheduled_experiments E now t = (t', activated, completed, failed)"
  shows "t' = map (complete_if_due now \<circ> activate_if_due E now) t" "table_constraints t'"
    "failed = length (filter (\<lambda>e. due_to_activate now e \<and> raises_on (activate_row E) e) t)"
proof -
  obtain t1 ok1 failed1 where run1:
    "run_batch (activate_row E) (map experiment_id (filter (due_to_activate now) t)) t = (t1, ok1, failed1)"
    by (metis prod_cases3)
  note first = run_batch_due [OF activate_acceptable [OF assms(1)] assms(2), of "due_to_activate now", unfolded run1]
  then have t1: "t1 = map (activate_if_due E now) t"
    unfolding activate_if_due_def by (rule batch_doneD)
  obtain t2 ok2 failed2 where run2:
    "run_batch complete_row (map experiment_id (filter (due_to_complete now) t1)) t1 = (t2, ok2, failed2)"
    by (metis prod_cases3)
  note second = run_batch_due [OF complete_acceptable batch_doneD(2) [OF first], of "due_to_complete now",
      unfolded run2]
  have "apply_or_keep complete_row e = set_experiment_status ExpCompleted e" "\<not> raises_on complete_row e" for e
    by (simp_all add: apply_or_keep_def complete_row_def raises_on_def)
  then have t2: "t2 = map (complete_if_due now) t1" "failed2 = 0"
    using batch_doneD(1,3) [OF second] by (simp_all add: complete_if_due_def)
  have out: "t' = t2" "failed = failed1 + failed2"
    using assms(3) run1 run2 by (simp_all add: process_scheduled_experiments_def)
  show "t' = map (complete_if_due now \<circ> activate_if_due E now) t"
    using out(1) t1 t2(1) by simp
  show "table_constraints t'" using out(1) batch_doneD(2) [OF second] by simp
  show "failed = length (filter (\<lambda>e. due_to_activate now e \<and> raises_on (activate_row E) e) t)"
    using out(2) t2(2) batch_doneD(3) [OF first] by simp
qed

lemma activate_if_due_inv:
  assumes "repr_ok E" and "experiment_id e \<noteq> []" and "row_inv E now e"
  shows "row_inv E now (activate_if_due E now e)"
proof (cases "due_to_activate now e \<and> \<not> raises_on (activate_row E) e")
  case True
  then obtain s where s: "stamp_rollout_rule_id E e (experiment_status e) = Inr s"
    and a: "activate_if_due E now e = set_experiment_status ExpActive s"
    by (auto simp: activate_if_due_def raises_on_def apply_or_keep_def activate_row_def exc_rules split: sum.splits)
  obtain r where r: "s = e\<lparr>experiment_rules := r\<rparr>" "experiment_status e \<noteq> ExpDraft \<Longrightarrow> r = experiment_rules e"
    "experiment_status e = ExpDraft \<Longrightarrow> buckets_on_rule_id E r = Inr True \<Longrightarrow> stored_rule_id E r \<noteq> None"
    using stamp_cases [OF s assms(1,2)] by blast
  have "\<exists>s. start_date e = Some s \<and> s \<le> now"
    using True assms(3) by (auto simp: due_to_activate_def due_def row_inv_def is_running_def split: option.splits)
  moreover have "buckets_on_rule_id E r = Inr True \<Longrightarrow> stored_rule_id E r \<noteq> None"
    using r(2,3) True assms(3) by (cases "experiment_status e = ExpDraft") (auto simp: due_to_activate_def row_inv_def is_running_def)
  ultimately show ?thesis
    using assms(3) unfolding a r(1) by (auto simp: row_inv_def set_experiment_status_def)
next
  case False
  then have "activate_if_due E now e = e"
    by (auto simp: activate_if_due_def raises_on_def apply_or_keep_def split: sum.splits)
  with assms(3) show ?thesis by simp
qed

lemma complete_if_due_inv: "row_inv E now e \<Longrightarrow> row_inv E now (complete_if_due now e)"
  by (auto simp: complete_if_due_def due_to_complete_def row_inv_def is_running_def set_experiment_status_def)

section \<open>Every reachable state\<close>

definition lifecycle_inv :: "'z pyenv_scheme \<Rightarrow> lifecycle_db \<Rightarrow> bool" where
  "lifecycle_inv E db =
     (table_constraints (experiment_rows db) \<and>
      list_all (row_inv E (lifecycle_now db)) (experiment_rows db))"

lemma lifecycle_rows:
  assumes "lifecycle_inv E db" and "e \<in> set (experiment_rows db)"
  shows "row_inv E (lifecycle_now db) e" "experiment_row_ok e" "experiment_id e \<noteq> []"
  using assms by (auto simp: lifecycle_inv_def table_constraints_def list_all_iff experiment_row_ok_def)

lemma insert_generatedE:
  assumes "insert_with_generated_key suffixes e t = Inr t'"
  obtains k where "t' = t @ [e\<lparr>experiment_key := Some k\<rparr>]" "table_constraints t'"
    "\<exists>suffix\<in>set suffixes. k = generate_key (experiment_name e) suffix"
  using assms
  by (induction suffixes e t rule: insert_with_generated_key.induct) (auto split: sum.splits if_splits)

lemma createdE:
  assumes "create_experiment new_id suffixes c t = Inr t'"
  obtains e where "t' = t @ [e]" "table_constraints t'" "experiment_status e = ExpDraft"
    "variants_refusal (variants e) = None" "experiment_id e = new_id"
proof -
  have ref: "variants_refusal (draft_variants c) = None"
    using assms by (auto simp: create_experiment_def create_refusal_def Let_def split: option.splits if_splits)
  show ?thesis
  proof (cases "draft_key c = None")
    case True
    with assms show ?thesis
      by (auto simp: create_experiment_def Let_def split: option.splits
          elim!: insert_generatedE intro!: that simp: ref)
  next
    case False
    with assms ref that show ?thesis
      by (auto simp: create_experiment_def Let_def split: option.splits)
  qed
qed

lemma renumbered_variants:
  "length ids = length vs \<Longrightarrow>
     map traffic_allocation (map2 (\<lambda>i v. v\<lparr>variant_id := i\<rparr>) ids vs) = map traffic_allocation vs \<and>
     map is_control (map2 (\<lambda>i v. v\<lparr>variant_id := i\<rparr>) ids vs) = map is_control vs"
  by (induction ids vs rule: list_induct2) auto

lemma variants_refusal_cong:
  assumes "map traffic_allocation vs = map traffic_allocation ws" "map is_control vs = map is_control ws"
  shows "variants_refusal vs = variants_refusal ws"
proof -
  let ?range = "\<lambda>a. 0 \<le> a \<and> a \<le> (100 :: int)"
  have as_maps: "list_all (\<lambda>v. ?range (traffic_allocation v)) us = list_all ?range (map traffic_allocation us)"
    "list_ex is_control us = list_ex (\<lambda>b. b) (map is_control us)" for us
    by (induction us) auto
  have "list_all (\<lambda>v. ?range (traffic_allocation v)) vs = list_all (\<lambda>v. ?range (traffic_allocation v)) ws"
    "list_ex is_control vs = list_ex is_control ws"
    unfolding as_maps assms by (rule refl)+
  then show ?thesis
    unfolding variants_refusal_def assms by simp
qed

lemma stored_keys_filter:
  assumes "distinct (stored_keys t)"
  shows "distinct (stored_keys (filter P t))"
proof -
  have "stored_keys (filter P t) = map (the \<circ> experiment_key) (filter P (filter (\<lambda>e. experiment_key e \<noteq> None) t))"
    by (simp add: stored_keys_def List.map_filter_def conj_commute)
  with assms show ?thesis
    unfolding stored_keys_def List.map_filter_def by (simp only: distinct_map_filter)
qed

lemma clonedE:
  assumes "clone_experiment E new_id ids suffixes source t = Inr t'" and "length ids = length (variants source)"
    and "variants_refusal (variants source) = None"
  obtains e where "t' = t @ [e]" "table_constraints t'" "experiment_status e = ExpDraft"
    "variants_refusal (variants e) = None" "experiment_id e = new_id"
proof -
  let ?vs = "map2 (\<lambda>i v. v\<lparr>variant_id := i\<rparr>) ids (variants source)"
  have same: "map traffic_allocation ?vs = map traffic_allocation (variants source)"
    "map is_control ?vs = map is_control (variants source)"
    using renumbered_variants [OF assms(2)] by simp_all
  then have "variants_refusal ?vs = variants_refusal (variants source)"
    by (rule variants_refusal_cong)
  with assms(1,3) that show ?thesis
    by (auto simp: clone_experiment_def elim!: insert_generatedE)
qed

text \<open>The invariant of the machine.\<close>

lemma append_inv:
  assumes "lifecycle_inv E db" and "table_constraints (experiment_rows db @ [e])"
    and "experiment_status e = ExpDraft" "variants_refusal (variants e) = None"
  shows "lifecycle_inv E (db\<lparr>experiment_rows := experiment_rows db @ [e]\<rparr>)"
  using assms by (simp add: lifecycle_inv_def row_inv_def is_running_def)

lemma request_keeps:
  assumes "lifecycle_inv E db" and "repr_ok E"
    and "change_experiment eid (handle_request E (lifecycle_now db) req) (experiment_rows db) = Inr t"
  shows "lifecycle_inv E (db\<lparr>experiment_rows := t\<rparr>)"
  using assms(3)
proof (rule change_experimentE)
  fix e e' assume e: "e \<in> set (experiment_rows db)" "handle_request E (lifecycle_now db) req e = Inr e'"
    "t = put_experiment e' (experiment_rows db)" "table_constraints t"
  have "row_inv E (lifecycle_now db) e'"
    using request_inv [OF e(2) assms(2)] lifecycle_rows [OF assms(1) e(1)] by blast
  then show ?thesis
    using assms(1) e(3,4) list_all_put_experiment by (simp add: lifecycle_inv_def)
qed

lemma tick_keeps:
  assumes "lifecycle_inv E db" and "repr_ok E"
    and "process_scheduled_experiments E (lifecycle_now db) (experiment_rows db) = (t, counts)"
  shows "lifecycle_inv E (db\<lparr>experiment_rows := t\<rparr>)"
proof -
  obtain a c f where counts: "counts = (a, c, f)" by (cases counts)
  have tc: "table_constraints (experiment_rows db)" using assms(1) by (simp add: lifecycle_inv_def)
  note tick = tick_rowwise [OF assms(2) tc assms(3) [unfolded counts]]
  have "\<forall>e\<in>set (experiment_rows db).
      row_inv E (lifecycle_now db) (complete_if_due (lifecycle_now db) (activate_if_due E (lifecycle_now db) e))"
    using complete_if_due_inv activate_if_due_inv [OF assms(2)] lifecycle_rows [OF assms(1)] by blast
  then have "list_all (row_inv E (lifecycle_now db)) t"
    unfolding tick(1) by (simp add: list_all_iff)
  with tick(2) show ?thesis by (simp add: lifecycle_inv_def)
qed

lemma step_keeps_inv:
  assumes "lifecycle_inv E db" and "repr_ok E" and "lifecycle_step E db db'"
  shows "lifecycle_inv E db'"
  using assms(3)
proof cases
  case (time_passes later)
  then show ?thesis
    using assms(1) row_inv_later by (fastforce simp: lifecycle_inv_def list_all_iff)
next
  case (request eid req t)
  then show ?thesis using request_keeps [OF assms(1,2)] by simp
next
  case (created new_id suffixes c t)
  from created(2) show ?thesis
    by (rule createdE) (use append_inv [OF assms(1)] created(1) in auto)
next
  case (cloned source variant_ids new_id suffixes t)
  have "variants_refusal (variants source) = None"
    using lifecycle_rows(1) [OF assms(1) cloned(2)] by (simp add: row_inv_def)
  with cloned(4,3) show ?thesis
    by (rule clonedE) (use append_inv [OF assms(1)] cloned(1) in auto)
next
  case (deleted eid t)
  then obtain P where t: "t = filter P (experiment_rows db)"
    by (auto simp: delete_experiment_def split: option.splits if_splits)
  have "table_constraints t"
    using assms(1) stored_keys_filter [of "experiment_rows db" P] unfolding t lifecycle_inv_def table_constraints_def
    by (auto simp: list_all_iff distinct_map_filter)
  then show ?thesis
    using assms(1) t deleted(1) by (auto simp: lifecycle_inv_def list_all_iff)
next
  case (tick t counts)
  then show ?thesis using tick_keeps [OF assms(1,2)] by simp
qed

section \<open>What a started experiment keeps\<close>

definition over :: "experiment_status \<Rightarrow> bool" where
  "over st = (st = ExpCompleted \<or> st = ExpArchived)"

definition evolves :: "stored_experiment \<Rightarrow> stored_experiment \<Rightarrow> bool" where
  "evolves e e' =
     (experiment_id e' = experiment_id e \<and> experiment_key e' = experiment_key e \<and>
      variants e' = variants e \<and> metric_definitions e' = metric_definitions e \<and>
      experiment_status e' \<noteq> ExpDraft \<and>
      (experiment_status e = ExpArchived \<longrightarrow> experiment_status e' = ExpArchived) \<and>
      (over (experiment_status e) \<longrightarrow> over (experiment_status e') \<and> experiment_rules e' = experiment_rules e \<and>
         start_date e' = start_date e \<and> end_date e' = end_date e))"

lemma evolves_refl: "experiment_status e \<noteq> ExpDraft \<Longrightarrow> evolves e e"
  by (simp add: evolves_def)

lemma evolves_trans: "evolves e e' \<Longrightarrow> evolves e' e'' \<Longrightarrow> evolves e e''"
  by (auto simp: evolves_def)

lemma set_status_evolves:
  "st \<noteq> ExpDraft \<Longrightarrow> (over (experiment_status e) \<Longrightarrow> st = ExpArchived \<or> st = experiment_status e) \<Longrightarrow>
     evolves e (set_experiment_status st e)"
  by (auto simp: evolves_def set_experiment_status_def over_def)

lemma start_evolves:
  assumes "start_experiment E now e = Inr e'" and "repr_ok E" and "experiment_id e \<noteq> []" and "experiment_status e \<noteq> ExpDraft"
  shows "evolves e e'"
  using assms(1-3) by (rule start_experimentE) (use assms(4) in \<open>auto simp: evolves_def over_def\<close>)

lemma update_evolves:
  assumes "update_experiment E superuser u e = Inr e'" and "experiment_status e \<noteq> ExpDraft"
  shows "evolves e e'"
  using assms(1)
proof (cases rule: update_experimentE)
  case (1 r)
  have locked: "sent_variants u = None" "sent_metrics u = None" "over (experiment_status e) \<Longrightarrow> sent_rules u = None"
    using 1(2) assms(2) by (auto simp: update_refusal_def Let_def over_def split: if_splits)
  then show ?thesis
    using 1(3-) assms(2) by (auto simp: evolves_def sent_field_def)
qed

lemma request_evolves:
  assumes "handle_request E now req e = Inr e'" and "repr_ok E" and "experiment_id e \<noteq> []"
    and "row_inv E now e" and "experiment_status e \<noteq> ExpDraft"
  shows "evolves e e'"
proof (cases req)
  case RequestComplete
  then have "complete_experiment now e = Inr e'" using assms(1) by simp
  then show ?thesis
    by (rule complete_fields [OF _ assms(4)]) (auto simp: evolves_def over_def is_running_def)
next
  case (RequestSchedule c)
  then show ?thesis
    using assms(1,5) schedule_fields [of now c e e'] by (auto simp: evolves_def over_def)
qed (use assms start_evolves update_evolves in
    \<open>auto simp: pause_experiment_def archive_experiment_def over_def intro!: set_status_evolves split: if_splits\<close>)

lemma activate_if_due_evolves:
  assumes "repr_ok E" and "experiment_id e \<noteq> []" and "experiment_status e \<noteq> ExpDraft"
  shows "evolves e (activate_if_due E now e)"
proof (cases "activate_if_due E now e = e")
  case True
  with evolves_refl assms(3) show ?thesis by simp
next
  case False
  then have "experiment_status e = ExpPaused"
    using assms(3) by (auto simp: activate_if_due_def due_to_activate_def split: if_splits)
  with False have "activate_if_due E now e = set_experiment_status ExpActive e"
    by (simp add: activate_if_due_def apply_or_keep_def activate_row_def stamp_rollout_rule_id_def split: if_splits)
  with \<open>experiment_status e = ExpPaused\<close> show ?thesis by (auto simp: over_def intro!: set_status_evolves)
qed

lemma complete_if_due_evolves: "experiment_status e \<noteq> ExpDraft \<Longrightarrow> evolves e (complete_if_due now e)"
  using set_status_evolves [of ExpCompleted e] evolves_refl
  by (auto simp: complete_if_due_def due_to_complete_def over_def)

definition experiments_evolve :: "lifecycle_db \<Rightarrow> lifecycle_db \<Rightarrow> bool" where
  "experiments_evolve s t =
     (\<forall>e\<in>set (experiment_rows s). experiment_status e \<noteq> ExpDraft \<longrightarrow>
        (\<exists>e'\<in>set (experiment_rows t). evolves e e'))"

lemma evolve_refl: "experiments_evolve s s"
  using evolves_refl by (auto simp: experiments_evolve_def)

lemma evolve_trans: "experiments_evolve s t \<Longrightarrow> experiments_evolve t u \<Longrightarrow> experiments_evolve s u"
  unfolding experiments_evolve_def by (meson evolves_def evolves_trans)

lemma evolve_superset:
  "set (filter (\<lambda>e. experiment_status e \<noteq> ExpDraft) (experiment_rows s)) \<subseteq> set (experiment_rows t) \<Longrightarrow> experiments_evolve s t"
  using evolves_refl by (fastforce simp: experiments_evolve_def)

lemma request_step_evolves:
  assumes "lifecycle_inv E db" and "repr_ok E"
    and "change_experiment eid (handle_request E (lifecycle_now db) req) (experiment_rows db) = Inr t"
  shows "experiments_evolve db (db\<lparr>experiment_rows := t\<rparr>)"
  using assms(3)
proof (rule change_experimentE)
  fix e e' assume e: "e \<in> set (experiment_rows db)" "handle_request E (lifecycle_now db) req e = Inr e'"
    "t = put_experiment e' (experiment_rows db)"
  note wf = lifecycle_rows [OF assms(1) e(1)]
  have id: "experiment_id e' = experiment_id e"
    using request_identity [OF e(2) assms(2) wf(3)] by simp
  have "\<exists>r'\<in>set t. evolves r r'" if r: "r \<in> set (experiment_rows db)" "experiment_status r \<noteq> ExpDraft" for r
  proof (cases "experiment_id r = experiment_id e")
    case True
    then have "r = e"
      using row_of_id [OF _ r(1) e(1)] assms(1) by (simp add: lifecycle_inv_def table_constraints_def)
    with r(2) have "evolves r e'" using request_evolves [OF e(2) assms(2) wf(3,1)] by simp
    then show ?thesis using put_experiment_in [OF e(1) id] e(3) by blast
  next
    case False
    then show ?thesis using put_experiment_keeps [OF r(1)] id e(3) evolves_refl [OF r(2)] by metis
  qed
  then show ?thesis by (simp add: experiments_evolve_def)
qed

lemma tick_step_evolves:
  assumes "lifecycle_inv E db" and "repr_ok E"
    and "process_scheduled_experiments E (lifecycle_now db) (experiment_rows db) = (t, counts)"
  shows "experiments_evolve db (db\<lparr>experiment_rows := t\<rparr>)"
proof -
  obtain a c f where counts: "counts = (a, c, f)" by (cases counts)
  have tc: "table_constraints (experiment_rows db)" using assms(1) by (simp add: lifecycle_inv_def)
  let ?row = "\<lambda>e. complete_if_due (lifecycle_now db) (activate_if_due E (lifecycle_now db) e)"
  have t: "t = map ?row (experiment_rows db)"
    using tick_rowwise(1) [OF assms(2) tc assms(3) [unfolded counts]] by (simp add: comp_def)
  have "evolves e (?row e)" if "e \<in> set (experiment_rows db)" "experiment_status e \<noteq> ExpDraft" for e
    using activate_if_due_evolves [OF assms(2) lifecycle_rows(3) [OF assms(1) that(1)] that(2)]
      complete_if_due_evolves evolves_trans by (meson evolves_def)
  then show ?thesis unfolding t experiments_evolve_def by auto
qed

lemma step_evolves:
  assumes "lifecycle_inv E db" and "repr_ok E" and "lifecycle_step E db db'"
  shows "experiments_evolve db db'"
  using assms(3)
proof cases
  case (time_passes later)
  then show ?thesis by (intro evolve_superset) auto
next
  case (request eid req t)
  then show ?thesis using request_step_evolves [OF assms(1,2)] by simp
next
  case (created new_id suffixes c t)
  from created(2) show ?thesis
    by (rule createdE) (use created(1) in \<open>auto intro: evolve_superset\<close>)
next
  case (cloned source variant_ids new_id suffixes t)
  have "variants_refusal (variants source) = None"
    using lifecycle_rows(1) [OF assms(1) cloned(2)] by (simp add: row_inv_def)
  with cloned(4,3) show ?thesis
    by (rule clonedE) (use cloned(1) in \<open>auto intro: evolve_superset\<close>)
next
  case (deleted eid t)
  have tc: "distinct (map experiment_id (experiment_rows db))"
    using assms(1) by (simp add: lifecycle_inv_def table_constraints_def)
  from deleted(2) obtain e where e: "find (\<lambda>e. experiment_id e = eid) (experiment_rows db) = Some e"
      "experiment_status e = ExpDraft" "t = filter (\<lambda>r. experiment_id r \<noteq> eid) (experiment_rows db)"
    by (auto simp: delete_experiment_def split: option.splits if_splits)
  have "e \<in> set (experiment_rows db)" "experiment_id e = eid" using find_SomeE [OF e(1)] by auto
  then have "\<And>r. r \<in> set (experiment_rows db) \<Longrightarrow> experiment_id r = eid \<Longrightarrow> r = e"
    using row_of_id [OF tc] by metis
  with e(2) deleted(1) show ?thesis
    by (intro evolve_superset) (auto simp: e(3))
next
  case (tick t counts)
  then show ?thesis using tick_step_evolves [OF assms(1,2)] by simp
qed

section \<open>The machine\<close>

definition guarded_step :: "'z pyenv_scheme \<Rightarrow> lifecycle_db \<Rightarrow> lifecycle_db \<Rightarrow> bool" where
  "guarded_step E db db' = (repr_ok E \<and> lifecycle_step E db db')"

interpretation lifecycle: history_of "guarded_step E" "lifecycle_inv E" experiments_evolve
  by unfold_locales (auto simp: guarded_step_def intro: step_keeps_inv step_evolves evolve_refl evolve_trans)

lemma reach_guarded: "repr_ok E \<Longrightarrow> reach (lifecycle_step E) s t \<Longrightarrow> reach (guarded_step E) s t"
  by (erule reach_mono) (simp add: guarded_step_def)

lemma lifecycle_reach_inv:
  "reach (lifecycle_step E) s t \<Longrightarrow> repr_ok E \<Longrightarrow> lifecycle_inv E s \<Longrightarrow> lifecycle_inv E t"
  using lifecycle.reach_keeps reach_guarded by blast

lemma lifecycle_reach_evolves:
  "reach (lifecycle_step E) s t \<Longrightarrow> repr_ok E \<Longrightarrow> lifecycle_inv E s \<Longrightarrow> experiments_evolve s t"
  using lifecycle.reach_extends reach_guarded by blast

lemma empty_inv: "experiment_rows db = [] \<Longrightarrow> lifecycle_inv E db"
  by (simp add: lifecycle_inv_def table_constraints_def stored_keys_def List.map_filter_def)

lemma reachable_inv:
  "reach (lifecycle_step E) db db' \<Longrightarrow> repr_ok E \<Longrightarrow> experiment_rows db = [] \<Longrightarrow> lifecycle_inv E db'"
  by (rule lifecycle_reach_inv [OF _ _ empty_inv])

section \<open>Requests and ticks on a reachable state\<close>

lemma request_accepted:
  assumes "lifecycle_inv E db" and "repr_ok E" and "e \<in> set (experiment_rows db)"
    and "handle_request E (lifecycle_now db) req e = Inr e'" and "\<not> is_update req"
  shows "change_experiment (experiment_id e) (handle_request E (lifecycle_now db) req) (experiment_rows db) =
    Inr (put_experiment e' (experiment_rows db))"
proof -
  have tc: "table_constraints (experiment_rows db)" using assms(1) by (simp add: lifecycle_inv_def)
  note wf = lifecycle_rows [OF assms(1,3)]
  have "find (\<lambda>r. experiment_id r = experiment_id e) (experiment_rows db) = Some e"
    using tc by (intro find_row_of_id assms(3)) (simp add: table_constraints_def)
  moreover have "table_constraints (put_experiment e' (experiment_rows db))"
    using put_experiment_constraints [OF tc assms(3) request_row_ok [OF assms(4,5,2) wf(2,1)]]
      request_identity [OF assms(4,2) wf(3)] by blast
  ultimately show ?thesis
    using assms(4) by (simp add: change_experiment_def)
qed

lemma complete_if_due_stops: "\<not> due_to_complete now (complete_if_due now e)"
  by (auto simp: complete_if_due_def due_to_complete_def set_experiment_status_def)

lemma activated_row:
  assumes "due_to_activate now e" and "\<not> raises_on (activate_row E) e"
  obtains r where "activate_if_due E now e = set_experiment_status ExpActive (e\<lparr>experiment_rules := r\<rparr>)"
proof -
  obtain s where s: "stamp_rollout_rule_id E e (experiment_status e) = Inr s"
    "activate_if_due E now e = set_experiment_status ExpActive s"
    using assms
    by (auto simp: activate_if_due_def raises_on_def apply_or_keep_def activate_row_def exc_rules split: sum.splits)
  have "\<exists>r. s = e\<lparr>experiment_rules := r\<rparr>"
    using s(1) by (auto simp: stamp_rollout_rule_id_def exc_rules split: if_splits
        intro: exI [of _ "experiment_rules e"])
  with s(2) that show ?thesis by blast
qed

lemma draft_over_in_one_tick:
  assumes "due_to_activate now e" and "\<not> raises_on (activate_row E) e" and "due now (end_date e)"
  shows "experiment_status (complete_if_due now (activate_if_due E now e)) = ExpCompleted"
  using assms(1,2)
  by (rule activated_row) (simp add: complete_if_due_def due_to_complete_def set_experiment_status_def assms(3))

lemma scheduled_start:
  assumes "due_to_activate now e" and "\<not> raises_on (activate_row E) e" and "\<not> due now (end_date e)"
  shows "experiment_status (complete_if_due now (activate_if_due E now e)) = ExpActive \<and>
    variants (complete_if_due now (activate_if_due E now e)) = variants e \<and>
    metric_definitions (complete_if_due now (activate_if_due E now e)) = metric_definitions e"
  using assms(1,2)
  by (rule activated_row) (simp add: complete_if_due_def due_to_complete_def set_experiment_status_def assms(3))

lemma tick_row_id [simp]:
  "experiment_id (complete_if_due now (activate_if_due E now e)) = experiment_id e"
proof -
  have "experiment_id (activate_if_due E now e) = experiment_id e"
  proof (cases "due_to_activate now e \<and> \<not> raises_on (activate_row E) e")
    case True
    then obtain r where "activate_if_due E now e = set_experiment_status ExpActive (e\<lparr>experiment_rules := r\<rparr>)"
      using activated_row by blast
    then show ?thesis by (simp add: set_experiment_status_def)
  next
    case False
    then show ?thesis by (auto simp: activate_if_due_def raises_on_def apply_or_keep_def split: sum.splits)
  qed
  then show ?thesis by (simp add: complete_if_due_def set_experiment_status_def)
qed

end
