(* ===== verification/Experiment_Admission.thy ===== *)
theory Experiment_Admission
  imports Experiment_Facts Assignment_Facts
begin

text \<open>
  Who a is_running experiment admits: the rule that evaluation builds from the stored rules buckets on
  the stored id, and a paused experiment whose percentage is raised admits everyone it admitted.
\<close>

section \<open>The rule built from stored rules\<close>

lemma dget_dict_pop: "dget (dict_pop (str k) d) k' = (if k' = k then PNone else dget d k')"
  by (simp add: dget_def)

lemma has_key_dict_pop: "has_key (dict_pop (str k) d) k' \<longleftrightarrow> k' \<noteq> k \<and> has_key d k'"
  by (simp add: has_key_def)

lemma from_dashboard_rule_id:
  assumes "from_dashboard E d = Inr rs" and "is_dashboard_rules_shape d" and "stored_rule_id E (PDict d) = Some i"
    and "r \<in> set (rules rs)"
  shows "rule_id r = i"
  using assms
  by (auto simp: from_dashboard_def stored_rule_id_def or_default_def Let_def exc_rules split: if_splits)

lemma normalised_rule_id:
  assumes "normalise_targeting_rules E raw = Inr (Some rs)" and "stored_rule_id E raw = Some i" and "r \<in> set (rules rs)"
  shows "rule_id r = i"
proof -
  obtain d where d: "raw = PDict d" "is_dashboard_rules_shape d"
    using assms(2) by (auto simp: stored_rule_id_def split: pyval.splits if_splits)
  then have "from_dashboard E d = Inr rs"
    using assms(1) by (auto simp: normalise_targeting_rules_def is_dashboard_rules_shape_def rescue_def exc_rules
        split: if_splits sum.splits)
  with d assms(2,3) show ?thesis
    using from_dashboard_rule_id by blast
qed

section \<open>Raising the percentage\<close>

text \<open>The rules with another percentage, sent without an id.\<close>

definition with_percentage :: "pyval \<Rightarrow> pyval \<Rightarrow> pyval" where
  "with_percentage v raw = (case raw of
       PDict d \<Rightarrow> PDict (dict_set (str ''rollout_percentage'') v (dict_pop (str ''id'') d))
     | w \<Rightarrow> w)"

text \<open>The fields of dashboard rules that evaluation reads.\<close>

definition same_targeting :: "(pstr \<times> pyval) list \<Rightarrow> (pstr \<times> pyval) list \<Rightarrow> bool" where
  "same_targeting d d' =
     ((\<forall>k\<in>{''groups'', ''logical_operator'', ''name''}. dget d' k = dget d k) \<and>
      (\<forall>k\<in>{''groups'', ''logical_operator'', ''rules''}. has_key d' k = has_key d k))"

lemma from_dashboard_rules:
  assumes "from_dashboard E d = Inr rs" and "stored_rule_id E (PDict d) = Some i"
    and "rollout_percentage_of E (dget d ''rollout_percentage'') = Inr p"
  obtains raw converted where "iter_or_empty (dget d ''groups'') = Inr raw"
    "etraverse (convert_group E) raw = Inr converted"
    "rs = (if List.map_filter (\<lambda>g. g) converted = [] then \<lparr>rules = [], default_rule = None\<rparr>
       else \<lparr>rules = [\<lparr>rule_id = i,
               rule = RuleGroup (logical_operator_of E (dget d ''logical_operator'')) [] (List.map_filter (\<lambda>g. g) converted),
               rollout_percentage = p, priority = 0\<rparr>], default_rule = None\<rparr>)"
    "List.map_filter (\<lambda>g. g) converted = [] \<or> is_str (dget d ''name'') \<or> dget d ''name'' = PNone"
proof -
  obtain raw converted where raw: "iter_or_empty (dget d ''groups'') = Inr raw"
    "etraverse (convert_group E) raw = Inr converted"
    using assms(1) by (auto simp: from_dashboard_def exc_rules)
  have "py_str E (or_default (dget d ''id'') (PStr DASHBOARD_RULE_ID)) = i"
    using assms(2) by (auto simp: stored_rule_id_def or_default_def split: if_splits)
  then have "rs = (if List.map_filter (\<lambda>g. g) converted = [] then \<lparr>rules = [], default_rule = None\<rparr>
       else \<lparr>rules = [\<lparr>rule_id = i,
               rule = RuleGroup (logical_operator_of E (dget d ''logical_operator'')) [] (List.map_filter (\<lambda>g. g) converted),
               rollout_percentage = p, priority = 0\<rparr>], default_rule = None\<rparr>) \<and>
     (List.map_filter (\<lambda>g. g) converted = [] \<or> is_str (dget d ''name'') \<or> dget d ''name'' = PNone)"
    using assms(1) by (simp add: from_dashboard_def raw assms(3) Let_def split: if_splits)
  with that raw show ?thesis by blast
qed

lemma from_dashboard_percentage:
  assumes "same_targeting d d'" and "from_dashboard E d = Inr rs"
    and "stored_rule_id E (PDict d) = Some i" "stored_rule_id E (PDict d') = Some i"
    and "rollout_percentage_of E (dget d ''rollout_percentage'') = Inr p"
    and "rollout_percentage_of E (dget d' ''rollout_percentage'') = Inr q"
  shows "rs = \<lparr>rules = [], default_rule = None\<rparr> \<and> from_dashboard E d' = Inr rs \<or>
    (\<exists>r. rollout_percentage r = p \<and> rs = \<lparr>rules = [r], default_rule = None\<rparr> \<and>
       from_dashboard E d' = Inr \<lparr>rules = [r\<lparr>rollout_percentage := q\<rparr>], default_rule = None\<rparr>)"
  using assms(2,3,5)
proof (rule from_dashboard_rules)
  fix raw converted
  assume raw: "iter_or_empty (dget d ''groups'') = Inr raw" "etraverse (convert_group E) raw = Inr converted"
    and rs: "rs = (if List.map_filter (\<lambda>g. g) converted = [] then \<lparr>rules = [], default_rule = None\<rparr>
       else \<lparr>rules = [\<lparr>rule_id = i,
               rule = RuleGroup (logical_operator_of E (dget d ''logical_operator'')) [] (List.map_filter (\<lambda>g. g) converted),
               rollout_percentage = p, priority = 0\<rparr>], default_rule = None\<rparr>)"
    and name: "List.map_filter (\<lambda>g. g) converted = [] \<or> is_str (dget d ''name'') \<or> dget d ''name'' = PNone"
  have same: "dget d' ''groups'' = dget d ''groups''" "dget d' ''logical_operator'' = dget d ''logical_operator''"
    "dget d' ''name'' = dget d ''name''"
    using assms(1) by (simp_all add: same_targeting_def)
  have "py_str E (or_default (dget d' ''id'') (PStr DASHBOARD_RULE_ID)) = i"
    using assms(4) by (auto simp: stored_rule_id_def or_default_def split: if_splits)
  then show ?thesis
    using rs name by (cases "List.map_filter (\<lambda>g. g) converted = []")
      (auto simp: from_dashboard_def same raw assms(6) Let_def)
qed

text \<open>One rule at a time: the percentage only decides who is included.\<close>

lemma included_raised:
  assumes "should_include_in_rollout E r ctx = Inr True" and "rollout_percentage r \<le> q" and "q \<le> 100"
    and "0 \<le> rollout_percentage r"
  shows "should_include_in_rollout E (r\<lparr>rollout_percentage := q\<rparr>) ctx = Inr True"
proof (cases "rollout_percentage r = 100 \<or> q = 100")
  case True
  with assms show ?thesis by (auto simp: should_include_in_rollout_def)
next
  case False
  with assms show ?thesis
    by (auto simp: should_include_in_rollout_def exc_rules split: if_splits)
qed

lemma one_rule_matched:
  "evaluate_targeting_rules_enhanced E \<lparr>rules = [r], default_rule = None\<rparr> ctx = Inr (Some m) \<longleftrightarrow>
     m = r \<and> evaluate_rule_group_enhanced E (rule r) ctx = Inr True \<and> should_include_in_rollout E r ctx = Inr True"
  by (auto simp: evaluate_targeting_rules_enhanced_def exc_rules split: if_splits option.splits)

lemma one_rule_raised:
  assumes "evaluate_rules_with_validation E \<lparr>rules = [r], default_rule = None\<rparr> ctx = Inr (Some m)"
    and "rollout_percentage r \<le> q" and "q \<le> 100" and "0 \<le> rollout_percentage r"
  shows "evaluate_rules_with_validation E \<lparr>rules = [r\<lparr>rollout_percentage := q\<rparr>], default_rule = None\<rparr> ctx =
    Inr (Some (r\<lparr>rollout_percentage := q\<rparr>))"
proof -
  have "evaluate_targeting_rules_enhanced E \<lparr>rules = [r], default_rule = None\<rparr> ctx = Inr (Some m)"
    using assms(1) by (auto simp: evaluate_rules_with_validation_def split: sum.splits exc.splits)
  then have matched: "evaluate_rule_group_enhanced E (rule r) ctx = Inr True"
    and included: "should_include_in_rollout E r ctx = Inr True"
    by (simp_all add: one_rule_matched)
  have "evaluate_targeting_rules_enhanced E \<lparr>rules = [r\<lparr>rollout_percentage := q\<rparr>], default_rule = None\<rparr> ctx =
      Inr (Some (r\<lparr>rollout_percentage := q\<rparr>))"
    using matched included_raised [OF included assms(2-4)] by (simp add: one_rule_matched)
  then show ?thesis by (simp add: evaluate_rules_with_validation_def)
qed

lemma segment_ids_percentage:
  "segment_ids_in \<lparr>rules = [r\<lparr>rollout_percentage := q\<rparr>], default_rule = None\<rparr> =
   segment_ids_in \<lparr>rules = [r], default_rule = None\<rparr>"
  by (simp add: segment_ids_in_def segment_conditions_def rule_roots_def)

lemma experiment_rules_raised:
  assumes "coerce_targeting_rules E raw = Inr (Some \<lparr>rules = [r], default_rule = None\<rparr>)"
    and "coerce_targeting_rules E raw' = Inr (Some \<lparr>rules = [r\<lparr>rollout_percentage := q\<rparr>], default_rule = None\<rparr>)"
    and "evaluate_experiment_rules E validate db raw user_id ctx = Inr True"
    and "rollout_percentage r \<le> q" and "q \<le> 100" and "0 \<le> rollout_percentage r"
  shows "evaluate_experiment_rules E validate db raw' user_id ctx = Inr True"
proof -
  obtain m rule' where m: "evaluate_rules_with_validation E \<lparr>rules = [r], default_rule = None\<rparr>
      (with_memberships ctx m) = Inr (Some rule')"
    and members: "(if segment_ids_in \<lparr>rules = [r], default_rule = None\<rparr> = [] then Inr None
        else ebind (resolve_segment_memberships E validate db user_id ctx (segment_ids_in \<lparr>rules = [r], default_rule = None\<rparr>)) (\<lambda>ms.
          if undecided ms (segment_ids_in \<lparr>rules = [r], default_rule = None\<rparr>) \<noteq> []
          then Inl (SegmentMembershipUnavailable (undecided ms (segment_ids_in \<lparr>rules = [r], default_rule = None\<rparr>)))
          else Inr (Some (members ms)))) = Inr m"
    using assms(3) by (auto simp: evaluate_experiment_rules_def assms(1) exc_rules Let_def)
  show ?thesis
    using members one_rule_raised [OF m assms(4-6)]
    by (simp add: evaluate_experiment_rules_def assms(2) segment_ids_percentage Let_def)
qed

text \<open>What evaluation reads of stored dashboard rules, and an exception of their conversion.\<close>

lemma from_dashboard_raises:
  assumes "same_targeting d d'" and "from_dashboard E d = Inl err"
    and "rollout_percentage_of E (dget d ''rollout_percentage'') = Inr p"
    and "rollout_percentage_of E (dget d' ''rollout_percentage'') = Inr q"
  shows "from_dashboard E d' = Inl err"
proof -
  have same: "dget d' ''groups'' = dget d ''groups''" "dget d' ''name'' = dget d ''name''"
    using assms(1) by (simp_all add: same_targeting_def)
  show ?thesis
    using assms(2) by (auto simp: from_dashboard_def same assms(3,4) Let_def exc_rules split: if_splits)
qed

lemma coerce_dashboard:
  assumes "is_dashboard_rules_shape d" and "has_key d ''groups''"
  shows "coerce_targeting_rules E (PDict d) =
    ebind (rescue [TargetingRuleShapeError, ValidationError, PyTypeError] (Inr None) (emap Some (from_dashboard E d)))
      (\<lambda>native. Inr (case native of None \<Rightarrow> None
        | Some rs \<Rightarrow> if rules rs = [] \<and> default_rule rs = None then None else Some rs))"
proof -
  have "d \<noteq> []" using assms(2) by (auto simp: has_key_def)
  with assms show ?thesis
    by (simp add: coerce_targeting_rules_def coerce_dict_def normalise_targeting_rules_def)
qed

lemma dashboard_raised:
  assumes "same_targeting d d'" and "is_dashboard_rules_shape d" and "has_key d ''groups''"
    and "stored_rule_id E (PDict d) = Some i" "stored_rule_id E (PDict d') = Some i"
    and "rollout_percentage_of E (dget d ''rollout_percentage'') = Inr p"
    and "rollout_percentage_of E (dget d' ''rollout_percentage'') = Inr q" and "p \<le> q"
    and "evaluate_experiment_rules E validate db (PDict d) user_id ctx = Inr True"
  shows "evaluate_experiment_rules E validate db (PDict d') user_id ctx = Inr True"
proof -
  have shape: "is_dashboard_rules_shape d'" "has_key d' ''groups''"
    using assms(1-3) by (auto simp: same_targeting_def is_dashboard_rules_shape_def)
  note coerce = coerce_dashboard [OF assms(2,3), of E] coerce_dashboard [OF shape, of E]
  have unchanged: "coerce_targeting_rules E (PDict d') = coerce_targeting_rules E (PDict d) \<Longrightarrow> ?thesis"
    using assms(9) by (simp add: evaluate_experiment_rules_def)
  show ?thesis
  proof (cases "from_dashboard E d")
    case (Inl err)
    then show ?thesis
      using from_dashboard_raises [OF assms(1) _ assms(6,7)] coerce unchanged by simp
  next
    case (Inr rs)
    from from_dashboard_percentage [OF assms(1) Inr assms(4-7)] show ?thesis
    proof (elim disjE exE conjE)
      assume "from_dashboard E d' = Inr rs"
      with Inr coerce unchanged show ?thesis by simp
    next
      fix r assume r: "rollout_percentage r = p" "rs = \<lparr>rules = [r], default_rule = None\<rparr>"
        and raised: "from_dashboard E d' = Inr \<lparr>rules = [r\<lparr>rollout_percentage := q\<rparr>], default_rule = None\<rparr>"
      have "coerce_targeting_rules E (PDict d) = Inr (Some \<lparr>rules = [r], default_rule = None\<rparr>)"
        unfolding coerce(1) Inr r(2) by simp
      moreover have "coerce_targeting_rules E (PDict d') =
          Inr (Some \<lparr>rules = [r\<lparr>rollout_percentage := q\<rparr>], default_rule = None\<rparr>)"
        unfolding coerce(2) raised by simp
      ultimately show ?thesis
        using assms(9) by (rule experiment_rules_raised)
          (use rollout_percentage_of_range [OF assms(6)] rollout_percentage_of_range [OF assms(7)] assms(8) r(1) in simp_all)
    qed
  qed
qed

section \<open>A paused experiment\<close>

lemma paused_raise:
  assumes "update_experiment E superuser u e = Inr e'" and "sent_rules u = Some (with_percentage v (experiment_rules e))"
    and "stored_rule_id E (experiment_rules e) = Some i" and "i \<noteq> []"
    and "experiment_rules e = PDict d" and "truthy (dget d ''groups'')"
    and "rollout_percentage_of E (dget d ''rollout_percentage'') = Inr p"
    and "rollout_percentage_of E v = Inr q" and "p \<le> q"
    and "experiment_targeting E validate db (experiment_rules e) user_id ctx"
  shows "experiment_targeting E validate db (experiment_rules e') user_id ctx"
proof -
  let ?sent = "dict_set (str ''rollout_percentage'') v (dict_pop (str ''id'') d)"
  let ?new = "dict_set (str ''id'') (PStr i) ?sent"
  have shape: "is_dashboard_rules_shape d" "stored_rule_id E (PDict d) = Some i"
    using assms(3,5) by (auto simp: stored_rule_id_def split: if_splits)
  have groups: "has_key d ''groups''" using assms(6) by (auto simp: has_key_def dget_def split: option.splits)
  have "is_dashboard_rules_shape ?sent" "truthy (dget ?sent ''groups'')" "stored_rule_id E (PDict ?sent) = None"
    using shape(1) assms(6) by (simp_all add: is_dashboard_rules_shape_def has_key_dict_set has_key_dict_pop
        dget_dict_set dget_dict_pop stored_rule_id_def)
  then have "rules_with_rule_id E e (PDict ?sent) = Inr (PDict ?new)"
    using assms(3) by (simp add: rules_with_rule_id_def with_rule_id_def)
  moreover have "with_percentage v (experiment_rules e) = PDict ?sent"
    by (simp add: with_percentage_def assms(5))
  ultimately have new: "experiment_rules e' = PDict ?new"
    using assms(1,2) by (auto elim!: update_experimentE)
  have same: "same_targeting d ?new"
    by (simp add: same_targeting_def dget_dict_set dget_dict_pop has_key_dict_set has_key_dict_pop)
  then have "is_dashboard_rules_shape ?new"
    using shape(1) by (auto simp: same_targeting_def is_dashboard_rules_shape_def)
  then have stored: "stored_rule_id E (PDict ?new) = Some i"
    using assms(4) by (simp add: stored_rule_id_def dget_dict_set)
  have q: "rollout_percentage_of E (dget ?new ''rollout_percentage'') = Inr q"
    using assms(8) by (simp add: dget_dict_set)
  have "truthy (experiment_rules e)" using groups assms(5) by (auto simp: has_key_def)
  then have "evaluate_experiment_rules E validate db (PDict d) user_id ctx = Inr True"
    using assms(5,10) by (auto simp: experiment_targeting_def rescue_all_def split: sum.splits)
  then have "evaluate_experiment_rules E validate db (PDict ?new) user_id ctx = Inr True"
    by (rule dashboard_raised [OF same shape(1) groups shape(2) stored assms(7) q assms(9)])
  then show ?thesis
    by (simp add: new experiment_targeting_def)
qed

lemma reachable_raise:
  assumes "lifecycle_inv E db" and "repr_ok E" and "e \<in> set (experiment_rows db)" and "experiment_status e = ExpPaused"
    and "experiment_rules e = PDict d" and "rollout_percentage_of E (dget d ''rollout_percentage'') = Inr p"
    and "buckets_on_rule_id E (experiment_rules e) = Inr True"
    and "update_experiment E superuser u e = Inr e'" and "sent_rules u = Some (with_percentage v (experiment_rules e))"
    and "rollout_percentage_of E v = Inr q" and "p \<le> q"
    and "experiment_targeting E validate segs (experiment_rules e) user_id ctx"
  shows "experiment_targeting E validate segs (experiment_rules e') user_id ctx"
proof -
  obtain i where i: "stored_rule_id E (experiment_rules e) = Some i"
    using lifecycle_rows(1) [OF assms(1,3)] assms(4,7) by (auto simp: row_inv_def is_running_def)
  have groups: "truthy (dget d ''groups'')" using buckets_dashboard [OF assms(7)] assms(5) by simp
  show ?thesis
    by (rule paused_raise [OF assms(8,9) i stored_rule_id_nonempty [OF assms(2) i] assms(5) groups assms(6,10,11,12)])
qed

end
