(* ===== verification/Concrete_Lifecycle.thy ===== *)
theory Concrete_Lifecycle
  imports Concrete_App Experiment_Admission
begin

text \<open>
  A concrete experiment from its creation to its end: half of the users a dashboard rule matches,
  two arms, one metric.
\<close>

definition demo_partial_fields :: "int \<Rightarrow> (pstr \<times> pyval) list" where
  "demo_partial_fields p =
     [(str ''groups'', PList [demo_stored_group]), (str ''rollout_percentage'', PInt p)]"

lemma demo_group_has_conditions: "case demo_stored_group of PDict g \<Rightarrow> truthy (dget g ''conditions'') | _ \<Rightarrow> False"
  by (simp add: demo_stored_group_def dget_def)

definition demo_partial :: pyval where
  "demo_partial = PDict (demo_partial_fields 50)"

definition demo_arms :: "variant list" where
  "demo_arms = [\<lparr>variant_id = str ''control'', is_control = True, traffic_allocation = 50\<rparr>,
                \<lparr>variant_id = str ''treatment'', is_control = False, traffic_allocation = 50\<rparr>]"

definition demo_metric :: experiment_metric where
  "demo_metric = \<lparr>metric_name = str ''m'', metric_event = str ''buy'', metric_primary = True\<rparr>"

definition demo_create :: "variant list \<Rightarrow> experiment_create" where
  "demo_create vs =
     \<lparr>draft_name = str ''Test'', draft_key = Some (str ''my-flag''), draft_kind = TypeAB, draft_status = ExpDraft,
      draft_rules = demo_partial, draft_variants = vs, draft_metrics = [demo_metric]\<rparr>"

definition demo_draft :: "variant list \<Rightarrow> int option \<Rightarrow> int option \<Rightarrow> stored_experiment" where
  "demo_draft vs s f =
     \<lparr>experiment_id = str ''e1'', experiment_key = Some (str ''my-flag''), experiment_status = ExpDraft,
      exclusion_group_id = None, experiment_rules = demo_partial, variants = vs,
      experiment_name = str ''Test'', experiment_kind = TypeAB, start_date = s, end_date = f,
      resume_at = None, metric_definitions = [demo_metric]\<rparr>"

definition demo_started_rules :: pyval where
  "demo_started_rules = with_rule_id (str ''e1'') demo_partial"

definition demo_started :: "experiment_status \<Rightarrow> int option \<Rightarrow> stored_experiment" where
  "demo_started st f =
     (demo_draft demo_arms (Some 5) f)\<lparr>experiment_rules := demo_started_rules, experiment_status := st\<rparr>"

definition demo_state :: "int \<Rightarrow> stored_experiment list \<Rightarrow> lifecycle_db" where
  "demo_state now es = \<lparr>lifecycle_now = now, experiment_rows = es\<rparr>"

lemma demo_repr_ok: "repr_ok demo_env"
  by (simp add: repr_ok_def demo_env_def)

lemma demo_state_fields [simp]:
  "lifecycle_now (demo_state now es) = now" "experiment_rows (demo_state now es) = es"
  "(demo_state now es)\<lparr>experiment_rows := fs\<rparr> = demo_state now fs"
  "(demo_state now es)\<lparr>lifecycle_now := later\<rparr> = demo_state later es"
  by (simp_all add: demo_state_def)

lemma int_percentage:
  assumes "0 \<le> p" and "p \<le> 100"
  shows "rollout_percentage_of E (PInt p) = Inr p"
proof -
  have "float_of_int p = Some (Fin (of_int p))"
    using assms by (simp add: float_of_int_def fl_of_int_exact)
  with assms show ?thesis by (simp add: rollout_percentage_of_def trunc_rat_def)
qed

lemma demo_buckets: "buckets_on_rule_id demo_env demo_partial = Inr True"
  by (simp add: demo_partial_def demo_partial_fields_def buckets_on_rule_id_def is_dashboard_rules_shape_def
      has_key_def int_percentage demo_group_has_conditions) (simp add: dget_def int_percentage)

lemma demo_no_id: "stored_rule_id demo_env demo_partial = None"
  by (simp add: demo_partial_def demo_partial_fields_def stored_rule_id_def dget_def)

lemma demo_stamped: "stored_rule_id demo_env demo_started_rules = Some (str ''e1'')"
  by (simp add: demo_started_rules_def demo_partial_def demo_partial_fields_def with_rule_id_def
      stored_rule_id_def dget_def is_dashboard_rules_shape_def has_key_def) (simp add: str_def)

lemma demo_inv_empty: "lifecycle_inv demo_env (demo_state now [])"
  by (simp add: lifecycle_inv_def table_constraints_def stored_keys_def List.map_filter_def)

lemma one_row_table: "experiment_row_ok e \<Longrightarrow> table_constraints [e]"
  by (simp add: table_constraints_def stored_keys_def List.map_filter_def)

lemma demo_row_ok:
  "dates_ok (demo_draft demo_arms s f) \<Longrightarrow> experiment_row_ok (demo_draft demo_arms s f)"
  "dates_ok (demo_started st f) \<Longrightarrow> experiment_row_ok (demo_started st f)"
  by (simp_all add: experiment_row_ok_def demo_draft_def demo_started_def demo_arms_def demo_metric_def dates_ok_def)
    (simp_all add: str_def)

text \<open>Its life.\<close>

lemma demo_arms_ok: "variants_refusal demo_arms = None"
  by (simp add: variants_refusal_def demo_arms_def)

lemma demo_created:
  "create_experiment (str ''e1'') [] (demo_create demo_arms) [] = Inr [demo_draft demo_arms None None]"
proof -
  have "valid_key (str ''my-flag'')" by (simp add: valid_key_def str_def key_char_def)
  moreover have "str ''Test'' \<noteq> []" "length (str ''Test'') \<le> 100" "demo_arms \<noteq> []"
    by (simp_all add: str_def demo_arms_def)
  ultimately have "create_refusal (demo_create demo_arms) = None"
    by (simp add: create_refusal_def demo_create_def demo_arms_ok)
  moreover have "table_constraints [demo_draft demo_arms None None]"
    by (rule one_row_table [OF demo_row_ok(1)]) (simp add: dates_ok_def demo_draft_def)
  ultimately show ?thesis
    by (simp add: create_experiment_def Let_def) (simp add: demo_create_def demo_draft_def)
qed

lemma demo_start:
  "start_experiment demo_env 5 (demo_draft demo_arms None None) = Inr (demo_started ExpActive None)"
proof -
  have "stamp_rollout_rule_id demo_env (demo_draft demo_arms None None) ExpDraft =
      Inr ((demo_draft demo_arms None None)\<lparr>experiment_rules := demo_started_rules\<rparr>)"
    by (simp add: stamp_rollout_rule_id_def demo_draft_def demo_buckets demo_no_id demo_started_rules_def)
  moreover have "start_refusal (demo_draft demo_arms None None) = None"
    by (simp add: start_refusal_def demo_draft_def demo_arms_def)
  ultimately show ?thesis
    by (simp add: start_experiment_def) (simp add: demo_draft_def demo_started_def kept_start_date_def set_experiment_status_def)
qed

lemma demo_pause: "pause_experiment (demo_started ExpActive None) = Inr (demo_started ExpPaused None)"
  by (simp add: pause_experiment_def demo_started_def demo_draft_def set_experiment_status_def)

lemma demo_complete: "complete_experiment 9 (demo_started ExpPaused None) = Inr (demo_started ExpCompleted (Some 9))"
  by (simp add: complete_experiment_def demo_started_def demo_draft_def set_experiment_status_def record_end_date_def)

text \<open>A request on a table of one row.\<close>

lemma demo_one_request:
  assumes "handle_request E now req e = Inr e'" and "experiment_id e = str ''e1''" "experiment_id e' = str ''e1''"
    and "table_constraints [e']"
  shows "lifecycle_step E (demo_state now [e]) (demo_state now [e'])"
  using lifecycle_step.request [of "str ''e1''" E "demo_state now [e]" req "[e']"] assms
  by (simp add: change_experiment_def put_experiment_def)

lemma demo_id [simp]: "experiment_id (demo_draft vs s f) = str ''e1''" "experiment_id (demo_started st f) = str ''e1''"
  by (simp_all add: demo_draft_def demo_started_def)

lemma demo_started_table: "(case f of None \<Rightarrow> True | Some b \<Rightarrow> 5 < b) \<Longrightarrow> table_constraints [demo_started st f]"
  by (rule one_row_table [OF demo_row_ok(2)]) (simp add: dates_ok_def demo_started_def demo_draft_def)

lemma demo_run_active: "reach (lifecycle_step demo_env) (demo_state 5 []) (demo_state 5 [demo_started ExpActive None])"
proof -
  have "lifecycle_step demo_env (demo_state 5 []) (demo_state 5 [demo_draft demo_arms None None])"
    using lifecycle_step.created [of _ _ _ "demo_state 5 []"] demo_created by simp
  moreover have "lifecycle_step demo_env (demo_state 5 [demo_draft demo_arms None None])
      (demo_state 5 [demo_started ExpActive None])"
    by (rule demo_one_request [where req = RequestStart]) (simp_all add: demo_start demo_started_table)
  ultimately show ?thesis by (meson reach_step reach_next)
qed

lemma demo_run_completed:
  "reach (lifecycle_step demo_env) (demo_state 5 [demo_started ExpActive None]) (demo_state 9 [demo_started ExpCompleted (Some 9)])"
proof -
  have "lifecycle_step demo_env (demo_state 5 [demo_started ExpActive None]) (demo_state 5 [demo_started ExpPaused None])"
    by (rule demo_one_request [where req = RequestPause]) (simp_all add: demo_pause demo_started_table)
  moreover have "lifecycle_step demo_env (demo_state 5 [demo_started ExpPaused None]) (demo_state 9 [demo_started ExpPaused None])"
    using lifecycle_step.time_passes [of "demo_state 5 [demo_started ExpPaused None]" 9 demo_env] by simp
  moreover have "lifecycle_step demo_env (demo_state 9 [demo_started ExpPaused None])
      (demo_state 9 [demo_started ExpCompleted (Some 9)])"
    by (rule demo_one_request [where req = RequestComplete]) (simp_all add: demo_complete demo_started_table)
  ultimately show ?thesis by (meson reach_step reach_next)
qed

text \<open>Due at the scheduler's tick, with two arms or with one.\<close>

lemma demo_due: "due_to_activate 7 (demo_draft vs (Some 5) f)"
  by (simp add: due_to_activate_def due_def demo_draft_def)

lemma demo_not_raising: "\<not> raises_on (activate_row demo_env) (demo_draft vs s f)"
  by (simp add: raises_on_def activate_row_def stamp_rollout_rule_id_def demo_draft_def demo_buckets demo_no_id)

lemma demo_draft_table:
  "list_all (\<lambda>v. 0 \<le> traffic_allocation v \<and> traffic_allocation v \<le> 100) vs \<Longrightarrow>
     (case (s, f) of (Some a, Some b) \<Rightarrow> a < b | _ \<Rightarrow> True) \<Longrightarrow> table_constraints [demo_draft vs s f]"
  by (rule one_row_table) (simp add: experiment_row_ok_def demo_draft_def dates_ok_def demo_metric_def str_def)

definition demo_one_arm :: "variant list" where
  "demo_one_arm = [\<lparr>variant_id = str ''control'', is_control = True, traffic_allocation = 100\<rparr>]"

lemma demo_one_arm_refused:
  "start_refusal (demo_draft demo_one_arm s f) = Some TooFewVariants"
  "table_constraints [demo_draft demo_one_arm (Some 5) None]"
  by (simp add: start_refusal_def demo_draft_def demo_one_arm_def)
    (rule demo_draft_table, simp_all add: demo_one_arm_def)

section \<open>A paused experiment whose percentage is raised\<close>

definition demo_keyed :: "int \<Rightarrow> pyval" where
  "demo_keyed p = with_rule_id (str ''my-flag'') (PDict (demo_partial_fields p))"

definition demo_paused :: stored_experiment where
  "demo_paused = (demo_started ExpPaused None)\<lparr>experiment_rules := demo_keyed 80\<rparr>"

definition demo_raise :: experiment_update where
  "demo_raise =
     \<lparr>sent_name = None, sent_kind = None, sent_status = None,
      sent_rules = Some (with_percentage (PInt 90) (demo_keyed 80)), sent_variants = None, sent_metrics = None,
      sent_settings = False, sent_other = False\<rparr>"

definition demo_keyed_fields :: "int \<Rightarrow> (pstr \<times> pyval) list" where
  "demo_keyed_fields p = dict_set (str ''id'') (PStr (str ''my-flag'')) (demo_partial_fields p)"

lemma demo_keyed_eq: "demo_keyed p = PDict (demo_keyed_fields p)"
  by (simp add: demo_keyed_def with_rule_id_def demo_keyed_fields_def)

lemma demo_keyed_get:
  "dget (demo_keyed_fields p) ''groups'' = dget (demo_partial_fields 50) ''groups''"
  "dget (demo_keyed_fields p) ''rollout_percentage'' = PInt p"
  "dget (demo_keyed_fields p) ''id'' = PStr (str ''my-flag'')"
  "dget (demo_keyed_fields p) ''logical_operator'' = PNone" "dget (demo_keyed_fields p) ''name'' = PNone"
  "truthy (dget (demo_keyed_fields p) ''groups'')" "is_dashboard_rules_shape (demo_keyed_fields p)"
  "has_key (demo_keyed_fields p) ''groups''" "demo_keyed_fields p \<noteq> []"
  by (simp_all add: demo_keyed_fields_def dget_dict_set is_dashboard_rules_shape_def has_key_dict_set
      demo_partial_fields_def dget_def has_key_def)

lemma demo_keyed_id: "stored_rule_id E (demo_keyed p) = Some (str ''my-flag'')"
  using demo_keyed_get by (simp add: demo_keyed_eq stored_rule_id_def) (simp add: str_def)

lemma demo_raised: "\<exists>e'. update_experiment demo_env False demo_raise demo_paused = Inr e'"
proof -
  have "update_invalid demo_raise = None" "sent_field (sent_variants demo_raise) = None"
    by (simp_all add: update_invalid_def demo_raise_def sent_field_def)
  moreover have "update_refusal False demo_raise demo_paused = None"
    by (simp add: update_refusal_def demo_raise_def demo_paused_def demo_started_def only_targeting_def Let_def)
  moreover have "\<exists>r. rules_with_rule_id demo_env demo_paused new = Inr r" for new
    using demo_keyed_id [of demo_env 80]
    by (auto simp: rules_with_rule_id_def demo_paused_def split: pyval.split)
  ultimately show ?thesis
    by (auto simp: update_experiment_def exc_rules demo_raise_def intro!: exI)
qed

text \<open>A user of bucket 79 is admitted at eighty percent.\<close>

definition demo_keyed_rule :: "int \<Rightarrow> targeting_rule" where
  "demo_keyed_rule p =
     \<lparr>rule_id = str ''my-flag'', rule = RuleGroup AND [] [RuleGroup AND [demo_condition EQUALS ''country'' ''US''] []],
      rollout_percentage = p, priority = 0\<rparr>"

definition demo_user_ctx :: user_context where
  "demo_user_ctx = [(str ''country'', PStr (str ''US'')), (str ''user_id'', PStr (str ''user-123''))]"

lemma demo_keyed_coerced:
  assumes "0 \<le> p" and "p \<le> 100"
  shows "coerce_targeting_rules demo_env (demo_keyed p) = Inr (Some \<lparr>rules = [demo_keyed_rule p], default_rule = None\<rparr>)"
proof -
  have "dget (demo_keyed_fields p) ''groups'' = PList [demo_stored_group]"
    unfolding demo_keyed_get(1) by (simp add: demo_partial_fields_def dget_def)
  moreover have "str ''my-flag'' \<noteq> []" by (simp add: str_def)
  ultimately have "from_dashboard demo_env (demo_keyed_fields p) = Inr \<lparr>rules = [demo_keyed_rule p], default_rule = None\<rparr>"
    by (simp add: from_dashboard_def iter_or_empty_def demo_group_converted demo_keyed_get(2-5) or_default_def
        demo_default_operator int_percentage [OF assms] demo_keyed_rule_def List.map_filter_def)
  then show ?thesis
    by (simp add: demo_keyed_eq coerce_dashboard [OF demo_keyed_get(7,8)])
qed

lemma demo_keyed_matched:
  "evaluate_targeting_rules_enhanced demo_env \<lparr>rules = [demo_keyed_rule 80], default_rule = None\<rparr>
     (with_memberships demo_user_ctx None) = Inr (Some (demo_keyed_rule 80))"
proof -
  let ?ctx = "with_memberships demo_user_ctx None"
  have ctx: "map_of ?ctx (str ''country'') = Some (PStr (str ''US''))"
    "map_of ?ctx (str ''user_id'') = Some (PStr (str ''user-123''))"
    by (simp_all add: with_memberships_def demo_user_ctx_def SEGMENT_MEMBERSHIP_KEY_def)
  have "evaluate_condition_enhanced demo_env (demo_condition EQUALS ''country'' ''US'') ?ctx = Inr True"
    using ctx(1) by (simp add: evaluate_condition_enhanced_def demo_condition_def segment_condition_holds_def
        is_segment_operator_def apply_operator_enhanced_def apply_operator_def op_equals_def values_equal_def is_scalar_def)
  then have "evaluate_rule_group_enhanced demo_env (rule (demo_keyed_rule 80)) ?ctx = Inr True"
    by (simp add: demo_keyed_rule_def combine_enhanced_def)
  moreover have "get_stable_user_id demo_env ?ctx = Inr (str ''user-123'')"
    using ctx(2) by (simp add: get_stable_user_id_def USER_ID_FIELDS_def dget_def) (simp add: str_def)
  then have "should_include_in_rollout demo_env (demo_keyed_rule 80) ?ctx = Inr True"
    by (simp add: should_include_in_rollout_def demo_keyed_rule_def golden_seed golden_int)
  ultimately show ?thesis by (simp add: one_rule_matched)
qed

lemma demo_admitted:
  "experiment_targeting demo_env no_rules demo_db (demo_keyed 80) (str ''user-123'') demo_user_ctx"
proof -
  have "segment_ids_in \<lparr>rules = [demo_keyed_rule 80], default_rule = None\<rparr> = []"
    by (simp add: segment_ids_in_def segment_conditions_def rule_roots_def demo_keyed_rule_def demo_condition_def
        is_segment_operator_def)
  then have "evaluate_experiment_rules demo_env no_rules demo_db (demo_keyed 80) (str ''user-123'') demo_user_ctx = Inr True"
    by (simp add: evaluate_experiment_rules_def demo_keyed_coerced demo_keyed_matched evaluate_rules_with_validation_def)
  then show ?thesis by (simp add: experiment_targeting_def)
qed

lemma demo_paused_admits:
  "experiment_targeting demo_env no_rules demo_db (experiment_rules demo_paused) (str ''user-123'') demo_user_ctx"
  using demo_admitted by (simp add: demo_paused_def)

lemma demo_paused_buckets: "buckets_on_rule_id demo_env (experiment_rules demo_paused) = Inr True"
proof -
  have "buckets_on_rule_id demo_env (PDict (demo_partial_fields 80)) = Inr True"
    by (simp add: demo_partial_fields_def buckets_on_rule_id_def is_dashboard_rules_shape_def
        has_key_def demo_group_has_conditions) (simp add: dget_def int_percentage)
  then show ?thesis by (simp add: demo_paused_def demo_keyed_def)
qed

lemma demo_paused_inv: "lifecycle_inv demo_env (demo_state 5 [demo_paused])"
proof -
  have "experiment_row_ok demo_paused"
    by (simp add: experiment_row_ok_def demo_paused_def demo_started_def demo_draft_def demo_arms_def demo_metric_def dates_ok_def)
      (simp add: str_def)
  moreover have "row_inv demo_env 5 demo_paused"
    using demo_keyed_id [of demo_env 80] demo_arms_ok
    by (simp add: row_inv_def demo_paused_def demo_started_def demo_draft_def)
  ultimately show ?thesis
    using one_row_table by (simp add: lifecycle_inv_def)
qed

end
