(* ===== verification/Sdk_Runtime.thy ===== *)
theory Sdk_Runtime
  imports Sdk_Evaluator Machine
begin

text \<open>
  The Python SDK's local-evaluation runtime, \<^verbatim>\<open>sdk/python/experimentation/local.py\<close>: how the ruleset
  is fetched, kept and discarded, how a flag is answered from it, and how the answers are counted
  and reported. An operation takes the clock readings and the responses it meets as arguments; a
  state change under the lock is one record update. Calls of the \<^verbatim>\<open>report\<close> callback are kept in
  \<open>rt_reports\<close>. Error texts are not modelled: \<open>sdk_error\<close> has one constructor for each place an
  error is made, with the HTTP status where there is one.
\<close>

section \<open>Limits\<close>

definition MIN_REFRESH_INTERVAL_SECONDS :: pyfloat where "MIN_REFRESH_INTERVAL_SECONDS = Fin 5"
definition MAX_BACKOFF_SECONDS :: pyfloat where "MAX_BACKOFF_SECONDS = Fin 300"
definition REFUSED_RETRY_SECONDS :: pyfloat where "REFUSED_RETRY_SECONDS = Fin 600"
definition FLUSH_INTERVAL_SECONDS :: pyfloat where "FLUSH_INTERVAL_SECONDS = Fin 60"
definition MAX_REPORT_ENTRIES :: nat where "MAX_REPORT_ENTRIES = 1000"
definition MAX_ENTRY_COUNT :: nat where "MAX_ENTRY_COUNT = 1000000"
definition MAX_WINDOW_MICROSECONDS :: int where "MAX_WINDOW_MICROSECONDS = 600 * 1000000"

text \<open>\<^verbatim>\<open>max(a, b)\<close> and \<^verbatim>\<open>min(a, b)\<close> on floats: the first argument unless the second is strictly beyond it.\<close>

definition py_max :: "pyfloat \<Rightarrow> pyfloat \<Rightarrow> pyfloat" where "py_max a b = (if flt a b then b else a)"
definition py_min :: "pyfloat \<Rightarrow> pyfloat \<Rightarrow> pyfloat" where "py_min a b = (if flt b a then b else a)"

section \<open>Responses\<close>

text \<open>
  \<^verbatim>\<open>transport.Response\<close>: the headers under their lower-case names; \<open>response_empty\<close>
  when the body has no bytes; \<open>response_json\<close> is the value of
  \<^verbatim>\<open>response.json()\<close>, or what it raises (\<^verbatim>\<open>ValueError\<close> for text that is not JSON, \<^verbatim>\<open>RecursionError\<close> for
  text that nests too deep). The outcome of a request is \<open>None\<close> when \<^verbatim>\<open>send\<close> raised.
\<close>

record http_response =
  response_status :: int
  response_headers :: "(pstr \<times> pstr) list"
  response_empty :: bool
  response_json :: "pyval res"

definition make_response :: "int \<Rightarrow> (pstr \<times> pstr) list \<Rightarrow> bool \<Rightarrow> pyval res \<Rightarrow> http_response" where
  "make_response status headers is_empty body =
     \<lparr>response_status = status,
      response_headers = foldl (\<lambda>table (k, v). dict_set (lower k) v table) [] headers,
      response_empty = is_empty,
      response_json = body\<rparr>"

definition response_header :: "http_response \<Rightarrow> string \<Rightarrow> pstr option" where
  "response_header r name = map_of (response_headers r) (lower (str name))"

definition succeeded_status :: "http_response \<Rightarrow> bool" where
  "succeeded_status r = (200 \<le> response_status r \<and> response_status r < 300)"

datatype sdk_error =
    Request_Failed
  | Unexpected_304
  | Key_Refused int
  | No_Ruleset_Route
  | Http_Failed int
  | Invalid_Json int
  | Unknown_Format int
  | Malformed_Ruleset int
  | Handling_Failed
  | Evaluation_Failed
  | Report_Refused int

datatype sdk_operation = Op_Refresh | Op_Flush | Op_Evaluate

datatype refusal = Refused_Status int | Refused_Format

text \<open>
  \<^verbatim>\<open>_retry_after\<close>: the seconds to wait, from a number or from an HTTP date. \<open>http_date\<close> is
  \<^verbatim>\<open>email.utils.parsedate_to_datetime\<close>, in microseconds of UTC.
\<close>

definition retry_after ::
  "'z pyenv_scheme \<Rightarrow> (pstr \<Rightarrow> int option) \<Rightarrow> int \<Rightarrow> http_response \<Rightarrow> pyfloat option" where
  "retry_after E http_date utc r = (case response_header r ''Retry-After'' of
       None \<Rightarrow> None
     | Some header \<Rightarrow>
         if header = [] then None
         else case float_text E (strip header) of
           Some x \<Rightarrow> Some (py_max x (Fin 0))
         | None \<Rightarrow> map_option (\<lambda>t. py_max (fl (of_int (t - utc) / 10 ^ 6)) (Fin 0)) (http_date header))"

text \<open>\<^verbatim>\<open>_detail\<close>, for its exceptions: it reads the body and catches \<^verbatim>\<open>ValueError\<close> only.\<close>

definition detail_readable :: "http_response \<Rightarrow> unit res" where
  "detail_readable r = rescue [PyValueError] (Inr ()) (emap (\<lambda>_. ()) (response_json r))"

section \<open>The state\<close>

record runtime =
  rt_interval :: pyfloat
  rt_max_stale :: "pyfloat option"
  rt_closed :: bool
  rt_attempted :: bool
  rt_ruleset :: "indexed_ruleset option"
  rt_etag :: "pstr option"
  rt_refreshed :: "pyfloat option"
  rt_refreshed_at :: "int option"
  rt_error :: "sdk_error option"
  rt_failures :: nat
  rt_refusal :: "refusal option"
  rt_jitter :: bool
  rt_tallies :: "(pstr \<times> nat \<times> nat) list"
  rt_window :: "int option"
  rt_reports :: "(sdk_error \<times> sdk_operation) list"

definition new_runtime :: "pyfloat \<Rightarrow> pyfloat option \<Rightarrow> runtime" where
  "new_runtime interval max_stale =
     \<lparr>rt_interval = interval, rt_max_stale = max_stale, rt_closed = False, rt_attempted = False,
      rt_ruleset = None, rt_etag = None, rt_refreshed = None, rt_refreshed_at = None, rt_error = None,
      rt_failures = 0, rt_refusal = None, rt_jitter = False, rt_tallies = [], rt_window = None,
      rt_reports = []\<rparr>"

definition report_error :: "sdk_error \<Rightarrow> sdk_operation \<Rightarrow> runtime \<Rightarrow> runtime" where
  "report_error e op s = s\<lparr>rt_reports := rt_reports s @ [(e, op)]\<rparr>"

text \<open>\<^verbatim>\<open>_reinitialise_after_fork\<close>, in the child: the counts are the parent's to report.\<close>

definition after_fork :: "runtime \<Rightarrow> runtime" where
  "after_fork s = s\<lparr>rt_tallies := [], rt_window := None\<rparr>"

section \<open>The refresh\<close>

definition succeeded :: "pyfloat \<Rightarrow> int \<Rightarrow> runtime \<Rightarrow> runtime \<times> pyfloat res" where
  "succeeded clk utc s =
     (s\<lparr>rt_refreshed := Some clk, rt_refreshed_at := Some utc, rt_error := None, rt_failures := 0,
        rt_refusal := None, rt_jitter := True\<rparr>,
      Inr (rt_interval s))"

text \<open>
  \<^verbatim>\<open>min(self._interval * 2 ** (failures - 1), MAX_BACKOFF_SECONDS)\<close>: the power is an exact integer,
  and the product converts it to a float.
\<close>

definition backoff :: "pyfloat \<Rightarrow> nat \<Rightarrow> pyfloat res" where
  "backoff interval failures = (case float_of_int (2 ^ (failures - 1)) of
       None \<Rightarrow> Inl PyOverflowError
     | Some x \<Rightarrow> Inr (py_min (fmul interval x) MAX_BACKOFF_SECONDS))"

definition transient_failure :: "sdk_error \<Rightarrow> runtime \<Rightarrow> runtime \<times> pyfloat res" where
  "transient_failure e s =
     (report_error e Op_Refresh (s\<lparr>rt_error := Some e, rt_failures := Suc (rt_failures s)\<rparr>),
      backoff (rt_interval s) (Suc (rt_failures s)))"

definition refused :: "refusal \<Rightarrow> sdk_error \<Rightarrow> runtime \<Rightarrow> runtime \<times> pyfloat res" where
  "refused kind e s =
     (let s' = s\<lparr>rt_ruleset := None, rt_etag := None, rt_error := Some e, rt_failures := 0,
                 rt_refusal := Some kind\<rparr>
      in (if rt_refusal s \<noteq> Some kind then report_error e Op_Refresh s' else s',
          Inr REFUSED_RETRY_SECONDS))"

definition quoted_version :: "indexed_ruleset \<Rightarrow> pstr" where
  "quoted_version rs = [34] @ text_of (ruleset_version rs) @ [34]"

definition response_etag :: "http_response \<Rightarrow> indexed_ruleset \<Rightarrow> pstr" where
  "response_etag r rs = (case response_header r ''ETag'' of
       Some tag \<Rightarrow> if tag = [] then quoted_version rs else tag
     | None \<Rightarrow> quoted_version rs)"

definition load_ruleset :: "pyfloat \<Rightarrow> int \<Rightarrow> http_response \<Rightarrow> runtime \<Rightarrow> runtime \<times> pyfloat res" where
  "load_ruleset clk utc r s = (case response_json r of
       Inl e \<Rightarrow>
         if e = PyValueError then transient_failure (Invalid_Json (response_status r)) s else (s, Inl e)
     | Inr body \<Rightarrow>
         if \<not> is_supported_format body then refused Refused_Format (Unknown_Format (response_status r)) s
         else (case index_ruleset body of
             None \<Rightarrow> transient_failure (Malformed_Ruleset (response_status r)) s
           | Some rs \<Rightarrow>
               succeeded clk utc (s\<lparr>rt_ruleset := Some rs, rt_etag := Some (response_etag r rs)\<rparr>)))"

definition handle_response ::
  "'z pyenv_scheme \<Rightarrow> (pstr \<Rightarrow> int option) \<Rightarrow> pyfloat \<Rightarrow> int \<Rightarrow> http_response \<Rightarrow> runtime \<Rightarrow>
     runtime \<times> pyfloat res" where
  "handle_response E http_date clk utc r s =
     (let status = response_status r in
      if status = 304 then
        if rt_ruleset s \<noteq> None then succeeded clk utc s
        else transient_failure Unexpected_304 (s\<lparr>rt_etag := None\<rparr>)
      else if succeeded_status r then load_ruleset clk utc r s
      else if status = 401 \<or> status = 403 then
        (case detail_readable r of
           Inl e \<Rightarrow> (s, Inl e)
         | Inr _ \<Rightarrow> refused (Refused_Status status) (Key_Refused status) s)
      else if status = 404 then refused (Refused_Status 404) No_Ruleset_Route s
      else if status = 429 then
        (report_error (Http_Failed status) Op_Refresh (s\<lparr>rt_error := Some (Http_Failed status)\<rparr>),
         Inr (py_max (case retry_after E http_date utc r of Some w \<Rightarrow> w | None \<Rightarrow> rt_interval s)
           (rt_interval s)))
      else transient_failure (Http_Failed status) s)"

definition request_etag :: "runtime \<Rightarrow> pstr option" where
  "request_etag s = (case rt_etag s of None \<Rightarrow> None | Some tag \<Rightarrow> if tag = [] then None else Some tag)"

definition refresh ::
  "'z pyenv_scheme \<Rightarrow> (pstr \<Rightarrow> int option) \<Rightarrow> pyfloat \<Rightarrow> int \<Rightarrow> http_response option \<Rightarrow> runtime \<Rightarrow>
     runtime \<times> pyfloat res" where
  "refresh E http_date clk utc outcome s = (case outcome of
       None \<Rightarrow> transient_failure Request_Failed s
     | Some r \<Rightarrow>
         if rt_closed s then (s, Inr (rt_interval s))
         else (case handle_response E http_date clk utc r s of
             (s', Inr delay) \<Rightarrow> (s', Inr delay)
           | (s', Inl _) \<Rightarrow> transient_failure Handling_Failed s'))"

definition refresh_once ::
  "'z pyenv_scheme \<Rightarrow> (pstr \<Rightarrow> int option) \<Rightarrow> pyfloat \<Rightarrow> int \<Rightarrow> http_response option \<Rightarrow> runtime \<Rightarrow>
     runtime \<times> pyfloat res" where
  "refresh_once E http_date clk utc outcome s =
     (case refresh E http_date clk utc outcome (s\<lparr>rt_jitter := False\<rparr>) of
        (s', delay) \<Rightarrow> (s'\<lparr>rt_attempted := True\<rparr>, delay))"

section \<open>Answers\<close>

definition usable :: "pyfloat \<Rightarrow> runtime \<Rightarrow> indexed_ruleset option" where
  "usable now s =
     (if rt_closed s \<or> rt_ruleset s = None then None
      else case rt_max_stale s of
        None \<Rightarrow> rt_ruleset s
      | Some limit \<Rightarrow>
          (case rt_refreshed s of
             None \<Rightarrow> None
           | Some at_time \<Rightarrow> if flt limit (fsub now at_time) then None else rt_ruleset s))"

text \<open>
  \<^verbatim>\<open>to_wire_context\<close>. \<open>round_trip\<close> is \<^verbatim>\<open>json.loads(json.dumps(dict(attributes), ...))\<close> on the caller's
  objects; \<open>Inr None\<close> is \<^verbatim>\<open>DEFER\<close> and \<open>Inr (Some None)\<close> a call without a context.
\<close>

definition to_wire_context ::
  "((pstr \<times> 'o) list \<Rightarrow> pyval res) \<Rightarrow> (pstr \<times> 'o) list option \<Rightarrow>
     (pstr \<times> pyval) list option option res" where
  "to_wire_context round_trip attributes = (case attributes of
       None \<Rightarrow> Inr (Some None)
     | Some items \<Rightarrow>
         if items = [] then Inr (Some None)
         else rescue [PyTypeError, PyValueError, PyUnicodeError, PyRecursionError] (Inr None)
           (emap (\<lambda>parsed. case parsed of PDict d \<Rightarrow> Some (Some d) | _ \<Rightarrow> None) (round_trip items)))"

definition bump_tally :: "(pstr \<times> nat \<times> nat) list \<Rightarrow> pstr \<times> bool \<Rightarrow> (pstr \<times> nat \<times> nat) list" where
  "bump_tally tallies answered = (case answered of (key, on) \<Rightarrow>
     (case map_of tallies key of
        None \<Rightarrow> dict_set key (1, if on then 1 else 0) tallies
      | Some (n, m) \<Rightarrow> dict_set key (Suc n, if on then Suc m else m) tallies))"

definition count_answers :: "int \<Rightarrow> (pstr \<times> bool) list \<Rightarrow> runtime \<Rightarrow> runtime" where
  "count_answers utc answers s =
     (if answers = [] then s
      else s\<lparr>rt_window := Some (case rt_window s of None \<Rightarrow> utc | Some t \<Rightarrow> t),
             rt_tallies := foldl bump_tally (rt_tallies s) answers\<rparr>)"

definition answer_flag ::
  "pyfloat \<Rightarrow> int \<Rightarrow> pstr \<Rightarrow> pstr \<Rightarrow> (pstr \<times> pyval) list option option res \<Rightarrow> runtime \<Rightarrow>
     runtime \<times> local_answer option" where
  "answer_flag now utc key user wire s = (case usable now s of
       None \<Rightarrow> (s, None)
     | Some rs \<Rightarrow>
         (case wire of
            Inl _ \<Rightarrow> (report_error Evaluation_Failed Op_Evaluate s, None)
          | Inr None \<Rightarrow> (s, None)
          | Inr (Some ctx) \<Rightarrow>
              (case evaluate_locally rs key user ctx of
                 Inl _ \<Rightarrow> (report_error Evaluation_Failed Op_Evaluate s, None)
               | Inr None \<Rightarrow> (s, None)
               | Inr (Some ans) \<Rightarrow> (count_answers utc [(key, local_enabled ans)] s, Some ans))))"

fun answer_flags ::
  "indexed_ruleset \<Rightarrow> (pstr \<times> (pstr \<times> pyval) list) list \<Rightarrow> pstr \<Rightarrow> (pstr \<times> pyval) list option \<Rightarrow>
     (pstr \<times> bool) list option res" where
  "answer_flags rs [] user ctx = Inr (Some [])"
| "answer_flags rs ((key, flag) # flags) user ctx =
     (if \<not> truthy (dget flag ''active'') then answer_flags rs flags user ctx
      else ebind (evaluate_locally rs key user ctx) (\<lambda>out. case out of
          None \<Rightarrow> Inr None
        | Some ans \<Rightarrow>
            emap (map_option ((#) (key, local_enabled ans))) (answer_flags rs flags user ctx)))"

definition answer_all ::
  "pyfloat \<Rightarrow> int \<Rightarrow> pstr \<Rightarrow> (pstr \<times> pyval) list option option res \<Rightarrow> runtime \<Rightarrow>
     runtime \<times> (pstr \<times> bool) list option" where
  "answer_all now utc user wire s = (case usable now s of
       None \<Rightarrow> (s, None)
     | Some rs \<Rightarrow>
         (case wire of
            Inl _ \<Rightarrow> (report_error Evaluation_Failed Op_Evaluate s, None)
          | Inr None \<Rightarrow> (s, None)
          | Inr (Some ctx) \<Rightarrow>
              (case answer_flags rs (ruleset_flags rs) user ctx of
                 Inl _ \<Rightarrow> (report_error Evaluation_Failed Op_Evaluate s, None)
               | Inr None \<Rightarrow> (s, None)
               | Inr (Some flags) \<Rightarrow> (count_answers utc flags s, Some flags))))"

text \<open>\<^verbatim>\<open>ready\<close>, once its wait is over, and the two fields of \<^verbatim>\<open>status\<close> that are computed.\<close>

definition ready_version :: "pyfloat \<Rightarrow> runtime \<Rightarrow> pstr option" where
  "ready_version now s = map_option (\<lambda>rs. text_of (ruleset_version rs)) (usable now s)"

definition server_evaluated_flags :: "runtime \<Rightarrow> pstr list" where
  "server_evaluated_flags s = (case rt_ruleset s of
       None \<Rightarrow> []
     | Some rs \<Rightarrow> sort (map fst (filter (\<lambda>(key, flag). truthy (dget flag ''active'') \<and>
           dget flag ''evaluation'' \<noteq> PStr (str ''local'')) (ruleset_flags rs))))"

section \<open>Reports of counts\<close>

record count_entry =
  ce_key :: pstr
  ce_count :: nat
  ce_enabled :: nat
  ce_start :: int
  ce_end :: int

text \<open>The inner \<^verbatim>\<open>while count > 0\<close> of \<^verbatim>\<open>flush\<close>.\<close>

function split_tally :: "pstr \<Rightarrow> int \<Rightarrow> int \<Rightarrow> nat \<Rightarrow> nat \<Rightarrow> count_entry list" where
  "split_tally key start stop count on =
     (if count = 0 then []
      else let part = min count MAX_ENTRY_COUNT; part_on = min on part in
        \<lparr>ce_key = key, ce_count = part, ce_enabled = part_on, ce_start = start, ce_end = stop\<rparr> #
        split_tally key start stop (count - part) (on - part_on))"
  by pat_completeness auto
termination
  by (relation "measure (\<lambda>(_, _, _, count, _). count)") (auto simp: MAX_ENTRY_COUNT_def)

declare split_tally.simps [simp del]

text \<open>\<^verbatim>\<open>(end - start).total_seconds() > 600\<close> is a comparison of whole microseconds.\<close>

definition window_start :: "int option \<Rightarrow> int \<Rightarrow> int" where
  "window_start started stop =
     (let start = (case started of None \<Rightarrow> stop | Some t \<Rightarrow> t)
      in if stop - start > MAX_WINDOW_MICROSECONDS then stop - MAX_WINDOW_MICROSECONDS else start)"

definition flush_entries :: "int \<Rightarrow> runtime \<Rightarrow> count_entry list" where
  "flush_entries stop s = concat (map (\<lambda>(key, count, on).
     split_tally key (window_start (rt_window s) stop) stop count on) (rt_tallies s))"

text \<open>The slices \<^verbatim>\<open>entries[index : index + _MAX_REPORT_ENTRIES]\<close>.\<close>

function report_bodies :: "count_entry list \<Rightarrow> count_entry list list" where
  "report_bodies entries =
     (if entries = [] then []
      else take MAX_REPORT_ENTRIES entries # report_bodies (drop MAX_REPORT_ENTRIES entries))"
  by pat_completeness auto
termination
  by (relation "measure length") (auto simp: MAX_REPORT_ENTRIES_def)

declare report_bodies.simps [simp del]

definition send_error :: "http_response option \<Rightarrow> sdk_error option" where
  "send_error outcome = (case outcome of
       None \<Rightarrow> Some Request_Failed
     | Some r \<Rightarrow> if succeeded_status r then None else Some (Report_Refused (response_status r)))"

text \<open>\<^verbatim>\<open>flush\<close>; \<open>outcome i\<close> is the outcome of the \<open>i\<close>-th request. The second component is what was sent.\<close>

definition flush_counts ::
  "int \<Rightarrow> (nat \<Rightarrow> http_response option) \<Rightarrow> runtime \<Rightarrow> runtime \<times> count_entry list list" where
  "flush_counts utc outcome s =
     (if rt_tallies s = [] then (s, [])
      else
        (let bodies = report_bodies (flush_entries utc s);
             errors = List.map_filter (\<lambda>i. send_error (outcome i)) [0..<length bodies]
         in (foldl (\<lambda>t e. report_error e Op_Flush t) (s\<lparr>rt_tallies := [], rt_window := None\<rparr>) errors,
             bodies)))"

definition close_runtime ::
  "int \<Rightarrow> (nat \<Rightarrow> http_response option) \<Rightarrow> runtime \<Rightarrow> runtime \<times> count_entry list list" where
  "close_runtime utc outcome s =
     (if rt_closed s then (s, [])
      else flush_counts utc outcome (s\<lparr>rt_closed := True, rt_attempted := True\<rparr>))"

section \<open>The thread\<close>

record poller =
  next_refresh :: pyfloat
  next_flush :: pyfloat
  thread_alive :: bool

text \<open>What one turn of the loop of \<^verbatim>\<open>_run\<close> reads: its clocks, the two responses and the random factor.\<close>

record poll_input =
  poll_now :: pyfloat
  poll_outcome :: "http_response option"
  poll_mono :: pyfloat
  poll_utc :: int
  poll_jitter :: pyfloat
  poll_refreshed :: pyfloat
  poll_flush_utc :: int
  poll_flush_outcome :: "nat \<Rightarrow> http_response option"
  poll_flushed :: pyfloat

definition start_thread :: "pyfloat \<Rightarrow> poller" where
  "start_thread now = \<lparr>next_refresh = now, next_flush = fadd now FLUSH_INTERVAL_SECONDS, thread_alive = True\<rparr>"

text \<open>An exception that leaves \<^verbatim>\<open>refresh_once\<close> leaves \<^verbatim>\<open>_run\<close> too and ends the thread.\<close>

definition poll_refresh ::
  "'z pyenv_scheme \<Rightarrow> (pstr \<Rightarrow> int option) \<Rightarrow> poll_input \<Rightarrow> runtime \<times> poller \<Rightarrow> runtime \<times> poller" where
  "poll_refresh E http_date i sp = (case sp of (s, p) \<Rightarrow>
     if \<not> fle (next_refresh p) (poll_now i) then (s, p)
     else (case refresh_once E http_date (poll_mono i) (poll_utc i) (poll_outcome i) s of
         (s', Inl _) \<Rightarrow> (s', p\<lparr>thread_alive := False\<rparr>)
       | (s', Inr delay) \<Rightarrow>
           (s', p\<lparr>next_refresh := fadd (poll_refreshed i)
                (if rt_jitter s' then fmul delay (poll_jitter i) else delay)\<rparr>)))"

definition poll_flush :: "poll_input \<Rightarrow> runtime \<times> poller \<Rightarrow> (runtime \<times> poller) \<times> count_entry list list" where
  "poll_flush i sp = (case sp of (s, p) \<Rightarrow>
     if \<not> fle (next_flush p) (poll_now i) then ((s, p), [])
     else (case flush_counts (poll_flush_utc i) (poll_flush_outcome i) s of
         (s', bodies) \<Rightarrow> ((s', p\<lparr>next_flush := fadd (poll_flushed i) FLUSH_INTERVAL_SECONDS\<rparr>), bodies)))"

definition poll_once ::
  "'z pyenv_scheme \<Rightarrow> (pstr \<Rightarrow> int option) \<Rightarrow> poll_input \<Rightarrow> runtime \<times> poller \<Rightarrow>
     (runtime \<times> poller) \<times> count_entry list list" where
  "poll_once E http_date i sp =
     (if rt_closed (fst sp) \<or> \<not> thread_alive (snd sp) then (sp, [])
      else (let sp' = poll_refresh E http_date i sp
            in if thread_alive (snd sp') then poll_flush i sp' else (sp', [])))"

text \<open>The argument of \<^verbatim>\<open>self._stop.wait\<close>.\<close>

definition wait_seconds :: "pyfloat \<Rightarrow> poller \<Rightarrow> pyfloat" where
  "wait_seconds clock p = py_max (Fin 0) (fsub (py_min (next_refresh p) (next_flush p)) clock)"

end
