(* ===== verification/Sdk_Runtime_Facts.thy ===== *)
theory Sdk_Runtime_Facts
  imports Sdk_Runtime Sdk_Facts
begin

text \<open>
  The runtime of \<open>Sdk_Runtime\<close>: the delays a refresh returns, what a refresh does to the ruleset, the
  invariant of the state, and the counts, which are conserved from the answers to the reports.
\<close>

section \<open>Doubling a float\<close>

lemma flog2_upper:
  assumes "0 < q" shows "q < pow2 (flog2 q + 1)"
proof -
  obtain n d where nd: "quotient_of q = (n, d)" by fastforce
  then have d: "0 < d" and q: "q = of_int n / of_int d"
    using quotient_of_denom_pos quotient_of_div by auto
  with assms have n: "0 < n" by (simp add: zero_less_divide_iff)
  define a where "a = ilog2 (nat n)"
  define b where "b = ilog2 (nat d)"
  have "nat n < 2 ^ Suc a" "2 ^ b \<le> nat d"
    using n d ilog2_bounds [of "nat n"] ilog2_bounds [of "nat d"] by (simp_all add: a_def b_def)
  then have bounds: "n < (2::int) ^ Suc a" "(2::int) ^ b \<le> d"
    using n d by (simp_all add: le_nat_iff nat_less_iff)
  have "of_int n / of_int d < (of_int (2 ^ Suc a) / of_int (2 ^ b) :: rat)"
    using bounds d n by (intro frac_less) (simp_all only: of_int_less_iff of_int_le_iff of_int_0_less_iff of_int_0_le_iff zero_less_power zero_less_numeral less_imp_le)
  also have "\<dots> = 2 powi (int a - int b + 1)"
    by (simp add: power_int_diff power_int_add)
  finally have "q < pow2 (int a - int b + 1)"
    by (simp add: q pow2_powi)
  then show ?thesis
    by (auto simp: flog2_def nd Let_def a_def b_def)
qed

lemma flog2_unique:
  assumes "pow2 e \<le> q" "q < pow2 (e + 1)" shows "flog2 q = e"
proof -
  have "0 < pow2 e" by (simp add: pow2_powi)
  with assms(1) have q: "0 < q" by simp
  have "flog2 q < e + 1"
    using flog2_less [OF q, of "e + 1"] assms(2) by (simp add: pow2_powi)
  moreover have "e < flog2 q + 1"
  proof (rule ccontr)
    assume "\<not> e < flog2 q + 1"
    then have "pow2 (flog2 q + 1) \<le> pow2 e"
      unfolding pow2_powi by (intro power_int_increasing) auto
    with flog2_upper [OF q] assms(1) show False by simp
  qed
  ultimately show ?thesis by simp
qed

lemma flog2_scale:
  assumes "0 < q" shows "flog2 (q * 2 ^ k) = flog2 q + int k"
proof (rule flog2_unique)
  have shift: "pow2 (e + int k) = pow2 e * 2 ^ k" for e
    by (simp add: pow2_powi power_int_add)
  show "pow2 (flog2 q + int k) \<le> q * 2 ^ k"
    using flog2_lower [OF assms] by (simp add: shift)
  have "pow2 (flog2 q + int k + 1) = pow2 (flog2 q + 1) * 2 ^ k"
    using shift [of "flog2 q + 1"] by (simp add: algebra_simps)
  then show "q * 2 ^ k < pow2 (flog2 q + int k + 1)"
    using flog2_upper [OF assms] by simp
qed

text \<open>Multiplying a float of at least one by a power of two is exact until it overflows.\<close>

lemma fl_scale:
  assumes "1 \<le> q" and "fl q = Fin q"
  shows "fl (q * 2 ^ k) = (if 2 ^ 1024 \<le> q * 2 ^ k then PInf else Fin (q * 2 ^ k))"
proof -
  have q: "0 < q" using assms(1) by simp
  have e0: "0 \<le> flog2 q"
  proof (rule ccontr)
    assume "\<not> 0 \<le> flog2 q"
    then have "pow2 (flog2 q + 1) \<le> pow2 0"
      unfolding pow2_powi by (intro power_int_increasing) auto
    with flog2_upper [OF q] assms(1) show False by (simp add: pow2_powi)
  qed
  define e where "e = flog2 q - 52"
  have max_q: "max (flog2 \<bar>q\<bar> - 52) (- 1074) = e"
    using q e0 by (simp add: e_def)
  have max_k: "max (flog2 \<bar>q * 2 ^ k\<bar> - 52) (- 1074) = e + int k"
    using q e0 by (simp add: e_def abs_mult flog2_scale)
  define m where "m = round_even (q / pow2 e)"
  have exact: "of_int m * pow2 e = q"
    using assms(2) q unfolding fl_def max_q Let_def m_def [symmetric]
    by (simp split: if_splits)
  have shift: "pow2 (e + int k) = pow2 e * 2 ^ k"
    by (simp add: pow2_powi power_int_add)
  have "q * 2 ^ k / pow2 (e + int k) = q / pow2 e"
    by (simp add: shift)
  then have v: "of_int (round_even (q * 2 ^ k / pow2 (e + int k))) * pow2 (e + int k) = q * 2 ^ k"
    using exact by (simp add: m_def shift)
  show ?thesis
    unfolding fl_def max_k Let_def v using q by simp
qed

section \<open>The delay after a failure\<close>

lemma fl_one: "fl 1 = Fin 1"
  using fl_of_int_exact [of 1] by simp

lemma float_of_power: "float_of_int (2 ^ k) = (if k < 1024 then Some (Fin (2 ^ k)) else None)"
proof -
  have "((2::rat) ^ 1024 \<le> 2 ^ k) = (1024 \<le> k)"
    by (rule power_increasing_iff) simp
  then show ?thesis
    using fl_scale [of 1 k] by (simp add: float_of_int_def fl_one)
qed

lemma backoff_raises: "1024 < n \<Longrightarrow> backoff i n = Inl PyOverflowError"
  by (simp add: backoff_def float_of_power)

lemma py_min_MAX: "py_min (Fin a) MAX_BACKOFF_SECONDS = Fin (min a 300)"
  by (simp add: py_min_def MAX_BACKOFF_SECONDS_def min_def)

lemma backoff_value:
  assumes "1 \<le> q" "fl q = Fin q" "n \<le> 1024"
  shows "backoff (Fin q) n = Inr (Fin (min (q * 2 ^ (n - 1)) 300))"
proof -
  have "n - 1 < 1024" using assms(3) by simp
  then have "backoff (Fin q) n = Inr (py_min (fl (q * 2 ^ (n - 1))) MAX_BACKOFF_SECONDS)"
    by (simp add: backoff_def float_of_power)
  also have "py_min (fl (q * 2 ^ (n - 1))) MAX_BACKOFF_SECONDS = Fin (min (q * 2 ^ (n - 1)) 300)"
  proof (cases "2 ^ 1024 \<le> q * 2 ^ (n - 1)")
    case True
    have "(300::rat) \<le> 2 ^ 9" by simp
    also have "(2::rat) ^ 9 \<le> 2 ^ 1024" by (rule power_increasing) simp_all
    finally have "300 \<le> q * 2 ^ (n - 1)" using True by linarith
    then show ?thesis
      using True by (simp only: fl_scale [OF assms(1,2)] if_True)
        (simp add: py_min_def MAX_BACKOFF_SECONDS_def min_def)
  next
    case False
    then show ?thesis by (simp only: fl_scale [OF assms(1,2)] if_False py_min_MAX)
  qed
  finally show ?thesis .
qed


section \<open>What a refresh does\<close>

lemmas failure_defs = transient_failure_def report_error_def
lemmas refresh_defs = refresh_once_def refresh_def handle_response_def load_ruleset_def succeeded_def
  refused_def failure_defs Let_def

text \<open>The response that replaces the ruleset, and those that discard it.\<close>

definition valid_load :: "http_response \<Rightarrow> indexed_ruleset \<Rightarrow> bool" where
  "valid_load r rs = (succeeded_status r \<and> response_status r \<noteq> 304 \<and>
     (\<exists>body. response_json r = Inr body \<and> index_ruleset body = Some rs))"

definition discarding :: "http_response \<Rightarrow> bool" where
  "discarding r =
     ((response_status r \<in> {401, 403} \<and> detail_readable r = Inr ()) \<or> response_status r = 404 \<or>
      (succeeded_status r \<and> (\<exists>body. response_json r = Inr body \<and> \<not> is_supported_format body)))"

lemma index_supported: "index_ruleset body = Some rs \<Longrightarrow> is_supported_format body"
  by (auto simp: index_ruleset_def split: if_splits)

lemma handle_cases [consumes 0, case_names confirmed loaded refused failed unexpected raised limited]:
  obtains
    (confirmed) "rt_ruleset s \<noteq> None" and "handle_response E http_date clk utc r s = succeeded clk utc s"
  | (loaded) rs where "valid_load r rs" and "handle_response E http_date clk utc r s =
      succeeded clk utc (s\<lparr>rt_ruleset := Some rs, rt_etag := Some (response_etag r rs)\<rparr>)"
  | (refused) k e where "discarding r" and "handle_response E http_date clk utc r s = refused k e s"
  | (failed) e where "handle_response E http_date clk utc r s = transient_failure e s"
  | (unexpected) "rt_ruleset s = None" and
      "handle_response E http_date clk utc r s = transient_failure Unexpected_304 (s\<lparr>rt_etag := None\<rparr>)"
  | (raised) e where "handle_response E http_date clk utc r s = (s, Inl e)"
  | (limited) "response_status r = 429" and "handle_response E http_date clk utc r s =
      (report_error (Http_Failed 429) Op_Refresh (s\<lparr>rt_error := Some (Http_Failed 429)\<rparr>),
       Inr (py_max (case retry_after E http_date utc r of Some w \<Rightarrow> w | None \<Rightarrow> rt_interval s) (rt_interval s)))"
proof -
  consider (c304) "response_status r = 304" | (ok) "response_status r \<noteq> 304" "succeeded_status r"
    | (key) "response_status r \<in> {401, 403}" | (missing) "response_status r = 404"
    | (slow) "response_status r = 429"
    | (other) "response_status r \<notin> {304, 401, 403, 404, 429}" "\<not> succeeded_status r"
    by auto
  then show thesis
  proof cases
    case c304
    then show ?thesis
      using confirmed unexpected by (cases "rt_ruleset s = None") (simp_all add: handle_response_def)
  next
    case ok
    then have h: "handle_response E http_date clk utc r s = load_ruleset clk utc r s"
      by (simp add: handle_response_def)
    show ?thesis
    proof (cases "response_json r")
      case (Inl e)
      then show ?thesis
        using failed raised by (cases "e = PyValueError") (simp_all add: h load_ruleset_def)
    next
      case (Inr body)
      show ?thesis
      proof (cases "is_supported_format body")
        case False
        with ok Inr have "discarding r" by (simp add: discarding_def)
        with False Inr show ?thesis using refused by (simp add: h load_ruleset_def)
      next
        case True
        then show ?thesis
          using failed loaded ok Inr
          by (cases "index_ruleset body") (simp_all add: h load_ruleset_def valid_load_def)
      qed
    qed
  next
    case key
    then have "\<not> succeeded_status r" by (auto simp: succeeded_status_def)
    with key show ?thesis
      using refused raised
      by (cases "detail_readable r") (auto simp: handle_response_def discarding_def Let_def)
  next
    case missing
    then show ?thesis
      using refused by (simp add: handle_response_def discarding_def Let_def succeeded_status_def)
  next
    case slow
    then show ?thesis
      using limited by (simp add: handle_response_def Let_def succeeded_status_def)
  next
    case other
    then show ?thesis using failed by (simp add: handle_response_def Let_def)
  qed
qed

text \<open>
  A refresh, as a relation: \<open>settled\<close> is what one response does, \<open>failing\<close> a state after the
  failures that precede an exception.
\<close>

lemma refresh_induct [consumes 0, case_names attempted closed report confirmed loaded refused failed unexpected limited]:
  assumes "\<And>t. P t \<Longrightarrow> P (t\<lparr>rt_attempted := True\<rparr>)"
    and "P (s\<lparr>rt_jitter := False\<rparr>)"
    and "\<And>t e. P t \<Longrightarrow> P (fst (transient_failure e t))"
    and "\<not> rt_closed s \<Longrightarrow> rt_ruleset s \<noteq> None \<Longrightarrow> P (fst (succeeded clk utc (s\<lparr>rt_jitter := False\<rparr>)))"
    and "\<And>r rs. outcome = Some r \<Longrightarrow> \<not> rt_closed s \<Longrightarrow> valid_load r rs \<Longrightarrow>
      P (fst (succeeded clk utc (s\<lparr>rt_jitter := False, rt_ruleset := Some rs, rt_etag := Some (response_etag r rs)\<rparr>)))"
    and "\<And>r k e. outcome = Some r \<Longrightarrow> \<not> rt_closed s \<Longrightarrow> discarding r \<Longrightarrow>
      P (fst (refused k e (s\<lparr>rt_jitter := False\<rparr>)))"
    and "\<not> rt_closed s \<Longrightarrow> rt_ruleset s = None \<Longrightarrow> P (s\<lparr>rt_jitter := False, rt_etag := None\<rparr>)"
    and "\<not> rt_closed s \<Longrightarrow> P (report_error (Http_Failed 429) Op_Refresh
      (s\<lparr>rt_jitter := False, rt_error := Some (Http_Failed 429)\<rparr>))"
  shows "P (fst (refresh_once E http_date clk utc outcome s))"
proof -
  let ?s = "s\<lparr>rt_jitter := False\<rparr>"
  have "P (fst (refresh E http_date clk utc outcome ?s))"
  proof (cases outcome)
    case None
    then show ?thesis using assms(2,3) by (simp add: refresh_def)
  next
    case (Some r)
    show ?thesis
    proof (cases "rt_closed s")
      case True
      then show ?thesis using assms(2) by (simp add: refresh_def Some)
    next
      case False
      have "P (fst (handle_response E http_date clk utc r ?s))"
      proof (cases rule: handle_cases [where E = E and http_date = http_date and clk = clk and utc = utc and r = r and s = ?s])
        case unexpected
        then show ?thesis using assms(3,7) False by simp
      qed (use assms(2-6,8) False Some in auto)
      then show ?thesis
        using assms(3) False
        by (auto simp: refresh_def Some split: prod.split sum.split)
    qed
  qed
  then show ?thesis
    using assms(1) by (auto simp: refresh_once_def split: prod.split)
qed


text \<open>A refresh leaves the ruleset as it was, unless the response loads or discards one.\<close>

lemma refresh_ruleset:
  "rt_ruleset (fst (refresh_once E http_date clk utc outcome s)) = rt_ruleset s \<or>
   (\<exists>r. outcome = Some r \<and> \<not> rt_closed s \<and>
     (discarding r \<and> rt_ruleset (fst (refresh_once E http_date clk utc outcome s)) = None \<or>
      (\<exists>rs. valid_load r rs \<and> rt_ruleset (fst (refresh_once E http_date clk utc outcome s)) = Some rs)))"
  by (rule refresh_induct [where P = "\<lambda>t. rt_ruleset t = rt_ruleset s \<or> (\<exists>r. outcome = Some r \<and> \<not> rt_closed s \<and>
     (discarding r \<and> rt_ruleset t = None \<or> (\<exists>rs. valid_load r rs \<and> rt_ruleset t = Some rs)))"])
    (auto simp: failure_defs succeeded_def refused_def Let_def)

text \<open>The fields a refresh does not write.\<close>

definition same_frame :: "runtime \<Rightarrow> runtime \<Rightarrow> bool" where
  "same_frame s t = (rt_interval t = rt_interval s \<and> rt_max_stale t = rt_max_stale s \<and>
     rt_closed t = rt_closed s \<and> rt_tallies t = rt_tallies s \<and> rt_window t = rt_window s)"

lemma refresh_frame: "same_frame s (fst (refresh_once E http_date clk utc outcome s))"
  by (rule refresh_induct [where P = "same_frame s"])
    (simp_all add: same_frame_def failure_defs succeeded_def refused_def Let_def)

lemma refresh_loads:
  assumes "valid_load r rs" "\<not> rt_closed s"
  shows "rt_ruleset (fst (refresh_once E http_date clk utc (Some r) s)) = Some rs"
proof -
  obtain body where "response_json r = Inr body" "index_ruleset body = Some rs" "is_supported_format body"
    using assms(1) by (auto simp: valid_load_def index_ruleset_def split: if_splits)
  then have "handle_response E http_date clk utc r t =
      succeeded clk utc (t\<lparr>rt_ruleset := Some rs, rt_etag := Some (response_etag r rs)\<rparr>)" for t
    using assms(1) by (simp add: handle_response_def load_ruleset_def valid_load_def)
  then show ?thesis
    using assms(2) by (simp add: refresh_once_def refresh_def succeeded_def)
qed

lemma refresh_discards:
  assumes "discarding r" "\<not> rt_closed s"
  shows "rt_ruleset (fst (refresh_once E http_date clk utc (Some r) s)) = None \<and>
    snd (refresh_once E http_date clk utc (Some r) s) = Inr REFUSED_RETRY_SECONDS"
proof -
  have "\<exists>k e. handle_response E http_date clk utc r t = refused k e t" for t
    using assms(1)
    by (auto simp: discarding_def handle_response_def load_ruleset_def succeeded_status_def Let_def)
      (rule exI, rule exI, rule refl)+
  then obtain k e where "handle_response E http_date clk utc r (s\<lparr>rt_jitter := False\<rparr>) =
      refused k e (s\<lparr>rt_jitter := False\<rparr>)" by blast
  then show ?thesis
    using assms(2) by (simp add: refresh_once_def refresh_def refused_def Let_def report_error_def)
qed

section \<open>The delay before the next refresh\<close>

definition interval_ok :: "pyfloat \<Rightarrow> bool" where
  "interval_ok i = (\<exists>q. i = Fin q \<and> 5 \<le> q \<and> fl q = Fin q)"

text \<open>Not before the interval (capped at five minutes), not after it or ten minutes.\<close>

definition delay_ok :: "pyfloat \<Rightarrow> pyfloat \<Rightarrow> bool" where
  "delay_ok i d = (fle (py_min i MAX_BACKOFF_SECONDS) d \<and> fle d (py_max i REFUSED_RETRY_SECONDS))"

lemma delay_ok_Fin:
  "delay_ok (Fin q) (Fin d) = (min q 300 \<le> d \<and> d \<le> max q 600)"
  by (simp add: delay_ok_def py_min_MAX py_max_def REFUSED_RETRY_SECONDS_def max_def)

lemma transient_delay:
  assumes "interval_ok (rt_interval s)" "rt_failures s < 1024"
  shows "\<exists>d. snd (transient_failure e s) = Inr d \<and> delay_ok (rt_interval s) d"
proof -
  obtain q where q: "rt_interval s = Fin q" "5 \<le> q" "fl q = Fin q"
    using assms(1) by (auto simp: interval_ok_def)
  let ?k = "Suc (rt_failures s)"
  have "1 \<le> (2::rat) ^ (?k - 1)" by (rule one_le_power) simp
  then have "q * 1 \<le> q * 2 ^ (?k - 1)" using q(2) by (intro mult_left_mono) simp_all
  then have "delay_ok (Fin q) (Fin (min (q * 2 ^ (?k - 1)) 300))"
    unfolding delay_ok_Fin by linarith
  moreover have "backoff (Fin q) ?k = Inr (Fin (min (q * 2 ^ (?k - 1)) 300))"
    using q assms(2) by (intro backoff_value) simp_all
  ultimately show ?thesis by (simp add: transient_failure_def q(1))
qed

lemma refresh_delay:
  assumes "interval_ok (rt_interval s)" "rt_failures s < 1023"
    and "\<And>r. outcome = Some r \<Longrightarrow> response_status r \<noteq> 429"
  shows "\<exists>d. snd (refresh_once E http_date clk utc outcome s) = Inr d \<and> delay_ok (rt_interval s) d"
proof -
  let ?s = "s\<lparr>rt_jitter := False\<rparr>"
  obtain q where q: "rt_interval s = Fin q" "5 \<le> q"
    using assms(1) by (auto simp: interval_ok_def)
  have own: "delay_ok (rt_interval s) (rt_interval s)" "delay_ok (rt_interval s) REFUSED_RETRY_SECONDS"
    using q by (simp_all add: delay_ok_Fin REFUSED_RETRY_SECONDS_def)
  have once: "\<exists>d. snd (transient_failure e ?s) = Inr d \<and> delay_ok (rt_interval s) d" for e
    using transient_delay [of ?s e] assms(1,2) by simp
  have again: "\<exists>d. snd (transient_failure e (?s\<lparr>rt_etag := x\<rparr>)) = Inr d \<and> delay_ok (rt_interval s) d" for e x
    using transient_delay [of "?s\<lparr>rt_etag := x\<rparr>" e] assms(1,2) by simp
  have "\<exists>d. snd (refresh E http_date clk utc outcome ?s) = Inr d \<and> delay_ok (rt_interval s) d"
  proof (cases outcome)
    case None
    then show ?thesis using once by (simp add: refresh_def)
  next
    case (Some r)
    show ?thesis
    proof (cases "rt_closed s")
      case True
      then show ?thesis using own by (simp add: refresh_def Some)
    next
      case open_client: False
      show ?thesis
      proof (cases rule: handle_cases [where E = E and http_date = http_date and clk = clk and utc = utc
            and r = r and s = ?s])
        case (failed e)
        with once [of e] open_client show ?thesis
          by (cases "transient_failure e ?s") (auto simp: refresh_def Some)
      next
        case unexpected
        with again [of Unexpected_304 None] open_client show ?thesis
          by (cases "transient_failure Unexpected_304 (?s\<lparr>rt_etag := None\<rparr>)") (auto simp: refresh_def Some)
      next
        case limited
        then show ?thesis using assms(3) Some by simp
      qed (use own once open_client in \<open>auto simp: refresh_def Some succeeded_def refused_def Let_def\<close>)
    qed
  qed
  then show ?thesis
    by (cases "refresh E http_date clk utc outcome ?s") (simp add: refresh_once_def)
qed

lemma limited_delay:
  assumes "response_status r = 429" "\<not> rt_closed s"
  shows "snd (refresh_once E http_date clk utc (Some r) s) =
    Inr (py_max (case retry_after E http_date utc r of Some w \<Rightarrow> w | None \<Rightarrow> rt_interval s) (rt_interval s))"
  using assms by (simp add: refresh_once_def refresh_def handle_response_def Let_def succeeded_status_def
      report_error_def split: option.split)

section \<open>The end of the thread\<close>

lemma network_failure:
  "refresh_once E http_date clk utc None s =
     (report_error Request_Failed Op_Refresh (s\<lparr>rt_jitter := False, rt_error := Some Request_Failed,
        rt_failures := Suc (rt_failures s), rt_attempted := True\<rparr>),
      backoff (rt_interval s) (Suc (rt_failures s)))"
  by (simp add: refresh_once_def refresh_def failure_defs)

definition failed_refreshes ::
  "'z pyenv_scheme \<Rightarrow> (pstr \<Rightarrow> int option) \<Rightarrow> (pyfloat \<times> int) list \<Rightarrow> runtime \<Rightarrow> runtime" where
  "failed_refreshes E http_date clocks s =
     foldl (\<lambda>t (clk, utc). fst (refresh_once E http_date clk utc None t)) s clocks"

lemma failed_refreshes_facts:
  "rt_failures (failed_refreshes E http_date clocks s) = rt_failures s + length clocks \<and>
   rt_ruleset (failed_refreshes E http_date clocks s) = rt_ruleset s \<and>
   same_frame s (failed_refreshes E http_date clocks s)"
  by (induction clocks arbitrary: s)
    (simp_all add: failed_refreshes_def same_frame_def network_failure report_error_def split: prod.split)

end
