(* ===== verification/Sdk_Machine.thy ===== *)
theory Sdk_Machine
  imports Sdk_Runtime_Facts
begin

text \<open>
  One process with a local-evaluation client: the thread polls, callers ask for flags, the client is
  closed, in any order. Two histories are kept beside the state: the local answers given and the
  bodies of counts sent. Every answer is in exactly one of the tallies and the bodies.
\<close>

section \<open>The process\<close>

record sdk_process =
  sdk_runtime :: runtime
  sdk_poller :: poller
  sdk_answers :: "(pstr \<times> bool) list"
  sdk_bodies :: "count_entry list list"

datatype sdk_event =
    Poll poll_input
  | Ask pyfloat int pstr pstr "(pstr \<times> pyval) list option option res"
  | Ask_All pyfloat int pstr "(pstr \<times> pyval) list option option res"
  | Close int "nat \<Rightarrow> http_response option"

fun sdk_event_step ::
  "'z pyenv_scheme \<Rightarrow> (pstr \<Rightarrow> int option) \<Rightarrow> sdk_event \<Rightarrow> sdk_process \<Rightarrow> sdk_process" where
  "sdk_event_step E http_date (Poll i) p =
     (case poll_once E http_date i (sdk_runtime p, sdk_poller p) of
        ((s, q), bodies) \<Rightarrow> p\<lparr>sdk_runtime := s, sdk_poller := q, sdk_bodies := sdk_bodies p @ bodies\<rparr>)"
| "sdk_event_step E http_date (Ask now utc key user wire) p =
     (case answer_flag now utc key user wire (sdk_runtime p) of
        (s, None) \<Rightarrow> p\<lparr>sdk_runtime := s\<rparr>
      | (s, Some ans) \<Rightarrow>
          p\<lparr>sdk_runtime := s, sdk_answers := sdk_answers p @ [(key, local_enabled ans)]\<rparr>)"
| "sdk_event_step E http_date (Ask_All now utc user wire) p =
     (case answer_all now utc user wire (sdk_runtime p) of
        (s, None) \<Rightarrow> p\<lparr>sdk_runtime := s\<rparr>
      | (s, Some flags) \<Rightarrow> p\<lparr>sdk_runtime := s, sdk_answers := sdk_answers p @ flags\<rparr>)"
| "sdk_event_step E http_date (Close utc outcome) p =
     (case close_runtime utc outcome (sdk_runtime p) of
        (s, bodies) \<Rightarrow> p\<lparr>sdk_runtime := s, sdk_bodies := sdk_bodies p @ bodies\<rparr>)"

inductive sdk_step :: "'z pyenv_scheme \<Rightarrow> (pstr \<Rightarrow> int option) \<Rightarrow> sdk_process \<Rightarrow> sdk_process \<Rightarrow> bool"
  for E http_date where
  sdk_step_event: "sdk_step E http_date p (sdk_event_step E http_date ev p)"

inductive_cases sdk_stepE: "sdk_step E http_date p q"

text \<open>A new client, and the client a forked child inherits (with a thread of its own).\<close>

definition new_process :: "pyfloat \<Rightarrow> pyfloat option \<Rightarrow> pyfloat \<Rightarrow> sdk_process" where
  "new_process interval max_stale now =
     \<lparr>sdk_runtime = new_runtime interval max_stale, sdk_poller = start_thread now,
      sdk_answers = [], sdk_bodies = []\<rparr>"

definition forked_process :: "pyfloat \<Rightarrow> sdk_process \<Rightarrow> sdk_process" where
  "forked_process now p =
     \<lparr>sdk_runtime = after_fork (sdk_runtime p),
      sdk_poller = (start_thread now)\<lparr>thread_alive := \<not> rt_closed (sdk_runtime p)\<rparr>,
      sdk_answers = [], sdk_bodies = []\<rparr>"

section \<open>Counting\<close>

definition answered :: "pstr \<Rightarrow> (pstr \<times> bool) list \<Rightarrow> nat" where
  "answered key answers = length (filter (\<lambda>a. fst a = key) answers)"

definition answered_on :: "pstr \<Rightarrow> (pstr \<times> bool) list \<Rightarrow> nat" where
  "answered_on key answers = length (filter (\<lambda>a. fst a = key \<and> snd a) answers)"

definition tally_of :: "pstr \<Rightarrow> (pstr \<times> nat \<times> nat) list \<Rightarrow> nat \<times> nat" where
  "tally_of key tallies = (case map_of tallies key of None \<Rightarrow> (0, 0) | Some t \<Rightarrow> t)"

definition entries_count :: "pstr \<Rightarrow> count_entry list \<Rightarrow> nat" where
  "entries_count key es = sum_list (map ce_count (filter (\<lambda>e. ce_key e = key) es))"

definition entries_on :: "pstr \<Rightarrow> count_entry list \<Rightarrow> nat" where
  "entries_on key es = sum_list (map ce_enabled (filter (\<lambda>e. ce_key e = key) es))"

lemma counting_Nil [simp]:
  "answered key [] = 0" "answered_on key [] = 0" "entries_count key [] = 0" "entries_on key [] = 0"
  "tally_of key [] = (0, 0)"
  by (simp_all add: answered_def answered_on_def entries_count_def entries_on_def tally_of_def)

lemma counting_append [simp]:
  "answered key (as @ bs) = answered key as + answered key bs"
  "answered_on key (as @ bs) = answered_on key as + answered_on key bs"
  "entries_count key (es @ fs) = entries_count key es + entries_count key fs"
  "entries_on key (es @ fs) = entries_on key es + entries_on key fs"
  by (simp_all add: answered_def answered_on_def entries_count_def entries_on_def)

lemma counting_Cons:
  "answered key (a # as) = (if fst a = key then 1 else 0) + answered key as"
  "answered_on key (a # as) = (if fst a = key \<and> snd a then 1 else 0) + answered_on key as"
  "entries_count key (e # es) = (if ce_key e = key then ce_count e else 0) + entries_count key es"
  "entries_on key (e # es) = (if ce_key e = key then ce_enabled e else 0) + entries_on key es"
  by (simp_all add: answered_def answered_on_def entries_count_def entries_on_def)

text \<open>The tallies: one per flag, none empty, at most as many enabled answers as answers.\<close>

definition tallies_ok :: "(pstr \<times> nat \<times> nat) list \<Rightarrow> bool" where
  "tallies_ok tallies = (distinct (map fst tallies) \<and> (\<forall>(key, n, m)\<in>set tallies. 0 < n \<and> m \<le> n))"

lemma dict_set_keys: "fst ` set (dict_set k v d) = insert k (fst ` set d)"
  by (induction k v d rule: dict_set.induct) auto

lemma dict_set_distinct: "distinct (map fst d) \<Longrightarrow> distinct (map fst (dict_set k v d))"
  by (induction k v d rule: dict_set.induct) (auto simp: dict_set_keys)

lemma dict_set_elem: "x \<in> set (dict_set k v d) \<Longrightarrow> x = (k, v) \<or> x \<in> set d"
  by (induction k v d rule: dict_set.induct) (auto split: if_splits)

lemma bump_tally_ok:
  assumes "tallies_ok tallies" shows "tallies_ok (bump_tally tallies a)"
proof -
  obtain key on where a: "a = (key, on)" by fastforce
  have kept: "tallies_ok (dict_set key (n, m) tallies)" if "0 < n" "m \<le> n" for n m
    using assms that unfolding tallies_ok_def
    by (auto simp: dict_set_distinct dest!: dict_set_elem)
  show ?thesis
  proof (cases "map_of tallies key")
    case None
    then show ?thesis using kept [of 1] by (simp add: bump_tally_def a)
  next
    case (Some nm)
    obtain n m where nm: "nm = (n, m)" by fastforce
    have "m \<le> n" using Some assms by (auto simp: tallies_ok_def nm dest!: map_of_SomeD)
    then show ?thesis using kept [of "Suc n"] Some by (simp add: bump_tally_def a nm)
  qed
qed

lemma bump_tally_of:
  "tally_of key (bump_tally tallies a) =
     (fst (tally_of key tallies) + answered key [a], snd (tally_of key tallies) + answered_on key [a])"
  by (cases a) (auto simp: bump_tally_def tally_of_def counting_Cons split: option.splits)

lemma bump_tallies:
  "tallies_ok tallies \<Longrightarrow> tallies_ok (foldl bump_tally tallies as) \<and>
   tally_of key (foldl bump_tally tallies as) =
     (fst (tally_of key tallies) + answered key as, snd (tally_of key tallies) + answered_on key as) \<and>
   ((foldl bump_tally tallies as = []) = (tallies = [] \<and> as = []))"
proof (induction as arbitrary: tallies)
  case Nil
  then show ?case by simp
next
  case (Cons a as)
  have "dict_set k v d \<noteq> []" for k :: pstr and v :: "nat \<times> nat" and d
    by (induction k v d rule: dict_set.induct) auto
  then have "bump_tally tallies a \<noteq> []"
    by (cases a) (auto simp: bump_tally_def split: option.splits)
  then show ?case
    using Cons.IH [OF bump_tally_ok [OF Cons.prems, of a]] bump_tally_of [of key tallies a]
    by (simp add: counting_Cons(1,2) [of key a as] counting_Cons(1,2) [of key a "[]"])
qed

section \<open>A flush\<close>

lemma split_tally_facts:
  "on \<le> count \<Longrightarrow>
   entries_count k (split_tally key start stop count on) = (if k = key then count else 0) \<and>
   entries_on k (split_tally key start stop count on) = (if k = key then on else 0) \<and>
   (\<forall>e\<in>set (split_tally key start stop count on). ce_key e = key \<and> 1 \<le> ce_count e \<and>
      ce_count e \<le> MAX_ENTRY_COUNT \<and> ce_enabled e \<le> ce_count e \<and> ce_start e = start \<and> ce_end e = stop)"
proof (induction key start stop count on rule: split_tally.induct)
  case (1 key start stop count on)
  show ?case
  proof (cases "count = 0")
    case True
    then show ?thesis using 1(2) by (simp add: split_tally.simps)
  next
    case False
    define part where "part = min count MAX_ENTRY_COUNT"
    define part_on where "part_on = min on part"
    have part: "1 \<le> part" "part \<le> count" "part \<le> MAX_ENTRY_COUNT"
      using False by (simp_all add: part_def MAX_ENTRY_COUNT_def)
    have on: "part_on \<le> part" "part_on \<le> on" "on - part_on \<le> count - part"
      using 1(2) part by (auto simp: part_on_def)
    note IH = 1(1) [OF False part_def part_on_def on(3)]
    have "split_tally key start stop count on =
        \<lparr>ce_key = key, ce_count = part, ce_enabled = part_on, ce_start = start, ce_end = stop\<rparr> #
        split_tally key start stop (count - part) (on - part_on)"
      using False by (subst split_tally.simps) (simp add: Let_def part_def part_on_def)
    then show ?thesis
      using IH part on by (simp add: counting_Cons)
  qed
qed

lemma report_bodies_facts:
  "concat (report_bodies es) = es \<and>
   (\<forall>body\<in>set (report_bodies es). body \<noteq> [] \<and> length body \<le> MAX_REPORT_ENTRIES \<and> set body \<subseteq> set es)"
proof (induction es rule: report_bodies.induct)
  case (1 es)
  show ?case
  proof (cases "es = []")
    case True
    then show ?thesis by (simp add: report_bodies.simps)
  next
    case False
    have body: "take MAX_REPORT_ENTRIES es \<noteq> []" "length (take MAX_REPORT_ENTRIES es) \<le> MAX_REPORT_ENTRIES"
      using False by (simp_all add: MAX_REPORT_ENTRIES_def)
    have rest: "set (drop MAX_REPORT_ENTRIES es) \<subseteq> set es" "set (take MAX_REPORT_ENTRIES es) \<subseteq> set es"
      by (simp_all add: set_drop_subset set_take_subset)
    show ?thesis
      unfolding report_bodies.simps [of es] using 1 [OF False] False body rest by auto
  qed
qed

lemma entries_of_tallies:
  assumes "tallies_ok tallies"
  shows "entries_count k (concat (map (\<lambda>(key, n, m). split_tally key start stop n m) tallies)) = fst (tally_of k tallies) \<and>
    entries_on k (concat (map (\<lambda>(key, n, m). split_tally key start stop n m) tallies)) = snd (tally_of k tallies)"
  using assms
proof (induction tallies)
  case Nil
  then show ?case by simp
next
  case (Cons t tallies)
  obtain key n m where t: "t = (key, n, m)" by (cases t)
  from Cons.prems have ok: "tallies_ok tallies" and m: "m \<le> n" and new: "map_of tallies key = None"
    by (auto simp: tallies_ok_def t map_of_eq_None_iff)
  show ?case
    using Cons.IH [OF ok] split_tally_facts [OF m, of k key start stop] new
    by (auto simp: t tally_of_def)
qed

lemma report_errors_frame:
  "\<exists>l. foldl (\<lambda>t e. report_error e Op_Flush t) s errors = s\<lparr>rt_reports := l\<rparr>"
proof (induction errors arbitrary: s)
  case Nil
  have "s = s\<lparr>rt_reports := rt_reports s\<rparr>" by simp
  then show ?case by (metis foldl_Nil)
next
  case (Cons e errors)
  from Cons.IH [of "report_error e Op_Flush s"] show ?case
    by (auto simp: report_error_def)
qed

lemma flush_counts_state:
  "\<exists>l. fst (flush_counts utc outcome s) =
     (if rt_tallies s = [] then s else s\<lparr>rt_tallies := [], rt_window := None, rt_reports := l\<rparr>)"
  using report_errors_frame [of "s\<lparr>rt_tallies := [], rt_window := None\<rparr>"]
  by (auto simp: flush_counts_def Let_def)

lemma flush_counts_bodies:
  "snd (flush_counts utc outcome s) = (if rt_tallies s = [] then [] else report_bodies (flush_entries utc s))"
  by (simp add: flush_counts_def Let_def)

lemma flush_conserves:
  assumes "tallies_ok (rt_tallies s)"
  shows "entries_count k (concat (snd (flush_counts utc outcome s))) = fst (tally_of k (rt_tallies s)) \<and>
    entries_on k (concat (snd (flush_counts utc outcome s))) = snd (tally_of k (rt_tallies s))"
  using entries_of_tallies [OF assms, of k] report_bodies_facts [of "flush_entries utc s"]
  by (simp add: flush_counts_bodies flush_entries_def)


section \<open>Answers come from the ruleset\<close>

lemma usable_ruleset: "usable now s = Some rs \<Longrightarrow> rt_ruleset s = Some rs \<and> \<not> rt_closed s"
  by (auto simp: usable_def split: if_splits option.splits)

lemma answer_flag_cases [consumes 0, case_names deferred reported answered]:
  obtains (deferred) "answer_flag now utc key user wire s = (s, None)"
  | (reported) "answer_flag now utc key user wire s = (report_error Evaluation_Failed Op_Evaluate s, None)"
  | (answered) rs ctx ans where "usable now s = Some rs" and "evaluate_locally rs key user ctx = Inr (Some ans)"
      and "answer_flag now utc key user wire s = (count_answers utc [(key, local_enabled ans)] s, Some ans)"
proof (cases "usable now s")
  case None
  then show ?thesis using deferred by (simp add: answer_flag_def)
next
  case (Some rs)
  consider e where "wire = Inl e" | "wire = Inr None" | ctx where "wire = Inr (Some ctx)"
    by (cases wire) auto
  then show ?thesis
  proof cases
    case (3 ctx)
    consider e where "evaluate_locally rs key user ctx = Inl e" | "evaluate_locally rs key user ctx = Inr None"
      | ans where "evaluate_locally rs key user ctx = Inr (Some ans)"
      by (cases "evaluate_locally rs key user ctx") auto
    then show ?thesis
      using deferred reported answered Some 3 by cases (simp_all add: answer_flag_def)
  qed (use deferred reported Some in \<open>simp_all add: answer_flag_def\<close>)
qed

lemma answer_all_cases [consumes 0, case_names deferred reported answered]:
  obtains (deferred) "answer_all now utc user wire s = (s, None)"
  | (reported) "answer_all now utc user wire s = (report_error Evaluation_Failed Op_Evaluate s, None)"
  | (answered) rs ctx flags where "usable now s = Some rs"
      and "answer_flags rs (ruleset_flags rs) user ctx = Inr (Some flags)"
      and "answer_all now utc user wire s = (count_answers utc flags s, Some flags)"
proof (cases "usable now s")
  case None
  then show ?thesis using deferred by (simp add: answer_all_def)
next
  case (Some rs)
  consider e where "wire = Inl e" | "wire = Inr None" | ctx where "wire = Inr (Some ctx)"
    by (cases wire) auto
  then show ?thesis
  proof cases
    case (3 ctx)
    consider e where "answer_flags rs (ruleset_flags rs) user ctx = Inl e"
      | "answer_flags rs (ruleset_flags rs) user ctx = Inr None"
      | flags where "answer_flags rs (ruleset_flags rs) user ctx = Inr (Some flags)"
      by (cases "answer_flags rs (ruleset_flags rs) user ctx") auto
    then show ?thesis
      using deferred reported answered Some 3 by cases (simp_all add: answer_all_def)
  qed (use deferred reported Some in \<open>simp_all add: answer_all_def\<close>)
qed

text \<open>\<^verbatim>\<open>get_all_flags\<close> lists the active flags, each with the answer it would get alone.\<close>

lemma answer_flags_each:
  "answer_flags rs flags user ctx = Inr (Some out) \<Longrightarrow>
   list_all2 (\<lambda>kf kb. fst kb = fst kf \<and>
       (\<exists>ans. evaluate_locally rs (fst kf) user ctx = Inr (Some ans) \<and> snd kb = local_enabled ans))
     (filter (\<lambda>kf. truthy (dget (snd kf) ''active'')) flags) out"
  by (induction rs flags user ctx arbitrary: out rule: answer_flags.induct)
    (auto simp: exc_rules split: if_splits option.splits dest!: sym [of "Some _" "map_option _ _"])

section \<open>The invariant\<close>

text \<open>The ruleset held passed the index; an ETag is kept only with a ruleset; a refusal keeps none.\<close>

definition cache_ok :: "runtime \<Rightarrow> bool" where
  "cache_ok s =
     ((\<forall>rs. rt_ruleset s = Some rs \<longrightarrow> (\<exists>body. index_ruleset body = Some rs)) \<and>
      (rt_etag s \<noteq> None \<longrightarrow> rt_ruleset s \<noteq> None) \<and>
      (rt_ruleset s \<noteq> None \<longrightarrow> rt_refreshed s \<noteq> None) \<and>
      (rt_refusal s \<noteq> None \<longrightarrow> rt_ruleset s = None) \<and>
      (rt_error s = None \<longrightarrow> rt_failures s = 0))"

lemma refresh_cache_ok:
  assumes "cache_ok s" shows "cache_ok (fst (refresh_once E http_date clk utc outcome s))"
proof (rule refresh_induct [where P = cache_ok])
  fix r rs assume "valid_load r rs"
  then show "cache_ok (fst (succeeded clk utc
      (s\<lparr>rt_jitter := False, rt_ruleset := Some rs, rt_etag := Some (response_etag r rs)\<rparr>)))"
    using assms by (auto simp: cache_ok_def succeeded_def valid_load_def)
qed (use assms in \<open>simp_all add: cache_ok_def succeeded_def refused_def failure_defs Let_def\<close>)

definition counts_ok :: "runtime \<Rightarrow> (pstr \<times> bool) list \<Rightarrow> count_entry list list \<Rightarrow> bool" where
  "counts_ok s answers bodies =
     (tallies_ok (rt_tallies s) \<and> (rt_window s = None \<longleftrightarrow> rt_tallies s = []) \<and>
      (\<forall>k. fst (tally_of k (rt_tallies s)) + entries_count k (concat bodies) = answered k answers \<and>
           snd (tally_of k (rt_tallies s)) + entries_on k (concat bodies) = answered_on k answers))"

lemma flush_counts_ok:
  assumes "counts_ok s answers bodies"
  shows "counts_ok (fst (flush_counts utc outcome s)) answers (bodies @ snd (flush_counts utc outcome s))"
proof -
  obtain l where l: "fst (flush_counts utc outcome s) =
      (if rt_tallies s = [] then s else s\<lparr>rt_tallies := [], rt_window := None, rt_reports := l\<rparr>)"
    using flush_counts_state by blast
  show ?thesis
  proof (cases "rt_tallies s = []")
    case True
    then show ?thesis using assms by (simp add: l flush_counts_bodies)
  next
    case False
    have "tallies_ok (rt_tallies s)" using assms by (simp add: counts_ok_def)
    from flush_conserves [OF this] False show ?thesis
      using assms by (simp add: l counts_ok_def tallies_ok_def add.commute)
  qed
qed

lemma count_answers_ok:
  assumes "counts_ok s answers bodies"
  shows "counts_ok (count_answers utc flags s) (answers @ flags) bodies"
proof (cases "flags = []")
  case True
  then show ?thesis using assms by (simp add: count_answers_def)
next
  case False
  have ok: "tallies_ok (rt_tallies s)" using assms by (simp add: counts_ok_def)
  have "fst (tally_of k (rt_tallies s)) + entries_count k (concat bodies) = answered k answers"
    "snd (tally_of k (rt_tallies s)) + entries_on k (concat bodies) = answered_on k answers" for k
    using assms by (simp_all add: counts_ok_def)
  then show ?thesis
    using False bump_tallies [OF ok, of flags]
    by (simp add: counts_ok_def count_answers_def algebra_simps)
qed

lemma same_frame_counts:
  "same_frame s t \<Longrightarrow> counts_ok s answers bodies \<Longrightarrow> counts_ok t answers bodies"
  by (simp add: counts_ok_def same_frame_def)

definition process_ok :: "sdk_process \<Rightarrow> bool" where
  "process_ok p = (cache_ok (sdk_runtime p) \<and> counts_ok (sdk_runtime p) (sdk_answers p) (sdk_bodies p))"


text \<open>A turn of the loop is at most a refresh followed by at most a flush.\<close>

lemma poll_once_cases [consumes 0, case_names idle refreshed flushed]:
  fixes E :: "'z pyenv_scheme"
  obtains
    (idle) "poll_once E http_date i sp = (sp, [])"
  | (refreshed) q where "thread_alive (snd sp)" and "poll_once E http_date i sp =
      ((fst (refresh_once E http_date (poll_mono i) (poll_utc i) (poll_outcome i) (fst sp)), q), [])"
  | (flushed) s q' where "thread_alive (snd sp)"
      and "s = fst sp \<or> s = fst (refresh_once E http_date (poll_mono i) (poll_utc i) (poll_outcome i) (fst sp))"
      and "poll_once E http_date i sp =
        ((fst (flush_counts (poll_flush_utc i) (poll_flush_outcome i) s), q'),
         snd (flush_counts (poll_flush_utc i) (poll_flush_outcome i) s))"
proof (cases "rt_closed (fst sp) \<or> \<not> thread_alive (snd sp)")
  case True
  then show ?thesis using idle by (simp add: poll_once_def)
next
  case False
  obtain s p where sp: "sp = (s, p)" by fastforce
  obtain s1 p1 where r: "poll_refresh E http_date i sp = (s1, p1)" by fastforce
  then have s1: "(s1, p1) = (s, p) \<or> s1 = fst (refresh_once E http_date (poll_mono i) (poll_utc i) (poll_outcome i) s)"
    by (auto simp: poll_refresh_def sp split: if_splits prod.splits sum.splits)
  have once: "poll_once E http_date i sp = (if thread_alive p1 then poll_flush i (s1, p1) else ((s1, p1), []))"
    using False by (simp add: poll_once_def r)
  consider "\<not> thread_alive p1 \<or> \<not> fle (next_flush p1) (poll_now i)"
    | "thread_alive p1" "fle (next_flush p1) (poll_now i)" by blast
  then show ?thesis
  proof cases
    case 1
    then have "poll_once E http_date i sp = ((s1, p1), [])"
      by (auto simp: once poll_flush_def)
    then show ?thesis using idle refreshed s1 False by (auto simp: sp)
  next
    case 2
    then have "poll_once E http_date i sp =
        ((fst (flush_counts (poll_flush_utc i) (poll_flush_outcome i) s1),
          p1\<lparr>next_flush := fadd (poll_flushed i) FLUSH_INTERVAL_SECONDS\<rparr>),
         snd (flush_counts (poll_flush_utc i) (poll_flush_outcome i) s1))"
      by (simp add: once poll_flush_def split: prod.split)
    then show ?thesis using flushed s1 False by (auto simp: sp)
  qed
qed

lemma report_error_fields [simp]:
  "cache_ok (report_error e op s) = cache_ok s"
  "counts_ok (report_error e op s) answers bodies = counts_ok s answers bodies"
  "rt_ruleset (report_error e op s) = rt_ruleset s"
  by (simp_all add: report_error_def cache_ok_def counts_ok_def)

lemma count_answers_fields [simp]:
  "cache_ok (count_answers utc flags s) = cache_ok s"
  "rt_ruleset (count_answers utc flags s) = rt_ruleset s"
  by (simp_all add: count_answers_def cache_ok_def)

lemma flush_counts_fields [simp]:
  "cache_ok (fst (flush_counts utc outcome s)) = cache_ok s"
  "rt_ruleset (fst (flush_counts utc outcome s)) = rt_ruleset s"
proof -
  obtain l where "fst (flush_counts utc outcome s) =
      (if rt_tallies s = [] then s else s\<lparr>rt_tallies := [], rt_window := None, rt_reports := l\<rparr>)"
    using flush_counts_state by blast
  then show "cache_ok (fst (flush_counts utc outcome s)) = cache_ok s"
    "rt_ruleset (fst (flush_counts utc outcome s)) = rt_ruleset s"
    by (simp_all add: cache_ok_def)
qed

lemma process_step_ok:
  fixes E :: "'z pyenv_scheme"
  assumes "process_ok p" shows "process_ok (sdk_event_step E http_date ev p)"
proof -
  have cache: "cache_ok (sdk_runtime p)" and counts: "counts_ok (sdk_runtime p) (sdk_answers p) (sdk_bodies p)"
    using assms by (simp_all add: process_ok_def)
  show ?thesis
  proof (cases ev)
    case (Poll i)
    let ?r = "fst (refresh_once E http_date (poll_mono i) (poll_utc i) (poll_outcome i) (sdk_runtime p))"
    have r: "cache_ok ?r" "counts_ok ?r (sdk_answers p) (sdk_bodies p)"
      using refresh_cache_ok [OF cache] same_frame_counts [OF refresh_frame counts] by blast+
    show ?thesis
    proof (cases rule: poll_once_cases [where E = E and http_date = http_date and i = i
          and sp = "(sdk_runtime p, sdk_poller p)"])
      case idle
      then show ?thesis using assms by (simp add: Poll process_ok_def)
    next
      case refreshed
      then show ?thesis using r by (simp add: Poll process_ok_def)
    next
      case (flushed s q')
      then have "cache_ok s" "counts_ok s (sdk_answers p) (sdk_bodies p)"
        using cache counts r by auto
      with flushed(3) flush_counts_ok show ?thesis
        by (simp add: Poll process_ok_def)
    qed
  next
    case (Ask now utc key user wire)
    show ?thesis
      by (cases rule: answer_flag_cases [where now = now and utc = utc and key = key and user = user
            and wire = wire and s = "sdk_runtime p"])
        (use cache counts count_answers_ok in \<open>simp_all add: Ask process_ok_def\<close>)
  next
    case (Ask_All now utc user wire)
    show ?thesis
      by (cases rule: answer_all_cases [where now = now and utc = utc and user = user
            and wire = wire and s = "sdk_runtime p"])
        (use cache counts count_answers_ok in \<open>simp_all add: Ask_All process_ok_def\<close>)
  next
    case (Close utc outcome)
    let ?s = "(sdk_runtime p)\<lparr>rt_closed := True, rt_attempted := True\<rparr>"
    have "counts_ok ?s (sdk_answers p) (sdk_bodies p)" "cache_ok ?s"
      using counts cache by (simp_all add: counts_ok_def cache_ok_def)
    then show ?thesis
      using flush_counts_ok assms
      by (cases "flush_counts utc outcome ?s")
        (use flush_counts_ok [of ?s "sdk_answers p" "sdk_bodies p" utc outcome]
            flush_counts_fields(1) [of utc outcome ?s] in
          \<open>auto simp: Close close_runtime_def process_ok_def\<close>)
  qed
qed

interpretation sdk_process: invariant_of "sdk_step E http_date" process_ok
  for E :: "'z pyenv_scheme" and http_date
  by unfold_locales (auto elim: sdk_stepE intro: process_step_ok)

lemma new_process_ok: "process_ok (new_process interval max_stale now)"
  by (simp add: process_ok_def new_process_def new_runtime_def cache_ok_def counts_ok_def tallies_ok_def)

lemma forked_process_ok: "process_ok p \<Longrightarrow> process_ok (forked_process now p)"
  by (simp add: process_ok_def forked_process_def after_fork_def cache_ok_def counts_ok_def tallies_ok_def)

section \<open>Without a ruleset, and without a thread\<close>

definition loading :: "sdk_event \<Rightarrow> bool" where
  "loading ev = (case ev of Poll i \<Rightarrow>
     (case poll_outcome i of None \<Rightarrow> False | Some r \<Rightarrow> \<exists>body rs. succeeded_status r \<and>
        response_json r = Inr body \<and> index_ruleset body = Some rs)
   | _ \<Rightarrow> False)"

inductive unloaded_step :: "'z pyenv_scheme \<Rightarrow> (pstr \<Rightarrow> int option) \<Rightarrow> sdk_process \<Rightarrow> sdk_process \<Rightarrow> bool"
  for E http_date where
  "\<not> loading ev \<Longrightarrow> unloaded_step E http_date p (sdk_event_step E http_date ev p)"

lemma step_ruleset:
  fixes E :: "'z pyenv_scheme"
  shows "rt_ruleset (sdk_runtime (sdk_event_step E http_date ev p)) = rt_ruleset (sdk_runtime p) \<or>
    (\<exists>i. ev = Poll i \<and> thread_alive (sdk_poller p) \<and>
      rt_ruleset (sdk_runtime (sdk_event_step E http_date ev p)) =
      rt_ruleset (fst (refresh_once E http_date (poll_mono i) (poll_utc i) (poll_outcome i) (sdk_runtime p))))"
proof (cases ev)
  case (Poll i)
  show ?thesis
    by (cases rule: poll_once_cases [where E = E and http_date = http_date and i = i
          and sp = "(sdk_runtime p, sdk_poller p)"]) (auto simp: Poll)
next
  case (Ask now utc key user wire)
  show ?thesis
    by (cases rule: answer_flag_cases [where now = now and utc = utc and key = key and user = user
          and wire = wire and s = "sdk_runtime p"]) (simp_all add: Ask)
next
  case (Ask_All now utc user wire)
  show ?thesis
    by (cases rule: answer_all_cases [where now = now and utc = utc and user = user
          and wire = wire and s = "sdk_runtime p"]) (simp_all add: Ask_All)
next
  case (Close utc outcome)
  show ?thesis
    using flush_counts_fields(2) [of utc outcome "(sdk_runtime p)\<lparr>rt_closed := True, rt_attempted := True\<rparr>"]
    by (cases "flush_counts utc outcome ((sdk_runtime p)\<lparr>rt_closed := True, rt_attempted := True\<rparr>)")
      (simp add: Close close_runtime_def)
qed

definition without_ruleset :: "sdk_process \<Rightarrow> bool" where
  "without_ruleset p = (rt_ruleset (sdk_runtime p) = None)"

interpretation unloaded: invariant_of "unloaded_step E http_date" without_ruleset
  for E :: "'z pyenv_scheme" and http_date
proof unfold_locales
  fix p q assume none: "without_ruleset p" and "unloaded_step E http_date p q"
  then obtain ev where ev: "\<not> loading ev" "q = sdk_event_step E http_date ev p"
    by (auto elim: unloaded_step.cases)
  consider "rt_ruleset (sdk_runtime q) = rt_ruleset (sdk_runtime p)"
    | i where "ev = Poll i" "rt_ruleset (sdk_runtime q) =
        rt_ruleset (fst (refresh_once E http_date (poll_mono i) (poll_utc i) (poll_outcome i) (sdk_runtime p)))"
    using step_ruleset [of E http_date ev p] ev(2) by blast
  then show "without_ruleset q"
  proof cases
    case 1
    then show ?thesis using none by (simp add: without_ruleset_def)
  next
    case (2 i)
    then show ?thesis
      using none ev(1) refresh_ruleset [of E http_date "poll_mono i" "poll_utc i" "poll_outcome i" "sdk_runtime p"]
      by (auto simp: without_ruleset_def loading_def valid_load_def)
  qed
qed

lemma without_ruleset_defers:
  "without_ruleset p \<Longrightarrow> answer_flag now utc key user wire (sdk_runtime p) = (sdk_runtime p, None) \<and>
     answer_all now utc user wire (sdk_runtime p) = (sdk_runtime p, None)"
  by (simp add: without_ruleset_def answer_flag_def answer_all_def usable_def)

text \<open>Once the thread has ended, nothing refreshes, replaces or discards the ruleset.\<close>

definition thread_ended :: "indexed_ruleset option \<Rightarrow> sdk_process \<Rightarrow> bool" where
  "thread_ended rs p = (\<not> thread_alive (sdk_poller p) \<and> rt_ruleset (sdk_runtime p) = rs)"

interpretation ended: invariant_of "sdk_step E http_date" "thread_ended rs"
  for E :: "'z pyenv_scheme" and http_date and rs
proof unfold_locales
  fix p q assume "thread_ended rs p" and "sdk_step E http_date p q"
  then obtain ev where p: "\<not> thread_alive (sdk_poller p)" "rt_ruleset (sdk_runtime p) = rs"
    and q: "q = sdk_event_step E http_date ev p"
    by (auto simp: thread_ended_def elim: sdk_stepE)
  have "sdk_poller q = sdk_poller p"
    using p(1) by (cases ev) (auto simp: q poll_once_def split: prod.split option.split)
  with step_ruleset [of E http_date ev p] p show "thread_ended rs q"
    by (auto simp: thread_ended_def q)
qed


lemma overflow_ends_thread:
  fixes E :: "'z pyenv_scheme"
  assumes "rt_failures s = 0" and "\<not> rt_closed s" and "length clocks = 1024"
    and "sdk_runtime p = failed_refreshes E http_date clocks s" and "thread_alive (sdk_poller p)"
    and "fle (next_refresh (sdk_poller p)) (poll_now i)" and "poll_outcome i = None"
  shows "thread_ended (rt_ruleset s) (sdk_event_step E http_date (Poll i) p)"
proof -
  have run: "rt_failures (sdk_runtime p) = 1024" "rt_ruleset (sdk_runtime p) = rt_ruleset s"
    "\<not> rt_closed (sdk_runtime p)"
    using failed_refreshes_facts [of E http_date clocks s] assms(1-3)
    by (simp_all add: assms(4) same_frame_def)
  have "snd (refresh_once E http_date (poll_mono i) (poll_utc i) None (sdk_runtime p)) = Inl PyOverflowError"
    by (simp add: network_failure run(1) backoff_raises)
  moreover have "rt_ruleset (fst (refresh_once E http_date (poll_mono i) (poll_utc i) None (sdk_runtime p))) = rt_ruleset s"
    by (simp add: network_failure run(2))
  ultimately show ?thesis
    using assms(5-7) run(3)
    by (cases "refresh_once E http_date (poll_mono i) (poll_utc i) None (sdk_runtime p)")
      (simp add: thread_ended_def poll_once_def poll_refresh_def)
qed

end
