(* ===== verification/Sdk_Client.thy ===== *)
theory Sdk_Client
  imports Sdk_Machine
begin

text \<open>
  The client's flag calls, \<^verbatim>\<open>sdk/python/experimentation/client.py\<close>, over its cache,
  \<^verbatim>\<open>sdk/python/experimentation/cache.py\<close>: a flag is answered locally, from the cache, or by the server.
\<close>

section \<open>The cache\<close>

text \<open>\<^verbatim>\<open>user_id -> key -> (expires_at, value)\<close>\<close>

type_synonym 'v user_key_cache = "(pstr \<times> (pstr \<times> pyfloat \<times> 'v) list) list"

definition cache_get :: "pyfloat \<Rightarrow> pstr \<Rightarrow> pstr \<Rightarrow> 'v user_key_cache \<Rightarrow> 'v user_key_cache \<times> 'v option" where
  "cache_get now user key cache = (case map_of cache user of
       None \<Rightarrow> (cache, None)
     | Some by_key \<Rightarrow>
         (case map_of by_key key of
            None \<Rightarrow> (cache, None)
          | Some (expires_at, v) \<Rightarrow>
              if fle expires_at now then (dict_set user (dict_pop key by_key) cache, None)
              else (cache, Some v)))"

definition cache_set ::
  "pyfloat \<Rightarrow> pyfloat \<Rightarrow> pstr \<Rightarrow> pstr \<Rightarrow> 'v \<Rightarrow> 'v user_key_cache \<Rightarrow> 'v user_key_cache" where
  "cache_set now ttl user key v cache =
     dict_set user (dict_set key (fadd now ttl, v)
       (case map_of cache user of None \<Rightarrow> [] | Some by_key \<Rightarrow> by_key)) cache"

definition cache_entries ::
  "pyfloat \<Rightarrow> pstr \<Rightarrow> 'v user_key_cache \<Rightarrow> 'v user_key_cache \<times> (pstr \<times> 'v) list" where
  "cache_entries now user cache = (case map_of cache user of
       None \<Rightarrow> (cache, [])
     | Some by_key \<Rightarrow>
         (let live = filter (\<lambda>(_, expires_at, _). \<not> fle expires_at now) by_key
          in (dict_set user live cache, map (\<lambda>(key, _, v). (key, v)) live)))"

section \<open>One API call\<close>

text \<open>
  \<^verbatim>\<open>ExperimentationError\<close> with its status, and the exceptions that pass through the client as they are.
\<close>

datatype client_failure = Experimentation_Error "int option" | Uncaught exc

definition retry_after_seconds :: "'z pyenv_scheme \<Rightarrow> http_response \<Rightarrow> pyfloat" where
  "retry_after_seconds E r =
     (let seconds = (case response_header r ''Retry-After'' of
          None \<Rightarrow> Fin 1
        | Some header \<Rightarrow> (case float_text E (strip header) of None \<Rightarrow> Fin 1 | Some x \<Rightarrow> x))
      in py_max (Fin 0) (py_min seconds (Fin 5)))"

text \<open>\<^verbatim>\<open>_request\<close>: \<open>first\<close> and \<open>second\<close> are the outcomes of its two possible requests.\<close>

definition decode_response :: "http_response \<Rightarrow> client_failure + pyval" where
  "decode_response r =
     (if \<not> succeeded_status r then Inl (Experimentation_Error (Some (response_status r)))
      else if response_empty r then Inr PNone
      else (case response_json r of
          Inr body \<Rightarrow> Inr body
        | Inl e \<Rightarrow>
            if e = PyValueError then Inl (Experimentation_Error (Some (response_status r)))
            else Inl (Uncaught e)))"

definition request_json :: "http_response option \<Rightarrow> http_response option \<Rightarrow> client_failure + pyval" where
  "request_json first second = (case first of
       None \<Rightarrow> Inl (Experimentation_Error None)
     | Some r \<Rightarrow>
         if response_status r = 429
         then (case second of None \<Rightarrow> Inl (Experimentation_Error None) | Some r' \<Rightarrow> decode_response r')
         else decode_response r)"

section \<open>The client\<close>

record flag_evaluation =
  fe_key :: pstr
  fe_enabled :: bool
  fe_config :: pyval
  fe_reason :: "pstr option"
  fe_source :: "pstr option"

record client_assignment =
  ca_experiment :: pstr
  ca_user :: pstr
  ca_variant_id :: "pstr option"
  ca_variant :: pstr
  ca_control :: bool
  ca_configuration :: pyval
  ca_assigned :: "bool option"
  ca_reason :: "pstr option"

record sdk_client =
  cl_local :: "runtime option"
  cl_flags :: "flag_evaluation user_key_cache"
  cl_assignments :: "client_assignment user_key_cache"
  cl_ttl :: pyfloat
  cl_default_variant :: pstr

text \<open>
  \<^verbatim>\<open>__init__\<close>: the intervals it accepts, and the client it makes. An interval that is negative or not
  finite, or a limit on staleness that is not positive, is a \<^verbatim>\<open>ValueError\<close>.
\<close>

definition new_client ::
  "bool \<Rightarrow> pyfloat \<Rightarrow> pyfloat option \<Rightarrow> pyfloat \<Rightarrow> pstr \<Rightarrow> sdk_client res" where
  "new_client local_mode interval max_stale ttl default_variant =
     (if local_mode \<and> \<not> (fle (Fin 0) interval \<and> flt interval PInf) then Inl PyValueError
      else if local_mode \<and> (case max_stale of None \<Rightarrow> False | Some limit \<Rightarrow> \<not> flt (Fin 0) limit)
      then Inl PyValueError
      else Inr \<lparr>cl_local = (if local_mode
             then Some (new_runtime (py_max interval MIN_REFRESH_INTERVAL_SECONDS) max_stale) else None),
           cl_flags = [], cl_assignments = [], cl_ttl = ttl, cl_default_variant = default_variant\<rparr>)"

definition SOURCE_LOCAL :: pstr where "SOURCE_LOCAL = str ''local''"
definition SOURCE_SERVER :: pstr where "SOURCE_SERVER = str ''server''"

definition reason_text :: "flag_reason \<Rightarrow> pstr" where
  "reason_text r = (case r of
       REASON_TARGETING_RULE \<Rightarrow> str ''targeting_rule'' | REASON_ROLLOUT \<Rightarrow> str ''rollout''
     | REASON_INACTIVE \<Rightarrow> str ''inactive'' | REASON_ERROR \<Rightarrow> str ''error'')"

definition local_evaluation_of :: "pstr \<Rightarrow> local_answer \<Rightarrow> flag_evaluation" where
  "local_evaluation_of key ans = \<lparr>fe_key = key, fe_enabled = local_enabled ans, fe_config = PNone,
     fe_reason = Some (reason_text (local_reason ans)), fe_source = Some SOURCE_LOCAL\<rparr>"

definition server_evaluation_of ::
  "'z pyenv_scheme \<Rightarrow> bool \<Rightarrow> pstr \<Rightarrow> pyval \<Rightarrow> client_failure + flag_evaluation" where
  "server_evaluation_of E local_mode key data = (case data of
       PDict d \<Rightarrow> Inr \<lparr>
         fe_key = (if truthy (dget d ''key'') then py_str E (dget d ''key'') else key),
         fe_enabled = truthy (dget d ''enabled''),
         fe_config = dget d ''config'',
         fe_reason = (case dget d ''reason'' of PStr s \<Rightarrow> Some s | _ \<Rightarrow> None),
         fe_source = (if local_mode then Some SOURCE_SERVER else None)\<rparr>
     | _ \<Rightarrow> Inl (Experimentation_Error (Some 200)))"

text \<open>
  What a call meets: the clock readings of the runtime, of the cache's lookup and of its store, the
  attributes as \<open>to_wire_context\<close> leaves them and as \<^verbatim>\<open>_context_param\<close> serialises them, and the
  outcomes of the requests.
\<close>

record flag_call =
  fc_now :: pyfloat
  fc_utc :: int
  fc_looked :: pyfloat
  fc_stored :: pyfloat
  fc_wire :: "(pstr \<times> pyval) list option option res"
  fc_param :: "unit res"
  fc_first :: "http_response option"
  fc_second :: "http_response option"

definition try_local :: "flag_call \<Rightarrow> pstr \<Rightarrow> pstr \<Rightarrow> sdk_client \<Rightarrow> sdk_client \<times> local_answer option" where
  "try_local c key user cl = (case cl_local cl of
       None \<Rightarrow> (cl, None)
     | Some s \<Rightarrow>
         (case answer_flag (fc_now c) (fc_utc c) key user (fc_wire c) s of
            (s', out) \<Rightarrow> (cl\<lparr>cl_local := Some s'\<rparr>, out)))"

definition ask_server ::
  "'z pyenv_scheme \<Rightarrow> flag_call \<Rightarrow> pstr \<Rightarrow> pstr \<Rightarrow> sdk_client \<Rightarrow>
     sdk_client \<times> (client_failure + flag_evaluation)" where
  "ask_server E c key user cl = (case fc_param c of
       Inl e \<Rightarrow> (cl, Inl (Uncaught e))
     | Inr _ \<Rightarrow>
         (case ebind (request_json (fc_first c) (fc_second c))
             (server_evaluation_of E (cl_local cl \<noteq> None) key) of
            Inl f \<Rightarrow> (cl, Inl f)
          | Inr ev \<Rightarrow> (cl\<lparr>cl_flags := cache_set (fc_stored c) (cl_ttl cl) user key ev (cl_flags cl)\<rparr>, Inr ev)))"

definition get_feature_flag ::
  "'z pyenv_scheme \<Rightarrow> flag_call \<Rightarrow> pstr \<Rightarrow> pstr \<Rightarrow> sdk_client \<Rightarrow>
     sdk_client \<times> (client_failure + flag_evaluation)" where
  "get_feature_flag E c key user cl = (case try_local c key user cl of
       (cl1, Some ans) \<Rightarrow>
         (cl1\<lparr>cl_flags := cache_set (fc_stored c) (cl_ttl cl1) user key (local_evaluation_of key ans) (cl_flags cl1)\<rparr>,
          Inr (local_evaluation_of key ans))
     | (cl1, None) \<Rightarrow>
         (case cache_get (fc_looked c) user key (cl_flags cl1) of
            (flags, Some ev) \<Rightarrow> (cl1\<lparr>cl_flags := flags\<rparr>, Inr ev)
          | (flags, None) \<Rightarrow> ask_server E c key user (cl1\<lparr>cl_flags := flags\<rparr>)))"

definition is_feature_enabled ::
  "'z pyenv_scheme \<Rightarrow> flag_call \<Rightarrow> pstr \<Rightarrow> pstr \<Rightarrow> sdk_client \<Rightarrow> sdk_client \<times> bool res" where
  "is_feature_enabled E c key user cl = (case get_feature_flag E c key user cl of
       (cl', Inr ev) \<Rightarrow> (cl', Inr (fe_enabled ev))
     | (cl', Inl (Experimentation_Error _)) \<Rightarrow> (cl', Inr False)
     | (cl', Inl (Uncaught e)) \<Rightarrow> (cl', Inl e))"

definition all_flags_of :: "pyval \<Rightarrow> (pstr \<times> bool) list" where
  "all_flags_of data = (case data of
       PDict d \<Rightarrow> map (\<lambda>(key, v). (key, truthy v)) d | _ \<Rightarrow> [])"

definition get_all_flags ::
  "flag_call \<Rightarrow> pstr \<Rightarrow> sdk_client \<Rightarrow>
     sdk_client \<times> (client_failure + (pstr \<times> bool) list)" where
  "get_all_flags c user cl =
     (case (case cl_local cl of
        None \<Rightarrow> (cl, None)
      | Some s \<Rightarrow>
          (case answer_all (fc_now c) (fc_utc c) user (fc_wire c) s of
             (s', out) \<Rightarrow> (cl\<lparr>cl_local := Some s'\<rparr>, out))) of
        (cl1, Some flags) \<Rightarrow> (cl1, Inr flags)
      | (cl1, None) \<Rightarrow>
          (case fc_param c of
             Inl e \<Rightarrow> (cl1, Inl (Uncaught e))
           | Inr _ \<Rightarrow> (cl1, emap all_flags_of (request_json (fc_first c) (fc_second c)))))"

section \<open>Assignments\<close>

definition client_assignment_of :: "'z pyenv_scheme \<Rightarrow> pstr \<Rightarrow> pstr \<Rightarrow> pyval \<Rightarrow> client_failure + client_assignment" where
  "client_assignment_of E key user data = (case data of
       PDict d \<Rightarrow>
         (case dget d ''variant_name'' of
            PStr name \<Rightarrow> Inr \<lparr>
              ca_experiment = (if truthy (dget d ''experiment_key'') then py_str E (dget d ''experiment_key'') else key),
              ca_user = (if truthy (dget d ''user_id'') then py_str E (dget d ''user_id'') else user),
              ca_variant_id = (if dget d ''variant_id'' = PNone then None else Some (py_str E (dget d ''variant_id''))),
              ca_variant = name,
              ca_control = truthy (dget d ''is_control''),
              ca_configuration = dget d ''configuration'',
              ca_assigned = (case dget d ''assigned'' of PBool b \<Rightarrow> Some b | _ \<Rightarrow> None),
              ca_reason = (case dget d ''reason'' of PStr s \<Rightarrow> Some s | _ \<Rightarrow> None)\<rparr>
          | _ \<Rightarrow> Inl (Experimentation_Error (Some 200)))
     | _ \<Rightarrow> Inl (Experimentation_Error (Some 200)))"

definition get_assignment ::
  "'z pyenv_scheme \<Rightarrow> flag_call \<Rightarrow> pstr \<Rightarrow> pstr \<Rightarrow> sdk_client \<Rightarrow>
     sdk_client \<times> (client_failure + client_assignment)" where
  "get_assignment E c key user cl = (case cache_get (fc_looked c) user key (cl_assignments cl) of
       (assignments, Some a) \<Rightarrow> (cl\<lparr>cl_assignments := assignments\<rparr>, Inr a)
     | (assignments, None) \<Rightarrow>
         (let cl1 = cl\<lparr>cl_assignments := assignments\<rparr> in
          case fc_param c of
            Inl e \<Rightarrow> (cl1, Inl (Uncaught e))
          | Inr _ \<Rightarrow>
              (case ebind (request_json (fc_first c) (fc_second c)) (client_assignment_of E key user) of
                 Inl f \<Rightarrow> (cl1, Inl f)
               | Inr a \<Rightarrow> (cl1\<lparr>cl_assignments :=
                   cache_set (fc_stored c) (cl_ttl cl1) user key a (cl_assignments cl1)\<rparr>, Inr a))))"

definition get_variant ::
  "'z pyenv_scheme \<Rightarrow> flag_call \<Rightarrow> pstr \<Rightarrow> pstr \<Rightarrow> sdk_client \<Rightarrow> sdk_client \<times> pstr res" where
  "get_variant E c key user cl = (case get_assignment E c key user cl of
       (cl', Inr a) \<Rightarrow> (cl', Inr (ca_variant a))
     | (cl', Inl (Experimentation_Error _)) \<Rightarrow> (cl', Inr (cl_default_variant cl))
     | (cl', Inl (Uncaught e)) \<Rightarrow> (cl', Inl e))"

definition cached_assignments :: "pyfloat \<Rightarrow> pstr \<Rightarrow> sdk_client \<Rightarrow> client_assignment list" where
  "cached_assignments now user cl = map snd (snd (cache_entries now user (cl_assignments cl)))"

definition cached_flags :: "pyfloat \<Rightarrow> pstr \<Rightarrow> sdk_client \<Rightarrow> flag_evaluation list" where
  "cached_flags now user cl = map snd (snd (cache_entries now user (cl_flags cl)))"

definition clear_cache :: "sdk_client \<Rightarrow> sdk_client" where
  "clear_cache cl = cl\<lparr>cl_flags := [], cl_assignments := []\<rparr>"

section \<open>Facts about the cache\<close>

lemma cache_set_get:
  "\<not> fle (fadd now ttl) now' \<Longrightarrow>
   cache_get now' user key (cache_set now ttl user key v cache) = (cache_set now ttl user key v cache, Some v)"
  by (simp add: cache_get_def cache_set_def)

lemma cache_set_other:
  "user' \<noteq> user \<or> key' \<noteq> key \<Longrightarrow>
   snd (cache_get now' user' key' (cache_set now ttl user key v cache)) = snd (cache_get now' user' key' cache)"
  by (auto simp: cache_get_def cache_set_def split: option.split)

lemma cache_get_expired:
  "snd (cache_get now user key cache) = Some v \<Longrightarrow>
   \<exists>by_key expires_at. map_of cache user = Some by_key \<and> map_of by_key key = Some (expires_at, v) \<and> \<not> fle expires_at now"
  by (auto simp: cache_get_def split: option.splits if_splits)

section \<open>Where an answer comes from\<close>

lemma get_feature_flag_local:
  assumes "cl_local cl = Some s"
    and "snd (answer_flag (fc_now c) (fc_utc c) key user (fc_wire c) s) = Some ans"
  shows "snd (get_feature_flag E c key user cl) = Inr (local_evaluation_of key ans) \<and>
    cl_flags (fst (get_feature_flag E c key user cl)) =
      cache_set (fc_stored c) (cl_ttl cl) user key (local_evaluation_of key ans) (cl_flags cl)"
  using assms by (cases "answer_flag (fc_now c) (fc_utc c) key user (fc_wire c) s")
    (simp add: get_feature_flag_def try_local_def)

lemma try_local_flags: "cl_flags (fst (try_local c key user cl)) = cl_flags cl"
  by (simp add: try_local_def split: option.split prod.split)

text \<open>A call that is not answered locally reads the cache first: a live entry is returned as it is.\<close>

lemma get_feature_flag_cached:
  assumes "snd (try_local c key user cl) = None"
    and "snd (cache_get (fc_looked c) user key (cl_flags cl)) = Some ev"
  shows "snd (get_feature_flag E c key user cl) = Inr ev"
  using assms try_local_flags [of c key user cl]
  by (cases "try_local c key user cl"; cases "cache_get (fc_looked c) user key (cl_flags cl)")
    (simp add: get_feature_flag_def)

lemma get_feature_flag_server:
  assumes "snd (try_local c key user cl) = None"
    and "snd (cache_get (fc_looked c) user key (cl_flags cl)) = None" and "fc_param c = Inr ()"
  shows "snd (get_feature_flag E c key user cl) =
    ebind (request_json (fc_first c) (fc_second c)) (server_evaluation_of E (cl_local cl \<noteq> None) key)"
proof -
  have "(cl_local (fst (try_local c key user cl)) \<noteq> None) = (cl_local cl \<noteq> None)"
    by (simp add: try_local_def split: option.split prod.split)
  then show ?thesis
    using assms try_local_flags [of c key user cl]
    by (cases "try_local c key user cl"; cases "cache_get (fc_looked c) user key (cl_flags cl)")
      (simp add: get_feature_flag_def ask_server_def split: sum.split)
qed


text \<open>An accepted configuration refreshes no more often than every five seconds.\<close>

lemma new_client_interval:
  assumes "new_client True interval max_stale ttl d = Inr cl" and "interval = Fin q" and "fl q = Fin q"
  shows "\<exists>s. cl_local cl = Some s \<and> interval_ok (rt_interval s)"
proof -
  have "fl 5 = Fin 5" using fl_of_int_exact [of 5] by simp
  then show ?thesis
    using assms by (auto simp: new_client_def new_runtime_def interval_ok_def py_max_def
        MIN_REFRESH_INTERVAL_SECONDS_def split: if_splits)
qed

text \<open>A failed assignment is not cached, and the convenience call answers the default variant.\<close>

lemma get_variant_default:
  assumes "snd (cache_get (fc_looked c) user key (cl_assignments cl)) = None" and "fc_param c = Inr ()"
    and "request_json (fc_first c) (fc_second c) = Inl (Experimentation_Error status)"
  shows "snd (get_variant E c key user cl) = Inr (cl_default_variant cl) \<and>
    cl_assignments (fst (get_variant E c key user cl)) = fst (cache_get (fc_looked c) user key (cl_assignments cl))"
  using assms by (cases "cache_get (fc_looked c) user key (cl_assignments cl)")
    (simp add: get_variant_def get_assignment_def Let_def)

end
