(* ===== verification/Evaluation_Reports.thy ===== *)
theory Evaluation_Reports
  imports Sdk_Machine
begin

text \<open>
  The server's side of the SDK's counts: the request schema of
  \<^verbatim>\<open>backend/app/api/v1/endpoints/flag_evaluations.py\<close> and
  \<^verbatim>\<open>backend/app/services/sdk_evaluation_service.py\<close>, which takes a report through two per-minute
  ceilings and writes one metric row per flag. Times are microseconds of naive UTC. A request is one
  transaction: the row locks of its upserts are held until it commits, so requests that meet in a
  counter run one after the other.
\<close>

section \<open>The request\<close>

definition MAX_ENTRIES :: nat where "MAX_ENTRIES = 1000"
definition MAX_COUNT :: int where "MAX_COUNT = 1000000"
definition MAX_WINDOW :: int where "MAX_WINDOW = 10 * 60 * 1000000"

record evaluation_report =
  er_key :: pstr
  er_count :: int
  er_enabled :: int
  er_start :: int
  er_end :: int

definition valid_flag_key :: "pstr \<Rightarrow> bool" where
  "valid_flag_key key = (1 \<le> length key \<and> length key \<le> 100 \<and> \<not> unstorable_text key)"

definition consistent_count :: "evaluation_report \<Rightarrow> bool" where
  "consistent_count r =
     (if er_enabled r > er_count r then False
      else if er_end r < er_start r then False
      else if er_end r - er_start r > MAX_WINDOW then False
      else True)"

definition valid_count :: "evaluation_report \<Rightarrow> bool" where
  "valid_count r = (valid_flag_key (er_key r) \<and> 1 \<le> er_count r \<and> er_count r \<le> MAX_COUNT \<and>
     0 \<le> er_enabled r \<and> consistent_count r)"

definition valid_report :: "evaluation_report list \<Rightarrow> bool" where
  "valid_report body = (1 \<le> length body \<and> length body \<le> MAX_ENTRIES \<and> list_all valid_count body)"

text \<open>An entry of the SDK as the schema reads it from the JSON body.\<close>

definition received_entry :: "count_entry \<Rightarrow> evaluation_report" where
  "received_entry e = \<lparr>er_key = ce_key e, er_count = int (ce_count e), er_enabled = int (ce_enabled e),
     er_start = ce_start e, er_end = ce_end e\<rparr>"

section \<open>The service\<close>

definition KEY_MINUTE_CEILING :: int where "KEY_MINUTE_CEILING = 100000"
definition FLAG_MINUTE_CEILING :: int where "FLAG_MINUTE_CEILING = 1000000"
definition COUNTER_RETENTION :: int where "COUNTER_RETENTION = 5 * 60 * 1000000"

record metric_row =
  mr_flag :: pstr
  mr_time :: int
  mr_count :: int
  mr_api_key :: pstr
  mr_requested :: int
  mr_enabled :: int
  mr_start :: int
  mr_end :: int

text \<open>
  The tables. A counter has no row until its first report: \<open>key_counts (api_key, flag_key, minute)\<close> and
  \<open>flag_counts (flag_key, minute)\<close>.
\<close>

record report_db =
  key_counts :: "pstr \<times> pstr \<times> int \<Rightarrow> int option"
  flag_counts :: "pstr \<times> int \<Rightarrow> int option"
  metric_rows :: "metric_row list"

datatype report_code = Unknown_Flag | Over_Ceiling

record report_problem =
  rp_key :: pstr
  rp_code :: report_code
  rp_requested :: int
  rp_accepted :: int

record report_result =
  rr_accepted :: int
  rr_errors :: "report_problem list"

definition minute_of :: "int \<Rightarrow> int" where "minute_of moment = moment - moment mod 60000000"

definition newly_accepted :: "int \<Rightarrow> int \<Rightarrow> int \<Rightarrow> int" where
  "newly_accepted total_after added cap =
     (let before = total_after - added in max 0 (min total_after cap - min before cap))"

text \<open>\<^verbatim>\<open>INSERT ... ON CONFLICT DO UPDATE ... RETURNING\<close>: the running total after the addition.\<close>

definition counter_total :: "('k \<Rightarrow> int option) \<Rightarrow> 'k \<Rightarrow> int" where
  "counter_total table k = (case table k of None \<Rightarrow> 0 | Some n \<Rightarrow> n)"

definition reserve_for_key :: "pstr \<Rightarrow> pstr \<Rightarrow> int \<Rightarrow> int \<Rightarrow> report_db \<Rightarrow> report_db \<times> int" where
  "reserve_for_key api key minute count db =
     (let total = counter_total (key_counts db) (api, key, minute) + count
      in (db\<lparr>key_counts := (key_counts db)((api, key, minute) \<mapsto> total)\<rparr>,
          newly_accepted total count KEY_MINUTE_CEILING))"

definition reserve_for_flag :: "pstr \<Rightarrow> int \<Rightarrow> int \<Rightarrow> report_db \<Rightarrow> report_db \<times> int" where
  "reserve_for_flag key minute count db =
     (let total = counter_total (flag_counts db) (key, minute) + count
      in (db\<lparr>flag_counts := (flag_counts db)((key, minute) \<mapsto> total)\<rparr>,
          newly_accepted total count FLAG_MINUTE_CEILING))"

definition reserve :: "pstr \<Rightarrow> pstr \<Rightarrow> int \<Rightarrow> int \<Rightarrow> report_db \<Rightarrow> report_db \<times> int" where
  "reserve api key minute count db =
     (if count \<le> 0 then (db, 0)
      else (case reserve_for_key api key minute count db of (db', through_key) \<Rightarrow>
        if through_key = 0 then (db', 0) else reserve_for_flag key minute through_key db'))"

text \<open>
  \<^verbatim>\<open>_prune\<close>: deletes a batch of the expired counters, skipping locked ones. Which ones is not
  determined: \<open>kv\<close> and \<open>fv\<close> are the rows it picks.
\<close>

definition prune ::
  "(pstr \<times> pstr \<times> int \<Rightarrow> bool) \<Rightarrow> (pstr \<times> int \<Rightarrow> bool) \<Rightarrow> int \<Rightarrow> report_db \<Rightarrow> report_db" where
  "prune kv fv minute db =
     (let cutoff = minute - COUNTER_RETENTION
      in db\<lparr>key_counts := (\<lambda>k. if snd (snd k) < cutoff \<and> kv k then None else key_counts db k),
            flag_counts := (\<lambda>k. if snd k < cutoff \<and> fv k then None else flag_counts db k)\<rparr>)"

definition merge_into ::
  "(pstr \<times> evaluation_report) list \<Rightarrow> evaluation_report \<Rightarrow> (pstr \<times> evaluation_report) list" where
  "merge_into merged r = (case map_of merged (er_key r) of
       None \<Rightarrow> dict_set (er_key r) r merged
     | Some seen \<Rightarrow> dict_set (er_key r)
         \<lparr>er_key = er_key r, er_count = er_count seen + er_count r,
          er_enabled = er_enabled seen + er_enabled r,
          er_start = min (er_start seen) (er_start r), er_end = max (er_end seen) (er_end r)\<rparr> merged)"

definition merge_reports :: "evaluation_report list \<Rightarrow> evaluation_report list" where
  "merge_reports reports = map snd (sort_key fst (foldl merge_into [] reports))"

text \<open>The body of the loop of \<^verbatim>\<open>record_local_evaluations\<close>; \<open>ids\<close> is the lookup of the flags' ids.\<close>

definition record_report ::
  "(pstr \<Rightarrow> pstr option) \<Rightarrow> pstr \<Rightarrow> int \<Rightarrow> report_db \<times> report_result \<Rightarrow> evaluation_report \<Rightarrow>
     report_db \<times> report_result" where
  "record_report ids api now st r = (case st of (db, res) \<Rightarrow>
     (case ids (er_key r) of
        None \<Rightarrow> (db, res\<lparr>rr_errors := rr_errors res @
          [\<lparr>rp_key = er_key r, rp_code = Unknown_Flag, rp_requested = er_count r, rp_accepted = 0\<rparr>]\<rparr>)
      | Some fid \<Rightarrow>
          (case reserve api (er_key r) (minute_of now) (er_count r) db of (db', accepted) \<Rightarrow>
             (if accepted > 0
              then db'\<lparr>metric_rows := metric_rows db' @
                [\<lparr>mr_flag = fid, mr_time = now, mr_count = accepted, mr_api_key = api,
                  mr_requested = er_count r, mr_enabled = er_enabled r,
                  mr_start = er_start r, mr_end = er_end r\<rparr>]\<rparr>
              else db',
              \<lparr>rr_accepted = rr_accepted res + (if accepted > 0 then accepted else 0),
               rr_errors = rr_errors res @
                 (if accepted < er_count r
                  then [\<lparr>rp_key = er_key r, rp_code = Over_Ceiling, rp_requested = er_count r,
                         rp_accepted = accepted\<rparr>]
                  else [])\<rparr>))))"

definition record_local_evaluations ::
  "(pstr \<Rightarrow> pstr option) \<Rightarrow> (pstr \<times> pstr \<times> int \<Rightarrow> bool) \<Rightarrow> (pstr \<times> int \<Rightarrow> bool) \<Rightarrow> pstr \<Rightarrow> int \<Rightarrow>
     evaluation_report list \<Rightarrow> report_db \<Rightarrow> report_db \<times> report_result" where
  "record_local_evaluations ids kv fv api now reports db =
     (case foldl (record_report ids api now) (db, \<lparr>rr_accepted = 0, rr_errors = []\<rparr>) (merge_reports reports) of
        (db', res) \<Rightarrow> (prune kv fv (minute_of now) db', res))"

text \<open>The route: \<open>None\<close> is the 422 of a body that is not valid.\<close>

definition report_flag_evaluations ::
  "(pstr \<Rightarrow> pstr option) \<Rightarrow> (pstr \<times> pstr \<times> int \<Rightarrow> bool) \<Rightarrow> (pstr \<times> int \<Rightarrow> bool) \<Rightarrow> pstr \<Rightarrow> int \<Rightarrow>
     evaluation_report list \<Rightarrow> report_db \<Rightarrow> report_db \<times> report_result option" where
  "report_flag_evaluations ids kv fv api now body db =
     (if \<not> valid_report body then (db, None)
      else (case record_local_evaluations ids kv fv api now body db of (db', res) \<Rightarrow> (db', Some res)))"

definition empty_report_db :: report_db where
  "empty_report_db = \<lparr>key_counts = Map.empty, flag_counts = Map.empty, metric_rows = []\<rparr>"

section \<open>Runs\<close>

text \<open>A request, stamped \<open>now\<close> on entry, is one transaction; it prunes any expired counters.\<close>

inductive report_step :: "(pstr \<Rightarrow> pstr option) \<Rightarrow> int \<Rightarrow> report_db \<Rightarrow> report_db \<Rightarrow> bool" for ids now where
  report_received: "report_step ids now db (fst (report_flag_evaluations ids kv fv api now body db))"

inductive_cases report_stepE: "report_step ids now db db'"

text \<open>
  Requests in time, an assumption the service does not check: none commits after another that was
  stamped more than the retention of the counters later. The state carries the latest minute stamped.
\<close>

inductive timely_report_step ::
  "(pstr \<Rightarrow> pstr option) \<Rightarrow> report_db \<times> int \<Rightarrow> report_db \<times> int \<Rightarrow> bool" for ids where
  timely_report: "report_step ids now db db' \<Longrightarrow> latest \<le> minute_of now + COUNTER_RETENTION \<Longrightarrow>
    timely_report_step ids (db, latest) (db', max latest (minute_of now))"

section \<open>Accounts\<close>

definition recorded_for_flag :: "pstr \<Rightarrow> int \<Rightarrow> report_db \<Rightarrow> int" where
  "recorded_for_flag fid minute db = sum_list (map mr_count
     (filter (\<lambda>r. mr_flag r = fid \<and> minute_of (mr_time r) = minute) (metric_rows db)))"

definition recorded_for_key :: "pstr \<Rightarrow> pstr \<Rightarrow> int \<Rightarrow> report_db \<Rightarrow> int" where
  "recorded_for_key api fid minute db = sum_list (map mr_count
     (filter (\<lambda>r. mr_api_key r = api \<and> mr_flag r = fid \<and> minute_of (mr_time r) = minute) (metric_rows db)))"

definition recorded_total :: "pstr \<Rightarrow> report_db \<Rightarrow> int" where
  "recorded_total fid db = sum_list (map mr_count (filter (\<lambda>r. mr_flag r = fid) (metric_rows db)))"

definition requested_for :: "pstr \<Rightarrow> evaluation_report list \<Rightarrow> int" where
  "requested_for key reports = sum_list (map er_count (filter (\<lambda>r. er_key r = key) reports))"

end
