(* ===== verification/Evaluation_Reports_Facts.thy ===== *)
theory Evaluation_Reports_Facts
  imports Evaluation_Reports "HOL-Library.Multiset"
begin

text \<open>
  The ceilings hold in every reachable state; every evaluation a report requests is recorded or
  reported back; and what an SDK sends is valid, unless its wall clock was set back.
\<close>

section \<open>Reservations\<close>

lemma newly_accepted_bounds:
  "0 \<le> added \<Longrightarrow> 0 \<le> newly_accepted tot added cap \<and> newly_accepted tot added cap \<le> added"
  by (auto simp: newly_accepted_def Let_def min_def max_def)

text \<open>The accepted parts add up to the total, capped.\<close>

lemma newly_accepted_telescopes:
  "0 \<le> added \<Longrightarrow> min (tot - added) cap + newly_accepted tot added cap = min tot cap"
  by (auto simp: newly_accepted_def Let_def min_def max_def)

lemma counter_total_upd [simp]:
  "counter_total (table(k \<mapsto> n)) k' = (if k' = k then n else counter_total table k')"
  by (simp add: counter_total_def)

text \<open>
  What the tables promise for the minutes from \<open>low\<close> on, whose counters are not pruned: a flag's rows
  add up to its counter, capped, and those of one key to no more than the key's, capped.
\<close>

definition counters_ok :: "(pstr \<Rightarrow> pstr option) \<Rightarrow> int \<Rightarrow> report_db \<Rightarrow> bool" where
  "counters_ok ids low db =
     ((\<forall>key fid minute. low \<le> minute \<longrightarrow> ids key = Some fid \<longrightarrow>
        recorded_for_flag fid minute db = min (counter_total (flag_counts db) (key, minute)) FLAG_MINUTE_CEILING \<and>
        (\<forall>api. recorded_for_key api fid minute db \<le>
          min (counter_total (key_counts db) (api, key, minute)) KEY_MINUTE_CEILING)))"

definition caps_ok :: "report_db \<Rightarrow> bool" where
  "caps_ok db = (\<forall>fid minute. recorded_for_flag fid minute db \<le> FLAG_MINUTE_CEILING \<and>
     (\<forall>api. recorded_for_key api fid minute db \<le> KEY_MINUTE_CEILING))"

definition ids_distinct :: "(pstr \<Rightarrow> pstr option) \<Rightarrow> bool" where
  "ids_distinct ids = (\<forall>k k' i. ids k = Some i \<longrightarrow> ids k' = Some i \<longrightarrow> k = k')"

lemma reserve_cases:
  assumes "reserve api key minute amount db = (db', accepted)" "0 < amount"
  obtains through where "0 \<le> through" "through \<le> amount" "0 \<le> accepted" "accepted \<le> through"
    "min (counter_total (key_counts db) (api, key, minute)) KEY_MINUTE_CEILING + through =
     min (counter_total (key_counts db) (api, key, minute) + amount) KEY_MINUTE_CEILING"
    "min (counter_total (flag_counts db) (key, minute)) FLAG_MINUTE_CEILING + accepted =
     min (counter_total (flag_counts db) (key, minute) + through) FLAG_MINUTE_CEILING"
    "metric_rows db' = metric_rows db"
    "\<And>k. counter_total (key_counts db') k = counter_total (key_counts db) k + (if k = (api, key, minute) then amount else 0)"
    "\<And>k. counter_total (flag_counts db') k = counter_total (flag_counts db) k + (if k = (key, minute) then through else 0)"
proof -
  let ?K = "counter_total (key_counts db) (api, key, minute)"
  let ?F = "counter_total (flag_counts db) (key, minute)"
  define through where "through = newly_accepted (?K + amount) amount KEY_MINUTE_CEILING"
  have t: "0 \<le> through" "through \<le> amount"
    "min ?K KEY_MINUTE_CEILING + through = min (?K + amount) KEY_MINUTE_CEILING"
    using assms(2) newly_accepted_bounds [of amount "?K + amount" KEY_MINUTE_CEILING]
      newly_accepted_telescopes [of amount "?K + amount" KEY_MINUTE_CEILING]
    by (simp_all add: through_def)
  show thesis
  proof (cases "through = 0")
    case True
    then show ?thesis
      using assms that [of 0] t
      by (auto simp: reserve_def reserve_for_key_def Let_def through_def [symmetric])
  next
    case False
    have step: "accepted = newly_accepted (?F + through) through FLAG_MINUTE_CEILING"
      "db' = db\<lparr>key_counts := (key_counts db)((api, key, minute) \<mapsto> ?K + amount),
                flag_counts := (flag_counts db)((key, minute) \<mapsto> ?F + through)\<rparr>"
      using assms False by (auto simp: reserve_def reserve_for_key_def reserve_for_flag_def Let_def
          through_def [symmetric])
    have a: "0 \<le> accepted" "accepted \<le> through"
      "min ?F FLAG_MINUTE_CEILING + accepted = min (?F + through) FLAG_MINUTE_CEILING"
      using t newly_accepted_bounds [of through "?F + through" FLAG_MINUTE_CEILING]
        newly_accepted_telescopes [of through "?F + through" FLAG_MINUTE_CEILING]
      by (simp_all add: step(1))
    show ?thesis
      by (rule that [OF t(1,2) a(1,2) t(3) a(3)]) (simp_all add: step(2))
  qed
qed

lemma reserve_nothing: "amount \<le> 0 \<Longrightarrow> reserve api key minute amount db = (db, 0)"
  by (simp add: reserve_def)

section \<open>One merged report\<close>

lemma recorded_append:
  "recorded_for_flag i m (db\<lparr>metric_rows := rows @ [r]\<rparr>) = recorded_for_flag i m (db\<lparr>metric_rows := rows\<rparr>) +
     (if mr_flag r = i \<and> minute_of (mr_time r) = m then mr_count r else 0)"
  "recorded_for_key a i m (db\<lparr>metric_rows := rows @ [r]\<rparr>) = recorded_for_key a i m (db\<lparr>metric_rows := rows\<rparr>) +
     (if mr_api_key r = a \<and> mr_flag r = i \<and> minute_of (mr_time r) = m then mr_count r else 0)"
  "recorded_total i (db\<lparr>metric_rows := rows @ [r]\<rparr>) = recorded_total i (db\<lparr>metric_rows := rows\<rparr>) +
     (if mr_flag r = i then mr_count r else 0)"
  by (simp_all add: recorded_for_flag_def recorded_for_key_def recorded_total_def)

lemma recorded_rows:
  "metric_rows db' = metric_rows db \<Longrightarrow> recorded_for_flag i m db' = recorded_for_flag i m db"
  "metric_rows db' = metric_rows db \<Longrightarrow> recorded_for_key a i m db' = recorded_for_key a i m db"
  "metric_rows db' = metric_rows db \<Longrightarrow> recorded_total i db' = recorded_total i db"
  by (simp_all add: recorded_for_flag_def recorded_for_key_def recorded_total_def)

text \<open>The effect of one report of the merged list on every account.\<close>

lemma record_report_cases:
  assumes "record_report ids api now (db, res) r = (db', res')" and "0 \<le> er_count r"
  obtains (unknown) "ids (er_key r) = None" "db' = db" "rr_accepted res' = rr_accepted res"
      "rr_errors res' = rr_errors res @ [\<lparr>rp_key = er_key r, rp_code = Unknown_Flag,
         rp_requested = er_count r, rp_accepted = 0\<rparr>]"
  | (known) fid accepted where "ids (er_key r) = Some fid"
      "0 \<le> accepted" "accepted \<le> er_count r"
      "snd (reserve api (er_key r) (minute_of now) (er_count r) db) = accepted"
      "key_counts db' = key_counts (fst (reserve api (er_key r) (minute_of now) (er_count r) db))"
      "flag_counts db' = flag_counts (fst (reserve api (er_key r) (minute_of now) (er_count r) db))"
      "\<And>i m. recorded_for_flag i m db' = recorded_for_flag i m db + (if fid = i \<and> minute_of now = m then accepted else 0)"
      "\<And>a i m. recorded_for_key a i m db' = recorded_for_key a i m db +
         (if api = a \<and> fid = i \<and> minute_of now = m then accepted else 0)"
      "\<And>i. recorded_total i db' = recorded_total i db + (if fid = i then accepted else 0)"
      "rr_accepted res' = rr_accepted res + accepted"
      "rr_errors res' = rr_errors res @ (if accepted < er_count r
         then [\<lparr>rp_key = er_key r, rp_code = Over_Ceiling, rp_requested = er_count r, rp_accepted = accepted\<rparr>] else [])"
proof (cases "ids (er_key r)")
  case None
  then show ?thesis using assms unknown by (auto simp: record_report_def)
next
  case (Some fid)
  obtain db1 accepted where r: "reserve api (er_key r) (minute_of now) (er_count r) db = (db1, accepted)" by fastforce
  have a: "0 \<le> accepted" "accepted \<le> er_count r" and rows: "metric_rows db1 = metric_rows db"
  proof -
    have "0 \<le> accepted \<and> accepted \<le> er_count r \<and> metric_rows db1 = metric_rows db"
    proof (cases "er_count r = 0")
      case True
      then show ?thesis using r reserve_nothing [of "er_count r"] by simp
    next
      case False
      then have "0 < er_count r" using assms(2) by simp
      from r this show ?thesis by (rule reserve_cases) auto
    qed
    then show "0 \<le> accepted" "accepted \<le> er_count r" "metric_rows db1 = metric_rows db" by simp_all
  qed
  have same: "db1\<lparr>metric_rows := metric_rows db\<rparr> = db1" using rows by simp
  note moved = recorded_rows [of db1 db, OF rows]
  show ?thesis
    by (rule known [OF Some a])
      (use assms(1) a rows in \<open>auto simp: record_report_def Some r recorded_append moved same\<close>)
qed


section \<open>Merging\<close>

definition total_requested :: "evaluation_report list \<Rightarrow> int" where
  "total_requested reports = sum_list (map er_count reports)"

definition keyed_reports :: "(pstr \<times> evaluation_report) list \<Rightarrow> bool" where
  "keyed_reports merged = (\<forall>(k, r)\<in>set merged. er_key r = k \<and> 0 \<le> er_count r)"

lemma dict_set_sum:
  fixes f :: "'k \<times> 'v \<Rightarrow> int"
  shows "sum_list (map f (dict_set k v d)) = sum_list (map f d) + f (k, v) -
     (case map_of d k of None \<Rightarrow> 0 | Some w \<Rightarrow> f (k, w))"
  by (induction k v d rule: dict_set.induct) auto

lemma merge_into_facts:
  assumes "keyed_reports merged" "0 \<le> er_count r"
  shows "keyed_reports (merge_into merged r) \<and>
    sum_list (map (\<lambda>m. er_count (snd m)) (merge_into merged r)) = sum_list (map (\<lambda>m. er_count (snd m)) merged) + er_count r \<and>
    sum_list (map (\<lambda>m. if fst m = key then er_count (snd m) else 0) (merge_into merged r)) =
    sum_list (map (\<lambda>m. if fst m = key then er_count (snd m) else 0) merged) + (if er_key r = key then er_count r else 0)"
proof -
  have seen: "er_key w = k \<and> 0 \<le> er_count w" if "map_of merged k = Some w" for k w
    using assms(1) map_of_SomeD [OF that] by (auto simp: keyed_reports_def)
  have kept: "keyed_reports (dict_set (er_key r) w merged)" if "er_key w = er_key r" "0 \<le> er_count w" for w
    using assms(1) that by (auto simp: keyed_reports_def dest!: dict_set_elem)
  show ?thesis
    using seen kept assms(2)
    by (auto simp: merge_into_def dict_set_sum split: option.split)
qed

lemma merged_facts:
  assumes "keyed_reports merged" "list_all (\<lambda>r. 0 \<le> er_count r) reports"
  shows "keyed_reports (foldl merge_into merged reports) \<and>
    sum_list (map (\<lambda>m. er_count (snd m)) (foldl merge_into merged reports)) =
      sum_list (map (\<lambda>m. er_count (snd m)) merged) + total_requested reports \<and>
    sum_list (map (\<lambda>m. if fst m = key then er_count (snd m) else 0) (foldl merge_into merged reports)) =
      sum_list (map (\<lambda>m. if fst m = key then er_count (snd m) else 0) merged) + requested_for key reports"
  using assms
proof (induction reports arbitrary: merged)
  case Nil
  then show ?case by (simp add: total_requested_def requested_for_def)
next
  case (Cons r reports)
  then show ?case
    using merge_into_facts [of merged r key]
    by (simp add: total_requested_def requested_for_def)
qed

lemma sum_list_sort_key: "sum_list (map f (sort_key k xs)) = (sum_list (map f xs) :: int)"
  by (metis mset_map mset_sort sum_mset_sum_list)

lemma merge_reports_facts:
  assumes "list_all (\<lambda>r. 0 \<le> er_count r) reports"
  shows "list_all (\<lambda>r. 0 \<le> er_count r) (merge_reports reports) \<and>
    total_requested (merge_reports reports) = total_requested reports \<and>
    requested_for key (merge_reports reports) = requested_for key reports"
proof -
  let ?m = "foldl merge_into [] reports"
  note m = merged_facts [of "[]" reports key, OF _ assms]
  have keyed: "keyed_reports ?m" using m by (simp add: keyed_reports_def)
  have "requested_for key (map snd xs) = sum_list (map (\<lambda>m. if fst m = key then er_count (snd m) else 0) xs)"
    if "keyed_reports xs" for xs
    using that by (induction xs) (auto simp: requested_for_def keyed_reports_def)
  moreover have "keyed_reports (sort_key fst ?m)"
    using keyed by (simp add: keyed_reports_def)
  ultimately show ?thesis
    using m keyed
    by (auto simp: merge_reports_def total_requested_def list_all_iff sum_list_sort_key keyed_reports_def
        comp_def)
qed

section \<open>The ledger\<close>

definition ledger_ok :: "(pstr \<Rightarrow> pstr option) \<Rightarrow> int \<Rightarrow> report_db \<Rightarrow> bool" where
  "ledger_ok ids low db = (counters_ok ids low db \<and> caps_ok db)"

lemma record_report_ledger:
  assumes "ids_distinct ids" "ledger_ok ids low db" "low \<le> minute_of now" "0 \<le> er_count r"
    and "record_report ids api now (db, res) r = (db', res')"
  shows "ledger_ok ids low db'"
  using assms(5,4)
proof (cases rule: record_report_cases)
  case unknown
  then show ?thesis using assms(2) by simp
next
  case (known fid accepted)
  let ?m = "minute_of now"
  obtain db1 where r: "reserve api (er_key r) ?m (er_count r) db = (db1, accepted)"
    using known(4) by (cases "reserve api (er_key r) ?m (er_count r) db") simp
  have counters: "recorded_for_flag fid m db = min (counter_total (flag_counts db) (k, m)) FLAG_MINUTE_CEILING \<and>
      recorded_for_key a fid m db \<le> min (counter_total (key_counts db) (a, k, m)) KEY_MINUTE_CEILING"
    if "low \<le> m" "ids k = Some fid" for k fid a m
    using assms(2) that by (auto simp: ledger_ok_def counters_ok_def)
  have distinct: "k = er_key r" if "ids k = Some fid" for k
    using assms(1) known(1) that by (auto simp: ids_distinct_def)
  have "counters_ok ids low db'"
  proof (cases "er_count r = 0")
    case True
    with known show ?thesis
      using assms(2) by (simp add: ledger_ok_def counters_ok_def reserve_nothing)
  next
    case False
    with assms(4) have "0 < er_count r" by simp
    from r this show ?thesis
    proof (rule reserve_cases)
      fix through
      assume t: "0 \<le> through" "through \<le> er_count r" "0 \<le> accepted" "accepted \<le> through"
        "min (counter_total (key_counts db) (api, er_key r, ?m)) KEY_MINUTE_CEILING + through =
          min (counter_total (key_counts db) (api, er_key r, ?m) + er_count r) KEY_MINUTE_CEILING"
        "min (counter_total (flag_counts db) (er_key r, ?m)) FLAG_MINUTE_CEILING + accepted =
          min (counter_total (flag_counts db) (er_key r, ?m) + through) FLAG_MINUTE_CEILING"
        "\<And>k. counter_total (key_counts db1) k =
          counter_total (key_counts db) k + (if k = (api, er_key r, ?m) then er_count r else 0)"
        "\<And>k. counter_total (flag_counts db1) k =
          counter_total (flag_counts db) k + (if k = (er_key r, ?m) then through else 0)"
      show "counters_ok ids low db'"
        unfolding counters_ok_def
      proof (intro allI impI)
        fix k i m assume km: "low \<le> m" "ids k = Some i"
        note old = counters [OF km]
        have new: "flag_counts db' = flag_counts db1" "key_counts db' = key_counts db1"
          using known(5,6) by (simp_all add: r)
        show "recorded_for_flag i m db' = min (counter_total (flag_counts db') (k, m)) FLAG_MINUTE_CEILING \<and>
          (\<forall>a. recorded_for_key a i m db' \<le> min (counter_total (key_counts db') (a, k, m)) KEY_MINUTE_CEILING)"
        proof (cases "i = fid \<and> m = ?m")
          case True
          then have k: "k = er_key r" using distinct km(2) by simp
          have "recorded_for_key a i m db' \<le> min (counter_total (key_counts db') (a, k, m)) KEY_MINUTE_CEILING" for a
            using old [of a] t(3-5) True
            by (cases "a = api") (auto simp: known(8) new t(7) k)
          then show ?thesis
            using old t(6) True by (simp add: known(7) new t(8) k)
        next
          case False
          then have "k \<noteq> er_key r \<or> m \<noteq> ?m" using known(1) km(2) by auto
          then show ?thesis
            using old False by (auto simp: known(7,8) new t(7,8))
        qed
      qed
    qed
  qed
  moreover have "caps_ok db'"
    unfolding caps_ok_def
  proof (intro allI)
    fix i m
    show "recorded_for_flag i m db' \<le> FLAG_MINUTE_CEILING \<and> (\<forall>a. recorded_for_key a i m db' \<le> KEY_MINUTE_CEILING)"
    proof (cases "fid = i \<and> ?m = m")
      case True
      then show ?thesis
        using \<open>counters_ok ids low db'\<close> assms(3) known(1) unfolding counters_ok_def
        by (metis min.cobounded2 order_trans)
    next
      case False
      then have "recorded_for_flag i m db' = recorded_for_flag i m db"
        "recorded_for_key a i m db' = recorded_for_key a i m db" for a
        by (auto simp: known(7,8))
      then show ?thesis
        using assms(2) by (simp add: ledger_ok_def caps_ok_def)
    qed
  qed
  ultimately show ?thesis by (simp add: ledger_ok_def)
qed


section \<open>A request\<close>

definition not_recorded :: "report_problem list \<Rightarrow> int" where
  "not_recorded errors = sum_list (map (\<lambda>e. rp_requested e - rp_accepted e) errors)"

text \<open>The loop over the merged reports: the ledger, the account of the result, the total of a flag.\<close>

lemma record_reports_facts:
  assumes "ids_distinct ids" "low \<le> minute_of now" "list_all (\<lambda>r. 0 \<le> er_count r) reports"
    and "foldl (record_report ids api now) (db, res) reports = (db', res')"
  shows "(ledger_ok ids low db \<longrightarrow> ledger_ok ids low db') \<and>
    rr_accepted res' + not_recorded (rr_errors res') =
      rr_accepted res + not_recorded (rr_errors res) + total_requested reports \<and>
    (\<forall>key fid. ids key = Some fid \<longrightarrow>
      recorded_total fid db \<le> recorded_total fid db' \<and>
      recorded_total fid db' \<le> recorded_total fid db + requested_for key reports)"
  using assms(3,4)
proof (induction reports arbitrary: db res)
  case Nil
  then show ?case by (simp add: total_requested_def requested_for_def)
next
  case (Cons r reports)
  obtain db1 res1 where one: "record_report ids api now (db, res) r = (db1, res1)" by fastforce
  have r: "0 \<le> er_count r" and rest: "list_all (\<lambda>r. 0 \<le> er_count r) reports"
    and tail: "foldl (record_report ids api now) (db1, res1) reports = (db', res')"
    using Cons.prems by (simp_all add: one)
  note IH = Cons.IH [OF rest tail]
  have flags: "recorded_total fid db \<le> recorded_total fid db1 \<and>
      recorded_total fid db1 \<le> recorded_total fid db + (if er_key r = key then er_count r else 0)"
    if "ids key = Some fid" for key fid
  proof -
    from one r show "recorded_total fid db \<le> recorded_total fid db1 \<and>
      recorded_total fid db1 \<le> recorded_total fid db + (if er_key r = key then er_count r else 0)"
    proof (cases rule: record_report_cases)
      case unknown
      then show ?thesis using r by simp
    next
      case (known i accepted)
      then have "i = fid \<Longrightarrow> er_key r = key"
        using assms(1) that by (auto simp: ids_distinct_def)
      then show ?thesis using known(2,3,9) r by auto
    qed
  qed
  have account: "rr_accepted res1 + not_recorded (rr_errors res1) =
      rr_accepted res + not_recorded (rr_errors res) + er_count r"
    using one r by (cases rule: record_report_cases) (simp_all add: not_recorded_def)
  have "ledger_ok ids low db \<longrightarrow> ledger_ok ids low db1"
    using record_report_ledger [OF assms(1) _ assms(2) r one] by simp
  moreover have "recorded_total fid db \<le> recorded_total fid db' \<and>
      recorded_total fid db' \<le> recorded_total fid db + requested_for key (r # reports)"
    if "ids key = Some fid" for key fid
    using flags [OF that] IH that by (fastforce simp: requested_for_def)
  ultimately show ?case
    using IH account by (simp add: total_requested_def)
qed

lemma prune_rows [simp]:
  "recorded_for_flag i m (prune kv fv minute db) = recorded_for_flag i m db"
  "recorded_for_key a i m (prune kv fv minute db) = recorded_for_key a i m db"
  "recorded_total i (prune kv fv minute db) = recorded_total i db"
  by (simp_all add: prune_def Let_def recorded_for_flag_def recorded_for_key_def recorded_total_def)

lemma prune_ledger:
  assumes "ledger_ok ids low db" "low \<le> low'" "minute - COUNTER_RETENTION \<le> low'"
  shows "ledger_ok ids low' (prune kv fv minute db)"
proof -
  have "counter_total (key_counts (prune kv fv minute db)) (a, k, m) = counter_total (key_counts db) (a, k, m)"
    "counter_total (flag_counts (prune kv fv minute db)) (k, m) = counter_total (flag_counts db) (k, m)"
    if "low' \<le> m" for a k m
    using that assms(3) by (simp_all add: prune_def Let_def counter_total_def)
  then show ?thesis
    using assms(1,2) by (simp add: ledger_ok_def counters_ok_def caps_ok_def)
qed

lemma valid_report_counts: "valid_report body \<Longrightarrow> list_all (\<lambda>r. 0 \<le> er_count r) body"
  by (auto simp: valid_report_def valid_count_def list_all_iff)

lemma report_request_facts:
  assumes "ids_distinct ids" "low \<le> minute_of now"
    and "report_flag_evaluations ids kv fv api now body db = (db', out)"
  shows "(ledger_ok ids low db \<longrightarrow> low \<le> low' \<longrightarrow> minute_of now - COUNTER_RETENTION \<le> low' \<longrightarrow> ledger_ok ids low' db') \<and>
    (\<forall>res. out = Some res \<longrightarrow> rr_accepted res + not_recorded (rr_errors res) = total_requested body) \<and>
    (\<forall>key fid. ids key = Some fid \<longrightarrow> recorded_total fid db \<le> recorded_total fid db' \<and>
      recorded_total fid db' \<le> recorded_total fid db + (if valid_report body then requested_for key body else 0))"
proof (cases "valid_report body")
  case False
  have "ledger_ok ids low db \<longrightarrow> low \<le> low' \<longrightarrow> ledger_ok ids low' db"
    by (auto simp: ledger_ok_def counters_ok_def)
  with False assms(3) show ?thesis by (simp add: report_flag_evaluations_def)
next
  case True
  let ?start = "\<lparr>rr_accepted = 0, rr_errors = []\<rparr>"
  obtain db1 res where run: "foldl (record_report ids api now) (db, ?start) (merge_reports body) = (db1, res)"
    by fastforce
  note m = merge_reports_facts [OF valid_report_counts [OF True]]
  have facts: "ledger_ok ids low db \<longrightarrow> ledger_ok ids low db1"
    "rr_accepted res + not_recorded (rr_errors res) = total_requested body"
    "\<forall>key fid. ids key = Some fid \<longrightarrow> recorded_total fid db \<le> recorded_total fid db1 \<and>
      recorded_total fid db1 \<le> recorded_total fid db + requested_for key body"
    using record_reports_facts [OF assms(1,2) _ run] m by (simp_all add: not_recorded_def)
  have out: "db' = prune kv fv (minute_of now) db1" "out = Some res"
    using assms(3) True run by (auto simp: report_flag_evaluations_def record_local_evaluations_def)
  show ?thesis
    using facts prune_ledger [of ids low db1 low' "minute_of now" kv fv] True by (simp add: out)
qed

section \<open>Every reachable state keeps the ceilings\<close>

definition tables_ok :: "(pstr \<Rightarrow> pstr option) \<Rightarrow> report_db \<times> int \<Rightarrow> bool" where
  "tables_ok ids s = (ids_distinct ids \<and> ledger_ok ids (snd s - COUNTER_RETENTION) (fst s))"

interpretation reports: invariant_of "timely_report_step ids" "tables_ok ids" for ids
proof unfold_locales
  fix s t assume ok: "tables_ok ids s" and "timely_report_step ids s t"
  then obtain latest now db kv fv api body where s: "s = (db, latest)"
    and t: "t = (fst (report_flag_evaluations ids kv fv api now body db), max latest (minute_of now))"
    and low: "latest - COUNTER_RETENTION \<le> minute_of now"
    by (auto elim!: timely_report_step.cases report_stepE)
  obtain db' out where r: "report_flag_evaluations ids kv fv api now body db = (db', out)" by fastforce
  have "ids_distinct ids" "ledger_ok ids (latest - COUNTER_RETENTION) db"
    using ok by (simp_all add: tables_ok_def s)
  with report_request_facts [OF _ low r, of "max latest (minute_of now) - COUNTER_RETENTION"]
  show "tables_ok ids t" by (simp add: tables_ok_def t r)
qed

lemma empty_tables_ok: "ids_distinct ids \<Longrightarrow> tables_ok ids (empty_report_db, latest)"
  by (simp add: tables_ok_def ledger_ok_def counters_ok_def caps_ok_def empty_report_db_def
      recorded_for_flag_def recorded_for_key_def counter_total_def KEY_MINUTE_CEILING_def FLAG_MINUTE_CEILING_def)

section \<open>What the SDK sends\<close>

lemma flush_entry_fields:
  assumes "tallies_ok (rt_tallies s)" "e \<in> set (flush_entries utc s)"
  shows "ce_key e \<in> fst ` set (rt_tallies s) \<and> 1 \<le> ce_count e \<and> ce_count e \<le> MAX_ENTRY_COUNT \<and>
    ce_enabled e \<le> ce_count e \<and> ce_start e = window_start (rt_window s) utc \<and> ce_end e = utc"
proof -
  obtain key n m where "(key, n, m) \<in> set (rt_tallies s)"
    and e: "e \<in> set (split_tally key (window_start (rt_window s) utc) utc n m)"
    using assms(2) by (auto simp: flush_entries_def)
  moreover from this have "m \<le> n" using assms(1) by (auto simp: tallies_ok_def)
  ultimately show ?thesis
    using split_tally_facts [of m n key key "window_start (rt_window s) utc" utc] by force
qed

lemma flushed_keys:
  assumes "tallies_ok (rt_tallies s)" and "body \<in> set (snd (flush_counts utc outcome s))" and "e \<in> set body"
  shows "ce_key e \<in> fst ` set (rt_tallies s)"
proof -
  have "set body \<subseteq> set (flush_entries utc s)"
    using assms(2) report_bodies_facts [of "flush_entries utc s"] by (auto simp: flush_counts_bodies split: if_splits)
  with assms(3) have "e \<in> set (flush_entries utc s)" by blast
  from flush_entry_fields [OF assms(1) this] show ?thesis by blast
qed

lemma sdk_body_valid_iff:
  assumes "tallies_ok (rt_tallies s)" and "body \<in> set (snd (flush_counts utc outcome s))"
  shows "valid_report (map received_entry body) \<longleftrightarrow>
    list_all (\<lambda>e. valid_flag_key (ce_key e)) body \<and> (case rt_window s of None \<Rightarrow> True | Some t \<Rightarrow> t \<le> utc)"
proof -
  have body: "body \<noteq> []" "length body \<le> MAX_REPORT_ENTRIES" "set body \<subseteq> set (flush_entries utc s)"
    using assms(2) report_bodies_facts [of "flush_entries utc s"]
    by (auto simp: flush_counts_bodies split: if_splits)
  let ?window = "case rt_window s of None \<Rightarrow> True | Some t \<Rightarrow> t \<le> utc"
  have window: "(window_start (rt_window s) utc \<le> utc \<and> utc - window_start (rt_window s) utc \<le> MAX_WINDOW) = ?window"
    by (auto simp: window_start_def Let_def MAX_WINDOW_MICROSECONDS_def MAX_WINDOW_def split: option.split)
  have each: "valid_count (received_entry e) \<longleftrightarrow> valid_flag_key (ce_key e) \<and> ?window" if "e \<in> set body" for e
  proof -
    have "e \<in> set (flush_entries utc s)" using body(3) that by blast
    from flush_entry_fields [OF assms(1) this] have e: "1 \<le> ce_count e" "ce_count e \<le> MAX_ENTRY_COUNT"
      "ce_enabled e \<le> ce_count e" "ce_start e = window_start (rt_window s) utc" "ce_end e = utc" by simp_all
    show ?thesis
      using e(1-3) window
      by (auto simp: valid_count_def consistent_count_def received_entry_def e(4,5) MAX_ENTRY_COUNT_def MAX_COUNT_def)
  qed
  show ?thesis
    using each body(1,2)
    by (cases body) (auto simp: valid_report_def list_all_iff MAX_REPORT_ENTRIES_def MAX_ENTRIES_def)
qed


section \<open>From answers to metric rows\<close>

text \<open>
  Requests of one process that reach the server: each with the rows pruned, the API key and the time
  of receipt, in the order they commit.
\<close>

record delivery =
  dv_key_pruned :: "pstr \<times> pstr \<times> int \<Rightarrow> bool"
  dv_flag_pruned :: "pstr \<times> int \<Rightarrow> bool"
  dv_api_key :: pstr
  dv_received :: int
  dv_body :: "count_entry list"

definition deliver :: "(pstr \<Rightarrow> pstr option) \<Rightarrow> delivery list \<Rightarrow> report_db \<Rightarrow> report_db" where
  "deliver ids deliveries db = foldl (\<lambda>db d. fst (report_flag_evaluations ids (dv_key_pruned d) (dv_flag_pruned d)
     (dv_api_key d) (dv_received d) (map received_entry (dv_body d)) db)) db deliveries"

lemma requested_for_received: "requested_for key (map received_entry body) = int (entries_count key body)"
  by (induction body) (simp_all add: requested_for_def entries_count_def received_entry_def)

lemma deliver_total:
  assumes "ids_distinct ids" "ids key = Some fid"
  shows "recorded_total fid (deliver ids deliveries db) \<le>
    recorded_total fid db + int (sum_list (map (\<lambda>d. entries_count key (dv_body d)) deliveries))"
proof (induction deliveries arbitrary: db)
  case Nil
  then show ?case by (simp add: deliver_def)
next
  case (Cons d deliveries)
  obtain db1 out where one: "report_flag_evaluations ids (dv_key_pruned d) (dv_flag_pruned d)
     (dv_api_key d) (dv_received d) (map received_entry (dv_body d)) db = (db1, out)" by fastforce
  have "recorded_total fid db1 \<le> recorded_total fid db + int (entries_count key (dv_body d))"
    using report_request_facts [OF assms(1) order_refl one] assms(2) requested_for_received [of key "dv_body d"]
    by (fastforce split: if_splits)
  then show ?case
    using Cons.IH [of db1] by (simp add: deliver_def one)
qed

lemma sub_bodies_count:
  assumes "mset bodies \<subseteq># mset all_bodies"
  shows "sum_list (map (entries_count key) bodies) \<le> entries_count key (concat all_bodies)"
proof -
  have concat: "entries_count key (concat bs) = sum_list (map (entries_count key) bs)" for bs
    by (induction bs) simp_all
  from assms obtain rest where "mset all_bodies = mset bodies + rest"
    by (auto simp: mset_subset_eq_exists_conv)
  then have "sum_mset (image_mset (entries_count key) (mset all_bodies)) =
      sum_mset (image_mset (entries_count key) (mset bodies)) + sum_mset (image_mset (entries_count key) rest)"
    by simp
  then show ?thesis
    by (simp add: concat sum_mset_sum_list flip: mset_map)
qed

lemma delivered_at_most_answered:
  assumes "process_ok p" "ids_distinct ids" "ids key = Some fid"
    and "mset (map dv_body deliveries) \<subseteq># mset (sdk_bodies p)"
  shows "recorded_total fid (deliver ids deliveries db) \<le> recorded_total fid db + int (answered key (sdk_answers p))"
proof -
  have "entries_count key (concat (sdk_bodies p)) \<le> answered key (sdk_answers p)"
    using assms(1) by (auto simp: process_ok_def counts_ok_def dest: spec [of _ key])
  moreover have "sum_list (map (\<lambda>d. entries_count key (dv_body d)) deliveries) \<le> entries_count key (concat (sdk_bodies p))"
    using sub_bodies_count [OF assms(4), of key] by (simp add: comp_def)
  ultimately show ?thesis
    using deliver_total [OF assms(2,3), of deliveries db] by linarith
qed

end
