(* ===== verification/Concrete_Runtime.thy ===== *)
theory Concrete_Runtime
  imports Sdk_Client Evaluation_Reports_Facts Concrete_Env
begin

text \<open>
  A client of the demo ruleset on which the properties of the SDK's runtime are instantiated, and a
  server that takes its counts.
\<close>

abbreviation no_dates :: "pstr \<Rightarrow> int option" where "no_dates \<equiv> \<lambda>_. None"

definition demo_response :: http_response where
  "demo_response = make_response 200 [] False (Inr demo_body)"

definition key_refused_response :: http_response where
  "key_refused_response = make_response 403 [] False (Inl PyValueError)"

lemma demo_response_loads: "valid_load demo_response demo_index"
  using demo_indexed
  by (auto simp: valid_load_def demo_response_def make_response_def succeeded_status_def)

lemma key_refused_discards: "discarding key_refused_response"
  by (simp add: discarding_def key_refused_response_def make_response_def detail_readable_def)

definition demo_runtime :: runtime where
  "demo_runtime = fst (refresh_once ascii_env no_dates (Fin 0) 0 (Some demo_response) (new_runtime (Fin 30) None))"

lemma demo_runtime_fields:
  "rt_ruleset demo_runtime = Some demo_index" "rt_closed demo_runtime = False"
  "rt_max_stale demo_runtime = None" "rt_tallies demo_runtime = []" "rt_window demo_runtime = None"
  "rt_interval demo_runtime = Fin 30"
  using refresh_loads [OF demo_response_loads, of "new_runtime (Fin 30) None" ascii_env no_dates "Fin 0" 0]
    refresh_frame [of "new_runtime (Fin 30) None" ascii_env no_dates "Fin 0" 0 "Some demo_response"]
  by (simp_all add: demo_runtime_def same_frame_def new_runtime_def)

lemma demo_runtime_refresh:
  "refresh_once ascii_env no_dates (Fin 0) 0 (Some demo_response) (new_runtime (Fin 30) None) =
     (demo_runtime, Inr (Fin 30))" and demo_runtime_failures: "rt_failures demo_runtime = 0"
proof -
  have "is_supported_format demo_body"
    using demo_indexed by (auto simp: index_ruleset_def split: if_splits)
  then have load: "handle_response ascii_env no_dates (Fin 0) 0 demo_response s =
      succeeded (Fin 0) 0 (s\<lparr>rt_ruleset := Some demo_index, rt_etag := Some (response_etag demo_response demo_index)\<rparr>)" for s
    using demo_indexed
    by (simp add: handle_response_def load_ruleset_def demo_response_def make_response_def succeeded_status_def)
  then have "refresh_once ascii_env no_dates (Fin 0) 0 (Some demo_response) (new_runtime (Fin 30) None) =
      (fst (refresh_once ascii_env no_dates (Fin 0) 0 (Some demo_response) (new_runtime (Fin 30) None)), Inr (Fin 30))"
    by (simp add: refresh_once_def refresh_def succeeded_def new_runtime_def)
  then show "refresh_once ascii_env no_dates (Fin 0) 0 (Some demo_response) (new_runtime (Fin 30) None) =
      (demo_runtime, Inr (Fin 30))"
    by (simp only: demo_runtime_def)
  show "rt_failures demo_runtime = 0"
    by (simp add: demo_runtime_def refresh_once_def refresh_def load succeeded_def new_runtime_def)
qed

lemma demo_usable: "usable now demo_runtime = Some demo_index"
  by (simp add: usable_def demo_runtime_fields)

definition demo_answer :: local_answer where
  "demo_answer = \<lparr>local_enabled = True, local_reason = REASON_TARGETING_RULE\<rparr>"

lemma demo_answered:
  "answer_flag now utc (str ''my-flag'') (str ''user-123'') (Inr (Some (Some demo_request))) demo_runtime =
     (count_answers utc [(str ''my-flag'', True)] demo_runtime, Some demo_answer)"
  by (simp add: answer_flag_def demo_usable demo_local demo_answer_def)

section \<open>A process: a load, an answer, a flush\<close>

definition demo_poll :: "http_response option \<Rightarrow> int \<Rightarrow> poll_input" where
  "demo_poll outcome utc = \<lparr>poll_now = Fin 0, poll_outcome = outcome, poll_mono = Fin 0, poll_utc = 0,
     poll_jitter = Fin 1, poll_refreshed = Fin 0, poll_flush_utc = utc, poll_flush_outcome = (\<lambda>_. None),
     poll_flushed = Fin 0\<rparr>"

definition demo_events :: "sdk_event list" where
  "demo_events = [Poll (demo_poll (Some demo_response) 0),
     Ask (Fin 1) 5 (str ''my-flag'') (str ''user-123'') (Inr (Some (Some demo_request)))]"

definition demo_process :: sdk_process where
  "demo_process = fold (sdk_event_step ascii_env no_dates) demo_events (new_process (Fin 30) None (Fin 0))"

lemma fold_events_reach: "reach (sdk_step E http_date) p (fold (sdk_event_step E http_date) evs p)"
proof (induction evs arbitrary: p)
  case Nil
  then show ?case by simp
next
  case (Cons ev evs)
  have "reach (sdk_step E http_date) p (sdk_event_step E http_date ev p)"
    by (rule reach_step) (rule sdk_step_event)
  then show ?case using Cons.IH reach_trans by fastforce
qed

lemma demo_process_reached:
  "reach (sdk_step ascii_env no_dates) (new_process (Fin 30) None (Fin 0)) demo_process"
  unfolding demo_process_def by (rule fold_events_reach)

lemma fl_small: "fl 60 = Fin 60" "fl 30 = Fin 30"
  using fl_of_int_exact [of 60] fl_of_int_exact [of 30] by simp_all

lemma demo_process_fields:
  "sdk_runtime demo_process = count_answers 5 [(str ''my-flag'', True)] demo_runtime"
  "sdk_answers demo_process = [(str ''my-flag'', True)]" "sdk_bodies demo_process = []"
proof -
  have start: "fle (Fin 0) (Fin 0)" "\<not> fle (fadd (Fin 0) FLUSH_INTERVAL_SECONDS) (Fin 0)"
    by (simp_all add: FLUSH_INTERVAL_SECONDS_def fl_small)
  have "\<exists>q. sdk_event_step ascii_env no_dates (Poll (demo_poll (Some demo_response) 0)) (new_process (Fin 30) None (Fin 0)) =
      (new_process (Fin 30) None (Fin 0))\<lparr>sdk_runtime := demo_runtime, sdk_poller := q\<rparr>"
    using start demo_runtime_refresh
    by (simp add: poll_once_def poll_refresh_def poll_flush_def demo_poll_def new_process_def start_thread_def)
      (simp add: new_runtime_def)
  then obtain q where q: "sdk_event_step ascii_env no_dates (Poll (demo_poll (Some demo_response) 0))
      (new_process (Fin 30) None (Fin 0)) =
      (new_process (Fin 30) None (Fin 0))\<lparr>sdk_runtime := demo_runtime, sdk_poller := q\<rparr>" by blast
  have eq: "demo_process = (new_process (Fin 30) None (Fin 0))\<lparr>
      sdk_runtime := count_answers 5 [(str ''my-flag'', True)] demo_runtime, sdk_poller := q,
      sdk_answers := [(str ''my-flag'', True)]\<rparr>"
    using demo_answered [of "Fin 1" 5]
    by (simp add: demo_process_def demo_events_def q del: sdk_event_step.simps(1))
      (simp add: new_process_def demo_answer_def)
  show "sdk_runtime demo_process = count_answers 5 [(str ''my-flag'', True)] demo_runtime"
    "sdk_answers demo_process = [(str ''my-flag'', True)]" "sdk_bodies demo_process = []"
    unfolding eq by (simp_all add: new_process_def)
qed

lemma demo_counted: "rt_tallies (sdk_runtime demo_process) = [(str ''my-flag'', 1, 1)]"
  "rt_window (sdk_runtime demo_process) = Some 5"
  by (simp_all add: demo_process_fields count_answers_def demo_runtime_fields bump_tally_def)


section \<open>A refused key and a dead network\<close>

definition demo_refused_process :: sdk_process where
  "demo_refused_process = demo_process\<lparr>sdk_runtime :=
     fst (refresh_once ascii_env no_dates (Fin 6) 6 (Some key_refused_response) (sdk_runtime demo_process))\<rparr>"

lemma demo_refused_process_runtime:
  "sdk_runtime demo_refused_process =
     fst (refresh_once ascii_env no_dates (Fin 6) 6 (Some key_refused_response) (sdk_runtime demo_process))"
  by (simp add: demo_refused_process_def)

definition demo_failed_process :: sdk_process where
  "demo_failed_process = (new_process (Fin 30) None (Fin 0))\<lparr>
     sdk_runtime := failed_refreshes ascii_env no_dates (replicate 1024 (Fin 0, 0)) demo_runtime\<rparr>"

lemma demo_failed_process_fields:
  "sdk_runtime demo_failed_process = failed_refreshes ascii_env no_dates (replicate 1024 (Fin 0, 0)) demo_runtime"
  "thread_alive (sdk_poller demo_failed_process)" "next_refresh (sdk_poller demo_failed_process) = Fin 0"
  by (simp_all add: demo_failed_process_def new_process_def start_thread_def)

section \<open>The client\<close>

definition demo_client :: sdk_client where
  "demo_client = \<lparr>cl_local = Some demo_runtime, cl_flags = [], cl_assignments = [], cl_ttl = Fin 300,
     cl_default_variant = str ''control''\<rparr>"

definition demo_call :: flag_call where
  "demo_call = \<lparr>fc_now = Fin 1, fc_utc = 5, fc_looked = Fin 1, fc_stored = Fin 1,
     fc_wire = Inr (Some (Some demo_request)), fc_param = Inr (), fc_first = None, fc_second = None\<rparr>"

lemma demo_client_fields: "cl_local demo_client = Some demo_runtime" "cl_ttl demo_client = Fin 300"
  by (simp_all add: demo_client_def)

lemma demo_call_wire: "fc_wire demo_call = Inr (Some (Some demo_request))"
  by (simp add: demo_call_def)

lemma demo_client_answered:
  "snd (answer_flag (fc_now demo_call) (fc_utc demo_call) (str ''my-flag'') (str ''user-123'')
     (fc_wire demo_call) demo_runtime) = Some demo_answer"
  by (simp add: demo_call_wire demo_answered)

definition demo_refused_client :: sdk_client where
  "demo_refused_client =
     (fst (get_feature_flag ascii_env demo_call (str ''my-flag'') (str ''user-123'') demo_client))\<lparr>
       cl_local := Some (fst (refresh_once ascii_env no_dates (Fin 0) 0 (Some key_refused_response) demo_runtime))\<rparr>"

lemma demo_refused_client_cache:
  "cl_flags demo_refused_client =
     cl_flags (fst (get_feature_flag ascii_env demo_call (str ''my-flag'') (str ''user-123'') demo_client))"
  by (simp add: demo_refused_client_def)

lemma demo_refused_client_defers:
  "snd (try_local demo_call (str ''my-flag'') (str ''user-123'') demo_refused_client) = None"
  using refresh_discards [OF key_refused_discards, of demo_runtime ascii_env no_dates "Fin 0" 0]
  by (simp add: try_local_def demo_refused_client_def answer_flag_def usable_def demo_runtime_fields)

lemma demo_call_fresh: "\<not> fle (fadd (fc_stored demo_call) (cl_ttl demo_client)) (fc_looked demo_call)"
  using fl_of_int_exact [of 301] by (simp add: demo_call_def demo_client_def)

section \<open>The counts it sends\<close>

lemma demo_tallies_ok: "tallies_ok (rt_tallies (sdk_runtime demo_process))"
  by (simp add: demo_counted tallies_ok_def)

lemma demo_keys_valid: "list_all valid_flag_key (map fst (rt_tallies (sdk_runtime demo_process)))"
  by (simp add: demo_counted valid_flag_key_def str_def unstorable_text_def is_surrogate_def)

definition demo_flushed_body :: "int \<Rightarrow> count_entry list" where
  "demo_flushed_body utc = hd (snd (flush_counts utc (\<lambda>_. None) (sdk_runtime demo_process)))"

lemma demo_body_flushed:
  "demo_flushed_body utc \<in> set (snd (flush_counts utc (\<lambda>_. None) (sdk_runtime demo_process)))"
proof -
  have "flush_entries utc (sdk_runtime demo_process) \<noteq> []"
    by (simp add: flush_entries_def demo_counted split_tally.simps Let_def)
  then have "snd (flush_counts utc (\<lambda>_. None) (sdk_runtime demo_process)) \<noteq> []"
    by (simp add: flush_counts_bodies demo_counted report_bodies.simps)
  then show ?thesis by (simp add: demo_flushed_body_def)
qed

lemma demo_body_keys: "list_all (\<lambda>e. valid_flag_key (ce_key e)) (demo_flushed_body utc)"
  using demo_keys_valid flushed_keys [OF demo_tallies_ok demo_body_flushed, of _ utc]
  by (fastforce simp: list_all_iff)

definition demo_flushed_process :: sdk_process where
  "demo_flushed_process = sdk_event_step ascii_env no_dates (Close 60 (\<lambda>_. None)) demo_process"

lemma demo_flushed_process_reached:
  "reach (sdk_step ascii_env no_dates) (new_process (Fin 30) None (Fin 0)) demo_flushed_process"
  unfolding demo_flushed_process_def by (rule reach_next [OF demo_process_reached]) (rule sdk_step_event)

lemma demo_flushed_process_answers: "sdk_answers demo_flushed_process = [(str ''my-flag'', True)]"
  by (simp add: demo_flushed_process_def demo_process_fields(2) split: prod.split)

definition demo_deliveries :: "delivery list" where
  "demo_deliveries = map (\<lambda>body. \<lparr>dv_key_pruned = (\<lambda>_. False), dv_flag_pruned = (\<lambda>_. False),
     dv_api_key = str ''key'', dv_received = 70, dv_body = body\<rparr>) (sdk_bodies demo_flushed_process)"

lemma demo_delivered: "mset (map dv_body demo_deliveries) \<subseteq># mset (sdk_bodies demo_flushed_process)"
  by (simp add: demo_deliveries_def comp_def)

definition demo_ids :: "pstr \<Rightarrow> pstr option" where
  "demo_ids = [str ''my-flag'' \<mapsto> str ''id-1'']"

lemma demo_ids_distinct: "ids_distinct demo_ids"
  by (simp add: ids_distinct_def demo_ids_def)

lemma demo_ids_flag: "demo_ids (str ''my-flag'') = Some (str ''id-1'')"
  by (simp add: demo_ids_def)

section \<open>The server's tables\<close>

definition demo_count :: "int \<Rightarrow> evaluation_report" where
  "demo_count n = \<lparr>er_key = str ''my-flag'', er_count = n, er_enabled = 0, er_start = 0, er_end = 0\<rparr>"

definition demo_report :: "evaluation_report list \<Rightarrow> report_db \<times> report_result option" where
  "demo_report body = report_flag_evaluations demo_ids (\<lambda>_. False) (\<lambda>_. False) (str ''key'') 0 body empty_report_db"

lemma demo_report_taken: "\<exists>db res. demo_report [demo_count 250000, demo_count 50000] = (db, Some res)"
proof -
  have "valid_report [demo_count 250000, demo_count 50000]"
    by (simp add: valid_report_def valid_count_def valid_flag_key_def demo_count_def str_def MAX_ENTRIES_def
        unstorable_text_def is_surrogate_def consistent_count_def MAX_COUNT_def MAX_WINDOW_def)
  then show ?thesis
    by (simp add: demo_report_def report_flag_evaluations_def split: prod.split)
qed

lemma demo_report_reached:
  "reach (timely_report_step demo_ids) (empty_report_db, 0) (fst (demo_report body), 0)"
proof (rule reach_step)
  have "report_step demo_ids 0 empty_report_db (fst (demo_report body))"
    unfolding demo_report_def by (rule report_received)
  from timely_report [OF this, of 0] show "timely_report_step demo_ids (empty_report_db, 0) (fst (demo_report body), 0)"
    by (simp add: minute_of_def COUNTER_RETENTION_def)
qed

end
