(* ===== verification/Permissions.thy ===== *)
theory Permissions
  imports PyValue
begin

text \<open>
  Who may do what: the role table of \<^verbatim>\<open>backend/app/core/permissions.py\<close>, the scopes of an API key
  (\<^verbatim>\<open>core/api_key_scopes.py\<close>, \<^verbatim>\<open>models/api_key.py\<close>), the key dependency of \<^verbatim>\<open>api/deps.py\<close> and the two
  readings of the \<^verbatim>\<open>sdk:ruleset\<close> scope in \<^verbatim>\<open>api/sdk_scope.py\<close>. Instants are microseconds of naive UTC;
  SHA-256 of a presented key is an argument.
\<close>

section \<open>Roles\<close>

datatype user_role = RoleAdmin | RoleAnalyst | RoleDeveloper | RoleViewer

datatype resource_type =
  ResExperiment | ResFeatureFlag | ResUser | ResRole | ResPermission | ResReport | ResApiKey

datatype action = ActCreate | ActRead | ActUpdate | ActDelete | ActList

definition all_actions :: "action list" where
  "all_actions = [ActCreate, ActRead, ActUpdate, ActDelete, ActList]"

fun ROLE_PERMISSIONS :: "user_role \<Rightarrow> (resource_type \<times> action list) list" where
  "ROLE_PERMISSIONS RoleAdmin =
     [(ResExperiment, all_actions), (ResFeatureFlag, all_actions), (ResUser, all_actions),
      (ResRole, all_actions), (ResPermission, all_actions), (ResReport, all_actions),
      (ResApiKey, all_actions)]"
| "ROLE_PERMISSIONS RoleDeveloper =
     [(ResApiKey, [ActRead]), (ResExperiment, all_actions), (ResFeatureFlag, all_actions),
      (ResUser, [ActRead, ActList]), (ResRole, [ActRead, ActList]), (ResPermission, [ActRead]),
      (ResReport, [ActRead, ActList])]"
| "ROLE_PERMISSIONS RoleAnalyst =
     [(ResApiKey, [ActRead]), (ResExperiment, [ActRead, ActList]), (ResFeatureFlag, [ActRead, ActList]),
      (ResUser, [ActRead]), (ResRole, [ActRead]), (ResPermission, [ActRead]), (ResReport, all_actions)]"
| "ROLE_PERMISSIONS RoleViewer =
     [(ResApiKey, [ActRead]), (ResExperiment, [ActRead, ActList]), (ResFeatureFlag, [ActRead, ActList]),
      (ResUser, [ActRead]), (ResRole, [ActRead]), (ResPermission, [ActRead]),
      (ResReport, [ActRead, ActList])]"

text \<open>The columns may be null; a null flag reads as false, a null role is in no table.\<close>

record app_user =
  usr_id :: pstr
  usr_active :: bool
  usr_superuser :: bool
  usr_role :: "user_role option"

definition has_permission :: "user_role option \<Rightarrow> resource_type \<Rightarrow> action \<Rightarrow> bool" where
  "has_permission role resource act =
     (case role of
        None \<Rightarrow> False
      | Some r \<Rightarrow> (case map_of (ROLE_PERMISSIONS r) resource of
          None \<Rightarrow> False | Some acts \<Rightarrow> act \<in> set acts))"

definition check_permission :: "app_user \<Rightarrow> resource_type \<Rightarrow> action \<Rightarrow> bool" where
  "check_permission user resource act =
     (if usr_superuser user then True else has_permission (usr_role user) resource act)"

definition can_read_all_audit_logs :: "app_user \<Rightarrow> bool" where
  "can_read_all_audit_logs user =
     (if usr_superuser user then True else usr_role user \<in> {Some RoleAdmin, Some RoleAnalyst})"

definition check_ownership :: "app_user \<Rightarrow> pstr option \<Rightarrow> bool" where
  "check_ownership user owner = (owner = Some (usr_id user))"

datatype flag_scope = AnyFlag | OwnFlag

fun FEATURE_FLAG_SCOPE :: "user_role \<Rightarrow> (action \<times> flag_scope) list" where
  "FEATURE_FLAG_SCOPE RoleAdmin = [(ActRead, AnyFlag), (ActUpdate, AnyFlag), (ActDelete, AnyFlag)]"
| "FEATURE_FLAG_SCOPE RoleDeveloper = [(ActRead, AnyFlag), (ActUpdate, AnyFlag), (ActDelete, AnyFlag)]"
| "FEATURE_FLAG_SCOPE RoleAnalyst = [(ActRead, AnyFlag)]"
| "FEATURE_FLAG_SCOPE RoleViewer = [(ActRead, AnyFlag)]"

definition can_act_on_feature_flag :: "app_user \<Rightarrow> pstr option \<Rightarrow> action \<Rightarrow> bool" where
  "can_act_on_feature_flag user owner act =
     (if usr_superuser user then True
      else if \<not> check_permission user ResFeatureFlag act then False
      else
        (let scope = (case usr_role user of None \<Rightarrow> OwnFlag
             | Some r \<Rightarrow> (case map_of (FEATURE_FLAG_SCOPE r) act of None \<Rightarrow> OwnFlag | Some s \<Rightarrow> s))
         in if scope = AnyFlag then True else owner = Some (usr_id user)))"

definition get_required_role :: "resource_type \<Rightarrow> action \<Rightarrow> user_role option" where
  "get_required_role resource act =
     find (\<lambda>r. has_permission (Some r) resource act) [RoleViewer, RoleAnalyst, RoleDeveloper, RoleAdmin]"

section \<open>Scopes\<close>

definition SDK_RULESET_SCOPE :: pstr where "SDK_RULESET_SCOPE = str ''sdk:ruleset''"

definition parse_scopes :: "pstr option \<Rightarrow> pstr list" where
  "parse_scopes scopes =
     (case scopes of
        None \<Rightarrow> []
      | Some s \<Rightarrow> if s = [] then [] else [strip e. e \<leftarrow> split_at 44 s, strip e \<noteq> []])"

definition normalise_scope_list :: "pstr list \<Rightarrow> pstr list" where
  "normalise_scope_list scopes = [strip e. e \<leftarrow> scopes, strip e \<noteq> []]"

definition format_scopes :: "pstr list option \<Rightarrow> pstr option" where
  "format_scopes scopes =
     (case scopes of
        None \<Rightarrow> None
      | Some es \<Rightarrow> (let cleaned = normalise_scope_list es
                    in if cleaned = [] then None else Some (join_with [44] cleaned)))"

definition has_scope :: "pstr option \<Rightarrow> pstr \<Rightarrow> bool" where
  "has_scope scopes name = (name \<in> set (parse_scopes scopes))"

section \<open>Keys\<close>

record api_key =
  ak_id :: pstr
  ak_key :: pstr
  ak_active :: bool
  ak_expires :: "int option"
  ak_last_used :: "int option"
  ak_scopes :: "pstr option"
  ak_user :: pstr

record auth_db =
  api_keys :: "api_key list"
  app_users :: "app_user list"

definition LAST_USED_RESOLUTION :: int where "LAST_USED_RESOLUTION = 60 * 1000000"

definition is_expired :: "int \<Rightarrow> api_key \<Rightarrow> bool" where
  "is_expired now k = (case ak_expires k of None \<Rightarrow> False | Some t \<Rightarrow> t < now)"

definition key_is_valid :: "int \<Rightarrow> api_key \<Rightarrow> bool" where
  "key_is_valid now k = (ak_active k \<and> \<not> is_expired now k)"

definition note_use :: "int \<Rightarrow> api_key \<Rightarrow> api_key \<Rightarrow> api_key" where
  "note_use now k r =
     (if ak_id r = ak_id k \<and>
         (case ak_last_used r of None \<Rightarrow> True | Some t \<Rightarrow> t \<le> now - LAST_USED_RESOLUTION)
      then r\<lparr>ak_last_used := Some now\<rparr> else r)"

definition update_last_used :: "int \<Rightarrow> api_key \<Rightarrow> auth_db \<Rightarrow> auth_db" where
  "update_last_used now k db =
     (if (case ak_last_used k of None \<Rightarrow> False | Some t \<Rightarrow> now - LAST_USED_RESOLUTION < t) then db
      else db\<lparr>api_keys := map (note_use now k) (api_keys db)\<rparr>)"

definition find_key :: "(pstr \<Rightarrow> pstr) \<Rightarrow> auth_db \<Rightarrow> pstr \<Rightarrow> api_key option" where
  "find_key hash db header = find (\<lambda>k. ak_key k = hash header) (api_keys db)"

definition find_user :: "auth_db \<Rightarrow> pstr \<Rightarrow> app_user option" where
  "find_user db uid = find (\<lambda>u. usr_id u = uid) (app_users db)"

datatype scope_refusal_reason = MissingScope | OwnerRole

datatype auth_error = Unauthorized | Forbidden scope_refusal_reason

text \<open>\<^verbatim>\<open>get_api_key\<close>: every failure is a 401; a success records the use of the key.\<close>

definition get_api_key ::
  "(pstr \<Rightarrow> pstr) \<Rightarrow> int \<Rightarrow> pstr option \<Rightarrow> auth_db \<Rightarrow> auth_error + app_user \<times> auth_db" where
  "get_api_key hash now header db =
     (case header of
        None \<Rightarrow> Inl Unauthorized
      | Some h \<Rightarrow>
          if h = [] then Inl Unauthorized
          else (case find_key hash db h of
              None \<Rightarrow> Inl Unauthorized
            | Some k \<Rightarrow>
                if \<not> key_is_valid now k then Inl Unauthorized
                else (case find_user db (ak_user k) of
                    None \<Rightarrow> Inl Unauthorized
                  | Some u \<Rightarrow> if \<not> usr_active u then Inl Unauthorized
                              else Inr (u, update_last_used now k db))))"

definition scope_refusal :: "auth_db \<Rightarrow> api_key \<Rightarrow> scope_refusal_reason option" where
  "scope_refusal db k =
     (if \<not> has_scope (ak_scopes k) SDK_RULESET_SCOPE then Some MissingScope
      else (case find_user db (ak_user k) of
          None \<Rightarrow> Some OwnerRole
        | Some owner \<Rightarrow>
            if \<not> usr_active owner \<or> \<not> check_permission owner ResFeatureFlag ActUpdate
            then Some OwnerRole else None))"

definition presented_key_is_server_key :: "(pstr \<Rightarrow> pstr) \<Rightarrow> int \<Rightarrow> auth_db \<Rightarrow> pstr option \<Rightarrow> bool" where
  "presented_key_is_server_key hash now db header =
     (case header of
        None \<Rightarrow> False
      | Some h \<Rightarrow>
          if h = [] then False
          else (case find_key hash db h of
              None \<Rightarrow> False
            | Some k \<Rightarrow> if \<not> key_is_valid now k then False else scope_refusal db k = None))"

definition require_sdk_ruleset_key ::
  "(pstr \<Rightarrow> pstr) \<Rightarrow> int \<Rightarrow> auth_db \<Rightarrow> pstr option \<Rightarrow> auth_error + api_key" where
  "require_sdk_ruleset_key hash now db header =
     (case header of
        None \<Rightarrow> Inl Unauthorized
      | Some h \<Rightarrow>
          if h = [] then Inl Unauthorized
          else (case find_key hash db h of
              None \<Rightarrow> Inl Unauthorized
            | Some k \<Rightarrow>
                if \<not> key_is_valid now k then Inl Unauthorized
                else (case scope_refusal db k of
                    Some r \<Rightarrow> Inl (Forbidden r) | None \<Rightarrow> Inr k)))"

section \<open>Facts\<close>

lemma all_actions_complete [simp]: "act \<in> set all_actions"
  by (cases act) (simp_all add: all_actions_def)

text \<open>The two readings of the scope agree: one refuses, the other says no.\<close>

lemma server_key_iff_required:
  "presented_key_is_server_key hash now db header \<longleftrightarrow> (\<exists>k. require_sdk_ruleset_key hash now db header = Inr k)"
  by (simp add: presented_key_is_server_key_def require_sdk_ruleset_key_def split: option.splits)

text \<open>Who may change a flag: superusers, administrators and developers, whoever owns the flag.\<close>

lemma flag_update_roles:
  "check_permission u ResFeatureFlag ActUpdate \<longleftrightarrow>
     usr_superuser u \<or> usr_role u = Some RoleAdmin \<or> usr_role u = Some RoleDeveloper"
proof (cases "usr_role u")
  case (Some r)
  then show ?thesis by (cases r) (simp_all add: check_permission_def has_permission_def)
qed (simp add: check_permission_def has_permission_def)

lemma flag_access_by_role:
  assumes "act \<in> {ActRead, ActUpdate, ActDelete}"
  shows "can_act_on_feature_flag u owner act \<longleftrightarrow> check_permission u ResFeatureFlag act"
proof (cases "usr_role u")
  case (Some r)
  then show ?thesis using assms
    by (cases r) (auto simp: can_act_on_feature_flag_def check_permission_def has_permission_def)
qed (simp add: can_act_on_feature_flag_def check_permission_def has_permission_def)

lemma server_keyE:
  assumes "presented_key_is_server_key hash now db header"
  obtains h k u where "header = Some h" "find_key hash db h = Some k" "key_is_valid now k"
    "has_scope (ak_scopes k) SDK_RULESET_SCOPE" "find_user db (ak_user k) = Some u" "usr_active u"
    "check_permission u ResFeatureFlag ActUpdate"
  using assms
  by (auto simp: presented_key_is_server_key_def scope_refusal_def split: option.splits if_splits)

text \<open>Recording the use of a key changes neither its scopes, its validity nor its owner.\<close>

lemma note_use_keeps [simp]:
  "ak_key (note_use t k r) = ak_key r" "ak_scopes (note_use t k r) = ak_scopes r"
  "ak_user (note_use t k r) = ak_user r" "key_is_valid now (note_use t k r) = key_is_valid now r"
  by (simp_all add: note_use_def key_is_valid_def is_expired_def)

lemma find_map: "find P (map f xs) = map_option f (find (\<lambda>x. P (f x)) xs)"
  by (induction xs) auto

lemma find_user_after_use [simp]: "find_user (update_last_used now k db) uid = find_user db uid"
  by (simp add: update_last_used_def find_user_def)

lemma find_key_after_use:
  "find_key hash (update_last_used t k db) h = find_key hash db h \<or>
   find_key hash (update_last_used t k db) h = map_option (note_use t k) (find_key hash db h)"
  by (simp add: update_last_used_def find_key_def find_map)

lemma server_key_after_use [simp]:
  "presented_key_is_server_key hash now (update_last_used t k db) header =
     presented_key_is_server_key hash now db header"
proof (cases header)
  case (Some h)
  show ?thesis
    using find_key_after_use [of hash t k db h]
    by (cases "find_key hash db h") (auto simp: presented_key_is_server_key_def scope_refusal_def Some)
qed (simp add: presented_key_is_server_key_def)

text \<open>Stored scopes read back: what was joined is what is parsed, when no name contains a comma.\<close>

lemma strip_strip [simp]: "strip (strip s) = strip s"
proof -
  obtain ys where ys: "dropWhile py_isspace s = strip s @ ys"
    unfolding strip_def by (metis rev_append rev_rev_ident takeWhile_dropWhile_id)
  have "dropWhile py_isspace (strip s) = strip s"
  proof (cases "strip s")
    case (Cons c t)
    with ys have "dropWhile py_isspace s = c # t @ ys" by simp
    then have "\<not> py_isspace c" using hd_dropWhile [of py_isspace s] by simp
    with Cons show ?thesis by simp
  qed simp
  then have "strip (strip s) = rev (dropWhile py_isspace (rev (strip s)))" by (simp add: strip_def [of "strip s"])
  also have "\<dots> = strip s" by (simp add: strip_def)
  finally show ?thesis .
qed

lemma split_at_join:
  "es \<noteq> [] \<Longrightarrow> \<forall>e\<in>set es. c \<notin> set e \<Longrightarrow> split_at c (join_with [c] es) = es"
proof (induction "[c]" es rule: join_with.induct)
  case (2 p)
  then show ?case by (induction p) auto
next
  case (3 p q ps)
  then have rest: "split_at c (join_with [c] (q # ps)) = q # ps" by simp
  have "c \<notin> set p" using 3 by simp
  then have "split_at c (p @ c # join_with [c] (q # ps)) = p # q # ps"
    using rest by (induction p) auto
  then show ?case by simp
qed simp

lemma strip_subset: "set (strip e) \<subseteq> set e"
  by (metis (no_types, lifting) set_dropWhileD set_rev strip_def subsetI)

lemma scopes_read_back:
  assumes "\<forall>e\<in>set es. 44 \<notin> set e"
  shows "parse_scopes (format_scopes (Some es)) = normalise_scope_list es"
proof -
  let ?cleaned = "normalise_scope_list es"
  have mem: "\<exists>e'\<in>set es. e = strip e'" "e \<noteq> []" if "e \<in> set ?cleaned" for e
    using that by (auto simp: normalise_scope_list_def)
  have same: "[strip e. e \<leftarrow> xs, strip e \<noteq> []] = xs" if "\<forall>e\<in>set xs. strip e = e \<and> e \<noteq> []" for xs
    using that by (induction xs) auto
  show ?thesis
  proof (cases "?cleaned = []")
    case True
    then show ?thesis by (simp add: format_scopes_def parse_scopes_def Let_def)
  next
    case False
    have "\<forall>e\<in>set ?cleaned. 44 \<notin> set e" using mem(1) strip_subset assms by blast
    with False have split: "split_at 44 (join_with [44] ?cleaned) = ?cleaned" by (rule split_at_join)
    have "join_with [44] ?cleaned \<noteq> []" using split False mem(2) by (metis list.set_intros(1) split_at.simps(1))
    moreover have "[strip e. e \<leftarrow> ?cleaned, strip e \<noteq> []] = ?cleaned"
      using mem by (intro same) (metis strip_strip)
    ultimately show ?thesis using False by (simp add: format_scopes_def parse_scopes_def Let_def split)
  qed
qed

end
