(* ===== verification/Error_Reports.thy ===== *)
theory Error_Reports
  imports Permissions Feature_Flags Md5
begin

text \<open>
  Error reports: the routes of \<^verbatim>\<open>backend/app/api/v1/endpoints/client_errors.py\<close>, the rows they and
  \<^verbatim>\<open>services/metrics_service.py\<close> write, and the rule of \<^verbatim>\<open>models/metrics/metric.py\<close> that says which
  rows count toward a flag's error numbers. A report is stamped with the kind of key that sent it.
  Instants are microseconds of naive UTC; \<^verbatim>\<open>datetime.isoformat\<close> is an argument.
\<close>

section \<open>Rows\<close>

datatype metric_type = FlagEvaluationMetric | RuleMatchMetric | SegmentMatchMetric | ErrorMetric | LatencyMetric

text \<open>The columns the safety monitor reads; a SQL null or a JSON null of \<^verbatim>\<open>request_data\<close> is \<open>PNone\<close>.\<close>

record raw_metric =
  raw_type :: metric_type
  raw_time :: int
  raw_flag :: "pstr option"
  raw_value :: "pyfloat option"
  raw_count :: int

record error_log =
  log_type :: pstr
  log_time :: int
  log_flag :: "pstr option"
  log_user :: "pstr option"
  log_message :: pstr
  log_stack :: "pstr option"
  log_request :: pyval
  log_metadata :: pyval

definition REPORT_SOURCE_SERVER :: pstr where "REPORT_SOURCE_SERVER = str ''server''"
definition REPORT_SOURCE_CLIENT :: pstr where "REPORT_SOURCE_CLIENT = str ''client''"

text \<open>
  \<^verbatim>\<open>request_data->>'source'\<close>: null unless the value is an object with the key. The text of a value that
  is not a string is never one of the two words, so only strings are kept.
\<close>

definition source_text :: "pyval \<Rightarrow> pstr option" where
  "source_text request =
     (case request of
        PDict d \<Rightarrow> (case map_of d (str ''source'') of Some (PStr s) \<Rightarrow> Some s | _ \<Rightarrow> None)
      | _ \<Rightarrow> None)"

text \<open>\<^verbatim>\<open>IS DISTINCT FROM\<close> holds of a null; \<^verbatim>\<open>=\<close> does not.\<close>

definition counted_error_filter :: "error_log \<Rightarrow> bool" where
  "counted_error_filter e = (source_text (log_request e) \<noteq> Some REPORT_SOURCE_CLIENT)"

definition uncounted_error_filter :: "error_log \<Rightarrow> bool" where
  "uncounted_error_filter e =
     (case source_text (log_request e) of None \<Rightarrow> False | Some s \<Rightarrow> s = REPORT_SOURCE_CLIENT)"

section \<open>JSON text\<close>

text \<open>\<^verbatim>\<open>json.dumps(v, separators=(",", ":"), ensure_ascii=False, default=str)\<close>\<close>

definition hex_digit :: "nat \<Rightarrow> nat" where
  "hex_digit n = (if n < 10 then 48 + n else 87 + n)"

definition json_char :: "nat \<Rightarrow> pstr" where
  "json_char c =
     (if c = 34 then [92, 34] else if c = 92 then [92, 92]
      else if c = 8 then [92, 98] else if c = 12 then [92, 102] else if c = 10 then [92, 110]
      else if c = 13 then [92, 114] else if c = 9 then [92, 116]
      else if c < 32 then [92, 117, 48, 48, hex_digit (c div 16), hex_digit (c mod 16)] else [c])"

definition json_string :: "pstr \<Rightarrow> pstr" where
  "json_string s = [34] @ concat (map json_char s) @ [34]"

definition json_float :: "'z pyenv_scheme \<Rightarrow> pyfloat \<Rightarrow> pstr" where
  "json_float E x =
     (case x of
        Fin _ \<Rightarrow> repr_text E (PFloat x)
      | PInf \<Rightarrow> str ''Infinity'' | NInf \<Rightarrow> str ''-Infinity'' | NaN \<Rightarrow> str ''NaN'')"

fun json_text :: "'z pyenv_scheme \<Rightarrow> pyval \<Rightarrow> pstr" where
  "json_text E PNone = str ''null''"
| "json_text E (PBool b) = (if b then str ''true'' else str ''false'')"
| "json_text E (PInt n) = dec_of_int n"
| "json_text E (PFloat x) = json_float E x"
| "json_text E (PStr s) = json_string s"
| "json_text E (PList xs) = [91] @ join_with [44] (map (json_text E) xs) @ [93]"
| "json_text E (PDict d) =
     [123] @ join_with [44] (map (\<lambda>kv. json_string (fst kv) @ [58] @ json_text E (snd kv)) d) @ [125]"
| "json_text E v = json_string (py_str E v)"

text \<open>\<^verbatim>\<open>contains_unstorable_text\<close>: NUL or a lone surrogate in any string of a value, keys included.\<close>

fun contains_unstorable_text :: "pyval \<Rightarrow> bool" where
  "contains_unstorable_text (PStr s) = unstorable_text s"
| "contains_unstorable_text (PList xs) = list_ex contains_unstorable_text xs"
| "contains_unstorable_text (PDict d) =
     list_ex (\<lambda>kv. unstorable_text (fst kv) \<or> contains_unstorable_text (snd kv)) d"
| "contains_unstorable_text _ = False"

section \<open>The request\<close>

record client_error =
  rep_flag_key :: "pstr option"
  rep_experiment_key :: "pstr option"
  rep_user :: "pstr option"
  rep_type :: pstr
  rep_message :: pstr
  rep_stack :: "pstr option"
  rep_metadata :: "(pstr \<times> pyval) list option"
  rep_timestamp :: "pydatetime option"

definition MAX_BATCH_SIZE :: nat where "MAX_BATCH_SIZE = 100"
definition ERROR_TYPE_MAX :: nat where "ERROR_TYPE_MAX = 100"
definition MESSAGE_MAX :: nat where "MESSAGE_MAX = 1000"
definition STACK_TRACE_MAX_BYTES :: nat where "STACK_TRACE_MAX_BYTES = 8 * 1024"
definition METADATA_MAX_BYTES :: nat where "METADATA_MAX_BYTES = 8 * 1024"

text \<open>A key that is null or empty names nothing (\<^verbatim>\<open>if report.feature_flag_key\<close>).\<close>

definition sent_key :: "pstr option \<Rightarrow> pstr option" where
  "sent_key k = (case k of None \<Rightarrow> None | Some s \<Rightarrow> if s = [] then None else Some s)"

definition storable_opt :: "pstr option \<Rightarrow> bool" where
  "storable_opt v = (case v of None \<Rightarrow> True | Some s \<Rightarrow> \<not> unstorable_text s)"

definition valid_client_error :: "client_error \<Rightarrow> bool" where
  "valid_client_error r =
     (storable_opt (rep_flag_key r) \<and> storable_opt (rep_experiment_key r) \<and> storable_opt (rep_user r) \<and>
      storable_opt (rep_stack r) \<and> \<not> unstorable_text (rep_type r) \<and> \<not> unstorable_text (rep_message r) \<and>
      (case rep_metadata r of None \<Rightarrow> True | Some d \<Rightarrow> \<not> contains_unstorable_text (PDict d)) \<and>
      (case rep_user r of None \<Rightarrow> True | Some u \<Rightarrow> length u \<le> 255) \<and>
      1 \<le> length (rep_type r) \<and> length (rep_type r) \<le> ERROR_TYPE_MAX \<and> 1 \<le> length (rep_message r) \<and>
      (sent_key (rep_flag_key r) \<noteq> None \<or> sent_key (rep_experiment_key r) \<noteq> None))"

section \<open>What is stored\<close>

text \<open>
  \<^verbatim>\<open>bytes.decode("utf-8", "ignore")\<close> of a cut encoding: the bytes of an incomplete last character are
  dropped. The length of a character follows from its first byte.
\<close>

fun char_width :: "nat \<Rightarrow> nat" where
  "char_width b = (if b < 128 then 1 else if b < 224 then 2 else if b < 240 then 3 else 4)"

definition char_of_bytes :: "nat list \<Rightarrow> nat" where
  "char_of_bytes bs =
     (case bs of
        [a] \<Rightarrow> a
      | [a, b] \<Rightarrow> (a - 192) * 64 + (b - 128)
      | [a, b, c] \<Rightarrow> (a - 224) * 4096 + (b - 128) * 64 + (c - 128)
      | [a, b, c, d] \<Rightarrow> (a - 240) * 262144 + (b - 128) * 4096 + (c - 128) * 64 + (d - 128)
      | _ \<Rightarrow> 0)"

function decode_cut :: "nat list \<Rightarrow> pstr" where
  "decode_cut [] = []"
| "decode_cut (b # bs) =
     (if length (b # bs) < char_width b then []
      else char_of_bytes (take (char_width b) (b # bs)) # decode_cut (drop (char_width b) (b # bs)))"
  by pat_completeness auto
termination
  by (relation "measure length") (auto split: if_splits)

text \<open>\<^verbatim>\<open>encode("utf-8", "replace")\<close> writes a question mark for a surrogate.\<close>

definition encode_replace :: "pstr \<Rightarrow> nat list" where
  "encode_replace s = concat (map (\<lambda>c. if is_surrogate c then [63] else utf8_char c) s)"

definition truncate_utf8 :: "pstr option \<Rightarrow> nat \<Rightarrow> pstr option" where
  "truncate_utf8 v limit =
     (case v of
        None \<Rightarrow> None
      | Some s \<Rightarrow>
          (let head = take limit s; encoded = encode_replace head
           in if length encoded \<le> limit then Some head else Some (decode_cut (take limit encoded))))"

definition stored_metadata ::
  "'z pyenv_scheme \<Rightarrow> (pydatetime \<Rightarrow> pstr) \<Rightarrow> client_error \<Rightarrow> (pstr \<times> pyval) list option" where
  "stored_metadata E isoformat r =
     (let bounded = (case rep_metadata r of
            None \<Rightarrow> None
          | Some d \<Rightarrow>
              (let size = length (encode_replace (json_text E (PDict d)))
               in if size > METADATA_MAX_BYTES
                  then Some [(str ''metadata_truncated'', PBool True), (str ''metadata_bytes'', PInt (int size))]
                  else Some d))
      in case rep_timestamp r of
           None \<Rightarrow> bounded
         | Some t \<Rightarrow> Some (dict_set (str ''client_timestamp'') (PStr (isoformat t))
             (case bounded of None \<Rightarrow> [] | Some d \<Rightarrow> d)))"

definition request_data :: "client_error \<Rightarrow> pstr option \<Rightarrow> pstr \<Rightarrow> (pstr \<times> pyval) list" where
  "request_data r experiment_id source =
     [(str ''source'', PStr source)] @
     (case sent_key (rep_flag_key r) of None \<Rightarrow> [] | Some k \<Rightarrow> [(str ''feature_flag_key'', PStr k)]) @
     (case sent_key (rep_experiment_key r) of None \<Rightarrow> [] | Some k \<Rightarrow> [(str ''experiment_key'', PStr k)]) @
     (case experiment_id of None \<Rightarrow> [] | Some i \<Rightarrow> [(str ''experiment_id'', PStr i)])"

definition json_or_null :: "(pstr \<times> pyval) list option \<Rightarrow> pyval" where
  "json_or_null d = (case d of None \<Rightarrow> PNone | Some kvs \<Rightarrow> PDict kvs)"

definition to_error_log ::
  "'z pyenv_scheme \<Rightarrow> (pydatetime \<Rightarrow> pstr) \<Rightarrow> int \<Rightarrow> client_error \<Rightarrow> pstr option \<Rightarrow> pstr option \<Rightarrow>
     pstr \<Rightarrow> error_log" where
  "to_error_log E isoformat now r fid experiment_id source =
     \<lparr>log_type = take ERROR_TYPE_MAX (rep_type r), log_time = now, log_flag = fid,
      log_user = rep_user r, log_message = take MESSAGE_MAX (rep_message r),
      log_stack = truncate_utf8 (rep_stack r) STACK_TRACE_MAX_BYTES,
      log_request = PDict (request_data r experiment_id source),
      log_metadata = json_or_null (stored_metadata E isoformat r)\<rparr>"

section \<open>The routes\<close>

text \<open>
  \<^verbatim>\<open>_resolve_targets\<close>: the ids of the named flag and experiment, or the \<^verbatim>\<open>LookupError\<close> of an unknown
  key. \<open>flags\<close> and \<open>experiments\<close> look a key up in the tables.
\<close>

datatype target_error = UnknownFlagKey pstr | UnknownExperimentKey pstr

definition resolve_targets ::
  "(pstr \<Rightarrow> pstr option) \<Rightarrow> (pstr \<Rightarrow> pstr option) \<Rightarrow> client_error \<Rightarrow>
     target_error + pstr option \<times> pstr option" where
  "resolve_targets flags experiments r =
     ebind (case sent_key (rep_flag_key r) of
              None \<Rightarrow> Inr None
            | Some k \<Rightarrow> (case flags k of None \<Rightarrow> Inl (UnknownFlagKey k) | Some i \<Rightarrow> Inr (Some i))) (\<lambda>fid.
     ebind (case sent_key (rep_experiment_key r) of
              None \<Rightarrow> Inr None
            | Some k \<Rightarrow> (case experiments k of None \<Rightarrow> Inl (UnknownExperimentKey k) | Some i \<Rightarrow> Inr (Some i)))
       (\<lambda>eid. Inr (fid, eid)))"

definition report_source :: "(pstr \<Rightarrow> pstr) \<Rightarrow> int \<Rightarrow> auth_db \<Rightarrow> pstr option \<Rightarrow> pstr" where
  "report_source hash now auth header =
     (if presented_key_is_server_key hash now auth header then REPORT_SOURCE_SERVER else REPORT_SOURCE_CLIENT)"

datatype report_answer =
    ReportUnauthorized
  | ReportInvalid
  | ReportTooLarge
  | ReportUnknown target_error
  | ReportStored
  | BatchStored nat "(nat \<times> target_error) list"

text \<open>
  The dependencies of both routes: \<^verbatim>\<open>get_api_key\<close> refuses a key that is missing, unknown or invalid,
  and \<^verbatim>\<open>report_source\<close> reads the presented key once for every report of the request.
\<close>

definition report_client_error ::
  "'z pyenv_scheme \<Rightarrow> (pydatetime \<Rightarrow> pstr) \<Rightarrow> (pstr \<Rightarrow> pstr) \<Rightarrow> int \<Rightarrow> auth_db \<Rightarrow> pstr option \<Rightarrow>
     (pstr \<Rightarrow> pstr option) \<Rightarrow> (pstr \<Rightarrow> pstr option) \<Rightarrow> client_error \<Rightarrow> error_log list \<Rightarrow>
     report_answer \<times> error_log list" where
  "report_client_error E isoformat hash now auth header flags experiments r logs =
     (case get_api_key hash now header auth of
        Inl _ \<Rightarrow> (ReportUnauthorized, logs)
      | Inr (_, auth') \<Rightarrow>
          if \<not> valid_client_error r then (ReportInvalid, logs)
          else (case resolve_targets flags experiments r of
              Inl e \<Rightarrow> (ReportUnknown e, logs)
            | Inr (fid, eid) \<Rightarrow>
                (ReportStored,
                 logs @ [to_error_log E isoformat now r fid eid (report_source hash now auth' header)])))"

fun batch_rows ::
  "'z pyenv_scheme \<Rightarrow> (pydatetime \<Rightarrow> pstr) \<Rightarrow> int \<Rightarrow> (pstr \<Rightarrow> pstr option) \<Rightarrow> (pstr \<Rightarrow> pstr option) \<Rightarrow>
     pstr \<Rightarrow> nat \<Rightarrow> client_error list \<Rightarrow> error_log list \<times> (nat \<times> target_error) list" where
  "batch_rows E isoformat now flags experiments source index [] = ([], [])"
| "batch_rows E isoformat now flags experiments source index (r # rs) =
     (case batch_rows E isoformat now flags experiments source (Suc index) rs of (rows, failures) \<Rightarrow>
        case resolve_targets flags experiments r of
          Inl e \<Rightarrow> (rows, (index, e) # failures)
        | Inr (fid, eid) \<Rightarrow> (to_error_log E isoformat now r fid eid source # rows, failures))"

definition report_client_errors_batch ::
  "'z pyenv_scheme \<Rightarrow> (pydatetime \<Rightarrow> pstr) \<Rightarrow> (pstr \<Rightarrow> pstr) \<Rightarrow> int \<Rightarrow> auth_db \<Rightarrow> pstr option \<Rightarrow>
     (pstr \<Rightarrow> pstr option) \<Rightarrow> (pstr \<Rightarrow> pstr option) \<Rightarrow> client_error list \<Rightarrow> error_log list \<Rightarrow>
     report_answer \<times> error_log list" where
  "report_client_errors_batch E isoformat hash now auth header flags experiments rs logs =
     (case get_api_key hash now header auth of
        Inl _ \<Rightarrow> (ReportUnauthorized, logs)
      | Inr (_, auth') \<Rightarrow>
          if rs = [] \<or> \<not> list_all valid_client_error rs then (ReportInvalid, logs)
          else if length rs > MAX_BATCH_SIZE then (ReportTooLarge, logs)
          else (case batch_rows E isoformat now flags experiments (report_source hash now auth' header) 0 rs of
              (rows, failures) \<Rightarrow> (BatchStored (length rows) failures, logs @ rows)))"

section \<open>Metrics of an evaluation\<close>

text \<open>
  \<^verbatim>\<open>record_flag_evaluation\<close>: the evaluation, and a row for the latency, the rule and the segment when
  there is one, each stamped when it is written.
\<close>

definition metric_now :: "metric_type \<Rightarrow> int \<Rightarrow> pstr \<Rightarrow> pyfloat option \<Rightarrow> raw_metric" where
  "metric_now kind now fid v =
     \<lparr>raw_type = kind, raw_time = now, raw_flag = Some fid, raw_value = v, raw_count = 1\<rparr>"

definition record_flag_evaluation ::
  "(metric_type \<Rightarrow> int) \<Rightarrow> pstr \<Rightarrow> pstr option \<Rightarrow> pstr option \<Rightarrow> pyfloat option \<Rightarrow> raw_metric list \<Rightarrow>
     raw_metric list" where
  "record_flag_evaluation clk fid matched seg latency rows =
     rows @ [metric_now FlagEvaluationMetric (clk FlagEvaluationMetric) fid None] @
     (case latency of None \<Rightarrow> [] | Some ms \<Rightarrow> [metric_now LatencyMetric (clk LatencyMetric) fid (Some ms)]) @
     (case sent_key matched of None \<Rightarrow> [] | Some _ \<Rightarrow> [metric_now RuleMatchMetric (clk RuleMatchMetric) fid None]) @
     (case seg of None \<Rightarrow> [] | Some _ \<Rightarrow> [metric_now SegmentMatchMetric (clk SegmentMatchMetric) fid None])"

text \<open>\<^verbatim>\<open>log_error\<close> for an evaluation that failed on the server: its row names the context only.\<close>

definition failed_evaluation_log :: "int \<Rightarrow> pstr \<Rightarrow> pstr \<Rightarrow> pstr option \<Rightarrow> pstr \<Rightarrow> pyval \<Rightarrow> error_log" where
  "failed_evaluation_log now kind fid user message ctx =
     \<lparr>log_type = kind, log_time = now, log_flag = Some fid, log_user = user, log_message = message,
      log_stack = None, log_request = PDict [(str ''context'', ctx)], log_metadata = PNone\<rparr>"

section \<open>Facts\<close>

lemma uncounted_iff: "uncounted_error_filter e \<longleftrightarrow> \<not> counted_error_filter e"
  by (auto simp: uncounted_error_filter_def counted_error_filter_def split: option.split)

text \<open>The stamp of a row is the kind of key that sent it, whatever the body says.\<close>

lemma report_row_source [simp]:
  "source_text (log_request (to_error_log E isoformat now r fid eid source)) = Some source"
  by (simp add: to_error_log_def source_text_def request_data_def)

lemma client_row_uncounted [simp]:
  "\<not> counted_error_filter (to_error_log E isoformat now r fid eid REPORT_SOURCE_CLIENT)"
  by (simp add: counted_error_filter_def)

lemma server_row_counted [simp]:
  "counted_error_filter (to_error_log E isoformat now r fid eid REPORT_SOURCE_SERVER)"
  by (simp add: counted_error_filter_def REPORT_SOURCE_SERVER_def REPORT_SOURCE_CLIENT_def str_def)

lemma batch_rows_source:
  "e \<in> set (fst (batch_rows E isoformat now flags experiments source n rs)) \<Longrightarrow>
     source_text (log_request e) = Some source"
proof (induction rs arbitrary: n)
  case (Cons r rs)
  obtain rows failures where b: "batch_rows E isoformat now flags experiments source (Suc n) rs = (rows, failures)"
    by fastforce
  with Cons.IH [of "Suc n"] have "e \<in> set rows \<Longrightarrow> source_text (log_request e) = Some source" by simp
  with Cons.prems b show ?case by (auto split: sum.splits prod.splits)
qed simp

lemma get_api_key_source:
  "get_api_key hash now header auth = Inr (u, auth') \<Longrightarrow>
     report_source hash now auth' header = report_source hash now auth header"
  by (auto simp: get_api_key_def report_source_def split: option.splits if_splits)

text \<open>A request sent with another key than a server key adds only rows that do not count.\<close>

lemma client_report_rows:
  assumes "\<not> presented_key_is_server_key hash now auth header"
  shows "\<exists>rows. snd (report_client_error E isoformat hash now auth header flags experiments r logs) = logs @ rows \<and>
      (\<forall>e\<in>set rows. \<not> counted_error_filter e)" (is ?one)
    and "\<exists>rows. snd (report_client_errors_batch E isoformat hash now auth header flags experiments rs logs) =
      logs @ rows \<and> (\<forall>e\<in>set rows. \<not> counted_error_filter e)" (is ?batch)
proof -
  have source: "report_source hash now auth' header = REPORT_SOURCE_CLIENT"
    if "get_api_key hash now header auth = Inr (u, auth')" for u auth'
    using get_api_key_source [OF that] assms by (simp add: report_source_def)
  show ?one
    using source by (auto simp: report_client_error_def split: sum.splits prod.splits)
  have rows: "\<not> counted_error_filter e"
    if "e \<in> set (fst (batch_rows E isoformat now flags experiments REPORT_SOURCE_CLIENT 0 rs))" for e
    using batch_rows_source [OF that] by (simp add: counted_error_filter_def)
  show ?batch
  proof (cases "get_api_key hash now header auth")
    case (Inr a)
    with rows source [of "fst a" "snd a"] show ?thesis
      by (auto simp: report_client_errors_batch_def split: prod.splits)
  qed (simp add: report_client_errors_batch_def)
qed

text \<open>A cut text is a prefix of what was sent and fits the limit.\<close>

lemma utf8_char_width:
  "c < 0x110000 \<Longrightarrow> char_width (hd (utf8_char c)) = length (utf8_char c)"
  by (auto simp: utf8_char_def)

lemma base64_digits:
  fixes c q r :: nat
  assumes "q * 64 + r = c" and "q' * 64 + r' = q"
  shows "q' * 4096 + r' * 64 + r = c" and "q'' * 64 + r'' = q' \<Longrightarrow> q'' * 262144 + r'' * 4096 + r' * 64 + r = c"
  using assms by auto

lemma char_of_utf8: "char_of_bytes (utf8_char c) = c"
proof -
  have div4096: "n div 4096 = n div 64 div 64" and div262144: "n div 262144 = n div 64 div 64 div 64" for n :: nat
    by (simp_all add: div_mult2_eq [symmetric])
  note digits = base64_digits [OF div_mult_mod_eq [of c 64] div_mult_mod_eq [of "c div 64" 64]]
  show ?thesis
    using digits(1) digits(2) [OF div_mult_mod_eq [of "c div 64 div 64" 64]]
    by (simp add: utf8_char_def char_of_bytes_def div4096 div262144)
qed

definition valid_text :: "pstr \<Rightarrow> bool" where
  "valid_text s = list_all (\<lambda>c. c < 0x110000 \<and> \<not> is_surrogate c) s"

lemma encode_valid: "valid_text s \<Longrightarrow> encode_replace s = concat (map utf8_char s)"
  by (induction s) (auto simp: valid_text_def encode_replace_def)

lemma decode_cut_prefix:
  "valid_text s \<Longrightarrow>
     \<exists>k. decode_cut (take n (encode_replace s)) = take k s \<and> length (encode_replace (take k s)) \<le> n"
proof (induction s arbitrary: n)
  case (Cons c s)
  have c: "c < 0x110000" and s: "valid_text s" and enc: "encode_replace (c # t) = utf8_char c @ encode_replace t" for t
    using Cons.prems by (auto simp: valid_text_def encode_replace_def)
  let ?w = "length (utf8_char c)"
  obtain b bs where cb: "utf8_char c = b # bs"
    by (cases "utf8_char c") (simp_all add: utf8_char_def split: if_splits)
  with utf8_char_width [OF c] have w: "char_width b = ?w" by simp
  show ?case
  proof (cases "n < ?w")
    case True
    then have "decode_cut (take n (encode_replace (c # s))) = []"
      using w by (cases n) (simp_all add: enc cb del: char_width.simps)
    then show ?thesis by (intro exI [of _ 0]) (simp add: encode_replace_def)
  next
    case False
    then obtain m where m: "n = ?w + m" by (metis le_add_diff_inverse not_less)
    have "take n (encode_replace (c # s)) = utf8_char c @ take m (encode_replace s)"
      by (simp add: enc m)
    then have "decode_cut (take n (encode_replace (c # s))) = c # decode_cut (take m (encode_replace s))"
      using w char_of_utf8 [of c] by (simp add: cb del: char_width.simps)
    moreover obtain k where "decode_cut (take m (encode_replace s)) = take k s"
      "length (encode_replace (take k s)) \<le> m" using Cons.IH [OF s] by blast
    ultimately show ?thesis by (intro exI [of _ "Suc k"]) (simp add: enc m)
  qed
qed (simp add: encode_replace_def)

lemma truncate_utf8_bound:
  assumes "valid_text s" and "truncate_utf8 (Some s) limit = Some h"
  shows "\<exists>k. h = take k s \<and> length (encode_replace h) \<le> limit"
proof (cases "length (encode_replace (take limit s)) \<le> limit")
  case True
  then show ?thesis using assms(2) by (intro exI [of _ limit]) (simp add: truncate_utf8_def)
next
  case False
  have "valid_text (take limit s)" using assms(1) by (auto simp: valid_text_def list_all_iff dest: in_set_takeD)
  from decode_cut_prefix [OF this, of limit] obtain k where
    k: "decode_cut (take limit (encode_replace (take limit s))) = take k (take limit s)"
      "length (encode_replace (take k (take limit s))) \<le> limit" by blast
  have "h = take (min k limit) s" using False assms(2) k(1) by (simp add: truncate_utf8_def Let_def min.commute)
  with k(2) show ?thesis by (metis take_take)
qed

end
