(* ===== verification/Safety_Monitor.thy ===== *)
theory Safety_Monitor
  imports Error_Reports Evaluation_Reports Rollout_Stages
begin

text \<open>
  Safety monitoring: \<^verbatim>\<open>backend/app/services/safety_service.py\<close> and the tick of
  \<^verbatim>\<open>core/safety_scheduler.py\<close> over the flags, schedules, error logs and metrics. A check compares the
  metrics of the last fifteen minutes with the thresholds of a flag; a rollback turns the flag off or
  lowers its percentage, pauses its schedules and writes a record. Audit entries, notifications,
  the response's message and the breakdown of errors by type are left out. Pydantic's reading of
  stored thresholds is an argument, and so are the clock readings: \<open>clk None\<close> for the window shown
  with a check, \<open>clk (Some name)\<close> for the metric of that name.
\<close>

section \<open>Formatting of a metric\<close>

text \<open>
  \<^verbatim>\<open>format(Decimal(f"{value:.4g}"), "f")\<close>: four significant figures, rounded half to even on the
  exact value, and no exponent.
\<close>

definition ten_pow :: "int \<Rightarrow> rat" where
  "ten_pow e = (if 0 \<le> e then 10 ^ nat e else 1 / 10 ^ nat (- e))"

definition decimal_exponent :: "rat \<Rightarrow> int" where
  "decimal_exponent r =
     (if 1 \<le> r then int (length (dec_digits (nat \<lfloor>r\<rfloor>))) - 1
      else - int (length (dec_digits (nat (\<lceil>1 / r\<rceil> - 1)))))"

definition four_figures :: "rat \<Rightarrow> nat \<times> int" where
  "four_figures r =
     (let e = decimal_exponent r - 3; m = nat (round_even (r / ten_pow e))
      in if m = 10000 then (1000, e + 1) else (m, e))"

definition plain_decimal :: "nat \<Rightarrow> int \<Rightarrow> pstr" where
  "plain_decimal m e =
     (if 0 \<le> e then dec_digits (m * 10 ^ nat e)
      else
        (let k = nat (- e); ds = dec_digits m;
             padded = replicate (Suc k - length ds) 48 @ ds;
             whole = take (length padded - k) padded;
             fraction = rev (dropWhile (\<lambda>c. c = 48) (rev (drop (length padded - k) padded)))
         in if fraction = [] then whole else whole @ [46] @ fraction))"

definition format_metric_value :: "pyfloat \<Rightarrow> pstr" where
  "format_metric_value x =
     (case x of
        Fin r \<Rightarrow>
          if r = 0 then str ''0''
          else (case four_figures \<bar>r\<bar> of (m, e) \<Rightarrow>
            (if r < 0 then [45] else []) @ plain_decimal m e)
      | PInf \<Rightarrow> str ''Infinity'' | NInf \<Rightarrow> str ''-Infinity'' | NaN \<Rightarrow> str ''NaN'')"

definition ERROR_METRICS :: "pstr list" where
  "ERROR_METRICS = [str ''error_rate'', str ''error_count'', str ''total_evaluations'']"

definition LATENCY_METRICS :: "pstr list" where
  "LATENCY_METRICS =
     [str ''latency'', str ''avg_latency'', str ''p95_latency'', str ''max_latency'', str ''min_latency'']"

definition format_metric_reading :: "pstr \<Rightarrow> pyfloat \<Rightarrow> pstr" where
  "format_metric_reading name x =
     (if name = str ''error_rate'' then format_metric_value (fmul x (Fin 100)) @ str ''%''
      else if name \<in> set LATENCY_METRICS then format_metric_value x @ str '' ms''
      else format_metric_value x)"

section \<open>Tables\<close>

record metric_threshold =
  warning_threshold :: "pyfloat option"
  critical_threshold :: "pyfloat option"
  comparison_type :: pstr

text \<open>JSON columns are stored values; a null is \<open>PNone\<close>. Tables are lists in the order queries return rows.\<close>

record safety_settings =
  set_auto :: bool
  set_metrics :: pyval

record safety_config =
  cfg_id :: pstr
  cfg_flag :: pstr
  cfg_enabled :: bool
  cfg_metrics :: pyval
  cfg_rollback :: int

datatype rollback_trigger =
    TriggerErrorRate | TriggerLatency | TriggerManual | TriggerAutomatic | TriggerScheduled
  | TriggerCustomMetric

record rollback_record =
  rec_id :: pstr
  rec_flag :: pstr
  rec_config :: "pstr option"
  rec_trigger :: rollback_trigger
  rec_reason :: pstr
  rec_previous :: int
  rec_target :: int
  rec_user :: "pstr option"

record safety_db =
  sf_rollout :: rollout_db
  sf_settings :: "safety_settings list"
  sf_configs :: "safety_config list"
  sf_logs :: "error_log list"
  sf_metrics :: "raw_metric list"
  sf_records :: "rollback_record list"

datatype safety_error = SafetyFlagNotFound | SafetyRaised exc

text \<open>An operation returns a result or an exception, and the tables it has committed either way.\<close>

type_synonym 'a safety_op = "safety_db \<Rightarrow> (safety_error + 'a) \<times> safety_db"

definition op_then :: "(safety_error + 'a) \<times> safety_db \<Rightarrow> ('a \<Rightarrow> 'b safety_op) \<Rightarrow> (safety_error + 'b) \<times> safety_db" where
  "op_then r k = (case r of (Inl e, db) \<Rightarrow> (Inl e, db) | (Inr a, db) \<Rightarrow> k a db)"

definition raised :: "exc + 'a \<Rightarrow> safety_error + 'a" where
  "raised r = (case r of Inl e \<Rightarrow> Inl (SafetyRaised e) | Inr a \<Rightarrow> Inr a)"

definition safety_flag :: "safety_db \<Rightarrow> pstr \<Rightarrow> feature_flag option" where
  "safety_flag db fid = get_rollout_flag (sf_rollout db) fid"

section \<open>Error numbers and latencies\<close>

definition MINUTE :: int where "MINUTE = 60 * 1000000"
definition TIMEFRAME_MINUTES :: int where "TIMEFRAME_MINUTES = 15"

definition in_window :: "int \<Rightarrow> int \<Rightarrow> bool" where
  "in_window now t = (now - TIMEFRAME_MINUTES * MINUTE \<le> t \<and> t \<le> now)"

record error_metrics =
  em_errors :: int
  em_uncounted :: int
  em_evaluations :: int
  em_rate :: pyfloat

definition get_error_metrics :: "int \<Rightarrow> pstr \<Rightarrow> safety_db \<Rightarrow> error_metrics res" where
  "get_error_metrics now fid db =
     (if safety_flag db fid = None then Inl PyValueError
      else
        (let logs = filter (\<lambda>e. log_flag e = Some fid \<and> in_window now (log_time e)) (sf_logs db);
             errors = int (length (filter counted_error_filter logs));
             uncounted = int (length (filter uncounted_error_filter logs));
             total = sum_list (map raw_count (filter (\<lambda>m. raw_flag m = Some fid \<and>
               raw_type m = FlagEvaluationMetric \<and> in_window now (raw_time m)) (sf_metrics db)))
         in Inr \<lparr>em_errors = errors, em_uncounted = uncounted, em_evaluations = total,
              em_rate = (if total = 0 then Fin 0 else int_truediv errors total)\<rparr>))"

text \<open>
  The order \<^verbatim>\<open>sorted\<close> puts floats in. It is Python's as long as none is NaN, which no writer of a
  latency stores.
\<close>

fun float_class :: "pyfloat \<Rightarrow> nat" where
  "float_class NInf = 0" | "float_class (Fin _) = 1" | "float_class PInf = 2" | "float_class NaN = 3"

instantiation pyfloat :: linorder
begin

definition less_eq_pyfloat :: "pyfloat \<Rightarrow> pyfloat \<Rightarrow> bool" where
  "less_eq_pyfloat x y = (case (x, y) of (Fin a, Fin b) \<Rightarrow> a \<le> b | _ \<Rightarrow> float_class x \<le> float_class y)"

definition less_pyfloat :: "pyfloat \<Rightarrow> pyfloat \<Rightarrow> bool" where
  "less_pyfloat x y = (x \<le> y \<and> \<not> y \<le> (x :: pyfloat))"

instance
proof
  fix x y z :: pyfloat
  show "x < y \<longleftrightarrow> x \<le> y \<and> \<not> y \<le> x" by (simp add: less_pyfloat_def)
  show "x \<le> x" by (cases x) (simp_all add: less_eq_pyfloat_def)
  show "x \<le> z" if "x \<le> y" "y \<le> z"
    using that by (cases x; cases y; cases z) (simp_all add: less_eq_pyfloat_def)
  show "x = y" if "x \<le> y" "y \<le> x"
    using that by (cases x; cases y) (simp_all add: less_eq_pyfloat_def)
  show "x \<le> y \<or> y \<le> x" by (cases x; cases y) (auto simp: less_eq_pyfloat_def)
qed

end

record latency_metrics =
  lm_avg :: pyfloat
  lm_max :: pyfloat
  lm_min :: pyfloat
  lm_p95 :: pyfloat

definition p95_index :: "nat \<Rightarrow> nat res" where
  "p95_index n =
     (case float_of_int (int n) of
        None \<Rightarrow> Inl PyOverflowError
      | Some x \<Rightarrow> emap (\<lambda>i. min (nat i) (n - 1)) (py_int_of_float (fmul x (fl (95 / 100)))))"

definition get_latency_metrics :: "int \<Rightarrow> pstr \<Rightarrow> safety_db \<Rightarrow> latency_metrics res" where
  "get_latency_metrics now fid db =
     (if safety_flag db fid = None then Inl PyValueError
      else
        (let rows = filter (\<lambda>m. raw_flag m = Some fid \<and> raw_type m = LatencyMetric \<and>
               raw_value m \<noteq> None \<and> in_window now (raw_time m)) (sf_metrics db);
             latencies = sort (map (\<lambda>m. the (raw_value m)) rows)
         in if latencies = [] then Inr \<lparr>lm_avg = Fin 0, lm_max = Fin 0, lm_min = Fin 0, lm_p95 = Fin 0\<rparr>
            else ebind (p95_index (length latencies)) (\<lambda>i.
              case float_of_int (int (length latencies)) of
                None \<Rightarrow> Inl PyOverflowError
              | Some n \<Rightarrow>
                  (case fdiv (foldl fadd (Fin 0) latencies) n of
                     None \<Rightarrow> Inl PyValueError
                   | Some avg \<Rightarrow> Inr \<lparr>lm_avg = avg, lm_max = last latencies, lm_min = hd latencies,
                       lm_p95 = latencies ! i\<rparr>))))"

text \<open>\<^verbatim>\<open>float(n)\<close>\<close>

definition float_res :: "int \<Rightarrow> pyfloat res" where
  "float_res n = (case float_of_int n of None \<Rightarrow> Inl PyOverflowError | Some x \<Rightarrow> Inr x)"

definition get_metric_value :: "int \<Rightarrow> pstr \<Rightarrow> pstr \<Rightarrow> safety_db \<Rightarrow> pyfloat option res" where
  "get_metric_value now fid name db =
     (if name \<in> set ERROR_METRICS then
        ebind (get_error_metrics now fid db) (\<lambda>m. emap Some
          (if name = str ''error_rate'' then Inr (em_rate m)
           else if name = str ''error_count'' then float_res (em_errors m)
           else float_res (em_evaluations m)))
      else if name \<in> set LATENCY_METRICS then
        emap (\<lambda>m. Some (if name = str ''max_latency'' then lm_max m
          else if name = str ''min_latency'' then lm_min m
          else if name = str ''p95_latency'' then lm_p95 m else lm_avg m)) (get_latency_metrics now fid db)
      else Inr None)"

section \<open>Settings and configurations\<close>

text \<open>
  The responses, after pydantic: \<open>read_metrics\<close> is its reading of \<^verbatim>\<open>Dict[str, MetricThreshold]\<close>, in the
  order of the stored object, and raises \<^verbatim>\<open>ValidationError\<close>.
\<close>

type_synonym thresholds = "(pstr \<times> metric_threshold) list"

type_synonym metrics_reader = "pyval \<Rightarrow> thresholds res"

record settings_response =
  sr_auto :: bool
  sr_metrics :: "thresholds option"

record config_response =
  cr_enabled :: bool
  cr_metrics :: thresholds
  cr_rollback :: int

definition DEFAULT_SETTINGS :: safety_settings where
  "DEFAULT_SETTINGS = \<lparr>set_auto = False, set_metrics = PNone\<rparr>"

definition settings_read :: "metrics_reader \<Rightarrow> safety_settings \<Rightarrow> settings_response res" where
  "settings_read read s =
     emap (\<lambda>m. \<lparr>sr_auto = set_auto s, sr_metrics = m\<rparr>)
       (if set_metrics s = PNone then Inr None else emap Some (read (set_metrics s)))"

definition get_safety_settings :: "metrics_reader \<Rightarrow> settings_response safety_op" where
  "get_safety_settings read db =
     (case sf_settings db of
        s # _ \<Rightarrow> (raised (settings_read read s), db)
      | [] \<Rightarrow> (raised (settings_read read DEFAULT_SETTINGS), db\<lparr>sf_settings := [DEFAULT_SETTINGS]\<rparr>))"

text \<open>A stored null reads as no thresholds.\<close>

definition config_read :: "metrics_reader \<Rightarrow> safety_config \<Rightarrow> config_response res" where
  "config_read read c =
     emap (\<lambda>m. \<lparr>cr_enabled = cfg_enabled c, cr_metrics = m, cr_rollback = cfg_rollback c\<rparr>)
       (if cfg_metrics c = PNone then Inr [] else read (cfg_metrics c))"

definition get_config_record :: "safety_db \<Rightarrow> pstr \<Rightarrow> safety_config option" where
  "get_config_record db fid = find (\<lambda>c. cfg_flag c = fid) (sf_configs db)"

definition get_feature_flag_safety_config :: "metrics_reader \<Rightarrow> pstr \<Rightarrow> config_response safety_op" where
  "get_feature_flag_safety_config read fid db =
     (if safety_flag db fid = None then (Inl SafetyFlagNotFound, db)
      else case get_config_record db fid of
        Some c \<Rightarrow> (raised (config_read read c), db)
      | None \<Rightarrow>
          op_then (get_safety_settings read db) (\<lambda>s db.
            (Inr \<lparr>cr_enabled = True, cr_metrics = (case sr_metrics s of None \<Rightarrow> [] | Some m \<Rightarrow> m),
                  cr_rollback = 0\<rparr>, db)))"

text \<open>
  The writes of the two routes; a field a request left out is \<open>None\<close>, and thresholds are written as
  their dump. Creation fills in the defaults.
\<close>

definition optional_float :: "pyfloat option \<Rightarrow> pyval" where
  "optional_float x = (case x of None \<Rightarrow> PNone | Some v \<Rightarrow> PFloat v)"

definition dump_thresholds :: "thresholds \<Rightarrow> pyval" where
  "dump_thresholds ms = PDict (map (\<lambda>(name, t). (name, PDict
     [(str ''warning_threshold'', optional_float (warning_threshold t)),
      (str ''critical_threshold'', optional_float (critical_threshold t)),
      (str ''comparison_type'', PStr (comparison_type t))])) ms)"

record settings_update =
  upd_auto :: "bool option"
  upd_default_metrics :: "thresholds option option"

definition dump_optional :: "thresholds option \<Rightarrow> pyval" where
  "dump_optional m = (case m of None \<Rightarrow> PNone | Some ms \<Rightarrow> dump_thresholds ms)"

definition apply_settings :: "settings_update \<Rightarrow> safety_settings \<Rightarrow> safety_settings" where
  "apply_settings u s =
     upd (upd_default_metrics u) (\<lambda>m s. s\<lparr>set_metrics := dump_optional m\<rparr>)
     (upd (upd_auto u) (\<lambda>b s. s\<lparr>set_auto := b\<rparr>) s)"

definition create_or_update_safety_settings ::
  "metrics_reader \<Rightarrow> settings_update \<Rightarrow> settings_response safety_op" where
  "create_or_update_safety_settings read u db =
     (case sf_settings db of
        s # ss \<Rightarrow>
          (raised (settings_read read (apply_settings u s)), db\<lparr>sf_settings := apply_settings u s # ss\<rparr>)
      | [] \<Rightarrow>
          (raised (settings_read read (apply_settings u DEFAULT_SETTINGS)),
           db\<lparr>sf_settings := [apply_settings u DEFAULT_SETTINGS]\<rparr>))"

record config_update =
  upd_enabled :: "bool option"
  upd_metrics :: "thresholds option"
  upd_rollback :: "int option"

text \<open>The bound of the request schema.\<close>

definition valid_config_update :: "config_update \<Rightarrow> bool" where
  "valid_config_update u = (case upd_rollback u of None \<Rightarrow> True | Some p \<Rightarrow> 0 \<le> p \<and> p \<le> 100)"

definition apply_config :: "config_update \<Rightarrow> safety_config \<Rightarrow> safety_config" where
  "apply_config u c =
     upd (upd_rollback u) (\<lambda>p c. c\<lparr>cfg_rollback := p\<rparr>)
     (upd (upd_metrics u) (\<lambda>m c. c\<lparr>cfg_metrics := dump_thresholds m\<rparr>)
     (upd (upd_enabled u) (\<lambda>b c. c\<lparr>cfg_enabled := b\<rparr>) c))"

definition new_config :: "pstr \<Rightarrow> pstr \<Rightarrow> config_update \<Rightarrow> safety_config" where
  "new_config new_id fid u = apply_config u \<lparr>cfg_id = new_id, cfg_flag = fid, cfg_enabled = True,
     cfg_metrics = PDict [], cfg_rollback = 0\<rparr>"

definition put_config :: "safety_config \<Rightarrow> safety_db \<Rightarrow> safety_db" where
  "put_config c db = db\<lparr>sf_configs := map (\<lambda>r. if cfg_id r = cfg_id c then c else r) (sf_configs db)\<rparr>"

definition create_or_update_feature_flag_safety_config ::
  "metrics_reader \<Rightarrow> pstr \<Rightarrow> pstr \<Rightarrow> config_update \<Rightarrow> config_response safety_op" where
  "create_or_update_feature_flag_safety_config read new_id fid u db =
     (if safety_flag db fid = None then (Inl SafetyFlagNotFound, db)
      else case get_config_record db fid of
        Some c \<Rightarrow> (raised (config_read read (apply_config u c)), put_config (apply_config u c) db)
      | None \<Rightarrow> (raised (config_read read (new_config new_id fid u)),
          db\<lparr>sf_configs := sf_configs db @ [new_config new_id fid u]\<rparr>))"

text \<open>The record-level helpers of the same writes.\<close>

definition create_safety_settings :: "settings_update \<Rightarrow> safety_settings safety_op" where
  "create_safety_settings u db =
     (if sf_settings db \<noteq> [] then (Inl (SafetyRaised PyValueError), db)
      else (Inr (apply_settings u DEFAULT_SETTINGS), db\<lparr>sf_settings := [apply_settings u DEFAULT_SETTINGS]\<rparr>))"

definition update_safety_settings :: "settings_update \<Rightarrow> safety_settings option safety_op" where
  "update_safety_settings u db =
     (case sf_settings db of
        [] \<Rightarrow> (Inr None, db)
      | s # ss \<Rightarrow> (Inr (Some (apply_settings u s)), db\<lparr>sf_settings := apply_settings u s # ss\<rparr>))"

definition create_feature_flag_safety_config ::
  "pstr \<Rightarrow> pstr option \<Rightarrow> config_update \<Rightarrow> safety_config safety_op" where
  "create_feature_flag_safety_config new_id sent u db =
     (case sent of
        None \<Rightarrow> (Inl (SafetyRaised PyValueError), db)
      | Some fid \<Rightarrow>
          if get_config_record db fid \<noteq> None then (Inl (SafetyRaised PyValueError), db)
          else if safety_flag db fid = None then (Inl (SafetyRaised PyValueError), db)
          else (Inr (new_config new_id fid u), db\<lparr>sf_configs := sf_configs db @ [new_config new_id fid u]\<rparr>))"

definition update_feature_flag_safety_config ::
  "pstr \<Rightarrow> config_update \<Rightarrow> safety_config option safety_op" where
  "update_feature_flag_safety_config fid u db =
     (case get_config_record db fid of
        None \<Rightarrow> (Inr None, db)
      | Some c \<Rightarrow> (Inr (Some (apply_config u c)), put_config (apply_config u c) db))"

section \<open>The check\<close>

definition breaches :: "pyfloat \<Rightarrow> pyfloat option \<Rightarrow> pstr \<Rightarrow> bool" where
  "breaches v limit comparison =
     (case limit of
        None \<Rightarrow> False
      | Some l \<Rightarrow>
          if comparison = str ''less_than'' then flt v l
          else if comparison = str ''equal_to'' then feq v l
          else flt l v)"

record metric_status =
  ms_name :: pstr
  ms_value :: pyfloat
  ms_limit :: pyfloat
  ms_healthy :: bool
  ms_comparison :: pstr
  ms_warning :: bool
  ms_measured :: bool

record safety_check =
  sk_healthy :: bool
  sk_statuses :: "metric_status list"
  sk_errors :: int
  sk_uncounted :: int
  sk_evaluations :: int

text \<open>\<^verbatim>\<open>threshold.warning_threshold or 0.0\<close> is the threshold or zero.\<close>

definition shown_limit :: "metric_threshold \<Rightarrow> pyfloat" where
  "shown_limit t =
     (case critical_threshold t of
        Some c \<Rightarrow> c
      | None \<Rightarrow> (case warning_threshold t of None \<Rightarrow> Fin 0 | Some w \<Rightarrow> w))"

definition check_metric :: "(pstr option \<Rightarrow> int) \<Rightarrow> pstr \<Rightarrow> safety_db \<Rightarrow> pstr \<times> metric_threshold \<Rightarrow> metric_status res" where
  "check_metric clk fid db nt = (case nt of (name, t) \<Rightarrow>
     emap (\<lambda>v.
       let x = (case v of None \<Rightarrow> Fin 0 | Some x \<Rightarrow> x);
           critical = (v \<noteq> None \<and> breaches x (critical_threshold t) (comparison_type t))
       in \<lparr>ms_name = name, ms_value = x, ms_limit = shown_limit t, ms_healthy = (\<not> critical),
           ms_comparison = comparison_type t,
           ms_warning = (v \<noteq> None \<and> breaches x (warning_threshold t) (comparison_type t)),
           ms_measured = (v \<noteq> None)\<rparr>)
       (get_metric_value (clk (Some name)) fid name db))"

definition check_feature_flag_safety ::
  "metrics_reader \<Rightarrow> (pstr option \<Rightarrow> int) \<Rightarrow> pstr \<Rightarrow> safety_check safety_op" where
  "check_feature_flag_safety read clk fid db =
     op_then (get_feature_flag_safety_config read fid db) (\<lambda>c db.
     op_then (raised (get_error_metrics (clk None) fid db), db) (\<lambda>w db.
       if \<not> cr_enabled c then
         (Inr \<lparr>sk_healthy = True, sk_statuses = [], sk_errors = em_errors w,
               sk_uncounted = em_uncounted w, sk_evaluations = em_evaluations w\<rparr>, db)
       else
         op_then (raised (etraverse (check_metric clk fid db) (cr_metrics c)), db) (\<lambda>ss db.
           (Inr \<lparr>sk_healthy = list_all ms_healthy ss, sk_statuses = ss, sk_errors = em_errors w,
                 sk_uncounted = em_uncounted w, sk_evaluations = em_evaluations w\<rparr>, db))))"

text \<open>How a failing metric is worded: \<^verbatim>\<open>describe_breach\<close>.\<close>

definition breach_words :: "pstr \<Rightarrow> pstr \<times> pstr" where
  "breach_words comparison =
     (if comparison = str ''less_than'' then (str ''below'', str ''<'')
      else if comparison = str ''equal_to'' then (str ''equal to'', str ''='')
      else (str ''above'', str ''>''))"

definition describe_breach :: "metric_status \<Rightarrow> pstr" where
  "describe_breach s = (case breach_words (ms_comparison s) of (word, symbol) \<Rightarrow>
     word @ str '' threshold ('' @ format_metric_reading (ms_name s) (ms_value s) @ str '' '' @ symbol @
     str '' '' @ format_metric_reading (ms_name s) (ms_limit s) @ str '')'')"

definition metric_to_trigger :: "pstr \<Rightarrow> rollback_trigger" where
  "metric_to_trigger name =
     (if name \<in> set ERROR_METRICS then TriggerErrorRate
      else if name \<in> set LATENCY_METRICS then TriggerLatency else TriggerCustomMetric)"

definition clamped_percentage :: "int \<Rightarrow> int" where
  "clamped_percentage v = max 0 (min 100 v)"

record rollback_advice =
  adv_reason :: pstr
  adv_trigger :: rollback_trigger
  adv_value :: "pyfloat option"
  adv_threshold :: "pyfloat option"

definition should_rollback ::
  "metrics_reader \<Rightarrow> (pstr option \<Rightarrow> int) \<Rightarrow> pstr \<Rightarrow> rollback_advice option safety_op" where
  "should_rollback read clk fid db =
     (case safety_flag db fid of
        None \<Rightarrow> (Inr None, db)
      | Some f \<Rightarrow>
          op_then (get_feature_flag_safety_config read fid db) (\<lambda>c db.
            if \<not> cr_enabled c then (Inr None, db)
            else if rollback_change f (clamped_percentage (cr_rollback c)) = None then (Inr None, db)
            else op_then (get_safety_settings read db) (\<lambda>s db.
              if \<not> sr_auto s then (Inr None, db)
              else (case check_feature_flag_safety read clk fid db of
                  (Inl _, db') \<Rightarrow> (Inr None, db')
                | (Inr k, db') \<Rightarrow>
                    if sk_healthy k then (Inr None, db')
                    else (Inr (Some (case find (\<lambda>m. \<not> ms_healthy m) (sk_statuses k) of
                        Some m \<Rightarrow> \<lparr>adv_reason = str ''Metric '' @ [39] @ ms_name m @ [39] @ str '' is '' @ describe_breach m,
                          adv_trigger = metric_to_trigger (ms_name m), adv_value = Some (ms_value m),
                          adv_threshold = Some (ms_limit m)\<rparr>
                      | None \<Rightarrow> \<lparr>adv_reason = str ''Multiple issues detected'',
                          adv_trigger = TriggerAutomatic, adv_value = None, adv_threshold = None\<rparr>)), db')))))"

end
