(* ===== verification/Safety_Rollback.thy ===== *)
theory Safety_Rollback
  imports Safety_Monitor Flag_Evaluation
begin

text \<open>
  The rollback of \<^verbatim>\<open>backend/app/services/safety_service.py\<close> and the tick of
  \<^verbatim>\<open>backend/app/core/safety_scheduler.py\<close>. A rollback is one transaction on the locked flag row; the
  tick reads every active flag first and then handles one after the other. Between two statements
  of a tick no other transaction commits, except that a rollback reads its row again and is
  modelled on whatever tables it finds.
\<close>

section \<open>The rollback\<close>

record rollback_response =
  rr_success :: bool
  rr_previous :: "int option"
  rr_new :: "int option"
  rr_record :: "pstr option"
  rr_deactivated :: bool
  rr_paused :: "pstr list"

definition failed_rollback :: "int option \<Rightarrow> rollback_response" where
  "failed_rollback p = \<lparr>rr_success = False, rr_previous = p, rr_new = p, rr_record = None,
     rr_deactivated = False, rr_paused = []\<rparr>"

definition active_schedules_of :: "pstr \<Rightarrow> rollout_db \<Rightarrow> rollout_schedule list" where
  "active_schedules_of fid db = filter (\<lambda>s. sched_flag s = fid \<and> sched_status s = SchedActive) (schedules db)"

definition pause_row :: "int \<Rightarrow> pstr \<Rightarrow> rollout_schedule \<Rightarrow> rollout_schedule" where
  "pause_row now fid s =
     (if sched_flag s = fid \<and> sched_status s = SchedActive
      then s\<lparr>sched_status := SchedPaused, sched_updated := now\<rparr> else s)"

definition pause_schedules :: "int \<Rightarrow> pstr \<Rightarrow> rollout_db \<Rightarrow> rollout_db" where
  "pause_schedules now fid db = db\<lparr>schedules := map (pause_row now fid) (schedules db)\<rparr>"

definition put_flag :: "feature_flag \<Rightarrow> rollout_db \<Rightarrow> rollout_db" where
  "put_flag f db = db\<lparr>rollout_flags := map (\<lambda>g. if flag_id g = flag_id f then f else g) (rollout_flags db)\<rparr>"

definition execute_rollback ::
  "int \<Rightarrow> pstr \<Rightarrow> pstr \<Rightarrow> pstr \<Rightarrow> rollback_trigger \<Rightarrow> int \<Rightarrow> pstr option \<Rightarrow> safety_db \<Rightarrow>
     rollback_response \<times> safety_db" where
  "execute_rollback now new_id fid why trigger target user db =
     (case safety_flag db fid of
        None \<Rightarrow> (failed_rollback None, db)
      | Some f \<Rightarrow>
          (case rollback_change f target of
             None \<Rightarrow> (failed_rollback (Some (flag_rollout f)), db)
           | Some change \<Rightarrow>
               (case rollback_feature_flag now target f of
                  Inl _ \<Rightarrow> (failed_rollback None, db)
                | Inr f' \<Rightarrow>
                    (\<lparr>rr_success = True, rr_previous = Some (flag_rollout f), rr_new = Some target,
                      rr_record = Some new_id, rr_deactivated = (change = Deactivate),
                      rr_paused = sort (map sched_id (active_schedules_of fid (sf_rollout db)))\<rparr>,
                     db\<lparr>sf_rollout := pause_schedules now fid (put_flag f' (sf_rollout db)),
                        sf_records := sf_records db @
                          [\<lparr>rec_id = new_id, rec_flag = fid,
                            rec_config = map_option cfg_id (get_config_record db fid),
                            rec_trigger = trigger, rec_reason = why, rec_previous = flag_rollout f,
                            rec_target = target, rec_user = user\<rparr>]\<rparr>))))"

text \<open>The service and its route (\<^verbatim>\<open>percentage or 0\<close>; the route bounds the percentage).\<close>

definition rollback_request ::
  "int \<Rightarrow> pstr \<Rightarrow> pstr \<Rightarrow> int option \<Rightarrow> pstr \<Rightarrow> rollback_trigger \<Rightarrow> pstr option \<Rightarrow> rollback_response safety_op" where
  "rollback_request now new_id fid percentage why trigger user db =
     (if safety_flag db fid = None then (Inl SafetyFlagNotFound, db)
      else (case execute_rollback now new_id fid (if why = [] then str ''Manual rollback'' else why) trigger
              (case percentage of None \<Rightarrow> 0 | Some p \<Rightarrow> p) user db of
          (r, db') \<Rightarrow> (Inr r, db')))"

definition valid_rollback_percentage :: "int option \<Rightarrow> bool" where
  "valid_rollback_percentage percentage = (case percentage of None \<Rightarrow> True | Some p \<Rightarrow> 0 \<le> p \<and> p \<le> 100)"

section \<open>The tick\<close>

text \<open>
  How a flag fared. \<open>MonitorError checked\<close> is an exception, before or after the check was counted.
\<close>

datatype monitor_outcome =
    MonitorOff
  | MonitorError bool
  | MonitorKept
  | MonitorSettled
  | MonitorRollback rollback_response

definition rollback_reason :: "safety_check \<Rightarrow> pstr" where
  "rollback_reason k =
     (case find (\<lambda>m. \<not> ms_healthy m) (sk_statuses k) of
        None \<Rightarrow> str ''Automatic rollback due to safety issues''
      | Some m \<Rightarrow> str ''Automatic rollback due to '' @ ms_name m @ str '' '' @ describe_breach m)"

definition rollback_target_percentage :: "config_response \<Rightarrow> int" where
  "rollback_target_percentage c = max 0 (min 100 (cr_rollback c))"

definition monitor_flag ::
  "metrics_reader \<Rightarrow> (pstr option \<Rightarrow> int) \<Rightarrow> int \<Rightarrow> pstr \<Rightarrow> feature_flag \<Rightarrow> safety_db \<Rightarrow>
     monitor_outcome \<times> safety_db" where
  "monitor_flag read clk now new_id flag db =
     (let fid = flag_id flag in
      case get_feature_flag_safety_config read fid db of
        (Inl _, db) \<Rightarrow> (MonitorError False, db)
      | (Inr c, db) \<Rightarrow>
          if \<not> cr_enabled c then (MonitorOff, db)
          else (case check_feature_flag_safety read clk fid db of
              (Inl _, db) \<Rightarrow> (MonitorError False, db)
            | (Inr k, db) \<Rightarrow>
                (case get_safety_settings read db of
                   (Inl _, db) \<Rightarrow> (MonitorError True, db)
                 | (Inr s, db) \<Rightarrow>
                     if \<not> (sr_auto s \<and> \<not> sk_healthy k) then (MonitorKept, db)
                     else if rollback_change flag (rollback_target_percentage c) = None
                     then (MonitorSettled, db)
                     else (case rollback_request now new_id fid (Some (rollback_target_percentage c))
                             (rollback_reason k) TriggerAutomatic None db of
                         (Inl _, db) \<Rightarrow> (MonitorError True, db)
                       | (Inr r, db) \<Rightarrow> (MonitorRollback r, db)))))"

record monitor_report =
  flags_checked :: nat
  flags_failed :: nat
  rollbacks_done :: nat

fun tally_outcome :: "monitor_outcome \<Rightarrow> monitor_report \<Rightarrow> monitor_report" where
  "tally_outcome MonitorOff r = r"
| "tally_outcome (MonitorError checked) r =
     r\<lparr>flags_checked := flags_checked r + (if checked then 1 else 0), flags_failed := Suc (flags_failed r)\<rparr>"
| "tally_outcome MonitorKept r = r\<lparr>flags_checked := Suc (flags_checked r)\<rparr>"
| "tally_outcome MonitorSettled r = r\<lparr>flags_checked := Suc (flags_checked r)\<rparr>"
| "tally_outcome (MonitorRollback x) r =
     r\<lparr>flags_checked := Suc (flags_checked r),
       rollbacks_done := rollbacks_done r + (if rr_success x then 1 else 0)\<rparr>"

text \<open>
  One flag after the other; \<open>clk fid\<close> are the clock readings of its check, \<open>ids fid\<close> the id of a record
  of its rollback.
\<close>

fun monitor_each ::
  "metrics_reader \<Rightarrow> (pstr \<Rightarrow> pstr option \<Rightarrow> int) \<Rightarrow> (pstr \<Rightarrow> int) \<Rightarrow> (pstr \<Rightarrow> pstr) \<Rightarrow> feature_flag list \<Rightarrow>
     monitor_report \<times> safety_db \<Rightarrow> monitor_report \<times> safety_db" where
  "monitor_each read clk now ids [] (r, db) = (r, db)"
| "monitor_each read clk now ids (f # fs) (r, db) =
     (case monitor_flag read (clk (flag_id f)) (now (flag_id f)) (ids (flag_id f)) f db of
        (out, db') \<Rightarrow> monitor_each read clk now ids fs (tally_outcome out r, db'))"

definition check_feature_flags_safety ::
  "metrics_reader \<Rightarrow> (pstr \<Rightarrow> pstr option \<Rightarrow> int) \<Rightarrow> (pstr \<Rightarrow> int) \<Rightarrow> (pstr \<Rightarrow> pstr) \<Rightarrow> safety_db \<Rightarrow>
     monitor_report \<times> safety_db" where
  "check_feature_flags_safety read clk now ids db =
     monitor_each read clk now ids (filter (\<lambda>f. flag_status f = ACTIVE) (rollout_flags (sf_rollout db)))
       (\<lparr>flags_checked = 0, flags_failed = 0, rollbacks_done = 0\<rparr>, db)"

section \<open>What feeds the monitor\<close>

text \<open>A row of the SDK's counts, as the metric the monitor sums.\<close>

definition raw_of_report :: "metric_row \<Rightarrow> raw_metric" where
  "raw_of_report m = \<lparr>raw_type = FlagEvaluationMetric, raw_time = mr_time m, raw_flag = Some (mr_flag m),
     raw_value = None, raw_count = mr_count m\<rparr>"

text \<open>
  The \<^verbatim>\<open>finally\<close> block of an evaluation on the server: its metrics, and the log of an exception that
  the evaluation caught. \<open>exc_text\<close> is the exception's text: an empty one is not logged, and one longer than
  its column is refused by the database.
\<close>

definition record_evaluation ::
  "(metric_type \<Rightarrow> int) \<Rightarrow> int \<Rightarrow> (exc \<Rightarrow> pstr) \<Rightarrow> pyfloat \<Rightarrow> pstr \<Rightarrow> pstr \<Rightarrow> pyval \<Rightarrow> flag_answer \<Rightarrow>
     safety_db \<Rightarrow> safety_db" where
  "record_evaluation clk now exc_text latency fid user ctx ans db =
     db\<lparr>sf_metrics := record_flag_evaluation clk fid (answer_rule ans) None (Some latency) (sf_metrics db),
        sf_logs := sf_logs db @
          (case logged_error ans of
             None \<Rightarrow> []
           | Some e \<Rightarrow> if exc_text e = [] \<or> MESSAGE_MAX < length (exc_text e) then []
               else [failed_evaluation_log now (str ''flag_evaluation_error'') fid (Some user) (exc_text e) ctx])\<rparr>"

end
