(* ===== verification/Safety_Facts.thy ===== *)
theory Safety_Facts
  imports Safety_Rollback Rollout_Progress
begin

text \<open>
  What the safety monitor does: when a flag is rolled back, that the two places that decide it agree,
  that uncounted error reports change nothing, and that a rolled back flag stays so while the
  schedulers and the traffic go on.
\<close>

section \<open>Settings are created on the first read\<close>

definition effective_settings :: "safety_db \<Rightarrow> safety_settings" where
  "effective_settings db = (case sf_settings db of s # _ \<Rightarrow> s | [] \<Rightarrow> DEFAULT_SETTINGS)"

definition settle :: "safety_db \<Rightarrow> safety_db" where
  "settle db = (case sf_settings db of _ # _ \<Rightarrow> db | [] \<Rightarrow> db\<lparr>sf_settings := [DEFAULT_SETTINGS]\<rparr>)"

lemma settle_keeps [simp]:
  "sf_rollout (settle db) = sf_rollout db" "sf_configs (settle db) = sf_configs db"
  "sf_logs (settle db) = sf_logs db" "sf_metrics (settle db) = sf_metrics db"
  "sf_records (settle db) = sf_records db" "effective_settings (settle db) = effective_settings db"
  "settle (settle db) = settle db"
  by (simp_all add: settle_def effective_settings_def split: list.split)

lemma get_safety_settings_eq:
  "get_safety_settings read db = (raised (settings_read read (effective_settings db)), settle db)"
  by (simp add: get_safety_settings_def effective_settings_def settle_def split: list.split)

lemma op_then_simps [simp]:
  "op_then (Inl e, db) k = (Inl e, db)" "op_then (Inr a, db) k = k a db"
  by (simp_all add: op_then_def)

lemma raised_simps [simp]: "raised (Inl e) = Inl (SafetyRaised e)" "raised (Inr a) = Inr a"
  by (simp_all add: raised_def)

lemma raised_Inr [simp]: "raised r = Inr a \<longleftrightarrow> r = Inr a"
  by (cases r) simp_all

section \<open>What a check reads\<close>

text \<open>
  Two states look the same to a check when they have the same flags, metrics and counted errors.
\<close>

definition same_readings :: "safety_db \<Rightarrow> safety_db \<Rightarrow> bool" where
  "same_readings a b \<longleftrightarrow>
     (\<forall>fid. safety_flag a fid = None \<longleftrightarrow> safety_flag b fid = None) \<and>
     filter counted_error_filter (sf_logs a) = filter counted_error_filter (sf_logs b) \<and>
     sf_metrics a = sf_metrics b"

lemma same_readings_refl [simp]: "same_readings a a"
  by (simp add: same_readings_def)

lemma same_readings_sym: "same_readings a b \<Longrightarrow> same_readings b a"
  by (simp add: same_readings_def)

lemma same_readings_trans: "same_readings a b \<Longrightarrow> same_readings b c \<Longrightarrow> same_readings a c"
  by (simp add: same_readings_def)

lemma same_readings_settle [simp]: "same_readings a (settle b) = same_readings a b"
  by (simp add: same_readings_def safety_flag_def)

lemma counted_in_window:
  "filter counted_error_filter (filter P logs) = filter P (filter counted_error_filter logs)"
  by (simp add: conj_commute)

lemma get_error_metrics_cong:
  assumes "same_readings a b"
  shows "emap em_rate (get_error_metrics now fid a) = emap em_rate (get_error_metrics now fid b)"
    "emap em_errors (get_error_metrics now fid a) = emap em_errors (get_error_metrics now fid b)"
    "emap em_evaluations (get_error_metrics now fid a) = emap em_evaluations (get_error_metrics now fid b)"
proof -
  have logs: "filter counted_error_filter (filter P (sf_logs a)) = filter counted_error_filter (filter P (sf_logs b))" for P
    using assms by (simp only: counted_in_window same_readings_def)
  have rest: "(safety_flag a fid = None) = (safety_flag b fid = None)" "sf_metrics a = sf_metrics b"
    using assms by (simp_all add: same_readings_def)
  show "emap em_rate (get_error_metrics now fid a) = emap em_rate (get_error_metrics now fid b)"
    "emap em_errors (get_error_metrics now fid a) = emap em_errors (get_error_metrics now fid b)"
    "emap em_evaluations (get_error_metrics now fid a) = emap em_evaluations (get_error_metrics now fid b)"
    unfolding get_error_metrics_def Let_def logs rest by simp_all
qed

lemma get_latency_metrics_cong:
  "same_readings a b \<Longrightarrow> get_latency_metrics now fid a = get_latency_metrics now fid b"
  by (simp add: get_latency_metrics_def same_readings_def)

lemma get_metric_value_cong:
  assumes "same_readings a b"
  shows "get_metric_value now fid name a = get_metric_value now fid name b"
proof (cases "get_error_metrics now fid a")
  case (Inl e)
  with get_error_metrics_cong(1) [OF assms, of now fid] have "get_error_metrics now fid b = Inl e"
    by (cases "get_error_metrics now fid b") simp_all
  with Inl show ?thesis using get_latency_metrics_cong [OF assms] by (simp add: get_metric_value_def)
next
  case (Inr m)
  with get_error_metrics_cong [OF assms, of now fid] obtain m' where "get_error_metrics now fid b = Inr m'"
    "em_rate m' = em_rate m" "em_errors m' = em_errors m" "em_evaluations m' = em_evaluations m"
    by (cases "get_error_metrics now fid b") simp_all
  with Inr show ?thesis using get_latency_metrics_cong [OF assms] by (simp add: get_metric_value_def)
qed

lemma check_metric_cong:
  "same_readings a b \<Longrightarrow> check_metric clk fid a = check_metric clk fid b"
  by (simp add: check_metric_def fun_eq_iff get_metric_value_cong split: prod.split)

lemma error_metrics_total: "safety_flag db fid = Some f \<Longrightarrow> \<exists>w. get_error_metrics now fid db = Inr w"
  by (simp add: get_error_metrics_def Let_def)

section \<open>The decision\<close>

definition flag_config :: "metrics_reader \<Rightarrow> pstr \<Rightarrow> safety_db \<Rightarrow> config_response res" where
  "flag_config read fid db =
     (case get_config_record db fid of
        Some c \<Rightarrow> config_read read c
      | None \<Rightarrow> emap (\<lambda>s. \<lparr>cr_enabled = True, cr_metrics = (case sr_metrics s of None \<Rightarrow> [] | Some m \<Rightarrow> m),
          cr_rollback = 0\<rparr>) (settings_read read (effective_settings db)))"

definition settle_for :: "pstr \<Rightarrow> safety_db \<Rightarrow> safety_db" where
  "settle_for fid db = (if get_config_record db fid = None then settle db else db)"

lemma settle_config [simp]: "get_config_record (settle db) fid = get_config_record db fid"
  by (simp add: get_config_record_def)

lemma settle_flag [simp]: "safety_flag (settle db) fid = safety_flag db fid"
  by (simp add: safety_flag_def)

lemma flag_config_settle [simp]: "flag_config read fid (settle db) = flag_config read fid db"
  by (simp add: flag_config_def split: option.split)

lemma settle_for_cases: "settle_for fid db = db \<or> settle_for fid db = settle db"
  by (simp add: settle_for_def)

lemma settle_for_keeps [simp]:
  "flag_config read fid (settle_for fid' db) = flag_config read fid db"
  "safety_flag (settle_for fid db) fid' = safety_flag db fid'"
  "settle (settle_for fid db) = settle db" "settle_for fid (settle_for fid db) = settle_for fid db"
  "effective_settings (settle_for fid db) = effective_settings db"
  "same_readings db (settle_for fid db)" "settle_for fid (settle db) = settle db"
  by (simp_all add: settle_for_def)

lemma get_config_eq:
  assumes "safety_flag db fid = Some f"
  shows "get_feature_flag_safety_config read fid db = (raised (flag_config read fid db), settle_for fid db)"
proof (cases "get_config_record db fid")
  case None
  then show ?thesis using assms
    by (cases "settings_read read (effective_settings db)")
      (simp_all add: get_feature_flag_safety_config_def flag_config_def settle_for_def get_safety_settings_eq)
qed (simp add: assms get_feature_flag_safety_config_def flag_config_def settle_for_def)

lemma check_metric_settle [simp]:
  "check_metric clk fid (settle db) = check_metric clk fid db"
  "check_metric clk fid (settle_for fid' db) = check_metric clk fid db"
  by (rule check_metric_cong, simp add: same_readings_sym)+

text \<open>The check, with the tables it leaves.\<close>

definition check_verdict ::
  "metrics_reader \<Rightarrow> (pstr option \<Rightarrow> int) \<Rightarrow> pstr \<Rightarrow> safety_db \<Rightarrow> metric_status list res" where
  "check_verdict read clk fid db =
     ebind (flag_config read fid db) (\<lambda>c.
       if \<not> cr_enabled c then Inr [] else etraverse (check_metric clk fid db) (cr_metrics c))"

lemma check_eq:
  assumes "safety_flag db fid = Some f"
  shows "\<exists>r. check_feature_flag_safety read clk fid db = (r, settle_for fid db) \<and>
    (case check_verdict read clk fid db of
       Inl e \<Rightarrow> r = Inl (SafetyRaised e)
     | Inr ss \<Rightarrow> \<exists>k. r = Inr k \<and> sk_statuses k = ss \<and> sk_healthy k = list_all ms_healthy ss)"
proof (cases "flag_config read fid db")
  case (Inl e)
  then show ?thesis by (simp add: check_feature_flag_safety_def get_config_eq [OF assms] check_verdict_def)
next
  case (Inr c)
  obtain w where w: "get_error_metrics (clk None) fid (settle_for fid db) = Inr w"
    using error_metrics_total [of "settle_for fid db" fid f] assms by auto
  show ?thesis
    using w by (cases "etraverse (check_metric clk fid db) (cr_metrics c)")
      (simp_all add: check_feature_flag_safety_def get_config_eq [OF assms] check_verdict_def Inr)
qed

lemma check_verdict_settle [simp]:
  "check_verdict read clk fid (settle db) = check_verdict read clk fid db"
  "check_verdict read clk fid (settle_for fid' db) = check_verdict read clk fid db"
  by (simp_all add: check_verdict_def cong: if_cong)

definition rollback_target :: "metrics_reader \<Rightarrow> pstr \<Rightarrow> safety_db \<Rightarrow> int" where
  "rollback_target read fid db =
     (case flag_config read fid db of Inl _ \<Rightarrow> 0 | Inr c \<Rightarrow> rollback_target_percentage c)"

definition rollback_due ::
  "metrics_reader \<Rightarrow> (pstr option \<Rightarrow> int) \<Rightarrow> feature_flag \<Rightarrow> safety_db \<Rightarrow> bool" where
  "rollback_due read clk f db \<longleftrightarrow>
     (\<exists>c s ss. flag_config read (flag_id f) db = Inr c \<and> cr_enabled c \<and>
        settings_read read (effective_settings db) = Inr s \<and> sr_auto s \<and>
        check_verdict read clk (flag_id f) db = Inr ss \<and> \<not> list_all ms_healthy ss \<and>
        rollback_change f (rollback_target_percentage c) \<noteq> None)"

text \<open>A status is unhealthy exactly when the measured value breaches the critical threshold.\<close>

definition breaching :: "(pstr option \<Rightarrow> int) \<Rightarrow> pstr \<Rightarrow> safety_db \<Rightarrow> pstr \<times> metric_threshold \<Rightarrow> bool" where
  "breaching clk fid db nt = (case nt of (name, t) \<Rightarrow>
     \<exists>v. get_metric_value (clk (Some name)) fid name db = Inr (Some v) \<and>
       breaches v (critical_threshold t) (comparison_type t))"

lemma check_metric_unhealthy:
  assumes "check_metric clk fid db nt = Inr s"
  shows "\<not> ms_healthy s \<longleftrightarrow> breaching clk fid db nt"
proof -
  obtain name t where nt: "nt = (name, t)" by (cases nt)
  with assms obtain v where v: "get_metric_value (clk (Some name)) fid name db = Inr v"
    by (auto simp: check_metric_def emap_eq_Inr)
  show ?thesis
    using assms v by (cases v) (auto simp: check_metric_def breaching_def nt Let_def)
qed

lemma statuses_unhealthy:
  assumes "etraverse (check_metric clk fid db) nts = Inr ss"
  shows "\<not> list_all ms_healthy ss \<longleftrightarrow> (\<exists>nt\<in>set nts. breaching clk fid db nt)"
proof -
  from assms have l: "list_all2 (\<lambda>nt s. check_metric clk fid db nt = Inr s) nts ss"
    by (simp add: etraverse_Inr_iff)
  show ?thesis
    using list_all2_left [OF l] list_all2_right [OF l] check_metric_unhealthy
    unfolding list_all_iff by metis
qed

text \<open>
  The contract: when a flag must be rolled back, in terms of its thresholds, its measured values, the
  settings and its row.
\<close>

definition must_roll_back ::
  "metrics_reader \<Rightarrow> (pstr option \<Rightarrow> int) \<Rightarrow> feature_flag \<Rightarrow> safety_db \<Rightarrow> bool" where
  "must_roll_back read clk f db \<longleftrightarrow>
     (\<exists>c s. flag_config read (flag_id f) db = Inr c \<and> cr_enabled c \<and>
        settings_read read (effective_settings db) = Inr s \<and> sr_auto s \<and>
        (\<forall>(name, t)\<in>set (cr_metrics c). \<exists>v. get_metric_value (clk (Some name)) (flag_id f) name db = Inr v) \<and>
        (\<exists>(name, t)\<in>set (cr_metrics c). \<exists>v. get_metric_value (clk (Some name)) (flag_id f) name db = Inr (Some v) \<and>
           breaches v (critical_threshold t) (comparison_type t)) \<and>
        rollback_change f (max 0 (min 100 (cr_rollback c))) \<noteq> None)"

lemma check_metric_returns:
  "(\<exists>s. check_metric clk fid db nt = Inr s) \<longleftrightarrow>
     (case nt of (name, t) \<Rightarrow> \<exists>v. get_metric_value (clk (Some name)) fid name db = Inr v)"
  by (auto simp: check_metric_def emap_eq_Inr split: prod.splits)

lemma rollback_due_iff: "rollback_due read clk f db \<longleftrightarrow> must_roll_back read clk f db"
proof -
  have "(\<exists>ss. check_verdict read clk (flag_id f) db = Inr ss \<and> \<not> list_all ms_healthy ss) \<longleftrightarrow>
      (\<forall>(name, t)\<in>set (cr_metrics c). \<exists>v. get_metric_value (clk (Some name)) (flag_id f) name db = Inr v) \<and>
      (\<exists>nt\<in>set (cr_metrics c). breaching clk (flag_id f) db nt)"
    if "flag_config read (flag_id f) db = Inr c" "cr_enabled c" for c
    using that etraverse_returns_iff [of "check_metric clk (flag_id f) db" "cr_metrics c"]
      statuses_unhealthy [of clk "flag_id f" db "cr_metrics c"]
    by (auto simp: check_verdict_def check_metric_returns)
  then show ?thesis
    unfolding rollback_due_def must_roll_back_def breaching_def rollback_target_percentage_def
    by (metis (no_types, lifting))
qed

section \<open>One flag of a tick\<close>

definition rolled_back :: "int \<Rightarrow> int \<Rightarrow> feature_flag \<Rightarrow> feature_flag" where
  "rolled_back now target f =
     (if target = 0 then f\<lparr>flag_status := INACTIVE, flag_rollout := 0, flag_updated_at := now\<rparr>
      else f\<lparr>flag_rollout := target, flag_updated_at := now\<rparr>)"

lemma rolled_back_simps [simp]:
  "flag_id (rolled_back now target f) = flag_id f" "flag_rollout (rolled_back now target f) = target"
  "flag_status (rolled_back now target f) = (if target = 0 then INACTIVE else flag_status f)"
  by (simp_all add: rolled_back_def)

lemma rollback_change_active: "rollback_change f target = Some change \<Longrightarrow> flag_status f = ACTIVE"
  by (auto simp: rollback_change_def split: if_splits)

lemma rollback_writes:
  assumes "rollback_change f target = Some change"
  shows "rollback_feature_flag now target f = Inr (rolled_back now target f)"
proof (cases change)
  case Deactivate
  with assms have "target = 0" "flag_status f = ACTIVE" by (auto simp: rollback_change_def split: if_splits)
  then show ?thesis
    by (simp add: rollback_feature_flag_def rollback_change_def assign_status_def rolled_back_def)
next
  case Lower
  with assms have "target \<noteq> 0" by (auto simp: rollback_change_def split: if_splits)
  with Lower assms show ?thesis by (simp add: rollback_feature_flag_def rolled_back_def)
qed

text \<open>The rollback itself, on the row it finds.\<close>

lemma execute_rollback_due:
  assumes "safety_flag db fid = Some f" and "rollback_change f target = Some change"
  shows "\<exists>r. execute_rollback now new_id fid why trigger target user db =
    (r, db\<lparr>sf_rollout := pause_schedules now fid (put_flag (rolled_back now target f) (sf_rollout db)),
           sf_records := sf_records db @ [\<lparr>rec_id = new_id, rec_flag = fid,
             rec_config = map_option cfg_id (get_config_record db fid), rec_trigger = trigger, rec_reason = why,
             rec_previous = flag_rollout f, rec_target = target, rec_user = user\<rparr>]\<rparr>) \<and> rr_success r"
  using assms rollback_writes [OF assms(2)] by (simp add: execute_rollback_def)

lemma execute_rollback_idle:
  assumes "\<And>f. safety_flag db fid = Some f \<Longrightarrow> rollback_change f target = None"
  shows "\<exists>r. execute_rollback now new_id fid why trigger target user db = (r, db) \<and> \<not> rr_success r"
  using assms by (cases "safety_flag db fid") (simp_all add: execute_rollback_def failed_rollback_def)

text \<open>
  The step of a flag whose row is the one the tick read: a rollback exactly when one is due, and
  otherwise nothing but the settings row is written.
\<close>

definition monitor_rolls_back :: "monitor_outcome \<Rightarrow> bool" where
  "monitor_rolls_back out = (case out of MonitorRollback r \<Rightarrow> rr_success r | _ \<Rightarrow> False)"

lemma monitor_flag_due:
  assumes "safety_flag db (flag_id f) = Some f" and "rollback_due read clk f db"
  shows "\<exists>why. let target = rollback_target read (flag_id f) db in
    monitor_rolls_back (fst (monitor_flag read clk now new_id f db)) \<and>
    snd (monitor_flag read clk now new_id f db) =
      (settle db)\<lparr>sf_rollout := pause_schedules now (flag_id f) (put_flag (rolled_back now target f) (sf_rollout db)),
         sf_records := sf_records db @ [\<lparr>rec_id = new_id, rec_flag = flag_id f,
             rec_config = map_option cfg_id (get_config_record db (flag_id f)), rec_trigger = TriggerAutomatic,
             rec_reason = why, rec_previous = flag_rollout f, rec_target = target, rec_user = None\<rparr>]\<rparr>"
proof -
  from assms(2) obtain c s ss change where
    c: "flag_config read (flag_id f) db = Inr c" "cr_enabled c"
    and s: "settings_read read (effective_settings db) = Inr s" "sr_auto s"
    and ss: "check_verdict read clk (flag_id f) db = Inr ss" "\<not> list_all ms_healthy ss"
    and change: "rollback_change f (rollback_target_percentage c) = Some change"
    by (auto simp: rollback_due_def)
  let ?db1 = "settle_for (flag_id f) db"
  from check_eq [of ?db1 "flag_id f" f read clk] obtain k where
    k: "check_feature_flag_safety read clk (flag_id f) ?db1 = (Inr k, ?db1)" "\<not> sk_healthy k"
    using assms(1) ss by auto
  obtain r where r: "execute_rollback now new_id (flag_id f)
      (if rollback_reason k = [] then str ''Manual rollback'' else rollback_reason k) TriggerAutomatic
      (rollback_target_percentage c) None (settle db) =
    (r, (settle db)\<lparr>sf_rollout := pause_schedules now (flag_id f)
           (put_flag (rolled_back now (rollback_target_percentage c) f) (sf_rollout db)),
           sf_records := sf_records db @ [\<lparr>rec_id = new_id, rec_flag = flag_id f,
             rec_config = map_option cfg_id (get_config_record db (flag_id f)), rec_trigger = TriggerAutomatic,
             rec_reason = if rollback_reason k = [] then str ''Manual rollback'' else rollback_reason k,
             rec_previous = flag_rollout f, rec_target = rollback_target_percentage c, rec_user = None\<rparr>]\<rparr>)"
    "rr_success r"
    using execute_rollback_due [of "settle db" "flag_id f" f, OF _ change] assms(1) by fastforce
  show ?thesis
    using assms(1) c k s change r
    by (simp add: monitor_flag_def Let_def get_config_eq [OF assms(1)] get_safety_settings_eq rollback_request_def
        monitor_rolls_back_def rollback_target_def) blast
qed

lemma monitor_flag_idle:
  assumes "safety_flag db (flag_id f) = Some f" and "\<not> rollback_due read clk f db"
  shows "\<not> monitor_rolls_back (fst (monitor_flag read clk now new_id f db)) \<and>
    (snd (monitor_flag read clk now new_id f db) = db \<or> snd (monitor_flag read clk now new_id f db) = settle db)"
proof (cases "flag_config read (flag_id f) db")
  case (Inl e)
  then show ?thesis using settle_for_cases [of "flag_id f" db]
    by (simp add: monitor_flag_def get_config_eq [OF assms(1)] monitor_rolls_back_def)
next
  case (Inr c)
  note c = this
  let ?db1 = "settle_for (flag_id f) db"
  from check_eq [of ?db1 "flag_id f" f read clk] assms(1) obtain r where
    r: "check_feature_flag_safety read clk (flag_id f) ?db1 = (r, ?db1)"
      "case check_verdict read clk (flag_id f) db of Inl e \<Rightarrow> r = Inl (SafetyRaised e)
       | Inr ss \<Rightarrow> \<exists>k. r = Inr k \<and> sk_statuses k = ss \<and> sk_healthy k = list_all ms_healthy ss"
    by auto
  show ?thesis
  proof (cases "cr_enabled c \<and> (\<exists>k. r = Inr k \<and> \<not> sk_healthy k) \<and>
      (\<exists>s. settings_read read (effective_settings db) = Inr s \<and> sr_auto s)")
    case True
    with r(2) have "rollback_change f (rollback_target_percentage c) = None"
      using assms(2) c by (auto simp: rollback_due_def split: sum.splits)
    with True c r(1) show ?thesis
      by (auto simp: monitor_flag_def Let_def get_config_eq [OF assms(1)] get_safety_settings_eq monitor_rolls_back_def)
  next
    case False
    then show ?thesis
      using c r(1) settle_for_cases [of "flag_id f" db]
      by (cases r; cases "settings_read read (effective_settings db)")
        (auto simp: monitor_flag_def Let_def get_config_eq [OF assms(1)] get_safety_settings_eq monitor_rolls_back_def)
  qed
qed

text \<open>The advice of the service is the decision of the tick.\<close>

lemma should_rollback_due:
  assumes "safety_flag db (flag_id f) = Some f"
  shows "(\<exists>a. fst (should_rollback read clk (flag_id f) db) = Inr (Some a)) \<longleftrightarrow> rollback_due read clk f db"
proof (cases "flag_config read (flag_id f) db")
  case (Inl e)
  then show ?thesis using assms by (simp add: should_rollback_def get_config_eq [OF assms] rollback_due_def)
next
  case (Inr c)
  note c = this
  have clamp: "clamped_percentage (cr_rollback c) = rollback_target_percentage c"
    by (simp add: clamped_percentage_def rollback_target_percentage_def)
  from check_eq [of "settle db" "flag_id f" f read clk] assms obtain r where
    r: "check_feature_flag_safety read clk (flag_id f) (settle db) = (r, settle db)"
      "case check_verdict read clk (flag_id f) db of Inl e \<Rightarrow> r = Inl (SafetyRaised e)
       | Inr ss \<Rightarrow> \<exists>k. r = Inr k \<and> sk_statuses k = ss \<and> sk_healthy k = list_all ms_healthy ss"
    by auto
  show ?thesis
  proof (cases "settings_read read (effective_settings db)")
    case (Inl e)
    with assms c clamp show ?thesis
      by (simp add: should_rollback_def get_config_eq [OF assms] get_safety_settings_eq rollback_due_def)
  next
    case (Inr s)
    with assms c clamp r show ?thesis
      by (cases "check_verdict read clk (flag_id f) db")
        (auto simp: should_rollback_def get_config_eq [OF assms] get_safety_settings_eq rollback_due_def)
  qed
qed

end
