(* ===== verification/Safety_Runs.thy ===== *)
theory Safety_Runs
  imports Safety_Facts
begin

text \<open>
  Whole ticks of the safety monitor, and runs in which the monitor, the rollout scheduler and the
  traffic go on after a rollback.
\<close>

section \<open>The frame of one step\<close>

lemma get_flag_put:
  "get_rollout_flag (put_flag g db) fid =
     (if fid = flag_id g then map_option (\<lambda>_. g) (get_rollout_flag db fid) else get_rollout_flag db fid)"
proof (cases "fid = flag_id g")
  case True
  have "find (\<lambda>f. flag_id f = flag_id g) (map (\<lambda>h. if flag_id h = flag_id g then g else h) fs) =
      map_option (\<lambda>_. g) (find (\<lambda>f. flag_id f = flag_id g) fs)" for fs
    by (induction fs) auto
  then show ?thesis by (simp add: True get_rollout_flag_def put_flag_def)
next
  case False
  have "find (\<lambda>f. flag_id f = fid) (map (\<lambda>h. if flag_id h = flag_id g then g else h) fs) =
      find (\<lambda>f. flag_id f = fid) fs" for fs
    using False by (induction fs) auto
  then show ?thesis using False by (simp add: get_rollout_flag_def put_flag_def)
qed

lemma get_flag_pause [simp]: "get_rollout_flag (pause_schedules now fid db) fid' = get_rollout_flag db fid'"
  by (simp add: get_rollout_flag_def pause_schedules_def)

definition no_active :: "pstr \<Rightarrow> rollout_db \<Rightarrow> bool" where
  "no_active fid db = list_all (\<lambda>s. sched_flag s = fid \<longrightarrow> sched_status s \<noteq> SchedActive) (schedules db)"

lemma pause_row_simps [simp]:
  "sched_flag (pause_row now fid s) = sched_flag s"
  "sched_status (pause_row now fid s) = SchedActive \<longleftrightarrow> sched_status s = SchedActive \<and> sched_flag s \<noteq> fid"
  by (auto simp: pause_row_def)

lemma no_active_pause: "no_active fid (pause_schedules now fid db)"
  by (auto simp: no_active_def pause_schedules_def list_all_iff)

lemma no_active_pause_other: "no_active fid db \<Longrightarrow> no_active fid (pause_schedules now fid' db)"
  by (auto simp: no_active_def pause_schedules_def list_all_iff)

lemma no_active_put [simp]: "no_active fid (put_flag f db) = no_active fid db"
  by (simp add: no_active_def put_flag_def)

abbreviation flag_ids :: "safety_db \<Rightarrow> pstr list" where
  "flag_ids db \<equiv> map flag_id (rollout_flags (sf_rollout db))"

definition records_of :: "pstr \<Rightarrow> safety_db \<Rightarrow> rollback_record list" where
  "records_of fid db = filter (\<lambda>r. rec_flag r = fid) (sf_records db)"

text \<open>What every step of the monitor keeps, and what it does not touch beside its flag.\<close>

definition monitor_kept :: "safety_db \<Rightarrow> safety_db \<Rightarrow> bool" where
  "monitor_kept a b \<longleftrightarrow>
     sf_configs b = sf_configs a \<and> effective_settings b = effective_settings a \<and> sf_logs b = sf_logs a \<and>
     sf_metrics b = sf_metrics a \<and> flag_ids b = flag_ids a \<and> same_readings a b \<and>
     (\<forall>fid. no_active fid (sf_rollout a) \<longrightarrow> no_active fid (sf_rollout b))"

lemma monitor_kept_refl [simp]: "monitor_kept a a"
  by (simp add: monitor_kept_def)

lemma monitor_kept_trans: "monitor_kept a b \<Longrightarrow> monitor_kept b c \<Longrightarrow> monitor_kept a c"
  by (auto simp: monitor_kept_def intro: same_readings_trans)

lemma monitor_kept_settle [simp]: "monitor_kept a (settle a)"
  by (simp add: monitor_kept_def)

lemma kept_config: "monitor_kept a b \<Longrightarrow> flag_config read fid b = flag_config read fid a"
  by (simp add: monitor_kept_def flag_config_def get_config_record_def split: option.split)

lemma kept_due:
  assumes "monitor_kept a b"
  shows "rollback_due read clk f b = rollback_due read clk f a"
    and "rollback_target read fid b = rollback_target read fid a"
proof -
  have metric: "check_metric clk fid b = check_metric clk fid a" for fid
    using assms by (intro check_metric_cong, intro same_readings_sym [of a b]) (simp add: monitor_kept_def)
  have verdict: "check_verdict read clk fid b = check_verdict read clk fid a" for fid
    unfolding check_verdict_def kept_config [OF assms] metric ..
  have settings: "effective_settings b = effective_settings a" using assms by (simp add: monitor_kept_def)
  show "rollback_due read clk f b = rollback_due read clk f a"
    unfolding rollback_due_def kept_config [OF assms] settings verdict ..
  show "rollback_target read fid b = rollback_target read fid a"
    by (simp add: rollback_target_def kept_config [OF assms])
qed

lemma flag_ids_put: "flag_ids (db\<lparr>sf_rollout := pause_schedules now fid (put_flag g (sf_rollout db))\<rparr>) = flag_ids db"
  by (simp add: pause_schedules_def put_flag_def)

lemma monitor_flag_step:
  fixes read clk now new_id f db
  assumes "safety_flag db (flag_id f) = Some f"
  defines "db' \<equiv> snd (monitor_flag read clk now new_id f db)"
  shows "monitor_kept db db'"
    and "safety_flag db' fid = (if fid = flag_id f \<and> rollback_due read clk f db
           then Some (rolled_back now (rollback_target read (flag_id f) db) f) else safety_flag db fid)"
    and "fid \<noteq> flag_id f \<or> \<not> rollback_due read clk f db \<Longrightarrow> records_of fid db' = records_of fid db"
    and "rollback_due read clk f db \<Longrightarrow> no_active (flag_id f) (sf_rollout db') \<and>
           length (records_of (flag_id f) db') = Suc (length (records_of (flag_id f) db))"
proof -
  have "monitor_kept db db' \<and>
    safety_flag db' fid = (if fid = flag_id f \<and> rollback_due read clk f db
           then Some (rolled_back now (rollback_target read (flag_id f) db) f) else safety_flag db fid) \<and>
    (fid \<noteq> flag_id f \<or> \<not> rollback_due read clk f db \<longrightarrow> records_of fid db' = records_of fid db) \<and>
    (rollback_due read clk f db \<longrightarrow> no_active (flag_id f) (sf_rollout db') \<and>
           length (records_of (flag_id f) db') = Suc (length (records_of (flag_id f) db)))" for fid
  proof (cases "rollback_due read clk f db")
    case False
    with monitor_flag_idle [OF assms(1) False, of now new_id] show ?thesis
      by (auto simp: db'_def records_of_def)
  next
    case True
    let ?g = "rolled_back now (rollback_target read (flag_id f) db) f"
    from monitor_flag_due [OF assms(1) True, of now new_id] obtain why where
      db': "db' = (settle db)\<lparr>sf_rollout := pause_schedules now (flag_id f) (put_flag ?g (sf_rollout db)),
         sf_records := sf_records db @ [\<lparr>rec_id = new_id, rec_flag = flag_id f,
             rec_config = map_option cfg_id (get_config_record db (flag_id f)), rec_trigger = TriggerAutomatic,
             rec_reason = why, rec_previous = flag_rollout f, rec_target = rollback_target read (flag_id f) db,
             rec_user = None\<rparr>]\<rparr>"
      by (auto simp: db'_def Let_def)
    have flags: "safety_flag db' fid' = (if fid' = flag_id f then Some ?g else safety_flag db fid')" for fid'
      using assms(1) by (simp add: db' safety_flag_def get_flag_put)
    have none: "safety_flag db fid' = None \<longleftrightarrow> safety_flag db' fid' = None" for fid'
      using assms(1) by (simp add: flags)
    have settings: "effective_settings (db\<lparr>sf_rollout := x, sf_records := y\<rparr>) = effective_settings db" for db x y
      by (simp add: effective_settings_def)
    have "monitor_kept db db'"
      using none no_active_pause_other
      by (simp add: monitor_kept_def same_readings_def db' settings) (simp add: pause_schedules_def put_flag_def)
    then show ?thesis
      using True flags no_active_pause by (auto simp: records_of_def db')
  qed
  then show "monitor_kept db db'"
    and "safety_flag db' fid = (if fid = flag_id f \<and> rollback_due read clk f db
           then Some (rolled_back now (rollback_target read (flag_id f) db) f) else safety_flag db fid)"
    and "fid \<noteq> flag_id f \<or> \<not> rollback_due read clk f db \<Longrightarrow> records_of fid db' = records_of fid db"
    and "rollback_due read clk f db \<Longrightarrow> no_active (flag_id f) (sf_rollout db') \<and>
           length (records_of (flag_id f) db') = Suc (length (records_of (flag_id f) db))"
    by blast+
qed

section \<open>A whole tick\<close>

lemma snd_monitor_each:
  "snd (monitor_each read clk now ids (f # fs) (r, db)) =
     snd (monitor_each read clk now ids fs
       (tally_outcome (fst (monitor_flag read (clk (flag_id f)) (now (flag_id f)) (ids (flag_id f)) f db)) r,
        snd (monitor_flag read (clk (flag_id f)) (now (flag_id f)) (ids (flag_id f)) f db)))"
  by (simp split: prod.split)

abbreviation due_at ::
  "metrics_reader \<Rightarrow> (pstr \<Rightarrow> pstr option \<Rightarrow> int) \<Rightarrow> safety_db \<Rightarrow> feature_flag \<Rightarrow> bool" where
  "due_at read clk db f \<equiv> rollback_due read (clk (flag_id f)) f db"

text \<open>Each flag is decided on the state the tick started from: the others do not influence it.\<close>

definition tick_effect ::
  "metrics_reader \<Rightarrow> (pstr \<Rightarrow> pstr option \<Rightarrow> int) \<Rightarrow> (pstr \<Rightarrow> int) \<Rightarrow> feature_flag list \<Rightarrow> safety_db \<Rightarrow>
     safety_db \<Rightarrow> bool" where
  "tick_effect read clk now fs db db' \<longleftrightarrow>
     monitor_kept db db' \<and>
     (\<forall>f\<in>set fs. safety_flag db' (flag_id f) = Some (if due_at read clk db f
        then rolled_back (now (flag_id f)) (rollback_target read (flag_id f) db) f else f)) \<and>
     (\<forall>fid. fid \<notin> flag_id ` set fs \<longrightarrow> safety_flag db' fid = safety_flag db fid) \<and>
     (\<forall>fid. fid \<notin> flag_id ` {f \<in> set fs. due_at read clk db f} \<longrightarrow> records_of fid db' = records_of fid db) \<and>
     (\<forall>f\<in>set fs. due_at read clk db f \<longrightarrow> no_active (flag_id f) (sf_rollout db') \<and>
        length (records_of (flag_id f) db') = Suc (length (records_of (flag_id f) db)))"

lemma tick_effect_step:
  assumes g: "safety_flag db (flag_id g) = Some g" and new: "flag_id g \<notin> flag_id ` set fs"
    and db1: "db1 = snd (monitor_flag read (clk (flag_id g)) (now (flag_id g)) (ids (flag_id g)) g db)"
    and rest: "tick_effect read clk now fs db1 db'"
  shows "tick_effect read clk now (g # fs) db db'"
proof -
  note step = monitor_flag_step [OF g, where read = read and clk = "clk (flag_id g)" and now = "now (flag_id g)" and
        new_id = "ids (flag_id g)", folded db1]
  note due = kept_due [OF step(1)]
  have other: "flag_id f \<noteq> flag_id g" if "f \<in> set fs" for f using that new by (metis image_eqI)
  have kept: "monitor_kept db db'"
    using rest monitor_kept_trans [OF step(1)] by (simp add: tick_effect_def)
  have flags: "safety_flag db' (flag_id f) = Some (if due_at read clk db f
        then rolled_back (now (flag_id f)) (rollback_target read (flag_id f) db) f else f)"
    if "f \<in> set (g # fs)" for f
  proof (cases "f \<in> set fs")
    case True
    then show ?thesis using rest by (simp add: tick_effect_def due)
  next
    case False
    with that have "f = g" by simp
    moreover have "safety_flag db' (flag_id g) = safety_flag db1 (flag_id g)"
      using rest new by (simp add: tick_effect_def)
    ultimately show ?thesis using step(2) [of "flag_id g"] g by simp
  qed
  have outside: "safety_flag db' fid = safety_flag db fid" if "fid \<notin> flag_id ` set (g # fs)" for fid
  proof -
    have "fid \<notin> flag_id ` set fs" "fid \<noteq> flag_id g" using that by auto
    with rest have "safety_flag db' fid = safety_flag db1 fid" by (simp add: tick_effect_def)
    with \<open>fid \<noteq> flag_id g\<close> step(2) [of fid] show ?thesis by simp
  qed
  have later: "records_of fid db' = records_of fid db1"
    if "fid \<notin> flag_id ` {f \<in> set fs. due_at read clk db f}" for fid
    using rest that by (simp add: tick_effect_def due)
  have records: "records_of fid db' = records_of fid db"
    if "fid \<notin> flag_id ` {f \<in> set (g # fs). due_at read clk db f}" for fid
  proof -
    have "fid \<notin> flag_id ` {f \<in> set fs. due_at read clk db f}" "fid \<noteq> flag_id g \<or> \<not> due_at read clk db g"
      using that by auto
    then show ?thesis using later step(3) [of fid] by simp
  qed
  have settled: "no_active (flag_id f) (sf_rollout db') \<and>
      length (records_of (flag_id f) db') = Suc (length (records_of (flag_id f) db))"
    if "f \<in> set (g # fs)" "due_at read clk db f" for f
  proof (cases "f \<in> set fs")
    case True
    then have "records_of (flag_id f) db1 = records_of (flag_id f) db"
      using step(3) [of "flag_id f"] other by blast
    with True that(2) rest show ?thesis by (simp add: tick_effect_def due)
  next
    case False
    with that have f: "f = g" by simp
    have "records_of (flag_id g) db' = records_of (flag_id g) db1" using new by (intro later) auto
    moreover have "no_active (flag_id g) (sf_rollout db')"
      using rest step(4) that(2) f by (simp add: tick_effect_def monitor_kept_def)
    ultimately show ?thesis using step(4) that(2) f by simp
  qed
  show ?thesis
    unfolding tick_effect_def using kept flags outside records settled by blast
qed

lemma monitor_each_effect:
  "distinct (map flag_id fs) \<Longrightarrow> \<forall>f\<in>set fs. safety_flag db (flag_id f) = Some f \<Longrightarrow>
     tick_effect read clk now fs db (snd (monitor_each read clk now ids fs (r, db)))"
proof (induction fs arbitrary: r db)
  case (Cons g fs)
  let ?db1 = "snd (monitor_flag read (clk (flag_id g)) (now (flag_id g)) (ids (flag_id g)) g db)"
  have g: "safety_flag db (flag_id g) = Some g" and new: "flag_id g \<notin> flag_id ` set fs"
    using Cons.prems by auto
  have "\<forall>f\<in>set fs. safety_flag ?db1 (flag_id f) = Some f"
  proof
    fix f assume f: "f \<in> set fs"
    with new have "flag_id f \<noteq> flag_id g" by (metis image_eqI)
    with f Cons.prems(2) monitor_flag_step(2) [OF g, where read = read and clk = "clk (flag_id g)" and
        now = "now (flag_id g)" and new_id = "ids (flag_id g)" and fid = "flag_id f"]
    show "safety_flag ?db1 (flag_id f) = Some f" by simp
  qed
  with Cons.IH Cons.prems(1) have "tick_effect read clk now fs ?db1
      (snd (monitor_each read clk now ids (g # fs) (r, db)))"
    unfolding snd_monitor_each by simp
  then show ?case by (rule tick_effect_step [OF g new refl])
qed (simp add: tick_effect_def)

lemma safety_flag_row:
  assumes "distinct (flag_ids db)" and "f \<in> set (rollout_flags (sf_rollout db))"
  shows "safety_flag db (flag_id f) = Some f"
proof -
  have "distinct (map flag_id fs) \<Longrightarrow> f \<in> set fs \<Longrightarrow> find (\<lambda>g. flag_id g = flag_id f) fs = Some f" for fs
    by (induction fs) (auto simp: rev_image_eqI)
  then show ?thesis using assms by (simp add: safety_flag_def get_rollout_flag_def)
qed

definition active_flags :: "safety_db \<Rightarrow> feature_flag list" where
  "active_flags db = filter (\<lambda>f. flag_status f = ACTIVE) (rollout_flags (sf_rollout db))"

lemma tick_decides:
  assumes "distinct (flag_ids db)"
  shows "tick_effect read clk now (active_flags db) db (snd (check_feature_flags_safety read clk now ids db))"
  unfolding check_feature_flags_safety_def active_flags_def
  using assms safety_flag_row [OF assms] by (intro monitor_each_effect) (auto simp: distinct_map_filter)

lemma due_active: "rollback_due read clk f db \<Longrightarrow> flag_status f = ACTIVE"
  using rollback_change_active by (fastforce simp: rollback_due_def)

text \<open>The row of every flag after a tick.\<close>

lemma tick_row:
  assumes "distinct (flag_ids db)" and "f \<in> set (rollout_flags (sf_rollout db))"
  shows "safety_flag (snd (check_feature_flags_safety read clk now ids db)) (flag_id f) =
    Some (if due_at read clk db f
      then rolled_back (now (flag_id f)) (rollback_target read (flag_id f) db) f else f)"
proof (cases "flag_status f = ACTIVE")
  case True
  then show ?thesis
    using tick_decides [OF assms(1), of read clk now ids] assms(2) by (simp add: tick_effect_def active_flags_def)
next
  case False
  have "flag_id f \<notin> flag_id ` set (active_flags db)"
  proof
    assume "flag_id f \<in> flag_id ` set (active_flags db)"
    then obtain g where g: "g \<in> set (rollout_flags (sf_rollout db))" "flag_status g = ACTIVE" "flag_id g = flag_id f"
      by (auto simp: active_flags_def)
    have "Some g = Some f"
      unfolding safety_flag_row [OF assms(1) g(1), symmetric] g(3) by (rule safety_flag_row [OF assms])
    with g(2) False show "False" by simp
  qed
  then have "safety_flag (snd (check_feature_flags_safety read clk now ids db)) (flag_id f) = Some f"
    using tick_decides [OF assms(1), of read clk now ids] safety_flag_row [OF assms]
    unfolding tick_effect_def by metis
  moreover have "\<not> due_at read clk db f" using False due_active by blast
  ultimately show ?thesis by simp
qed

section \<open>The rollout scheduler beside the monitor\<close>

text \<open>A rollout tick leaves the flags without an active schedule alone.\<close>

definition untouched :: "pstr \<Rightarrow> rollout_db \<Rightarrow> rollout_db \<Rightarrow> bool" where
  "untouched fid a b \<longleftrightarrow>
     get_rollout_flag b fid = get_rollout_flag a fid \<and>
     map flag_id (rollout_flags b) = map flag_id (rollout_flags a) \<and> (no_active fid a \<longrightarrow> no_active fid b)"

lemma untouched_refl [simp]: "untouched fid a a"
  by (simp add: untouched_def)

lemma untouched_trans: "untouched fid a b \<Longrightarrow> untouched fid b c \<Longrightarrow> untouched fid a c"
  by (simp add: untouched_def)

lemma untouched_percentage:
  assumes "fid \<noteq> g"
  shows "untouched fid db (set_percentage now g p db)"
proof -
  have "find (\<lambda>f. flag_id f = fid) (map (\<lambda>f. if flag_id f = g
      then f\<lparr>flag_rollout := p, flag_updated_at := now\<rparr> else f) fs) = find (\<lambda>f. flag_id f = fid) fs" for fs
    using assms by (induction fs) auto
  then show ?thesis
    by (simp add: untouched_def get_rollout_flag_def no_active_def) (simp add: set_percentage_def)
qed

lemma untouched_stage: "write_stage stid f db = Inr db' \<Longrightarrow> untouched fid db db'"
  using write_stage_tables [of stid f db db'] by (simp add: untouched_def get_rollout_flag_def no_active_def)

lemma untouched_complete:
  assumes "write_schedule sid (\<lambda>r. r\<lparr>sched_status := SchedCompleted, sched_updated := now\<rparr>) db = Inr db'"
  shows "untouched fid db db'"
  using write_schedule_tables [OF assms]
  by (auto simp: untouched_def get_rollout_flag_def no_active_def list_all_iff)

lemma untouched_activate:
  assumes "activate_stage now sched s db = Inr db'" and "sched_flag sched \<noteq> fid"
  shows "untouched fid db db'"
  using assms(1)
proof (rule activate_stageE)
  fix db1 assume "write_stage (stage_id s) (start_write now) db = Inr db1"
    and db': "db' = set_percentage now (sched_flag sched) (stage_target s) db1"
  from untouched_trans [OF untouched_stage [OF this(1)] untouched_percentage] show "untouched fid db db'"
    using assms(2) by (simp add: db')
qed

lemma untouched_process:
  assumes "process_schedule fh now seen sched db = Inr (updated, notices, db')" and "sched_flag sched \<noteq> fid"
  shows "untouched fid db db'"
  using assms(1)
proof (cases rule: process_schedule_cases)
  case idle
  then show ?thesis by simp
next
  case (start s)
  from untouched_activate [OF start(5) assms(2)] show ?thesis .
next
  case (finish current db1)
  note u1 = untouched_stage [OF finish(5), of fid]
  from finish(6) have "untouched fid db1 db'"
    by (elim disjE bexE conjE) (simp, erule untouched_activate [OF _ assms(2)], erule untouched_complete)
  with u1 show ?thesis by (rule untouched_trans)
qed

lemma untouched_each:
  "\<forall>s\<in>set ss. sched_flag s \<noteq> fid \<Longrightarrow> untouched fid db (snd (process_each fh now ss (report, db)))"
proof (induction ss arbitrary: report db)
  case (Cons s ss)
  show ?case
  proof (cases "process_schedule fh now db s db")
    case (Inl e)
    then show ?thesis using Cons by (cases e) simp_all
  next
    case (Inr x)
    obtain u n db2 where x: "x = (u, n, db2)" by (cases x) auto
    with Inr Cons.prems have "untouched fid db db2" by (auto intro: untouched_process)
    from untouched_trans [OF this] show ?thesis using Cons Inr x by simp
  qed
qed simp

lemma untouched_tick:
  assumes "no_active fid db"
  shows "untouched fid db (snd (process_rollout_schedules fh now db))"
  unfolding process_rollout_schedules_def
  using assms by (intro untouched_each) (auto simp: due_schedules_def no_active_def list_all_iff)

section \<open>What goes on after a rollback\<close>

text \<open>
  Everything the platform does by itself: ticks of the monitor and of the rollout scheduler, and the
  rows that evaluations and error reports add or a retention removes.
\<close>

inductive background_step :: "metrics_reader \<Rightarrow> safety_db \<Rightarrow> safety_db \<Rightarrow> bool" for read where
  background_monitor: "background_step read db (snd (check_feature_flags_safety read clk now ids db))"
| background_rollout: "background_step read db
    (db\<lparr>sf_rollout := snd (process_rollout_schedules fh t (sf_rollout db))\<rparr>)"
| background_rows: "background_step read db (db\<lparr>sf_logs := logs, sf_metrics := rows\<rparr>)"

inductive_cases background_stepE: "background_step read db db'"

text \<open>A flag at rest: a rollback would not change it, and no schedule moves it.\<close>

definition at_rest ::
  "metrics_reader \<Rightarrow> feature_flag \<Rightarrow> rollback_record list \<Rightarrow> config_response res \<Rightarrow> safety_db \<Rightarrow> bool" where
  "at_rest read f recs config db \<longleftrightarrow>
     safety_flag db (flag_id f) = Some f \<and> records_of (flag_id f) db = recs \<and>
     flag_config read (flag_id f) db = config \<and>
     (\<forall>c. config = Inr c \<longrightarrow> rollback_change f (rollback_target_percentage c) = None) \<and>
     no_active (flag_id f) (sf_rollout db) \<and> distinct (flag_ids db)"

lemma flag_in_table:
  assumes "safety_flag db fid = Some f"
  shows "f \<in> set (rollout_flags (sf_rollout db))"
  using assms by (auto simp: safety_flag_def get_rollout_flag_def find_Some_iff)

lemma at_rest_monitor:
  assumes "at_rest read f recs config db"
  shows "at_rest read f recs config (snd (check_feature_flags_safety read clk now ids db))"
proof -
  let ?db' = "snd (check_feature_flags_safety read clk now ids db)"
  have row: "safety_flag db (flag_id f) = Some f" and d: "distinct (flag_ids db)"
    using assms by (simp_all add: at_rest_def)
  have idle: "\<not> due_at read clk db f"
    using assms by (auto simp: at_rest_def rollback_due_def)
  note tick = tick_decides [OF d, of read clk now ids]
  have "flag_id f \<notin> flag_id ` {g \<in> set (active_flags db). due_at read clk db g}"
  proof
    assume "flag_id f \<in> flag_id ` {g \<in> set (active_flags db). due_at read clk db g}"
    then obtain g where g: "g \<in> set (rollout_flags (sf_rollout db))" "flag_id g = flag_id f" "due_at read clk db g"
      by (auto simp: active_flags_def)
    have "Some g = Some f"
      unfolding safety_flag_row [OF d g(1), symmetric] g(2) by (rule row)
    with g(3) idle show False by simp
  qed
  with tick have "records_of (flag_id f) ?db' = records_of (flag_id f) db"
    unfolding tick_effect_def by blast
  moreover have "safety_flag ?db' (flag_id f) = Some f"
    using tick_row [OF d flag_in_table [OF row], of read clk now ids] idle by simp
  moreover have kept: "monitor_kept db ?db'" using tick by (simp add: tick_effect_def)
  moreover have "no_active (flag_id f) (sf_rollout ?db')" "distinct (flag_ids ?db')"
    using kept assms unfolding monitor_kept_def at_rest_def by metis+
  ultimately show ?thesis
    using assms unfolding at_rest_def kept_config [OF kept] by simp
qed

lemma at_rest_step:
  assumes "at_rest read f recs config db" and "background_step read db db'"
  shows "at_rest read f recs config db'"
  using assms(2)
proof cases
  case (background_monitor clk now ids)
  then show ?thesis using at_rest_monitor [OF assms(1)] by simp
next
  case (background_rollout fh t)
  have "untouched (flag_id f) (sf_rollout db) (sf_rollout db')"
    using untouched_tick [of "flag_id f" "sf_rollout db" fh t] assms(1) background_rollout
    by (simp add: at_rest_def)
  moreover have "flag_config read (flag_id f) db' = flag_config read (flag_id f) db"
    by (simp add: flag_config_def background_rollout get_config_record_def effective_settings_def split: option.split)
  ultimately show ?thesis
    using assms(1) by (simp add: at_rest_def untouched_def safety_flag_def records_of_def background_rollout)
next
  case (background_rows logs rows)
  have "flag_config read (flag_id f) db' = flag_config read (flag_id f) db"
    by (simp add: flag_config_def background_rows get_config_record_def effective_settings_def split: option.split)
  then show ?thesis
    using assms(1) by (simp add: at_rest_def safety_flag_def records_of_def background_rows)
qed

interpretation rest: invariant_of "background_step read" "at_rest read f recs config"
  by unfold_locales (rule at_rest_step)

lemma rolled_back_change: "rollback_change (rolled_back now target f) target = None"
  by (simp add: rollback_change_def rolled_back_def)

lemma rests_after_rollback:
  assumes "distinct (flag_ids db)" and "f \<in> set (rollout_flags (sf_rollout db))" and "due_at read clk db f"
  shows "\<exists>recs config. length recs = Suc (length (records_of (flag_id f) db)) \<and>
    at_rest read (rolled_back (now (flag_id f)) (rollback_target read (flag_id f) db) f) recs config
      (snd (check_feature_flags_safety read clk now ids db))"
proof -
  let ?db' = "snd (check_feature_flags_safety read clk now ids db)"
  note tick = tick_decides [OF assms(1), of read clk now ids]
  have active: "f \<in> set (active_flags db)" using due_active [OF assms(3)] assms(2) by (simp add: active_flags_def)
  have kept: "monitor_kept db ?db'" using tick by (simp add: tick_effect_def)
  have effect: "no_active (flag_id f) (sf_rollout ?db')"
      "length (records_of (flag_id f) ?db') = Suc (length (records_of (flag_id f) db))"
    using tick active assms(3) unfolding tick_effect_def by blast+
  have "rollback_change (rolled_back (now (flag_id f)) (rollback_target read (flag_id f) db) f)
      (rollback_target_percentage c) = None" if "flag_config read (flag_id f) ?db' = Inr c" for c
    using that rolled_back_change by (simp add: rollback_target_def kept_config [OF kept])
  then have "at_rest read (rolled_back (now (flag_id f)) (rollback_target read (flag_id f) db) f)
      (records_of (flag_id f) ?db') (flag_config read (flag_id f) ?db') ?db'"
    using tick_row [OF assms(1,2), of read clk now ids] assms(1,3) effect(1) kept
    by (simp add: at_rest_def monitor_kept_def)
  with effect(2) show ?thesis by blast
qed

text \<open>A rollback that a request or the tick asks for, on whatever row it finds under its lock.\<close>

lemma rollback_request_effect:
  assumes "rollback_request now new_id fid percentage why trigger user db = (Inr r, db')"
    and "safety_flag db fid = Some f"
  defines "target \<equiv> (case percentage of None \<Rightarrow> 0 | Some p \<Rightarrow> p)"
  shows "if rr_success r
    then rollback_change f target \<noteq> None \<and> safety_flag db' fid = Some (rolled_back now target f) \<and>
      no_active fid (sf_rollout db') \<and> length (records_of fid db') = Suc (length (records_of fid db))
    else db' = db"
proof (cases "rollback_change f target")
  case None
  let ?why = "if why = [] then str ''Manual rollback'' else why"
  obtain r' where "execute_rollback now new_id fid ?why trigger target user db = (r', db)" "\<not> rr_success r'"
    using execute_rollback_idle [of db fid target] None assms(2) by fastforce
  then show ?thesis using assms(1,2) by (simp add: rollback_request_def target_def [symmetric])
next
  case (Some change)
  let ?why = "if why = [] then str ''Manual rollback'' else why"
  obtain r' where r': "execute_rollback now new_id fid ?why trigger target user db =
    (r', db\<lparr>sf_rollout := pause_schedules now fid (put_flag (rolled_back now target f) (sf_rollout db)),
           sf_records := sf_records db @ [\<lparr>rec_id = new_id, rec_flag = fid,
             rec_config = map_option cfg_id (get_config_record db fid), rec_trigger = trigger, rec_reason = ?why,
             rec_previous = flag_rollout f, rec_target = target, rec_user = user\<rparr>]\<rparr>)" "rr_success r'"
    using execute_rollback_due [OF assms(2) Some] by blast
  have id: "flag_id f = fid" using assms(2) by (auto simp: safety_flag_def get_rollout_flag_def find_Some_iff)
  have "(Inr r, db') = rollback_request now new_id fid percentage why trigger user db" by (rule assms(1) [symmetric])
  also have "\<dots> = (Inr r', snd (execute_rollback now new_id fid ?why trigger target user db))"
    using assms(2) r'(1) by (simp add: rollback_request_def target_def [symmetric])
  finally show ?thesis
    using r' Some assms(2) id no_active_pause [of fid now]
    by (simp add: records_of_def safety_flag_def get_flag_put)
qed

section \<open>Uncounted reports change nothing\<close>

abbreviation relog :: "error_log list \<Rightarrow> safety_db \<Rightarrow> safety_db" where
  "relog logs db \<equiv> db\<lparr>sf_logs := logs\<rparr>"

definition same_counted :: "error_log list \<Rightarrow> safety_db \<Rightarrow> bool" where
  "same_counted logs db \<longleftrightarrow> filter counted_error_filter logs = filter counted_error_filter (sf_logs db)"

lemma relog_readings: "same_counted logs db \<Longrightarrow> same_readings (relog logs db) db"
  by (simp add: same_counted_def same_readings_def safety_flag_def)

lemma relog_keeps [simp]:
  "effective_settings (relog logs db) = effective_settings db" "settle (relog logs db) = relog logs (settle db)"
  "safety_flag (relog logs db) fid = safety_flag db fid"
  "get_config_record (relog logs db) fid = get_config_record db fid"
  "settle_for fid (relog logs db) = relog logs (settle_for fid db)"
  "flag_config read fid (relog logs db) = flag_config read fid db"
  by (simp_all add: effective_settings_def settle_def safety_flag_def get_config_record_def settle_for_def
      flag_config_def split: list.split option.split)

lemma relog_due:
  assumes "same_counted logs db"
  shows "check_verdict read clk fid (relog logs db) = check_verdict read clk fid db"
    and "rollback_due read clk f (relog logs db) = rollback_due read clk f db"
    and "rollback_target read fid (relog logs db) = rollback_target read fid db"
proof -
  note metric = check_metric_cong [OF relog_readings [OF assms]]
  show verdict: "check_verdict read clk fid (relog logs db) = check_verdict read clk fid db" for fid
    unfolding check_verdict_def metric by simp
  show "rollback_due read clk f (relog logs db) = rollback_due read clk f db"
    unfolding rollback_due_def verdict by simp
  show "rollback_target read fid (relog logs db) = rollback_target read fid db"
    by (simp add: rollback_target_def)
qed

lemma relog_rollback:
  "execute_rollback now new_id fid why trigger target user (relog logs db) =
     apsnd (relog logs) (execute_rollback now new_id fid why trigger target user db)"
  by (simp add: execute_rollback_def split: option.split sum.split)

lemma relog_request:
  "rollback_request now new_id fid percentage why trigger user (relog logs db) =
     apsnd (relog logs) (rollback_request now new_id fid percentage why trigger user db)"
  by (simp add: rollback_request_def relog_rollback split: prod.split)

lemma relog_monitor_flag:
  assumes "same_counted logs db"
  shows "monitor_flag read clk now new_id f (relog logs db) = apsnd (relog logs) (monitor_flag read clk now new_id f db)"
proof (cases "safety_flag db (flag_id f)")
  case None
  then show ?thesis by (simp add: monitor_flag_def get_feature_flag_safety_config_def)
next
  case (Some g)
  then have row: "safety_flag db (flag_id f) = Some g" "safety_flag (relog logs db) (flag_id f) = Some g" by simp_all
  let ?db1 = "settle_for (flag_id f) db"
  have counted: "same_counted logs ?db1" using assms by (simp add: same_counted_def settle_for_def)
  obtain r where r: "check_feature_flag_safety read clk (flag_id f) ?db1 = (r, ?db1)"
      "case check_verdict read clk (flag_id f) db of Inl e \<Rightarrow> r = Inl (SafetyRaised e)
       | Inr ss \<Rightarrow> \<exists>k. r = Inr k \<and> sk_statuses k = ss \<and> sk_healthy k = list_all ms_healthy ss"
    using check_eq [of ?db1 "flag_id f" g read clk] row(1) by auto
  obtain r' where r': "check_feature_flag_safety read clk (flag_id f) (relog logs ?db1) = (r', relog logs ?db1)"
      "case check_verdict read clk (flag_id f) db of Inl e \<Rightarrow> r' = Inl (SafetyRaised e)
       | Inr ss \<Rightarrow> \<exists>k. r' = Inr k \<and> sk_statuses k = ss \<and> sk_healthy k = list_all ms_healthy ss"
    using check_eq [of "relog logs ?db1" "flag_id f" g read clk] row(1) relog_due(1) [OF counted] by auto
  show ?thesis
  proof (cases "flag_config read (flag_id f) db")
    case (Inl e)
    then show ?thesis by (simp add: monitor_flag_def get_config_eq [OF row(1)] get_config_eq [OF row(2)])
  next
    case (Inr c)
    show ?thesis
      using Inr r r' row
      by (cases "check_verdict read clk (flag_id f) db"; cases "settings_read read (effective_settings db)")
        (auto simp: monitor_flag_def Let_def get_config_eq [OF row(1)] get_config_eq [OF row(2)]
          get_safety_settings_eq relog_request rollback_reason_def split: prod.split sum.split)
  qed
qed

lemma rollback_logs: "sf_logs (snd (rollback_request now new_id fid p why trigger user db)) = sf_logs db"
  by (simp add: rollback_request_def execute_rollback_def split: option.split sum.split)

lemma monitor_flag_logs: "sf_logs (snd (monitor_flag read clk now new_id f db)) = sf_logs db"
proof (cases "safety_flag db (flag_id f)")
  case None
  then show ?thesis by (simp add: monitor_flag_def get_feature_flag_safety_config_def)
next
  case (Some g)
  let ?db1 = "settle_for (flag_id f) db"
  have logs: "sf_logs ?db1 = sf_logs db" by (simp add: settle_for_def)
  have request: "sf_logs y = sf_logs db"
    if "rollback_request now new_id fid p why trigger user (settle db) = (x, y)" for fid p why trigger user x y
    using rollback_logs [of now new_id fid p why trigger user "settle db"] that by simp
  obtain r where r: "check_feature_flag_safety read clk (flag_id f) ?db1 = (r, ?db1)"
    using check_eq [of ?db1 "flag_id f" g read clk] Some by auto
  note defs = monitor_flag_def Let_def get_config_eq [OF Some] get_safety_settings_eq
  show ?thesis
  proof (cases "flag_config read (flag_id f) db")
    case (Inl e)
    then show ?thesis using logs by (simp add: defs)
  next
    case (Inr c)
    show ?thesis
    proof (cases "settings_read read (effective_settings db)")
      case (Inl e)
      with Inr r logs show ?thesis by (cases r) (simp_all add: defs)
    next
      case (Inr s)
      with \<open>flag_config read (flag_id f) db = Inr c\<close> r logs show ?thesis
        by (cases r) (auto simp: defs split: prod.split sum.split dest: request)
    qed
  qed
qed

lemma relog_monitor_each:
  "same_counted logs db \<Longrightarrow>
     monitor_each read clk now ids fs (r, relog logs db) = apsnd (relog logs) (monitor_each read clk now ids fs (r, db))"
proof (induction fs arbitrary: r db)
  case (Cons f fs)
  obtain out db1 where m: "monitor_flag read (clk (flag_id f)) (now (flag_id f)) (ids (flag_id f)) f db = (out, db1)"
    by fastforce
  with monitor_flag_logs [of read "clk (flag_id f)" "now (flag_id f)" "ids (flag_id f)" f db] Cons.prems
  have "same_counted logs db1" by (simp add: same_counted_def)
  with Cons.IH m show ?case by (simp add: relog_monitor_flag [OF Cons.prems])
qed simp

lemma relog_tick:
  assumes "same_counted logs db"
  shows "check_feature_flags_safety read clk now ids (relog logs db) =
    apsnd (relog logs) (check_feature_flags_safety read clk now ids db)"
  using relog_monitor_each [OF assms] by (simp add: check_feature_flags_safety_def)

end
