(* ===== verification/Concrete_Safety.thy ===== *)
theory Concrete_Safety
  imports Safety_Runs Concrete_Env
begin

text \<open>
  A flag under watch, with one counted error in two evaluations, on which the properties of the safety
  monitor are instantiated.
\<close>

definition demo_threshold :: metric_threshold where
  "demo_threshold = \<lparr>warning_threshold = None, critical_threshold = Some (Fin (1 / 4)),
     comparison_type = str ''greater_than''\<rparr>"

definition demo_reader :: metrics_reader where
  "demo_reader v = Inr [(str ''error_rate'', demo_threshold)]"

abbreviation demo_watched :: feature_flag where
  "demo_watched \<equiv> demo_flag ''my-flag'' ACTIVE PNone 50"

definition demo_active_schedule :: rollout_schedule where
  "demo_active_schedule = \<lparr>sched_id = str ''r'', sched_name = str ''r'', sched_description = None,
     sched_flag = str ''my-flag'', sched_status = SchedActive, sched_start = None, sched_end = None,
     sched_max_percentage = 100, sched_min_duration = None, sched_updated = 0\<rparr>"

definition demo_evaluation :: raw_metric where
  "demo_evaluation = metric_now FlagEvaluationMetric 0 (str ''my-flag'') None"

definition demo_failure :: error_log where
  "demo_failure = failed_evaluation_log 0 (str ''flag_evaluation_error'') (str ''my-flag'') None (str ''x'') PNone"

definition demo_safety :: safety_db where
  "demo_safety = \<lparr>sf_rollout = \<lparr>schedules = [demo_active_schedule], stages = [], rollout_flags = [demo_watched]\<rparr>,
     sf_settings = [\<lparr>set_auto = True, set_metrics = PDict []\<rparr>], sf_configs = [], sf_logs = [demo_failure],
     sf_metrics = [demo_evaluation, demo_evaluation], sf_records = []\<rparr>"

definition demo_tick :: "safety_db \<Rightarrow> monitor_report \<times> safety_db" where
  "demo_tick = check_feature_flags_safety demo_reader (\<lambda>_ _. 0) (\<lambda>_. 1) (\<lambda>_. str ''record'')"

lemma demo_watched_id [simp]: "flag_id demo_watched = str ''my-flag''" "flag_status demo_watched = ACTIVE"
  "flag_rollout demo_watched = 50"
  by (simp_all add: demo_flag_def)

lemma demo_safety_flags: "rollout_flags (sf_rollout demo_safety) = [demo_watched]"
  by (simp add: demo_safety_def)

lemma demo_safety_row: "safety_flag demo_safety (str ''my-flag'') = Some demo_watched"
  by (simp add: safety_flag_def get_rollout_flag_def demo_safety_flags)

lemma demo_failure_counted: "counted_error_filter demo_failure"
  by (simp add: counted_error_filter_def source_text_def demo_failure_def failed_evaluation_log_def str_def)

lemma demo_error_rate: "get_metric_value 0 (str ''my-flag'') (str ''error_rate'') demo_safety = Inr (Some (Fin (1 / 2)))"
proof -
  have half: "int_truediv 1 2 = Fin (1 / 2)"
    using fl_dyadic_exact [of 1 1 "1 / 2"] by (simp add: int_truediv_def power_int_minus)
  have "log_flag demo_failure = Some (str ''my-flag'')" "log_time demo_failure = 0"
    "raw_flag demo_evaluation = Some (str ''my-flag'')" "raw_type demo_evaluation = FlagEvaluationMetric"
    "raw_time demo_evaluation = 0" "raw_count demo_evaluation = 1"
    by (simp_all add: demo_failure_def failed_evaluation_log_def demo_evaluation_def metric_now_def)
  then have "get_error_metrics 0 (str ''my-flag'') demo_safety =
      Inr \<lparr>em_errors = 1, em_uncounted = 0, em_evaluations = 2, em_rate = Fin (1 / 2)\<rparr>"
    using demo_failure_counted demo_safety_row half
    by (simp add: get_error_metrics_def Let_def in_window_def TIMEFRAME_MINUTES_def MINUTE_def uncounted_iff)
      (simp add: demo_safety_def in_window_def TIMEFRAME_MINUTES_def MINUTE_def)
  then show ?thesis by (simp add: get_metric_value_def ERROR_METRICS_def)
qed

lemma demo_config: "flag_config demo_reader (str ''my-flag'') demo_safety =
    Inr \<lparr>cr_enabled = True, cr_metrics = [(str ''error_rate'', demo_threshold)], cr_rollback = 0\<rparr>"
  "rollback_target demo_reader (str ''my-flag'') demo_safety = 0"
  "settings_read demo_reader (effective_settings demo_safety) =
    Inr \<lparr>sr_auto = True, sr_metrics = Some [(str ''error_rate'', demo_threshold)]\<rparr>"
  by (simp_all add: flag_config_def get_config_record_def settings_read_def effective_settings_def demo_safety_def
      demo_reader_def rollback_target_def rollback_target_percentage_def)

lemma demo_must_roll_back: "must_roll_back demo_reader (\<lambda>_. 0) demo_watched demo_safety"
proof -
  have "breaches (Fin (1 / 2)) (critical_threshold demo_threshold) (comparison_type demo_threshold)"
    by (simp add: breaches_def demo_threshold_def str_def)
  then show ?thesis
    unfolding must_roll_back_def demo_watched_id
    using demo_config(1,3) demo_error_rate
    by (intro exI [of _ "\<lparr>cr_enabled = True, cr_metrics = [(str ''error_rate'', demo_threshold)], cr_rollback = 0\<rparr>"]
        exI [of _ "\<lparr>sr_auto = True, sr_metrics = Some [(str ''error_rate'', demo_threshold)]\<rparr>"])
      (simp add: rollback_change_def)
qed

lemma demo_safety_distinct: "distinct (flag_ids demo_safety)" "demo_watched \<in> set (rollout_flags (sf_rollout demo_safety))"
  by (simp_all add: demo_safety_flags)

text \<open>A key that may report errors and is not a server's: it has no scope.\<close>

definition demo_auth :: auth_db where
  "demo_auth = \<lparr>api_keys = [\<lparr>ak_id = str ''1'', ak_key = str ''k'', ak_active = True, ak_expires = None,
       ak_last_used = None, ak_scopes = None, ak_user = str ''u''\<rparr>],
     app_users = [\<lparr>usr_id = str ''u'', usr_active = True, usr_superuser = False,
       usr_role = Some RoleDeveloper\<rparr>]\<rparr>"

lemma demo_client_key: "\<not> presented_key_is_server_key (\<lambda>h. h) 0 demo_auth (Some (str ''k''))"
  by (simp add: presented_key_is_server_key_def scope_refusal_def has_scope_def parse_scopes_def find_key_def
      demo_auth_def str_def)

definition demo_crash :: client_error where
  "demo_crash = \<lparr>rep_flag_key = Some (str ''my-flag''), rep_experiment_key = None, rep_user = None,
     rep_type = str ''crash'', rep_message = str ''x'', rep_stack = None, rep_metadata = None,
     rep_timestamp = None\<rparr>"

definition demo_crashes :: "error_log list \<Rightarrow> report_answer \<times> error_log list" where
  "demo_crashes = report_client_errors_batch ascii_env (\<lambda>_. []) (\<lambda>h. h) 0 demo_auth (Some (str ''k'')) (\<lambda>k. Some k)
     (\<lambda>_. None) [demo_crash, demo_crash]"

text \<open>The report is taken: its rows are stored.\<close>

lemma demo_crashes_stored: "fst (demo_crashes []) = BatchStored 2 []"
proof -
  obtain u auth' where "get_api_key (\<lambda>h. h) 0 (Some (str ''k'')) demo_auth = Inr (u, auth')"
    by (simp add: get_api_key_def find_key_def find_user_def key_is_valid_def is_expired_def demo_auth_def str_def)
  then show ?thesis
    by (simp add: demo_crashes_def report_client_errors_batch_def valid_client_error_def demo_crash_def storable_opt_def
        unstorable_text_def is_surrogate_def sent_key_def ERROR_TYPE_MAX_def MAX_BATCH_SIZE_def resolve_targets_def
        str_def)
qed

text \<open>How a breach reads.\<close>

lemma dec_digits_less: "n < 10 \<Longrightarrow> dec_digits n = [48 + n]"
  by (simp add: dec_digits.simps [of n])

lemma dec_digits_more: "10 \<le> n \<Longrightarrow> dec_digits n = dec_digits (n div 10) @ [48 + n mod 10]"
  by (simp add: dec_digits.simps [of n])

lemmas reading_defs = format_metric_value_def four_figures_def decimal_exponent_def ten_pow_def plain_decimal_def
  round_even_def Let_def dec_digits_less dec_digits_more str_def

lemma demo_figures: "four_figures 30000 = (3000, 1)" "four_figures (1 / 2) = (5000, - 4)" "four_figures (1 / 14) = (7143, - 5)"
proof -
  have "\<lfloor>50000 / 7 :: rat\<rfloor> = 7142" by (simp add: floor_eq_iff)
  then show "four_figures (1 / 14) = (7143, - 5)"
    by (simp add: four_figures_def decimal_exponent_def ten_pow_def round_even_def Let_def dec_digits_less
        dec_digits_more)
qed (simp_all add: four_figures_def decimal_exponent_def ten_pow_def round_even_def Let_def dec_digits_less
    dec_digits_more)

lemma demo_plain: "plain_decimal 3000 1 = str ''30000''" "plain_decimal 5000 (- 4) = str ''0.5''"
  "plain_decimal 7143 (- 5) = str ''0.07143''"
  by (simp_all add: plain_decimal_def Let_def dec_digits_less dec_digits_more str_def)

lemma demo_readings:
  "format_metric_value (Fin 30000) = str ''30000''"
  "format_metric_value (Fin (1 / 2)) = str ''0.5''"
  "format_metric_value (Fin (1 / 14)) = str ''0.07143''"
  by (simp_all add: format_metric_value_def demo_figures demo_plain)

end
