(* ===== verification/Rule_Validation.thy ===== *)
theory Rule_Validation
  imports Rules_Engine
begin

text \<open>
  The rule validator, \<^verbatim>\<open>backend/app/core/rule_validation.py\<close>: the issues it finds in a ruleset, the
  complexity score and the performance warnings. An issue carries the kind of its message; the
  suggestions, and the values some messages repeat, are left out. Only issues of severity error
  make rules invalid, and \<open>well_formed\<close> says without issues which rules those are.
\<close>

section \<open>Issues\<close>

datatype severity = SeverityError | SeverityWarning | SeverityInfo

datatype issue_message =
    NoRules | DuplicateRuleIds | VersionFormat
  | RuleIdRequired | RuleIdLong | RolloutInvalid | NegativePriority
  | NestedTooDeep | TooManyConditions | EmptyGroup | NotWithSeveral
  | AttributeRequired | AttributeConventions
  | RequiresArray operator_type | EmptyArray operator_type | RequiresAdditional operator_type
  | InvalidRegex | InvalidSemver
  | GeoShape | LatitudeRange | LongitudeRange | CoordinatesNotNumeric | ValidationRaised exc
  | RegexExpensive | LargeArray nat | JsonPathExpensive
  | SamePriority int | DefaultUnreachable | HighComplexity nat

record validation_issue =
  severity :: severity
  message :: issue_message
  issue_rule :: "pstr option"
  condition_path :: "pstr option"

datatype performance_warning = ComplexityWarning nat | ManyRulesWarning nat | DeepNestingWarning nat

record validation_result =
  is_valid :: bool
  issues :: "validation_issue list"
  complexity_score :: nat
  performance_warnings :: "performance_warning list"

definition MAX_COMPLEXITY_SCORE :: nat where "MAX_COMPLEXITY_SCORE = 100"
definition MAX_RULE_DEPTH :: nat where "MAX_RULE_DEPTH = 10"
definition MAX_CONDITIONS_PER_GROUP :: nat where "MAX_CONDITIONS_PER_GROUP = 20"

definition issue_at :: "severity \<Rightarrow> pstr \<Rightarrow> pstr \<Rightarrow> issue_message \<Rightarrow> validation_issue" where
  "issue_at sev rid path m =
     \<lparr>severity = sev, message = m, issue_rule = Some rid, condition_path = Some path\<rparr>"

definition rule_issue :: "severity \<Rightarrow> pstr \<Rightarrow> issue_message \<Rightarrow> validation_issue" where
  "rule_issue sev rid m = \<lparr>severity = sev, message = m, issue_rule = Some rid, condition_path = None\<rparr>"

definition ruleset_issue :: "severity \<Rightarrow> issue_message \<Rightarrow> validation_issue" where
  "ruleset_issue sev m = \<lparr>severity = sev, message = m, issue_rule = None, condition_path = None\<rparr>"

definition issue_if :: "bool \<Rightarrow> validation_issue \<Rightarrow> validation_issue list" where
  "issue_if b i = (if b then [i] else [])"

text \<open>\<^verbatim>\<open>f"{path}.name[{i}]" if path else f"name[{i}]"\<close>\<close>

definition indexed_path :: "pstr \<Rightarrow> string \<Rightarrow> nat \<Rightarrow> pstr" where
  "indexed_path path name i =
     (if path = [] then [] else path @ [46]) @ str name @ [91] @ dec_of_int (int i) @ [93]"

section \<open>Conditions\<close>

text \<open>\<^verbatim>\<open>re.match(r"^[a-zA-Z][a-zA-Z0-9_\.]*$", s)\<close> and \<^verbatim>\<open>re.match(r"^\d+\.\d+$", s)\<close>; \<^verbatim>\<open>$\<close> also matches
  before a final line feed.\<close>

definition ascii_letter :: "nat \<Rightarrow> bool" where
  "ascii_letter c = (65 \<le> c \<and> c \<le> 90 \<or> 97 \<le> c \<and> c \<le> 122)"

definition conventional_name :: "pstr \<Rightarrow> bool" where
  "conventional_name s = (case s of
       [] \<Rightarrow> False
     | c # r \<Rightarrow> ascii_letter c \<and>
         list_all (\<lambda>c. ascii_letter c \<or> 48 \<le> c \<and> c \<le> 57 \<or> c = 95 \<or> c = 46) r)"

definition version_text :: "'z pyenv_scheme \<Rightarrow> pstr \<Rightarrow> bool" where
  "version_text E s = (case split_at 46 s of
       [a, b] \<Rightarrow> a \<noteq> [] \<and> b \<noteq> [] \<and> list_all (decimal_char E) (a @ b)
     | _ \<Rightarrow> False)"

definition before_final_newline :: "(pstr \<Rightarrow> bool) \<Rightarrow> pstr \<Rightarrow> bool" where
  "before_final_newline P s = (P s \<or> s \<noteq> [] \<and> last s = 10 \<and> P (butlast s))"

text \<open>
  \<^verbatim>\<open>pattern_match.compile_error\<close>: a pattern is refused when it is no text or RE2 does not compile it,
  which is what a search of the empty text tells (\<^verbatim>\<open>_classify\<close> refuses before it searches).
\<close>

definition compile_error :: "'z engine_env_scheme \<Rightarrow> pyval \<Rightarrow> bool" where
  "compile_error E pattern = (case pattern of PStr p \<Rightarrow> re2_search E p [] = Re2Refused | _ \<Rightarrow> True)"

definition coordinate_issues :: "'z pyenv_scheme \<Rightarrow> pyval \<Rightarrow> pyval \<Rightarrow> issue_message list res" where
  "coordinate_issues E a b =
     rescue [PyValueError, PyTypeError] (Inr [CoordinatesNotNumeric])
       (ebind (py_float E a) (\<lambda>lat. ebind (py_float E b) (\<lambda>lon. Inr
          ((if fle (Fin (- 90)) lat \<and> fle lat (Fin 90) then [] else [LatitudeRange]) @
           (if fle (Fin (- 180)) lon \<and> fle lon (Fin 180) then [] else [LongitudeRange])))))"

definition geo_issues :: "'z pyenv_scheme \<Rightarrow> pyval \<Rightarrow> issue_message list res" where
  "geo_issues E value = (case value of PList [a, b] \<Rightarrow> coordinate_issues E a b | _ \<Rightarrow> Inr [GeoShape])"

text \<open>\<^verbatim>\<open>_validate_operator_compatibility\<close>; its handler adds an issue to those found before.\<close>

definition validate_operator_compatibility ::
  "'z engine_env_scheme \<Rightarrow> condition \<Rightarrow> pstr \<Rightarrow> pstr \<Rightarrow> validation_issue list" where
  "validate_operator_compatibility E c rid path =
     (let op = operator c; v = cvalue c; err = issue_at SeverityError rid path in
      (if op \<in> {IN, NOT_IN, CONTAINS_ALL, CONTAINS_ANY} then
         (case v of
            PList xs \<Rightarrow> issue_if (xs = []) (issue_at SeverityWarning rid path (EmptyArray op))
          | _ \<Rightarrow> [err (RequiresArray op)])
       else []) @
      issue_if (op \<in> {BETWEEN, GEO_DISTANCE} \<and> additional_value c = PNone) (err (RequiresAdditional op)) @
      issue_if (op = MATCH_REGEX \<and> compile_error E v) (err InvalidRegex) @
      issue_if (op = SEMANTIC_VERSION \<and> \<not> (case v of PStr s \<Rightarrow> semver_matches E s | _ \<Rightarrow> False))
        (err InvalidSemver) @
      (if op = GEO_DISTANCE then
         (case geo_issues E v of
            Inr ms \<Rightarrow> map err ms
          | Inl e \<Rightarrow> [err (ValidationRaised e)])
       else []))"

definition check_condition_performance :: "condition \<Rightarrow> pstr \<Rightarrow> pstr \<Rightarrow> validation_issue list" where
  "check_condition_performance c rid path =
     (let op = operator c in
      issue_if (op = MATCH_REGEX) (issue_at SeverityInfo rid path RegexExpensive) @
      (if op \<in> {IN, NOT_IN} then
         (case cvalue c of
            PList xs \<Rightarrow> issue_if (length xs > 100)
              (issue_at SeverityWarning rid path (LargeArray (length xs)))
          | _ \<Rightarrow> [])
       else []) @
      issue_if (op = JSON_PATH) (issue_at SeverityInfo rid path JsonPathExpensive))"

definition validate_condition ::
  "'z engine_env_scheme \<Rightarrow> pstr \<Rightarrow> pstr \<Rightarrow> condition \<Rightarrow> validation_issue list" where
  "validate_condition E rid path c =
     (if attribute c = [] then [issue_at SeverityError rid path AttributeRequired]
      else issue_if (\<not> before_final_newline conventional_name (attribute c))
        (issue_at SeverityWarning rid path AttributeConventions)) @
     validate_operator_compatibility E c rid path @
     check_condition_performance c rid path"

section \<open>Groups and rules\<close>

fun validate_conditions ::
  "'z engine_env_scheme \<Rightarrow> pstr \<Rightarrow> pstr \<Rightarrow> nat \<Rightarrow> condition list \<Rightarrow> validation_issue list" where
  "validate_conditions E rid path i [] = []"
| "validate_conditions E rid path i (c # cs) =
     validate_condition E rid (indexed_path path ''conditions'' i) c @
     validate_conditions E rid path (Suc i) cs"

text \<open>\<^verbatim>\<open>issues.extend(...)\<close> and \<^verbatim>\<open>complexity_score += ...\<close>\<close>

definition add_found ::
  "validation_issue list \<times> nat \<Rightarrow> validation_issue list \<times> nat \<Rightarrow> validation_issue list \<times> nat" where
  "add_found a b = (fst a @ fst b, snd a + snd b)"

text \<open>\<^verbatim>\<open>_validate_rule_group\<close>: the issues of a group and its complexity.\<close>

fun validate_rule_group ::
    "'z engine_env_scheme \<Rightarrow> pstr \<Rightarrow> pstr \<Rightarrow> nat \<Rightarrow> rule_group \<Rightarrow> validation_issue list \<times> nat"
  and validate_nested_groups ::
    "'z engine_env_scheme \<Rightarrow> pstr \<Rightarrow> pstr \<Rightarrow> nat \<Rightarrow> nat \<Rightarrow> rule_group list \<Rightarrow>
       validation_issue list \<times> nat"
where
  "validate_rule_group E rid path depth (RuleGroup op cs gs) =
     (case validate_nested_groups E rid path (Suc depth) 0 gs of
        (nested, nested_score) \<Rightarrow>
          (issue_if (depth > MAX_RULE_DEPTH) (issue_at SeverityError rid path NestedTooDeep) @
           issue_if (length cs > MAX_CONDITIONS_PER_GROUP)
             (issue_at SeverityWarning rid path TooManyConditions) @
           validate_conditions E rid path 0 cs @
           nested @
           issue_if (cs = [] \<and> gs = []) (issue_at SeverityWarning rid path EmptyGroup) @
           issue_if (op = NOT \<and> length cs + length gs > 1)
             (issue_at SeverityWarning rid path NotWithSeveral),
           1 + length cs + nested_score))"
| "validate_nested_groups E rid path depth i [] = ([], 0)"
| "validate_nested_groups E rid path depth i (g # gs) =
     add_found (validate_rule_group E rid (indexed_path path ''groups'' i) depth g)
       (validate_nested_groups E rid path depth (Suc i) gs)"

definition validate_targeting_rule ::
  "'z engine_env_scheme \<Rightarrow> targeting_rule \<Rightarrow> validation_issue list \<times> nat" where
  "validate_targeting_rule E r =
     (case validate_rule_group E (rule_id r) [] 0 (rule r) of
        (group_issues, score) \<Rightarrow>
          (issue_if (rule_id r = []) (rule_issue SeverityError (rule_id r) RuleIdRequired) @
           issue_if (length (rule_id r) > 100) (rule_issue SeverityWarning (rule_id r) RuleIdLong) @
           issue_if (\<not> (0 \<le> rollout_percentage r \<and> rollout_percentage r \<le> 100))
             (rule_issue SeverityError (rule_id r) RolloutInvalid) @
           issue_if (priority r < 0) (rule_issue SeverityWarning (rule_id r) NegativePriority) @
           group_issues, score))"

definition every_rule :: "targeting_rules \<Rightarrow> targeting_rule list" where
  "every_rule rs = rules rs @ (case default_rule rs of None \<Rightarrow> [] | Some r \<Rightarrow> [r])"

text \<open>\<^verbatim>\<open>_validate_schema_structure\<close>; \<open>version\<close> is the text of the rules' version field.\<close>

definition validate_schema_structure ::
  "'z engine_env_scheme \<Rightarrow> pstr \<Rightarrow> targeting_rules \<Rightarrow> validation_issue list" where
  "validate_schema_structure E version rs =
     issue_if (rules rs = [] \<and> default_rule rs = None) (ruleset_issue SeverityError NoRules) @
     issue_if (\<not> distinct (map rule_id (every_rule rs))) (ruleset_issue SeverityError DuplicateRuleIds) @
     issue_if (version = [] \<or> \<not> before_final_newline (version_text E) version)
       (ruleset_issue SeverityWarning VersionFormat)"

section \<open>Conflicts and performance\<close>

definition group_catches_all_users :: "rule_group \<Rightarrow> bool" where
  "group_catches_all_users g = (case g of
       RuleGroup op cs gs \<Rightarrow>
         cs = [] \<and> gs = [] \<or>
         (case cs of
            [c] \<Rightarrow> gs = [] \<and> attribute c \<in> {str ''registered_user'', str ''active_user''} \<and>
                   cvalue c = PBool True
          | _ \<Rightarrow> False))"

definition rule_catches_all_users :: "targeting_rule \<Rightarrow> bool" where
  "rule_catches_all_users r = group_catches_all_users (rule r)"

definition check_rule_conflicts :: "targeting_rules \<Rightarrow> validation_issue list" where
  "check_rule_conflicts rs =
     [ruleset_issue SeverityWarning (SamePriority p).
        p \<leftarrow> remdups (sort (map priority (rules rs))),
        count_list (map priority (rules rs)) p > 1] @
     (if default_rule rs \<noteq> None then
        [rule_issue SeverityWarning (rule_id r) DefaultUnreachable.
           r \<leftarrow> rules rs, rollout_percentage r = 100 \<and> rule_catches_all_users r]
      else [])"

fun calculate_group_depth :: "nat \<Rightarrow> rule_group \<Rightarrow> nat" where
  "calculate_group_depth current (RuleGroup op cs gs) =
     fold max (map (calculate_group_depth (Suc current)) gs) current"

definition calculate_max_depth :: "targeting_rules \<Rightarrow> nat" where
  "calculate_max_depth rs = fold max (map (\<lambda>r. calculate_group_depth 0 (rule r)) (every_rule rs)) 0"

definition analyze_performance_impact :: "targeting_rules \<Rightarrow> nat \<Rightarrow> performance_warning list" where
  "analyze_performance_impact rs score =
     (if score > 50 then [ComplexityWarning score] else []) @
     (if length (rules rs) > 20 then [ManyRulesWarning (length (rules rs))] else []) @
     (let d = calculate_max_depth rs in if d > 5 then [DeepNestingWarning d] else [])"

section \<open>The validator\<close>

text \<open>
  Nothing in the body of \<^verbatim>\<open>validate_targeting_rules\<close> raises for rules the model holds, so its handler has
  no branch here.
\<close>

definition validate_targeting_rules ::
  "'z engine_env_scheme \<Rightarrow> pstr \<Rightarrow> targeting_rules \<Rightarrow> validation_result" where
  "validate_targeting_rules E version rs =
     (let checked = map (validate_targeting_rule E) (every_rule rs);
          score = sum_list (map snd checked);
          found = validate_schema_structure E version rs @ concat (map fst checked) @
            check_rule_conflicts rs @
            issue_if (score > MAX_COMPLEXITY_SCORE)
              (ruleset_issue SeverityWarning (HighComplexity score))
      in \<lparr>is_valid = \<not> list_ex (\<lambda>i. severity i = SeverityError) found, issues = found,
          complexity_score = score, performance_warnings = analyze_performance_impact rs score\<rparr>)"

section \<open>Facts\<close>

definition has_error :: "validation_issue list \<Rightarrow> bool" where
  "has_error is = list_ex (\<lambda>i. severity i = SeverityError) is"

lemma has_error_simps [simp]:
  "has_error [] = False" "has_error (i # is) = (severity i = SeverityError \<or> has_error is)"
  "has_error (xs @ ys) = (has_error xs \<or> has_error ys)"
  "has_error (issue_if b i) = (b \<and> severity i = SeverityError)"
  by (simp_all add: has_error_def issue_if_def)

lemma has_error_concat [simp]: "has_error (concat xss) = (\<exists>xs\<in>set xss. has_error xs)"
  by (induction xss) auto

lemma severity_simps [simp]:
  "severity (issue_at sev rid path m) = sev" "severity (rule_issue sev rid m) = sev"
  "severity (ruleset_issue sev m) = sev"
  by (simp_all add: issue_at_def rule_issue_def ruleset_issue_def)

lemma has_error_map_at [simp]: "has_error (map (issue_at SeverityError rid path) ms) = (ms \<noteq> [])"
  by (cases ms) simp_all

lemma performance_no_error [simp]: "\<not> has_error (check_condition_performance c rid path)"
  by (auto simp: check_condition_performance_def Let_def split: pyval.split)

lemma conflicts_no_error [simp]: "\<not> has_error (check_rule_conflicts rs)"
  by (auto simp: check_rule_conflicts_def has_error_def list_ex_iff split: if_splits)

text \<open>A condition that was constructed has an error only for a pattern RE2 refuses.\<close>

definition refused_pattern :: "'z engine_env_scheme \<Rightarrow> condition \<Rightarrow> bool" where
  "refused_pattern E c = (operator c = MATCH_REGEX \<and> compile_error E (cvalue c))"

lemma valid_geo_issues: "validate_geo_value E v = Inr () \<Longrightarrow> geo_issues E v = Inr []"
  by (auto simp: validate_geo_value_def geo_issues_def coordinate_issues_def ebind_def rescue_def
      split: pyval.splits list.splits sum.splits if_splits)

lemma validate_condition_error:
  assumes "valid_condition E c"
  shows "has_error (validate_condition E rid path c) = refused_pattern E c"
proof -
  have attr: "attribute c \<noteq> []" and compat: "validate_operator_value E (operator c) (cvalue c) (additional_value c) = Inr ()"
    using assms by (auto simp: valid_condition_def make_condition_def valid_attribute_name_def exc_rules split: if_splits)
  have geo: "operator c = GEO_DISTANCE \<Longrightarrow> geo_issues E (cvalue c) = Inr []"
    using compat by (intro valid_geo_issues) (simp add: validate_operator_value_def split: if_splits)
  show ?thesis
    using attr compat geo
    by (auto simp: validate_condition_def validate_operator_compatibility_def Let_def refused_pattern_def
        validate_operator_value_def split: if_splits pyval.splits)
qed

lemma validate_conditions_error:
  "list_all (valid_condition E) cs \<Longrightarrow>
     has_error (validate_conditions E rid path i cs) \<longleftrightarrow> (\<exists>c\<in>set cs. refused_pattern E c)"
  by (induction cs arbitrary: i) (simp_all add: validate_condition_error)

lemma fold_max_gt: "(n::nat) < fold max xs a \<longleftrightarrow> n < a \<or> (\<exists>x\<in>set xs. n < x)"
  by (induction xs arbitrary: a) (auto simp: less_max_iff_disj)

fun group_nodes :: "rule_group \<Rightarrow> nat" where
  "group_nodes (RuleGroup op cs gs) = 1 + length cs + sum_list (map group_nodes gs)"

lemma validate_rule_group_score:
  "snd (validate_rule_group E rid path depth g) = group_nodes g"
  "snd (validate_nested_groups E rid path depth i gs) = sum_list (map group_nodes gs)"
proof (induction E rid path depth g and E rid path depth i gs rule: validate_rule_group_validate_nested_groups.induct)
qed (auto simp: case_prod_beta add_found_def)

text \<open>A group has an error where it is nested too deeply or a pattern is refused.\<close>

definition group_faulty :: "'z engine_env_scheme \<Rightarrow> nat \<Rightarrow> rule_group \<Rightarrow> bool" where
  "group_faulty E depth g =
     (MAX_RULE_DEPTH < calculate_group_depth depth g \<or> (\<exists>c\<in>set (all_conditions g). refused_pattern E c))"

lemma group_faulty_step:
  "group_faulty E depth (RuleGroup op cs gs) \<longleftrightarrow>
     MAX_RULE_DEPTH < depth \<or> (\<exists>c\<in>set cs. refused_pattern E c) \<or> (\<exists>g\<in>set gs. group_faulty E (Suc depth) g)"
  by (auto simp: group_faulty_def fold_max_gt)

lemma validate_rule_group_error:
  "valid_group E g \<Longrightarrow> has_error (fst (validate_rule_group E rid path depth g)) = group_faulty E depth g"
  "list_all (valid_group E) gs \<Longrightarrow>
     has_error (fst (validate_nested_groups E rid path depth i gs)) \<longleftrightarrow> (\<exists>g\<in>set gs. group_faulty E depth g)"
proof (induction E rid path depth g and E rid path depth i gs rule: validate_rule_group_validate_nested_groups.induct)
  case (1 E rid path depth op cs gs)
  then have "list_all (valid_condition E) cs" "list_all (valid_group E) gs"
    by (auto simp: valid_group_def list_all_iff)
  with 1 show ?case
    by (simp add: validate_conditions_error group_faulty_step case_prod_beta)
next
  case (3 E rid path depth i g gs)
  then show ?case by (auto simp: case_prod_beta add_found_def)
qed simp

text \<open>What the verdict means for rules that passed the validators of their models.\<close>

definition well_formed :: "'z engine_env_scheme \<Rightarrow> targeting_rules \<Rightarrow> bool" where
  "well_formed E rs =
     (every_rule rs \<noteq> [] \<and> distinct (map rule_id (every_rule rs)) \<and>
      list_all (\<lambda>r. rule_id r \<noteq> [] \<and> \<not> group_faulty E 0 (rule r)) (every_rule rs))"

lemma validate_targeting_rule_error:
  assumes "valid_rule E r"
  shows "has_error (fst (validate_targeting_rule E r)) \<longleftrightarrow> rule_id r = [] \<or> group_faulty E 0 (rule r)"
proof -
  have "valid_group E (rule r)" "0 \<le> rollout_percentage r" "rollout_percentage r \<le> 100"
    using assms by (simp_all add: valid_rule_def)
  then show ?thesis
    by (simp add: validate_targeting_rule_def validate_rule_group_error(1) [symmetric, where rid = "rule_id r" and path = "[]"]
        case_prod_beta)
qed

lemma valid_every_rule: "valid_rules E rs \<Longrightarrow> r \<in> set (every_rule rs) \<Longrightarrow> valid_rule E r"
  by (auto simp: valid_rules_def every_rule_def list_all_iff split: option.splits)

lemma verdict_is_well_formed:
  assumes "valid_rules E rs"
  shows "is_valid (validate_targeting_rules E version rs) \<longleftrightarrow> well_formed E rs"
proof -
  have "is_valid (validate_targeting_rules E version rs) \<longleftrightarrow>
      \<not> has_error (validate_schema_structure E version rs) \<and>
      (\<forall>r\<in>set (every_rule rs). \<not> has_error (fst (validate_targeting_rule E r)))"
    by (auto simp: validate_targeting_rules_def Let_def has_error_def [symmetric])
  then show ?thesis
    using valid_every_rule [OF assms] validate_targeting_rule_error
    by (auto simp: validate_schema_structure_def well_formed_def list_all_iff every_rule_def split: option.splits)
qed

lemma complexity_counts_nodes:
  "complexity_score (validate_targeting_rules E version rs) =
     sum_list (map (\<lambda>r. group_nodes (rule r)) (every_rule rs))"
proof -
  have "snd (validate_targeting_rule E r) = group_nodes (rule r)" for r
    using validate_rule_group_score(1) [of E "rule_id r" "[]" 0 "rule r"]
    by (simp add: validate_targeting_rule_def case_prod_beta)
  then show ?thesis by (simp add: validate_targeting_rules_def Let_def comp_def)
qed

end
