(* ===== verification/Targeting_Write.thy ===== *)
theory Targeting_Write
  imports Rule_Validation Segment_Membership
begin

text \<open>
  The write path of \<^verbatim>\<open>backend/app/core/targeting_adapter.py\<close>: the validators of flag and experiment rules,
  and the checks they share with the validator of segment rules. A refusal is
  \<open>TargetingRulesError path code\<close>; the subject that only its message names is left out. Pydantic's
  reading of the native shape tells, besides the rules, the version they carry and where it refused
  them: \<open>native_reading\<close>.
\<close>

section \<open>Paths and checks\<close>

datatype loc_part = LocIndex nat | LocField pstr

record native_reading =
  rules_version :: "pyval \<Rightarrow> pstr"
  error_loc :: "pyval \<Rightarrow> loc_part list"

definition refuse :: "pstr \<Rightarrow> string \<Rightarrow> 'a res" where
  "refuse path code = Inl (TargetingRulesError path (str code))"

definition ensure :: "bool \<Rightarrow> pstr \<Rightarrow> string \<Rightarrow> unit res" where
  "ensure ok path code = (if ok then Inr () else refuse path code)"

definition followed_by :: "unit res \<Rightarrow> 'a res \<Rightarrow> 'a res" where
  "followed_by m k = ebind m (\<lambda>_. k)"

fun check_each :: "(nat \<Rightarrow> 'a \<Rightarrow> unit res) \<Rightarrow> nat \<Rightarrow> 'a list \<Rightarrow> unit res" where
  "check_each f i [] = Inr ()"
| "check_each f i (x # xs) = followed_by (f i x) (check_each f (Suc i) xs)"

definition only_keys :: "string list \<Rightarrow> (pstr \<times> pyval) list \<Rightarrow> bool" where
  "only_keys keys d = list_all (\<lambda>(k, _). k \<in> set (map str keys)) d"

text \<open>\<^verbatim>\<open>_join\<close>, and \<^verbatim>\<open>f"{path}.name"\<close>\<close>

definition join_path :: "pstr \<Rightarrow> pstr \<Rightarrow> pstr" where
  "join_path base tail =
     (let t = dropWhile (\<lambda>c. c = 46) tail in
      if base \<noteq> [] \<and> t \<noteq> [] then base @ [46] @ t else if base \<noteq> [] then base else t)"

definition field_path :: "pstr \<Rightarrow> string \<Rightarrow> pstr" where
  "field_path path name = path @ [46] @ str name"

datatype targeting_kind = ExperimentRules | FlagRules

definition MAX_LIST_ITEMS :: nat where "MAX_LIST_ITEMS = 1000"
definition MAX_RULE_ID_LENGTH :: nat where "MAX_RULE_ID_LENGTH = 100"
definition MAX_NATIVE_GROUP_DEPTH :: nat where "MAX_NATIVE_GROUP_DEPTH = 10"
definition MAX_NATIVE_NODES :: nat where "MAX_NATIVE_NODES = 1000"
definition MAX_REFERENCED_SEGMENTS :: nat where "MAX_REFERENCED_SEGMENTS = 10"

definition DASHBOARD_TOP_KEYS :: "string list" where
  "DASHBOARD_TOP_KEYS = [''logical_operator'', ''groups'', ''rollout_percentage'', ''id'']"
definition DASHBOARD_GROUP_KEYS :: "string list" where
  "DASHBOARD_GROUP_KEYS = [''id'', ''logical_operator'', ''conditions'']"
definition DASHBOARD_CONDITION_KEYS :: "string list" where
  "DASHBOARD_CONDITION_KEYS = [''id'', ''attribute'', ''operator'', ''value'']"
definition NATIVE_TOP_KEYS :: "string list" where
  "NATIVE_TOP_KEYS = [''version'', ''rules'', ''default_rule'']"
definition NATIVE_RULE_KEYS :: "string list" where
  "NATIVE_RULE_KEYS = [''id'', ''name'', ''description'', ''rule'', ''rollout_percentage'', ''priority'']"
definition NATIVE_GROUP_KEYS :: "string list" where
  "NATIVE_GROUP_KEYS = [''operator'', ''conditions'', ''groups'']"
definition NATIVE_CONDITION_KEYS :: "string list" where
  "NATIVE_CONDITION_KEYS =
     [''attribute'', ''operator'', ''value'', ''additional_value'', ''attribute_type'', ''validation_schema'']"

definition check_logical_operator :: "(pstr \<times> pyval) list \<Rightarrow> pstr \<Rightarrow> unit res" where
  "check_logical_operator container path =
     ensure (case dget container ''logical_operator'' of
         PNone \<Rightarrow> True
       | PStr s \<Rightarrow> lower (strip s) \<in> {str ''and'', str ''or'', str ''not''}
       | _ \<Rightarrow> False) path ''must be and, or or not''"

definition check_flag_percentage :: "pyval \<Rightarrow> pstr \<Rightarrow> unit res" where
  "check_flag_percentage v path =
     ensure (case v of
         PInt n \<Rightarrow> 0 \<le> n \<and> n \<le> 100
       | PFloat x \<Rightarrow> is_integer_float x \<and> fle (Fin 0) x \<and> fle x (Fin 100)
       | _ \<Rightarrow> False) path ''must be an integer from 0 to 100''"

section \<open>The dashboard shape\<close>

definition is_dashboard_operator :: "pstr \<Rightarrow> bool" where
  "is_dashboard_operator name =
     (table_lookup SIMPLE_OPERATOR_MAP name \<noteq> None \<or> table_lookup SEMVER_OPERATOR_MAP name \<noteq> None \<or>
      table_lookup SEGMENT_OPERATOR_MAP name \<noteq> None)"

definition nonblank_text :: "pyval \<Rightarrow> bool" where
  "nonblank_text v = (case v of PStr s \<Rightarrow> strip s \<noteq> [] | _ \<Rightarrow> False)"

definition check_dashboard_condition :: "pstr \<Rightarrow> pyval \<Rightarrow> unit res" where
  "check_dashboard_condition path v = (case v of
       PDict c \<Rightarrow>
         followed_by (ensure (only_keys DASHBOARD_CONDITION_KEYS c) path ''unknown key'')
           (followed_by (ensure (nonblank_text (dget c ''attribute''))
               (field_path path ''attribute'') ''attribute is required'')
             (ensure (case dget c ''operator'' of PStr s \<Rightarrow> is_dashboard_operator (strip s) | _ \<Rightarrow> False)
               (field_path path ''operator'') ''unknown operator''))
     | _ \<Rightarrow> refuse path ''must be an object'')"

definition check_dashboard_group :: "nat \<Rightarrow> pyval \<Rightarrow> unit res" where
  "check_dashboard_group gi v =
     (let path = indexed_path [] ''groups'' gi in
      case v of
        PDict g \<Rightarrow>
          followed_by (ensure (only_keys DASHBOARD_GROUP_KEYS g) path ''unknown key'')
            (followed_by (check_logical_operator g (field_path path ''logical_operator''))
              (case dget g ''conditions'' of
                 PList (c # cs) \<Rightarrow>
                   check_each (\<lambda>ci. check_dashboard_condition (indexed_path path ''conditions'' ci)) 0 (c # cs)
               | _ \<Rightarrow> refuse (field_path path ''conditions'') ''at least one condition is required''))
      | _ \<Rightarrow> refuse path ''must be an object'')"

definition group_condition_list :: "pyval \<Rightarrow> pyval list" where
  "group_condition_list v =
     (case v of PDict g \<Rightarrow> (case dget g ''conditions'' of PList cs \<Rightarrow> cs | _ \<Rightarrow> []) | _ \<Rightarrow> [])"

definition check_dashboard_flag_size :: "pyval list \<Rightarrow> unit res" where
  "check_dashboard_flag_size groups =
     ensure (length groups + sum_list (map (\<lambda>g. length (group_condition_list g)) groups) \<le> MAX_NATIVE_NODES)
       [] ''at most 1000 groups and conditions are allowed''"

text \<open>
  The condition the converter refused, for the path. The model of a condition reports its attribute
  first; its validators of values run only on a valid one.
\<close>

definition valid_dashboard_attribute :: "'z pyenv_scheme \<Rightarrow> pyval \<Rightarrow> bool" where
  "valid_dashboard_attribute E v = (case v of
       PDict c \<Rightarrow> valid_attribute_name E (strip (py_str E (or_default (dget c ''attribute'') (PStr []))))
     | _ \<Rightarrow> False)"

definition locate_refused_condition ::
  "'z adapter_env_scheme \<Rightarrow> pstr \<Rightarrow> nat \<Rightarrow> pyval \<Rightarrow> unit res" where
  "locate_refused_condition E gpath ci v =
     (let path = indexed_path gpath ''conditions'' ci in
      case convert_dashboard_condition E v of
        Inr _ \<Rightarrow> Inr ()
      | Inl e \<Rightarrow>
          if e = ValidationError \<and> \<not> valid_dashboard_attribute E v then
            refuse (field_path path ''attribute'')
              ''attribute may contain only letters, digits, underscores and dots''
          else if e \<in> {ValidationError, TargetingRuleShapeError, PyTypeError, PyValueError, JSONDecodeError, PyUnicodeError} then
            refuse (field_path path ''value'') ''value is not valid for the operator''
          else Inl e)"

definition locate_refused_group :: "'z adapter_env_scheme \<Rightarrow> nat \<Rightarrow> pyval \<Rightarrow> unit res" where
  "locate_refused_group E gi v =
     check_each (locate_refused_condition E (indexed_path [] ''groups'' gi)) 0 (group_condition_list v)"

definition check_dashboard_percentage :: "targeting_kind \<Rightarrow> (pstr \<times> pyval) list \<Rightarrow> unit res" where
  "check_dashboard_percentage kind raw =
     (case map_of raw (str ''rollout_percentage'') of
        None \<Rightarrow> Inr ()
      | Some v \<Rightarrow>
          if kind = FlagRules then check_flag_percentage v (str ''rollout_percentage'')
          else ensure (case v of
              PInt n \<Rightarrow> 0 \<le> n \<and> n \<le> 100
            | PFloat x \<Rightarrow> fle (Fin 0) x \<and> fle x (Fin 100)
            | _ \<Rightarrow> False) (str ''rollout_percentage'') ''must be a number from 0 to 100'')"

definition check_dashboard_id :: "(pstr \<times> pyval) list \<Rightarrow> unit res" where
  "check_dashboard_id raw =
     (case map_of raw (str ''id'') of
        None \<Rightarrow> Inr ()
      | Some v \<Rightarrow>
          ensure (nonblank_text v \<and> (case v of PStr s \<Rightarrow> length s \<le> MAX_RULE_ID_LENGTH | _ \<Rightarrow> False))
            (str ''id'') ''must be text of 1 to 100 characters'')"

definition validated_dashboard ::
  "'z adapter_env_scheme \<Rightarrow> targeting_kind \<Rightarrow> (pstr \<times> pyval) list \<Rightarrow> targeting_rules res" where
  "validated_dashboard E kind raw =
     followed_by (ensure (\<not> has_key raw ''name'') (str ''name'')
         (if kind = FlagRules then ''not supported'' else ''not supported for experiment rules''))
     (followed_by (ensure (only_keys DASHBOARD_TOP_KEYS raw) [] ''unknown key'')
     (followed_by (ensure (has_key raw ''groups'') (str ''logical_operator'') ''given without groups'')
     (followed_by (check_logical_operator raw (str ''logical_operator''))
     (followed_by (check_dashboard_percentage kind raw)
     (followed_by (check_dashboard_id raw)
       (case dget raw ''groups'' of
          PList groups \<Rightarrow>
            followed_by (if kind = FlagRules then check_dashboard_flag_size groups else Inr ())
            (followed_by (check_each check_dashboard_group 0 groups)
              (rescue [TargetingRuleShapeError, ValidationError, PyTypeError, PyValueError, JSONDecodeError, PyUnicodeError]
                (followed_by (check_each (locate_refused_group E) 0 groups)
                  (refuse [] ''rules could not be converted''))
                (from_dashboard E raw)))
        | _ \<Rightarrow> refuse (str ''groups'') ''must be a list''))))))"

section \<open>The native shape\<close>

definition within_limit :: "nat \<Rightarrow> nat \<Rightarrow> nat res" where
  "within_limit count extra =
     (if count + extra > MAX_NATIVE_NODES
      then refuse [] ''at most 1000 rules, groups and conditions are allowed'' else Inr (count + extra))"

definition check_native_conditions :: "pstr \<Rightarrow> pyval \<Rightarrow> nat \<Rightarrow> nat res" where
  "check_native_conditions gpath v count = (case v of
       PList cs \<Rightarrow>
         ebind (within_limit count (length cs)) (\<lambda>n.
           followed_by (check_each (\<lambda>ci c. ensure (case c of PDict d \<Rightarrow> only_keys NATIVE_CONDITION_KEYS d | _ \<Rightarrow> True)
               (indexed_path gpath ''conditions'' ci) ''unknown key'') 0 cs) (Inr n))
     | _ \<Rightarrow> Inr count)"

fun nested_entries :: "pstr \<Rightarrow> nat \<Rightarrow> nat \<Rightarrow> pyval list \<Rightarrow> (pstr \<times> pyval \<times> nat) list" where
  "nested_entries gpath depth i [] = []"
| "nested_entries gpath depth i (v # vs) =
     (indexed_path gpath ''groups'' i, v, depth) # nested_entries gpath depth (Suc i) vs"

definition stack_size :: "(pstr \<times> pyval \<times> nat) list \<Rightarrow> nat" where
  "stack_size stack = sum_list (map (\<lambda>(_, v, _). Suc (size v)) stack)"

lemma stack_size_simps [simp]:
  "stack_size [] = 0" "stack_size ((p, v, d) # st) = Suc (size v) + stack_size st"
  "stack_size (st @ st') = stack_size st + stack_size st'"
  by (simp_all add: stack_size_def)

lemma stack_size_nested [simp]: "stack_size (nested_entries gpath depth i vs) = size_list size vs"
  by (induction vs arbitrary: i) simp_all

lemma dget_list_size: "dget g k = PList vs \<Longrightarrow> size_list size vs < size_list (size_prod (\<lambda>_. 0) size) g"
proof -
  assume "dget g k = PList vs"
  then have "(str k, PList vs) \<in> set g"
    by (cases "map_of g (str k)") (auto simp: dget_def dest: map_of_SomeD)
  from item_size [OF this] show ?thesis by simp
qed

text \<open>The walk over the groups of a rule, with its explicit stack.\<close>

function walk_native_groups :: "(pstr \<times> pyval \<times> nat) list \<Rightarrow> nat \<Rightarrow> nat res" where
  "walk_native_groups [] count = Inr count"
| "walk_native_groups ((gpath, grp, depth) # stack) count =
     (case grp of
        PDict g \<Rightarrow>
          if \<not> only_keys NATIVE_GROUP_KEYS g then refuse gpath ''unknown key''
          else ebind (check_native_conditions gpath (dget g ''conditions'') count) (\<lambda>count.
            case dget g ''groups'' of
              PList nested \<Rightarrow>
                if nested = [] then walk_native_groups stack count
                else if depth \<ge> MAX_NATIVE_GROUP_DEPTH then refuse (field_path gpath ''groups'') ''nested too deeply''
                else ebind (within_limit count (length nested)) (\<lambda>count.
                  walk_native_groups (nested_entries gpath (Suc depth) 0 nested @ stack) count)
            | _ \<Rightarrow> walk_native_groups stack count)
      | _ \<Rightarrow> walk_native_groups stack count)"
  by pat_completeness auto
termination
  by (relation "measure (\<lambda>(stack, _). stack_size stack)") (auto dest: dget_list_size)

definition check_native_rule :: "pstr \<Rightarrow> pyval \<Rightarrow> nat \<Rightarrow> nat res" where
  "check_native_rule path v count = (case v of
       PDict r \<Rightarrow>
         followed_by (ensure (only_keys NATIVE_RULE_KEYS r) path ''unknown key'')
         (followed_by (if has_key r ''rollout_percentage''
             then check_flag_percentage (dget r ''rollout_percentage'') (field_path path ''rollout_percentage'')
             else Inr ())
         (ebind (within_limit count 1) (walk_native_groups [(field_path path ''rule'', dget r ''rule'', 0)])))
     | _ \<Rightarrow> Inr count)"

fun check_native_rules :: "nat \<Rightarrow> pyval list \<Rightarrow> nat \<Rightarrow> nat res" where
  "check_native_rules i [] count = Inr count"
| "check_native_rules i (v # vs) count =
     ebind (check_native_rule (indexed_path [] ''rules'' i) v count) (check_native_rules (Suc i) vs)"

definition check_native_flag_rules :: "(pstr \<times> pyval) list \<Rightarrow> unit res" where
  "check_native_flag_rules raw =
     (let listed = (case dget raw ''rules'' of PList vs \<Rightarrow> vs | _ \<Rightarrow> []);
          lone = has_key raw ''default_rule'' in
      ebind (within_limit 0 (length listed + (if lone then 1 else 0))) (\<lambda>count.
      ebind (check_native_rules 0 listed count) (\<lambda>count.
      ebind (if lone then check_native_rule (str ''default_rule'') (dget raw ''default_rule'') count
             else Inr count) (\<lambda>_. Inr ()))))"

definition NATIVE_PATH_WORDS :: "string list" where
  "NATIVE_PATH_WORDS = NATIVE_TOP_KEYS @ NATIVE_RULE_KEYS @ NATIVE_GROUP_KEYS @ NATIVE_CONDITION_KEYS"

definition loc_text :: "loc_part \<Rightarrow> pstr" where
  "loc_text part = (case part of
       LocIndex i \<Rightarrow> [91] @ dec_of_int (int i) @ [93] | LocField name \<Rightarrow> [46] @ name)"

definition native_path :: "loc_part list \<Rightarrow> pstr" where
  "native_path loc =
     (if list_ex (\<lambda>part. case part of LocIndex _ \<Rightarrow> False | LocField name \<Rightarrow> name \<notin> set (map str NATIVE_PATH_WORDS)) loc
      then [] else dropWhile (\<lambda>c. c = 46) (concat (map loc_text loc)))"

definition validated_native ::
  "'z adapter_env_scheme \<Rightarrow> native_reading \<Rightarrow> targeting_kind \<Rightarrow> (pstr \<times> pyval) list \<Rightarrow> targeting_rules res" where
  "validated_native E N kind raw =
     followed_by (ensure (\<not> has_key raw ''groups'') (str ''groups'') ''cannot be combined with rules'')
     (followed_by (ensure (only_keys NATIVE_TOP_KEYS raw) [] ''unknown key'')
     (followed_by (ensure (has_key raw ''rules'' \<or> kind \<noteq> FlagRules \<and> has_key raw ''default_rule'')
         (str ''rules'') ''required'')
     (followed_by (if kind = FlagRules then check_native_flag_rules raw else Inr ())
       (rescue [ValidationError] (refuse (native_path (error_loc N (PDict raw))) ''not valid'')
         (model_validate E (PDict raw))))))"

section \<open>Checks on the rules read\<close>

text \<open>Every condition with its path, a group's own before those of its nested groups.\<close>

fun located_here :: "pstr \<Rightarrow> nat \<Rightarrow> condition list \<Rightarrow> (pstr \<times> condition) list" where
  "located_here path i [] = []"
| "located_here path i (c # cs) =
     (join_path path (indexed_path [] ''conditions'' i), c) # located_here path (Suc i) cs"

fun located_conditions :: "pstr \<Rightarrow> rule_group \<Rightarrow> (pstr \<times> condition) list"
  and located_nested :: "pstr \<Rightarrow> nat \<Rightarrow> rule_group list \<Rightarrow> (pstr \<times> condition) list" where
  "located_conditions path (RuleGroup op cs gs) = located_here path 0 cs @ located_nested path 0 gs"
| "located_nested path i [] = []"
| "located_nested path i (g # gs) =
     located_conditions (join_path path (indexed_path [] ''groups'' i)) g @ located_nested path (Suc i) gs"

fun located_rules :: "bool \<Rightarrow> nat \<Rightarrow> targeting_rule list \<Rightarrow> (pstr \<times> condition) list" where
  "located_rules dashboard i [] = []"
| "located_rules dashboard i (r # rs) =
     located_conditions (if dashboard then [] else field_path (indexed_path [] ''rules'' i) ''rule'') (rule r) @
     located_rules dashboard (Suc i) rs"

definition located :: "bool \<Rightarrow> targeting_rules \<Rightarrow> (pstr \<times> condition) list" where
  "located dashboard rs = located_rules dashboard 0 (rules rs) @
     (case default_rule rs of None \<Rightarrow> []
      | Some r \<Rightarrow> located_conditions (str ''default_rule.rule'') (rule r))"

definition check_list_sizes :: "bool \<Rightarrow> targeting_rules \<Rightarrow> unit res" where
  "check_list_sizes dashboard rs =
     check_each (\<lambda>_ (path, c).
       ensure (\<not> (operator c \<in> {IN, NOT_IN, CONTAINS_ALL, CONTAINS_ANY} \<and>
           (case cvalue c of PList xs \<Rightarrow> length xs > MAX_LIST_ITEMS | _ \<Rightarrow> False)))
         (join_path path (str ''value'')) ''at most 1000 values are allowed'')
       0 (located dashboard rs)"

definition located_segments :: "bool \<Rightarrow> targeting_rules \<Rightarrow> (pstr \<times> condition) list" where
  "located_segments dashboard rs = filter (\<lambda>(_, c). is_segment_operator (operator c)) (located dashboard rs)"

definition check_segment_condition :: "pstr \<Rightarrow> condition \<Rightarrow> unit res" where
  "check_segment_condition path c =
     followed_by (ensure (\<not> is_prefix (str ''default_rule'') path) (join_path path (str ''operator''))
       ''a segment condition is not evaluated in default_rule'')
     (followed_by (ensure (attribute c = str ''segment'') (join_path path (str ''attribute''))
       (''must be '' @ [CHR 0x22] @ ''segment'' @ [CHR 0x22] @ '' for this operator''))
     (ensure (is_segment_id (cvalue c)) (join_path path (str ''value'')) ''must be a segment id''))"

definition check_segment_conditions :: "bool \<Rightarrow> targeting_rules \<Rightarrow> unit res" where
  "check_segment_conditions dashboard rs =
     followed_by (check_each (\<lambda>_ (path, c). check_segment_condition path c) 0 (located_segments dashboard rs))
       (ensure (length (remdups (map (\<lambda>(_, c). cvalue c) (located_segments dashboard rs))) \<le> MAX_REFERENCED_SEGMENTS)
         [] ''at most 10 segments may be referenced'')"

text \<open>\<^verbatim>\<open>_rule_base\<close>: the first rule with the issue's rule id.\<close>

fun rule_base_from :: "nat \<Rightarrow> targeting_rule list \<Rightarrow> pstr \<Rightarrow> pstr option" where
  "rule_base_from i [] rid = None"
| "rule_base_from i (r # rs) rid =
     (if rule_id r = rid then Some (field_path (indexed_path [] ''rules'' i) ''rule'')
      else rule_base_from (Suc i) rs rid)"

definition rule_base :: "bool \<Rightarrow> targeting_rules \<Rightarrow> pstr option \<Rightarrow> pstr" where
  "rule_base dashboard rs rid_opt =
     (if dashboard then []
      else (case rid_opt of
          None \<Rightarrow> []
        | Some rid \<Rightarrow>
            (case rule_base_from 0 (rules rs) rid of
               Some path \<Rightarrow> path
             | None \<Rightarrow>
                 (case default_rule rs of
                    Some r \<Rightarrow> if rule_id r = rid then str ''default_rule.rule'' else []
                  | None \<Rightarrow> []))))"

fun rule_validator_code :: "issue_message \<Rightarrow> string" where
  "rule_validator_code InvalidRegex = ''pattern is not valid''"
| "rule_validator_code InvalidSemver = ''version is not valid''"
| "rule_validator_code GeoShape = ''location is not valid''"
| "rule_validator_code LatitudeRange = ''latitude is out of range''"
| "rule_validator_code LongitudeRange = ''longitude is out of range''"
| "rule_validator_code CoordinatesNotNumeric = ''location is not valid''"
| "rule_validator_code AttributeRequired = ''attribute is required''"
| "rule_validator_code NestedTooDeep = ''rules are nested too deeply''"
| "rule_validator_code DuplicateRuleIds = ''rule ids must be unique''"
| "rule_validator_code RuleIdRequired = ''rule id is required''"
| "rule_validator_code RolloutInvalid = ''rollout percentage must be 0 to 100''"
| "rule_validator_code _ = ''not valid''"

definition check_rule_validator ::
  "'z adapter_env_scheme \<Rightarrow> pstr \<Rightarrow> bool \<Rightarrow> targeting_rules \<Rightarrow> unit res" where
  "check_rule_validator E version dashboard rs =
     (case find (\<lambda>i. severity i = SeverityError) (issues (validate_targeting_rules E version rs)) of
        None \<Rightarrow> Inr ()
      | Some i \<Rightarrow>
          refuse (join_path (rule_base dashboard rs (issue_rule i))
              (case condition_path i of None \<Rightarrow> [] | Some p \<Rightarrow> p))
            (rule_validator_code (message i)))"

text \<open>The version of rules the converter makes is the model's default.\<close>

definition DEFAULT_VERSION :: pstr where "DEFAULT_VERSION = str ''1.0''"

definition validate_targeting ::
  "'z adapter_env_scheme \<Rightarrow> native_reading \<Rightarrow> targeting_kind \<Rightarrow> pyval \<Rightarrow> targeting_rules option res" where
  "validate_targeting E N kind v = (case v of
       PNone \<Rightarrow> Inr None
     | PList _ \<Rightarrow> refuse [] (if kind = FlagRules
         then ''a list of rules is not supported; use the groups shape''
         else ''a list of rules is not supported for experiments'')
     | PDict raw \<Rightarrow>
         if raw = [] then Inr None
         else (let dashboard = is_dashboard_rules_shape raw;
                   version = (if dashboard then DEFAULT_VERSION else rules_version N v) in
           ebind (if dashboard then validated_dashboard E kind raw else validated_native E N kind raw) (\<lambda>rs.
             if rules rs = [] \<and> default_rule rs = None then Inr None
             else followed_by (check_list_sizes dashboard rs)
               (followed_by (check_segment_conditions dashboard rs)
               (followed_by (check_rule_validator E version dashboard rs) (Inr (Some rs))))))
     | _ \<Rightarrow> refuse [] ''must be an object'')"

definition validate_flag_targeting ::
  "'z adapter_env_scheme \<Rightarrow> native_reading \<Rightarrow> pyval \<Rightarrow> targeting_rules option res" where
  "validate_flag_targeting E N = validate_targeting E N FlagRules"

definition validate_experiment_targeting ::
  "'z adapter_env_scheme \<Rightarrow> native_reading \<Rightarrow> pyval \<Rightarrow> targeting_rules option res" where
  "validate_experiment_targeting E N = validate_targeting E N ExperimentRules"

end
