(* ===== verification/Segment_Rules.thy ===== *)
theory Segment_Rules
  imports Targeting_Write
begin

text \<open>
  Rules of a segment: the counts and limits of \<^verbatim>\<open>backend/app/core/segment_preview_limits.py\<close>, the validator
  \<^verbatim>\<open>validate_segment_rules\<close>, the reference check and the search for references of
  \<^verbatim>\<open>services/segment_membership.py\<close>.
\<close>

section \<open>Counting a submitted ruleset\<close>

record ruleset_counts =
  cnt_conditions :: nat
  cnt_groups :: nat
  cnt_regex :: nat
  cnt_elements :: nat

function count_list_elements :: "pyval \<Rightarrow> nat" where
  "count_list_elements v = (case v of
       PList xs \<Rightarrow> length xs + sum_list (map count_list_elements xs)
     | PDict d \<Rightarrow> sum_list (map (\<lambda>(k, w). count_list_elements w) d)
     | _ \<Rightarrow> 0)"
  by pat_completeness auto
termination
  by (relation "measure size") (auto dest: elem_size item_size)

declare count_list_elements.simps [simp del]

definition is_regex_operator :: "pyval \<Rightarrow> bool" where
  "is_regex_operator v =
     (case v of PStr s \<Rightarrow> lower (strip s) \<in> {str ''match_regex'', str ''regex''} | _ \<Rightarrow> False)"

definition count_condition :: "ruleset_counts \<Rightarrow> pyval \<Rightarrow> ruleset_counts" where
  "count_condition n v = (case v of
       PDict c \<Rightarrow> n\<lparr>cnt_conditions := Suc (cnt_conditions n),
         cnt_regex := cnt_regex n + (if is_regex_operator (dget c ''operator'') then 1 else 0),
         cnt_elements := cnt_elements n + count_list_elements (dget c ''value'') +
           count_list_elements (dget c ''additional_value'')\<rparr>
     | _ \<Rightarrow> n\<lparr>cnt_conditions := Suc (cnt_conditions n)\<rparr>)"

text \<open>The walk over the groups; the order of the stack does not matter to the counts.\<close>

function count_groups :: "pyval list \<Rightarrow> ruleset_counts \<Rightarrow> ruleset_counts" where
  "count_groups [] n = n"
| "count_groups (grp # stack) n =
     (case grp of
        PDict g \<Rightarrow>
          (let n' = (case dget g ''conditions'' of PList cs \<Rightarrow> foldl count_condition n cs | _ \<Rightarrow> n) in
           case dget g ''groups'' of
             PList nested \<Rightarrow> count_groups (nested @ stack) (n'\<lparr>cnt_groups := cnt_groups n' + length nested\<rparr>)
           | _ \<Rightarrow> count_groups stack n')
      | _ \<Rightarrow> count_groups stack n)"
  by pat_completeness auto
termination
  by (relation "measure (\<lambda>(stack, _). size_list size stack)")
    (auto dest: dget_list_size simp: size_list_append)

definition count_ruleset :: "pyval \<Rightarrow> ruleset_counts" where
  "count_ruleset v =
     count_groups [v] \<lparr>cnt_conditions = 0, cnt_groups = 0, cnt_regex = 0, cnt_elements = 0\<rparr>"

section \<open>The limits of a preview\<close>

definition MAX_PREVIEW_CONDITIONS :: nat where "MAX_PREVIEW_CONDITIONS = 50"
definition MAX_PREVIEW_GROUPS :: nat where "MAX_PREVIEW_GROUPS = 20"
definition MAX_PREVIEW_REGEX_CONDITIONS :: nat where "MAX_PREVIEW_REGEX_CONDITIONS = 10"
definition MAX_PREVIEW_LIST_ELEMENTS :: nat where "MAX_PREVIEW_LIST_ELEMENTS = 1000"
definition MAX_PREVIEW_REGEX_EVALUATIONS :: int where "MAX_PREVIEW_REGEX_EVALUATIONS = 500"
definition MAX_PREVIEW_NODE_EVALUATIONS :: int where "MAX_PREVIEW_NODE_EVALUATIONS = 50000"

text \<open>A violation with the counted value, and the largest sample that would pass (for d and e).\<close>

datatype preview_violation =
    TooManyPreviewConditions nat
  | TooManyPreviewGroups nat
  | TooManyPreviewRegex nat
  | TooManyPreviewElements nat
  | TooManyRegexEvaluations int int
  | TooManyNodeEvaluations int int

definition preview_ruleset_violations :: "pyval \<Rightarrow> int \<Rightarrow> preview_violation list" where
  "preview_ruleset_violations v sample_size =
     (let n = count_ruleset v;
          regex_evaluations = int (cnt_regex n) * sample_size;
          nodes = cnt_conditions n + cnt_groups n;
          node_evaluations = int nodes * sample_size in
      (if cnt_conditions n > MAX_PREVIEW_CONDITIONS then [TooManyPreviewConditions (cnt_conditions n)] else []) @
      (if cnt_groups n > MAX_PREVIEW_GROUPS then [TooManyPreviewGroups (cnt_groups n)] else []) @
      (if cnt_regex n > MAX_PREVIEW_REGEX_CONDITIONS then [TooManyPreviewRegex (cnt_regex n)] else []) @
      (if cnt_elements n > MAX_PREVIEW_LIST_ELEMENTS then [TooManyPreviewElements (cnt_elements n)] else []) @
      (if regex_evaluations > MAX_PREVIEW_REGEX_EVALUATIONS
       then [TooManyRegexEvaluations regex_evaluations (MAX_PREVIEW_REGEX_EVALUATIONS div int (cnt_regex n))] else []) @
      (if node_evaluations > MAX_PREVIEW_NODE_EVALUATIONS
       then [TooManyNodeEvaluations node_evaluations (MAX_PREVIEW_NODE_EVALUATIONS div int nodes)] else []))"

section \<open>The validator\<close>

definition MAX_SEGMENT_GROUPS :: nat where "MAX_SEGMENT_GROUPS = 20"
definition MAX_SEGMENT_CONDITIONS :: nat where "MAX_SEGMENT_CONDITIONS = 50"
definition MAX_SEGMENT_REGEX_CONDITIONS :: nat where "MAX_SEGMENT_REGEX_CONDITIONS = 10"
definition MAX_SEGMENT_LIST_ELEMENTS :: nat where "MAX_SEGMENT_LIST_ELEMENTS = 1000"

definition SEGMENT_LIST_LIMIT :: string where
  "SEGMENT_LIST_LIMIT = ''at most 1000 list values are allowed in total''"

definition converted_list_elements :: "targeting_rules \<Rightarrow> nat" where
  "converted_list_elements rs =
     sum_list (map (\<lambda>c. case cvalue c of PList xs \<Rightarrow> length xs | _ \<Rightarrow> 0)
       (concat (map (\<lambda>r. all_conditions (rule r)) (rules rs))))"

definition check_segment_counts :: "ruleset_counts \<Rightarrow> unit res" where
  "check_segment_counts n =
     followed_by (ensure (cnt_groups n \<le> MAX_SEGMENT_GROUPS) (str ''groups'') ''at most 20 groups are allowed'')
     (followed_by (ensure (cnt_conditions n \<le> MAX_SEGMENT_CONDITIONS) [] ''at most 50 conditions are allowed'')
     (followed_by (ensure (cnt_regex n \<le> MAX_SEGMENT_REGEX_CONDITIONS) []
         ''at most 10 regex conditions are allowed'')
     (ensure (cnt_elements n \<le> MAX_SEGMENT_LIST_ELEMENTS) [] SEGMENT_LIST_LIMIT)))"

definition check_no_segment_condition :: "targeting_rules \<Rightarrow> unit res" where
  "check_no_segment_condition rs =
     (case located_segments True rs of
        [] \<Rightarrow> Inr ()
      | (path, _) # _ \<Rightarrow> refuse (join_path path (str ''operator'')) ''a segment cannot refer to a segment'')"

definition validate_segment_rules :: "'z adapter_env_scheme \<Rightarrow> pyval \<Rightarrow> targeting_rules res" where
  "validate_segment_rules E v = (case v of
       PDict raw \<Rightarrow>
         followed_by (ensure (only_keys [''logical_operator'', ''groups''] raw) [] ''unknown key'')
         (case dget raw ''groups'' of
            PNone \<Rightarrow> refuse (str ''groups'') ''at least one group is required''
          | PList groups \<Rightarrow>
              followed_by (ensure (groups \<noteq> []) (str ''groups'') ''at least one group is required'')
              (followed_by (check_segment_counts (count_ruleset v))
              (ebind (validated_dashboard E FlagRules raw) (\<lambda>rs.
                followed_by (check_no_segment_condition rs)
                (followed_by (ensure (converted_list_elements rs \<le> MAX_SEGMENT_LIST_ELEMENTS) [] SEGMENT_LIST_LIMIT)
                (followed_by (check_list_sizes True rs)
                (followed_by (check_rule_validator E DEFAULT_VERSION True rs) (Inr rs)))))))
          | _ \<Rightarrow> refuse (str ''groups'') ''must be a list'')
     | _ \<Rightarrow> refuse [] ''must be an object'')"

section \<open>References\<close>

text \<open>
  \<^verbatim>\<open>segment_reference_problem\<close>: the path of the first condition whose segment cannot be used, and why.
  An exception other than a refusal of the segment's rules is raised.
\<close>

datatype reference_problem = SegmentNotActive pstr | SegmentRulesNotValid pstr

definition reference_of ::
  "'z adapter_env_scheme \<Rightarrow> segment_db \<Rightarrow> pstr \<Rightarrow> condition \<Rightarrow> reference_problem option res" where
  "reference_of E db path c =
     (if is_list (cvalue c) \<or> is_dict (cvalue c) then Inl PyTypeError
      else case find (\<lambda>row. cvalue c = PStr (segment_id row)) (segment_rows db) of
        None \<Rightarrow> Inr (Some (SegmentNotActive (field_path path ''value'')))
      | Some row \<Rightarrow>
          if \<not> is_segment_id (cvalue c) \<or> segment_state row \<noteq> SegmentActive
          then Inr (Some (SegmentNotActive (field_path path ''value'')))
          else if segment_kind row = ID_LIST then Inr None
          else (case validate_segment_rules E (segment_rules row) of
              Inl (TargetingRulesError _ _) \<Rightarrow> Inr (Some (SegmentRulesNotValid (field_path path ''value'')))
            | Inl e \<Rightarrow> Inl e
            | Inr _ \<Rightarrow> Inr None))"

fun first_problem ::
  "'z adapter_env_scheme \<Rightarrow> segment_db \<Rightarrow> (pstr \<times> condition) list \<Rightarrow> reference_problem option res" where
  "first_problem E db [] = Inr None"
| "first_problem E db ((path, c) # cs) =
     ebind (reference_of E db path c) (\<lambda>found.
       case found of Some p \<Rightarrow> Inr (Some p) | None \<Rightarrow> first_problem E db cs)"

definition segment_reference_problem ::
  "'z adapter_env_scheme \<Rightarrow> segment_db \<Rightarrow> pyval \<Rightarrow> reference_problem option res" where
  "segment_reference_problem E db v = (case v of
       PDict raw \<Rightarrow>
         if raw = [] then Inr None
         else ebind (normalise_targeting_rules E v) (\<lambda>found.
           case found of
             None \<Rightarrow> Inr None
           | Some rs \<Rightarrow> first_problem E db (located_segments (is_dashboard_rules_shape raw) rs))
     | _ \<Rightarrow> Inr None)"

text \<open>\<^verbatim>\<open>_references\<close>: rules that cannot be read count as a reference.\<close>

definition references_segment :: "'z adapter_env_scheme \<Rightarrow> pyval \<Rightarrow> pstr \<Rightarrow> bool" where
  "references_segment E v sid =
     rescue_all True (ebind (normalise_targeting_rules E v) (\<lambda>found.
       Inr (case found of None \<Rightarrow> True | Some rs \<Rightarrow> sid \<in> set (map lower (segment_ids_in rs)))))"

end
