(* ===== verification/Targeting_Accepted.thy ===== *)
theory Targeting_Accepted
  imports Segment_Rules Assignment Sdk_Facts
begin

text \<open>
  What the write path promises the readers: an accepted ruleset is the one the evaluators read, is well
  formed, and is small enough for the SDK; accepted segment rules refer to no segment and can be
  previewed; and what the validators raise.
\<close>

section \<open>Checks that passed\<close>

lemma refused_not_Inr [simp]: "refuse path code \<noteq> Inr x" "Inr x \<noteq> refuse path code"
  by (simp_all add: refuse_def)

lemma followed_by_Inr [simp]: "followed_by m k = Inr x \<longleftrightarrow> m = Inr () \<and> k = Inr x"
  by (cases m) (simp_all add: followed_by_def)

lemma ensure_Inr [simp]: "ensure ok path code = Inr x \<longleftrightarrow> ok"
  by (simp add: ensure_def)

lemma check_each_const: "check_each (\<lambda>_. f) i xs = Inr u \<longleftrightarrow> (\<forall>x\<in>set xs. f x = Inr ())"
  by (induction xs arbitrary: i) auto

lemma rescue_refused:
  "rescue es (followed_by m (refuse path code)) k = Inr x \<longleftrightarrow> k = Inr x"
  "rescue es (refuse path code) k = Inr x \<longleftrightarrow> k = Inr x"
  by (auto simp: rescue_def split: sum.splits)

section \<open>An accepted ruleset is the one that is read\<close>

lemma validated_dashboard_read:
  assumes "validated_dashboard E kind raw = Inr rs"
  shows "from_dashboard E raw = Inr rs" and "has_key raw ''groups''"
  using assms by (auto simp: validated_dashboard_def rescue_refused split: pyval.splits)

lemma validated_native_read:
  assumes "validated_native E N kind raw = Inr rs"
  shows "model_validate E (PDict raw) = Inr rs" and "\<not> has_key raw ''groups''"
    and "kind = FlagRules \<Longrightarrow> has_key raw ''rules''"
  using assms by (auto simp: validated_native_def rescue_refused)

definition carries_no_rules :: "targeting_rules \<Rightarrow> bool" where
  "carries_no_rules rs = (rules rs = [] \<and> default_rule rs = None)"

definition evaluable :: "targeting_rules option \<Rightarrow> targeting_rules option" where
  "evaluable found = (case found of None \<Rightarrow> None | Some rs \<Rightarrow> if carries_no_rules rs then None else Some rs)"

text \<open>The checks every accepted ruleset passed.\<close>

lemma validate_targetingE:
  assumes "validate_targeting E N kind v = Inr r"
  obtains "v = PNone" "r = None" | "v = PDict []" "r = None"
    | raw rs where "v = PDict raw" "raw \<noteq> []" "r = evaluable (Some rs)"
        "if is_dashboard_rules_shape raw then from_dashboard E raw = Inr rs \<and> has_key raw ''groups''
         else model_validate E v = Inr rs \<and> \<not> has_key raw ''groups'' \<and>
           (kind = FlagRules \<longrightarrow> has_key raw ''rules'')"
        "\<not> carries_no_rules rs \<Longrightarrow> \<exists>dashboard version. check_list_sizes dashboard rs = Inr () \<and>
           check_segment_conditions dashboard rs = Inr () \<and> check_rule_validator E version dashboard rs = Inr ()"
proof (cases v)
  case (PDict raw)
  show thesis
  proof (cases "raw = []")
    case True
    with assms PDict that(2) show thesis by (simp add: validate_targeting_def)
  next
    case False
    let ?dash = "is_dashboard_rules_shape raw"
    let ?version = "if ?dash then DEFAULT_VERSION else rules_version N v"
    from assms obtain rs where
      rs: "(if ?dash then validated_dashboard E kind raw else validated_native E N kind raw) = Inr rs"
      and r: "if carries_no_rules rs then r = None
        else check_list_sizes ?dash rs = Inr () \<and> check_segment_conditions ?dash rs = Inr () \<and>
          check_rule_validator E ?version ?dash rs = Inr () \<and> r = Some rs"
      by (auto simp: validate_targeting_def PDict False Let_def ebind_eq_Inr carries_no_rules_def split: if_splits)
    have "if ?dash then from_dashboard E raw = Inr rs \<and> has_key raw ''groups''
       else model_validate E v = Inr rs \<and> \<not> has_key raw ''groups'' \<and> (kind = FlagRules \<longrightarrow> has_key raw ''rules'')"
      using rs validated_dashboard_read [of E kind raw rs] validated_native_read [of E N kind raw rs]
      by (auto simp: PDict split: if_splits)
    from that(3) [OF PDict False _ this] r show thesis
      by (auto simp: evaluable_def split: if_splits)
  qed
qed (use assms that(1) in \<open>simp_all add: validate_targeting_def\<close>)

lemma flag_rules_read:
  assumes "validate_flag_targeting E N v = Inr r"
  shows "emap evaluable (normalise_targeting_rules E v) = Inr r"
  using assms unfolding validate_flag_targeting_def
proof (cases rule: validate_targetingE)
  case (3 raw rs)
  then have "normalise_targeting_rules E v = Inr (Some rs)"
    by (auto simp: normalise_targeting_rules_def is_dashboard_rules_shape_def split: if_splits)
  with 3(3) show ?thesis by simp
qed (simp_all add: normalise_targeting_rules_def evaluable_def)

lemma experiment_rules_read:
  assumes "validate_experiment_targeting E N v = Inr r" and "truthy v"
  shows "coerce_targeting_rules E v = Inr r"
  using assms(1) unfolding validate_experiment_targeting_def
proof (cases rule: validate_targetingE)
  case (3 raw rs)
  then have "coerce_dict E v = Inr (Some rs)"
    by (auto simp: coerce_dict_def normalise_targeting_rules_def split: if_splits)
  with 3(1,3) show ?thesis
    by (simp add: coerce_targeting_rules_def evaluable_def carries_no_rules_def)
qed (use assms(2) in simp_all)

section \<open>An accepted ruleset is well formed and bounded\<close>

lemma find_None_list_ex: "find P xs = None \<longleftrightarrow> \<not> list_ex P xs"
  by (induction xs) simp_all

lemma rule_validator_passes:
  "check_rule_validator E version dashboard rs = Inr u \<longleftrightarrow> is_valid (validate_targeting_rules E version rs)"
proof -
  have "is_valid (validate_targeting_rules E version rs) \<longleftrightarrow>
      find (\<lambda>i. severity i = SeverityError) (issues (validate_targeting_rules E version rs)) = None"
    by (simp only: validate_targeting_rules_def Let_def validation_result.simps find_None_list_ex)
  then show ?thesis by (simp add: check_rule_validator_def split: option.split)
qed

lemma located_all:
  "map snd (located_conditions path g) = all_conditions g"
  "map snd (located_nested path i gs) = concat (map all_conditions gs)"
proof (induction path g and path i gs rule: located_conditions_located_nested.induct)
  case (1 path op cs gs)
  have "map snd (located_here path i cs) = cs" for i by (induction cs arbitrary: i) simp_all
  with 1 show ?case by simp
qed simp_all

definition rule_conditions :: "targeting_rules \<Rightarrow> condition list" where
  "rule_conditions rs = concat (map (\<lambda>r. all_conditions (rule r)) (every_rule rs))"

lemma located_rules_all:
  "map snd (located_rules dashboard i rs) = concat (map (\<lambda>r. all_conditions (rule r)) rs)"
  by (induction rs arbitrary: i) (simp_all add: located_all)

lemma located_conditions_of: "map snd (located dashboard rs) = rule_conditions rs"
  by (simp add: located_def rule_conditions_def every_rule_def located_rules_all located_all split: option.split)

lemma located_condition: "(path, c) \<in> set (located dashboard rs) \<Longrightarrow> c \<in> set (rule_conditions rs)"
  by (metis image_eqI list.set_map located_conditions_of snd_conv)

lemma condition_located: "c \<in> set (rule_conditions rs) \<Longrightarrow> \<exists>path. (path, c) \<in> set (located dashboard rs)"
  by (metis (no_types, lifting) imageE list.set_map located_conditions_of surjective_pairing)

text \<open>
  What every accepted ruleset satisfies: no condition list is longer than the limit, and a segment
  condition names the segment attribute and a segment.
\<close>

definition condition_bounded :: "condition \<Rightarrow> bool" where
  "condition_bounded c =
     ((operator c \<in> {IN, NOT_IN, CONTAINS_ALL, CONTAINS_ANY} \<longrightarrow>
         (case cvalue c of PList xs \<Rightarrow> length xs \<le> MAX_LIST_ITEMS | _ \<Rightarrow> True)) \<and>
      (is_segment_operator (operator c) \<longrightarrow> attribute c = str ''segment'' \<and> is_segment_id (cvalue c)))"

lemma list_sizes_pass:
  assumes "check_list_sizes dashboard rs = Inr u" and "c \<in> set (rule_conditions rs)"
  shows "operator c \<in> {IN, NOT_IN, CONTAINS_ALL, CONTAINS_ANY} \<Longrightarrow>
      (case cvalue c of PList xs \<Rightarrow> length xs \<le> MAX_LIST_ITEMS | _ \<Rightarrow> True)"
  using assms condition_located [OF assms(2), of dashboard]
  by (fastforce simp: check_list_sizes_def check_each_const split: pyval.splits)

lemma segment_conditions_pass:
  assumes "check_segment_conditions dashboard rs = Inr u" and "c \<in> set (rule_conditions rs)"
    and "is_segment_operator (operator c)"
  shows "attribute c = str ''segment'' \<and> is_segment_id (cvalue c)"
proof -
  obtain path where "(path, c) \<in> set (located dashboard rs)"
    using condition_located [OF assms(2)] by blast
  then have "(path, c) \<in> set (located_segments dashboard rs)"
    using assms(3) by (simp add: located_segments_def)
  with assms(1) show ?thesis
    by (auto simp: check_segment_conditions_def check_each_const check_segment_condition_def)
qed

lemma segment_conditions_of: "map snd (located_segments dashboard rs) = segment_conditions rs"
proof -
  have "map snd (filter (\<lambda>(_, c). P c) xs) = filter P (map snd xs)" for P :: "condition \<Rightarrow> bool"
    and xs :: "(pstr \<times> condition) list"
    by (induction xs) auto
  then show ?thesis
    by (simp add: located_segments_def segment_conditions_def located_conditions_of rule_conditions_def
        rule_roots_def every_rule_def comp_def split: option.split)
qed

lemma referenced_segments_bound:
  assumes "check_segment_conditions dashboard rs = Inr u"
  shows "length (segment_ids_in rs) \<le> MAX_REFERENCED_SEGMENTS"
proof -
  have ids: "\<exists>s. cvalue c = PStr s" if "c \<in> set (segment_conditions rs)" for c
  proof -
    have "c \<in> set (rule_conditions rs)" and "is_segment_operator (operator c)"
      using that by (auto simp: segment_conditions_def rule_conditions_def rule_roots_def every_rule_def split: option.splits)
    then have "is_segment_id (cvalue c)" using segment_conditions_pass [OF assms] by blast
    then show ?thesis by (auto simp: is_segment_id_def split: pyval.splits)
  qed
  have texts: "map PStr (concat (map (\<lambda>c. case cvalue c of PStr s \<Rightarrow> [s] | _ \<Rightarrow> []) cs)) = map cvalue cs"
    if "\<forall>c\<in>set cs. \<exists>s. cvalue c = PStr s" for cs
    using that by (induction cs) auto
  have "map PStr (concat (map (\<lambda>c. case cvalue c of PStr s \<Rightarrow> [s] | _ \<Rightarrow> []) (segment_conditions rs))) =
      map cvalue (segment_conditions rs)"
    using ids by (intro texts) blast
  from arg_cong [OF this, of set] have
    "set (map cvalue (segment_conditions rs)) = PStr ` set (segment_ids_in rs)"
    unfolding segment_ids_in_def set_remdups set_map by (rule sym)
  moreover have "map (\<lambda>(_, c). cvalue c) (located_segments dashboard rs) = map cvalue (segment_conditions rs)"
    using arg_cong [OF segment_conditions_of [of dashboard rs], of "map cvalue"]
    by (simp add: case_prod_unfold comp_def)
  moreover have "card (PStr ` set (segment_ids_in rs)) = length (segment_ids_in rs)"
    by (subst card_image) (simp_all add: inj_on_def segment_ids_in_def length_remdups_card_conv)
  ultimately show ?thesis
    using assms by (simp add: check_segment_conditions_def length_remdups_card_conv)
qed

lemma accepted_passed:
  assumes "validate_targeting E N kind v = Inr (Some rs)"
  shows "(\<exists>raw. from_dashboard E raw = Inr rs) \<or> model_validate E v = Inr rs"
    and "\<exists>dashboard version. check_list_sizes dashboard rs = Inr () \<and>
      check_segment_conditions dashboard rs = Inr () \<and> check_rule_validator E version dashboard rs = Inr ()"
  using assms by (cases rule: validate_targetingE; auto simp: evaluable_def split: if_splits)+

lemma accepted_rules:
  assumes "env_ok E" and "validate_targeting E N kind v = Inr (Some rs)"
  shows "valid_rules E rs" and "well_formed E rs"
    and "list_all condition_bounded (rule_conditions rs)"
    and "length (segment_ids_in rs) \<le> MAX_REFERENCED_SEGMENTS"
proof -
  obtain dashboard version where passed: "check_list_sizes dashboard rs = Inr ()"
    "check_segment_conditions dashboard rs = Inr ()" "check_rule_validator E version dashboard rs = Inr ()"
    using accepted_passed(2) [OF assms(2)] by blast
  show valid: "valid_rules E rs"
    using accepted_passed(1) [OF assms(2)] assms(1) from_dashboard_valid [of E _ rs] by (auto simp: env_ok_def)
  show "well_formed E rs"
    using passed(3) unfolding rule_validator_passes verdict_is_well_formed [OF valid] .
  show "list_all condition_bounded (rule_conditions rs)"
    unfolding list_all_iff condition_bounded_def
    using list_sizes_pass [OF passed(1)] segment_conditions_pass [OF passed(2)] by blast
  show "length (segment_ids_in rs) \<le> MAX_REFERENCED_SEGMENTS"
    by (rule referenced_segments_bound [OF passed(2)])
qed

section \<open>The SDK reads every ruleset of accepted flags\<close>

text \<open>An accepted default rule names no segment: its conditions have paths the check refuses.\<close>

lemma join_path_prefix: "is_prefix p base \<Longrightarrow> p \<noteq> [] \<Longrightarrow> is_prefix p (join_path base tail)"
  by (auto simp: join_path_def Let_def is_prefix_iff)

lemma located_prefix:
  "is_prefix p path \<Longrightarrow> p \<noteq> [] \<Longrightarrow> (q, c) \<in> set (located_conditions path g) \<Longrightarrow> is_prefix p q"
  "is_prefix p path \<Longrightarrow> p \<noteq> [] \<Longrightarrow> (q, c) \<in> set (located_nested path i gs) \<Longrightarrow> is_prefix p q"
proof (induction path g and path i gs rule: located_conditions_located_nested.induct)
  case (1 path op cs gs)
  have "(q, c) \<in> set (located_here path i cs) \<Longrightarrow> is_prefix p q" for i
    using 1(2,3) by (induction cs arbitrary: i) (auto intro: join_path_prefix)
  with 1 show ?case by auto
qed (auto intro: join_path_prefix)

lemma accepted_default_segment_free:
  assumes "validate_flag_targeting E N (stored_rules flag) = Inr found"
  shows "flag_default_segment_free E flag"
proof (cases "normalise_targeting_rules E (stored_rules flag)")
  case (Inr read)
  then have found: "evaluable read = found" using flag_rules_read [OF assms] by simp
  have "default_segment_free rs" if "read = Some rs" for rs
  proof (cases "default_rule rs")
    case (Some r)
    then have "found = Some rs" using found that by (simp add: evaluable_def carries_no_rules_def)
    then obtain dashboard where passed: "check_segment_conditions dashboard rs = Inr ()"
      using accepted_passed(2) [of E N FlagRules "stored_rules flag" rs] assms by (auto simp: validate_flag_targeting_def)
    have "\<not> is_segment_operator (operator c)" if c: "c \<in> set (all_conditions (rule r))" for c
    proof
      assume segment: "is_segment_operator (operator c)"
      have "c \<in> snd ` set (located_conditions (str ''default_rule.rule'') (rule r))"
        using c located_all(1) [of "str ''default_rule.rule''" "rule r"] by (metis list.set_map)
      then obtain q where q: "(q, c) \<in> set (located_conditions (str ''default_rule.rule'') (rule r))" by auto
      then have "(q, c) \<in> set (located_segments dashboard rs)"
        using segment Some by (simp add: located_segments_def located_def)
      with passed have "\<not> is_prefix (str ''default_rule'') q"
        by (auto simp: check_segment_conditions_def check_each_const check_segment_condition_def)
      moreover have "is_prefix (str ''default_rule'') (str ''default_rule.rule'')" "str ''default_rule'' \<noteq> []"
        by (simp_all add: str_def)
      ultimately show False using located_prefix(1) q by blast
    qed
    with Some show ?thesis by (simp add: default_segment_free_def list_all_iff)
  qed (simp add: default_segment_free_def)
  then show ?thesis by (simp add: flag_default_segment_free_def Inr split: option.split)
qed (simp add: flag_default_segment_free_def)

lemma calculate_group_depth_eq: "calculate_group_depth n g = n + group_depth g"
proof (induction g arbitrary: n)
  case (RuleGroup op cs gs)
  have "fold max (map (\<lambda>g. Suc n + group_depth g) gs') (n + k) = n + fold max (map (\<lambda>g. Suc (group_depth g)) gs') k"
    for gs' k
  proof (induction gs' arbitrary: k)
    case (Cons g gs')
    have "max (Suc n + group_depth g) (n + k) = n + max (Suc (group_depth g)) k" by simp
    then show ?case using Cons.IH [of "max (Suc (group_depth g)) k"] by simp
  qed simp
  from this [of gs 0] RuleGroup show ?case by (simp cong: map_cong)
qed

lemma accepted_depth:
  assumes "env_ok E" and "validate_flag_targeting E N v = Inr found"
    and "normalise_targeting_rules E v = Inr (Some rs)" and "r \<in> set (rules rs)"
  shows "group_depth (rule r) \<le> MAX_RULE_DEPTH"
proof -
  have "evaluable (Some rs) = found" using flag_rules_read [OF assms(2)] assms(3) by simp
  with assms(4) have "found = Some rs" by (auto simp: evaluable_def carries_no_rules_def)
  with assms(2) have "well_formed E rs"
    using accepted_rules(2) [OF assms(1)] by (simp add: validate_flag_targeting_def)
  with assms(4) have "\<not> group_faulty E 0 (rule r)"
    by (auto simp: well_formed_def every_rule_def list_all_iff)
  then show ?thesis by (simp add: group_faulty_def calculate_group_depth_eq)
qed

section \<open>What the validators raise\<close>

definition is_refusal :: "exc \<Rightarrow> bool" where
  "is_refusal e = (\<exists>path code. e = TargetingRulesError path code)"

definition conversion_errors :: "exc set" where
  "conversion_errors =
     {ValidationError, TargetingRuleShapeError, PyTypeError, PyValueError, PyOverflowError, PyRecursionError}"

text \<open>\<^verbatim>\<open>json.loads\<close> raises for text that is not JSON, a number of too many digits, a value nested too deep.\<close>

definition json_reading_ok :: "'z adapter_env_scheme \<Rightarrow> bool" where
  "json_reading_ok E =
     (\<forall>s e. json_loads E s = Inl e \<longrightarrow> e \<in> {JSONDecodeError, PyValueError, PyRecursionError})"

lemma refusal_simps [simp]: "refuse path code = Inl e \<Longrightarrow> is_refusal e" "ensure ok path code = Inl e \<Longrightarrow> is_refusal e"
  by (auto simp: refuse_def ensure_def is_refusal_def split: if_splits)

lemma followed_by_Inl: "followed_by m k = Inl e \<longleftrightarrow> m = Inl e \<or> m = Inr () \<and> k = Inl e"
  by (cases m) (auto simp: followed_by_def)

lemma check_each_Inl: "check_each f i xs = Inl e \<Longrightarrow> \<exists>j x. x \<in> set xs \<and> f j x = Inl e"
  by (induction xs arbitrary: i) (fastforce simp: followed_by_Inl)+

lemma check_logical_operator_raises: "check_logical_operator container path = Inl e \<Longrightarrow> is_refusal e"
  by (simp add: check_logical_operator_def)

lemma make_condition_raises: "make_condition E a op v w = Inl e \<Longrightarrow> e \<in> conversion_errors"
  by (auto simp: make_condition_def validate_operator_value_def validate_geo_value_def conversion_errors_def
      rescue_def ebind_eq_Inl split: if_splits pyval.splits list.splits sum.splits dest: py_float_raises)

lemma pasted_list_raises: "pasted_list E v = Inl e \<Longrightarrow> json_reading_ok E \<Longrightarrow> e \<in> {PyValueError, PyRecursionError}"
  by (auto simp: pasted_list_def json_reading_ok_def rescue_eq_Inl split: pyval.splits if_splits)

lemma list_value_raises: "list_value E v = Inl e \<Longrightarrow> json_reading_ok E \<Longrightarrow> e \<in> conversion_errors"
  by (auto simp: list_value_def Let_def ebind_eq_Inl conversion_errors_def shape_error_def split: if_splits
      dest!: pasted_list_raises)

lemma numeric_value_raises: "numeric_value E v = Inl e \<Longrightarrow> e \<in> conversion_errors"
  by (auto simp: numeric_value_def conversion_errors_def shape_error_def split: pyval.splits)

lemma geo_value_raises: "geo_value E v = Inl e \<Longrightarrow> e \<in> conversion_errors"
  by (auto simp: geo_value_def geo_parts_def conversion_errors_def shape_error_def rescue_def ebind_eq_Inl
      split: pyval.splits list.splits sum.splits if_splits dest: py_float_raises)

lemma shape_error_in [simp]: "shape_error \<in> conversion_errors"
  by (simp add: shape_error_def conversion_errors_def)

lemma time_window_value_raises:
  assumes "time_window_value E v = Inl e" and "json_reading_ok E"
  shows "e \<in> conversion_errors"
  using assms unfolding time_window_value_def
  by (elim ebind_raises)
    (auto simp: Let_def rescue_eq_Inl json_reading_ok_def conversion_errors_def shape_error_def
      split: pyval.splits if_splits)

lemma semver_value_raises: "semver_value E v = Inl e \<Longrightarrow> e \<in> conversion_errors"
proof -
  have "semver_parts E ps = Inl e \<Longrightarrow> e = PyValueError" for ps
    by (auto simp: semver_parts_def split: option.splits dest!: etraverse_Inl)
  then show "semver_value E v = Inl e \<Longrightarrow> e \<in> conversion_errors"
    by (auto simp: semver_value_def conversion_errors_def shape_error_def ebind_eq_Inl Let_def
        split: pyval.splits if_splits prod.splits)
qed

lemma convert_simple_raises:
  "convert_simple E a op v = Inl e \<Longrightarrow> json_reading_ok E \<Longrightarrow> e \<in> conversion_errors"
  by (auto simp: convert_simple_def ebind_eq_Inl split: if_splits prod.splits
      dest: make_condition_raises list_value_raises numeric_value_raises geo_value_raises time_window_value_raises)

lemma convert_dashboard_condition_raises:
  "convert_dashboard_condition E v = Inl e \<Longrightarrow> json_reading_ok E \<Longrightarrow> e \<in> conversion_errors"
  by (auto simp: convert_dashboard_condition_def Let_def ebind_eq_Inl split: pyval.splits if_splits option.splits
      dest: make_condition_raises convert_simple_raises semver_value_raises)

lemma type_error_in [simp]: "PyTypeError \<in> conversion_errors" "ValidationError \<in> conversion_errors"
  by (simp_all add: conversion_errors_def)

lemma iter_or_empty_raises: "iter_or_empty v = Inl e \<Longrightarrow> e \<in> conversion_errors"
  by (auto simp: iter_or_empty_def split: if_splits pyval.splits)

lemma convert_group_raises: "convert_group E v = Inl e \<Longrightarrow> json_reading_ok E \<Longrightarrow> e \<in> conversion_errors"
  by (auto simp: convert_group_def ebind_eq_Inl split: pyval.splits
      dest: iter_or_empty_raises convert_dashboard_condition_raises dest!: etraverse_Inl)

lemma rollout_percentage_of_raises: "rollout_percentage_of E v = Inl e \<Longrightarrow> e \<in> conversion_errors"
proof -
  have "py_int_of_float x = Inl e \<Longrightarrow> e \<in> {PyValueError, PyOverflowError}" for x
    by (cases x) auto
  then show "rollout_percentage_of E v = Inl e \<Longrightarrow> e \<in> conversion_errors"
    by (auto simp: rollout_percentage_of_def rescue_def ebind_eq_Inl conversion_errors_def
        split: if_splits sum.splits dest!: py_float_raises)
qed

lemma from_dashboard_errors: "from_dashboard E raw = Inl e \<Longrightarrow> json_reading_ok E \<Longrightarrow> e \<in> conversion_errors"
  by (auto simp: from_dashboard_def ebind_eq_Inl Let_def split: if_splits
      dest: iter_or_empty_raises convert_group_raises rollout_percentage_of_raises dest!: etraverse_Inl)

text \<open>
  A dashboard ruleset is refused, or \<^verbatim>\<open>OverflowError\<close> escapes from the conversion of a number, or
  \<^verbatim>\<open>RecursionError\<close> from the reading of pasted JSON.
\<close>

definition escapes :: "exc \<Rightarrow> bool" where
  "escapes e = (is_refusal e \<or> e = PyOverflowError \<or> e = PyRecursionError)"

lemma refusal_escapes: "is_refusal e \<Longrightarrow> escapes e"
  by (simp add: escapes_def)

lemma check_dashboard_condition_raises: "check_dashboard_condition path v = Inl e \<Longrightarrow> is_refusal e"
  by (auto simp: check_dashboard_condition_def followed_by_Inl split: pyval.splits)

lemma check_dashboard_group_raises: "check_dashboard_group gi v = Inl e \<Longrightarrow> is_refusal e"
  by (auto simp: check_dashboard_group_def Let_def followed_by_Inl split: pyval.splits list.splits
      dest: check_logical_operator_raises check_dashboard_condition_raises dest!: check_each_Inl)

lemma locate_refused_raises:
  assumes "check_each (locate_refused_group E) i gs = Inl e" and "json_reading_ok E"
  shows "escapes e"
proof -
  have one: "locate_refused_condition E gpath ci v = Inl e \<Longrightarrow> escapes e" for gpath ci v
    using convert_dashboard_condition_raises [OF _ assms(2), of v]
    by (auto simp: locate_refused_condition_def Let_def escapes_def conversion_errors_def split: sum.splits if_splits)
  from assms(1) show "escapes e"
    by (auto simp: locate_refused_group_def dest: one dest!: check_each_Inl)
qed

lemma validated_dashboard_raises:
  assumes "validated_dashboard E kind raw = Inl e" and "json_reading_ok E"
  shows "escapes e"
proof -
  have pct: "check_dashboard_percentage k raw = Inl e \<Longrightarrow> is_refusal e"
    and rid: "check_dashboard_id raw = Inl e \<Longrightarrow> is_refusal e"
    and size: "check_dashboard_flag_size gs = Inl e \<Longrightarrow> is_refusal e"
    and grps: "check_each check_dashboard_group 0 gs = Inl e \<Longrightarrow> is_refusal e" for k gs
    by (auto simp: check_dashboard_percentage_def check_dashboard_id_def check_dashboard_flag_size_def
        check_flag_percentage_def split: option.splits if_splits dest: check_dashboard_group_raises dest!: check_each_Inl)
  have conv: "rescue [TargetingRuleShapeError, ValidationError, PyTypeError, PyValueError, JSONDecodeError, PyUnicodeError]
      (followed_by (check_each (locate_refused_group E) 0 gs) (refuse [] ''rules could not be converted''))
      (from_dashboard E raw) = Inl e \<Longrightarrow> escapes e" for gs
    using from_dashboard_errors [OF _ assms(2), of raw] locate_refused_raises [OF _ assms(2), of 0 gs e]
    by (auto simp: rescue_eq_Inl followed_by_Inl conversion_errors_def escapes_def split: if_splits)
  from assms(1) show "escapes e"
    by (auto simp: validated_dashboard_def followed_by_Inl split: pyval.splits if_splits
        dest: conv dest!: pct rid size grps check_logical_operator_raises intro: refusal_escapes)
qed

lemma within_limit_raises: "within_limit n m = Inl e \<Longrightarrow> is_refusal e"
  by (auto simp: within_limit_def split: if_splits)

lemma check_native_conditions_raises: "check_native_conditions gpath v n = Inl e \<Longrightarrow> is_refusal e"
  by (auto simp: check_native_conditions_def ebind_eq_Inl followed_by_Inl split: pyval.splits
      dest: within_limit_raises dest!: check_each_Inl)

lemma walk_native_groups_raises: "walk_native_groups stack n = Inl e \<Longrightarrow> is_refusal e"
proof (induction "stack_size stack" arbitrary: stack n e rule: less_induct)
  case less
  show ?case
  proof (cases stack)
    case (Cons entry stack')
    obtain gpath grp depth where entry: "entry = (gpath, grp, depth)" by (cases entry)
    have rest: "walk_native_groups stack' m = Inl x \<Longrightarrow> is_refusal x" for m x
      by (rule less.hyps) (simp_all add: Cons entry)
    show ?thesis
    proof (cases "\<exists>g. grp = PDict g \<and> only_keys NATIVE_GROUP_KEYS g")
      case True
      then obtain g where g: "grp = PDict g" "only_keys NATIVE_GROUP_KEYS g" by blast
      have deeper: "walk_native_groups (nested_entries gpath (Suc depth) 0 nested @ stack') m = Inl x \<Longrightarrow> is_refusal x"
        if "dget g ''groups'' = PList nested" for nested m x
        by (rule less.hyps) (use dget_list_size [OF that] in \<open>simp_all add: Cons entry g\<close>)
      show ?thesis
        using less.prems unfolding Cons entry walk_native_groups.simps(2) g(1) pyval.case
      proof (simp only: g(2) not_True_eq_False if_False, elim ebind_raises)
        show "is_refusal e'" if "check_native_conditions gpath (dget g ''conditions'') n = Inl e'" for e'
          using that by (rule check_native_conditions_raises)
      next
        fix m e'
        assume after: "(case dget g ''groups'' of
            PList nested \<Rightarrow>
              if nested = [] then walk_native_groups stack' m
              else if depth \<ge> MAX_NATIVE_GROUP_DEPTH then refuse (field_path gpath ''groups'') ''nested too deeply''
              else ebind (within_limit m (length nested)) (\<lambda>count.
                walk_native_groups (nested_entries gpath (Suc depth) 0 nested @ stack') count)
          | _ \<Rightarrow> walk_native_groups stack' m) = Inl e'"
        show "is_refusal e'"
        proof (cases "dget g ''groups''")
          case (PList nested)
          from after show ?thesis
            by (simp only: PList pyval.case split: if_splits)
              (auto simp: ebind_eq_Inl dest: rest deeper [OF PList] within_limit_raises simp del: walk_native_groups.simps)
        qed (use after rest in simp_all)
      qed
    next
      case False
      with less.prems rest show ?thesis by (auto simp: Cons entry split: pyval.splits if_splits)
    qed
  qed (use less.prems in simp)
qed

lemma check_native_rule_raises: "check_native_rule path v n = Inl e \<Longrightarrow> is_refusal e"
  by (auto simp: check_native_rule_def followed_by_Inl ebind_eq_Inl check_flag_percentage_def
      simp del: walk_native_groups.simps split: pyval.splits if_splits dest: within_limit_raises walk_native_groups_raises)

lemma check_native_rules_raises: "check_native_rules i vs n = Inl e \<Longrightarrow> is_refusal e"
  by (induction vs arbitrary: i n) (auto simp: ebind_eq_Inl dest: check_native_rule_raises)

lemma check_native_flag_rules_raises: "check_native_flag_rules raw = Inl e \<Longrightarrow> is_refusal e"
  by (auto simp: check_native_flag_rules_def Let_def ebind_eq_Inl split: if_splits
      dest: within_limit_raises check_native_rules_raises check_native_rule_raises)

text \<open>
  Pydantic raises \<^verbatim>\<open>ValidationError\<close>, or \<^verbatim>\<open>OverflowError\<close> or \<^verbatim>\<open>RecursionError\<close> out of the model's own
  validators and nested groups.
\<close>

definition native_reading_ok :: "'z adapter_env_scheme \<Rightarrow> bool" where
  "native_reading_ok E = (\<forall>v e. model_validate E v = Inl e \<longrightarrow> e \<in> {ValidationError, PyOverflowError, PyRecursionError})"

lemma validated_native_raises:
  "native_reading_ok E \<Longrightarrow> validated_native E N kind raw = Inl e \<Longrightarrow> escapes e"
  by (auto simp: validated_native_def followed_by_Inl rescue_eq_Inl native_reading_ok_def escapes_def
      split: if_splits dest: check_native_flag_rules_raises)

lemma list_sizes_raises: "check_list_sizes dashboard rs = Inl e \<Longrightarrow> is_refusal e"
  by (auto simp: check_list_sizes_def dest!: check_each_Inl)

lemma segment_conditions_raises: "check_segment_conditions dashboard rs = Inl e \<Longrightarrow> is_refusal e"
  by (auto simp: check_segment_conditions_def check_segment_condition_def followed_by_Inl dest!: check_each_Inl)

lemma rule_validator_raises: "check_rule_validator E version dashboard rs = Inl e \<Longrightarrow> is_refusal e"
  by (auto simp: check_rule_validator_def split: option.splits)

lemma validate_targeting_raises:
  assumes "native_reading_ok E" and "json_reading_ok E" and "validate_targeting E N kind v = Inl e"
  shows "escapes e"
  using assms(3) validated_dashboard_raises [OF _ assms(2), of kind] validated_native_raises [OF assms(1), of N kind]
  by (auto simp: validate_targeting_def Let_def ebind_eq_Inl followed_by_Inl split: pyval.splits if_splits
      dest: list_sizes_raises segment_conditions_raises rule_validator_raises intro: refusal_escapes)

section \<open>Segment rules\<close>

lemma validate_segment_rulesE:
  assumes "validate_segment_rules E v = Inr rs"
  obtains raw where "v = PDict raw" "from_dashboard E raw = Inr rs" "located_segments True rs = []"
    "check_segment_counts (count_ruleset v) = Inr ()" "check_rule_validator E DEFAULT_VERSION True rs = Inr ()"
  using assms
  by (auto simp: validate_segment_rules_def ebind_eq_Inr check_no_segment_condition_def
      split: pyval.splits list.splits dest!: validated_dashboard_read(1) intro: that)

text \<open>Accepted segment rules refer to no segment, so membership of one segment never decides another's.\<close>

lemma segment_rules_self_contained:
  assumes "env_ok E" and "validate_segment_rules E v = Inr rs"
  shows "segment_conditions rs = []"
    and "match_targeting_rule E rs (with_memberships ctx (Some ids)) =
      match_targeting_rule E rs (with_memberships ctx (Some ids'))"
proof -
  obtain raw where raw: "from_dashboard E raw = Inr rs" "located_segments True rs = []"
    using assms(2) by (rule validate_segment_rulesE)
  show none: "segment_conditions rs = []"
    using segment_conditions_of [of True rs] raw(2) by simp
  show "match_targeting_rule E rs (with_memberships ctx (Some ids)) =
      match_targeting_rule E rs (with_memberships ctx (Some ids'))"
  proof (rule match_members_cong)
    show "reads_no_memberships (rule r)" if "r \<in> set (rules rs)" for r
      using from_dashboard_valid [OF raw(1)] that assms(1)
      by (intro valid_group_reads) (auto simp: env_ok_def valid_rules_def valid_rule_def list_all_iff)
    show "s \<in> set ids \<longleftrightarrow> s \<in> set ids'" if "s \<in> set (segment_ids_in rs)" for s
      using that none by (simp add: segment_ids_in_def)
  qed
qed

lemma no_segment_condition_raises: "check_no_segment_condition rs = Inl e \<Longrightarrow> is_refusal e"
  by (auto simp: check_no_segment_condition_def split: list.splits)

lemma segment_rules_raise: "validate_segment_rules E v = Inl e \<Longrightarrow> json_reading_ok E \<Longrightarrow> escapes e"
  by (auto simp: validate_segment_rules_def check_segment_counts_def ebind_eq_Inl followed_by_Inl split: pyval.splits
      dest: no_segment_condition_raises validated_dashboard_raises list_sizes_raises rule_validator_raises intro: refusal_escapes)

text \<open>A saved segment passes the static limits of the preview, for samples up to fifty contexts.\<close>

lemma segment_rules_preview:
  assumes "validate_segment_rules E v = Inr rs" and "0 \<le> n" and "n \<le> 50"
  shows "preview_ruleset_violations v n = []"
proof -
  have c: "cnt_groups (count_ruleset v) \<le> 20" "cnt_conditions (count_ruleset v) \<le> 50"
    "cnt_regex (count_ruleset v) \<le> 10" "cnt_elements (count_ruleset v) \<le> 1000"
    using assms(1)
    by (rule validate_segment_rulesE; simp add: check_segment_counts_def MAX_SEGMENT_GROUPS_def
        MAX_SEGMENT_CONDITIONS_def MAX_SEGMENT_REGEX_CONDITIONS_def MAX_SEGMENT_LIST_ELEMENTS_def)+
  have "int (cnt_regex (count_ruleset v)) * n \<le> 10 * 50"
    using c(3) assms(2,3) by (intro mult_mono) simp_all
  moreover have "int (cnt_conditions (count_ruleset v) + cnt_groups (count_ruleset v)) * n \<le> 70 * 50"
    using c(1,2) assms(2,3) by (intro mult_mono) simp_all
  ultimately show ?thesis
    using c by (simp add: preview_ruleset_violations_def Let_def MAX_PREVIEW_CONDITIONS_def MAX_PREVIEW_GROUPS_def
        MAX_PREVIEW_REGEX_CONDITIONS_def MAX_PREVIEW_LIST_ELEMENTS_def MAX_PREVIEW_REGEX_EVALUATIONS_def
        MAX_PREVIEW_NODE_EVALUATIONS_def)
qed

end
