(* ===== verification/Concrete_Targeting.thy ===== *)
theory Concrete_Targeting
  imports Concrete_Env Targeting_Accepted Sdk_Runtime_Facts
begin

text \<open>
  Submitted rules on which the properties of the write path are instantiated: an accepted ruleset, and a
  location whose latitude no float holds.
\<close>

definition demo_reading :: native_reading where
  "demo_reading = \<lparr>rules_version = (\<lambda>_. DEFAULT_VERSION), error_loc = (\<lambda>_. [])\<rparr>"

definition demo_rules :: targeting_rules where
  "demo_rules = \<lparr>rules = [demo_rule (RuleGroup AND [] [RuleGroup AND [demo_condition EQUALS ''country'' ''US''] []]) 100],
     default_rule = None\<rparr>"

lemma demo_converted: "from_dashboard demo_env [(str ''groups'', PList [demo_stored_group])] = Inr demo_rules"
  using demo_normalised
  by (auto simp: normalise_targeting_rules_def demo_stored_def demo_rules_def has_key_def rescue_def emap_eq_Inr
      split: sum.splits if_splits)

lemma demo_rules_well_formed: "well_formed demo_env demo_rules"
  by (simp add: well_formed_def demo_rules_def every_rule_def demo_rule_def DASHBOARD_RULE_ID_def str_def
      group_faulty_def refused_pattern_def demo_condition_def MAX_RULE_DEPTH_def)

lemma demo_rules_valid: "valid_rules demo_env demo_rules"
  using demo_converted by (rule from_dashboard_valid)

lemma demo_rules_checked:
  "check_list_sizes True demo_rules = Inr ()" "check_segment_conditions True demo_rules = Inr ()"
  "check_no_segment_condition demo_rules = Inr ()" "check_rule_validator demo_env version True demo_rules = Inr ()"
  "converted_list_elements demo_rules = 0"
proof -
  show "check_rule_validator demo_env version True demo_rules = Inr ()"
    unfolding rule_validator_passes verdict_is_well_formed [OF demo_rules_valid] by (rule demo_rules_well_formed)
  have "\<not> is_segment_operator EQUALS" by (simp add: is_segment_operator_def)
  then show "check_list_sizes True demo_rules = Inr ()" "check_segment_conditions True demo_rules = Inr ()"
    "check_no_segment_condition demo_rules = Inr ()" "converted_list_elements demo_rules = 0"
    by (simp_all add: check_list_sizes_def check_segment_conditions_def check_no_segment_condition_def located_segments_def
        located_def demo_rules_def demo_rule_def demo_condition_def converted_list_elements_def)
qed

lemma demo_dashboard_checked:
  "validated_dashboard demo_env kind [(str ''groups'', PList [demo_stored_group])] = Inr demo_rules"
proof -
  have "strip (str ''country'') \<noteq> []" "strip (str ''equals'') = str ''equals''"
    by (simp_all add: str_def strip_def py_isspace_def)
  moreover have "is_dashboard_operator (str ''equals'')"
    by (simp add: is_dashboard_operator_def table_lookup_def SIMPLE_OPERATOR_MAP_def)
  ultimately have "check_dashboard_group 0 demo_stored_group = Inr ()"
    by (simp add: check_dashboard_group_def Let_def demo_stored_group_def only_keys_def DASHBOARD_GROUP_KEYS_def
        DASHBOARD_CONDITION_KEYS_def check_logical_operator_def dget_def check_dashboard_condition_def nonblank_text_def)
  moreover have "length (group_condition_list demo_stored_group) = 1"
    by (simp add: group_condition_list_def demo_stored_group_def dget_def)
  ultimately show ?thesis
    by (simp add: validated_dashboard_def rescue_refused demo_converted has_key_def only_keys_def DASHBOARD_TOP_KEYS_def
        check_logical_operator_def dget_def check_dashboard_percentage_def check_dashboard_id_def
        check_dashboard_flag_size_def MAX_NATIVE_NODES_def)
qed

lemma demo_accepted:
  "validate_flag_targeting demo_env demo_reading demo_stored = Inr (Some demo_rules)"
  "validate_experiment_targeting demo_env demo_reading demo_stored = Inr (Some demo_rules)"
proof -
  have "is_dashboard_rules_shape [(str ''groups'', PList [demo_stored_group])]"
    by (simp add: is_dashboard_rules_shape_def has_key_def)
  moreover have "\<not> (rules demo_rules = [] \<and> default_rule demo_rules = None)" by (simp add: demo_rules_def)
  ultimately have "validate_targeting demo_env demo_reading kind demo_stored = Inr (Some demo_rules)" for kind
    by (simp add: validate_targeting_def demo_stored_def Let_def demo_dashboard_checked demo_rules_checked)
  then show "validate_flag_targeting demo_env demo_reading demo_stored = Inr (Some demo_rules)"
    "validate_experiment_targeting demo_env demo_reading demo_stored = Inr (Some demo_rules)"
    by (simp_all add: validate_flag_targeting_def validate_experiment_targeting_def)
qed

lemma demo_segment_accepted: "validate_segment_rules demo_env demo_stored = Inr demo_rules"
proof -
  have "check_segment_counts (count_ruleset demo_stored) = Inr ()"
    by (simp add: check_segment_counts_def count_ruleset_def demo_stored_def dget_def demo_stored_group_def
        count_condition_def is_regex_operator_def count_list_elements.simps MAX_SEGMENT_GROUPS_def MAX_SEGMENT_CONDITIONS_def
        MAX_SEGMENT_REGEX_CONDITIONS_def MAX_SEGMENT_LIST_ELEMENTS_def)
  then show ?thesis
    by (simp add: validate_segment_rules_def demo_stored_def dget_def only_keys_def demo_dashboard_checked
        demo_rules_checked MAX_SEGMENT_LIST_ELEMENTS_def)
qed

lemma demo_reading_ok: "native_reading_ok demo_env" "json_reading_ok demo_env"
  by (simp_all add: native_reading_ok_def json_reading_ok_def demo_env_def)

text \<open>A condition on a location whose latitude is an integer no float holds.\<close>

definition far_group :: "int \<Rightarrow> pyval" where
  "far_group n = PDict [(str ''conditions'', PList [PDict
      [(str ''attribute'', PStr (str ''place'')), (str ''operator'', PStr (str ''geo_within_radius'')),
       (str ''value'', PList [PInt n, PInt 0, PInt 1])]])]"

definition far_rules :: "int \<Rightarrow> pyval" where
  "far_rules n = PDict [(str ''groups'', PList [far_group n])]"

lemma far_strips:
  "strip (str ''place'') = str ''place''" "strip (str ''geo_within_radius'') = str ''geo_within_radius''"
  "str ''place'' \<noteq> []" "str ''geo_within_radius'' \<noteq> []"
  by (simp_all add: str_def strip_def py_isspace_def)

lemma far_tables:
  "table_lookup SEMVER_OPERATOR_MAP (str ''geo_within_radius'') = None"
  "table_lookup SEGMENT_OPERATOR_MAP (str ''geo_within_radius'') = None"
  "table_lookup SIMPLE_OPERATOR_MAP (str ''geo_within_radius'') = Some GEO_DISTANCE"
  by (simp_all add: table_lookup_def SEMVER_OPERATOR_MAP_def SEGMENT_OPERATOR_MAP_def SIMPLE_OPERATOR_MAP_def)

lemmas far_texts = far_strips far_tables

lemma far_group_raises:
  assumes "float_of_int n = None"
  shows "convert_group E (far_group n) = Inl PyOverflowError"
  by (simp add: far_group_def convert_group_def dget_def iter_or_empty_def convert_dashboard_condition_def or_default_def
      far_texts convert_simple_def geo_value_def geo_parts_def assms)

lemma far_rules_escape:
  assumes "float_of_int n = None"
  shows "validate_flag_targeting E N (far_rules n) = Inl PyOverflowError"
proof -
  let ?raw = "[(str ''groups'', PList [far_group n])]"
  have conv: "from_dashboard E ?raw = Inl PyOverflowError"
    by (simp add: from_dashboard_def dget_def iter_or_empty_def far_group_raises [OF assms])
  have "check_dashboard_group 0 (far_group n) = Inr ()"
    by (simp add: check_dashboard_group_def Let_def far_group_def only_keys_def DASHBOARD_GROUP_KEYS_def
        DASHBOARD_CONDITION_KEYS_def check_logical_operator_def dget_def check_dashboard_condition_def nonblank_text_def
        far_texts is_dashboard_operator_def)
  moreover have "length (group_condition_list (far_group n)) = 1"
    by (simp add: group_condition_list_def far_group_def dget_def)
  ultimately have "validated_dashboard E FlagRules ?raw = Inl PyOverflowError"
    by (simp add: validated_dashboard_def conv has_key_def only_keys_def DASHBOARD_TOP_KEYS_def
        check_logical_operator_def dget_def check_dashboard_percentage_def check_dashboard_id_def
        check_dashboard_flag_size_def MAX_NATIVE_NODES_def followed_by_def ensure_def)
  then show ?thesis
    by (simp add: validate_flag_targeting_def validate_targeting_def far_rules_def Let_def is_dashboard_rules_shape_def
        has_key_def)
qed

text \<open>
  Text that starts with a bracket, as the value of a list operator: what \<^verbatim>\<open>json.loads\<close> raises for a value
  nested too deep leaves the validator.
\<close>

definition pasted_group :: "pstr \<Rightarrow> pyval" where
  "pasted_group s = PDict [(str ''conditions'', PList [PDict
      [(str ''attribute'', PStr (str ''place'')), (str ''operator'', PStr (str ''in'')), (str ''value'', PStr s)]])]"

definition pasted_rules :: "pstr \<Rightarrow> pyval" where
  "pasted_rules s = PDict [(str ''groups'', PList [pasted_group s])]"

lemma pasted_texts:
  "strip (str ''in'') = str ''in''" "str ''in'' \<noteq> []"
  "table_lookup SEMVER_OPERATOR_MAP (str ''in'') = None" "table_lookup SEGMENT_OPERATOR_MAP (str ''in'') = None"
  "table_lookup SIMPLE_OPERATOR_MAP (str ''in'') = Some IN"
  by (simp_all add: str_def strip_def py_isspace_def table_lookup_def SEMVER_OPERATOR_MAP_def SEGMENT_OPERATOR_MAP_def
      SIMPLE_OPERATOR_MAP_def)

lemma pasted_group_raises:
  assumes "is_prefix [91] (strip s)" and "json_loads E s = Inl PyRecursionError"
  shows "convert_group E (pasted_group s) = Inl PyRecursionError"
  by (simp add: pasted_group_def convert_group_def dget_def iter_or_empty_def convert_dashboard_condition_def or_default_def
      far_strips pasted_texts convert_simple_def list_value_def pasted_list_def assms)

lemma pasted_rules_escape:
  assumes "is_prefix [91] (strip s)" and "json_loads E s = Inl PyRecursionError"
  shows "validate_flag_targeting E N (pasted_rules s) = Inl PyRecursionError"
proof -
  let ?raw = "[(str ''groups'', PList [pasted_group s])]"
  have conv: "from_dashboard E ?raw = Inl PyRecursionError"
    by (simp add: from_dashboard_def dget_def iter_or_empty_def pasted_group_raises [OF assms])
  have "check_dashboard_group 0 (pasted_group s) = Inr ()"
    by (simp add: check_dashboard_group_def Let_def pasted_group_def only_keys_def DASHBOARD_GROUP_KEYS_def
        DASHBOARD_CONDITION_KEYS_def check_logical_operator_def dget_def check_dashboard_condition_def nonblank_text_def
        far_strips pasted_texts is_dashboard_operator_def)
  moreover have "length (group_condition_list (pasted_group s)) = 1"
    by (simp add: group_condition_list_def pasted_group_def dget_def)
  ultimately have "validated_dashboard E FlagRules ?raw = Inl PyRecursionError"
    by (simp add: validated_dashboard_def conv has_key_def only_keys_def DASHBOARD_TOP_KEYS_def
        check_logical_operator_def dget_def check_dashboard_percentage_def check_dashboard_id_def
        check_dashboard_flag_size_def MAX_NATIVE_NODES_def followed_by_def ensure_def)
  then show ?thesis
    by (simp add: validate_flag_targeting_def validate_targeting_def pasted_rules_def Let_def is_dashboard_rules_shape_def
        has_key_def)
qed

end
