(* ===== verification/Spec2Isabelle.thy ===== *)
theory Spec2Isabelle
  imports Concrete_App Concrete_Rollout Concrete_Lifecycle Concrete_Runtime Concrete_Safety Concrete_Targeting
begin

text \<open>
  A verification library for the Experimently platform: feature flags, experiments and the rules both
  target users with.

  \<^bold>\<open>The program.\<close> A feature flag carries targeting rules and a rollout percentage; the server
  normalises the stored rules, resolves the segments they name, takes the first matching rule and
  lets a hash of user and flag decide. Python SDKs download a ruleset document and answer the same
  question locally where they can. An experiment targets users with the same rules through a second
  evaluator, keeps out the users of the global holdout and of exclusive experiments, and gives the
  others a variant that they keep. Schedules move flags through percentages, and experiments from draft
  to completion. SDKs send back how often they evaluated and which errors they saw, and a monitor turns
  off a flag whose measured values breach a threshold. The rules, the hashes, the document, the counts
  and the tables are contracts between components written separately, and the theorems are about those
  contracts.

  \<^bold>\<open>Foundations.\<close> \<open>Prelude\<close>: exceptions as values (\<open>exc + 'a\<close>), traversal that stops at the first
  exception, stable sorting, insertion-ordered dictionaries. \<open>Machine\<close>: reachable states, with the
  locales \<open>invariant_of\<close> and \<open>history_of\<close> that every stateful component instantiates. \<open>PyFloat\<close>:
  binary64 with exact rounding. \<open>PyValue\<close>: code-point strings, JSON values, Python's equality, truth
  and conversions. \<open>Md5\<close>: UTF-8 and MD5, executable; \<open>Golden_Vectors\<close> evaluates published vectors in
  the kernel.

  \<^bold>\<open>Rules and flags.\<close>
  \<^item> \<open>Hashing\<close>: \<^verbatim>\<open>core/consistent_hash.py\<close>, the SDK's \<^verbatim>\<open>hashing.py\<close>, and the hashes of the flag,
    holdout, mutual-exclusion, bandit, LLM and Lambda code; the cumulative variant walk (locale
    \<open>bucket_walk\<close>) and the percentage gate (locale \<open>percentage_gate\<close>).
  \<^item> \<open>Targeting_Schema\<close>: \<^verbatim>\<open>schemas/targeting_rule.py\<close> with its validators.
  \<^item> \<open>Rules_Engine\<close>, \<open>Engine_Facts\<close>: \<^verbatim>\<open>core/rules_engine.py\<close> and \<^verbatim>\<open>core/pattern_match.py\<close>, one
    definition per operator; exceptions that abandon a ruleset, meaning of groups, precedence.
  \<^item> \<open>Targeting_Adapter\<close>, \<open>Adapter_Facts\<close>: the read path of \<^verbatim>\<open>core/targeting_adapter.py\<close>.
  \<^item> \<open>Rule_Validation\<close>: \<^verbatim>\<open>core/rule_validation.py\<close>, its issues, score and warnings, and \<open>well_formed\<close>, the
    specification its verdict implements. \<open>Targeting_Write\<close>: the write path of the adapter, the validators of
    flag and experiment rules. \<open>Segment_Rules\<close>: the validator of segment rules, the counts and limits of
    \<^verbatim>\<open>core/segment_preview_limits.py\<close>, the reference check. \<open>Targeting_Accepted\<close>: what an accepted ruleset
    promises its readers, and what the validators raise. \<open>Concrete_Targeting\<close>: submitted rules.
  \<^item> \<open>Segment_Membership\<close>: \<^verbatim>\<open>services/segment_membership.py\<close> over the two tables.
  \<^item> \<open>Feature_Flags\<close>: the status rule and every writer of a flag row
    (\<^verbatim>\<open>services/feature_flag_service.py\<close>, \<^verbatim>\<open>models/feature_flag.py\<close>, the enable, disable,
    unarchive, toggle and bulk-toggle routes, the rollback of \<^verbatim>\<open>services/safety_service.py\<close>), as a step relation.
  \<^item> \<open>Flag_Evaluation\<close>: \<^verbatim>\<open>evaluate_flag_detailed\<close>, \<^verbatim>\<open>get_user_flags\<close>; locale
    \<open>membership_provider\<close>, interpreted on the segment tables.
  \<^item> \<open>Sdk_Ruleset\<close>, \<open>Sdk_Evaluator\<close>, \<open>Sdk_Facts\<close>: the document the server builds, the SDK's
    evaluator, and the simulation between the two evaluations.

  \<^bold>\<open>The SDK's runtime.\<close>
  \<^item> \<open>Sdk_Runtime\<close>, \<open>Sdk_Runtime_Facts\<close>: the refresh of \<^verbatim>\<open>experimentation/local.py\<close> (usability of a ruleset,
    delays, back-off, what each status code does) and its tallies and count bodies.
  \<^item> \<open>Sdk_Machine\<close>: a process as a step relation, one step per poll of the thread, call and close; the invariants
    of its counts and the end of its refresh thread.
  \<^item> \<open>Sdk_Client\<close>: \<^verbatim>\<open>get_feature_flag\<close> and \<^verbatim>\<open>get_all_flags\<close> of \<^verbatim>\<open>client.py\<close>, with \<^verbatim>\<open>cache.py\<close> and the errors of
    \<^verbatim>\<open>transport.py\<close>.
  \<^item> \<open>Evaluation_Reports\<close>, \<open>Evaluation_Reports_Facts\<close>: what the server does with the counts
    (\<^verbatim>\<open>endpoints/flag_evaluations.py\<close>, \<^verbatim>\<open>services/sdk_evaluation_service.py\<close>): validation, the allowance of a
    key and minute, the rows. \<open>Concrete_Runtime\<close>: a client, a process and its bodies.

  \<^bold>\<open>Keys, errors and safety.\<close>
  \<^item> \<open>Permissions\<close>: the role table of \<^verbatim>\<open>core/permissions.py\<close>, scopes (\<^verbatim>\<open>core/api_key_scopes.py\<close>), API keys
    (\<^verbatim>\<open>models/api_key.py\<close>, \<^verbatim>\<open>deps.get_api_key\<close>) and the server keys of \<^verbatim>\<open>api/sdk_scope.py\<close>; the two readings of the
    scope agree, and stored scopes read back.
  \<^item> \<open>Error_Reports\<close>: both routes of \<^verbatim>\<open>endpoints/client_errors.py\<close>, the rows they store with the cuts to the
    columns, which rows count (\<^verbatim>\<open>models/metrics/metric.py\<close>), and the metrics of an evaluation
    (\<^verbatim>\<open>services/metrics_service.py\<close>).
  \<^item> \<open>Safety_Monitor\<close>, \<open>Safety_Rollback\<close>: \<^verbatim>\<open>services/safety_service.py\<close> (settings, configurations, error numbers,
    latencies, the check, the advice, the rollback) and the tick of \<^verbatim>\<open>core/safety_scheduler.py\<close>.
    \<open>Safety_Facts\<close>: \<open>must_roll_back\<close>, a specification of the tick's decision, and that the tick implements
    it. \<open>Safety_Runs\<close>: what a tick writes, and the rows a background run leaves alone, by an interpretation
    of \<open>invariant_of\<close>. \<open>Concrete_Safety\<close>: a flag that is rolled back.

  \<^bold>\<open>Experiments.\<close>
  \<^item> \<open>Rules_Evaluation\<close>: \<^verbatim>\<open>services/rules_evaluation_service.py\<close>, the evaluator experiments use, and its
    agreement with the rules engine.
  \<^item> \<open>Holdout\<close>, \<open>Holdout_Facts\<close>: \<^verbatim>\<open>services/global_holdout_service.py\<close> over the table with its one-active
    index; requests read one state and write another, as concurrent transactions do.
  \<^item> \<open>Mutual_Exclusion\<close>: \<^verbatim>\<open>services/mutual_exclusion_service.py\<close>, groups and the experiment a user may enter.
  \<^item> \<open>Assignment\<close>, \<open>Assignment_Facts\<close>:  \<^verbatim>\<open>services/assignment_service.py\<close>, eligibility, the variant, the
    sticky row, under interleaved requests.
  \<^item> \<open>Experiment_Lifecycle\<close>, \<open>Experiment_Facts\<close>, \<open>Experiment_Admission\<close>: \<^verbatim>\<open>services/experiment_service.py\<close>,
    the lifecycle routes of \<^verbatim>\<open>endpoints/experiments.py\<close>, the tick of \<^verbatim>\<open>core/scheduler.py\<close> and the
    constraints of \<^verbatim>\<open>models/experiment.py\<close>: what every reachable row satisfies, what a started
    experiment keeps, whom a running experiment admits.
  \<^item> \<open>Rollout_Schedule\<close>, \<open>Rollout_Stages\<close>, \<open>Rollout_Facts\<close>, \<open>Rollout_Progress\<close>, \<open>Rollout_Liveness\<close>:
    \<^verbatim>\<open>services/rollout_service.py\<close> and the tick of \<^verbatim>\<open>core/rollout_scheduler.py\<close>, up to the completion of a
    schedule of time-based stages.
  \<^item> \<open>Concrete_Env\<close>, \<open>Concrete_App\<close>, \<open>Concrete_Rollout\<close>, \<open>Concrete_Lifecycle\<close>: a concrete environment, flags,
    experiments and schedules, on which the properties are instantiated; the last lemmas of two of
    them are runs in which concurrent requests lose an update.

  \<^bold>\<open>Parameters.\<close> The records \<open>pyenv\<close>, \<open>engine_env\<close> and \<open>adapter_env\<close> hold what the program calls
  and does not contain: RE2, semver, pytz, pydantic's reading of the native shape, \<^verbatim>\<open>json.loads\<close>,
  the number and date parsers, the clock, the elementary functions; \<open>native_reading\<close> is what pydantic tells
  of native rules besides the rules themselves. \<open>env_ok\<close>, \<open>clock_ok\<close> and \<open>repr_ok\<close>
  state the documented behaviour the theorems use: \<^verbatim>\<open>fromtimestamp\<close> raises only \<^verbatim>\<open>OverflowError\<close>,
  \<^verbatim>\<open>OSError\<close> or \<^verbatim>\<open>ValueError\<close>, a validated model satisfies its validators, \<^verbatim>\<open>repr\<close> is never empty;
  \<open>native_reading_ok\<close>: pydantic raises \<^verbatim>\<open>ValidationError\<close>, or \<^verbatim>\<open>OverflowError\<close> or \<^verbatim>\<open>RecursionError\<close>;
  \<open>json_reading_ok\<close>: \<^verbatim>\<open>json.loads\<close> raises a \<^verbatim>\<open>ValueError\<close> or \<^verbatim>\<open>RecursionError\<close>. The
  runtime takes the clock readings and the responses of each call as arguments, with \<open>http_date\<close> for the
  dates of headers and the JSON round trip of a user's context; the routes take the hash of a key and
  \<^verbatim>\<open>isoformat\<close>; the monitor takes pydantic's reading of a stored threshold (\<open>metrics_reader\<close>), about which
  nothing is assumed.

  \<^bold>\<open>Bounds.\<close> No definition uses fuel: recursion follows the data or a size measure, and a run of
  ticks follows the list of its instants. The depth limits (64 for a document's groups, 256 for a
  context) are the code's own.

  \<^bold>\<open>Overlapping requests.\<close> Holdout writes and assignments are modelled with the state a request read
  apart from the state it writes, so stale reads are covered there, but for mutual exclusion and for the
  life of a holdout. A tick, a lifecycle request of an experiment or schedule and a report of counts is one
  step that reads what it writes; the routes of experiments and schedules take no row lock, and what two of
  their requests do to each other is outside. A property's text says which steps its run may contain and
  which it excludes: reassignments and deletions for sticky assignment, the deletion of a schedule for its
  stages.

  \<^bold>\<open>Not modelled.\<close> The routes between the validators of targeting rules and the stored rows (what is
  stored is arbitrary, so the theorems cover more rows than they let in); the bandit and LLM services
  and the Lambda evaluators beyond their hashes; the statistics, which are numpy and scipy code; event
  tracking; waits and joins of threads; sessions, tokens and custom roles; the
  aggregation of metrics and the breakdown of errors by type, which no decision reads; caches no answer
  depends on; audit entries, notifications, HTTP and SQL, which are I/O over frameworks.
\<close>

section \<open>Local evaluation and the server\<close>

text \<open>
  C1: A flag the Python SDK answers from the ruleset the server built gets the server's answer:
  for every flag of a ruleset with distinct keys whose default rule names no segment, every user and
  every request context, when \<^verbatim>\<open>evaluate_locally\<close> does not defer, its \<^verbatim>\<open>enabled\<close> and \<^verbatim>\<open>reason\<close> are those
  of \<^verbatim>\<open>evaluate_flag_detailed\<close> on the stored flag. The condition on the default rule is needed: the server
  resolves the segments it names and answers \<^verbatim>\<open>error\<close> when one is undecided, the SDK ships the rule without
  them. Flags that passed the flag validator satisfy it (\<open>accepted_default_segment_free\<close>).
\<close>

theorem local_answer_is_server_answer:
  assumes "env_ok E" and "build_ruleset E version flags = Inr body" and "index_ruleset body = Some rs"
    and "distinct (map flag_key flags)" and "flag \<in> set flags" and "flag_default_segment_free E flag"
    and "evaluate_locally rs (flag_key flag) u ctx = Inr (Some ans)"
  shows "enabled (evaluate_flag_detailed E validate db flag u (request_items ctx)) = local_enabled ans \<and>
     reason (evaluate_flag_detailed E validate db flag u (request_items ctx)) = local_reason ans"
  using local_is_server [OF assms] by (simp add: same_answer_def evaluate_flag_detailed_def)

theorem local_answer_is_server_answer_witness:
  "enabled (evaluate_flag_detailed demo_env no_rules demo_db (demo_flag ''my-flag'' ACTIVE demo_stored 0)
     (str ''user-123'') demo_request)"
proof -
  let ?flag = "demo_flag ''my-flag'' ACTIVE demo_stored 0"
  have key: "flag_key ?flag = str ''my-flag''" by (simp add: demo_flag_def)
  have free: "flag_default_segment_free demo_env ?flag"
    by (simp add: flag_default_segment_free_def demo_flag_def demo_normalised default_segment_free_def)
  show ?thesis
    using local_answer_is_server_answer [OF demo_env_ok demo_built demo_indexed _ _ free
        demo_local [folded key], of no_rules demo_db]
    by (simp add: request_items_def)
qed

text \<open>
  C5: Local evaluation of an indexed ruleset raises for no key, user and context: it answers or
  defers. The texts that reach the UTF-8 encoding of the bucket, where a lone surrogate would
  raise, have passed the well-formedness test.
\<close>

theorem local_evaluation_total:
  assumes "index_ruleset body = Some rs"
  shows "\<exists>out. evaluate_locally rs key u ctx = Inr out"
  using assms by (rule indexed_evaluation_total)

theorem local_evaluation_total_witness: "\<exists>out. evaluate_locally demo_index [0xD800] [] None = Inr out"
  by (rule local_evaluation_total [OF demo_indexed])

section \<open>The SDK's runtime and its counts\<close>

text \<open>
  C6: A flag the client answers from a ruleset the server built carries the server's answer: when its
  default rule names no segment (as for C1), the flags have distinct keys and the
  runtime holds the index of that ruleset and it is usable, the evaluation \<^verbatim>\<open>get_feature_flag\<close> returns
  for a key answered locally has the \<^verbatim>\<open>enabled\<close> and \<^verbatim>\<open>reason\<close> of \<^verbatim>\<open>evaluate_flag_detailed\<close> on the
  stored flag, whatever the cache holds and whatever the network does.
\<close>

theorem client_answer_is_server_answer:
  assumes "env_ok E" and "build_ruleset E version flags = Inr body" and "index_ruleset body = Some rs"
    and "distinct (map flag_key flags)" and "flag \<in> set flags" and "flag_default_segment_free E flag"
    and "cl_local cl = Some s" and "usable (fc_now c) s = Some rs" and "fc_wire c = Inr (Some ctx)"
    and "evaluate_locally rs (flag_key flag) u ctx = Inr (Some ans)"
  shows "\<exists>ev. snd (get_feature_flag P c (flag_key flag) u cl) = Inr ev \<and> fe_source ev = Some SOURCE_LOCAL \<and>
     fe_enabled ev = enabled (evaluate_flag_detailed E validate db flag u (request_items ctx)) \<and>
     fe_reason ev = Some (reason_text (reason (evaluate_flag_detailed E validate db flag u (request_items ctx))))"
proof -
  have "snd (answer_flag (fc_now c) (fc_utc c) (flag_key flag) u (fc_wire c) s) = Some ans"
    using assms(8-10) by (simp add: answer_flag_def)
  from get_feature_flag_local [OF assms(7) this, of P]
  show ?thesis
    using local_is_server [OF assms(1-6,10)]
    by (simp add: local_evaluation_of_def same_answer_def evaluate_flag_detailed_def)
qed

theorem client_answer_is_server_answer_witness:
  "\<exists>ev. snd (get_feature_flag ascii_env demo_call (str ''my-flag'') (str ''user-123'') demo_client) = Inr ev \<and>
     fe_source ev = Some SOURCE_LOCAL"
proof -
  let ?flag = "demo_flag ''my-flag'' ACTIVE demo_stored 0"
  have key: "flag_key ?flag = str ''my-flag''" by (simp add: demo_flag_def)
  have free: "flag_default_segment_free demo_env ?flag"
    by (simp add: flag_default_segment_free_def demo_flag_def demo_normalised default_segment_free_def)
  show ?thesis
    using client_answer_is_server_answer [OF demo_env_ok demo_built demo_indexed _ _ free demo_client_fields(1)
        demo_usable demo_call_wire demo_local [folded key], of ascii_env]
    by (auto simp: key)
qed

text \<open>
  C18: A call the runtime defers reads the cache, which holds local answers too: after a flag was
  answered locally, a call for the same user and key that is not answered locally (the ruleset was
  discarded or is too old, the flag is no longer the SDK's to evaluate, or these attributes cannot be
  decided) returns the old local answer until its entry expires, without a request, whatever the
  server would say.
\<close>

theorem deferred_call_repeats_local_answer:
  assumes "cl_local cl = Some s"
    and "snd (answer_flag (fc_now c) (fc_utc c) key user (fc_wire c) s) = Some ans"
    and "cl_flags cl2 = cl_flags (fst (get_feature_flag E c key user cl))"
    and "snd (try_local c2 key user cl2) = None" and "\<not> fle (fadd (fc_stored c) (cl_ttl cl)) (fc_looked c2)"
  shows "snd (get_feature_flag E c2 key user cl2) = Inr (local_evaluation_of key ans)"
  using get_feature_flag_local [OF assms(1,2), of E] assms(3,5)
  by (intro get_feature_flag_cached [OF assms(4)]) (simp add: cache_set_get)

theorem deferred_call_repeats_local_answer_witness:
  "snd (get_feature_flag ascii_env demo_call (str ''my-flag'') (str ''user-123'') demo_refused_client) =
     Inr (local_evaluation_of (str ''my-flag'') demo_answer)"
  by (rule deferred_call_repeats_local_answer [OF demo_client_fields(1) demo_client_answered
        demo_refused_client_cache demo_refused_client_defers demo_call_fresh])

text \<open>
  C7: Once an open runtime took a refusal of the ruleset (a 401 or 403 whose body can be read, a 404, or
  a body of a format the SDK does not know), no flag is answered locally, one by one or all together,
  through any sequence of polls, calls and closes in which no response carries a valid ruleset. A body
  can be read unless its JSON is nested too deep: the \<^verbatim>\<open>RecursionError\<close> of such a 401 or 403 comes before
  the ruleset is discarded, and the ruleset stays in use.
\<close>

theorem refused_ruleset_never_answers:
  assumes "discarding r" and "\<not> rt_closed (sdk_runtime p)"
    and "sdk_runtime q0 = fst (refresh_once E http_date clk utc0 (Some r) (sdk_runtime p))"
    and "reach (unloaded_step E http_date) q0 q"
  shows "answer_flag now utc key user wire (sdk_runtime q) = (sdk_runtime q, None) \<and>
    answer_all now utc user wire (sdk_runtime q) = (sdk_runtime q, None)"
proof -
  have "without_ruleset q0"
    using refresh_discards [OF assms(1,2), of E http_date clk utc0] by (simp add: without_ruleset_def assms(3))
  with assms(4) have "without_ruleset q" by (rule unloaded.reach_keeps)
  then show ?thesis by (rule without_ruleset_defers)
qed

theorem refused_ruleset_never_answers_witness:
  "answer_flag (Fin 9) 9 (str ''my-flag'') (str ''user-123'') (Inr (Some None)) (sdk_runtime demo_refused_process) =
     (sdk_runtime demo_refused_process, None)"
  using refused_ruleset_never_answers [OF key_refused_discards _ demo_refused_process_runtime reach_start]
  by (simp add: demo_process_fields count_answers_def demo_runtime_fields)

text \<open>
  C12: A refresh that no 429 answers returns a finite delay: at least the interval, or five minutes
  when the interval is longer, and at most the interval or ten minutes; the doubling of the interval
  neither overflows nor rounds below it, for up to 1,022 consecutive failures.
\<close>

theorem refresh_delay_bounds:
  assumes "interval_ok (rt_interval s)" and "rt_failures s < 1023"
    and "\<And>r. outcome = Some r \<Longrightarrow> response_status r \<noteq> 429"
  shows "\<exists>d. snd (refresh_once E http_date clk utc outcome s) = Inr d \<and>
    fle (py_min (rt_interval s) MAX_BACKOFF_SECONDS) d \<and> fle d (py_max (rt_interval s) REFUSED_RETRY_SECONDS)"
  using refresh_delay [OF assms] by (simp add: delay_ok_def)

theorem refresh_delay_bounds_witness:
  "\<exists>d. snd (refresh_once ascii_env no_dates (Fin 1) 1 None demo_runtime) = Inr d \<and> fle (Fin 30) d \<and> fle d (Fin 600)"
proof -
  have "interval_ok (rt_interval demo_runtime)"
    by (simp add: interval_ok_def demo_runtime_fields fl_small)
  from refresh_delay_bounds [OF this, of None ascii_env no_dates "Fin 1" 1] show ?thesis
    by (simp add: demo_runtime_failures demo_runtime_fields py_min_def py_max_def MAX_BACKOFF_SECONDS_def
        REFUSED_RETRY_SECONDS_def)
qed

text \<open>
  C13: The 1,025th consecutive network failure ends the refresh thread: the power of two no longer
  converts to a float, the exception leaves the loop, and from then on the thread stays dead and no poll,
  call or close replaces or discards the ruleset the process had. What is usable later is that ruleset or
  nothing: nothing after \<^verbatim>\<open>max_stale_seconds\<close>, where it is set, and after \<^verbatim>\<open>close\<close>.
\<close>

theorem refresh_thread_ends:
  assumes "rt_failures s = 0" and "\<not> rt_closed s" and "length clocks = 1024"
    and "sdk_runtime p = failed_refreshes E http_date clocks s" and "thread_alive (sdk_poller p)"
    and "fle (next_refresh (sdk_poller p)) (poll_now i)" and "poll_outcome i = None"
    and "reach (sdk_step E http_date) (sdk_event_step E http_date (Poll i) p) q"
  shows "\<not> thread_alive (sdk_poller q) \<and> rt_ruleset (sdk_runtime q) = rt_ruleset s \<and>
    usable now (sdk_runtime q) \<in> {None, rt_ruleset s}"
proof -
  have "thread_ended (rt_ruleset s) (sdk_event_step E http_date (Poll i) p)"
    by (rule overflow_ends_thread [OF assms(1-7)])
  with assms(8) have "thread_ended (rt_ruleset s) q" by (rule ended.reach_keeps)
  then show ?thesis by (auto simp: thread_ended_def usable_def split: option.splits)
qed

theorem refresh_thread_ends_witness:
  "\<not> thread_alive (sdk_poller (sdk_event_step ascii_env no_dates (Poll (demo_poll None 0)) demo_failed_process))"
  using refresh_thread_ends [OF demo_runtime_failures _ _ demo_failed_process_fields(1,2) _ _ reach_start,
      of "demo_poll None 0"]
  by (simp add: demo_runtime_fields demo_poll_def demo_failed_process_fields(3))

text \<open>
  C8: Every local answer is counted once: in every reachable state of a process the answers given for
  a flag, and those that were enabled, are the ones in its tally and the ones in the bodies sent.
\<close>

theorem answers_counted_once:
  assumes "reach (sdk_step E http_date) (new_process interval max_stale now) p"
  shows "fst (tally_of key (rt_tallies (sdk_runtime p))) + entries_count key (concat (sdk_bodies p)) =
      answered key (sdk_answers p) \<and>
    snd (tally_of key (rt_tallies (sdk_runtime p))) + entries_on key (concat (sdk_bodies p)) =
      answered_on key (sdk_answers p)"
  using sdk_process.reach_keeps [OF assms new_process_ok] by (simp add: process_ok_def counts_ok_def)

theorem answers_counted_once_witness:
  "fst (tally_of (str ''my-flag'') (rt_tallies (sdk_runtime demo_process))) +
     entries_count (str ''my-flag'') (concat (sdk_bodies demo_process)) = 1"
  using answers_counted_once [OF demo_process_reached, of "str ''my-flag''"]
  by (simp add: demo_process_fields(2) counting_Cons)

text \<open>
  C11: A body of counts the SDK sends passes the server's validation if and only if every key in it is a
  valid flag key and the wall clock did not read earlier at the flush than at the first answer counted;
  when it did (it was set back by more than the time that passed), the server refuses the whole body, and
  the counts, already taken from the tallies, are lost. The tallies are those of any reachable process:
  one per flag, not empty, with no more enabled answers than answers.
\<close>

theorem sdk_report_valid_iff:
  assumes "tallies_ok (rt_tallies s)" and "body \<in> set (snd (flush_counts utc outcome s))"
  shows "valid_report (map received_entry body) \<longleftrightarrow> list_all (\<lambda>e. valid_flag_key (ce_key e)) body \<and>
    (case rt_window s of None \<Rightarrow> True | Some started \<Rightarrow> started \<le> utc)"
  by (rule sdk_body_valid_iff [OF assms])

theorem sdk_report_valid_iff_witness:
  "valid_report (map received_entry (demo_flushed_body 60)) \<and> \<not> valid_report (map received_entry (demo_flushed_body 4))"
  using sdk_report_valid_iff [OF demo_tallies_ok demo_body_flushed, of 60]
    sdk_report_valid_iff [OF demo_tallies_ok demo_body_flushed, of 4]
  by (simp add: demo_counted demo_body_keys)

text \<open>
  C9: The server never records more evaluations of a flag than the process answered: whichever of the
  bodies a process sent arrive, in any order, the rows they add for the flag sum to at most its local
  answers, so a reported error rate is never diluted by evaluations that were not made.
\<close>

theorem recorded_at_most_answered:
  assumes "reach (sdk_step E http_date) (new_process interval max_stale now) p"
    and "ids_distinct ids" and "ids key = Some fid"
    and "mset (map dv_body deliveries) \<subseteq># mset (sdk_bodies p)"
  shows "recorded_total fid (deliver ids deliveries db) \<le> recorded_total fid db + int (answered key (sdk_answers p))"
  using sdk_process.reach_keeps [OF assms(1) new_process_ok] assms(2-4) by (rule delivered_at_most_answered)

theorem recorded_at_most_answered_witness:
  "recorded_total (str ''id-1'') (deliver demo_ids demo_deliveries empty_report_db) \<le> 1"
  using recorded_at_most_answered [OF demo_flushed_process_reached demo_ids_distinct demo_ids_flag demo_delivered,
      of empty_report_db]
  by (simp add: demo_flushed_process_answers counting_Cons recorded_total_def empty_report_db_def)

text \<open>
  C10: The ceilings hold in every state the reports reach from empty tables, with any pruning, as long as
  no report commits after another that was stamped more than five minutes (the retention of the counters)
  later: no flag gets more than 1,000,000 evaluations recorded for one minute, and no API key more than
  100,000 of them for one flag. The service does not check the condition: a report that waits longer
  finds its counters pruned and is counted from zero.
\<close>

theorem report_ceilings_hold:
  assumes "ids_distinct ids" and "reach (timely_report_step ids) (empty_report_db, latest) (db, latest')"
  shows "recorded_for_flag fid minute db \<le> 1000000 \<and> recorded_for_key api fid minute db \<le> 100000"
proof -
  have "tables_ok ids (db, latest')"
    by (rule reports.reach_keeps [OF assms(2) empty_tables_ok [OF assms(1)]])
  then show ?thesis
    by (simp add: tables_ok_def ledger_ok_def caps_ok_def FLAG_MINUTE_CEILING_def KEY_MINUTE_CEILING_def)
qed

theorem report_ceilings_hold_witness:
  "recorded_for_key (str ''key'') (str ''id-1'') 0 (fst (demo_report [demo_count 250000, demo_count 50000])) \<le> 100000"
  using report_ceilings_hold [OF demo_ids_distinct demo_report_reached] by blast

section \<open>The write path of targeting rules\<close>

text \<open>
  C2: What the flag validator accepts is what the flag evaluator reads: for accepted targeting rules
  \<^verbatim>\<open>normalise_targeting_rules\<close> raises nothing and gives the rules the validator returned, \<^verbatim>\<open>None\<close> and an
  empty ruleset both meaning no rules.
\<close>

theorem accepted_flag_rules_read:
  assumes "validate_flag_targeting E N v = Inr r"
  shows "emap evaluable (normalise_targeting_rules E v) = Inr r"
  using assms by (rule flag_rules_read)

theorem accepted_flag_rules_read_witness:
  "emap evaluable (normalise_targeting_rules demo_env demo_stored) = Inr (Some demo_rules)"
  by (rule accepted_flag_rules_read [OF demo_accepted(1)])

text \<open>
  C27: What the experiment validator accepts is what assignment evaluates: for accepted rules other than
  \<^verbatim>\<open>None\<close> and \<^verbatim>\<open>{}\<close>, the reading of \<^verbatim>\<open>assignment_service\<close> gives exactly the rules the validator returned.
\<close>

theorem accepted_experiment_rules_read:
  assumes "validate_experiment_targeting E N v = Inr r" and "truthy v"
  shows "coerce_targeting_rules E v = Inr r"
  using assms by (rule experiment_rules_read)

theorem accepted_experiment_rules_read_witness: "coerce_targeting_rules demo_env demo_stored = Inr (Some demo_rules)"
  by (rule accepted_experiment_rules_read [OF demo_accepted(2)]) (simp add: demo_stored_def)

text \<open>
  C3: The SDK accepts every ruleset the server builds from flags whose rules passed the flag validator:
  the depth the validator allows is below the one \<^verbatim>\<open>index_ruleset\<close> refuses at.
\<close>

theorem accepted_flags_reach_sdk:
  assumes "env_ok E" and "build_ruleset E version flags = Inr body"
    and "\<forall>f\<in>set flags. \<exists>r. validate_flag_targeting E N (stored_rules f) = Inr r"
  shows "\<exists>rs. index_ruleset body = Some rs"
  using assms(2)
proof (rule built_ruleset_indexed)
  fix f rs r
  assume "f \<in> set flags" "normalise_targeting_rules E (stored_rules f) = Inr (Some rs)" "r \<in> set (rules rs)"
  then have "group_depth (rule r) \<le> MAX_RULE_DEPTH"
    using assms(1,3) accepted_depth by blast
  then show "group_depth (rule r) \<le> MAX_DEPTH" by (simp add: MAX_RULE_DEPTH_def MAX_DEPTH_def)
qed

theorem accepted_flags_reach_sdk_witness: "\<exists>rs. index_ruleset demo_body = Some rs"
  by (rule accepted_flags_reach_sdk [OF demo_env_ok demo_built, of demo_reading])
    (simp add: demo_flag_def demo_accepted(1))

text \<open>
  C25: The verdict of the rule validator on rules that were constructed: they are valid if and only if
  there is a rule, the ids are distinct and not empty, no group is nested more than ten levels deep and
  RE2 compiles every pattern. Each other check of the validator is implied by the models or only warns.
\<close>

theorem validator_accepts_iff:
  assumes "valid_rules E rs"
  shows "is_valid (validate_targeting_rules E version rs) \<longleftrightarrow>
    every_rule rs \<noteq> [] \<and> distinct (map rule_id (every_rule rs)) \<and>
    (\<forall>r\<in>set (every_rule rs). rule_id r \<noteq> [] \<and> group_depth (rule r) \<le> MAX_RULE_DEPTH \<and>
      (\<forall>c\<in>set (all_conditions (rule r)). operator c = MATCH_REGEX \<longrightarrow> \<not> compile_error E (cvalue c)))"
  unfolding verdict_is_well_formed [OF assms] well_formed_def list_all_iff group_faulty_def refused_pattern_def
    calculate_group_depth_eq
  by auto

theorem validator_accepts_iff_witness: "is_valid (validate_targeting_rules demo_env DEFAULT_VERSION demo_rules)"
  unfolding validator_accepts_iff [OF demo_rules_valid]
  by (simp add: demo_rules_def every_rule_def demo_rule_def DASHBOARD_RULE_ID_def str_def demo_condition_def
      MAX_RULE_DEPTH_def)

text \<open>
  C4: What the flag and experiment validators raise, for any submitted value: a refusal with a path and a
  fixed message, the 422 answer, or \<^verbatim>\<open>OverflowError\<close> or \<^verbatim>\<open>RecursionError\<close>, which no route expects. The last two
  do happen: for a location whose coordinate is an integer no float holds, and for pasted JSON that is
  nested too deep for \<^verbatim>\<open>json.loads\<close>. The hypotheses are what pydantic and \<^verbatim>\<open>json.loads\<close> raise.
\<close>

theorem write_refusals:
  assumes "native_reading_ok E" and "json_reading_ok E" and "validate_targeting E N kind v = Inl e"
  shows "(\<exists>path code. e = TargetingRulesError path code) \<or> e = PyOverflowError \<or> e = PyRecursionError"
  using validate_targeting_raises [OF assms] by (simp add: escapes_def is_refusal_def)

theorem write_refusals_witness:
  "\<exists>e. validate_targeting demo_env demo_reading FlagRules (far_rules (2 ^ 1024)) = Inl e \<and>
     ((\<exists>path code. e = TargetingRulesError path code) \<or> e = PyOverflowError \<or> e = PyRecursionError)"
proof -
  have "float_of_int (2 ^ 1024) = None" unfolding float_of_power by simp
  then have raised: "validate_targeting demo_env demo_reading FlagRules (far_rules (2 ^ 1024)) = Inl PyOverflowError"
    unfolding validate_flag_targeting_def [symmetric] by (rule far_rules_escape)
  from write_refusals [OF demo_reading_ok raised] raised show ?thesis by blast
qed

text \<open>
  C26: Segment rules that were accepted refer to no segment, so they match a context alike whatever the
  caller's memberships are, and they pass the limits of the audience preview for every sample of up to
  fifty contexts.
\<close>

theorem accepted_segment_self_contained:
  assumes "env_ok E" and "validate_segment_rules E v = Inr rs" and "0 \<le> n" and "n \<le> 50"
  shows "segment_conditions rs = [] \<and> preview_ruleset_violations v n = [] \<and>
    match_targeting_rule E rs (with_memberships ctx (Some ids)) =
      match_targeting_rule E rs (with_memberships ctx (Some ids'))"
  using segment_rules_self_contained(1) [OF assms(1,2)] segment_rules_self_contained(2) [OF assms(1,2)]
    segment_rules_preview [OF assms(2-4)] by blast

theorem accepted_segment_self_contained_witness:
  "preview_ruleset_violations demo_stored 50 = []"
  using accepted_segment_self_contained [OF demo_env_ok demo_segment_accepted, where n = 50] by simp

section \<open>The rules engine\<close>

text \<open>
  C23: The evaluation of a nested group computes the Boolean formula it stands for (conjunction,
  disjunction, negated conjunction; an empty group holds) whenever each of its conditions has an
  answer.
\<close>

theorem group_computes_formula:
  assumes "\<forall>c\<in>set (all_conditions g). \<exists>b. evaluate_condition E c ctx = Inr b"
  shows "evaluate_rule_group E g ctx = Inr (group_holds (\<lambda>c. evaluate_condition E c ctx = Inr True) g)"
  using assms by (intro evaluate_rule_group_refines) fastforce

theorem group_computes_formula_witness:
  "evaluate_rule_group demo_env demo_group demo_ctx =
     Inr (group_holds (\<lambda>c. evaluate_condition demo_env c demo_ctx = Inr True) demo_group)"
proof (rule group_computes_formula)
  show "\<forall>c\<in>set (all_conditions demo_group). \<exists>b. evaluate_condition demo_env c demo_ctx = Inr b"
    by (simp add: demo_group_def demo_condition_def demo_ctx_def evaluate_condition_def
        segment_condition_holds_def is_segment_operator_def apply_operator_def op_equals_def
        values_equal_def op_starts_with_def is_scalar_def str_def ex_bool_eq)
qed

text \<open>
  C24: A match is the first rule by priority: the rule found matches, no matching rule has a lower
  priority number, and among the matching rules of that number it is the first as stored. When no
  rule matches, the default rule is returned.
\<close>

theorem match_is_first_by_priority:
  assumes "match_targeting_rule E rs ctx = Inr m"
  shows "(\<exists>r before after. m = Some r \<and> rules rs = before @ r # after \<and> evaluate_rule E r ctx = Inr True \<and>
        (\<forall>q\<in>set before. evaluate_rule E q ctx = Inr True \<longrightarrow> priority r < priority q) \<and>
        (\<forall>q\<in>set after. evaluate_rule E q ctx = Inr True \<longrightarrow> priority r \<le> priority q)) \<or>
     (m = default_rule rs \<and> (\<forall>q\<in>set (rules rs). evaluate_rule E q ctx = Inr False))"
proof -
  let ?P = "\<lambda>r. evaluate_rule E r ctx = Inr True"
  from assms obtain found where found: "first_match E (sort_key priority (rules rs)) ctx = Inr found"
    and m: "m = (case found of Some r \<Rightarrow> Some r | None \<Rightarrow> default_rule rs)"
    unfolding match_targeting_rule_def ebind_eq_Inr by auto
  show ?thesis
  proof (cases found)
    case None
    with found have "\<forall>q\<in>set (rules rs). evaluate_rule E q ctx = Inr False"
      by (simp add: first_match_None_iff)
    with m None show ?thesis by simp
  next
    case (Some r)
    with found have f: "List.find ?P (sort_key priority (rules rs)) = Some r"
      using first_match_find by fastforce
    from find_sort_key_first [OF f] obtain before after where
      b: "rules rs = before @ r # after" "\<forall>q\<in>set before. ?P q \<longrightarrow> priority q \<noteq> priority r"
      by blast
    from find_sort_key_min [OF f] have "?P r" "\<forall>q\<in>set (rules rs). ?P q \<longrightarrow> priority r \<le> priority q"
      by auto
    with b have "(\<forall>q\<in>set before. ?P q \<longrightarrow> priority r < priority q)"
      "(\<forall>q\<in>set after. ?P q \<longrightarrow> priority r \<le> priority q)"
      by (auto simp: less_le)
    with b(1) \<open>?P r\<close> m Some show ?thesis by auto
  qed
qed

theorem match_is_first_by_priority_witness:
  "\<exists>r. match_targeting_rule demo_env
      \<lparr>rules = [demo_rule demo_group 10, demo_rule demo_group 20], default_rule = None\<rparr> demo_ctx = Inr (Some r) \<and>
      evaluate_rule demo_env r demo_ctx = Inr True"
proof -
  let ?rs = "\<lparr>rules = [demo_rule demo_group 10, demo_rule demo_group 20], default_rule = None\<rparr>"
  have t: "evaluate_rule demo_env (demo_rule demo_group p) demo_ctx = Inr True" for p
    by (simp add: evaluate_rule_def demo_rule_def demo_group_def demo_condition_def demo_ctx_def
        evaluate_condition_def segment_condition_holds_def is_segment_operator_def apply_operator_def
        op_equals_def values_equal_def op_starts_with_def is_scalar_def str_def combine_results_def)
  have "priority (demo_rule g p) = 0" for g p
    by (simp add: demo_rule_def)
  then have "match_targeting_rule demo_env ?rs demo_ctx = Inr (Some (demo_rule demo_group 10))"
    by (simp add: match_targeting_rule_def t)
  from match_is_first_by_priority [OF this] this show ?thesis by auto
qed

section \<open>Request context and segments\<close>

text \<open>
  C28: Membership cannot be forged: the answer of a segment condition, its exception included,
  does not depend on the request, whatever it sent under the membership key; without a resolved
  membership the condition raises for every request.
\<close>

theorem membership_not_forgeable:
  assumes "is_segment_operator (operator c)"
  shows "evaluate_condition E c (with_memberships (expand_context request) resolved) =
      (case (resolved, cvalue c) of
         (Some ids, PStr s) \<Rightarrow> Inr (if operator c = IN_SEGMENT then s \<in> set ids else s \<notin> set ids)
       | _ \<Rightarrow> Inl (SegmentMembershipUnavailable [segment_id_label (cvalue c)]))"
  using assms
  by (auto simp: evaluate_condition_def segment_condition_holds_def with_memberships_lookup
      split: option.split pyval.split)

theorem membership_not_forgeable_witness:
  "evaluate_condition demo_env (demo_condition IN_SEGMENT ''segment'' ''s1'')
     (with_memberships (expand_context (PDict [(SEGMENT_MEMBERSHIP_KEY, PFrozenset [str ''s1''])])) (Some [])) =
   Inr False"
  by (subst membership_not_forgeable) (simp_all add: demo_condition_def is_segment_operator_def)

section \<open>Feature flags\<close>

text \<open>
  C29: A flag whose rules name a segment that is undecided is off, with reason \<^verbatim>\<open>error\<close> and no
  error-log row, whatever its rollout and its other rules say.
\<close>

theorem undecided_segment_turns_off:
  assumes "flag_status flag = ACTIVE" and "truthy (stored_rules flag)" and "\<not> is_list (stored_rules flag)"
    and "normalise_targeting_rules E (stored_rules flag) = Inr (Some rs)" and "s \<in> set (segment_ids_in rs)"
    and "resolve_segment_memberships E validate db u (expand_items ctx) (segment_ids_in rs) = Inr ms"
    and "s \<in> set (undecided ms (segment_ids_in rs))"
  shows "evaluate_flag_detailed E validate db flag u ctx =
     \<lparr>enabled = False, reason = REASON_ERROR, answer_rule = None, logged_error = None\<rparr>"
  using match_undecided [where resolve = "resolve_segment_memberships E validate db u (expand_items ctx)",
      OF assms(2-4) assms(6,5,7)] assms(1)
  by (simp add: evaluate_flag_detailed_def evaluate_flag_with_def failed_answer_def)

definition demo_segment_rules :: targeting_rules where
  "demo_segment_rules = \<lparr>rules = [demo_rule (RuleGroup NOT [\<lparr>attribute = str ''segment'', operator = IN_SEGMENT,
        cvalue = PStr demo_segment, additional_value = PNone\<rparr>] []) 100], default_rule = None\<rparr>"

definition demo_segment_env :: adapter_env where
  "demo_segment_env = demo_env\<lparr>model_validate := (\<lambda>_. Inr demo_segment_rules)\<rparr>"

definition demo_native :: pyval where
  "demo_native = PDict [(str ''rules'', PList [])]"

theorem undecided_segment_turns_off_witness:
  "\<not> enabled (evaluate_flag_detailed demo_segment_env no_rules demo_db
      (demo_flag ''f'' ACTIVE demo_native 100) (str ''u'') [])"
proof -
  let ?f = "demo_flag ''f'' ACTIVE demo_native 100"
  let ?ms = "\<lparr>members = [], evaluated = [demo_segment], unavailable = [demo_segment]\<rparr>"
  have n: "normalise_targeting_rules demo_segment_env (stored_rules ?f) = Inr (Some demo_segment_rules)"
    by (simp add: normalise_targeting_rules_def demo_flag_def demo_native_def demo_segment_env_def has_key_def)
  have ids: "segment_ids_in demo_segment_rules = [demo_segment]"
    by (simp add: segment_ids_in_def segment_conditions_def rule_roots_def demo_rule_def
        is_segment_operator_def demo_segment_rules_def)
  have "resolve_segment_memberships demo_segment_env no_rules demo_db (str ''u'') (expand_items [])
      (segment_ids_in demo_segment_rules) = Inr ?ms"
    unfolding ids
    by (simp add: demo_segment_id resolve_segment_memberships_def wanted_ids_def malformed_ids_def demo_db_def
        found_rows_def memberships_from_def ids_with_def Let_def)
  from undecided_segment_turns_off [OF _ _ _ n _ this, of demo_segment] show ?thesis
    by (simp add: ids demo_flag_def demo_native_def undecided_def)
qed

text \<open>
  C30: A flag is served to a user exactly when it is active, its rules could be matched, and the
  percentage that decides (the matching rule's, else the flag's own) lets the user's bucket in.
\<close>

theorem flag_served_iff:
  "enabled (evaluate_flag_detailed E validate db flag u ctx) \<longleftrightarrow>
     flag_status flag = ACTIVE \<and>
     (\<exists>m. match_flag_rule E (resolve_segment_memberships E validate db u (expand_items ctx)) flag u ctx = Inr m \<and>
        in_rollout (case m of None \<Rightarrow> flag_rollout flag | Some (_, p) \<Rightarrow> p) u (flag_key flag) = Inr True)"
  unfolding evaluate_flag_detailed_def by (rule evaluate_flag_with_enabled)

text \<open>
  One request for every flag answers as one request per flag: while the database answers,
  each active flag has in \<^verbatim>\<open>get_user_flags\<close> the value \<^verbatim>\<open>evaluate_flag_detailed\<close> gives it, although
  segment membership was resolved once for all flags together.
\<close>

theorem user_flags_as_single_flags:
  assumes "env_ok E" and "segments_readable db" and "members_readable db"
    and "get_user_flags E validate db table u ctx = Inr answers"
    and "distinct (map flag_key table)" and "f \<in> set table" and "flag_status f = ACTIVE"
  shows "map_of answers (flag_key f) = Some (enabled (evaluate_flag_detailed E validate db f u ctx))"
  using get_user_flags_answers [OF assms] .

theorem user_flags_as_single_flags_witness:
  "map_of [(str ''my-flag'', True)] (str ''my-flag'') =
     Some (enabled (evaluate_flag_detailed demo_env no_rules demo_db (demo_flag ''my-flag'' ACTIVE PNone 100)
       (str ''u'') []))"
proof -
  let ?f = "demo_flag ''my-flag'' ACTIVE PNone 100"
  have "get_user_flags demo_env no_rules demo_db [?f] (str ''u'') [] = Inr [(str ''my-flag'', True)]"
    by (simp add: get_user_flags_def referenced_segments_def demo_flag_def evaluate_flag_with_def
        match_flag_rule_def evaluate_percentage_rollout_def rollout_answer_def)
  from user_flags_as_single_flags [OF demo_env_ok _ _ this, of ?f] show ?thesis
    by (simp add: demo_db_def demo_flag_def)
qed

text \<open>
  C31: An archived flag stays archived, and is off for every user, through every sequence of
  updates, activations, deactivations, toggles, bulk actions and safety rollbacks; only an
  unarchive takes it out, and makes it inactive.
\<close>

theorem archived_stays_off:
  assumes "flag_run f ops g" and "flag_status f = ARCHIVED" and "Unarchive \<notin> set ops"
  shows "flag_status g = ARCHIVED \<and> flag_status (attempt_op now Unarchive g) = INACTIVE \<and>
     \<not> enabled (evaluate_flag_detailed E validate db g u ctx)"
  using archived_run [OF assms] unarchive_inactive
  by (simp add: evaluate_flag_detailed_def evaluate_flag_with_enabled)

theorem archived_stays_off_witness:
  "\<not> enabled (evaluate_flag_detailed demo_env no_rules demo_db
      (attempt_op 1 Activate (demo_flag ''f'' ARCHIVED PNone 100)) (str ''u'') [])"
proof -
  have "flag_run (demo_flag ''f'' ARCHIVED PNone 100) ([] @ [Activate])
      (attempt_op 1 Activate (demo_flag ''f'' ARCHIVED PNone 100))"
    by (intro flag_run_step flag_run_start)
  moreover have "flag_status (demo_flag ''f'' ARCHIVED PNone 100) = ARCHIVED"
    by (simp add: demo_flag_def)
  moreover have "Unarchive \<notin> set ([] @ [Activate])" by simp
  ultimately show ?thesis using archived_stays_off by blast
qed

section \<open>Safety monitoring\<close>

text \<open>
  C16: After a tick of the safety monitor a flag is rolled back exactly when its contract says so: it is
  active, monitoring is on for it and automatic rollbacks are on, every metric could be read, a
  measured value breaches its critical threshold, and the rollback would change the flag. Every other
  flag's row is as it was; what happens to one flag does not depend on the others.
\<close>

theorem monitor_rolls_back_iff:
  assumes "distinct (flag_ids db)" and "f \<in> set (rollout_flags (sf_rollout db))"
  shows "safety_flag (snd (check_feature_flags_safety read clk now ids db)) (flag_id f) =
    Some (if must_roll_back read (clk (flag_id f)) f db
      then rolled_back (now (flag_id f)) (rollback_target read (flag_id f) db) f else f)"
  using tick_row [OF assms] by (simp add: rollback_due_iff)

theorem monitor_rolls_back_iff_witness:
  "safety_flag (snd (demo_tick demo_safety)) (str ''my-flag'') =
     Some (demo_watched\<lparr>flag_status := INACTIVE, flag_rollout := 0, flag_updated_at := 1\<rparr>)"
  using monitor_rolls_back_iff [OF demo_safety_distinct, of demo_reader "\<lambda>_ _. 0" "\<lambda>_. 1" "\<lambda>_. str ''record''"]
  by (simp add: demo_tick_def demo_must_roll_back demo_config rolled_back_def)



text \<open>
  C15: Error reports sent with a key that is not a server's never cause a rollback, nor prevent one: a
  tick of the monitor after them decides, writes and records the same as without them, whatever their
  bodies say.
\<close>

theorem client_reports_never_roll_back:
  assumes "\<not> presented_key_is_server_key hash t auth header"
    and "logs = snd (report_client_error E isoformat hash t auth header flag_key_id experiment_key_id report (sf_logs db)) \<or>
         logs = snd (report_client_errors_batch E isoformat hash t auth header flag_key_id experiment_key_id reports (sf_logs db))"
  shows "check_feature_flags_safety read clk now ids (db\<lparr>sf_logs := logs\<rparr>) =
    (fst (check_feature_flags_safety read clk now ids db),
     (snd (check_feature_flags_safety read clk now ids db))\<lparr>sf_logs := logs\<rparr>)"
proof -
  obtain rows where "logs = sf_logs db @ rows" "\<forall>e\<in>set rows. \<not> counted_error_filter e"
    using client_report_rows(1) [OF assms(1), of E isoformat flag_key_id experiment_key_id report "sf_logs db"]
      client_report_rows(2) [OF assms(1), of E isoformat flag_key_id experiment_key_id reports "sf_logs db"] assms(2)
    by auto
  then have "same_counted logs db" by (simp add: same_counted_def filter_False)
  from relog_tick [OF this] show ?thesis by (simp add: apsnd_def map_prod_def split: prod.split)
qed

theorem client_reports_never_roll_back_witness:
  "fst (demo_tick (demo_safety\<lparr>sf_logs := snd (demo_crashes (sf_logs demo_safety))\<rparr>)) = fst (demo_tick demo_safety)"
proof -
  have "snd (demo_crashes (sf_logs demo_safety)) = snd (report_client_errors_batch ascii_env (\<lambda>_. []) (\<lambda>h. h) 0
      demo_auth (Some (str ''k'')) (\<lambda>k. Some k) (\<lambda>_. None) [demo_crash, demo_crash] (sf_logs demo_safety))"
    by (simp only: demo_crashes_def)
  from client_reports_never_roll_back [OF demo_client_key disjI2 [OF this], where read = demo_reader] show ?thesis
    by (simp add: demo_tick_def)
qed

text \<open>
  C17: A rollback never raises a percentage and touches no flag that is off or archived, whatever it was
  decided on: it reads the flag again under its lock, and then either lowers it, pauses its schedules
  and writes one record, or writes nothing.
\<close>

theorem rollback_only_lowers:
  assumes "rollback_request now new_id fid percentage why trigger user db = (Inr r, db')"
    and "safety_flag db fid = Some f" and "0 \<le> flag_rollout f" and "valid_rollback_percentage percentage"
  shows "if rr_success r
    then flag_status f = ACTIVE \<and> no_active fid (sf_rollout db') \<and>
      length (records_of fid db') = Suc (length (records_of fid db)) \<and>
      (\<exists>f'. safety_flag db' fid = Some f' \<and> flag_rollout f' \<le> flag_rollout f \<and>
         flag_status f' = (if flag_rollout f' = 0 then INACTIVE else ACTIVE))
    else db' = db"
proof -
  let ?target = "case percentage of None \<Rightarrow> 0 | Some p \<Rightarrow> p"
  have "0 \<le> ?target" using assms(4) by (simp add: valid_rollback_percentage_def split: option.splits)
  then have "rollback_change f ?target \<noteq> None \<Longrightarrow> flag_status f = ACTIVE \<and> ?target \<le> flag_rollout f"
    using assms(3) by (auto simp: rollback_change_def split: if_splits)
  then show ?thesis
    using rollback_request_effect [OF assms(1,2)] by (cases "rr_success r") auto
qed

theorem rollback_only_lowers_witness:
  "\<exists>r db'. rollback_request 1 (str ''record'') (str ''my-flag'') (Some 20) [] TriggerManual None demo_safety =
       (Inr r, db') \<and> rr_success r \<and> flag_rollout (the (safety_flag db' (str ''my-flag''))) \<le> 50"
proof -
  obtain r db' where run: "rollback_request 1 (str ''record'') (str ''my-flag'') (Some 20) [] TriggerManual None demo_safety =
      (Inr r, db')" "rr_success r"
    by (simp add: rollback_request_def execute_rollback_def demo_safety_row rollback_change_def rollback_feature_flag_def)
  from rollback_only_lowers [OF run(1) demo_safety_row] run show ?thesis
    by (auto simp: valid_rollback_percentage_def)
qed

section \<open>Assignment to experiments\<close>

text \<open>
  C19: Assignment is sticky: once a request was answered with an assigned variant, every later
  request of that user for that experiment that returns gets the same answer, whatever context or
  override it sends, as long as \<^verbatim>\<open>reassign_user\<close> does not move that user in that experiment and its
  assignments are not deleted (both change the row, by design). In between anything else may happen:
  requests that read any earlier state, changes of experiments, rules, groups and holdouts,
  reassignments of others, deletions in other experiments.
\<close>

theorem assignment_sticky:
  assumes "assign_user E validate seen u eid override ctx db = Inr (ans, db1)"
    and "answer_assigned ans" and "row_kept u eid seen db" and "reach (app_step u eid) db1 db2" and "one_row_each db1"
    and "assign_user E' validate' db2 u eid override' ctx' db3 = Inr (ans', db4)"
  shows "ans' = ans"
  using assigned_row_stays [OF assms] .

theorem assignment_sticky_witness:
  "\<exists>ans db. assign_user demo_env no_rules demo_app_assigned (str ''user-123'') (str ''e1'')
     (Some (str ''control'')) demo_request demo_app_assigned = Inr (ans, db) \<and>
   answer_variant ans = str ''treatment''"
proof -
  obtain ans db where later: "assign_user demo_env no_rules demo_app_assigned (str ''user-123'') (str ''e1'')
     (Some (str ''control'')) demo_request demo_app_assigned = Inr (ans, db)"
    using demo_assigned_again by blast
  have "one_row_each demo_app_assigned"
    by (simp add: one_row_each_def demo_app_assigned_def)
  from assignment_sticky [OF demo_assigned _ _ reach_start this later] have "answer_variant ans = str ''treatment''"
    by (simp add: sticky_answer_def demo_row_def row_kept_def)
  with later show ?thesis by blast
qed

text \<open>
  C20: Mutual exclusion: while a group stays active and requests do not overlap, no user comes to hold
  assignments in two of its experiments that are not over, provided that no experiment that already has
  users is brought into it and that \<^verbatim>\<open>reassign_user\<close> and \<^verbatim>\<open>assign_user_with_targeting\<close>, which do not look at
  groups, put nobody new into one of its experiments. \<^verbatim>\<open>assign_user\<close> and every deletion are unrestricted.
\<close>

theorem exclusive_group:
  assumes "reach (group_step gid) db db'" and "exclusive gid db"
    and "holds_row db' u eid" and "live_in (experiments db') gid eid"
    and "holds_row db' u eid'" and "live_in (experiments db') gid eid'"
  shows "eid = eid'"
  using exclusion.reach_keeps [OF assms(1,2)] assms(3-6) unfolding exclusive_def by blast

theorem exclusive_group_witness: "\<not> holds_row demo_pair_assigned (str ''user-123'') (str ''e1'')"
proof
  have reached: "reach (group_step (str ''my-flag'')) demo_pair demo_pair_assigned"
    by (rule reach_step) (rule demo_pair_step)
  assume "holds_row demo_pair_assigned (str ''user-123'') (str ''e1'')"
  with demo_pair_rows have "str ''e1'' = str ''e2''"
    by (intro exclusive_group [OF reached demo_pair_exclusive, of "str ''user-123''"])
  then show False by (simp add: str_def)
qed

text \<open>
  C22: The evaluators of experiments and flags agree: on rules without the evaluation service's two own
  operators, its evaluator gives the matched rule, or the exception, the rules engine gives.
\<close>

theorem experiment_targeting_is_engine:
  assumes "\<forall>r\<in>set (rules rs). \<forall>c\<in>set (all_conditions (rule r)). shared_operator (operator c)"
  shows "evaluate_targeting_rules_enhanced E rs ctx = evaluate_targeting_rules E rs ctx"
  using targeting_enhanced_eq [OF assms] .

theorem experiment_targeting_is_engine_witness:
  "evaluate_targeting_rules_enhanced demo_env \<lparr>rules = [demo_rule demo_group 10], default_rule = None\<rparr> demo_ctx =
   evaluate_targeting_rules demo_env \<lparr>rules = [demo_rule demo_group 10], default_rule = None\<rparr> demo_ctx"
  by (rule experiment_targeting_is_engine)
    (simp add: demo_rule_def demo_group_def demo_condition_def shared_operator_def)

section \<open>The global holdout\<close>

text \<open>
  Whatever rows concurrent requests read, however their writes interleave: at most one
  holdout is active, ids and names are unique, and every percentage is from 1 to 20.
\<close>

theorem one_active_holdout:
  assumes "reach racing_step t t'" and "constraints_hold t"
  shows "n_active t' \<le> 1 \<and> distinct (map ho_id t') \<and> distinct (map ho_name t') \<and>
     (\<forall>h\<in>set t'. 1 \<le> ho_percentage h \<and> ho_percentage h \<le> 20)"
  using racing.reach_keeps [OF assms]
  by (simp add: constraints_hold_def check_table_Inr list_all_iff)

theorem one_active_holdout_witness: "n_active demo_switched \<le> 1"
proof -
  have "reach racing_step demo_table demo_switched"
    by (rule reach_step, rule holdout_step_races, rule demo_switch)
  from one_active_holdout [OF this] show ?thesis
    using demo_table_ok [of 5] by (simp add: table_ok_def demo_table_def)
qed

text \<open>
  C21: The life of a holdout under requests that do not overlap: it keeps its salt; once it has
  been active its percentage never changes and its first activation time stands; once deactivated
  it has ended, is never active again and keeps that time.
\<close>

theorem holdout_life:
  assumes "reach holdout_step t t'" and "table_ok t"
    and "h \<in> set t" and "h' \<in> set t'" and "ho_id h' = ho_id h"
  shows "ho_salt h' = ho_salt h \<and> (has_been_active h \<longrightarrow> ho_percentage h' = ho_percentage h) \<and>
     (\<forall>n. ho_activated_at h = Some n \<longrightarrow> ho_activated_at h' = Some n) \<and>
     (\<forall>n. ho_deactivated_at h = Some n \<longrightarrow> \<not> ho_active h' \<and> ho_deactivated_at h' = Some n)"
  using holdout_row_later_same [OF assms] by (auto simp: kept_def)

theorem holdout_life_witness: "ho_percentage (hd demo_switched) = 5 \<and> ho_activated_at (hd demo_switched) = Some 1"
proof -
  have "reach holdout_step demo_table demo_switched" by (rule reach_step, rule demo_switch)
  moreover have "table_ok demo_table" using demo_table_ok [of 5] by (simp add: demo_table_def)
  ultimately have "(has_been_active (hd demo_table) \<longrightarrow> ho_percentage (hd demo_switched) = ho_percentage (hd demo_table)) \<and>
     (\<forall>n. ho_activated_at (hd demo_table) = Some n \<longrightarrow> ho_activated_at (hd demo_switched) = Some n)"
    using holdout_life [of demo_table demo_switched "hd demo_table" "hd demo_switched"]
    by (simp add: demo_table_def demo_switched_def)
  then show ?thesis by (simp add: demo_table_def demo_holdout_def has_been_active_def)
qed

text \<open>
  While a holdout stays the active one, no request changes who is in it: every user's
  membership and bucket are the same at any later time.
\<close>

theorem holdout_membership_fixed:
  assumes "reach holdout_step t t'" and "table_ok t"
    and "get_active_holdout t = Some h" and "get_active_holdout t' = Some h'" and "ho_id h' = ho_id h"
  shows "is_user_in_holdout u (Some h') = is_user_in_holdout u (Some h)"
  using same_membership [OF assms] .

theorem holdout_membership_fixed_witness:
  "is_user_in_holdout (str ''user-0'') (Some (hd demo_resized)) =
   is_user_in_holdout (str ''user-0'') (Some (hd demo_table))"
proof -
  have r: "reach holdout_step demo_table demo_resized" by (rule reach_step, rule demo_resize)
  have ok: "table_ok demo_table" using demo_table_ok [of 5] by (simp add: demo_table_def)
  show ?thesis
    by (rule holdout_membership_fixed [OF r ok]) (simp_all add: demo_table_def demo_resized_def demo_active)
qed

section \<open>Rollout schedules\<close>

text \<open>
  C32: A rollout schedule only moves forward, as long as it is not itself deleted (which takes its stages
  with it): under every sequence of other requests, one after another, and ticks, a completed or cancelled schedule keeps that status, an activated one is never a
  draft again, a stage in progress is never deleted and is later in progress or completed, and a
  completed stage stays completed with its completion date.
\<close>

theorem rollout_only_forward:
  assumes "reach (rollout_step sid) db db'" and "ids_ok db"
    and "r \<in> set (schedules db)" and "sched_id r = sid"
  shows "(\<exists>r'\<in>set (schedules db'). sched_id r' = sid \<and>
       (terminal (sched_status r) \<longrightarrow> sched_status r' = sched_status r) \<and>
       (sched_status r \<noteq> SchedDraft \<longrightarrow> sched_status r' \<noteq> SchedDraft)) \<and>
     (\<forall>s\<in>set (stages db). stage_schedule s = sid \<and> stage_status s \<noteq> StagePending \<longrightarrow>
       (\<exists>s'\<in>set (stages db'). stage_kept s s'))"
  using schedules_live.reach_extends [OF assms(1,2)] assms(3,4)
  unfolding schedule_life_def sched_kept_def by metis

theorem rollout_only_forward_witness:
  "\<exists>r\<in>set [(demo_schedule SchedActive)\<lparr>sched_status := SchedCancelled, sched_updated := 5\<rparr>].
     sched_status r \<noteq> SchedDraft"
proof -
  have "reach (rollout_step (str ''r'')) (demo_rollout SchedActive demo_timed) ((demo_rollout SchedActive demo_timed)
       \<lparr>schedules := [(demo_schedule SchedActive)\<lparr>sched_status := SchedCancelled, sched_updated := 5\<rparr>]\<rparr>)"
    by (rule reach_step, rule rollout_request, rule step_cancel, rule demo_cancelled)
  from rollout_only_forward [OF this demo_rollout_ids, of "demo_schedule SchedActive"] show ?thesis
    by (simp add: demo_schedule_def)
qed

text \<open>
  The only percentage a request or a tick gives a flag is the target of a stage that was
  pending, of a schedule of that flag that was active.
\<close>

theorem percentage_from_pending_stage:
  assumes "schedule_step sid db db'" and "get_rollout_flag db fid = Some f"
  shows "\<exists>f'. get_rollout_flag db' fid = Some f' \<and>
    (flag_rollout f' = flag_rollout f \<or> allowed_percent db fid (flag_rollout f'))"
  using flags_from_get [OF schedule_step_flags [OF assms(1)] assms(2)] .

theorem percentage_from_pending_stage_witness:
  "\<exists>f'. get_rollout_flag (snd (process_rollout_schedules (\<lambda>_. Inr 0) 1 (demo_rollout SchedPaused demo_timed)))
      (str ''f'') = Some f' \<and> flag_rollout f' = 0"
proof -
  have "\<not> allowed_percent (demo_rollout SchedPaused demo_timed) fid p" for fid p
    by (simp add: allowed_percent_def demo_schedule_def)
  then show ?thesis
    using percentage_from_pending_stage [OF step_tick [of "str ''x''" "demo_rollout SchedPaused demo_timed"]
        demo_flag_get]
    by (simp add: demo_flag_def)
qed

text \<open>
  C34: The scheduler runs one stage at a time: if a schedule has at most one stage in progress
  before a tick, it has at most one after it.
\<close>

theorem tick_one_stage:
  assumes "ids_ok db" and "single (in_progress sid db)"
  shows "single (in_progress sid (snd (process_rollout_schedules fh now db)))"
  using tick_single [OF assms] .

theorem tick_one_stage_witness:
  "single (in_progress (str ''r'')
     (snd (process_rollout_schedules (\<lambda>_. Inr 0) 1 (demo_rollout SchedActive (demo_manual 50 90)))))"
  by (rule tick_one_stage)
    (auto simp: ids_ok_def single_def in_progress_def demo_manual_def demo_stage_def str_def)

text \<open>
  C33: A schedule of time-based stages completes, when it is active without an end date, its flag exists,
  no stage has failed, at most one is in progress, and the start date of every stage that has one has
  passed: ticks at least \<open>D\<close> apart, where no stage and no minimum duration is longer than \<open>D\<close>, leave every
  stage and the schedule completed after one tick more than it has pending stages, whatever other
  schedules do and however they fail.
\<close>

theorem schedule_completes:
  assumes "ticking fh D sid t db" and "0 \<le> D" and "n_pending sid db \<noteq> 0 \<or> in_progress sid db \<noteq> {}"
    and "spaced D t instants" and "length instants = Suc (n_pending sid db)"
  shows "finished sid (run_ticks fh instants db)"
  using ticks_finish [OF assms] .

theorem schedule_completes_witness:
  "finished (str ''r'') (run_ticks (\<lambda>_. Inr 0) [24 * HOUR, 48 * HOUR, 72 * HOUR]
     (demo_rollout SchedActive demo_timed))"
  by (rule schedule_completes [OF demo_ticking])
    (simp_all add: demo_two_pending HOUR_def DATETIME_MAX_def)

section \<open>The life of an experiment\<close>

text \<open>
  C35: Whatever requests, clones, deletions and ticks, one after another, do to an empty database, the
  constraints of the
  table hold, a running or completed experiment has started (and before its end), a scheduled
  resume belongs to a paused experiment, and the arms include a control and share out 100 percent.
\<close>

theorem experiment_rows_well_formed:
  assumes "reach (lifecycle_step E) db db'" and "repr_ok E" and "experiment_rows db = []"
    and "e \<in> set (experiment_rows db')"
  shows "table_constraints (experiment_rows db') \<and> dates_ok e \<and>
     (is_running (experiment_status e) \<or> experiment_status e = ExpCompleted \<longrightarrow>
        (\<exists>s. start_date e = Some s \<and> s \<le> lifecycle_now db')) \<and>
     (resume_at e \<noteq> None \<longrightarrow> experiment_status e = ExpPaused) \<and>
     list_ex is_control (variants e) \<and> sum_list (map traffic_allocation (variants e)) = 100"
proof -
  have inv: "lifecycle_inv E db'" using assms(1-3) by (rule reachable_inv)
  show ?thesis
    using lifecycle_rows(1,2) [OF inv assms(4)] inv
    by (auto simp: row_inv_def experiment_row_ok_def lifecycle_inv_def variants_refusal_def split: if_splits)
qed

theorem experiment_rows_well_formed_witness:
  "list_ex is_control (variants (demo_started ExpActive None)) \<and>
   sum_list (map traffic_allocation (variants (demo_started ExpActive None))) = 100"
  using experiment_rows_well_formed [OF demo_run_active demo_repr_ok, of "demo_started ExpActive None"] by simp

text \<open>
  C36: In a database that began empty, a running experiment whose rule admits part of the users it
  matches has an id stored with its rules, and every rule the evaluation builds from them has that id: who
  is admitted follows from what is stored, never from the id the converter puts in for missing ones. A
  caller may have chosen the stored id, the text of that default included; rows older than the stored ids
  are outside.
\<close>

theorem running_rollout_has_stored_id:
  assumes "reach (lifecycle_step E) db db'" and "repr_ok E" and "experiment_rows db = []"
    and "e \<in> set (experiment_rows db')" and "is_running (experiment_status e)"
    and "buckets_on_rule_id E (experiment_rules e) = Inr True"
  shows "\<exists>i. stored_rule_id E (experiment_rules e) = Some i \<and>
     (\<forall>rs. normalise_targeting_rules E (experiment_rules e) = Inr (Some rs) \<longrightarrow> (\<forall>r\<in>set (rules rs). rule_id r = i))"
proof -
  have "lifecycle_inv E db'" using assms(1-3) by (rule reachable_inv)
  then have "row_inv E (lifecycle_now db') e" using assms(4) by (rule lifecycle_rows)
  then show ?thesis
    using assms(5,6) normalised_rule_id by (fastforce simp: row_inv_def)
qed

theorem running_rollout_has_stored_id_witness:
  "stored_rule_id demo_env demo_started_rules = Some (str ''e1'')"
proof -
  have "experiment_rules (demo_started ExpActive None) = demo_started_rules"
    "experiment_status (demo_started ExpActive None) = ExpActive"
    by (simp_all add: demo_started_def)
  moreover from this have "buckets_on_rule_id demo_env (experiment_rules (demo_started ExpActive None)) = Inr True"
    by (simp add: demo_started_rules_def demo_buckets)
  ultimately have "\<exists>i. stored_rule_id demo_env demo_started_rules = Some i"
    using running_rollout_has_stored_id [OF demo_run_active demo_repr_ok, of "demo_started ExpActive None"]
    by (auto simp: is_running_def)
  then show ?thesis by (simp add: demo_stamped)
qed

text \<open>
  C37: Once an experiment left draft it stays in the table, never returns to draft, and keeps its key, its
  arms and its metrics; a completed one is at most archived, an archived one stays so, and both keep
  their dates and targeting rules. No request, of no role, and no tick does otherwise,
  one after another.
\<close>

theorem started_experiment_fixed:
  assumes "reach (lifecycle_step E) db db'" and "repr_ok E" and "lifecycle_inv E db"
    and "e \<in> set (experiment_rows db)" and "experiment_status e \<noteq> ExpDraft"
  shows "\<exists>e'\<in>set (experiment_rows db'). experiment_id e' = experiment_id e \<and> experiment_key e' = experiment_key e \<and>
     variants e' = variants e \<and> metric_definitions e' = metric_definitions e \<and> experiment_status e' \<noteq> ExpDraft \<and>
     (experiment_status e = ExpArchived \<longrightarrow> experiment_status e' = ExpArchived) \<and>
     (experiment_status e = ExpCompleted \<longrightarrow> experiment_status e' \<in> {ExpCompleted, ExpArchived}) \<and>
     (experiment_status e \<in> {ExpCompleted, ExpArchived} \<longrightarrow> experiment_rules e' = experiment_rules e \<and>
        start_date e' = start_date e \<and> end_date e' = end_date e)"
  using lifecycle_reach_evolves [OF assms(1-3)] assms(4,5)
  by (fastforce simp: experiments_evolve_def evolves_def over_def)

theorem started_experiment_fixed_witness:
  "variants (demo_started ExpCompleted (Some 9)) = variants (demo_started ExpActive None)"
proof -
  have "experiment_status (demo_started ExpActive None) \<noteq> ExpDraft" by (simp add: demo_started_def)
  then show ?thesis
    using started_experiment_fixed [OF demo_run_completed demo_repr_ok reachable_inv [OF demo_run_active demo_repr_ok],
        of "demo_started ExpActive None"] by simp
qed

text \<open>
  C38: In every state that requests and ticks reach one after another the database accepts what a start, pause, completion, archiving or schedule
  request writes: such a request is refused by the checks of the code, never by a constraint.
\<close>

theorem lifecycle_never_refused:
  assumes "reach (lifecycle_step E) db db'" and "repr_ok E" and "experiment_rows db = []"
    and "e \<in> set (experiment_rows db')" and "handle_request E (lifecycle_now db') req e = Inr e'"
    and "req \<in> {RequestStart, RequestPause, RequestComplete, RequestArchive, RequestSchedule c}"
  shows "change_experiment (experiment_id e) (handle_request E (lifecycle_now db') req) (experiment_rows db') =
    Inr (put_experiment e' (experiment_rows db'))"
proof (rule request_accepted [OF reachable_inv [OF assms(1-3)] assms(2,4,5)])
  show "\<not> is_update req" using assms(6) by (auto simp: is_update_def)
qed

theorem lifecycle_never_refused_witness:
  "change_experiment (str ''e1'') (handle_request demo_env 5 RequestPause) [demo_started ExpActive None] =
    Inr [demo_started ExpPaused None]"
  using lifecycle_never_refused [OF demo_run_active demo_repr_ok, of "demo_started ExpActive None" RequestPause
      "demo_started ExpPaused None"]
  by (simp add: demo_pause put_experiment_def)

text \<open>
  C39: A tick ends what has to end: after it no experiment is active past its end date, and a draft that
  was due to start and to end, and whose rules do not raise, is completed in that one tick.
\<close>

theorem ended_experiments_stop:
  assumes "repr_ok E" and "table_constraints t"
    and "process_scheduled_experiments E now t = (t', activated, completed, failed)"
  shows "(\<forall>e'\<in>set t'. \<not> (experiment_status e' = ExpActive \<and> due now (end_date e'))) \<and>
     (\<forall>e\<in>set t. due_to_activate now e \<longrightarrow> due now (end_date e) \<longrightarrow> \<not> raises_on (activate_row E) e \<longrightarrow>
        (\<exists>e'\<in>set t'. experiment_id e' = experiment_id e \<and> experiment_status e' = ExpCompleted))"
proof -
  have t': "t' = map (\<lambda>e. complete_if_due now (activate_if_due E now e)) t"
    using tick_rowwise(1) [OF assms] by (simp add: comp_def)
  show ?thesis
    unfolding t' using complete_if_due_stops
    by (auto simp: due_to_complete_def intro!: bexI draft_over_in_one_tick)
qed

theorem ended_experiments_stop_witness:
  "\<exists>e'\<in>set (fst (process_scheduled_experiments demo_env 7 [demo_draft demo_arms (Some 5) (Some 6)])).
     experiment_status e' = ExpCompleted"
proof -
  obtain t' a c f where run: "process_scheduled_experiments demo_env 7 [demo_draft demo_arms (Some 5) (Some 6)] = (t', a, c, f)"
    by (metis prod_cases4)
  have "table_constraints [demo_draft demo_arms (Some 5) (Some 6)]"
    by (rule demo_draft_table) (simp_all add: demo_arms_def)
  moreover have "due 7 (end_date (demo_draft demo_arms (Some 5) (Some 6)))"
    by (simp add: due_def demo_draft_def)
  ultimately show ?thesis
    using ended_experiments_stop [OF demo_repr_ok _ run] demo_due [of demo_arms "Some 6"] demo_not_raising run by auto
qed

text \<open>
  C40: The scheduler does not check what a start requires: a draft the start route refuses, for one arm or
  for no metric, becomes active at its scheduled start with the arms and metrics it has.
\<close>

theorem scheduled_start_unchecked:
  assumes "repr_ok E" and "table_constraints t" and "e \<in> set t" and "start_refusal e = Some err"
    and "due_to_activate now e" and "\<not> due now (end_date e)" and "\<not> raises_on (activate_row E) e"
    and "process_scheduled_experiments E now t = (t', activated, completed, failed)"
  shows "start_experiment E now e = Inl err \<and>
     (\<exists>e'\<in>set t'. experiment_id e' = experiment_id e \<and> experiment_status e' = ExpActive \<and>
        variants e' = variants e \<and> metric_definitions e' = metric_definitions e)"
proof -
  have t': "t' = map (\<lambda>e. complete_if_due now (activate_if_due E now e)) t"
    using tick_rowwise(1) [OF assms(1,2,8)] by (simp add: comp_def)
  have "complete_if_due now (activate_if_due E now e) \<in> set t'" unfolding t' using assms(3) by simp
  moreover have "start_experiment E now e = Inl err" using assms(4) by (simp add: start_experiment_def)
  ultimately show ?thesis
    using scheduled_start [OF assms(5,7,6)] tick_row_id by blast
qed

theorem scheduled_start_unchecked_witness:
  "start_experiment demo_env 7 (demo_draft demo_one_arm (Some 5) None) = Inl TooFewVariants"
proof -
  obtain t' a c f where run: "process_scheduled_experiments demo_env 7 [demo_draft demo_one_arm (Some 5) None] = (t', a, c, f)"
    by (metis prod_cases4)
  have "\<not> due 7 (end_date (demo_draft demo_one_arm (Some 5) None))" by (simp add: due_def demo_draft_def)
  then show ?thesis
    using scheduled_start_unchecked [OF demo_repr_ok demo_one_arm_refused(2) _ demo_one_arm_refused(1) demo_due _ demo_not_raising run]
    by simp
qed

text \<open>
  Raising the percentage of a paused experiment removes no user: whoever its rules admitted is
  admitted by the rules the update stores, although the dashboard sends them without the rule id.
\<close>

theorem paused_raise_keeps_users:
  assumes "lifecycle_inv E db" and "repr_ok E" and "e \<in> set (experiment_rows db)" and "experiment_status e = ExpPaused"
    and "experiment_rules e = PDict d" and "rollout_percentage_of E (dget d ''rollout_percentage'') = Inr p"
    and "buckets_on_rule_id E (experiment_rules e) = Inr True"
    and "update_experiment E superuser u e = Inr e'" and "sent_rules u = Some (with_percentage v (experiment_rules e))"
    and "rollout_percentage_of E v = Inr q" and "p \<le> q"
    and "experiment_targeting E validate segs (experiment_rules e) user_id ctx"
  shows "experiment_targeting E validate segs (experiment_rules e') user_id ctx"
  using assms by (rule reachable_raise)

theorem paused_raise_keeps_users_witness:
  "\<exists>e'. update_experiment demo_env False demo_raise demo_paused = Inr e' \<and>
     experiment_targeting demo_env no_rules demo_db (experiment_rules e') (str ''user-123'') demo_user_ctx"
proof -
  obtain e' where e': "update_experiment demo_env False demo_raise demo_paused = Inr e'" using demo_raised by blast
  have fields: "experiment_status demo_paused = ExpPaused" "experiment_rules demo_paused = PDict (demo_keyed_fields 80)"
    "sent_rules demo_raise = Some (with_percentage (PInt 90) (experiment_rules demo_paused))"
    by (simp_all add: demo_paused_def demo_started_def demo_raise_def demo_keyed_eq)
  have "experiment_targeting demo_env no_rules demo_db (experiment_rules e') (str ''user-123'') demo_user_ctx"
    by (rule paused_raise_keeps_users [OF demo_paused_inv demo_repr_ok _ fields(1,2) _ _ e' fields(3), of 80 90])
      (simp_all add: demo_keyed_get(2) int_percentage demo_paused_buckets demo_paused_admits)
  with e' show ?thesis by blast
qed

end
